(* ===== verification/Prelude.thy ===== *)
theory Prelude
  imports Main "HOL-Library.Word" "HOL-Library.Signed_Division" "HOL-Library.Monad_Syntax"
begin

unbundle bit_operations_syntax

text \<open>
  The shared vocabulary of the development: bytes and buffers, the C integer
  conversions the sources rely on, checked memory accesses, and the two views
  of a buffer the component proofs use, \<open>put\<close> (writing a run of bytes
  and advancing the pointer) and \<open>has\<close> (a run of bytes is in the buffer
  at an offset).

  A computation of the C program is a value of an option type. \<open>None\<close> is
  a computation that has undefined behaviour: an access outside the addressed
  object, or a signed overflow. So a theorem that an operation returns
  \<open>Some\<close> is at once a memory-safety theorem.
\<close>

named_theorems wire_simps "fusion of consecutive buffer writes into one run of bytes"
named_theorems has_simps "what a buffer holds at an offset"
named_theorems bits_simps "definitions of the bit-field accessors"

type_synonym byte = "8 word"
type_synonym buffer = "byte list"

section \<open>C integers\<close>

text \<open>An \<open>int\<close> is a HOL integer; an arithmetic result outside the 32-bit
  range is undefined behaviour.\<close>

definition INT_MAX :: int where
  "INT_MAX = 2147483647"

definition INT_MIN :: int where
  "INT_MIN = - 2147483648"

definition cint :: "int \<Rightarrow> int option" where
  "cint x = (if INT_MIN \<le> x \<and> x \<le> INT_MAX then Some x else None)"

text \<open>Conversion of a \<open>size_t\<close> (here: a length) to \<open>int\<close>; it wraps.\<close>

definition int_of_size :: "nat \<Rightarrow> int" where
  "int_of_size n = sint (word_of_nat n :: 32 word)"

text \<open>Conversion of an \<open>int\<close> to \<open>unsigned char\<close> (or to \<open>char\<close>, as a bit pattern).\<close>

definition uchar :: "int \<Rightarrow> byte" where
  "uchar x = word_of_int x"

text \<open>Conversion of a \<open>char\<close> to \<open>int\<close>. Whether \<open>char\<close> is signed is a
  choice of the platform and a parameter of the model.\<close>

definition int_of_char :: "bool \<Rightarrow> byte \<Rightarrow> int" where
  "int_of_char char_signed b = (if char_signed then sint b else uint b)"

lemma cint_Some: "cint x = Some y \<longleftrightarrow> y = x \<and> INT_MIN \<le> x \<and> x \<le> INT_MAX"
  by (auto simp: cint_def)

lemma cint_in_range: "INT_MIN \<le> x \<Longrightarrow> x \<le> INT_MAX \<Longrightarrow> cint x = Some x"
  by (simp add: cint_def)

lemma int_of_size_small: "n < 2147483648 \<Longrightarrow> int_of_size n = int n"
  by (simp add: int_of_size_def sint_uint uint_nat unat_of_nat signed_take_bit_int_eq_self)

lemma uint_uchar: "uint (uchar x) = x mod 256"
  by (simp add: uchar_def uint_word_of_int)

lemma uchar_uint [simp]: "uchar (uint b) = b"
  by (simp add: uchar_def)

text \<open>The C division and remainder truncate towards zero; on non-negative
  operands they are \<open>div\<close> and \<open>mod\<close>.\<close>

lemma sdiv_nonneg: "0 \<le> a \<Longrightarrow> 0 \<le> b \<Longrightarrow> a sdiv b = a div b" for a b :: int
  by (auto simp: signed_divide_int_def sgn_if)

lemma smod_nonneg: "0 \<le> a \<Longrightarrow> 0 \<le> b \<Longrightarrow> a smod b = a mod b" for a b :: int
  by (auto simp: signed_modulo_int_def sgn_if)

lemma sdiv_posD:
  fixes a b :: int
  assumes "0 < a sdiv b" and "0 < b"
  shows "b \<le> a"
proof (cases "0 \<le> a")
  case True
  with assms have "0 < a div b" by (simp add: sdiv_nonneg)
  with assms True show ?thesis by (simp add: pos_imp_zdiv_pos_iff)
next
  case False
  with assms have "a sdiv b = - (- a div b)" by (simp add: signed_divide_int_def)
  moreover have "0 \<le> - a div b" using False assms by (simp add: pos_imp_zdiv_nonneg_iff)
  ultimately show ?thesis using assms by linarith
qed

text \<open>Bytes are equal when their eight bits are.\<close>

lemma byte_eq_iff:
  "x = y \<longleftrightarrow> bit x 0 = bit y 0 \<and> bit x 1 = bit y 1 \<and> bit x 2 = bit y 2 \<and> bit x 3 = bit y 3 \<and>
     bit x 4 = bit y 4 \<and> bit x 5 = bit y 5 \<and> bit x 6 = bit y 6 \<and> bit x 7 = bit y 7"
  for x y :: byte
proof -
  have "{..<8::nat} = {0, 1, 2, 3, 4, 5, 6, 7}" by auto
  moreover have "x = y \<longleftrightarrow> (\<forall>n\<in>{..<8::nat}. bit x n = bit y n)" by (auto intro: bit_word_eqI)
  ultimately show ?thesis by simp
qed

lemma bit_byte_beyond [simp]: "8 \<le> n \<Longrightarrow> \<not> bit (x :: byte) n"
  by (auto dest: bit_imp_le_length)

lemma bit_byte_double: "bit (x * 2) n \<longleftrightarrow> n \<noteq> 0 \<and> n < 8 \<and> bit x (n - 1)" for x :: byte
  using bit_double_iff [of x n] by (auto simp: mult.commute)

lemma and_one_small: "x \<le> 1 \<Longrightarrow> x AND 1 = x" for x :: byte
proof -
  assume "x \<le> 1"
  then have "uint x \<le> 1" by (simp add: word_le_def)
  then have "uint x = 0 \<or> uint x = 1" using uint_ge_0 [of x] by linarith
  then have "x = 0 \<or> x = 1" by (auto simp: word_uint_eq_iff)
  then show ?thesis by auto
qed

section \<open>Checked memory accesses\<close>

definition load :: "buffer \<Rightarrow> nat \<Rightarrow> byte option" where
  "load b p = (if p < length b then Some (b ! p) else None)"

definition store :: "buffer \<Rightarrow> nat \<Rightarrow> byte \<Rightarrow> buffer option" where
  "store b p v = (if p < length b then Some (b[p := v]) else None)"

text \<open>\<open>memcpy (b + p, src, n)\<close>. A negative \<open>n\<close> converts to a size that no
  object has.\<close>

definition memcpy :: "buffer \<Rightarrow> nat \<Rightarrow> byte list \<Rightarrow> int \<Rightarrow> buffer option" where
  "memcpy b p src n =
     (if 0 \<le> n \<and> nat n \<le> length src \<and> p + nat n \<le> length b
      then Some (take p b @ take (nat n) src @ drop (p + nat n) b) else None)"

text \<open>Reading and writing an element of an array argument.\<close>

definition idx :: "'a list \<Rightarrow> nat \<Rightarrow> 'a option" where
  "idx xs i = (if i < length xs then Some (xs ! i) else None)"

definition idx_set :: "'a list \<Rightarrow> nat \<Rightarrow> 'a \<Rightarrow> 'a list option" where
  "idx_set xs i v = (if i < length xs then Some (xs[i := v]) else None)"

lemma idx_Some [simp]: "i < length xs \<Longrightarrow> idx xs i = Some (xs ! i)"
  by (simp add: idx_def)

lemma idx_set_Some [simp]: "i < length xs \<Longrightarrow> idx_set xs i v = Some (xs[i := v])"
  by (simp add: idx_set_def)

text \<open>An array filled from index \<open>k\<close> on, one element at a time.\<close>

lemma fill_step:
  assumes "take (Suc k) ys = take (Suc k) (xs[k := v])" and "k < length xs"
  shows "take k ys = take k xs" and "take (Suc n) (drop k ys) = v # take n (drop (Suc k) ys)"
proof -
  have t: "take (Suc k) ys = take k xs @ [v]"
    using assms by (simp add: take_Suc_conv_app_nth)
  then have "length (take (Suc k) ys) = Suc k" using assms(2) by simp
  then have k: "k < length ys" by simp
  with t show "take k ys = take k xs" by (simp add: take_Suc_conv_app_nth)
  from t k have "ys ! k = v" by (simp add: take_Suc_conv_app_nth)
  with k show "take (Suc n) (drop k ys) = v # take n (drop (Suc k) ys)"
    by (metis Cons_nth_drop_Suc take_Suc_Cons)
qed

section \<open>Writing a run of bytes\<close>

definition put :: "buffer \<Rightarrow> nat \<Rightarrow> byte list \<Rightarrow> (buffer \<times> nat) option" where
  "put b p xs =
     (if p + length xs \<le> length b
      then Some (take p b @ xs @ drop (p + length xs) b, p + length xs) else None)"

lemma put_Nil: "p \<le> length b \<Longrightarrow> put b p [] = Some (b, p)"
  by (simp add: put_def)

lemma put_fits: "p + length xs \<le> length b \<Longrightarrow> \<exists>b'. put b p xs = Some (b', p + length xs)"
  by (simp add: put_def)

lemma put_length: "put b p xs = Some (b', p') \<Longrightarrow> length b' = length b \<and> p' = p + length xs"
  by (auto simp: put_def split: if_splits)

lemma put_eq_None: "put b p xs = None \<longleftrightarrow> length b < p + length xs"
  by (auto simp: put_def ac_simps)

lemma put_append [wire_simps]:
  "Option.bind (put b p xs) (\<lambda>(b, p). put b p ys) = put b p (xs @ ys)"
  by (auto simp: put_def ac_simps)

lemma put_append_bind [wire_simps]:
  "Option.bind (put b p xs) (\<lambda>(b, p). Option.bind (put b p ys) k) =
   Option.bind (put b p (xs @ ys)) k"
  by (simp add: put_append [symmetric] case_prod_unfold del: put_append)

lemma put_if_bind [wire_simps]:
  "Option.bind (put b p xs) (\<lambda>(b, p). Option.bind (if c then put b p ys else Some (b, p)) k) =
   Option.bind (put b p (xs @ (if c then ys else []))) k"
  by (cases c) (auto simp: put_def ac_simps)

text \<open>An operation that is a \<open>put\<close> wherever the pointer is inside the buffer
  fuses with the writes before it.\<close>

lemma put_then:
  assumes "\<And>b p. p \<le> length b \<Longrightarrow> f (b, p) = put b p ys"
  shows "Option.bind (put b p xs) (\<lambda>(b, p). Option.bind (f (b, p)) k) = Option.bind (put b p (xs @ ys)) k"
proof (cases "put b p xs")
  case (Some r)
  then obtain b' p' where r: "r = (b', p')" "p' \<le> length b'" by (cases r) (auto simp: put_def split: if_splits)
  have "Option.bind (put b p (xs @ ys)) k = Option.bind (put b' p' ys) k"
    using put_append [of b p xs ys] Some r by simp
  with Some r assms show ?thesis by simp
next
  case None
  then have "put b p (xs @ ys) = None" by (simp add: put_eq_None)
  with None show ?thesis by simp
qed

lemma store_put: "do { b \<leftarrow> store b p v; Some (b, Suc p) } = put b p [v]"
  by (auto simp: store_def put_def upd_conv_take_nth_drop)

lemma memcpy_put:
  assumes "0 \<le> n" and "nat n \<le> length src"
  shows "do { b \<leftarrow> memcpy b p src n; Some (b, p + nat n) } = put b p (take (nat n) src)"
  using assms by (auto simp: memcpy_def put_def min_absorb2)

section \<open>What a buffer holds\<close>

definition has :: "buffer \<Rightarrow> nat \<Rightarrow> byte list \<Rightarrow> bool" where
  "has b p xs \<longleftrightarrow> p + length xs \<le> length b \<and> take (length xs) (drop p b) = xs"

lemma has_append [has_simps]: "has b p (xs @ ys) \<longleftrightarrow> has b p xs \<and> has b (p + length xs) ys"
proof -
  have "take (length xs + length ys) (drop p b) = xs @ ys \<longleftrightarrow>
        take (length xs) (drop p b) = xs \<and> take (length ys) (drop (p + length xs) b) = ys"
    if "p + (length xs + length ys) \<le> length b"
    using that by (simp add: take_add append_eq_append_conv add.commute)
  then show ?thesis by (auto simp: has_def)
qed

lemma has_Cons [has_simps]: "has b p (x # xs) \<longleftrightarrow> load b p = Some x \<and> has b (Suc p) xs"
proof (cases "p < length b")
  case True
  then have "drop p b = b ! p # drop (Suc p) b"
    by (simp add: Cons_nth_drop_Suc)
  with True show ?thesis by (auto simp: has_def load_def)
qed (auto simp: has_def load_def)

lemma has_Nil [has_simps]: "has b p [] \<longleftrightarrow> p \<le> length b"
  by (simp add: has_def)

lemma has_bound: "has b p xs \<Longrightarrow> p + length xs \<le> length b"
  by (simp add: has_def)

lemma has_drop: "has b p xs \<Longrightarrow> take (length xs) (drop p b) = xs"
  by (simp add: has_def)

lemma put_has: "put b p xs = Some (b', p') \<Longrightarrow> has b' p xs"
  by (auto simp: put_def has_def split: if_splits)

lemma put_frame_below: "put b p xs = Some (b', p') \<Longrightarrow> take p b' = take p b"
  by (auto simp: put_def split: if_splits)

lemma put_frame_above:
  "put b p xs = Some (b', p') \<Longrightarrow> drop (p + length xs) b' = drop (p + length xs) b"
  by (auto simp: put_def split: if_splits)

section \<open>Counting loops\<close>

text \<open>\<open>for (i = a; i < a + n; ++i) body(i)\<close> on an explicit state.\<close>

primrec for_loop :: "nat \<Rightarrow> nat \<Rightarrow> (nat \<Rightarrow> 's \<Rightarrow> 's option) \<Rightarrow> 's \<Rightarrow> 's option" where
  "for_loop a 0 body s = Some s"
| "for_loop a (Suc n) body s = do { s \<leftarrow> body a s; for_loop (Suc a) n body s }"

text \<open>A loop whose body appends a run of bytes appends the concatenation.\<close>

lemma for_loop_put:
  assumes "\<And>i b p. a \<le> i \<Longrightarrow> i < a + n \<Longrightarrow> body i (b, p) = put b p (w i)" and "p \<le> length b"
  shows "for_loop a n body (b, p) = put b p (concat (map w [a..<a + n]))"
  using assms
proof (induction n arbitrary: a b p)
  case 0
  then show ?case by (simp add: put_Nil)
next
  case (Suc n)
  have body: "body a (b, p) = put b p (w a)" using Suc.prems(1) by simp
  have IH: "for_loop (Suc a) n body (b', p') = put b' p' (concat (map w [Suc a..<a + Suc n]))"
    if "put b p (w a) = Some (b', p')" for b' p'
    using Suc.IH [of "Suc a" p' b'] Suc.prems(1) that by (auto simp: put_def split: if_splits)
  have "for_loop a (Suc n) body (b, p) =
      Option.bind (put b p (w a)) (\<lambda>(b, p). put b p (concat (map w [Suc a..<a + Suc n])))"
    using IH by (cases "put b p (w a)") (auto simp: body)
  also have "\<dots> = put b p (concat (map w (a # [Suc a..<a + Suc n])))"
    by (simp add: wire_simps)
  also have "a # [Suc a..<a + Suc n] = [a..<a + Suc n]" by (simp add: upt_conv_Cons)
  finally show ?case .
qed

text \<open>A loop that adds non-negative numbers and stays below a bound.\<close>

lemma for_loop_add:
  fixes w :: "nat \<Rightarrow> nat"
  assumes "\<And>i len. a \<le> i \<Longrightarrow> i < a + n \<Longrightarrow> 0 \<le> len \<Longrightarrow> len + int (w i) \<le> m \<Longrightarrow> body i len = Some (len + int (w i))"
    and "0 \<le> len" and "len + int (sum_list (map w [a..<a + n])) \<le> m"
  shows "for_loop a n body len = Some (len + int (sum_list (map w [a..<a + n])))"
  using assms
proof (induction n arbitrary: a len)
  case 0
  then show ?case by simp
next
  case (Suc n)
  have u: "[a..<a + Suc n] = a # [Suc a..<Suc a + n]" by (simp add: upt_conv_Cons)
  have le: "len + int (w a) + int (sum_list (map w [Suc a..<Suc a + n])) \<le> m" using Suc.prems(3) unfolding u by simp
  then have "body a len = Some (len + int (w a))" using Suc.prems(1,2) by simp
  moreover have "for_loop (Suc a) n body (len + int (w a)) =
      Some (len + int (w a) + int (sum_list (map w [Suc a..<Suc a + n])))"
    by (rule Suc.IH) (use Suc.prems le in auto)
  ultimately show ?case unfolding u by simp
qed

section \<open>What a computation returns\<close>

text \<open>\<open>rets Q m\<close>: if \<open>m\<close> returns, its result satisfies \<open>Q\<close>. The rules take a
  computation apart along its structure and leave the equations of its calls.\<close>

definition rets :: "('r \<Rightarrow> bool) \<Rightarrow> 'r option \<Rightarrow> bool" where
  "rets Q m \<longleftrightarrow> (\<forall>r. m = Some r \<longrightarrow> Q r)"

named_theorems rets_intros "rules that follow the structure of a computation"

lemma rets_Some [rets_intros]: "Q r \<Longrightarrow> rets Q (Some r)"
  by (simp add: rets_def)

lemma rets_bind [rets_intros]: "(\<And>x. m = Some x \<Longrightarrow> rets Q (k x)) \<Longrightarrow> rets Q (Option.bind m k)"
  by (cases m) (simp_all add: rets_def)

lemma rets_if [rets_intros]: "(b \<Longrightarrow> rets Q x) \<Longrightarrow> (\<not> b \<Longrightarrow> rets Q y) \<Longrightarrow> rets Q (if b then x else y)"
  by simp

lemma rets_Let [rets_intros]: "(\<And>x. e = x \<Longrightarrow> rets Q (f x)) \<Longrightarrow> rets Q (Let e f)"
  by simp

lemma rets_prod [rets_intros]: "(\<And>a b. p = (a, b) \<Longrightarrow> rets Q (f a b)) \<Longrightarrow> rets Q (case p of (a, b) \<Rightarrow> f a b)"
  by (cases p) simp

lemma retsD: "rets Q m \<Longrightarrow> m = Some r \<Longrightarrow> Q r"
  by (simp add: rets_def)

end
