(* ===== verification/Packet_Base.thy ===== *)
theory Packet_Base
  imports Prelude
begin

text \<open>
  The wire primitives of \<open>paho/MQTTPacket/src/MQTTPacket.c\<close>: the fixed
  header's bit fields, the variable-length "remaining length", two-byte
  integers and length-delimited strings. A pointer into a buffer is an offset;
  the functions that advance a pointer return the new offset. A \<open>char*\<close>
  is the list of the bytes it addresses (\<open>None\<close> is \<open>NULL\<close>): for a C string
  the bytes before the terminator, for a \<open>lenstring\<close> everything from the
  pointer to the end of the object.

  The lemmas show that every writer appends exactly the bytes of a wire-format
  function (\<open>enc_len\<close>, \<open>int16_wire\<close>, \<open>mstr_wire\<close>) and that every reader
  recovers the value from them. The locale \<open>field_writer\<close> is the interface the
  packet serializers rely on.
\<close>

section \<open>Data\<close>

text \<open>\<open>enum errors\<close> and \<open>enum msgTypes\<close>\<close>

definition MQTTPACKET_BUFFER_TOO_SHORT :: int where
  "MQTTPACKET_BUFFER_TOO_SHORT = -2"

definition MQTTPACKET_READ_ERROR :: int where
  "MQTTPACKET_READ_ERROR = -1"

datatype msgTypes = CONNECT | CONNACK | PUBLISH | PUBACK | PUBREC | PUBREL
  | PUBCOMP | SUBSCRIBE | SUBACK | UNSUBSCRIBE | UNSUBACK | PINGREQ | PINGRESP | DISCONNECT

fun msg_code :: "msgTypes \<Rightarrow> byte" where
  "msg_code CONNECT = 1" | "msg_code CONNACK = 2" | "msg_code PUBLISH = 3"
| "msg_code PUBACK = 4" | "msg_code PUBREC = 5" | "msg_code PUBREL = 6"
| "msg_code PUBCOMP = 7" | "msg_code SUBSCRIBE = 8" | "msg_code SUBACK = 9"
| "msg_code UNSUBSCRIBE = 10" | "msg_code UNSUBACK = 11" | "msg_code PINGREQ = 12"
| "msg_code PINGRESP = 13" | "msg_code DISCONNECT = 14"

text \<open>\<open>MQTTHeader\<close>: the header byte and its bit fields (the layout without
  \<open>REVERSED\<close>, the first field in the lowest bits). Assigning to a bit field
  keeps the low bits of the value.\<close>

definition header_retain :: "byte \<Rightarrow> byte" where
  "header_retain h = h AND 1"

definition header_qos :: "byte \<Rightarrow> byte" where
  "header_qos h = drop_bit 1 h AND 3"

definition header_dup :: "byte \<Rightarrow> byte" where
  "header_dup h = drop_bit 3 h AND 1"

definition header_type :: "byte \<Rightarrow> byte" where
  "header_type h = drop_bit 4 h"

definition set_retain :: "byte \<Rightarrow> byte \<Rightarrow> byte" where
  "set_retain v h = (h AND 0xFE) OR (v AND 1)"

definition set_qos :: "byte \<Rightarrow> byte \<Rightarrow> byte" where
  "set_qos v h = (h AND 0xF9) OR push_bit 1 (v AND 3)"

definition set_dup :: "byte \<Rightarrow> byte \<Rightarrow> byte" where
  "set_dup v h = (h AND 0xF7) OR push_bit 3 (v AND 1)"

definition set_type :: "byte \<Rightarrow> byte \<Rightarrow> byte" where
  "set_type v h = (h AND 0x0F) OR push_bit 4 (v AND 0x0F)"

lemmas header_defs = header_retain_def header_qos_def header_dup_def header_type_def
  set_retain_def set_qos_def set_dup_def set_type_def

record MQTTLenString =
  ls_len :: int
  ls_data :: "byte list option"

record MQTTString =
  cstring :: "byte list option"
  lenstring :: MQTTLenString

definition MQTTString_initializer :: MQTTString where
  "MQTTString_initializer = \<lparr>cstring = None, lenstring = \<lparr>ls_len = 0, ls_data = None\<rparr>\<rparr>"

section \<open>Operations\<close>

text \<open>\<open>**pptr = c; ( *pptr)++\<close>\<close>

definition writeChar :: "buffer \<Rightarrow> nat \<Rightarrow> byte \<Rightarrow> (buffer \<times> nat) option" where
  "writeChar b p c = do { b \<leftarrow> store b p c; Some (b, Suc p) }"

definition readChar :: "buffer \<Rightarrow> nat \<Rightarrow> (byte \<times> nat) option" where
  "readChar b p = do { c \<leftarrow> load b p; Some (c, Suc p) }"

definition writeInt :: "buffer \<Rightarrow> nat \<Rightarrow> int \<Rightarrow> (buffer \<times> nat) option" where
  "writeInt b p anInt = do {
     b \<leftarrow> store b p (uchar (anInt sdiv 256));
     b \<leftarrow> store b (Suc p) (uchar (anInt smod 256));
     Some (b, Suc (Suc p)) }"

definition readInt :: "buffer \<Rightarrow> nat \<Rightarrow> (int \<times> nat) option" where
  "readInt b p = do {
     hi \<leftarrow> load b p;
     lo \<leftarrow> load b (p + 1);
     Some (256 * uint hi + uint lo, p + 2) }"

text \<open>The loop of \<open>MQTTPacket_encode\<close>; \<open>rc\<close> is the number of bytes written.\<close>

function MQTTPacket_encode_loop :: "buffer \<Rightarrow> nat \<Rightarrow> int \<Rightarrow> int \<Rightarrow> (int \<times> buffer) option" where
  "MQTTPacket_encode_loop b p rc len =
     (let d = uchar (len smod 128);
          len' = len sdiv 128;
          d = (if len' > 0 then d OR 0x80 else d)
      in do {
        b \<leftarrow> store b (p + nat rc) d;
        (if len' > 0 then MQTTPacket_encode_loop b p (rc + 1) len' else Some (rc + 1, b)) })"
  by pat_completeness auto
termination
proof (relation "measure (\<lambda>(b, p, rc, len). nat len)", goal_cases)
  case (2 b p rc len d len' d' b')
  then have "128 \<le> len" using sdiv_posD [of len 128] by simp
  with 2 show ?case by (simp add: sdiv_nonneg)
qed simp

declare MQTTPacket_encode_loop.simps [simp del]

definition MQTTPacket_encode :: "buffer \<Rightarrow> nat \<Rightarrow> int \<Rightarrow> (int \<times> buffer) option" where
  "MQTTPacket_encode b p len = MQTTPacket_encode_loop b p 0 len"

text \<open>The statement \<open>ptr += MQTTPacket_encode(ptr, len)\<close>.\<close>

definition encode_advance :: "buffer \<Rightarrow> nat \<Rightarrow> int \<Rightarrow> (buffer \<times> nat) option" where
  "encode_advance b p len = do {
     (rc, b) \<leftarrow> MQTTPacket_encode b p len;
     Some (b, p + nat rc) }"

text \<open>A \<open>getcharfn\<close> or \<open>getfn\<close> of the sources: given the state of the data
  source and a count, the return code, the bytes stored at the destination and
  the new state. \<open>MQTTPacket_decode\<close> passes the address of one
  \<open>unsigned char\<close>, so storing anything but one byte there with return code 1
  is undefined.\<close>

type_synonym 'w getfn = "'w \<Rightarrow> int \<Rightarrow> (int \<times> byte list \<times> 'w) option"

definition MAX_NO_OF_REMAINING_LENGTH_BYTES :: int where
  "MAX_NO_OF_REMAINING_LENGTH_BYTES = 4"

definition the_byte :: "byte list \<Rightarrow> byte option" where
  "the_byte bs = (case bs of [c] \<Rightarrow> Some c | _ \<Rightarrow> None)"

function MQTTPacket_decode_loop ::
  "'w getfn \<Rightarrow> 'w \<Rightarrow> int \<Rightarrow> int \<Rightarrow> int \<Rightarrow> (int \<times> int \<times> 'w) option" where
  "MQTTPacket_decode_loop getcharfn w len multiplier value =
     (let len = len + 1 in
      if len > MAX_NO_OF_REMAINING_LENGTH_BYTES then Some (len, value, w)
      else do {
        (rc, bs, w) \<leftarrow> getcharfn w 1;
        (if rc \<noteq> 1 then Some (len, value, w)
         else do {
           c \<leftarrow> the_byte bs;
           value \<leftarrow> cint (value + uint (c AND 127) * multiplier);
           multiplier \<leftarrow> cint (multiplier * 128);
           (if c AND 128 \<noteq> 0 then MQTTPacket_decode_loop getcharfn w len multiplier value
            else Some (len, value, w)) }) })"
  by pat_completeness auto
termination
  by (relation "measure (\<lambda>(g, w, len, m, v). nat (5 - len))")
     (auto simp: MAX_NO_OF_REMAINING_LENGTH_BYTES_def)

declare MQTTPacket_decode_loop.simps [simp del]

text \<open>Result: the return value, \<open>*value\<close> and the state of the source.\<close>

definition MQTTPacket_decode :: "'w getfn \<Rightarrow> 'w \<Rightarrow> (int \<times> int \<times> 'w) option" where
  "MQTTPacket_decode getcharfn w = MQTTPacket_decode_loop getcharfn w 0 1 0"

text \<open>\<open>bufchar\<close> reads through the static pointer \<open>bufptr\<close>, here the pair
  of the buffer and the offset.\<close>

primrec bufchar_loop :: "nat \<Rightarrow> buffer \<times> nat \<Rightarrow> byte list \<Rightarrow> (byte list \<times> (buffer \<times> nat)) option" where
  "bufchar_loop 0 w c = Some (c, w)"
| "bufchar_loop (Suc n) w c =
     do { v \<leftarrow> load (fst w) (snd w); bufchar_loop n (fst w, Suc (snd w)) [v] }"

definition bufchar :: "(buffer \<times> nat) getfn" where
  "bufchar w count = do { (c, w) \<leftarrow> bufchar_loop (nat count) w []; Some (count, c, w) }"

definition MQTTPacket_decodeBuf :: "buffer \<Rightarrow> nat \<Rightarrow> (int \<times> int) option" where
  "MQTTPacket_decodeBuf b p = do {
     (len, value, _) \<leftarrow> MQTTPacket_decode bufchar (b, p);
     Some (len, value) }"

definition MQTTPacket_len :: "int \<Rightarrow> int option" where
  "MQTTPacket_len rem_len = do {
     rem_len \<leftarrow> cint (rem_len + 1);
     (if rem_len < 128 then cint (rem_len + 1)
      else if rem_len < 16384 then cint (rem_len + 2)
      else if rem_len < 2097151 then cint (rem_len + 3)
      else cint (rem_len + 4)) }"

definition writeCString :: "buffer \<Rightarrow> nat \<Rightarrow> byte list \<Rightarrow> (buffer \<times> nat) option" where
  "writeCString b p s = (let len = int_of_size (length s) in do {
     (b, p) \<leftarrow> writeInt b p len;
     b \<leftarrow> memcpy b p s len;
     Some (b, p + nat len) })"

definition getLenStringLen :: "byte list \<Rightarrow> int option" where
  "getLenStringLen s = do {
     hi \<leftarrow> load s 0;
     lo \<leftarrow> load s 1;
     Some (256 * uint hi + uint lo) }"

definition writeMQTTString :: "buffer \<Rightarrow> nat \<Rightarrow> MQTTString \<Rightarrow> (buffer \<times> nat) option" where
  "writeMQTTString b p s =
     (if ls_len (lenstring s) > 0 then do {
        (b, p) \<leftarrow> writeInt b p (ls_len (lenstring s));
        data \<leftarrow> ls_data (lenstring s);
        b \<leftarrow> memcpy b p data (ls_len (lenstring s));
        Some (b, p + nat (ls_len (lenstring s))) }
      else case cstring s of
        Some cs \<Rightarrow> writeCString b p cs
      | None \<Rightarrow> writeInt b p 0)"

text \<open>Result: the return code, the string structure and the pointer.\<close>

definition readMQTTLenString ::
  "MQTTString \<Rightarrow> buffer \<Rightarrow> nat \<Rightarrow> int \<Rightarrow> (int \<times> MQTTString \<times> nat) option" where
  "readMQTTLenString s b p enddata = do {
     (rc, ls, p) \<leftarrow>
       (if enddata - int p > 1 then do {
          (n, p) \<leftarrow> readInt b p;
          (if int p + n \<le> enddata
           then Some (1, \<lparr>ls_len = n, ls_data = Some (drop p b)\<rparr>, p + nat n)
           else Some (0, (lenstring s)\<lparr>ls_len := n\<rparr>, p)) }
        else Some (0, lenstring s, p));
     Some (rc, \<lparr>cstring = None, lenstring = ls\<rparr>, p) }"

definition MQTTstrlen :: "MQTTString \<Rightarrow> int" where
  "MQTTstrlen s = (case cstring s of
     Some cs \<Rightarrow> int_of_size (length cs)
   | None \<Rightarrow> ls_len (lenstring s))"

text \<open>\<open>strncmp(a, b, n) == 0\<close> on the bytes the pointers address; reading past
  the end of an object is undefined.\<close>

fun strncmp_eq :: "byte list \<Rightarrow> byte list \<Rightarrow> nat \<Rightarrow> bool option" where
  "strncmp_eq a b 0 = Some True"
| "strncmp_eq (x # a) (y # b) (Suc n) =
     (if x \<noteq> y then Some False else if x = 0 then Some True else strncmp_eq a b n)"
| "strncmp_eq _ _ (Suc n) = None"

definition MQTTPacket_equals :: "MQTTString \<Rightarrow> byte list \<Rightarrow> bool option" where
  "MQTTPacket_equals a bptr =
     (let (aptr, alen) = (case cstring a of
            Some cs \<Rightarrow> (cs @ [0], int_of_size (length cs))
          | None \<Rightarrow> (case ls_data (lenstring a) of None \<Rightarrow> [] | Some d \<Rightarrow> d,
                     ls_len (lenstring a)));
          blen = int_of_size (length bptr)
      in if alen = blen then strncmp_eq aptr (bptr @ [0]) (nat alen) else Some False)"

section \<open>Bit fields of the header\<close>

lemma header_get_set [bits_simps]:
  "header_type (set_type v h) = v AND 0x0F"
  "header_dup (set_dup v h) = v AND 1"
  "header_qos (set_qos v h) = v AND 3"
  "header_retain (set_retain v h) = v AND 1"
  by (simp_all add: header_defs byte_eq_iff bit_simps bit_byte_double)

lemma header_get_set_other [bits_simps]:
  "header_type (set_dup v h) = header_type h"
  "header_type (set_qos v h) = header_type h"
  "header_type (set_retain v h) = header_type h"
  "header_dup (set_type v h) = header_dup h"
  "header_dup (set_qos v h) = header_dup h"
  "header_dup (set_retain v h) = header_dup h"
  "header_qos (set_type v h) = header_qos h"
  "header_qos (set_dup v h) = header_qos h"
  "header_qos (set_retain v h) = header_qos h"
  "header_retain (set_type v h) = header_retain h"
  "header_retain (set_dup v h) = header_retain h"
  "header_retain (set_qos v h) = header_retain h"
  by (simp_all add: header_defs byte_eq_iff bit_simps bit_byte_double)

lemma msg_code_and [simp]: "msg_code t AND 0x0F = msg_code t"
  by (cases t) simp_all

lemma msg_code_inject [simp]: "msg_code s = msg_code t \<longleftrightarrow> s = t"
  by (cases s; cases t) simp_all

section \<open>The remaining length\<close>

text \<open>The wire format: base 128, least significant digit first, the top bit set
  on every digit but the last.\<close>

fun enc_len :: "nat \<Rightarrow> byte list" where
  "enc_len n = (if n < 128 then [word_of_nat n]
                else (word_of_nat (n mod 128) OR 128) # enc_len (n div 128))"

declare enc_len.simps [simp del]

lemma enc_len_small: "n < 128 \<Longrightarrow> enc_len n = [word_of_nat n]"
  by (simp add: enc_len.simps)

lemma enc_len_big: "128 \<le> n \<Longrightarrow> enc_len n = (word_of_nat (n mod 128) OR 128) # enc_len (n div 128)"
  by (subst enc_len.simps) simp

lemma enc_len_not_Nil [simp]: "enc_len n \<noteq> []"
  by (subst enc_len.simps) simp

lemma length_enc_len_pos: "1 \<le> length (enc_len n)"
  by (cases "enc_len n") auto

text \<open>How many bytes the length takes.\<close>

lemma length_enc_len:
  assumes "n < 268435456"
  shows "length (enc_len n) = (if n < 128 then 1 else if n < 16384 then 2 else if n < 2097152 then 3 else 4)"
  using assms by (auto simp: enc_len_small enc_len_big)

lemma encode_loop_put:
  assumes "0 \<le> len" and "0 \<le> rc"
  shows "MQTTPacket_encode_loop b p rc len =
    do { (b', q) \<leftarrow> put b (p + nat rc) (enc_len (nat len)); Some (int q - int p, b') }"
  using assms
proof (induction b p rc len rule: MQTTPacket_encode_loop.induct)
  case (1 b p rc len)
  let ?d = "uchar (len smod 128)"
  have d: "?d = word_of_nat (nat len mod 128)"
    using 1(2) by (simp add: uchar_def smod_nonneg nat_mod_distrib [symmetric, of len 128, simplified])
  have dv: "len sdiv 128 = len div 128" using 1 by (simp add: sdiv_nonneg)
  show ?case
  proof (cases "0 < len div 128")
    case True
    then have ge: "128 \<le> nat len" using 1 by (simp add: pos_imp_zdiv_pos_iff)
    have IH: "MQTTPacket_encode_loop b' p (rc + 1) (len sdiv 128) =
      do { (b'', q) \<leftarrow> put b' (Suc (p + nat rc)) (enc_len (nat len div 128)); Some (int q - int p, b'') }"
      if "store b (p + nat rc) (?d OR 128) = Some b'" for b'
      using 1 True that by (simp add: dv nat_div_distrib nat_add_distrib)
    have "do { b \<leftarrow> store b (p + nat rc) (?d OR 128); MQTTPacket_encode_loop b p (rc + 1) (len sdiv 128) }
      = do { b \<leftarrow> store b (p + nat rc) (?d OR 128); (b'', q) \<leftarrow> put b (Suc (p + nat rc)) (enc_len (nat len div 128));
             Some (int q - int p, b'') }"
      using IH by (cases "store b (p + nat rc) (?d OR 128)") simp_all
    also have "\<dots> = do { (b, q) \<leftarrow> do { b \<leftarrow> store b (p + nat rc) (?d OR 128); Some (b, Suc (p + nat rc)) };
             (b'', q) \<leftarrow> put b q (enc_len (nat len div 128)); Some (int q - int p, b'') }"
      by simp
    also have "\<dots> = do { (b', q) \<leftarrow> put b (p + nat rc) (enc_len (nat len)); Some (int q - int p, b') }"
      unfolding store_put using ge by (simp add: wire_simps enc_len_big d)
    finally show ?thesis using True by (subst MQTTPacket_encode_loop.simps) (simp add: dv Let_def)
  next
    case False
    then have "nat len < 128" using 1 by (simp add: pos_imp_zdiv_pos_iff not_less nat_less_iff)
    moreover have "do { b \<leftarrow> store b (p + nat rc) ?d; Some (rc + 1, b) } =
      do { (b', q) \<leftarrow> do { b \<leftarrow> store b (p + nat rc) ?d; Some (b, Suc (p + nat rc)) }; Some (int q - int p, b') }"
      using 1 by (simp add: add.commute)
    ultimately show ?thesis using False unfolding store_put
      by (subst MQTTPacket_encode_loop.simps) (simp add: dv d enc_len_small Let_def)
  qed
qed

lemma encode_advance_put: "0 \<le> len \<Longrightarrow> encode_advance b p len = put b p (enc_len (nat len))"
  unfolding encode_advance_def MQTTPacket_encode_def
  by (simp add: encode_loop_put) (auto simp: put_def)

lemma uint_and_127: "uint (c AND 127) = uint c mod 128" for c :: byte
proof -
  have "c AND 127 = take_bit 7 c" by (simp add: take_bit_eq_mask mask_eq_exp_minus_1)
  then have "uint (c AND 127) = take_bit 7 (uint c)" by (simp only: unsigned_take_bit_eq)
  then show ?thesis by (simp add: take_bit_eq_mod)
qed

lemma and_128_eq_0: "c AND 128 = 0 \<longleftrightarrow> \<not> bit c 7" for c :: byte
  by (simp add: byte_eq_iff bit_simps)

text \<open>The accumulator invariant of the decoder: after \<open>len\<close> digits the
  multiplier is \<open>128 ^ len\<close> and the value is below it, so no step overflows.\<close>

definition dec_inv :: "int \<Rightarrow> int \<Rightarrow> int \<Rightarrow> bool" where
  "dec_inv len multiplier value \<longleftrightarrow>
     0 \<le> len \<and> len \<le> 4 \<and> multiplier = 128 ^ nat len \<and> 0 \<le> value \<and> value < multiplier"

lemma dec_inv_init: "dec_inv 0 1 0"
  by (simp add: dec_inv_def)

lemma dec_inv_step:
  assumes "dec_inv len m v" and "len < 4" and "0 \<le> d" and "d < 128"
  shows "dec_inv (len + 1) (m * 128) (v + d * m)"
proof -
  have "d * m \<le> 127 * m" using assms by (auto simp: dec_inv_def)
  moreover have "v < m" using assms by (simp add: dec_inv_def)
  ultimately have "v + d * m < m * 128" by linarith
  moreover have "0 \<le> d * m" using assms by (simp add: dec_inv_def)
  ultimately show ?thesis using assms by (simp add: dec_inv_def nat_add_distrib)
qed

lemma dec_inv_range: "dec_inv len m v \<Longrightarrow> cint m = Some m \<and> cint v = Some v"
proof -
  assume inv: "dec_inv len m v"
  have "(128::int) ^ nat len \<le> 128 ^ 4" using inv by (intro power_increasing) (auto simp: dec_inv_def)
  with inv show ?thesis by (auto simp: dec_inv_def cint_def INT_MIN_def INT_MAX_def)
qed

lemma dec_inv_bounds: "dec_inv len m v \<Longrightarrow> 0 \<le> v \<and> v < 268435456"
  using power_increasing [of "nat len" 4 "128::int"] by (auto simp: dec_inv_def nat_le_iff)

lemma decode_step:
  assumes "dec_inv len m v" and "len < 4"
  shows "MQTTPacket_decode_loop g w len m v = do {
     (rc, bs, w) \<leftarrow> g w 1;
     (if rc \<noteq> 1 then Some (len + 1, v, w)
      else do {
        c \<leftarrow> the_byte bs;
        (if bit c 7 then MQTTPacket_decode_loop g w (len + 1) (m * 128) (v + uint c mod 128 * m)
         else Some (len + 1, v + uint c mod 128 * m, w)) }) }"
proof -
  have "cint (m * 128) = Some (m * 128) \<and> cint (v + uint c mod 128 * m) = Some (v + uint c mod 128 * m)" for c :: byte
    using dec_inv_range [OF dec_inv_step [OF assms, of "uint c mod 128"]] by simp
  with assms(2) show ?thesis
    by (subst MQTTPacket_decode_loop.simps)
       (simp add: MAX_NO_OF_REMAINING_LENGTH_BYTES_def uint_and_127 and_128_eq_0 Let_def cong: if_cong)
qed

lemma decode_stop: "4 \<le> len \<Longrightarrow> MQTTPacket_decode_loop g w len m v = Some (len + 1, v, w)"
  by (subst MQTTPacket_decode_loop.simps) (simp add: MAX_NO_OF_REMAINING_LENGTH_BYTES_def)

lemma decode_loop_bounds:
  assumes "MQTTPacket_decode_loop g w len m v = Some (len', v', w')" and "dec_inv len m v"
  shows "len < len' \<and> len' \<le> 5 \<and> 0 \<le> v' \<and> v' < 268435456"
  using assms
proof (induction "nat (4 - len)" arbitrary: w len m v)
  case 0
  then have "len = 4" by (simp add: dec_inv_def)
  with 0 show ?case by (simp add: decode_stop dec_inv_def)
next
  case (Suc k)
  then have lt: "len < 4" by simp
  note inv' = dec_inv_step [OF Suc.prems(2) lt, of "uint c mod 128" for c :: byte, simplified]
  have IH: "MQTTPacket_decode_loop g w1 (len + 1) (m * 128) (v + uint c mod 128 * m) = Some (len', v', w') \<Longrightarrow>
      len + 1 < len' \<and> len' \<le> 5 \<and> 0 \<le> v' \<and> v' < 268435456" for w1 and c :: byte
    using Suc.hyps(1) [of "len + 1" w1 "m * 128"] Suc.hyps(2) inv' [of c] by auto
  show ?case
    using Suc.prems(1) lt dec_inv_bounds [OF Suc.prems(2)] dec_inv_bounds [OF inv']
    unfolding decode_step [OF Suc.prems(2) lt]
    by (auto simp: bind_eq_Some_conv split: if_splits dest: IH)
qed

text \<open>The decoder has no fault of its own: it returns whenever the source does.\<close>

lemma decode_loop_total:
  assumes src: "\<And>w. \<exists>rc bs w'. g w 1 = Some (rc, bs, w') \<and> (rc = 1 \<longrightarrow> length bs = 1)"
    and "dec_inv len m v"
  shows "\<exists>r. MQTTPacket_decode_loop g w len m v = Some r"
  using assms(2)
proof (induction "nat (4 - len)" arbitrary: w len m v)
  case 0
  then show ?case by (simp add: decode_stop)
next
  case (Suc k)
  then have lt: "len < 4" by simp
  have IH: "\<exists>r. MQTTPacket_decode_loop g w1 (len + 1) (m * 128) (v + uint c mod 128 * m) = Some r"
    for w1 and c :: byte
    using Suc.hyps(1) [of "len + 1"] Suc.hyps(2) dec_inv_step [OF Suc.prems lt, of "uint c mod 128"] by simp
  obtain rc bs w' where g: "g w 1 = Some (rc, bs, w')" and one: "rc = 1 \<longrightarrow> length bs = 1"
    using src by blast
  show ?case
    unfolding decode_step [OF Suc.prems lt] using g one IH
    by (cases "rc = 1") (auto simp: the_byte_def length_Suc_conv)
qed

subsection \<open>Decoding what was encoded\<close>

lemma digit_low: "m < 128 \<Longrightarrow> uint (word_of_nat m :: byte) = int m"
  by (simp add: uint_nat unat_of_nat)

lemma bit_7_less: "bit c 7 \<longleftrightarrow> 128 \<le> uint c" for c :: byte
proof -
  have "bit c 7 \<longleftrightarrow> bit (uint c) 7" by (simp add: bit_uint_iff)
  then have "bit c 7 \<longleftrightarrow> odd (uint c div 128)" by (simp add: bit_iff_odd)
  moreover have "0 \<le> uint c" "uint c < 256" using uint_lt2p [of c] by simp_all
  ultimately show ?thesis by presburger
qed

lemma digit_high:
  "bit (c OR 128) 7" "uint (c OR 128) mod 128 = uint c mod 128" for c :: byte
proof -
  show "bit (c OR 128) 7" by (simp add: bit_simps)
  have "(c OR 128) AND 127 = c AND 127" by (simp add: byte_eq_iff bit_simps)
  then show "uint (c OR 128) mod 128 = uint c mod 128" by (simp flip: uint_and_127)
qed

text \<open>A source of bytes: the bytes still to come, handed out one at a time, and a
  part of its state that reading leaves alone.\<close>

locale byte_source =
  fixes getc :: "'w getfn"
    and stream :: "'w \<Rightarrow> byte list"
    and frame :: "'w \<Rightarrow> 'f"
  assumes next_byte: "stream w = c # cs \<Longrightarrow> \<exists>w'. getc w 1 = Some (1, [c], w') \<and> stream w' = cs \<and> frame w' = frame w"
begin

lemma decode_loop_enc:
  assumes "stream w = enc_len n @ rest" and "dec_inv len m v" and "len + int (length (enc_len n)) \<le> 4"
  shows "\<exists>w'. MQTTPacket_decode_loop getc w len m v =
           Some (len + int (length (enc_len n)), v + int n * m, w') \<and> stream w' = rest \<and> frame w' = frame w"
  using assms
proof (induction n arbitrary: w len m v rule: enc_len.induct)
  case (1 n)
  have lt: "len < 4" using 1(4) length_enc_len_pos [of n] by simp
  show ?case
  proof (cases "n < 128")
    case True
    let ?c = "word_of_nat n :: byte"
    have "stream w = ?c # rest" using 1(2) True by (simp add: enc_len_small)
    then obtain w' where "getc w 1 = Some (1, [?c], w')" and "stream w' = rest" and "frame w' = frame w"
      using next_byte by blast
    with True show ?thesis
      by (simp add: decode_step [OF 1(3) lt] the_byte_def bit_7_less digit_low enc_len_small)
  next
    case False
    let ?c = "word_of_nat (n mod 128) OR 128 :: byte"
    have "stream w = ?c # enc_len (n div 128) @ rest" using 1(2) False by (simp add: enc_len_big)
    then obtain w1 where g: "getc w 1 = Some (1, [?c], w1)" and s: "stream w1 = enc_len (n div 128) @ rest" and f: "frame w1 = frame w"
      using next_byte by blast
    have c: "uint ?c mod 128 = int (n mod 128)" by (simp add: digit_high digit_low)
    have inv: "dec_inv (len + 1) (m * 128) (v + int (n mod 128) * m)"
      using dec_inv_step [OF 1(3) lt, of "int (n mod 128)"] by simp
    have "len + 1 + int (length (enc_len (n div 128))) \<le> 4" using 1(4) False by (simp add: enc_len_big)
    from 1(1) [OF False s inv this] obtain w' where
      d: "MQTTPacket_decode_loop getc w1 (len + 1) (m * 128) (v + int (n mod 128) * m) =
       Some (len + 1 + int (length (enc_len (n div 128))),
             v + int (n mod 128) * m + int (n div 128) * (m * 128), w')"
      and "stream w' = rest" and "frame w' = frame w" using f by auto
    moreover have "v + int (n mod 128) * m + int (n div 128) * (m * 128) = v + int n * m"
    proof -
      have "int n = int (n mod 128) + int (n div 128) * 128" by (simp add: zmod_int zdiv_int)
      then show ?thesis by (simp add: algebra_simps)
    qed
    ultimately show ?thesis using False g
      by (simp add: decode_step [OF 1(3) lt] the_byte_def digit_high(1) c enc_len_big)
  qed
qed

lemma decode_enc:
  assumes "stream w = enc_len n @ rest" and "n < 268435456"
  shows "\<exists>w'. MQTTPacket_decode getc w = Some (int (length (enc_len n)), int n, w') \<and> stream w' = rest \<and> frame w' = frame w"
proof -
  have "length (enc_len n) \<le> 4" using assms(2) by (simp add: length_enc_len)
  with decode_loop_enc [OF assms(1) dec_inv_init] show ?thesis by (simp add: MQTTPacket_decode_def)
qed

end

lemma bufchar_one: "bufchar (b, p) 1 = do { v \<leftarrow> load b p; Some (1, [v], (b, Suc p)) }"
  by (auto simp: bufchar_def)

interpretation bufsrc: byte_source bufchar "\<lambda>(b, p). drop p b" fst
proof
  fix w :: "buffer \<times> nat" and c cs
  assume a: "(case w of (b, p) \<Rightarrow> drop p b) = c # cs"
  obtain b p where w: "w = (b, p)" by fastforce
  with a have d: "drop p b = c # cs" by simp
  then have "p < length b" by (cases "p < length b") auto
  moreover from d have "b ! p = c" by (rule nth_via_drop)
  moreover from d have "drop (Suc p) b = cs" by (metis drop_Suc list.sel(3) tl_drop)
  ultimately show "\<exists>w'. bufchar w 1 = Some (1, [c], w') \<and> (case w' of (b, p) \<Rightarrow> drop p b) = cs \<and> fst w' = fst w"
    by (simp add: w bufchar_one load_def)
qed

section \<open>Field writers and readers\<close>

text \<open>The interface of the serializers: a writer appends the wire form of a
  valid value and advances the pointer past it. A codec also has a reader that
  recovers the value from its wire form.\<close>

locale field_writer =
  fixes wr :: "buffer \<Rightarrow> nat \<Rightarrow> 'x \<Rightarrow> (buffer \<times> nat) option"
    and valid :: "'x \<Rightarrow> bool"
    and wire :: "'x \<Rightarrow> byte list"
  assumes write_put: "valid x \<Longrightarrow> wr b p x = put b p (wire x)"
begin

lemma write_total: "valid x \<Longrightarrow> p + length (wire x) \<le> length b \<Longrightarrow> \<exists>b'. wr b p x = Some (b', p + length (wire x))"
  by (simp add: write_put put_fits)

lemma write_has: "valid x \<Longrightarrow> wr b p x = Some (b', p') \<Longrightarrow>
    has b' p (wire x) \<and> p' = p + length (wire x) \<and> length b' = length b"
  using put_has put_length by (fastforce simp: write_put)

text \<open>Writing the elements of an array one after the other.\<close>

lemma write_array:
  assumes "\<forall>x \<in> set xs. valid x" and "p \<le> length b"
  shows "for_loop 0 (length xs) (\<lambda>i (b, p). do { x \<leftarrow> idx xs i; wr b p x }) (b, p) = put b p (concat (map wire xs))"
proof -
  have "for_loop 0 (length xs) (\<lambda>i (b, p). do { x \<leftarrow> idx xs i; wr b p x }) (b, p) =
      put b p (concat (map (\<lambda>i. wire (xs ! i)) [0..<0 + length xs]))"
    using assms by (intro for_loop_put) (simp_all add: write_put)
  moreover have "map (\<lambda>i. wire (xs ! i)) [0..<length xs] = map wire xs"
    by (rule nth_equalityI) simp_all
  ultimately show ?thesis by simp
qed

end

locale field_codec = field_writer +
  fixes rd :: "buffer \<Rightarrow> nat \<Rightarrow> ('x \<times> nat) option"
  assumes read_has: "valid x \<Longrightarrow> has b p (wire x) \<Longrightarrow> rd b p = Some (x, p + length (wire x))"
begin

lemma read_write: "valid x \<Longrightarrow> wr b p x = Some (b', p') \<Longrightarrow> rd b' p = Some (x, p')"
  using write_has by (fastforce simp: read_has)

end

definition int16_wire :: "int \<Rightarrow> byte list" where
  "int16_wire n = [uchar (n div 256), uchar (n mod 256)]"

lemma length_int16_wire [simp]: "length (int16_wire n) = 2"
  by (simp add: int16_wire_def)

definition is_u16 :: "int \<Rightarrow> bool" where
  "is_u16 n \<longleftrightarrow> 0 \<le> n \<and> n < 65536"

lemma writeChar_put [wire_simps]: "writeChar b p c = put b p [c]"
  by (simp add: writeChar_def store_put)

lemma writeInt_put: "0 \<le> n \<Longrightarrow> writeInt b p n = put b p (int16_wire n)"
proof -
  assume "0 \<le> n"
  have "writeInt b p n = do { (b, p) \<leftarrow> writeChar b p (uchar (n sdiv 256)); writeChar b p (uchar (n smod 256)) }"
    by (simp add: writeInt_def writeChar_def)
  also have "\<dots> = put b p (int16_wire n)"
    using \<open>0 \<le> n\<close> by (simp add: wire_simps sdiv_nonneg smod_nonneg int16_wire_def)
  finally show ?thesis .
qed

lemma uint_uchar_byte: "0 \<le> n \<Longrightarrow> n < 256 \<Longrightarrow> uint (uchar n) = n"
  by (simp add: uint_uchar)

lemma readInt_has: "is_u16 n \<Longrightarrow> has b p (int16_wire n) \<Longrightarrow> readInt b p = Some (n, p + 2)"
proof -
  assume n: "is_u16 n" and "has b p (int16_wire n)"
  then have "load b p = Some (uchar (n div 256))" "load b (Suc p) = Some (uchar (n mod 256))"
    by (simp_all add: int16_wire_def has_simps)
  moreover have "n div 256 mod 256 = n div 256" using n unfolding is_u16_def by (intro mod_pos_pos_trivial; linarith)
  ultimately show ?thesis by (simp add: readInt_def uint_uchar)
qed

interpretation char_codec: field_codec writeChar "\<lambda>_. True" "\<lambda>c. [c]" readChar
  by unfold_locales (simp_all add: wire_simps has_simps readChar_def)

interpretation int_codec: field_codec writeInt is_u16 int16_wire readInt
  by unfold_locales (simp_all add: writeInt_put readInt_has is_u16_def)

interpretation len_writer: field_writer encode_advance "\<lambda>n. 0 \<le> n" "\<lambda>n. enc_len (nat n)"
  by unfold_locales (rule encode_advance_put)

section \<open>Strings\<close>

definition str_wire :: "byte list \<Rightarrow> byte list" where
  "str_wire xs = int16_wire (int (length xs)) @ xs"

lemma length_str_wire [simp]: "length (str_wire xs) = length xs + 2"
  by (simp add: str_wire_def)

text \<open>The bytes \<open>writeMQTTString\<close> sends, and the strings it sends faithfully:
  at most 65535 bytes, the delimited data (if used) present and, if there is a
  C string as well, of the same length, so that \<open>MQTTstrlen\<close> agrees.\<close>

definition mstr_bytes :: "MQTTString \<Rightarrow> byte list" where
  "mstr_bytes s =
     (if ls_len (lenstring s) > 0
      then (case ls_data (lenstring s) of None \<Rightarrow> [] | Some d \<Rightarrow> take (nat (ls_len (lenstring s))) d)
      else case cstring s of Some cs \<Rightarrow> cs | None \<Rightarrow> [])"

definition mstr_ok :: "MQTTString \<Rightarrow> bool" where
  "mstr_ok s \<longleftrightarrow>
     (if ls_len (lenstring s) > 0
      then (case ls_data (lenstring s) of None \<Rightarrow> False
            | Some d \<Rightarrow> nat (ls_len (lenstring s)) \<le> length d) \<and>
           (case cstring s of None \<Rightarrow> True | Some cs \<Rightarrow> int (length cs) = ls_len (lenstring s))
      else cstring s = None \<longrightarrow> ls_len (lenstring s) = 0) \<and>
     length (mstr_bytes s) < 65536"

definition mstr_wire :: "MQTTString \<Rightarrow> byte list" where
  "mstr_wire s = str_wire (mstr_bytes s)"

lemma length_mstr_wire [simp]: "length (mstr_wire s) = length (mstr_bytes s) + 2"
  by (simp add: mstr_wire_def)

lemma mstr_ok_len: "mstr_ok s \<Longrightarrow> length (mstr_bytes s) < 65536"
  by (simp add: mstr_ok_def)

lemma MQTTstrlen_ok: "mstr_ok s \<Longrightarrow> MQTTstrlen s = int (length (mstr_bytes s))"
  by (auto simp: mstr_ok_def mstr_bytes_def MQTTstrlen_def int_of_size_small
           split: option.splits if_splits)

lemma writeCString_put:
  assumes "length xs < 65536"
  shows "writeCString b p xs = put b p (str_wire xs)"
proof -
  have n: "int_of_size (length xs) = int (length xs)" using assms by (simp add: int_of_size_small)
  have "writeCString b p xs = do { (b, p) \<leftarrow> put b p (int16_wire (int (length xs)));
      b \<leftarrow> memcpy b p xs (int (length xs)); Some (b, p + nat (int (length xs))) }"
    by (simp add: writeCString_def n Let_def writeInt_put)
  also have "\<dots> = put b p (str_wire xs)"
    by (subst memcpy_put) (simp_all add: wire_simps str_wire_def)
  finally show ?thesis .
qed

lemma writeMQTTString_put:
  assumes "mstr_ok s"
  shows "writeMQTTString b p s = put b p (mstr_wire s)"
proof (cases "ls_len (lenstring s) > 0")
  case True
  let ?n = "ls_len (lenstring s)"
  from True assms obtain d where d: "ls_data (lenstring s) = Some d" and le: "nat ?n \<le> length d"
    by (auto simp: mstr_ok_def split: option.splits)
  have "writeMQTTString b p s = do { (b, p) \<leftarrow> put b p (int16_wire ?n);
      b \<leftarrow> memcpy b p d ?n; Some (b, p + nat ?n) }"
    using True by (simp add: writeMQTTString_def d writeInt_put)
  also have "\<dots> = put b p (int16_wire ?n @ take (nat ?n) d)"
    using True le by (subst memcpy_put) (simp_all add: wire_simps)
  finally show ?thesis using True le d
    by (simp add: mstr_wire_def mstr_bytes_def str_wire_def min_absorb2)
next
  case False
  then show ?thesis using mstr_ok_len [OF assms]
    by (cases "cstring s")
       (simp_all add: writeMQTTString_def mstr_wire_def mstr_bytes_def writeCString_put writeInt_put str_wire_def)
qed

interpretation cstring_writer: field_writer writeCString "\<lambda>xs. length xs < 65536" str_wire
  by unfold_locales (rule writeCString_put)

interpretation string_writer: field_writer writeMQTTString mstr_ok mstr_wire
  by unfold_locales (rule writeMQTTString_put)

text \<open>Reading a delimited string out of a buffer that holds its wire form.\<close>

definition read_string :: "buffer \<Rightarrow> nat \<Rightarrow> nat \<Rightarrow> MQTTString" where
  "read_string b p n = \<lparr>cstring = None, lenstring = \<lparr>ls_len = int n, ls_data = Some (drop p b)\<rparr>\<rparr>"

lemma readMQTTLenString_has:
  assumes "has b p (str_wire xs)" and "length xs < 65536" and "int p + 2 + int (length xs) \<le> enddata"
  shows "readMQTTLenString s b p enddata =
    Some (1, read_string b (p + 2) (length xs), p + 2 + length xs)"
proof -
  have "readInt b p = Some (int (length xs), p + 2)"
    using assms(1,2) by (intro readInt_has) (auto simp: str_wire_def has_simps is_u16_def)
  with assms(3) show ?thesis
    by (simp add: readMQTTLenString_def read_string_def)
qed

lemma mstr_bytes_read_string:
  "has b p xs \<Longrightarrow> mstr_bytes (read_string b p (length xs)) = xs"
  by (simp add: mstr_bytes_def read_string_def has_drop)

lemma mstr_ok_read_string:
  "has b p xs \<Longrightarrow> length xs < 65536 \<Longrightarrow> mstr_ok (read_string b p (length xs))"
  using has_bound [of b p xs] by (auto simp: mstr_ok_def mstr_bytes_def read_string_def)

lemma has_str_wireD: "has b p (str_wire xs) \<Longrightarrow> has b (p + 2) xs"
  by (simp add: str_wire_def has_simps)

text \<open>The string read back from the wire form of \<open>s\<close> at offset \<open>p\<close>.\<close>

definition reread :: "buffer \<Rightarrow> nat \<Rightarrow> MQTTString \<Rightarrow> MQTTString" where
  "reread b p s = read_string b (p + 2) (length (mstr_bytes s))"

lemma readMQTTLenString_wire:
  assumes "mstr_ok s" and "has b p (mstr_wire s)" and "int p + int (length (mstr_wire s)) \<le> enddata"
  shows "readMQTTLenString s0 b p enddata = Some (1, reread b p s, p + length (mstr_wire s))"
  using assms readMQTTLenString_has [of b p "mstr_bytes s" enddata s0] mstr_ok_len [OF assms(1)]
  by (simp add: mstr_wire_def reread_def)

lemma reread_same:
  assumes "mstr_ok s" and "has b p (mstr_wire s)"
  shows "mstr_bytes (reread b p s) = mstr_bytes s" and "mstr_ok (reread b p s)"
  using assms has_str_wireD [of b p "mstr_bytes s"] mstr_ok_len [OF assms(1)]
  by (simp_all add: reread_def mstr_wire_def mstr_bytes_read_string mstr_ok_read_string)

lemma decodeBuf_has:
  assumes "has b p (enc_len n)" and "n < 268435456"
  shows "MQTTPacket_decodeBuf b p = Some (int (length (enc_len n)), int n)"
proof -
  have "drop p b = enc_len n @ drop (length (enc_len n)) (drop p b)"
    using has_drop [OF assms(1)] by (metis append_take_drop_id)
  then have "(case (b, p) of (b, p) \<Rightarrow> drop p b) = enc_len n @ drop (length (enc_len n)) (drop p b)"
    by simp
  from bufsrc.decode_enc [OF this assms(2)] show ?thesis
    by (auto simp: MQTTPacket_decodeBuf_def)
qed

lemma decodeBuf_bounds:
  "MQTTPacket_decodeBuf b p = Some (rc, n) \<Longrightarrow> 1 \<le> rc \<and> rc \<le> 5 \<and> 0 \<le> n \<and> n < 268435456"
  by (auto simp: MQTTPacket_decodeBuf_def MQTTPacket_decode_def bind_eq_Some_conv
           dest!: decode_loop_bounds [OF _ dec_inv_init])

lemma decodeBuf_one_byte:
  assumes "load b p = Some c" and "uint c < 128"
  shows "MQTTPacket_decodeBuf b p = Some (1, uint c)"
  using assms by (simp add: MQTTPacket_decodeBuf_def MQTTPacket_decode_def decode_step [OF dec_inv_init]
      bufchar_one the_byte_def bit_7_less)

lemma MQTTPacket_encode_put:
  "0 \<le> n \<Longrightarrow> MQTTPacket_encode b p n = do { (b', q) \<leftarrow> put b p (enc_len (nat n)); Some (int q - int p, b') }"
  by (simp add: MQTTPacket_encode_def encode_loop_put)

text \<open>Reading through a pointer that stays below \<open>enddata\<close> is safe: what a
  deserializer relies on when it parses strings of an untrusted packet.\<close>

lemma load_in_range: "p < length b \<Longrightarrow> \<exists>c. load b p = Some c"
  by (simp add: load_def)

lemma readInt_in_range:
  assumes "p + 1 < length b"
  shows "\<exists>n. readInt b p = Some (n, p + 2) \<and> is_u16 n"
proof -
  have "256 * uint (b ! p) + uint (b ! (p + 1)) < 65536"
    using uint_lt2p [of "b ! p"] uint_lt2p [of "b ! (p + 1)"] by simp
  with assms show ?thesis by (simp add: readInt_def load_def is_u16_def)
qed

lemma readMQTTLenString_in_range:
  assumes "enddata \<le> int (length b)" and "int p \<le> enddata"
  shows "\<exists>rc s' p'. readMQTTLenString s b p enddata = Some (rc, s', p') \<and> (rc = 0 \<or> rc = 1) \<and>
    p \<le> p' \<and> int p' \<le> enddata \<and> cstring s' = None \<and>
    (rc = 1 \<longrightarrow> p + 2 \<le> p' \<and> s' = read_string b (p + 2) (p' - p - 2) \<and> p' - p - 2 < 65536)"
proof (cases "enddata - int p > 1")
  case True
  then have "p + 1 < length b" using assms by linarith
  then obtain n where n: "readInt b p = Some (n, p + 2)" "is_u16 n" using readInt_in_range by blast
  with True assms show ?thesis
    by (auto simp: readMQTTLenString_def read_string_def is_u16_def nat_less_iff)
next
  case False
  with assms show ?thesis by (simp add: readMQTTLenString_def)
qed

text \<open>What a serializer does once the size check has passed: the packet is
  written from the start of the buffer and its length is the return value
  (\<open>ptr - buf\<close>).\<close>

definition emit :: "buffer \<Rightarrow> byte list \<Rightarrow> (int \<times> buffer) option" where
  "emit buf w = do { (b, p) \<leftarrow> put buf 0 w; Some (int p, b) }"

lemma emit_fits: "length w \<le> length buf \<Longrightarrow> emit buf w = Some (int (length w), w @ drop (length w) buf)"
  by (simp add: emit_def put_def)

lemma emit_overrun: "length buf < length w \<Longrightarrow> emit buf w = None"
  by (simp add: emit_def put_def)

lemma has_prefix: "has (w @ rest) 0 w"
  by (simp add: has_def)

lemma packet_len_fits:
  assumes "MQTTPacket_len (int n) = Some sz" and "n < 268435456" and "sz \<le> int k"
  shows "Suc (length (enc_len n) + n) \<le> k"
  using assms by (auto simp: MQTTPacket_len_def cint_def length_enc_len bind_eq_Some_conv split: if_splits)

lemma packet_len_total: "0 \<le> n \<Longrightarrow> n < 268435456 \<Longrightarrow> \<exists>sz. MQTTPacket_len n = Some sz"
  by (auto simp: MQTTPacket_len_def cint_def INT_MIN_def INT_MAX_def)

lemma read_string_in_range:
  assumes "enddata \<le> int (length b)" and "int p \<le> enddata"
  shows "\<exists>rc s' p'. readMQTTLenString s b p enddata = Some (rc, s', p') \<and> (rc = 0 \<or> rc = 1) \<and>
    p \<le> p' \<and> int p' \<le> enddata \<and>
    (rc = 1 \<longrightarrow> mstr_bytes s' = take (p' - p - 2) (drop (p + 2) b) \<and> mstr_ok s')"
proof -
  from readMQTTLenString_in_range [OF assms, of s] obtain rc s' p' where
    r: "readMQTTLenString s b p enddata = Some (rc, s', p')" "rc = 0 \<or> rc = 1" "p \<le> p'" "int p' \<le> enddata"
    and s': "rc = 1 \<longrightarrow> p + 2 \<le> p' \<and> s' = read_string b (p + 2) (p' - p - 2) \<and> p' - p - 2 < 65536"
    by blast
  have "mstr_bytes s' = take (p' - p - 2) (drop (p + 2) b) \<and> mstr_ok s'" if "rc = 1"
  proof -
    from that s' obtain k where "p' = p + 2 + k" using le_Suc_ex by blast
    with that s' r(4) assms(1) show ?thesis by (auto simp: mstr_bytes_def mstr_ok_def read_string_def)
  qed
  with r show ?thesis by blast
qed

section \<open>Properties of the wire primitives\<close>

text \<open>
  C19: for every length an MQTT packet can have, \<open>MQTTPacket_encode\<close>
  writes one to four bytes inside the buffer, changes nothing else, and
  \<open>MQTTPacket_decodeBuf\<close> reads the same length back, consuming as many bytes.
\<close>

theorem remaining_length_roundtrip:
  assumes "0 \<le> n" and "n \<le> 268435455" and "p + 4 \<le> length b"
  shows "\<exists>rc b'. MQTTPacket_encode b p n = Some (rc, b') \<and> 1 \<le> rc \<and> rc \<le> 4 \<and>
    MQTTPacket_decodeBuf b' p = Some (rc, n) \<and>
    length b' = length b \<and> take p b' = take p b \<and> drop (p + nat rc) b' = drop (p + nat rc) b"
proof -
  have len: "length (enc_len (nat n)) \<le> 4" using assms by (simp add: length_enc_len)
  then obtain b' where b': "put b p (enc_len (nat n)) = Some (b', p + length (enc_len (nat n)))"
    using put_fits [of p "enc_len (nat n)" b] assms by auto
  have "MQTTPacket_decodeBuf b' p = Some (int (length (enc_len (nat n))), n)"
    using decodeBuf_has [OF put_has [OF b']] assms by simp
  with b' len length_enc_len_pos [of "nat n"] put_length [OF b'] put_frame_below [OF b'] put_frame_above [OF b']
  show ?thesis using assms(1) by (simp add: MQTTPacket_encode_put)
qed

theorem remaining_length_roundtrip_witness:
  "\<exists>rc b'. MQTTPacket_encode (replicate 6 0) 1 321 = Some (rc, b') \<and> 1 \<le> rc \<and> rc \<le> 4 \<and>
    MQTTPacket_decodeBuf b' 1 = Some (rc, 321) \<and>
    length b' = length (replicate 6 (0::byte)) \<and> take 1 b' = take 1 (replicate 6 0) \<and>
    drop (1 + nat rc) b' = drop (1 + nat rc) (replicate 6 0)"
  by (rule remaining_length_roundtrip) simp_all



text \<open>
  the buffer size the serializers demand, \<open>MQTTPacket_len\<close>, always
  covers the header byte, the length field and the body, and asks for at most one
  byte more than they need.
\<close>

theorem packet_len_covers_packet:
  assumes "0 \<le> n" and "n \<le> 268435455"
  shows "\<exists>size. MQTTPacket_len n = Some size \<and>
    1 + int (length (enc_len (nat n))) + n \<le> size \<and> size \<le> 2 + int (length (enc_len (nat n))) + n"
  using assms by (auto simp: MQTTPacket_len_def cint_def INT_MIN_def INT_MAX_def length_enc_len nat_less_iff)

theorem packet_len_covers_packet_witness:
  "\<exists>size. MQTTPacket_len 127 = Some size \<and>
    1 + int (length (enc_len (nat 127))) + 127 \<le> size \<and> size \<le> 2 + int (length (enc_len (nat 127))) + 127"
  by (rule packet_len_covers_packet) simp_all

text \<open>
  a string written by \<open>writeMQTTString\<close> and read by
  \<open>readMQTTLenString\<close> has the same bytes and the same length, and both leave the
  pointer at the same place.
\<close>

theorem string_roundtrip:
  assumes "mstr_ok s" and "p + 2 + length (mstr_bytes s) \<le> length b"
    and "int (p + 2 + length (mstr_bytes s)) \<le> enddata"
  shows "\<exists>b' p' s'. writeMQTTString b p s = Some (b', p') \<and>
    readMQTTLenString s0 b' p enddata = Some (1, s', p') \<and>
    mstr_bytes s' = mstr_bytes s \<and> MQTTstrlen s' = MQTTstrlen s"
proof -
  obtain b' p' where w: "writeMQTTString b p s = Some (b', p')"
    using string_writer.write_total [OF assms(1)] assms(2) by fastforce
  from string_writer.write_has [OF assms(1) w]
  have h: "has b' p (str_wire (mstr_bytes s))" and p': "p' = p + 2 + length (mstr_bytes s)"
    by (simp_all add: mstr_wire_def)
  note r = readMQTTLenString_has [OF h mstr_ok_len [OF assms(1)], of enddata s0]
  from has_str_wireD [OF h] have "mstr_bytes (read_string b' (p + 2) (length (mstr_bytes s))) = mstr_bytes s"
    by (rule mstr_bytes_read_string)
  moreover from mstr_ok_read_string [OF has_str_wireD [OF h] mstr_ok_len [OF assms(1)]]
  have "mstr_ok (read_string b' (p + 2) (length (mstr_bytes s)))" .
  ultimately show ?thesis using w r p' assms by (simp add: MQTTstrlen_ok)
qed

theorem string_roundtrip_witness:
  "\<exists>b' p' s'. writeMQTTString (replicate 9 0) 3 (MQTTString_initializer\<lparr>cstring := Some [0x61, 0x2F]\<rparr>) = Some (b', p') \<and>
    readMQTTLenString MQTTString_initializer b' 3 7 = Some (1, s', p') \<and>
    mstr_bytes s' = mstr_bytes (MQTTString_initializer\<lparr>cstring := Some [0x61, 0x2F]\<rparr>) \<and>
    MQTTstrlen s' = MQTTstrlen (MQTTString_initializer\<lparr>cstring := Some [0x61, 0x2F]\<rparr>)"
  by (rule string_roundtrip) (simp_all add: mstr_ok_def mstr_bytes_def MQTTString_initializer_def)

text \<open>
  on arbitrary buffer contents, \<open>readMQTTLenString\<close> reads nothing
  outside the buffer, never moves the pointer past \<open>enddata\<close>, and a string it
  accepts lies between the old pointer and the new one.
\<close>

theorem read_string_stays_inside:
  assumes "enddata \<le> int (length b)" and "int p \<le> enddata"
  shows "\<exists>rc s' p'. readMQTTLenString s b p enddata = Some (rc, s', p') \<and> (rc = 0 \<or> rc = 1) \<and>
    p \<le> p' \<and> int p' \<le> enddata \<and>
    (rc = 1 \<longrightarrow> mstr_bytes s' = take (p' - p - 2) (drop (p + 2) b) \<and> mstr_ok s')"
  using assms by (rule read_string_in_range)

theorem read_string_stays_inside_witness:
  "\<exists>rc s' p'. readMQTTLenString MQTTString_initializer [0, 9, 1] 0 3 = Some (rc, s', p') \<and> (rc = 0 \<or> rc = 1) \<and>
    0 \<le> p' \<and> int p' \<le> 3 \<and>
    (rc = 1 \<longrightarrow> mstr_bytes s' = take (p' - 0 - 2) (drop (0 + 2) [0, 9, 1]) \<and> mstr_ok s')"
  by (rule read_string_stays_inside) simp_all

end
