(* ===== verification/Packet_Publish.thy ===== *)
theory Packet_Publish
  imports Packet_Base
begin

text \<open>
  PUBLISH and the four-byte acknowledgements:
  \<open>paho/MQTTPacket/src/MQTTSerializePublish.c\<close> and
  \<open>MQTTDeserializePublish.c\<close>. The out-parameters of a deserializer are a
  record that is passed in and returned, so a field the code does not assign
  keeps the caller's value. The payload pointer is the list of the bytes it
  addresses.

  The lemmas give the exact bytes of each packet, the exact overrun condition,
  the round trips, and what the deserializer does with malformed packets.
\<close>

section \<open>Operations\<close>

definition MQTTSerialize_publishLength :: "int \<Rightarrow> MQTTString \<Rightarrow> int \<Rightarrow> int option" where
  "MQTTSerialize_publishLength qos topicName payloadlen = do {
     len \<leftarrow> cint (2 + MQTTstrlen topicName);
     len \<leftarrow> cint (len + payloadlen);
     (if qos > 0 then cint (len + 2) else Some len) }"

definition MQTTSerialize_publish ::
  "buffer \<Rightarrow> int \<Rightarrow> byte \<Rightarrow> int \<Rightarrow> byte \<Rightarrow> 16 word \<Rightarrow> MQTTString \<Rightarrow> byte list \<Rightarrow> int \<Rightarrow> (int \<times> buffer) option" where
  "MQTTSerialize_publish buf buflen dup qos retained packetid topicName payload payloadlen = do {
     rem_len \<leftarrow> MQTTSerialize_publishLength qos topicName payloadlen;
     size \<leftarrow> MQTTPacket_len rem_len;
     (if size > buflen then Some (MQTTPACKET_BUFFER_TOO_SHORT, buf)
      else do {
        let header = set_retain retained (set_qos (uchar qos) (set_dup dup (set_type (msg_code PUBLISH) 0)));
        (b, p) \<leftarrow> writeChar buf 0 header;
        (b, p) \<leftarrow> encode_advance b p rem_len;
        (b, p) \<leftarrow> writeMQTTString b p topicName;
        (b, p) \<leftarrow> (if qos > 0 then writeInt b p (uint packetid) else Some (b, p));
        b \<leftarrow> memcpy b p payload payloadlen;
        Some (int (p + nat payloadlen), b) }) }"

definition MQTTSerialize_ack ::
  "buffer \<Rightarrow> int \<Rightarrow> byte \<Rightarrow> byte \<Rightarrow> 16 word \<Rightarrow> (int \<times> buffer) option" where
  "MQTTSerialize_ack buf buflen packettype dup packetid =
     (if buflen < 4 then Some (MQTTPACKET_BUFFER_TOO_SHORT, buf)
      else do {
        let header = set_qos (if packettype = msg_code PUBREL then 1 else 0)
                       (set_dup dup (set_type packettype 0));
        (b, p) \<leftarrow> writeChar buf 0 header;
        (b, p) \<leftarrow> encode_advance b p 2;
        (b, p) \<leftarrow> writeInt b p (uint packetid);
        Some (int p, b) })"

definition MQTTSerialize_puback :: "buffer \<Rightarrow> int \<Rightarrow> 16 word \<Rightarrow> (int \<times> buffer) option" where
  "MQTTSerialize_puback buf buflen packetid = MQTTSerialize_ack buf buflen (msg_code PUBACK) 0 packetid"

definition MQTTSerialize_pubrel :: "buffer \<Rightarrow> int \<Rightarrow> byte \<Rightarrow> 16 word \<Rightarrow> (int \<times> buffer) option" where
  "MQTTSerialize_pubrel buf buflen dup packetid = MQTTSerialize_ack buf buflen (msg_code PUBREL) dup packetid"

definition MQTTSerialize_pubcomp :: "buffer \<Rightarrow> int \<Rightarrow> 16 word \<Rightarrow> (int \<times> buffer) option" where
  "MQTTSerialize_pubcomp buf buflen packetid = MQTTSerialize_ack buf buflen (msg_code PUBCOMP) 0 packetid"

text \<open>The out-parameters of \<open>MQTTDeserialize_publish\<close>.\<close>

record publish_out =
  pub_dup :: byte
  pub_qos :: int
  pub_retained :: byte
  pub_packetid :: "16 word"
  pub_topicName :: MQTTString
  pub_payload :: "byte list"
  pub_payloadlen :: int

definition MQTTDeserialize_publish :: "publish_out \<Rightarrow> buffer \<Rightarrow> int \<Rightarrow> (int \<times> publish_out) option" where
  "MQTTDeserialize_publish out buf buflen = do {
     (header, p) \<leftarrow> readChar buf 0;
     (if header_type header \<noteq> msg_code PUBLISH then Some (0, out)
      else do {
        let out = out\<lparr>pub_dup := header_dup header, pub_qos := uint (header_qos header),
                      pub_retained := header_retain header\<rparr>;
        (rc, mylen) \<leftarrow> MQTTPacket_decodeBuf buf p;
        let p = p + nat rc;
        let enddata = int p + mylen;
        (ok, topicName, p) \<leftarrow> readMQTTLenString (pub_topicName out) buf p enddata;
        let out = out\<lparr>pub_topicName := topicName\<rparr>;
        (if ok = 0 \<or> enddata - int p < 0 then Some (rc, out)
         else do {
           (packetid, p) \<leftarrow>
             (if pub_qos out > 0 then do { (n, p) \<leftarrow> readInt buf p; Some (word_of_int n, p) }
              else Some (pub_packetid out, p));
           Some (1, out\<lparr>pub_packetid := packetid, pub_payloadlen := enddata - int p,
                        pub_payload := drop p buf\<rparr>) }) }) }"

text \<open>The out-parameters of \<open>MQTTDeserialize_ack\<close>.\<close>

record ack_out =
  ack_packettype :: byte
  ack_dup :: byte
  ack_packetid :: "16 word"

definition MQTTDeserialize_ack :: "ack_out \<Rightarrow> buffer \<Rightarrow> int \<Rightarrow> (int \<times> ack_out) option" where
  "MQTTDeserialize_ack out buf buflen = do {
     (header, p) \<leftarrow> readChar buf 0;
     let out = out\<lparr>ack_dup := header_dup header, ack_packettype := header_type header\<rparr>;
     (rc, mylen) \<leftarrow> MQTTPacket_decodeBuf buf p;
     let p = p + nat rc;
     let enddata = int p + mylen;
     (if enddata - int p < 2 then Some (rc, out)
      else do {
        (n, p) \<leftarrow> readInt buf p;
        Some (1, out\<lparr>ack_packetid := word_of_int n\<rparr>) }) }"

section \<open>The bytes of the packets\<close>

definition publish_header :: "byte \<Rightarrow> int \<Rightarrow> byte \<Rightarrow> byte" where
  "publish_header dup qos retained =
     set_retain retained (set_qos (uchar qos) (set_dup dup (set_type (msg_code PUBLISH) 0)))"

definition publish_body :: "int \<Rightarrow> 16 word \<Rightarrow> MQTTString \<Rightarrow> byte list \<Rightarrow> byte list" where
  "publish_body qos packetid topicName payload =
     mstr_wire topicName @ (if qos > 0 then int16_wire (uint packetid) else []) @ payload"

definition publish_wire ::
  "byte \<Rightarrow> int \<Rightarrow> byte \<Rightarrow> 16 word \<Rightarrow> MQTTString \<Rightarrow> byte list \<Rightarrow> byte list" where
  "publish_wire dup qos retained packetid topicName payload =
     (let body = publish_body qos packetid topicName payload
      in publish_header dup qos retained # enc_len (length body) @ body)"

lemma length_publish_body:
  "length (publish_body qos packetid topicName payload) =
     2 + length (mstr_bytes topicName) + (if qos > 0 then 2 else 0) + length payload"
  by (simp add: publish_body_def)

lemma publishLength_ok:
  assumes "mstr_ok topicName" and "length (publish_body qos packetid topicName payload) < 268435456"
  shows "MQTTSerialize_publishLength qos topicName (int (length payload)) =
     Some (int (length (publish_body qos packetid topicName payload)))"
  using assms
  by (auto simp: MQTTSerialize_publishLength_def MQTTstrlen_ok length_publish_body cint_def INT_MIN_def INT_MAX_def)

lemma serialize_publish_emit:
  assumes "mstr_ok topicName" and "length (publish_body qos packetid topicName payload) < 268435456"
    and "MQTTPacket_len (int (length (publish_body qos packetid topicName payload))) = Some sz"
  shows "MQTTSerialize_publish buf buflen dup qos retained packetid topicName payload (int (length payload)) =
    (if sz > buflen then Some (MQTTPACKET_BUFFER_TOO_SHORT, buf)
     else emit buf (publish_wire dup qos retained packetid topicName payload))"
proof -
  have cpy: "do { b \<leftarrow> memcpy b p payload (int (length payload)); Some (int p + int (length payload), b) } =
      do { (b, p) \<leftarrow> put b p payload; Some (int p, b) }" for b p
    by (auto simp: memcpy_def put_def)
  define n where "n = length (publish_body qos packetid topicName payload)"
  have wire: "publish_wire dup qos retained packetid topicName payload = publish_header dup qos retained #
      enc_len n @ mstr_wire topicName @ (if qos > 0 then int16_wire (uint packetid) else []) @ payload"
    by (simp add: publish_wire_def publish_body_def n_def)
  show ?thesis
    using publishLength_ok [OF assms(1,2)] assms(3)
    unfolding MQTTSerialize_publish_def publish_header_def [symmetric] wire n_def [symmetric]
    by (simp add: Let_def cpy wire_simps encode_advance_put writeMQTTString_put [OF assms(1)]
        writeInt_put emit_def cong: if_cong)
qed

lemma length_publish_wire:
  "length (publish_wire dup qos retained packetid topicName payload) =
     Suc (length (enc_len (length (publish_body qos packetid topicName payload))) +
          length (publish_body qos packetid topicName payload))"
  by (simp add: publish_wire_def Let_def)

lemma serialize_publish_cases:
  assumes "mstr_ok topicName" and "length (publish_body qos packetid topicName payload) < 268435456"
    and "buflen \<le> int (length buf)"
  shows "\<exists>sz. MQTTPacket_len (int (length (publish_body qos packetid topicName payload))) = Some sz \<and>
    MQTTSerialize_publish buf buflen dup qos retained packetid topicName payload (int (length payload)) =
    (let w = publish_wire dup qos retained packetid topicName payload
     in if sz > buflen then Some (MQTTPACKET_BUFFER_TOO_SHORT, buf)
        else Some (int (length w), w @ drop (length w) buf))"
proof -
  obtain sz where sz: "MQTTPacket_len (int (length (publish_body qos packetid topicName payload))) = Some sz"
    using packet_len_total assms(2) by fastforce
  have "length (publish_wire dup qos retained packetid topicName payload) \<le> length buf" if "sz \<le> buflen"
    using packet_len_fits [OF sz assms(2), of "length buf"] that assms(3) by (simp add: length_publish_wire)
  then show ?thesis
    using sz by (auto simp: serialize_publish_emit [OF assms(1,2) sz] emit_fits Let_def)
qed

lemma header_publish [simp]:
  "header_type (publish_header dup qos retained) = msg_code PUBLISH"
  "header_dup (publish_header dup qos retained) = dup AND 1"
  "header_qos (publish_header dup qos retained) = uchar qos AND 3"
  "header_retain (publish_header dup qos retained) = retained AND 1"
  by (simp_all add: publish_header_def bits_simps)

lemma uint_and_3: "0 \<le> qos \<Longrightarrow> qos \<le> 3 \<Longrightarrow> uint (uchar qos AND 3) = qos"
proof -
  assume "0 \<le> qos" "qos \<le> 3"
  then have "qos \<in> {0, 1, 2, 3}" by auto
  then show ?thesis by (auto simp: uchar_def)
qed

lemma deserialize_publish_has:
  assumes h: "has buf 0 (publish_wire dup qos retained packetid topicName payload)"
    and ok: "mstr_ok topicName" and n: "length (publish_body qos packetid topicName payload) < 268435456"
    and q: "0 \<le> qos" "qos \<le> 3"
  shows "\<exists>s p. MQTTDeserialize_publish out buf buflen = Some (1,
      \<lparr>pub_dup = dup AND 1, pub_qos = qos, pub_retained = retained AND 1,
       pub_packetid = (if qos > 0 then packetid else pub_packetid out),
       pub_topicName = s, pub_payload = drop p buf, pub_payloadlen = int (length payload)\<rparr>) \<and>
    mstr_ok s \<and> mstr_bytes s = mstr_bytes topicName \<and> take (length payload) (drop p buf) = payload \<and>
    (\<exists>a n. s = read_string buf a n \<and> a + n \<le> length buf)"
proof -
  define l where "l = length (publish_body qos packetid topicName payload)"
  define p where "p = Suc (length (enc_len l))"
  define xs where "xs = mstr_bytes topicName"
  define pid where "pid = (if qos > 0 then int16_wire (uint packetid) else [])"
  have hh: "load buf 0 = Some (publish_header dup qos retained)" "has buf 1 (enc_len l)"
    "has buf p (str_wire xs)" "has buf (p + 2 + length xs) pid"
    "has buf (p + 2 + length xs + length pid) payload"
    using h by (simp_all add: publish_wire_def publish_body_def l_def p_def xs_def pid_def mstr_wire_def
        Let_def has_simps ac_simps)
  have l: "l = 2 + length xs + length pid + length payload"
    by (simp add: l_def length_publish_body xs_def pid_def)
  have xs: "length xs < 65536" using mstr_ok_len [OF ok] by (simp add: xs_def)
  have dec: "MQTTPacket_decodeBuf buf 1 = Some (int p - 1, int l)"
    using decodeBuf_has [OF hh(2)] n by (simp add: l_def p_def)
  have str: "readMQTTLenString s buf p (int p + int l) = Some (1, read_string buf (p + 2) (length xs), p + 2 + length xs)" for s
    using readMQTTLenString_has [OF hh(3) xs] l by simp
  have pidr: "readInt buf (p + 2 + length xs) = Some (uint packetid, p + 2 + length xs + 2)" if "qos > 0"
    using hh(4) that uint_lt2p [of packetid] by (intro readInt_has) (simp_all add: pid_def is_u16_def)
  have "MQTTDeserialize_publish out buf buflen = Some (1,
      \<lparr>pub_dup = dup AND 1, pub_qos = qos, pub_retained = retained AND 1,
       pub_packetid = (if qos > 0 then packetid else pub_packetid out),
       pub_topicName = read_string buf (p + 2) (length xs),
       pub_payload = drop (p + 2 + length xs + length pid) buf, pub_payloadlen = int (length payload)\<rparr>)"
    using hh(1) dec str [of "pub_topicName out"] pidr l uint_and_3 [OF q] q
    by (simp add: MQTTDeserialize_publish_def readChar_def Let_def p_def pid_def)
  moreover have "mstr_ok (read_string buf (p + 2) (length xs))" "mstr_bytes (read_string buf (p + 2) (length xs)) = xs"
    using has_str_wireD [OF hh(3)] xs by (simp_all add: mstr_ok_read_string mstr_bytes_read_string)
  moreover have "take (length payload) (drop (p + 2 + length xs + length pid) buf) = payload"
    using hh(5) by (rule has_drop)
  moreover have "p + 2 + length xs \<le> length buf"
    using has_bound [OF hh(3)] by (simp add: str_wire_def)
  ultimately show ?thesis unfolding xs_def by blast
qed

section \<open>Acknowledgements\<close>

definition ack_header :: "byte \<Rightarrow> byte \<Rightarrow> byte" where
  "ack_header packettype dup =
     set_qos (if packettype = msg_code PUBREL then 1 else 0) (set_dup dup (set_type packettype 0))"

definition ack_wire :: "byte \<Rightarrow> byte \<Rightarrow> 16 word \<Rightarrow> byte list" where
  "ack_wire packettype dup packetid = [ack_header packettype dup, 2] @ int16_wire (uint packetid)"

lemma length_ack_wire [simp]: "length (ack_wire packettype dup packetid) = 4"
  by (simp add: ack_wire_def)

lemma header_ack [simp]:
  "header_type (ack_header packettype dup) = packettype AND 0x0F"
  "header_dup (ack_header packettype dup) = dup AND 1"
  by (simp_all add: ack_header_def bits_simps)

lemma serialize_ack_eq:
  assumes "buflen \<le> int (length buf)"
  shows "MQTTSerialize_ack buf buflen packettype dup packetid =
    (if buflen < 4 then Some (MQTTPACKET_BUFFER_TOO_SHORT, buf)
     else Some (4, ack_wire packettype dup packetid @ drop 4 buf))"
proof -
  have "MQTTSerialize_ack buf buflen packettype dup packetid =
    (if buflen < 4 then Some (MQTTPACKET_BUFFER_TOO_SHORT, buf) else emit buf (ack_wire packettype dup packetid))"
    unfolding MQTTSerialize_ack_def ack_header_def [symmetric]
    by (simp add: Let_def wire_simps encode_advance_put writeInt_put emit_def ack_wire_def enc_len_small)
  then show ?thesis using assms by (simp add: emit_fits)
qed

lemma deserialize_ack_has:
  assumes "has buf 0 (ack_wire packettype dup packetid)"
  shows "MQTTDeserialize_ack out buf buflen = Some (1,
    \<lparr>ack_packettype = packettype AND 0x0F, ack_dup = dup AND 1, ack_packetid = packetid\<rparr>)"
proof -
  have l: "load buf 0 = Some (ack_header packettype dup)" "load buf 1 = Some 2"
    and i: "has buf 2 (int16_wire (uint packetid))"
    using assms by (simp_all add: ack_wire_def has_simps numeral_eq_Suc)
  have "readInt buf 2 = Some (uint packetid, 2 + 2)"
    using i uint_lt2p [of packetid] by (intro readInt_has) (simp_all add: is_u16_def)
  moreover have "MQTTPacket_decodeBuf buf (Suc 0) = Some (1, 2)"
    using decodeBuf_one_byte [OF l(2)] by simp
  ultimately show ?thesis using l(1)
    by (simp add: MQTTDeserialize_ack_def readChar_def Let_def numeral_2_eq_2)
qed

section \<open>Properties\<close>

text \<open>
  \<open>MQTTSerialize_publish\<close> either refuses because the packet does not
  fit the announced buffer size, leaving the buffer as it was, or writes exactly the
  PUBLISH packet (header, remaining length, topic, packet identifier when QoS is
  above 0, payload) at the start of the buffer, leaves the rest alone and
  returns its length. It never writes outside the buffer.
\<close>

theorem publish_serialize_exact:
  assumes "mstr_ok topicName" and "length (publish_body qos packetid topicName payload) \<le> 268435455"
    and "buflen \<le> int (length buf)"
  shows "\<exists>sz. MQTTPacket_len (int (length (publish_body qos packetid topicName payload))) = Some sz \<and>
    MQTTSerialize_publish buf buflen dup qos retained packetid topicName payload (int (length payload)) =
    (let w = publish_wire dup qos retained packetid topicName payload
     in if sz > buflen then Some (MQTTPACKET_BUFFER_TOO_SHORT, buf)
        else Some (int (length w), w @ drop (length w) buf))"
  using assms by (intro serialize_publish_cases) simp_all

theorem publish_serialize_exact_witness:
  "\<exists>sz. MQTTPacket_len (int (length (publish_body 1 7 (MQTTString_initializer\<lparr>cstring := Some [0x61]\<rparr>) [1, 2]))) = Some sz \<and>
    MQTTSerialize_publish (replicate 20 0) 20 0 1 0 7 (MQTTString_initializer\<lparr>cstring := Some [0x61]\<rparr>) [1, 2] (int (length [1, 2 :: byte])) =
    (let w = publish_wire 0 1 0 7 (MQTTString_initializer\<lparr>cstring := Some [0x61]\<rparr>) [1, 2]
     in if sz > 20 then Some (MQTTPACKET_BUFFER_TOO_SHORT, replicate 20 0)
        else Some (int (length w), w @ drop (length w) (replicate 20 0)))"
  by (rule publish_serialize_exact)
     (simp_all add: mstr_ok_def mstr_bytes_def MQTTString_initializer_def length_publish_body)

text \<open>
  C11: a published message that was serialized (return value positive) is read
  back by \<open>MQTTDeserialize_publish\<close> with the same flags, QoS, topic and payload,
  and the same packet identifier when QoS is above 0.
\<close>

theorem publish_roundtrip:
  assumes "mstr_ok topicName" and "length (publish_body qos packetid topicName payload) \<le> 268435455"
    and "buflen \<le> int (length buf)" and "0 \<le> qos" and "qos \<le> 3" and "dup \<le> 1" and "retained \<le> 1"
    and "MQTTSerialize_publish buf buflen dup qos retained packetid topicName payload (int (length payload)) =
      Some (rc, buf')" and "0 < rc"
  shows "\<exists>out'. MQTTDeserialize_publish out buf' rc = Some (1, out') \<and>
    pub_dup out' = dup \<and> pub_qos out' = qos \<and> pub_retained out' = retained \<and>
    pub_packetid out' = (if qos > 0 then packetid else pub_packetid out) \<and>
    mstr_bytes (pub_topicName out') = mstr_bytes topicName \<and>
    pub_payloadlen out' = int (length payload) \<and>
    take (length payload) (pub_payload out') = payload"
proof -
  let ?w = "publish_wire dup qos retained packetid topicName payload"
  have lt: "length (publish_body qos packetid topicName payload) < 268435456" using assms(2) by simp
  have "buf' = ?w @ drop (length ?w) buf"
    using serialize_publish_cases [OF assms(1) lt assms(3), of dup retained] assms(8,9)
    by (auto simp: MQTTPACKET_BUFFER_TOO_SHORT_def Let_def split: if_splits)
  then have "has buf' 0 ?w" by (simp add: has_prefix)
  from deserialize_publish_has [OF this assms(1) lt assms(4,5), of out rc]
  obtain s p where d: "MQTTDeserialize_publish out buf' rc = Some (1,
      \<lparr>pub_dup = dup AND 1, pub_qos = qos, pub_retained = retained AND 1,
       pub_packetid = (if qos > 0 then packetid else pub_packetid out),
       pub_topicName = s, pub_payload = drop p buf', pub_payloadlen = int (length payload)\<rparr>)"
    "mstr_bytes s = mstr_bytes topicName" "take (length payload) (drop p buf') = payload" by blast
  moreover have "dup AND 1 = dup" "retained AND 1 = retained"
    using assms(6,7) by (simp_all add: and_one_small)
  ultimately show ?thesis by simp
qed

theorem publish_roundtrip_witness:
  "\<exists>out'. MQTTDeserialize_publish
      \<lparr>pub_dup = 1, pub_qos = 0, pub_retained = 0, pub_packetid = 0, pub_topicName = MQTTString_initializer,
       pub_payload = [], pub_payloadlen = 0\<rparr>
      (publish_wire 0 2 1 300 (MQTTString_initializer\<lparr>cstring := Some [0x61, 0x62]\<rparr>) [7] @ [0])
      (int (length (publish_wire 0 2 1 300 (MQTTString_initializer\<lparr>cstring := Some [0x61, 0x62]\<rparr>) [7]))) = Some (1, out') \<and>
    pub_dup out' = 0 \<and> pub_qos out' = 2 \<and> pub_retained out' = 1 \<and>
    pub_packetid out' = (if (2::int) > 0 then 300 else pub_packetid
      \<lparr>pub_dup = 1, pub_qos = 0, pub_retained = 0, pub_packetid = 0, pub_topicName = MQTTString_initializer,
       pub_payload = [], pub_payloadlen = 0\<rparr>) \<and>
    mstr_bytes (pub_topicName out') = mstr_bytes (MQTTString_initializer\<lparr>cstring := Some [0x61, 0x62]\<rparr>) \<and>
    pub_payloadlen out' = int (length [7 :: byte]) \<and> take (length [7 :: byte]) (pub_payload out') = [7]"
proof -
  let ?t = "MQTTString_initializer\<lparr>cstring := Some [0x61, 0x62]\<rparr>"
  have ok: "mstr_ok ?t" by (simp add: mstr_ok_def mstr_bytes_def MQTTString_initializer_def)
  have n: "length (publish_body 2 300 ?t [7]) = 7"
    by (simp add: length_publish_body mstr_bytes_def MQTTString_initializer_def)
  have w: "length (publish_wire 0 2 1 300 ?t [7]) = 9"
    by (simp add: length_publish_wire n enc_len_small)
  have sz: "MQTTPacket_len (int (length (publish_body 2 300 ?t [7]))) = Some 9"
    by (simp add: n MQTTPacket_len_def cint_def INT_MIN_def INT_MAX_def)
  have s: "MQTTSerialize_publish (replicate 10 0) 10 0 2 1 300 ?t [7] (int (length [7 :: byte])) =
      Some (int (length (publish_wire 0 2 1 300 ?t [7])), publish_wire 0 2 1 300 ?t [7] @ [0])"
    using serialize_publish_emit [OF ok _ sz, of "replicate 10 0" 10 0 1] n w by (simp add: emit_fits)
  show ?thesis by (rule publish_roundtrip [OF ok _ _ _ _ _ _ s]) (simp_all add: n w)
qed



text \<open>
  a PUBLISH packet too short to hold a topic is reported as success. The
  error return of \<open>MQTTDeserialize_publish\<close> is the number of length bytes, which
  is 1, the code for success, while the payload, its length and the packet
  identifier are not assigned.
\<close>

theorem publish_truncated_reported_as_success:
  assumes "header_type header = msg_code PUBLISH" and "uint l < 2"
  shows "MQTTDeserialize_publish out (header # l # rest) buflen = Some (1,
    out\<lparr>pub_dup := header_dup header, pub_qos := uint (header_qos header),
        pub_retained := header_retain header, pub_topicName := (pub_topicName out)\<lparr>cstring := None\<rparr>\<rparr>)"
proof -
  have "MQTTPacket_decodeBuf (header # l # rest) 1 = Some (1, uint l)"
    using assms(2) by (intro decodeBuf_one_byte) (simp_all add: load_def)
  moreover have "readMQTTLenString s (header # l # rest) 2 (2 + uint l) = Some (0, s\<lparr>cstring := None\<rparr>, 2)" for s
    using assms(2) by (cases s) (simp add: readMQTTLenString_def)
  ultimately show ?thesis
    using assms(1) by (simp add: MQTTDeserialize_publish_def readChar_def load_def Let_def numeral_2_eq_2)
qed

theorem publish_truncated_reported_as_success_witness:
  "MQTTDeserialize_publish
    \<lparr>pub_dup = 0, pub_qos = 0, pub_retained = 0, pub_packetid = 9, pub_topicName = MQTTString_initializer,
     pub_payload = [], pub_payloadlen = 55\<rparr> [0x31, 0] 2 = Some (1,
    \<lparr>pub_dup = 0, pub_qos = 0, pub_retained = 1, pub_packetid = 9, pub_topicName = MQTTString_initializer,
     pub_payload = [], pub_payloadlen = 55\<rparr>)"
proof -
  have "header_type 0x31 = msg_code PUBLISH" "uint (0 :: byte) < 2" by (simp_all add: header_type_def)
  from publish_truncated_reported_as_success [OF this] show ?thesis
    by (simp add: header_defs MQTTString_initializer_def)
qed

text \<open>
  in a PUBLISH packet with QoS above 0 whose topic fills the packet, the
  packet identifier is read from beyond the packet and the payload length returned
  is -2, with return code 1.
\<close>

theorem publish_missing_packetid_negative_length:
  assumes "header_type header = msg_code PUBLISH" and "header_qos header \<noteq> 0"
  shows "\<exists>out'. MQTTDeserialize_publish out (header # 2 # 0 # 0 # x # y # rest) buflen = Some (1, out') \<and>
    pub_payloadlen out' = - 2 \<and> pub_packetid out' = word_of_int (256 * uint x + uint y)"
proof -
  let ?b = "header # 2 # 0 # 0 # x # y # rest"
  have "MQTTPacket_decodeBuf ?b 1 = Some (1, 2)"
    using decodeBuf_one_byte [of ?b 1 2] by (simp add: load_def)
  moreover have "readMQTTLenString s ?b 2 4 = Some (1, read_string ?b 4 0, 4)" for s
    by (simp add: readMQTTLenString_def readInt_def load_def read_string_def)
  moreover have "readInt ?b 4 = Some (256 * uint x + uint y, 6)"
    by (simp add: readInt_def load_def numeral_eq_Suc)
  moreover have "0 < uint (header_qos header)"
    using assms(2) uint_ge_0 [of "header_qos header"] by (simp add: less_le uint_0_iff)
  ultimately show ?thesis
    using assms(1) by (simp add: MQTTDeserialize_publish_def readChar_def load_def Let_def numeral_2_eq_2 [symmetric])
qed

theorem publish_missing_packetid_negative_length_witness:
  "\<exists>out'. MQTTDeserialize_publish
    \<lparr>pub_dup = 0, pub_qos = 0, pub_retained = 0, pub_packetid = 9, pub_topicName = MQTTString_initializer,
     pub_payload = [], pub_payloadlen = 55\<rparr> [0x32, 2, 0, 0, 1, 2] 4 = Some (1, out') \<and>
    pub_payloadlen out' = - 2 \<and> pub_packetid out' = word_of_int (256 * uint (1 :: byte) + uint (2 :: byte))"
  by (rule publish_missing_packetid_negative_length) (simp_all add: header_defs)

text \<open>
  every acknowledgement is four bytes, with QoS bits 01 exactly for PUBREL,
  is written iff the announced buffer has room for it, and
  \<open>MQTTDeserialize_ack\<close> reads back its type, duplicate flag and packet identifier.
\<close>

theorem ack_roundtrip:
  assumes "buflen \<le> int (length buf)"
  shows "if buflen < 4
    then MQTTSerialize_ack buf buflen packettype dup packetid = Some (MQTTPACKET_BUFFER_TOO_SHORT, buf)
    else \<exists>buf'. MQTTSerialize_ack buf buflen packettype dup packetid = Some (4, buf') \<and>
      drop 4 buf' = drop 4 buf \<and> header_qos (hd buf') = (if packettype = msg_code PUBREL then 1 else 0) \<and>
      MQTTDeserialize_ack out buf' 4 = Some (1,
        \<lparr>ack_packettype = packettype AND 0x0F, ack_dup = dup AND 1, ack_packetid = packetid\<rparr>)"
proof -
  have "hd (ack_wire packettype dup packetid @ drop 4 buf) = ack_header packettype dup"
    by (simp add: ack_wire_def)
  then show ?thesis
    using serialize_ack_eq [OF assms, of packettype dup packetid]
      deserialize_ack_has [OF has_prefix [of "ack_wire packettype dup packetid" "drop 4 buf"], of out 4]
    by (simp add: ack_header_def bits_simps)
qed

theorem ack_roundtrip_witness:
  "if (6::int) < 4
    then MQTTSerialize_ack (replicate 6 0) 6 6 1 515 = Some (MQTTPACKET_BUFFER_TOO_SHORT, replicate 6 0)
    else \<exists>buf'. MQTTSerialize_ack (replicate 6 0) 6 6 1 515 = Some (4, buf') \<and>
      drop 4 buf' = drop 4 (replicate 6 0) \<and> header_qos (hd buf') = (if (6::byte) = msg_code PUBREL then 1 else 0) \<and>
      MQTTDeserialize_ack \<lparr>ack_packettype = 0, ack_dup = 0, ack_packetid = 0\<rparr> buf' 4 = Some (1,
        \<lparr>ack_packettype = 6 AND 0x0F, ack_dup = 1 AND 1, ack_packetid = 515\<rparr>)"
  by (rule ack_roundtrip) simp

text \<open>
  the first two bytes of PUBACK, PUBREL and PUBCOMP as the protocol has
  them, followed by the packet identifier, high byte first.
\<close>

theorem acks_on_the_wire:
  assumes "4 \<le> buflen" and "buflen \<le> int (length buf)"
  shows "MQTTSerialize_puback buf buflen packetid =
      Some (4, [0x40, 2, uchar (uint packetid div 256), uchar (uint packetid mod 256)] @ drop 4 buf) \<and>
    MQTTSerialize_pubrel buf buflen 0 packetid =
      Some (4, [0x62, 2, uchar (uint packetid div 256), uchar (uint packetid mod 256)] @ drop 4 buf) \<and>
    MQTTSerialize_pubcomp buf buflen packetid =
      Some (4, [0x70, 2, uchar (uint packetid div 256), uchar (uint packetid mod 256)] @ drop 4 buf)"
  using assms(1)
  by (simp add: MQTTSerialize_puback_def MQTTSerialize_pubrel_def MQTTSerialize_pubcomp_def
      serialize_ack_eq [OF assms(2)] ack_wire_def ack_header_def int16_wire_def header_defs)

theorem acks_on_the_wire_witness:
  "MQTTSerialize_puback [0, 0, 0, 0] 4 258 =
      Some (4, [0x40, 2, uchar (uint (258 :: 16 word) div 256), uchar (uint (258 :: 16 word) mod 256)] @ drop 4 [0, 0, 0, 0]) \<and>
    MQTTSerialize_pubrel [0, 0, 0, 0] 4 0 258 =
      Some (4, [0x62, 2, uchar (uint (258 :: 16 word) div 256), uchar (uint (258 :: 16 word) mod 256)] @ drop 4 [0, 0, 0, 0]) \<and>
    MQTTSerialize_pubcomp [0, 0, 0, 0] 4 258 =
      Some (4, [0x70, 2, uchar (uint (258 :: 16 word) div 256), uchar (uint (258 :: 16 word) mod 256)] @ drop 4 [0, 0, 0, 0])"
  by (rule acks_on_the_wire) simp_all

end
