(* ===== verification/Packet_Connect.thy ===== *)
theory Packet_Connect
  imports Packet_Base
begin

text \<open>
  CONNECT, CONNACK and the packets without a body:
  \<open>paho/MQTTPacket/src/MQTTConnectClient.c\<close>, \<open>MQTTConnectServer.c\<close>
  and the structures of \<open>MQTTConnect.h\<close>. The lemmas give the exact bytes of a
  CONNECT packet, its round trip through the server-side parser, and the
  size checks of CONNACK and of the empty packets.
\<close>

section \<open>Data\<close>

text \<open>\<open>MQTTConnectFlags\<close>: the layout without \<open>REVERSED\<close>.\<close>

definition flag_cleansession :: "byte \<Rightarrow> byte" where
  "flag_cleansession f = drop_bit 1 f AND 1"

definition flag_will :: "byte \<Rightarrow> byte" where
  "flag_will f = drop_bit 2 f AND 1"

definition flag_willQoS :: "byte \<Rightarrow> byte" where
  "flag_willQoS f = drop_bit 3 f AND 3"

definition flag_willRetain :: "byte \<Rightarrow> byte" where
  "flag_willRetain f = drop_bit 5 f AND 1"

definition flag_password :: "byte \<Rightarrow> byte" where
  "flag_password f = drop_bit 6 f AND 1"

definition flag_username :: "byte \<Rightarrow> byte" where
  "flag_username f = drop_bit 7 f AND 1"

definition set_cleansession :: "byte \<Rightarrow> byte \<Rightarrow> byte" where
  "set_cleansession v f = (f AND 0xFD) OR push_bit 1 (v AND 1)"

definition set_will :: "byte \<Rightarrow> byte \<Rightarrow> byte" where
  "set_will v f = (f AND 0xFB) OR push_bit 2 (v AND 1)"

definition set_willQoS :: "byte \<Rightarrow> byte \<Rightarrow> byte" where
  "set_willQoS v f = (f AND 0xE7) OR push_bit 3 (v AND 3)"

definition set_willRetain :: "byte \<Rightarrow> byte \<Rightarrow> byte" where
  "set_willRetain v f = (f AND 0xDF) OR push_bit 5 (v AND 1)"

definition set_password :: "byte \<Rightarrow> byte \<Rightarrow> byte" where
  "set_password v f = (f AND 0xBF) OR push_bit 6 (v AND 1)"

definition set_username :: "byte \<Rightarrow> byte \<Rightarrow> byte" where
  "set_username v f = (f AND 0x7F) OR push_bit 7 (v AND 1)"

lemmas flag_defs = flag_cleansession_def flag_will_def flag_willQoS_def flag_willRetain_def
  flag_password_def flag_username_def set_cleansession_def set_will_def set_willQoS_def
  set_willRetain_def set_password_def set_username_def

text \<open>\<open>MQTTConnackFlags\<close>\<close>

definition flag_sessionpresent :: "byte \<Rightarrow> byte" where
  "flag_sessionpresent f = f AND 1"

definition set_sessionpresent :: "byte \<Rightarrow> byte \<Rightarrow> byte" where
  "set_sessionpresent v f = (f AND 0xFE) OR (v AND 1)"

record MQTTPacket_willOptions =
  will_struct_id :: "byte list"
  will_struct_version :: int
  will_topicName :: MQTTString
  will_message :: MQTTString
  will_retained :: byte
  will_qos :: byte

record MQTTPacket_connectData =
  cd_struct_id :: "byte list"
  cd_struct_version :: int
  cd_MQTTVersion :: byte
  cd_clientID :: MQTTString
  cd_keepAliveInterval :: "16 word"
  cd_cleansession :: byte
  cd_willFlag :: byte
  cd_will :: MQTTPacket_willOptions
  cd_username :: MQTTString
  cd_password :: MQTTString

definition MQTTPacket_willOptions_initializer :: MQTTPacket_willOptions where
  "MQTTPacket_willOptions_initializer =
     \<lparr>will_struct_id = [0x4D, 0x51, 0x54, 0x57], will_struct_version = 0,
      will_topicName = MQTTString_initializer, will_message = MQTTString_initializer,
      will_retained = 0, will_qos = 0\<rparr>"

definition MQTTPacket_connectData_initializer :: MQTTPacket_connectData where
  "MQTTPacket_connectData_initializer =
     \<lparr>cd_struct_id = [0x4D, 0x51, 0x54, 0x43], cd_struct_version = 0, cd_MQTTVersion = 4,
      cd_clientID = MQTTString_initializer, cd_keepAliveInterval = 60, cd_cleansession = 1,
      cd_willFlag = 0, cd_will = MQTTPacket_willOptions_initializer,
      cd_username = MQTTString_initializer, cd_password = MQTTString_initializer\<rparr>"

section \<open>Client side\<close>

text \<open>The C strings \<open>"MQTT"\<close> and \<open>"MQIsdp"\<close>.\<close>

definition str_MQTT :: "byte list" where
  "str_MQTT = [0x4D, 0x51, 0x54, 0x54]"

definition str_MQIsdp :: "byte list" where
  "str_MQIsdp = [0x4D, 0x51, 0x49, 0x73, 0x64, 0x70]"

text \<open>\<open>s.cstring || s.lenstring.data\<close>\<close>

definition str_present :: "MQTTString \<Rightarrow> bool" where
  "str_present s \<longleftrightarrow> cstring s \<noteq> None \<or> ls_data (lenstring s) \<noteq> None"

definition MQTTSerialize_connectLength :: "MQTTPacket_connectData \<Rightarrow> int option" where
  "MQTTSerialize_connectLength options = do {
     let len = (if cd_MQTTVersion options = 3 then 12 else if cd_MQTTVersion options = 4 then 10 else 0);
     n \<leftarrow> cint (MQTTstrlen (cd_clientID options) + 2);
     len \<leftarrow> cint (len + n);
     len \<leftarrow> (if cd_willFlag options \<noteq> 0 then do {
         n \<leftarrow> cint (MQTTstrlen (will_topicName (cd_will options)) + 2);
         n \<leftarrow> cint (n + MQTTstrlen (will_message (cd_will options)));
         n \<leftarrow> cint (n + 2);
         cint (len + n) } else Some len);
     len \<leftarrow> (if str_present (cd_username options) then do {
         n \<leftarrow> cint (MQTTstrlen (cd_username options) + 2);
         cint (len + n) } else Some len);
     (if str_present (cd_password options) then do {
         n \<leftarrow> cint (MQTTstrlen (cd_password options) + 2);
         cint (len + n) } else Some len) }"

definition connect_flags :: "MQTTPacket_connectData \<Rightarrow> byte" where
  "connect_flags options =
     (let flags = set_cleansession (cd_cleansession options) 0;
          flags = set_will (if cd_willFlag options \<noteq> 0 then 1 else 0) flags;
          flags = (if flag_will flags \<noteq> 0
                   then set_willRetain (will_retained (cd_will options))
                          (set_willQoS (will_qos (cd_will options)) flags)
                   else flags);
          flags = (if str_present (cd_username options) then set_username 1 flags else flags)
      in if str_present (cd_password options) then set_password 1 flags else flags)"

definition MQTTSerialize_connect :: "buffer \<Rightarrow> int \<Rightarrow> MQTTPacket_connectData \<Rightarrow> (int \<times> buffer) option" where
  "MQTTSerialize_connect buf buflen options = do {
     len \<leftarrow> MQTTSerialize_connectLength options;
     size \<leftarrow> MQTTPacket_len len;
     (if size > buflen then Some (MQTTPACKET_BUFFER_TOO_SHORT, buf)
      else do {
        (b, p) \<leftarrow> writeChar buf 0 (set_type (msg_code CONNECT) 0);
        (b, p) \<leftarrow> encode_advance b p len;
        (b, p) \<leftarrow> writeCString b p (if cd_MQTTVersion options = 4 then str_MQTT else str_MQIsdp);
        (b, p) \<leftarrow> writeChar b p (if cd_MQTTVersion options = 4 then 4 else 3);
        let flags = connect_flags options;
        (b, p) \<leftarrow> writeChar b p flags;
        (b, p) \<leftarrow> writeInt b p (uint (cd_keepAliveInterval options));
        (b, p) \<leftarrow> writeMQTTString b p (cd_clientID options);
        (b, p) \<leftarrow> (if cd_willFlag options \<noteq> 0 then do {
            (b, p) \<leftarrow> writeMQTTString b p (will_topicName (cd_will options));
            writeMQTTString b p (will_message (cd_will options)) } else Some (b, p));
        (b, p) \<leftarrow> (if flag_username flags \<noteq> 0 then writeMQTTString b p (cd_username options) else Some (b, p));
        (b, p) \<leftarrow> (if flag_password flags \<noteq> 0 then writeMQTTString b p (cd_password options) else Some (b, p));
        Some (int p, b) }) }"

text \<open>The out-parameters of \<open>MQTTDeserialize_connack\<close>.\<close>

record connack_out =
  ca_sessionPresent :: byte
  ca_rc :: byte

definition MQTTDeserialize_connack :: "connack_out \<Rightarrow> buffer \<Rightarrow> int \<Rightarrow> (int \<times> connack_out) option" where
  "MQTTDeserialize_connack out buf buflen = do {
     (header, p) \<leftarrow> readChar buf 0;
     (if header_type header \<noteq> msg_code CONNACK then Some (0, out)
      else do {
        (rc, mylen) \<leftarrow> MQTTPacket_decodeBuf buf p;
        let p = p + nat rc;
        let enddata = int p + mylen;
        (if enddata - int p < 2 then Some (rc, out)
         else do {
           (flags, p) \<leftarrow> readChar buf p;
           (crc, p) \<leftarrow> readChar buf p;
           Some (1, out\<lparr>ca_sessionPresent := flag_sessionpresent flags, ca_rc := crc\<rparr>) }) }) }"

definition MQTTSerialize_zero :: "buffer \<Rightarrow> int \<Rightarrow> byte \<Rightarrow> (int \<times> buffer) option" where
  "MQTTSerialize_zero buf buflen packettype =
     (if buflen < 2 then Some (MQTTPACKET_BUFFER_TOO_SHORT, buf)
      else do {
        (b, p) \<leftarrow> writeChar buf 0 (set_type packettype 0);
        (b, p) \<leftarrow> encode_advance b p 0;
        Some (int p, b) })"

definition MQTTSerialize_disconnect :: "buffer \<Rightarrow> int \<Rightarrow> (int \<times> buffer) option" where
  "MQTTSerialize_disconnect buf buflen = MQTTSerialize_zero buf buflen (msg_code DISCONNECT)"

definition MQTTSerialize_pingreq :: "buffer \<Rightarrow> int \<Rightarrow> (int \<times> buffer) option" where
  "MQTTSerialize_pingreq buf buflen = MQTTSerialize_zero buf buflen (msg_code PINGREQ)"

section \<open>Server side\<close>

text \<open>\<open>memcmp(a, b, n) == 0\<close>; \<open>n\<close> is converted to a size.\<close>

definition memcmp_eq :: "byte list \<Rightarrow> byte list \<Rightarrow> int \<Rightarrow> bool option" where
  "memcmp_eq a b n = (if 0 \<le> n \<and> nat n \<le> length a \<and> nat n \<le> length b
     then Some (take (nat n) a = take (nat n) b) else None)"

definition MQTTPacket_checkVersion :: "MQTTString \<Rightarrow> int \<Rightarrow> int option" where
  "MQTTPacket_checkVersion protocol version = do {
     let data = (case ls_data (lenstring protocol) of None \<Rightarrow> [] | Some d \<Rightarrow> d);
     let len = ls_len (lenstring protocol);
     m3 \<leftarrow> (if version = 3 then memcmp_eq data str_MQIsdp (if 6 < len then 6 else len) else Some False);
     (if m3 then Some 1
      else do {
        m4 \<leftarrow> (if version = 4 then memcmp_eq data str_MQTT (if 4 < len then 4 else len) else Some False);
        Some (if m4 then 1 else 0) }) }"

text \<open>The block of \<open>MQTTDeserialize_connect\<close> for the will; \<open>False\<close> is the
  jump to \<open>exit\<close>.\<close>

definition read_will ::
  "MQTTPacket_connectData \<Rightarrow> byte \<Rightarrow> buffer \<Rightarrow> nat \<Rightarrow> int \<Rightarrow> (bool \<times> MQTTPacket_connectData \<times> nat) option" where
  "read_will data flags buf p enddata =
     (if flag_will flags = 0 then Some (True, data, p)
      else do {
        let will = (cd_will data)\<lparr>will_qos := flag_willQoS flags, will_retained := flag_willRetain flags\<rparr>;
        (ok, s, p) \<leftarrow> readMQTTLenString (will_topicName will) buf p enddata;
        let will = will\<lparr>will_topicName := s\<rparr>;
        (if ok = 0 then Some (False, data\<lparr>cd_will := will\<rparr>, p)
         else do {
           (ok, s, p) \<leftarrow> readMQTTLenString (will_message will) buf p enddata;
           Some (ok \<noteq> 0, data\<lparr>cd_will := will\<lparr>will_message := s\<rparr>\<rparr>, p) }) })"

text \<open>The block for user name and password.\<close>

definition read_auth ::
  "MQTTPacket_connectData \<Rightarrow> byte \<Rightarrow> buffer \<Rightarrow> nat \<Rightarrow> int \<Rightarrow> (bool \<times> MQTTPacket_connectData) option" where
  "read_auth data flags buf p enddata =
     (if flag_username flags \<noteq> 0 then
        (if enddata - int p < 3 then Some (False, data)
         else do {
           (ok, s, p) \<leftarrow> readMQTTLenString (cd_username data) buf p enddata;
           let data = data\<lparr>cd_username := s\<rparr>;
           (if ok = 0 then Some (False, data)
            else if flag_password flags \<noteq> 0 then
              (if enddata - int p < 3 then Some (False, data)
               else do {
                 (ok, s, p) \<leftarrow> readMQTTLenString (cd_password data) buf p enddata;
                 Some (ok \<noteq> 0, data\<lparr>cd_password := s\<rparr>) })
            else Some (True, data)) })
      else Some (flag_password flags = 0, data))"

definition MQTTDeserialize_connect ::
  "bool \<Rightarrow> MQTTPacket_connectData \<Rightarrow> buffer \<Rightarrow> int \<Rightarrow> (int \<times> MQTTPacket_connectData) option" where
  "MQTTDeserialize_connect char_signed data buf len = do {
     let enddata = len;
     (header, p) \<leftarrow> readChar buf 0;
     (if header_type header \<noteq> msg_code CONNECT then Some (0, data)
      else do {
        (rc, mylen) \<leftarrow> MQTTPacket_decodeBuf buf p;
        let p = p + nat rc;
        (ok, Protocol, p) \<leftarrow> readMQTTLenString MQTTString_initializer buf p enddata;
        (if ok = 0 \<or> enddata - int p < 0 then Some (0, data)
         else do {
           (v, p) \<leftarrow> readChar buf p;
           version_ok \<leftarrow> MQTTPacket_checkVersion Protocol (int_of_char char_signed v);
           (if version_ok = 0 then Some (0, data)
            else do {
              (flags, p) \<leftarrow> readChar buf p;
              let data = data\<lparr>cd_cleansession := flag_cleansession flags\<rparr>;
              (n, p) \<leftarrow> readInt buf p;
              let data = data\<lparr>cd_keepAliveInterval := word_of_int n\<rparr>;
              (ok, s, p) \<leftarrow> readMQTTLenString (cd_clientID data) buf p enddata;
              let data = data\<lparr>cd_clientID := s\<rparr>;
              (if ok = 0 then Some (0, data)
               else do {
                 let data = data\<lparr>cd_willFlag := flag_will flags\<rparr>;
                 (go, data, p) \<leftarrow> read_will data flags buf p enddata;
                 (if \<not> go then Some (0, data)
                  else do {
                    (go, data) \<leftarrow> read_auth data flags buf p enddata;
                    Some (if go then 1 else 0, data) }) }) }) }) }) }"

definition MQTTSerialize_connack :: "buffer \<Rightarrow> int \<Rightarrow> byte \<Rightarrow> byte \<Rightarrow> (int \<times> buffer) option" where
  "MQTTSerialize_connack buf buflen connack_rc sessionPresent =
     (if buflen < 2 then Some (MQTTPACKET_BUFFER_TOO_SHORT, buf)
      else do {
        (b, p) \<leftarrow> writeChar buf 0 (set_type (msg_code CONNACK) 0);
        (b, p) \<leftarrow> encode_advance b p 2;
        (b, p) \<leftarrow> writeChar b p (set_sessionpresent sessionPresent 0);
        (b, p) \<leftarrow> writeChar b p connack_rc;
        Some (int p, b) })"

section \<open>The bytes of a CONNECT packet\<close>

lemma connect_flags_get [simp]:
  "flag_cleansession (connect_flags options) = cd_cleansession options AND 1"
  "flag_will (connect_flags options) = (if cd_willFlag options \<noteq> 0 then 1 else 0)"
  "flag_username (connect_flags options) = (if str_present (cd_username options) then 1 else 0)"
  "flag_password (connect_flags options) = (if str_present (cd_password options) then 1 else 0)"
  by (simp_all add: connect_flags_def Let_def flag_defs byte_eq_iff bit_simps bit_byte_double)

lemma connect_flags_get_will [simp]:
  assumes "cd_willFlag options \<noteq> 0"
  shows "flag_willQoS (connect_flags options) = will_qos (cd_will options) AND 3"
    and "flag_willRetain (connect_flags options) = will_retained (cd_will options) AND 1"
  using assms by (simp_all add: connect_flags_def Let_def flag_defs byte_eq_iff bit_simps bit_byte_double)

definition protocol_name :: "MQTTPacket_connectData \<Rightarrow> byte list" where
  "protocol_name options = (if cd_MQTTVersion options = 4 then str_MQTT else str_MQIsdp)"

definition connect_body :: "MQTTPacket_connectData \<Rightarrow> byte list" where
  "connect_body options =
     str_wire (protocol_name options) @
     [if cd_MQTTVersion options = 4 then 4 else 3, connect_flags options] @
     int16_wire (uint (cd_keepAliveInterval options)) @
     mstr_wire (cd_clientID options) @
     (if cd_willFlag options \<noteq> 0
      then mstr_wire (will_topicName (cd_will options)) @ mstr_wire (will_message (cd_will options)) else []) @
     (if str_present (cd_username options) then mstr_wire (cd_username options) else []) @
     (if str_present (cd_password options) then mstr_wire (cd_password options) else [])"

definition connect_wire :: "MQTTPacket_connectData \<Rightarrow> byte list" where
  "connect_wire options = 0x10 # enc_len (length (connect_body options)) @ connect_body options"

text \<open>Options the serializer handles: version 3 or 4, and every string it sends
  well-formed.\<close>

definition connect_ok :: "MQTTPacket_connectData \<Rightarrow> bool" where
  "connect_ok options \<longleftrightarrow>
     (cd_MQTTVersion options = 3 \<or> cd_MQTTVersion options = 4) \<and> mstr_ok (cd_clientID options) \<and>
     (cd_willFlag options \<noteq> 0 \<longrightarrow>
        mstr_ok (will_topicName (cd_will options)) \<and> mstr_ok (will_message (cd_will options))) \<and>
     (str_present (cd_username options) \<longrightarrow> mstr_ok (cd_username options)) \<and>
     (str_present (cd_password options) \<longrightarrow> mstr_ok (cd_password options))"

lemma length_protocol_name: "length (protocol_name options) = (if cd_MQTTVersion options = 4 then 4 else 6)"
  by (simp add: protocol_name_def str_MQTT_def str_MQIsdp_def)

lemma length_connect_body:
  "length (connect_body options) =
     (if cd_MQTTVersion options = 4 then 10 else 12) + (length (mstr_bytes (cd_clientID options)) + 2) +
     (if cd_willFlag options \<noteq> 0 then length (mstr_bytes (will_topicName (cd_will options))) + 2 +
        (length (mstr_bytes (will_message (cd_will options))) + 2) else 0) +
     (if str_present (cd_username options) then length (mstr_bytes (cd_username options)) + 2 else 0) +
     (if str_present (cd_password options) then length (mstr_bytes (cd_password options)) + 2 else 0)"
  by (simp add: connect_body_def length_protocol_name)

lemma length_connect_body_less: "connect_ok options \<Longrightarrow> length (connect_body options) < 327698"
  unfolding length_connect_body connect_ok_def
  by (auto dest!: mstr_ok_len)

lemma cint_small: "0 \<le> x \<Longrightarrow> x \<le> 1000000 \<Longrightarrow> cint x = Some x"
  by (simp add: cint_def INT_MIN_def INT_MAX_def)

lemma connectLength_ok:
  assumes ok: "connect_ok options"
  shows "MQTTSerialize_connectLength options = Some (int (length (connect_body options)))"
proof -
  let ?l = "\<lambda>s. length (mstr_bytes s)"
  have c: "mstr_ok (cd_clientID options)" "?l (cd_clientID options) < 65536"
    using ok by (auto simp: connect_ok_def dest: mstr_ok_len)
  have w: "mstr_ok (will_topicName (cd_will options)) \<and> mstr_ok (will_message (cd_will options)) \<and>
      ?l (will_topicName (cd_will options)) < 65536 \<and> ?l (will_message (cd_will options)) < 65536"
    if "cd_willFlag options \<noteq> 0" using that ok by (auto simp: connect_ok_def dest: mstr_ok_len)
  have u: "mstr_ok (cd_username options) \<and> ?l (cd_username options) < 65536"
    if "str_present (cd_username options)" using that ok by (auto simp: connect_ok_def dest: mstr_ok_len)
  have p: "mstr_ok (cd_password options) \<and> ?l (cd_password options) < 65536"
    if "str_present (cd_password options)" using that ok by (auto simp: connect_ok_def dest: mstr_ok_len)
  have v: "cd_MQTTVersion options \<noteq> 4 \<Longrightarrow> cd_MQTTVersion options = 3" using ok by (auto simp: connect_ok_def)
  show ?thesis
    using c w u p v unfolding MQTTSerialize_connectLength_def length_connect_body
    by (cases "cd_willFlag options = 0"; cases "str_present (cd_username options)";
        cases "str_present (cd_password options)"; cases "cd_MQTTVersion options = 4")
       (simp_all add: MQTTstrlen_ok cint_small)
qed

lemma serialize_connect_emit:
  assumes ok: "connect_ok options" and sz: "MQTTPacket_len (int (length (connect_body options))) = Some sz"
  shows "MQTTSerialize_connect buf buflen options =
    (if sz > buflen then Some (MQTTPACKET_BUFFER_TOO_SHORT, buf) else emit buf (connect_wire options))"
proof -
  define n where "n = length (connect_body options)"
  have str: "writeMQTTString b p (cd_clientID options) = put b p (mstr_wire (cd_clientID options))"
    "cd_willFlag options \<noteq> 0 \<Longrightarrow> writeMQTTString b p (will_topicName (cd_will options)) =
       put b p (mstr_wire (will_topicName (cd_will options)))"
    "cd_willFlag options \<noteq> 0 \<Longrightarrow> writeMQTTString b p (will_message (cd_will options)) =
       put b p (mstr_wire (will_message (cd_will options)))"
    "str_present (cd_username options) \<Longrightarrow> writeMQTTString b p (cd_username options) = put b p (mstr_wire (cd_username options))"
    "str_present (cd_password options) \<Longrightarrow> writeMQTTString b p (cd_password options) = put b p (mstr_wire (cd_password options))"
    for b p using ok by (auto simp: connect_ok_def writeMQTTString_put)
  have name: "writeCString b p (protocol_name options) = put b p (str_wire (protocol_name options))" for b p
    by (rule writeCString_put) (simp add: length_protocol_name)
  have wire: "connect_wire options = 0x10 # enc_len n @ connect_body options"
    by (simp add: connect_wire_def n_def)
  have h: "set_type (msg_code CONNECT) 0 = 0x10" by (simp add: set_type_def)
  have L: "MQTTSerialize_connectLength options = Some (int n)" "MQTTPacket_len (int n) = Some sz"
    using connectLength_ok [OF ok] sz by (simp_all add: n_def)
  show ?thesis
    unfolding MQTTSerialize_connect_def wire connect_body_def protocol_name_def [symmetric] h
    by (simp add: L Let_def str name wire_simps encode_advance_put writeInt_put emit_def if_distrib [of "\<lambda>x. x \<noteq> (0::byte)"] cong: if_cong)
qed

section \<open>Parsing a CONNECT packet\<close>

lemma length_protocol_strings [simp]: "length str_MQTT = 4" "length str_MQIsdp = 6"
  by (simp_all add: str_MQTT_def str_MQIsdp_def)

lemma checkVersion_ok:
  assumes "has buf p (protocol_name options)" and "cd_MQTTVersion options = 3 \<or> cd_MQTTVersion options = 4"
  shows "MQTTPacket_checkVersion (read_string buf p (length (protocol_name options)))
    (int_of_char char_signed (if cd_MQTTVersion options = 4 then 4 else 3)) = Some 1"
proof -
  note d = has_drop [OF assms(1)] has_bound [OF assms(1)]
  show ?thesis
  proof (cases "cd_MQTTVersion options = 4")
    case True
    with d have "take 4 (drop p buf) = str_MQTT" "p + 4 \<le> length buf" by (simp_all add: protocol_name_def)
    with True show ?thesis
      by (simp add: MQTTPacket_checkVersion_def read_string_def memcmp_eq_def int_of_char_def protocol_name_def Let_def)
  next
    case False
    with d have "take 6 (drop p buf) = str_MQIsdp" "p + 6 \<le> length buf" by (simp_all add: protocol_name_def)
    with False show ?thesis
      by (simp add: MQTTPacket_checkVersion_def read_string_def memcmp_eq_def int_of_char_def protocol_name_def Let_def)
  qed
qed

text \<open>What the optional parts of the packet need to be accepted: a password only
  with a user name, and no empty string at the end of the packet.\<close>

definition auth_ok :: "MQTTPacket_connectData \<Rightarrow> bool" where
  "auth_ok options \<longleftrightarrow>
     (str_present (cd_password options) \<longrightarrow> str_present (cd_username options) \<and> mstr_bytes (cd_password options) \<noteq> []) \<and>
     (str_present (cd_username options) \<longrightarrow> mstr_bytes (cd_username options) \<noteq> [] \<or> str_present (cd_password options))"

definition will_part :: "MQTTPacket_connectData \<Rightarrow> byte list" where
  "will_part options = (if cd_willFlag options \<noteq> 0
     then mstr_wire (will_topicName (cd_will options)) @ mstr_wire (will_message (cd_will options)) else [])"

definition auth_part :: "MQTTPacket_connectData \<Rightarrow> byte list" where
  "auth_part options =
     (if str_present (cd_username options) then mstr_wire (cd_username options) else []) @
     (if str_present (cd_password options) then mstr_wire (cd_password options) else [])"

text \<open>Two option records carry the same string.\<close>

definition same_str :: "MQTTString \<Rightarrow> MQTTString \<Rightarrow> bool" where
  "same_str s t \<longleftrightarrow> mstr_bytes s = mstr_bytes t"

lemma read_will_has:
  assumes "connect_ok options" and "has buf p (will_part options)"
    and "int p + int (length (will_part options)) \<le> enddata"
  shows "\<exists>w. read_will data (connect_flags options) buf p enddata =
      Some (True, data\<lparr>cd_will := w\<rparr>, p + length (will_part options)) \<and>
    (if cd_willFlag options \<noteq> 0
     then same_str (will_topicName w) (will_topicName (cd_will options)) \<and>
       same_str (will_message w) (will_message (cd_will options)) \<and>
       will_qos w = will_qos (cd_will options) AND 3 \<and> will_retained w = will_retained (cd_will options) AND 1
     else w = cd_will data)"
proof (cases "cd_willFlag options = 0")
  case True
  then show ?thesis by (auto simp: read_will_def will_part_def intro: exI [of _ "cd_will data"])
next
  case False
  let ?t = "will_topicName (cd_will options)" and ?m = "will_message (cd_will options)"
  from False assms have ok: "mstr_ok ?t" "mstr_ok ?m" and
    h: "has buf p (mstr_wire ?t)" "has buf (p + length (mstr_wire ?t)) (mstr_wire ?m)"
    and e: "int p + int (length (mstr_wire ?t)) + int (length (mstr_wire ?m)) \<le> enddata"
    by (simp_all add: connect_ok_def will_part_def has_simps del: length_mstr_wire)
  have "readMQTTLenString s0 buf p enddata = Some (1, reread buf p ?t, p + length (mstr_wire ?t))" for s0
    using readMQTTLenString_wire [OF ok(1) h(1), of enddata] e by (simp del: length_mstr_wire)
  moreover have "readMQTTLenString s0 buf (p + length (mstr_wire ?t)) enddata =
      Some (1, reread buf (p + length (mstr_wire ?t)) ?m, p + length (mstr_wire ?t) + length (mstr_wire ?m))" for s0
    using readMQTTLenString_wire [OF ok(2) h(2), of enddata] e by (simp del: length_mstr_wire)
  ultimately show ?thesis using False reread_same [OF ok(1) h(1)] reread_same [OF ok(2) h(2)]
    by (auto simp: read_will_def will_part_def same_str_def Let_def simp del: length_mstr_wire
        intro: exI [of _ "(cd_will data)\<lparr>will_qos := will_qos (cd_will options) AND 3,
           will_retained := will_retained (cd_will options) AND 1, will_topicName := reread buf p ?t,
           will_message := reread buf (p + length (mstr_wire ?t)) ?m\<rparr>"])
qed

lemma read_auth_has:
  assumes ok: "connect_ok options" and a: "auth_ok options" and h: "has buf p (auth_part options)"
    and e: "int p + int (length (auth_part options)) = enddata"
  shows "\<exists>u pw. read_auth data (connect_flags options) buf p enddata =
      Some (True, data\<lparr>cd_username := u, cd_password := pw\<rparr>) \<and>
    (if str_present (cd_username options) then same_str u (cd_username options) else u = cd_username data) \<and>
    (if str_present (cd_password options) then same_str pw (cd_password options) else pw = cd_password data)"
proof (cases "str_present (cd_username options)")
  case False
  then have "\<not> str_present (cd_password options)" using a by (auto simp: auth_ok_def)
  with False show ?thesis
    by (auto simp: read_auth_def intro!: exI [of _ "cd_username data"] exI [of _ "cd_password data"])
next
  case True
  let ?u = "cd_username options" and ?w = "cd_password options"
  let ?q = "p + length (mstr_wire ?u)"
  have uok: "mstr_ok ?u" "has buf p (mstr_wire ?u)"
    using True ok h by (simp_all add: connect_ok_def auth_part_def has_simps)
  have ru: "readMQTTLenString s0 buf p enddata = Some (1, reread buf p ?u, ?q)" for s0
    using readMQTTLenString_wire [OF uok, of enddata] e True by (simp add: auth_part_def)
  show ?thesis
  proof (cases "str_present ?w")
    case False
    with True a e have "3 \<le> enddata - int p"
      by (auto simp: auth_ok_def auth_part_def Suc_le_eq)
    then have "read_auth data (connect_flags options) buf p enddata =
        Some (True, data\<lparr>cd_username := reread buf p ?u, cd_password := cd_password data\<rparr>)"
      using True False ru by (simp add: read_auth_def Let_def)
    then show ?thesis using True False reread_same(1) [OF uok]
      by (intro exI conjI) (assumption, simp_all add: same_str_def)
  next
    case pw: True
    then have wok: "mstr_ok ?w" "has buf ?q (mstr_wire ?w)" and ne: "mstr_bytes ?w \<noteq> []"
      using True ok h a by (simp_all add: connect_ok_def auth_part_def has_simps auth_ok_def)
    have e': "int ?q + int (length (mstr_wire ?w)) = enddata" using e True pw by (simp add: auth_part_def)
    have rw: "readMQTTLenString s0 buf ?q enddata = Some (1, reread buf ?q ?w, ?q + length (mstr_wire ?w))" for s0
      using readMQTTLenString_wire [OF wok, of enddata] e' by simp
    have "1 \<le> length (mstr_bytes ?w)" using ne by (cases "mstr_bytes ?w") auto
    then have "3 \<le> enddata - int ?q" "3 \<le> enddata - int p" using e' by simp_all
    then have "read_auth data (connect_flags options) buf p enddata =
        Some (True, data\<lparr>cd_username := reread buf p ?u, cd_password := reread buf ?q ?w\<rparr>)"
      using True pw ru rw by (simp add: read_auth_def Let_def)
    then show ?thesis using True pw reread_same(1) [OF uok] reread_same(1) [OF wok]
      by (intro exI conjI) (assumption, simp_all add: same_str_def)
  qed
qed

text \<open>What the parser recovers of the options a CONNECT packet was built from.\<close>

definition connect_agrees :: "MQTTPacket_connectData \<Rightarrow> MQTTPacket_connectData \<Rightarrow> MQTTPacket_connectData \<Rightarrow> bool" where
  "connect_agrees options data data' \<longleftrightarrow>
     cd_cleansession data' = cd_cleansession options AND 1 \<and>
     cd_keepAliveInterval data' = cd_keepAliveInterval options \<and>
     same_str (cd_clientID data') (cd_clientID options) \<and>
     cd_willFlag data' = (if cd_willFlag options \<noteq> 0 then 1 else 0) \<and>
     (if cd_willFlag options \<noteq> 0
      then same_str (will_topicName (cd_will data')) (will_topicName (cd_will options)) \<and>
        same_str (will_message (cd_will data')) (will_message (cd_will options)) \<and>
        will_qos (cd_will data') = will_qos (cd_will options) AND 3 \<and>
        will_retained (cd_will data') = will_retained (cd_will options) AND 1
      else cd_will data' = cd_will data) \<and>
     (if str_present (cd_username options) then same_str (cd_username data') (cd_username options)
      else cd_username data' = cd_username data) \<and>
     (if str_present (cd_password options) then same_str (cd_password data') (cd_password options)
      else cd_password data' = cd_password data)"

lemma deserialize_connect_has:
  assumes ok: "connect_ok options" and a: "auth_ok options"
    and h: "has buf 0 (connect_wire options)"
  shows "\<exists>data'. MQTTDeserialize_connect char_signed data buf (int (length (connect_wire options))) = Some (1, data') \<and>
    connect_agrees options data data'"
proof -
  define l where "l = length (connect_body options)"
  define p where "p = Suc (length (enc_len l))"
  define name where "name = protocol_name options"
  define q where "q = p + length (str_wire name)"
  define c where "c = cd_clientID options"
  define r where "r = q + 4 + length (mstr_wire c)"
  define e where "e = int (length (connect_wire options))"
  have hh: "load buf 0 = Some 0x10" "has buf 1 (enc_len l)" "has buf p (str_wire name)"
    "load buf q = Some (if cd_MQTTVersion options = 4 then 4 else 3)"
    "load buf (Suc q) = Some (connect_flags options)"
    "has buf (q + 2) (int16_wire (uint (cd_keepAliveInterval options)))"
    "has buf (q + 4) (mstr_wire c)" "has buf r (will_part options)"
    "has buf (r + length (will_part options)) (auth_part options)"
    using h by (simp_all add: connect_wire_def connect_body_def l_def p_def name_def q_def c_def r_def
        will_part_def auth_part_def has_simps ac_simps numeral_eq_Suc del: length_mstr_wire length_str_wire)
  have e: "e = int r + int (length (will_part options)) + int (length (auth_part options))"
    by (simp add: e_def r_def q_def p_def l_def connect_wire_def connect_body_def will_part_def auth_part_def
        name_def c_def)
  have cok: "mstr_ok c" using ok by (simp add: connect_ok_def c_def)
  have nl: "length name < 65536" by (simp add: name_def length_protocol_name)
  have dec: "MQTTPacket_decodeBuf buf 1 = Some (int p - 1, int l)"
    using decodeBuf_has [OF hh(2)] length_connect_body_less [OF ok] by (simp add: l_def p_def)
  have rn: "readMQTTLenString s0 buf p e = Some (1, read_string buf (p + 2) (length name), q)" for s0
    using readMQTTLenString_has [OF hh(3) nl, of e s0] e by (simp add: q_def r_def)
  have ver: "MQTTPacket_checkVersion (read_string buf (p + 2) (length name))
      (int_of_char char_signed (if cd_MQTTVersion options = 4 then 4 else 3)) = Some 1"
    using checkVersion_ok [of buf "p + 2" options] has_str_wireD [OF hh(3)] ok by (simp add: name_def connect_ok_def)
  have ri: "readInt buf (q + 2) = Some (uint (cd_keepAliveInterval options), q + 4)"
    using readInt_has [OF _ hh(6)] uint_lt2p [of "cd_keepAliveInterval options"] by (simp add: is_u16_def)
  have rc: "readMQTTLenString s0 buf (q + 4) e = Some (1, reread buf (q + 4) c, r)" for s0
    using readMQTTLenString_wire [OF cok hh(7), of e s0] e by (simp add: r_def)
  let ?d = "data\<lparr>cd_cleansession := cd_cleansession options AND 1, cd_keepAliveInterval := cd_keepAliveInterval options,
      cd_clientID := reread buf (q + 4) c, cd_willFlag := if cd_willFlag options \<noteq> 0 then 1 else 0\<rparr>"
  obtain w where w: "read_will ?d (connect_flags options) buf r e =
      Some (True, ?d\<lparr>cd_will := w\<rparr>, r + length (will_part options))"
    and w': "if cd_willFlag options \<noteq> 0
     then same_str (will_topicName w) (will_topicName (cd_will options)) \<and>
       same_str (will_message w) (will_message (cd_will options)) \<and>
       will_qos w = will_qos (cd_will options) AND 3 \<and> will_retained w = will_retained (cd_will options) AND 1
     else w = cd_will ?d"
    using read_will_has [OF ok hh(8), of e ?d] e by auto
  obtain u pw where au: "read_auth (?d\<lparr>cd_will := w\<rparr>) (connect_flags options) buf (r + length (will_part options)) e =
      Some (True, ?d\<lparr>cd_will := w, cd_username := u, cd_password := pw\<rparr>)"
    and au': "if str_present (cd_username options) then same_str u (cd_username options) else u = cd_username data"
    "if str_present (cd_password options) then same_str pw (cd_password options) else pw = cd_password data"
    using read_auth_has [OF ok a hh(9), of e "?d\<lparr>cd_will := w\<rparr>"] e by auto
  have "MQTTDeserialize_connect char_signed data buf e =
      Some (1, ?d\<lparr>cd_will := w, cd_username := u, cd_password := pw\<rparr>)"
  proof -
    have "header_type 0x10 = msg_code CONNECT" by (simp add: header_type_def)
    moreover have "int q \<le> e" using e by (simp add: r_def)
    ultimately show ?thesis
      using hh(1,4,5) dec rn ver ri rc w au
      by (simp add: MQTTDeserialize_connect_def readChar_def Let_def p_def)
  qed
  moreover have "connect_agrees options data (?d\<lparr>cd_will := w, cd_username := u, cd_password := pw\<rparr>)"
    using w' au' reread_same(1) [OF cok hh(7)] by (auto simp: connect_agrees_def same_str_def c_def)
  ultimately show ?thesis unfolding e_def by blast
qed

lemma serialize_connect_cases:
  assumes "connect_ok options" and "buflen \<le> int (length buf)"
  shows "\<exists>sz. MQTTPacket_len (int (length (connect_body options))) = Some sz \<and>
    MQTTSerialize_connect buf buflen options =
    (let w = connect_wire options
     in if sz > buflen then Some (MQTTPACKET_BUFFER_TOO_SHORT, buf)
        else Some (int (length w), w @ drop (length w) buf))"
proof -
  have n: "length (connect_body options) < 268435456" using length_connect_body_less [OF assms(1)] by simp
  then obtain sz where sz: "MQTTPacket_len (int (length (connect_body options))) = Some sz"
    using packet_len_total by fastforce
  have "length (connect_wire options) \<le> length buf" if "sz \<le> buflen"
    using packet_len_fits [OF sz n, of "length buf"] that assms(2) by (simp add: connect_wire_def)
  then show ?thesis
    using sz by (auto simp: serialize_connect_emit [OF assms(1) sz] emit_fits Let_def)
qed

section \<open>CONNACK and the empty packets\<close>

definition connack_wire :: "byte \<Rightarrow> byte \<Rightarrow> byte list" where
  "connack_wire connack_rc sessionPresent = [0x20, 2, sessionPresent AND 1, connack_rc]"

lemma serialize_connack_emit:
  "MQTTSerialize_connack buf buflen connack_rc sessionPresent =
    (if buflen < 2 then Some (MQTTPACKET_BUFFER_TOO_SHORT, buf)
     else emit buf (connack_wire connack_rc sessionPresent))"
  by (simp add: MQTTSerialize_connack_def wire_simps encode_advance_put emit_def connack_wire_def enc_len_small
      set_type_def set_sessionpresent_def)

lemma deserialize_connack_has:
  assumes "has buf 0 (connack_wire connack_rc sessionPresent)"
  shows "MQTTDeserialize_connack out buf buflen =
    Some (1, \<lparr>ca_sessionPresent = sessionPresent AND 1, ca_rc = connack_rc\<rparr>)"
proof -
  have l: "load buf 0 = Some 0x20" "load buf 1 = Some 2" "load buf 2 = Some (sessionPresent AND 1)"
    "load buf 3 = Some connack_rc"
    using assms by (simp_all add: connack_wire_def has_simps numeral_eq_Suc)
  moreover have "MQTTPacket_decodeBuf buf (Suc 0) = Some (1, 2)"
    using decodeBuf_one_byte [OF l(2)] by simp
  moreover have "header_type 0x20 = msg_code CONNACK" by (simp add: header_type_def)
  ultimately show ?thesis
    by (simp add: MQTTDeserialize_connack_def readChar_def Let_def flag_sessionpresent_def
        numeral_2_eq_2 [symmetric] numeral_3_eq_3 [symmetric])
qed

lemma serialize_zero_emit:
  "MQTTSerialize_zero buf buflen packettype =
    (if buflen < 2 then Some (MQTTPACKET_BUFFER_TOO_SHORT, buf) else emit buf [set_type packettype 0, 0])"
  by (simp add: MQTTSerialize_zero_def wire_simps encode_advance_put emit_def enc_len_small)

section \<open>Properties\<close>

text \<open>
  for options with a known version and well-formed strings,
  \<open>MQTTSerialize_connect\<close> either refuses because the packet does not fit the
  announced size or writes exactly the CONNECT packet at the start of the buffer
  and returns its length.
\<close>

theorem connect_serialize_exact:
  assumes "connect_ok options" and "buflen \<le> int (length buf)"
  shows "\<exists>sz. MQTTPacket_len (int (length (connect_body options))) = Some sz \<and>
    MQTTSerialize_connect buf buflen options =
    (let w = connect_wire options
     in if sz > buflen then Some (MQTTPACKET_BUFFER_TOO_SHORT, buf)
        else Some (int (length w), w @ drop (length w) buf))"
  using assms by (rule serialize_connect_cases)

theorem connect_serialize_exact_witness:
  "\<exists>sz. MQTTPacket_len (int (length (connect_body MQTTPacket_connectData_initializer))) = Some sz \<and>
    MQTTSerialize_connect (replicate 30 0) 30 MQTTPacket_connectData_initializer =
    (let w = connect_wire MQTTPacket_connectData_initializer
     in if sz > 30 then Some (MQTTPACKET_BUFFER_TOO_SHORT, replicate 30 0)
        else Some (int (length w), w @ drop (length w) (replicate 30 0)))"
  by (rule connect_serialize_exact)
     (simp_all add: connect_ok_def MQTTPacket_connectData_initializer_def MQTTString_initializer_def
       mstr_ok_def mstr_bytes_def str_present_def)

text \<open>
  C10: a CONNECT packet the client serialized is accepted by the server-side
  parser, which recovers the session flag, keep-alive interval, client identifier,
  will, user name and password it was built from, whatever the signedness of
  \<open>char\<close>. The password must come with a user name and the last string must not
  be empty, the two conditions the parser checks.
\<close>

theorem connect_roundtrip:
  assumes "connect_ok options" and "auth_ok options" and "buflen \<le> int (length buf)"
    and "MQTTSerialize_connect buf buflen options = Some (rc, buf')" and "0 < rc"
  shows "\<exists>data'. MQTTDeserialize_connect char_signed data buf' rc = Some (1, data') \<and>
    connect_agrees options data data'"
proof -
  from serialize_connect_cases [OF assms(1,3)] assms(4,5)
  have "rc = int (length (connect_wire options))" "buf' = connect_wire options @ drop (length (connect_wire options)) buf"
    by (auto simp: MQTTPACKET_BUFFER_TOO_SHORT_def Let_def split: if_splits)
  then show ?thesis using deserialize_connect_has [OF assms(1,2) has_prefix] by simp
qed

theorem connect_roundtrip_witness:
  "\<exists>data'. MQTTDeserialize_connect True MQTTPacket_connectData_initializer
      (connect_wire (MQTTPacket_connectData_initializer\<lparr>cd_username := MQTTString_initializer\<lparr>cstring := Some [0x75]\<rparr>\<rparr>) @ [0]) 17
      = Some (1, data') \<and>
    connect_agrees (MQTTPacket_connectData_initializer\<lparr>cd_username := MQTTString_initializer\<lparr>cstring := Some [0x75]\<rparr>\<rparr>)
      MQTTPacket_connectData_initializer data'"
proof -
  let ?o = "MQTTPacket_connectData_initializer\<lparr>cd_username := MQTTString_initializer\<lparr>cstring := Some [0x75]\<rparr>\<rparr>"
  have ok: "connect_ok ?o" "auth_ok ?o"
    by (simp_all add: connect_ok_def auth_ok_def MQTTPacket_connectData_initializer_def MQTTString_initializer_def
       mstr_ok_def mstr_bytes_def str_present_def)
  have n: "length (connect_body ?o) = 15"
    by (simp add: length_connect_body MQTTPacket_connectData_initializer_def MQTTString_initializer_def
       mstr_bytes_def str_present_def)
  have w: "length (connect_wire ?o) = 17" by (simp add: connect_wire_def n enc_len_small)
  have sz: "MQTTPacket_len (int (length (connect_body ?o))) = Some 17"
    by (simp add: n MQTTPacket_len_def cint_def INT_MIN_def INT_MAX_def)
  have "MQTTSerialize_connect (replicate 18 0) 18 ?o = Some (17, connect_wire ?o @ [0])"
    using serialize_connect_emit [OF ok(1) sz, of "replicate 18 0" 18] w by (simp add: emit_fits)
  from connect_roundtrip [OF ok _ this] show ?thesis by simp
qed

text \<open>
  with four bytes of room, the CONNACK the server writes is read back by the
  client with the same session-present bit and return code.
\<close>

theorem connack_roundtrip:
  assumes "4 \<le> buflen" and "buflen \<le> int (length buf)"
  shows "\<exists>buf'. MQTTSerialize_connack buf buflen connack_rc sessionPresent = Some (4, buf') \<and>
    MQTTDeserialize_connack out buf' 4 =
      Some (1, \<lparr>ca_sessionPresent = sessionPresent AND 1, ca_rc = connack_rc\<rparr>)"
proof -
  let ?w = "connack_wire connack_rc sessionPresent"
  have "length ?w = 4" by (simp add: connack_wire_def)
  with assms have "MQTTSerialize_connack buf buflen connack_rc sessionPresent = Some (4, ?w @ drop 4 buf)"
    by (simp add: serialize_connack_emit emit_fits)
  with deserialize_connack_has [OF has_prefix [of ?w "drop 4 buf"]] show ?thesis by simp
qed

theorem connack_roundtrip_witness:
  "\<exists>buf'. MQTTSerialize_connack [0, 0, 0, 0] 4 5 1 = Some (4, buf') \<and>
    MQTTDeserialize_connack \<lparr>ca_sessionPresent = 0, ca_rc = 0\<rparr> buf' 4 =
      Some (1, \<lparr>ca_sessionPresent = 1 AND 1, ca_rc = 5\<rparr>)"
  by (rule connack_roundtrip) simp_all

text \<open>
  \<open>MQTTSerialize_connack\<close> checks for two bytes but writes four. With a
  buffer of two or three bytes, correctly announced, it writes past the end.
\<close>

theorem connack_overruns_small_buffer:
  assumes "length buf = 2 \<or> length buf = 3"
  shows "MQTTSerialize_connack buf (int (length buf)) connack_rc sessionPresent = None"
  using assms by (auto simp: serialize_connack_emit emit_overrun connack_wire_def)

theorem connack_overruns_small_buffer_witness: "MQTTSerialize_connack [0, 0, 0] (int (length [0, 0, 0 :: byte])) 0 0 = None"
  by (rule connack_overruns_small_buffer) simp

text \<open>
  a CONNACK packet with fewer than two body bytes is reported as success:
  \<open>MQTTDeserialize_connack\<close> returns the number of length bytes, 1, and assigns
  neither out-parameter.
\<close>

theorem connack_truncated_reported_as_success:
  assumes "header_type header = msg_code CONNACK" and "uint l < 2"
  shows "MQTTDeserialize_connack out (header # l # rest) buflen = Some (1, out)"
proof -
  have "MQTTPacket_decodeBuf (header # l # rest) 1 = Some (1, uint l)"
    using assms(2) by (intro decodeBuf_one_byte) (simp_all add: load_def)
  with assms show ?thesis by (simp add: MQTTDeserialize_connack_def readChar_def load_def)
qed

theorem connack_truncated_reported_as_success_witness:
  "MQTTDeserialize_connack \<lparr>ca_sessionPresent = 0, ca_rc = 0\<rparr> [0x20, 0] 2 = Some (1, \<lparr>ca_sessionPresent = 0, ca_rc = 0\<rparr>)"
  by (rule connack_truncated_reported_as_success) (simp_all add: header_type_def)

text \<open>
  for an MQTT version other than 3 and 4 the computed length leaves out the
  twelve bytes of the variable header, so the size check accepts buffers the packet
  does not fit in and the write goes past their end.
\<close>

theorem connect_unknown_version_overruns:
  assumes "version \<noteq> 3" and "version \<noteq> 4" and "4 \<le> length buf" and "length buf < 16"
  shows "MQTTSerialize_connect buf (int (length buf))
    (MQTTPacket_connectData_initializer\<lparr>cd_MQTTVersion := version\<rparr>) = None"
proof -
  let ?o = "MQTTPacket_connectData_initializer\<lparr>cd_MQTTVersion := version\<rparr>"
  let ?i = MQTTPacket_connectData_initializer
  have f: "cd_clientID ?i = MQTTString_initializer" "cd_willFlag ?i = 0" "\<not> str_present (cd_username ?i)"
    "\<not> str_present (cd_password ?i)"
    by (simp_all add: MQTTPacket_connectData_initializer_def str_present_def MQTTString_initializer_def)
  have cid: "writeMQTTString b p MQTTString_initializer = put b p [0, 0]" for b p
    by (simp add: writeMQTTString_def MQTTString_initializer_def writeInt_put int16_wire_def uchar_def)
  have name: "writeCString b p str_MQIsdp = put b p (str_wire str_MQIsdp)" for b p
    by (rule writeCString_put) simp
  have "MQTTSerialize_connectLength ?o = Some 2"
    using assms(1,2) by (simp add: MQTTSerialize_connectLength_def f cint_small MQTTstrlen_def MQTTString_initializer_def)
  moreover have "MQTTPacket_len 2 = Some 4" by (simp add: MQTTPacket_len_def cint_small)
  ultimately have "MQTTSerialize_connect buf (int (length buf)) ?o =
      emit buf (0x10 # 2 # str_wire str_MQIsdp @ [3, connect_flags ?o] @ int16_wire (uint (cd_keepAliveInterval ?o)) @ [0, 0])"
    using assms
    by (simp add: MQTTSerialize_connect_def f cid name wire_simps encode_advance_put enc_len_small writeInt_put emit_def
        set_type_def Let_def)
  with assms(4) show ?thesis by (simp add: emit_overrun)
qed

theorem connect_unknown_version_overruns_witness:
  "MQTTSerialize_connect (replicate 10 0) (int (length (replicate 10 (0::byte))))
    (MQTTPacket_connectData_initializer\<lparr>cd_MQTTVersion := 5\<rparr>) = None"
  by (rule connect_unknown_version_overruns) simp_all

text \<open>
  \<open>MQTTPacket_checkVersion\<close> compares only as many bytes as the name in the
  packet has, so it accepts every prefix of the right protocol name, the empty
  name included.
\<close>

theorem checkVersion_accepts_prefixes:
  assumes "(version = 3 \<and> name = str_MQIsdp) \<or> (version = 4 \<and> name = str_MQTT)" and "n \<le> length name"
  shows "MQTTPacket_checkVersion
    \<lparr>cstring = None, lenstring = \<lparr>ls_len = int n, ls_data = Some (take n name @ rest)\<rparr>\<rparr> version = Some 1"
  using assms
  by (auto simp: MQTTPacket_checkVersion_def memcmp_eq_def Let_def)

theorem checkVersion_accepts_prefixes_witness:
  "MQTTPacket_checkVersion
    \<lparr>cstring = None, lenstring = \<lparr>ls_len = int 0, ls_data = Some (take 0 str_MQTT @ [4])\<rparr>\<rparr> 4 = Some 1"
  by (rule checkVersion_accepts_prefixes) simp_all

text \<open>
  PINGREQ and DISCONNECT are the two bytes the protocol gives them; a buffer
  announced as shorter is refused unchanged.
\<close>

theorem zero_packets_on_the_wire:
  assumes "buflen \<le> int (length buf)"
  shows "MQTTSerialize_pingreq buf buflen =
      (if buflen < 2 then Some (MQTTPACKET_BUFFER_TOO_SHORT, buf) else Some (2, [0xC0, 0] @ drop 2 buf)) \<and>
    MQTTSerialize_disconnect buf buflen =
      (if buflen < 2 then Some (MQTTPACKET_BUFFER_TOO_SHORT, buf) else Some (2, [0xE0, 0] @ drop 2 buf))"
  using assms by (simp add: MQTTSerialize_pingreq_def MQTTSerialize_disconnect_def serialize_zero_emit emit_fits set_type_def numeral_2_eq_2)

theorem zero_packets_on_the_wire_witness:
  "MQTTSerialize_pingreq [1, 2, 3] 3 =
      (if (3::int) < 2 then Some (MQTTPACKET_BUFFER_TOO_SHORT, [1, 2, 3]) else Some (2, [0xC0, 0] @ drop 2 [1, 2, 3])) \<and>
    MQTTSerialize_disconnect [1, 2, 3] 3 =
      (if (3::int) < 2 then Some (MQTTPACKET_BUFFER_TOO_SHORT, [1, 2, 3]) else Some (2, [0xE0, 0] @ drop 2 [1, 2, 3]))"
  by (rule zero_packets_on_the_wire) simp

end
