(* ===== verification/Packet_Subscribe.thy ===== *)
theory Packet_Subscribe
  imports Packet_Base
begin

text \<open>
  SUBSCRIBE and SUBACK: \<open>paho/MQTTPacket/src/MQTTSubscribeClient.c\<close> and
  \<open>MQTTSubscribeServer.c\<close>. The array arguments of the code are lists; an
  access outside a list is undefined. The lemmas give the bytes of both packets,
  their round trips, and the inputs on which the array bounds are not respected.
\<close>

section \<open>Client side\<close>

definition MQTTSerialize_subscribeLength :: "int \<Rightarrow> MQTTString list \<Rightarrow> int option" where
  "MQTTSerialize_subscribeLength count topicFilters =
     for_loop 0 (nat count) (\<lambda>i len. do {
       s \<leftarrow> idx topicFilters i;
       n \<leftarrow> cint (2 + MQTTstrlen s);
       n \<leftarrow> cint (n + 1);
       cint (len + n) }) 2"

definition MQTTSerialize_subscribe ::
  "buffer \<Rightarrow> int \<Rightarrow> byte \<Rightarrow> 16 word \<Rightarrow> int \<Rightarrow> MQTTString list \<Rightarrow> int list \<Rightarrow> (int \<times> buffer) option" where
  "MQTTSerialize_subscribe buf buflen dup packetid count topicFilters requestedQoSs = do {
     rem_len \<leftarrow> MQTTSerialize_subscribeLength count topicFilters;
     size \<leftarrow> MQTTPacket_len rem_len;
     (if size > buflen then Some (MQTTPACKET_BUFFER_TOO_SHORT, buf)
      else do {
        (b, p) \<leftarrow> writeChar buf 0 (set_qos 1 (set_dup dup (set_type (msg_code SUBSCRIBE) 0)));
        (b, p) \<leftarrow> encode_advance b p rem_len;
        (b, p) \<leftarrow> writeInt b p (uint packetid);
        (b, p) \<leftarrow> for_loop 0 (nat count) (\<lambda>i (b, p). do {
            s \<leftarrow> idx topicFilters i;
            (b, p) \<leftarrow> writeMQTTString b p s;
            q \<leftarrow> idx requestedQoSs i;
            writeChar b p (uchar q) }) (b, p);
        Some (int p, b) }) }"

text \<open>The out-parameters of \<open>MQTTDeserialize_suback\<close>; \<open>grantedQoSs\<close> is the
  caller's array.\<close>

record suback_out =
  sa_packetid :: "16 word"
  sa_count :: int
  sa_grantedQoSs :: "int list"

function suback_loop :: "bool \<Rightarrow> int \<Rightarrow> suback_out \<Rightarrow> buffer \<Rightarrow> nat \<Rightarrow> int \<Rightarrow> (int \<times> suback_out) option" where
  "suback_loop char_signed maxcount out buf p enddata =
     (if int p < enddata then
        (if sa_count out > maxcount then Some (-1, out)
         else do {
           c \<leftarrow> load buf p;
           g \<leftarrow> idx_set (sa_grantedQoSs out) (nat (sa_count out)) (int_of_char char_signed c);
           suback_loop char_signed maxcount
             (out\<lparr>sa_grantedQoSs := g, sa_count := sa_count out + 1\<rparr>) buf (Suc p) enddata })
      else Some (1, out))"
  by pat_completeness auto
termination
  by (relation "measure (\<lambda>(cs, m, out, buf, p, enddata). nat (enddata - int p))") auto

declare suback_loop.simps [simp del]

definition MQTTDeserialize_suback ::
  "bool \<Rightarrow> int \<Rightarrow> suback_out \<Rightarrow> buffer \<Rightarrow> int \<Rightarrow> (int \<times> suback_out) option" where
  "MQTTDeserialize_suback char_signed maxcount out buf buflen = do {
     (header, p) \<leftarrow> readChar buf 0;
     (if header_type header \<noteq> msg_code SUBACK then Some (0, out)
      else do {
        (rc, mylen) \<leftarrow> MQTTPacket_decodeBuf buf p;
        let p = p + nat rc;
        let enddata = int p + mylen;
        (if enddata - int p < 2 then Some (rc, out)
         else do {
           (n, p) \<leftarrow> readInt buf p;
           suback_loop char_signed maxcount (out\<lparr>sa_packetid := word_of_int n, sa_count := 0\<rparr>) buf p enddata }) }) }"

section \<open>Server side\<close>

record subscribe_out =
  so_dup :: byte
  so_packetid :: "16 word"
  so_count :: int
  so_topicFilters :: "MQTTString list"
  so_requestedQoSs :: "int list"

lemma readMQTTLenString_mono: "readMQTTLenString s b p e = Some (rc, s', p') \<Longrightarrow> p \<le> p'"
  by (auto simp: readMQTTLenString_def readInt_def bind_eq_Some_conv split: if_splits)

text \<open>\<open>rc\<close> is what the early exits of the loop return: the number of length bytes.\<close>

function subscribe_loop :: "bool \<Rightarrow> int \<Rightarrow> subscribe_out \<Rightarrow> buffer \<Rightarrow> nat \<Rightarrow> int \<Rightarrow> (int \<times> subscribe_out) option" where
  "subscribe_loop char_signed rc out buf p enddata =
     (if int p < enddata then do {
        s \<leftarrow> idx (so_topicFilters out) (nat (so_count out));
        r \<leftarrow> readMQTTLenString s buf p enddata;
        let q = snd (snd r);
        t \<leftarrow> idx_set (so_topicFilters out) (nat (so_count out)) (fst (snd r));
        let out = out\<lparr>so_topicFilters := t\<rparr>;
        (if fst r = 0 \<or> int q \<ge> enddata then Some (rc, out)
         else do {
           c \<leftarrow> load buf q;
           g \<leftarrow> idx_set (so_requestedQoSs out) (nat (so_count out)) (int_of_char char_signed c);
           subscribe_loop char_signed rc
             (out\<lparr>so_requestedQoSs := g, so_count := so_count out + 1\<rparr>) buf (Suc q) enddata }) }
      else Some (1, out))"
  by pat_completeness auto
termination
proof (relation "measure (\<lambda>(cs, rc, out, buf, p, enddata). nat (enddata - int p))", goal_cases)
  case (2 cs rc out buf p enddata s r q)
  then have "p \<le> q" by (cases r) (auto dest: readMQTTLenString_mono)
  with 2 show ?case by auto
qed simp

declare subscribe_loop.simps [simp del]

definition MQTTDeserialize_subscribe ::
  "bool \<Rightarrow> int \<Rightarrow> subscribe_out \<Rightarrow> buffer \<Rightarrow> int \<Rightarrow> (int \<times> subscribe_out) option" where
  "MQTTDeserialize_subscribe char_signed maxcount out buf buflen = do {
     (header, p) \<leftarrow> readChar buf 0;
     (if header_type header \<noteq> msg_code SUBSCRIBE then Some (-1, out)
      else do {
        let out = out\<lparr>so_dup := header_dup header\<rparr>;
        (rc, mylen) \<leftarrow> MQTTPacket_decodeBuf buf p;
        let p = p + nat rc;
        let enddata = int p + mylen;
        (n, p) \<leftarrow> readInt buf p;
        subscribe_loop char_signed rc (out\<lparr>so_packetid := word_of_int n, so_count := 0\<rparr>) buf p enddata }) }"

definition MQTTSerialize_suback ::
  "buffer \<Rightarrow> int \<Rightarrow> 16 word \<Rightarrow> int \<Rightarrow> int list \<Rightarrow> (int \<times> buffer) option" where
  "MQTTSerialize_suback buf buflen packetid count grantedQoSs = do {
     n \<leftarrow> cint (2 + count);
     (if buflen < n then Some (MQTTPACKET_BUFFER_TOO_SHORT, buf)
      else do {
        (b, p) \<leftarrow> writeChar buf 0 (set_type (msg_code SUBACK) 0);
        (b, p) \<leftarrow> encode_advance b p n;
        (b, p) \<leftarrow> writeInt b p (uint packetid);
        (b, p) \<leftarrow> for_loop 0 (nat count) (\<lambda>i (b, p). do {
            q \<leftarrow> idx grantedQoSs i;
            writeChar b p (uchar q) }) (b, p);
        Some (int p, b) }) }"

section \<open>The bytes of the packets\<close>

definition sub_wire :: "MQTTString \<times> int \<Rightarrow> byte list" where
  "sub_wire s = mstr_wire (fst s) @ [uchar (snd s)]"

definition subscribe_body :: "16 word \<Rightarrow> (MQTTString \<times> int) list \<Rightarrow> byte list" where
  "subscribe_body packetid subs = int16_wire (uint packetid) @ concat (map sub_wire subs)"

definition subscribe_wire :: "byte \<Rightarrow> 16 word \<Rightarrow> (MQTTString \<times> int) list \<Rightarrow> byte list" where
  "subscribe_wire dup packetid subs =
     set_qos 1 (set_dup dup (set_type (msg_code SUBSCRIBE) 0)) #
     enc_len (length (subscribe_body packetid subs)) @ subscribe_body packetid subs"

lemma subscribeLength_ok:
  assumes "\<forall>s \<in> set subs. mstr_ok (fst s)" and "length (subscribe_body packetid subs) < 268435456"
  shows "MQTTSerialize_subscribeLength (int (length subs)) (map fst subs) =
    Some (int (length (subscribe_body packetid subs)))"
proof -
  let ?w = "\<lambda>i. length (sub_wire (subs ! i))"
  have m: "map ?w [0..<length subs] = map (length \<circ> sub_wire) subs"
    by (rule nth_equalityI) simp_all
  have n: "length (subscribe_body packetid subs) = 2 + sum_list (map ?w [0..<0 + length subs])"
    by (simp add: subscribe_body_def length_concat m)
  have "MQTTSerialize_subscribeLength (int (length subs)) (map fst subs) =
      Some (2 + int (sum_list (map ?w [0..<0 + length subs])))"
    unfolding MQTTSerialize_subscribeLength_def nat_int
  proof (rule for_loop_add [where m = 268435456])
    fix i len
    assume i: "i < 0 + length subs" and l: "0 \<le> len" "len + int (?w i) \<le> 268435456"
    then have "mstr_ok (fst (subs ! i))" using assms(1) by simp
    then show "do { s \<leftarrow> idx (map fst subs) i; n \<leftarrow> cint (2 + MQTTstrlen s); n \<leftarrow> cint (n + 1); cint (len + n) } =
        Some (len + int (?w i))"
      using i l mstr_ok_len [of "fst (subs ! i)"]
      by (simp add: MQTTstrlen_ok sub_wire_def cint_def INT_MIN_def INT_MAX_def)
  qed (use assms(2) n in simp_all)
  then show ?thesis by (simp add: n)
qed

lemma subscribe_loop_put:
  assumes "\<forall>s \<in> set subs. mstr_ok (fst s)" and "p \<le> length b"
  shows "for_loop 0 (length subs) (\<lambda>i (b, p). do {
      s \<leftarrow> idx (map fst subs) i;
      (b, p) \<leftarrow> writeMQTTString b p s;
      q \<leftarrow> idx (map snd subs) i;
      writeChar b p (uchar q) }) (b, p) = put b p (concat (map sub_wire subs))"
proof -
  have "for_loop 0 (length subs) (\<lambda>i (b, p). do {
      s \<leftarrow> idx (map fst subs) i;
      (b, p) \<leftarrow> writeMQTTString b p s;
      q \<leftarrow> idx (map snd subs) i;
      writeChar b p (uchar q) }) (b, p) = put b p (concat (map (\<lambda>i. sub_wire (subs ! i)) [0..<0 + length subs]))"
    using assms by (intro for_loop_put) (simp_all add: writeMQTTString_put wire_simps sub_wire_def)
  moreover have "map (\<lambda>i. sub_wire (subs ! i)) [0..<length subs] = map sub_wire subs"
    by (rule nth_equalityI) simp_all
  ultimately show ?thesis by simp
qed

lemma serialize_subscribe_emit:
  assumes ok: "\<forall>s \<in> set subs. mstr_ok (fst s)" and n: "length (subscribe_body packetid subs) < 268435456"
    and sz: "MQTTPacket_len (int (length (subscribe_body packetid subs))) = Some sz"
  shows "MQTTSerialize_subscribe buf buflen dup packetid (int (length subs)) (map fst subs) (map snd subs) =
    (if sz > buflen then Some (MQTTPACKET_BUFFER_TOO_SHORT, buf) else emit buf (subscribe_wire dup packetid subs))"
proof -
  define l where "l = length (subscribe_body packetid subs)"
  have L: "MQTTSerialize_subscribeLength (int (length subs)) (map fst subs) = Some (int l)"
    "MQTTPacket_len (int l) = Some sz" using subscribeLength_ok [OF ok n] sz by (simp_all add: l_def)
  have wire: "subscribe_wire dup packetid subs = set_qos 1 (set_dup dup (set_type (msg_code SUBSCRIBE) 0)) #
      enc_len l @ int16_wire (uint packetid) @ concat (map sub_wire subs)"
    by (simp add: subscribe_wire_def l_def subscribe_body_def)
  show ?thesis
    unfolding MQTTSerialize_subscribe_def wire
    by (simp add: L wire_simps encode_advance_put writeInt_put emit_def put_then [OF subscribe_loop_put [OF ok, unfolded writeChar_put]])
qed

section \<open>Parsing\<close>

text \<open>The arrays of \<open>out'\<close> hold, from index \<open>k\<close> on, the subscriptions.\<close>

definition holds_subs :: "bool \<Rightarrow> nat \<Rightarrow> (MQTTString \<times> int) list \<Rightarrow> subscribe_out \<Rightarrow> bool" where
  "holds_subs char_signed k subs out \<longleftrightarrow>
     map mstr_bytes (take (length subs) (drop k (so_topicFilters out))) = map (mstr_bytes \<circ> fst) subs \<and>
     take (length subs) (drop k (so_requestedQoSs out)) = map (int_of_char char_signed \<circ> uchar \<circ> snd) subs"

lemma subscribe_loop_has:
  assumes "\<forall>s \<in> set subs. mstr_ok (fst s)" and "has buf p (concat (map sub_wire subs))"
    and "enddata = int p + int (length (concat (map sub_wire subs)))" and "so_count out = int k"
    and "k + length subs \<le> length (so_topicFilters out)" and "k + length subs \<le> length (so_requestedQoSs out)"
  shows "\<exists>out'. subscribe_loop char_signed rc out buf p enddata = Some (1, out') \<and>
    so_dup out' = so_dup out \<and> so_packetid out' = so_packetid out \<and> so_count out' = int (k + length subs) \<and>
    take k (so_topicFilters out') = take k (so_topicFilters out) \<and>
    take k (so_requestedQoSs out') = take k (so_requestedQoSs out) \<and> holds_subs char_signed k subs out'"
  using assms
proof (induction subs arbitrary: p out k)
  case Nil
  then show ?case by (simp add: subscribe_loop.simps holds_subs_def)
next
  case (Cons s subs)
  let ?q = "p + length (mstr_wire (fst s))"
  let ?t = "(so_topicFilters out)[k := reread buf p (fst s)]"
  let ?g = "(so_requestedQoSs out)[k := int_of_char char_signed (uchar (snd s))]"
  let ?out = "out\<lparr>so_topicFilters := ?t, so_requestedQoSs := ?g, so_count := int (Suc k)\<rparr>"
  have ok: "mstr_ok (fst s)" using Cons.prems(1) by simp
  have h: "has buf p (mstr_wire (fst s))" "load buf ?q = Some (uchar (snd s))"
    "has buf (Suc ?q) (concat (map sub_wire subs))"
    using Cons.prems(2) by (simp_all add: sub_wire_def [of s] has_simps ac_simps)
  have e: "enddata = int (Suc ?q) + int (length (concat (map sub_wire subs)))"
    using Cons.prems(3) by (simp add: sub_wire_def [of s])
  have r: "readMQTTLenString s0 buf p enddata = Some (1, reread buf p (fst s), ?q)" for s0
    using readMQTTLenString_wire [OF ok h(1), of enddata] e by simp
  have step: "subscribe_loop char_signed rc out buf p enddata = subscribe_loop char_signed rc ?out buf (Suc ?q) enddata"
    using Cons.prems(4-6) r h(2) e
    by (subst subscribe_loop.simps) (simp add: Let_def add.commute)
  have "\<exists>out'. subscribe_loop char_signed rc ?out buf (Suc ?q) enddata = Some (1, out') \<and>
      so_dup out' = so_dup ?out \<and> so_packetid out' = so_packetid ?out \<and> so_count out' = int (Suc k + length subs) \<and>
      take (Suc k) (so_topicFilters out') = take (Suc k) (so_topicFilters ?out) \<and>
      take (Suc k) (so_requestedQoSs out') = take (Suc k) (so_requestedQoSs ?out) \<and> holds_subs char_signed (Suc k) subs out'"
    by (rule Cons.IH) (use Cons.prems h(3) e in simp_all)
  then obtain out' where o: "subscribe_loop char_signed rc ?out buf (Suc ?q) enddata = Some (1, out')"
    "so_dup out' = so_dup out" "so_packetid out' = so_packetid out" "so_count out' = int (Suc k + length subs)"
    "take (Suc k) (so_topicFilters out') = take (Suc k) ?t" "take (Suc k) (so_requestedQoSs out') = take (Suc k) ?g"
    "holds_subs char_signed (Suc k) subs out'" by auto
  have kt: "k < length (so_topicFilters out)" and kg: "k < length (so_requestedQoSs out)"
    using Cons.prems(5,6) by simp_all
  have "holds_subs char_signed k (s # subs) out'"
    using o(7) fill_step(2) [OF o(5) kt, of "length subs"] fill_step(2) [OF o(6) kg, of "length subs"] reread_same(1) [OF ok h(1)]
    by (simp add: holds_subs_def)
  with o step fill_step(1) [OF o(5) kt] fill_step(1) [OF o(6) kg] show ?case by simp
qed

lemma deserialize_subscribe_has:
  assumes ok: "\<forall>s \<in> set subs. mstr_ok (fst s)" and n: "length (subscribe_body packetid subs) < 268435456"
    and h: "has buf 0 (subscribe_wire dup packetid subs)"
    and l: "length subs \<le> length (so_topicFilters out)" "length subs \<le> length (so_requestedQoSs out)"
  shows "\<exists>out'. MQTTDeserialize_subscribe char_signed maxcount out buf buflen = Some (1, out') \<and>
    so_dup out' = dup AND 1 \<and> so_packetid out' = packetid \<and> so_count out' = int (length subs) \<and>
    holds_subs char_signed 0 subs out'"
proof -
  define m where "m = length (subscribe_body packetid subs)"
  define p where "p = Suc (length (enc_len m))"
  have hh: "load buf 0 = Some (set_qos 1 (set_dup dup (set_type (msg_code SUBSCRIBE) 0)))" "has buf 1 (enc_len m)"
    "has buf p (int16_wire (uint packetid))" "has buf (p + 2) (concat (map sub_wire subs))"
    using h by (simp_all add: subscribe_wire_def subscribe_body_def m_def p_def has_simps ac_simps)
  have dec: "MQTTPacket_decodeBuf buf 1 = Some (int p - 1, int m)"
    using decodeBuf_has [OF hh(2)] n by (simp add: m_def p_def)
  have ri: "readInt buf p = Some (uint packetid, p + 2)"
    using readInt_has [OF _ hh(3)] uint_lt2p [of packetid] by (simp add: is_u16_def)
  have e: "int p + int m = int (p + 2) + int (length (concat (map sub_wire subs)))"
    by (simp add: m_def subscribe_body_def)
  let ?out = "out\<lparr>so_dup := dup AND 1, so_packetid := packetid, so_count := 0\<rparr>"
  have hd: "header_type (set_qos 1 (set_dup dup (set_type (msg_code SUBSCRIBE) 0))) = msg_code SUBSCRIBE"
    "header_dup (set_qos 1 (set_dup dup (set_type (msg_code SUBSCRIBE) 0))) = dup AND 1"
    by (simp_all only: bits_simps msg_code_and)
  have "MQTTDeserialize_subscribe char_signed maxcount out buf buflen =
      subscribe_loop char_signed (int p - 1) ?out buf (p + 2) (int p + int m)"
    using hh(1) dec ri hd by (simp add: MQTTDeserialize_subscribe_def readChar_def Let_def p_def)
  with subscribe_loop_has [OF ok hh(4) e, of ?out 0 char_signed "int p - 1"] l show ?thesis by auto
qed

section \<open>SUBACK\<close>

definition suback_wire :: "16 word \<Rightarrow> int list \<Rightarrow> byte list" where
  "suback_wire packetid grants = 0x90 # enc_len (2 + length grants) @ int16_wire (uint packetid) @ map uchar grants"

interpretation code_writer: field_writer "\<lambda>b p q. writeChar b p (uchar q)" "\<lambda>_. True" "\<lambda>q. [uchar q]"
  by unfold_locales (rule writeChar_put)

lemma concat_singletons: "concat (map (\<lambda>x. [f x]) xs) = map f xs"
  by (induction xs) simp_all

lemma suback_codes_put:
  "p \<le> length b \<Longrightarrow> for_loop 0 (length grants) (\<lambda>i (b, p). do { q \<leftarrow> idx grants i; writeChar b p (uchar q) }) (b, p) =
    put b p (map uchar grants)"
  using code_writer.write_array [of grants p b] by (simp add: concat_singletons)

lemma serialize_suback_emit:
  assumes "length grants < 2147483646"
  shows "MQTTSerialize_suback buf buflen packetid (int (length grants)) grants =
    (if buflen < 2 + int (length grants) then Some (MQTTPACKET_BUFFER_TOO_SHORT, buf)
     else emit buf (suback_wire packetid grants))"
proof -
  have c: "cint (2 + int (length grants)) = Some (2 + int (length grants))"
    using assms by (simp add: cint_def INT_MIN_def INT_MAX_def)
  have h: "set_type (msg_code SUBACK) 0 = 0x90" by (simp add: set_type_def)
  have e: "encode_advance b p (2 + int (length grants)) = put b p (enc_len (2 + length grants))" for b p
    using encode_advance_put [of "2 + int (length grants)"] by (simp add: nat_add_distrib)
  show ?thesis
    unfolding MQTTSerialize_suback_def h suback_wire_def
    by (simp add: c wire_simps e writeInt_put emit_def put_then [OF suback_codes_put [unfolded writeChar_put]])
qed

lemma suback_loop_has:
  assumes "has buf p cs" and "enddata = int p + int (length cs)" and "sa_count out = int k"
    and "k + length cs \<le> length (sa_grantedQoSs out)" and "int (k + length cs) \<le> maxcount + 1"
  shows "\<exists>out'. suback_loop char_signed maxcount out buf p enddata = Some (1, out') \<and>
    sa_packetid out' = sa_packetid out \<and> sa_count out' = int (k + length cs) \<and>
    take k (sa_grantedQoSs out') = take k (sa_grantedQoSs out) \<and>
    take (length cs) (drop k (sa_grantedQoSs out')) = map (int_of_char char_signed) cs"
  using assms
proof (induction cs arbitrary: p out k)
  case Nil
  then show ?case by (simp add: suback_loop.simps)
next
  case (Cons c cs)
  let ?g = "(sa_grantedQoSs out)[k := int_of_char char_signed c]"
  let ?out = "out\<lparr>sa_grantedQoSs := ?g, sa_count := int (Suc k)\<rparr>"
  have h: "load buf p = Some c" "has buf (Suc p) cs" using Cons.prems(1) by (simp_all add: has_simps)
  have kl: "k < length (sa_grantedQoSs out)" using Cons.prems(4) by simp
  have step: "suback_loop char_signed maxcount out buf p enddata = suback_loop char_signed maxcount ?out buf (Suc p) enddata"
    using Cons.prems(2,3,5) h(1) kl by (subst suback_loop.simps) (simp add: add.commute)
  have "\<exists>out'. suback_loop char_signed maxcount ?out buf (Suc p) enddata = Some (1, out') \<and>
      sa_packetid out' = sa_packetid ?out \<and> sa_count out' = int (Suc k + length cs) \<and>
      take (Suc k) (sa_grantedQoSs out') = take (Suc k) (sa_grantedQoSs ?out) \<and>
      take (length cs) (drop (Suc k) (sa_grantedQoSs out')) = map (int_of_char char_signed) cs"
    by (rule Cons.IH) (use Cons.prems h(2) in simp_all)
  then obtain out' where o: "suback_loop char_signed maxcount ?out buf (Suc p) enddata = Some (1, out')"
    "sa_packetid out' = sa_packetid out" "sa_count out' = int (Suc k + length cs)"
    "take (Suc k) (sa_grantedQoSs out') = take (Suc k) ?g"
    "take (length cs) (drop (Suc k) (sa_grantedQoSs out')) = map (int_of_char char_signed) cs" by auto
  from o step fill_step [OF o(4) kl] show ?case by simp
qed

text \<open>A SUBACK in the buffer: what the client reads before the loop over the codes.\<close>

lemma deserialize_suback_start:
  assumes h: "has buf 0 (suback_wire packetid grants)" and n: "length grants < 268435454"
  shows "\<exists>p. MQTTDeserialize_suback char_signed maxcount out buf buflen =
      suback_loop char_signed maxcount (out\<lparr>sa_packetid := packetid, sa_count := 0\<rparr>) buf p (int p + int (length grants)) \<and>
    has buf p (map uchar grants)"
proof -
  define m where "m = 2 + length grants"
  define p where "p = Suc (length (enc_len m))"
  have hh: "load buf 0 = Some 0x90" "has buf 1 (enc_len m)" "has buf p (int16_wire (uint packetid))"
    "has buf (p + 2) (map uchar grants)"
    using h by (simp_all add: suback_wire_def m_def p_def has_simps ac_simps)
  have dec: "MQTTPacket_decodeBuf buf 1 = Some (int p - 1, int m)"
    using decodeBuf_has [OF hh(2)] n by (simp add: m_def p_def)
  have ri: "readInt buf p = Some (uint packetid, p + 2)"
    using readInt_has [OF _ hh(3)] uint_lt2p [of packetid] by (simp add: is_u16_def)
  have "header_type 0x90 = msg_code SUBACK" by (simp add: header_type_def)
  moreover have "int p + int m = int (p + 2) + int (length grants)" "2 \<le> m" by (simp_all add: m_def)
  ultimately have "MQTTDeserialize_suback char_signed maxcount out buf buflen =
      suback_loop char_signed maxcount (out\<lparr>sa_packetid := packetid, sa_count := 0\<rparr>) buf (p + 2) (int (p + 2) + int (length grants))"
    using hh(1) dec ri by (simp add: MQTTDeserialize_suback_def readChar_def Let_def p_def add.assoc)
  with hh(4) show ?thesis by blast
qed

text \<open>The two parsing loops run past the end of arrays that are too short.\<close>

lemma suback_loop_overrun:
  assumes "has buf p cs" and "enddata = int p + int (length cs)" and "sa_count out = int k"
    and "k \<le> length (sa_grantedQoSs out)" and "length (sa_grantedQoSs out) < k + length cs"
    and "int (length (sa_grantedQoSs out)) \<le> maxcount"
  shows "suback_loop char_signed maxcount out buf p enddata = None"
  using assms
proof (induction cs arbitrary: p out k)
  case (Cons c cs)
  have h: "load buf p = Some c" "has buf (Suc p) cs" using Cons.prems(1) by (simp_all add: has_simps)
  show ?case
  proof (cases "k = length (sa_grantedQoSs out)")
    case True
    then show ?thesis using Cons.prems h(1) by (subst suback_loop.simps) (simp add: idx_set_def)
  next
    case False
    then have kl: "k < length (sa_grantedQoSs out)" using Cons.prems(4) by simp
    let ?out = "out\<lparr>sa_grantedQoSs := (sa_grantedQoSs out)[k := int_of_char char_signed c], sa_count := int (Suc k)\<rparr>"
    have "suback_loop char_signed maxcount out buf p enddata = suback_loop char_signed maxcount ?out buf (Suc p) enddata"
      using Cons.prems h(1) kl by (subst suback_loop.simps) (simp add: add.commute)
    also have "\<dots> = None" by (rule Cons.IH [where k = "Suc k"]) (use Cons.prems h(2) kl in simp_all)
    finally show ?thesis .
  qed
qed simp

lemma subscribe_loop_overrun:
  assumes "\<forall>s \<in> set subs. mstr_ok (fst s)" and "has buf p (concat (map sub_wire subs))"
    and "enddata = int p + int (length (concat (map sub_wire subs)))" and "so_count out = int k"
    and "length (so_topicFilters out) < k + length subs" and "k \<le> length (so_topicFilters out)"
  shows "subscribe_loop char_signed rc out buf p enddata = None"
  using assms
proof (induction subs arbitrary: p out k)
  case (Cons s subs)
  let ?q = "p + length (mstr_wire (fst s))"
  have ok: "mstr_ok (fst s)" using Cons.prems(1) by simp
  have h: "has buf p (mstr_wire (fst s))" "load buf ?q = Some (uchar (snd s))"
    "has buf (Suc ?q) (concat (map sub_wire subs))"
    using Cons.prems(2) by (simp_all add: sub_wire_def [of s] has_simps ac_simps)
  have e: "enddata = int (Suc ?q) + int (length (concat (map sub_wire subs)))"
    using Cons.prems(3) by (simp add: sub_wire_def [of s])
  have r: "readMQTTLenString s0 buf p enddata = Some (1, reread buf p (fst s), ?q)" for s0
    using readMQTTLenString_wire [OF ok h(1), of enddata] e by simp
  show ?case
  proof (cases "k < length (so_topicFilters out) \<and> k < length (so_requestedQoSs out)")
    case False
    then show ?thesis using Cons.prems(4) r h(2) e
      by (subst subscribe_loop.simps) (auto simp: idx_def idx_set_def Let_def bind_eq_None_conv split: if_splits)
  next
    case True
    let ?out = "out\<lparr>so_topicFilters := (so_topicFilters out)[k := reread buf p (fst s)],
      so_requestedQoSs := (so_requestedQoSs out)[k := int_of_char char_signed (uchar (snd s))], so_count := int (Suc k)\<rparr>"
    have "subscribe_loop char_signed rc out buf p enddata = subscribe_loop char_signed rc ?out buf (Suc ?q) enddata"
      using Cons.prems(4-6) True r h(2) e by (subst subscribe_loop.simps) (simp add: Let_def add.commute)
    also have "\<dots> = None" by (rule Cons.IH [where k = "Suc k"]) (use Cons.prems h(3) e True in simp_all)
    finally show ?thesis .
  qed
qed simp

section \<open>Properties\<close>



text \<open>
  the SUBACK the server writes for any list of return codes is read back by
  the client with the packet identifier and every code, as the platform's
  \<open>char\<close> shows it, when the arrays have room for them.
\<close>

theorem suback_roundtrip:
  assumes "length grants \<le> 268435453" and "length (suback_wire packetid grants) \<le> length buf"
    and "buflen = int (length buf)"
    and "length grants \<le> length (sa_grantedQoSs out)" and "int (length grants) \<le> maxcount + 1"
  shows "\<exists>buf' out'. MQTTSerialize_suback buf buflen packetid (int (length grants)) grants =
      Some (int (length (suback_wire packetid grants)), buf') \<and>
    MQTTDeserialize_suback char_signed maxcount out buf' n = Some (1, out') \<and>
    sa_packetid out' = packetid \<and> sa_count out' = int (length grants) \<and>
    take (length grants) (sa_grantedQoSs out') = map (int_of_char char_signed \<circ> uchar) grants"
proof -
  let ?w = "suback_wire packetid grants"
  let ?b = "?w @ drop (length ?w) buf"
  have "2 + int (length grants) \<le> buflen" using assms(2,3) by (simp add: suback_wire_def)
  then have s: "MQTTSerialize_suback buf buflen packetid (int (length grants)) grants = Some (int (length ?w), ?b)"
    using assms(1,2) by (simp add: serialize_suback_emit emit_fits)
  obtain p where d: "MQTTDeserialize_suback char_signed maxcount out ?b n =
      suback_loop char_signed maxcount (out\<lparr>sa_packetid := packetid, sa_count := 0\<rparr>) ?b p (int p + int (length grants))"
    and h: "has ?b p (map uchar grants)"
    using deserialize_suback_start [OF has_prefix [of ?w "drop (length ?w) buf"], of char_signed maxcount out n] assms(1) by auto
  have "\<exists>out'. suback_loop char_signed maxcount (out\<lparr>sa_packetid := packetid, sa_count := 0\<rparr>) ?b p (int p + int (length grants)) =
        Some (1, out') \<and> sa_packetid out' = packetid \<and> sa_count out' = int (length grants) \<and>
      take (length grants) (sa_grantedQoSs out') = map (int_of_char char_signed \<circ> uchar) grants"
    using suback_loop_has [OF h, of "int p + int (length grants)" "out\<lparr>sa_packetid := packetid, sa_count := 0\<rparr>" 0 maxcount char_signed]
      assms(4,5) by auto
  with s d show ?thesis by auto
qed

theorem suback_roundtrip_witness:
  "\<exists>buf' out'. MQTTSerialize_suback (replicate 7 0) 7 10 (int (length [1, 0x80 :: int])) [1, 0x80] =
      Some (int (length (suback_wire 10 [1, 0x80])), buf') \<and>
    MQTTDeserialize_suback False 2 \<lparr>sa_packetid = 0, sa_count = 0, sa_grantedQoSs = [0, 0]\<rparr> buf' 6 = Some (1, out') \<and>
    sa_packetid out' = 10 \<and> sa_count out' = int (length [1, 0x80 :: int]) \<and>
    take (length [1, 0x80 :: int]) (sa_grantedQoSs out') = map (int_of_char False \<circ> uchar) [1, 0x80]"
  by (rule suback_roundtrip) (simp_all add: suback_wire_def enc_len_small)

text \<open>
  the bound check of \<open>MQTTDeserialize_suback\<close> is off by one. For every
  array size \<open>maxcount\<close>, a SUBACK with one more return code than that is written
  past the end of the caller's array.
\<close>

theorem suback_overruns_grant_array:
  assumes "has buf 0 (suback_wire packetid grants)" and "length grants = Suc (length (sa_grantedQoSs out))"
    and "length grants \<le> 268435453"
  shows "MQTTDeserialize_suback char_signed (int (length (sa_grantedQoSs out))) out buf buflen = None"
proof -
  obtain p where d: "MQTTDeserialize_suback char_signed (int (length (sa_grantedQoSs out))) out buf buflen =
      suback_loop char_signed (int (length (sa_grantedQoSs out))) (out\<lparr>sa_packetid := packetid, sa_count := 0\<rparr>)
        buf p (int p + int (length grants))" and h: "has buf p (map uchar grants)"
    using deserialize_suback_start [OF assms(1), of char_signed "int (length (sa_grantedQoSs out))" out buflen] assms(3) by auto
  show ?thesis unfolding d by (rule suback_loop_overrun [OF h, of _ _ 0]) (use assms(2) in simp_all)
qed

theorem suback_overruns_grant_array_witness:
  "MQTTDeserialize_suback True (int (length (sa_grantedQoSs \<lparr>sa_packetid = 0, sa_count = 0, sa_grantedQoSs = [0]\<rparr>)))
    \<lparr>sa_packetid = 0, sa_count = 0, sa_grantedQoSs = [0]\<rparr> (suback_wire 1 [0, 0] @ [0]) 7 = None"
  by (rule suback_overruns_grant_array [OF has_prefix]) simp_all

text \<open>
  a refused subscription (return code 0x80) reaches the client as 128 when
  \<open>char\<close> is unsigned but as -128 when it is signed, where the client's
  comparison with 0x80 does not recognise it.
\<close>

theorem suback_failure_code:
  assumes "has buf 0 (suback_wire packetid [0x80])" and "sa_grantedQoSs out = [q]"
  shows "\<exists>out'. MQTTDeserialize_suback char_signed 1 out buf buflen = Some (1, out') \<and>
    sa_grantedQoSs out' = [if char_signed then -128 else 128]"
proof -
  obtain p where d: "MQTTDeserialize_suback char_signed 1 out buf buflen =
      suback_loop char_signed 1 (out\<lparr>sa_packetid := packetid, sa_count := 0\<rparr>) buf p (int p + 1)"
    and h: "has buf p [0x80]"
    using deserialize_suback_start [OF assms(1), of char_signed 1 out buflen] by (auto simp: uchar_def)
  have "load buf p = Some 0x80" using h by (simp add: has_simps)
  then show ?thesis unfolding d using assms(2)
    by (simp add: suback_loop.simps [of _ _ _ _ p] suback_loop.simps [of _ _ _ _ "Suc p"] int_of_char_def)
qed

theorem suback_failure_code_witness:
  "\<exists>out'. MQTTDeserialize_suback True 1 \<lparr>sa_packetid = 0, sa_count = 0, sa_grantedQoSs = [0]\<rparr> (suback_wire 3 [0x80] @ [0]) 5 = Some (1, out') \<and>
    sa_grantedQoSs out' = [if True then -128 else 128]"
  by (rule suback_failure_code [OF has_prefix, where q = 0]) simp

text \<open>
  \<open>MQTTSerialize_suback\<close> checks for two bytes fewer than it writes. With a
  buffer of exactly the size it demands, or one byte more, it writes past the end.
\<close>

theorem suback_serialize_overruns:
  assumes "length buf = 2 + length grants \<or> length buf = 3 + length grants" and "length grants \<le> 268435453"
  shows "MQTTSerialize_suback buf (int (length buf)) packetid (int (length grants)) grants = None"
proof -
  have "length buf < length (suback_wire packetid grants)"
    using assms(1) length_enc_len_pos [of "2 + length grants"] by (auto simp: suback_wire_def)
  with assms show ?thesis by (auto simp: serialize_suback_emit emit_overrun)
qed

theorem suback_serialize_overruns_witness:
  "MQTTSerialize_suback [0, 0, 0] (int (length [0, 0, 0 :: byte])) 1 (int (length [2 :: int])) [2] = None"
  by (rule suback_serialize_overruns) simp_all

text \<open>
  \<open>MQTTDeserialize_subscribe\<close> does not look at \<open>maxcount\<close>. Whatever its
  value, a SUBSCRIBE packet with more filters than the caller's array has elements
  is written past the end of the array.
\<close>

theorem subscribe_ignores_maxcount:
  assumes "\<forall>s \<in> set subs. mstr_ok (fst s)" and "length (subscribe_body packetid subs) \<le> 268435455"
    and "has buf 0 (subscribe_wire dup packetid subs)" and "length (so_topicFilters out) < length subs"
  shows "MQTTDeserialize_subscribe char_signed maxcount out buf buflen = None"
proof -
  define m where "m = length (subscribe_body packetid subs)"
  define p where "p = Suc (length (enc_len m))"
  have hh: "load buf 0 = Some (set_qos 1 (set_dup dup (set_type (msg_code SUBSCRIBE) 0)))" "has buf 1 (enc_len m)"
    "has buf p (int16_wire (uint packetid))" "has buf (p + 2) (concat (map sub_wire subs))"
    using assms(3) by (simp_all add: subscribe_wire_def subscribe_body_def m_def p_def has_simps ac_simps)
  have dec: "MQTTPacket_decodeBuf buf 1 = Some (int p - 1, int m)"
    using decodeBuf_has [OF hh(2)] assms(2) by (simp add: m_def p_def)
  have ri: "readInt buf p = Some (uint packetid, p + 2)"
    using readInt_has [OF _ hh(3)] uint_lt2p [of packetid] by (simp add: is_u16_def)
  have hd: "header_type (set_qos 1 (set_dup dup (set_type (msg_code SUBSCRIBE) 0))) = msg_code SUBSCRIBE"
    by (simp only: bits_simps msg_code_and)
  have e: "int p + int m = int (p + 2) + int (length (concat (map sub_wire subs)))"
    by (simp add: m_def subscribe_body_def)
  have "MQTTDeserialize_subscribe char_signed maxcount out buf buflen = subscribe_loop char_signed (int p - 1)
      (out\<lparr>so_dup := header_dup (set_qos 1 (set_dup dup (set_type (msg_code SUBSCRIBE) 0))), so_packetid := packetid, so_count := 0\<rparr>)
      buf (p + 2) (int p + int m)"
    using hh(1) dec ri hd by (simp add: MQTTDeserialize_subscribe_def readChar_def Let_def p_def)
  also have "\<dots> = None" by (rule subscribe_loop_overrun [OF assms(1) hh(4) e, of _ 0]) (use assms(4) in simp_all)
  finally show ?thesis .
qed

theorem subscribe_ignores_maxcount_witness:
  "MQTTDeserialize_subscribe True 0
    \<lparr>so_dup = 1, so_packetid = 0, so_count = 0, so_topicFilters = [], so_requestedQoSs = []\<rparr>
    (subscribe_wire 0 1 [(MQTTString_initializer, 0)] @ [0]) 8 = None"
  by (rule subscribe_ignores_maxcount [OF _ _ has_prefix])
     (simp_all add: mstr_ok_def mstr_bytes_def MQTTString_initializer_def subscribe_body_def sub_wire_def)

end
