(* ===== verification/Packet_Unsubscribe.thy ===== *)
theory Packet_Unsubscribe
  imports Packet_Publish
begin

text \<open>
  UNSUBSCRIBE and UNSUBACK: \<open>paho/MQTTPacket/src/MQTTUnsubscribeClient.c\<close> and
  \<open>MQTTUnsubscribeServer.c\<close>. The lemmas give the bytes, the round trip, and what
  the client accepts as an UNSUBACK.
\<close>

section \<open>Operations\<close>

definition MQTTSerialize_unsubscribeLength :: "int \<Rightarrow> MQTTString list \<Rightarrow> int option" where
  "MQTTSerialize_unsubscribeLength count topicFilters =
     for_loop 0 (nat count) (\<lambda>i len. do {
       s \<leftarrow> idx topicFilters i;
       n \<leftarrow> cint (2 + MQTTstrlen s);
       cint (len + n) }) 2"

definition MQTTSerialize_unsubscribe ::
  "buffer \<Rightarrow> int \<Rightarrow> byte \<Rightarrow> 16 word \<Rightarrow> int \<Rightarrow> MQTTString list \<Rightarrow> (int \<times> buffer) option" where
  "MQTTSerialize_unsubscribe buf buflen dup packetid count topicFilters = do {
     rem_len \<leftarrow> MQTTSerialize_unsubscribeLength count topicFilters;
     size \<leftarrow> MQTTPacket_len rem_len;
     (if size > buflen then Some (MQTTPACKET_BUFFER_TOO_SHORT, buf)
      else do {
        (b, p) \<leftarrow> writeChar buf 0 (set_qos 1 (set_dup dup (set_type (msg_code UNSUBSCRIBE) 0)));
        (b, p) \<leftarrow> encode_advance b p rem_len;
        (b, p) \<leftarrow> writeInt b p (uint packetid);
        (b, p) \<leftarrow> for_loop 0 (nat count) (\<lambda>i (b, p). do {
            s \<leftarrow> idx topicFilters i;
            writeMQTTString b p s }) (b, p);
        Some (int p, b) }) }"

text \<open>The locals \<open>type\<close> and \<open>dup\<close> start at 0; the result is the return code and
  \<open>*packetid\<close>.\<close>

definition MQTTDeserialize_unsuback :: "16 word \<Rightarrow> buffer \<Rightarrow> int \<Rightarrow> (int \<times> 16 word) option" where
  "MQTTDeserialize_unsuback packetid buf buflen = do {
     (rc, out) \<leftarrow> MQTTDeserialize_ack \<lparr>ack_packettype = 0, ack_dup = 0, ack_packetid = packetid\<rparr> buf buflen;
     Some (if ack_packettype out = msg_code UNSUBACK then 1 else rc, ack_packetid out) }"

record unsubscribe_out =
  uo_dup :: byte
  uo_packetid :: "16 word"
  uo_count :: int
  uo_topicFilters :: "MQTTString list"

lemma readMQTTLenString_advances:
  "readMQTTLenString s b p e = Some (rc, s', p') \<Longrightarrow> rc \<noteq> 0 \<Longrightarrow> p < p'"
  by (auto simp: readMQTTLenString_def readInt_def bind_eq_Some_conv split: if_splits)

function unsubscribe_loop :: "int \<Rightarrow> unsubscribe_out \<Rightarrow> buffer \<Rightarrow> nat \<Rightarrow> int \<Rightarrow> (int \<times> unsubscribe_out) option" where
  "unsubscribe_loop rc out buf p enddata =
     (if int p < enddata then do {
        s \<leftarrow> idx (uo_topicFilters out) (nat (uo_count out));
        r \<leftarrow> readMQTTLenString s buf p enddata;
        t \<leftarrow> idx_set (uo_topicFilters out) (nat (uo_count out)) (fst (snd r));
        let out = out\<lparr>uo_topicFilters := t\<rparr>;
        (if fst r = 0 then Some (rc, out)
         else unsubscribe_loop rc (out\<lparr>uo_count := uo_count out + 1\<rparr>) buf (snd (snd r)) enddata) }
      else Some (1, out))"
  by pat_completeness auto
termination
proof (relation "measure (\<lambda>(rc, out, buf, p, enddata). nat (enddata - int p))", goal_cases)
  case (2 rc out buf p enddata s r)
  then have "p < snd (snd r)" by (cases r) (auto dest: readMQTTLenString_advances)
  with 2 show ?case by auto
qed simp

declare unsubscribe_loop.simps [simp del]

definition MQTTDeserialize_unsubscribe :: "int \<Rightarrow> unsubscribe_out \<Rightarrow> buffer \<Rightarrow> int \<Rightarrow> (int \<times> unsubscribe_out) option" where
  "MQTTDeserialize_unsubscribe maxcount out buf len = do {
     (header, p) \<leftarrow> readChar buf 0;
     (if header_type header \<noteq> msg_code UNSUBSCRIBE then Some (0, out)
      else do {
        let out = out\<lparr>uo_dup := header_dup header\<rparr>;
        (rc, mylen) \<leftarrow> MQTTPacket_decodeBuf buf p;
        let p = p + nat rc;
        let enddata = int p + mylen;
        (n, p) \<leftarrow> readInt buf p;
        unsubscribe_loop rc (out\<lparr>uo_packetid := word_of_int n, uo_count := 0\<rparr>) buf p enddata }) }"

definition MQTTSerialize_unsuback :: "buffer \<Rightarrow> int \<Rightarrow> 16 word \<Rightarrow> (int \<times> buffer) option" where
  "MQTTSerialize_unsuback buf buflen packetid =
     (if buflen < 2 then Some (MQTTPACKET_BUFFER_TOO_SHORT, buf)
      else do {
        (b, p) \<leftarrow> writeChar buf 0 (set_type (msg_code UNSUBACK) 0);
        (b, p) \<leftarrow> encode_advance b p 2;
        (b, p) \<leftarrow> writeInt b p (uint packetid);
        Some (int p, b) })"

section \<open>The bytes of the packets\<close>

definition unsubscribe_body :: "16 word \<Rightarrow> MQTTString list \<Rightarrow> byte list" where
  "unsubscribe_body packetid topics = int16_wire (uint packetid) @ concat (map mstr_wire topics)"

definition unsubscribe_wire :: "byte \<Rightarrow> 16 word \<Rightarrow> MQTTString list \<Rightarrow> byte list" where
  "unsubscribe_wire dup packetid topics =
     set_qos 1 (set_dup dup (set_type (msg_code UNSUBSCRIBE) 0)) #
     enc_len (length (unsubscribe_body packetid topics)) @ unsubscribe_body packetid topics"

lemma unsubscribeLength_ok:
  assumes "\<forall>s \<in> set topics. mstr_ok s" and "length (unsubscribe_body packetid topics) < 268435456"
  shows "MQTTSerialize_unsubscribeLength (int (length topics)) topics = Some (int (length (unsubscribe_body packetid topics)))"
proof -
  let ?w = "\<lambda>i. length (mstr_wire (topics ! i))"
  have m: "map ?w [0..<length topics] = map (length \<circ> mstr_wire) topics"
    by (rule nth_equalityI) simp_all
  have n: "length (unsubscribe_body packetid topics) = 2 + sum_list (map ?w [0..<0 + length topics])"
    unfolding add_0 m by (simp add: unsubscribe_body_def length_concat comp_def)
  have "MQTTSerialize_unsubscribeLength (int (length topics)) topics =
      Some (2 + int (sum_list (map ?w [0..<0 + length topics])))"
    unfolding MQTTSerialize_unsubscribeLength_def nat_int
  proof (rule for_loop_add [where m = 268435456])
    fix i len
    assume i: "i < 0 + length topics" and l: "0 \<le> len" "len + int (?w i) \<le> 268435456"
    then have "mstr_ok (topics ! i)" using assms(1) by simp
    then show "do { s \<leftarrow> idx topics i; n \<leftarrow> cint (2 + MQTTstrlen s); cint (len + n) } = Some (len + int (?w i))"
      using i l mstr_ok_len [of "topics ! i"]
      by (simp add: MQTTstrlen_ok cint_def INT_MIN_def INT_MAX_def)
  qed (use assms(2) n in simp_all)
  then show ?thesis by (simp add: n)
qed

lemma serialize_unsubscribe_emit:
  assumes ok: "\<forall>s \<in> set topics. mstr_ok s" and n: "length (unsubscribe_body packetid topics) < 268435456"
    and sz: "MQTTPacket_len (int (length (unsubscribe_body packetid topics))) = Some sz"
  shows "MQTTSerialize_unsubscribe buf buflen dup packetid (int (length topics)) topics =
    (if sz > buflen then Some (MQTTPACKET_BUFFER_TOO_SHORT, buf) else emit buf (unsubscribe_wire dup packetid topics))"
proof -
  define l where "l = length (unsubscribe_body packetid topics)"
  have L: "MQTTSerialize_unsubscribeLength (int (length topics)) topics = Some (int l)"
    "MQTTPacket_len (int l) = Some sz" using unsubscribeLength_ok [OF ok n] sz by (simp_all add: l_def)
  have wire: "unsubscribe_wire dup packetid topics = set_qos 1 (set_dup dup (set_type (msg_code UNSUBSCRIBE) 0)) #
      enc_len l @ int16_wire (uint packetid) @ concat (map mstr_wire topics)"
    by (simp add: unsubscribe_wire_def l_def unsubscribe_body_def)
  show ?thesis
    unfolding MQTTSerialize_unsubscribe_def wire
    by (simp add: L wire_simps encode_advance_put writeInt_put emit_def put_then [OF string_writer.write_array [OF ok]])
qed

lemma unsubscribe_loop_has:
  assumes "\<forall>s \<in> set topics. mstr_ok s" and "has buf p (concat (map mstr_wire topics))"
    and "enddata = int p + int (length (concat (map mstr_wire topics)))" and "uo_count out = int k"
    and "k + length topics \<le> length (uo_topicFilters out)"
  shows "\<exists>out'. unsubscribe_loop rc out buf p enddata = Some (1, out') \<and>
    uo_dup out' = uo_dup out \<and> uo_packetid out' = uo_packetid out \<and> uo_count out' = int (k + length topics) \<and>
    take k (uo_topicFilters out') = take k (uo_topicFilters out) \<and>
    map mstr_bytes (take (length topics) (drop k (uo_topicFilters out'))) = map mstr_bytes topics"
  using assms
proof (induction topics arbitrary: p out k)
  case Nil
  then show ?case by (simp add: unsubscribe_loop.simps)
next
  case (Cons s topics)
  let ?q = "p + length (mstr_wire s)"
  let ?t = "(uo_topicFilters out)[k := reread buf p s]"
  let ?out = "out\<lparr>uo_topicFilters := ?t, uo_count := int (Suc k)\<rparr>"
  have ok: "mstr_ok s" using Cons.prems(1) by simp
  have h: "has buf p (mstr_wire s)" "has buf ?q (concat (map mstr_wire topics))"
    using Cons.prems(2) by (simp_all add: has_simps ac_simps)
  have e: "enddata = int ?q + int (length (concat (map mstr_wire topics)))"
    using Cons.prems(3) by simp
  have r: "readMQTTLenString s0 buf p enddata = Some (1, reread buf p s, ?q)" for s0
    using readMQTTLenString_wire [OF ok h(1), of enddata] e by simp
  have kt: "k < length (uo_topicFilters out)" using Cons.prems(5) by simp
  have step: "unsubscribe_loop rc out buf p enddata = unsubscribe_loop rc ?out buf ?q enddata"
    using Cons.prems(4) kt r e by (subst unsubscribe_loop.simps) (simp add: Let_def add.commute)
  have "\<exists>out'. unsubscribe_loop rc ?out buf ?q enddata = Some (1, out') \<and>
      uo_dup out' = uo_dup ?out \<and> uo_packetid out' = uo_packetid ?out \<and> uo_count out' = int (Suc k + length topics) \<and>
      take (Suc k) (uo_topicFilters out') = take (Suc k) (uo_topicFilters ?out) \<and>
      map mstr_bytes (take (length topics) (drop (Suc k) (uo_topicFilters out'))) = map mstr_bytes topics"
    by (rule Cons.IH) (use Cons.prems h(2) e in simp_all)
  then obtain out' where o: "unsubscribe_loop rc ?out buf ?q enddata = Some (1, out')"
    "uo_dup out' = uo_dup out" "uo_packetid out' = uo_packetid out" "uo_count out' = int (Suc k + length topics)"
    "take (Suc k) (uo_topicFilters out') = take (Suc k) ?t"
    "map mstr_bytes (take (length topics) (drop (Suc k) (uo_topicFilters out'))) = map mstr_bytes topics" by auto
  from o step fill_step [OF o(5) kt] reread_same(1) [OF ok h(1)] show ?case by simp
qed

lemma deserialize_unsubscribe_has:
  assumes ok: "\<forall>s \<in> set topics. mstr_ok s" and n: "length (unsubscribe_body packetid topics) < 268435456"
    and h: "has buf 0 (unsubscribe_wire dup packetid topics)" and l: "length topics \<le> length (uo_topicFilters out)"
  shows "\<exists>out'. MQTTDeserialize_unsubscribe maxcount out buf buflen = Some (1, out') \<and>
    uo_dup out' = dup AND 1 \<and> uo_packetid out' = packetid \<and> uo_count out' = int (length topics) \<and>
    map mstr_bytes (take (length topics) (uo_topicFilters out')) = map mstr_bytes topics"
proof -
  define m where "m = length (unsubscribe_body packetid topics)"
  define p where "p = Suc (length (enc_len m))"
  let ?h = "set_qos 1 (set_dup dup (set_type (msg_code UNSUBSCRIBE) 0))"
  have hh: "load buf 0 = Some ?h" "has buf 1 (enc_len m)"
    "has buf p (int16_wire (uint packetid))" "has buf (p + 2) (concat (map mstr_wire topics))"
    using h by (simp_all add: unsubscribe_wire_def unsubscribe_body_def m_def p_def has_simps ac_simps)
  have dec: "MQTTPacket_decodeBuf buf 1 = Some (int p - 1, int m)"
    using decodeBuf_has [OF hh(2)] n by (simp add: m_def p_def)
  have ri: "readInt buf p = Some (uint packetid, p + 2)"
    using readInt_has [OF _ hh(3)] uint_lt2p [of packetid] by (simp add: is_u16_def)
  have e: "int p + int m = int (p + 2) + int (length (concat (map mstr_wire topics)))"
    by (simp add: m_def unsubscribe_body_def)
  have hd: "header_type ?h = msg_code UNSUBSCRIBE" "header_dup ?h = dup AND 1"
    by (simp_all only: bits_simps msg_code_and)
  let ?out = "out\<lparr>uo_dup := dup AND 1, uo_packetid := packetid, uo_count := 0\<rparr>"
  have "MQTTDeserialize_unsubscribe maxcount out buf buflen =
      unsubscribe_loop (int p - 1) ?out buf (p + 2) (int p + int m)"
    using hh(1) dec ri hd by (simp add: MQTTDeserialize_unsubscribe_def readChar_def Let_def p_def)
  with unsubscribe_loop_has [OF ok hh(4) e, of ?out 0 "int p - 1"] l show ?thesis by auto
qed

lemma serialize_unsuback_emit:
  "MQTTSerialize_unsuback buf buflen packetid =
    (if buflen < 2 then Some (MQTTPACKET_BUFFER_TOO_SHORT, buf)
     else emit buf (ack_wire (msg_code UNSUBACK) 0 packetid))"
  by (simp add: MQTTSerialize_unsuback_def wire_simps encode_advance_put writeInt_put emit_def ack_wire_def
      ack_header_def header_defs enc_len_small)

section \<open>Properties\<close>

text \<open>
  an UNSUBSCRIBE packet for any list of well-formed topic filters is written
  inside the buffer when it fits the announced size, and the server-side parser
  recovers the packet identifier and the filters in order.
\<close>

theorem unsubscribe_roundtrip:
  assumes "\<forall>s \<in> set topics. mstr_ok s" and "length (unsubscribe_body packetid topics) \<le> 268435455"
    and "MQTTPacket_len (int (length (unsubscribe_body packetid topics))) = Some sz"
    and "sz \<le> buflen" and "buflen \<le> int (length buf)" and "length topics \<le> length (uo_topicFilters out)"
  shows "\<exists>buf' out'. MQTTSerialize_unsubscribe buf buflen dup packetid (int (length topics)) topics =
      Some (int (length (unsubscribe_wire dup packetid topics)), buf') \<and>
    buf' = unsubscribe_wire dup packetid topics @ drop (length (unsubscribe_wire dup packetid topics)) buf \<and>
    MQTTDeserialize_unsubscribe maxcount out buf' n = Some (1, out') \<and>
    uo_dup out' = dup AND 1 \<and> uo_packetid out' = packetid \<and> uo_count out' = int (length topics) \<and>
    map mstr_bytes (take (length topics) (uo_topicFilters out')) = map mstr_bytes topics"
proof -
  let ?w = "unsubscribe_wire dup packetid topics"
  have n: "length (unsubscribe_body packetid topics) < 268435456" using assms(2) by simp
  have "length ?w \<le> length buf"
    using packet_len_fits [OF assms(3) n, of "length buf"] assms(4,5) by (simp add: unsubscribe_wire_def)
  then have "MQTTSerialize_unsubscribe buf buflen dup packetid (int (length topics)) topics =
      Some (int (length ?w), ?w @ drop (length ?w) buf)"
    using serialize_unsubscribe_emit [OF assms(1) n assms(3), of buf buflen dup] assms(4) by (simp add: emit_fits)
  with deserialize_unsubscribe_has [OF assms(1) n has_prefix assms(6)] show ?thesis by auto
qed

theorem unsubscribe_roundtrip_witness:
  "\<exists>buf' out'. MQTTSerialize_unsubscribe (replicate 9 0) 9 0 5
      (int (length [MQTTString_initializer, MQTTString_initializer])) [MQTTString_initializer, MQTTString_initializer] =
      Some (int (length (unsubscribe_wire 0 5 [MQTTString_initializer, MQTTString_initializer])), buf') \<and>
    buf' = unsubscribe_wire 0 5 [MQTTString_initializer, MQTTString_initializer] @
      drop (length (unsubscribe_wire 0 5 [MQTTString_initializer, MQTTString_initializer])) (replicate 9 0) \<and>
    MQTTDeserialize_unsubscribe 2 \<lparr>uo_dup = 1, uo_packetid = 0, uo_count = 0,
       uo_topicFilters = replicate 2 MQTTString_initializer\<rparr> buf' 8 = Some (1, out') \<and>
    uo_dup out' = 0 AND 1 \<and> uo_packetid out' = 5 \<and> uo_count out' = int (length [MQTTString_initializer, MQTTString_initializer]) \<and>
    map mstr_bytes (take (length [MQTTString_initializer, MQTTString_initializer]) (uo_topicFilters out')) =
      map mstr_bytes [MQTTString_initializer, MQTTString_initializer]"
proof -
  have n: "length (unsubscribe_body 5 [MQTTString_initializer, MQTTString_initializer]) = 6"
    by (simp add: unsubscribe_body_def mstr_bytes_def MQTTString_initializer_def)
  have sz: "MQTTPacket_len (int (length (unsubscribe_body 5 [MQTTString_initializer, MQTTString_initializer]))) = Some 8"
    by (simp add: n MQTTPacket_len_def cint_def INT_MIN_def INT_MAX_def)
  have "\<forall>s \<in> set [MQTTString_initializer, MQTTString_initializer]. mstr_ok s"
    by (simp add: mstr_ok_def mstr_bytes_def MQTTString_initializer_def)
  then show ?thesis by (rule unsubscribe_roundtrip [OF _ _ sz]) (simp_all add: n)
qed

text \<open>
  \<open>MQTTSerialize_unsuback\<close> checks for two bytes but writes four: with a
  buffer of two or three bytes it writes past the end, and with at least four the
  client reads the packet identifier back.
\<close>

theorem unsuback_size_check:
  "if int (length buf) < 2
   then MQTTSerialize_unsuback buf (int (length buf)) packetid = Some (MQTTPACKET_BUFFER_TOO_SHORT, buf)
   else if length buf < 4 then MQTTSerialize_unsuback buf (int (length buf)) packetid = None
   else \<exists>buf'. MQTTSerialize_unsuback buf (int (length buf)) packetid = Some (4, buf') \<and>
     MQTTDeserialize_unsuback pid0 buf' 4 = Some (1, packetid)"
proof -
  let ?w = "ack_wire (msg_code UNSUBACK) 0 packetid"
  have "MQTTDeserialize_unsuback pid0 (?w @ drop 4 buf) 4 = Some (1, packetid)"
    by (simp add: MQTTDeserialize_unsuback_def deserialize_ack_has [OF has_prefix])
  then show ?thesis by (simp add: serialize_unsuback_emit emit_fits emit_overrun)
qed

end
