(* ===== verification/Packet_Read.thy ===== *)
theory Packet_Read
  imports Packet_Base
begin

text \<open>
  Reading whole packets from a transport: \<open>MQTTPacket_read\<close>,
  \<open>MQTTPacket_decodenb\<close> and \<open>MQTTPacket_readnb\<close> of
  \<open>paho/MQTTPacket/src/MQTTPacket.c\<close>. The transport's read function is a
  parameter of the model (\<open>'w getfn\<close>, with the state \<open>'w\<close> of the transport
  threaded through the calls). What the code relies on is stated by the predicates
  \<open>blocking_source\<close> and \<open>nb_source\<close>.

  The lemmas show that the blocking reader delivers exactly the packet in the
  stream, and that the resumable reader does the same however the transport
  splits the packet and however often it answers "call again".
\<close>

section \<open>Operations\<close>

text \<open>The bytes a read function stores at \<open>buf + p\<close>.\<close>

definition blit :: "buffer \<Rightarrow> nat \<Rightarrow> byte list \<Rightarrow> buffer option" where
  "blit b p bs = map_option fst (put b p bs)"

definition MQTTPacket_read :: "'w getfn \<Rightarrow> 'w \<Rightarrow> buffer \<Rightarrow> int \<Rightarrow> (int \<times> buffer \<times> 'w) option" where
  "MQTTPacket_read getfn w buf buflen = do {
     (n, bs, w) \<leftarrow> getfn w 1;
     buf \<leftarrow> blit buf 0 bs;
     (if n \<noteq> 1 then Some (-1, buf, w)
      else do {
        (_, rem_len, w) \<leftarrow> MQTTPacket_decode getfn w;
        (k, buf) \<leftarrow> MQTTPacket_encode buf 1 rem_len;
        let len = 1 + k;
        (if rem_len + len > buflen then Some (-1, buf, w)
         else do {
           (ok, buf, w) \<leftarrow>
             (if rem_len \<noteq> 0 then do {
                (n, bs, w) \<leftarrow> getfn w rem_len;
                buf \<leftarrow> blit buf (nat len) bs;
                Some (n = rem_len, buf, w) }
              else Some (True, buf, w));
           (if \<not> ok then Some (-1, buf, w)
            else do {
              header \<leftarrow> load buf 0;
              Some (uint (header_type header), buf, w) }) }) }) }"

record MQTTTransport =
  tr_multiplier :: int
  tr_rem_len :: int
  tr_len :: int
  tr_state :: int

function decodenb_loop :: "'w getfn \<Rightarrow> MQTTTransport \<Rightarrow> 'w \<Rightarrow> (int \<times> MQTTTransport \<times> 'w) option" where
  "decodenb_loop getfn trp w =
     (if tr_len trp \<ge> MAX_NO_OF_REMAINING_LENGTH_BYTES then Some (MQTTPACKET_READ_ERROR, trp, w)
      else do {
        (frc, bs, w) \<leftarrow> getfn w 1;
        (if frc = -1 then Some (MQTTPACKET_READ_ERROR, trp, w)
         else if frc = 0 then Some (0, trp, w)
         else do {
           c \<leftarrow> the_byte bs;
           r \<leftarrow> cint (tr_rem_len trp + uint (c AND 127) * tr_multiplier trp);
           m \<leftarrow> cint (tr_multiplier trp * 128);
           let trp = trp\<lparr>tr_len := tr_len trp + 1, tr_rem_len := r, tr_multiplier := m\<rparr>;
           (if c AND 128 \<noteq> 0 then decodenb_loop getfn trp w
            else Some (tr_len trp, trp, w)) }) })"
  by pat_completeness auto
termination
  by (relation "measure (\<lambda>(g, trp, w). nat (4 - tr_len trp))")
     (auto simp: MAX_NO_OF_REMAINING_LENGTH_BYTES_def)

declare decodenb_loop.simps [simp del]

definition MQTTPacket_decodenb :: "'w getfn \<Rightarrow> MQTTTransport \<Rightarrow> 'w \<Rightarrow> (int \<times> MQTTTransport \<times> 'w) option" where
  "MQTTPacket_decodenb getfn trp w =
     decodenb_loop getfn (if tr_len trp = 0 then trp\<lparr>tr_multiplier := 1, tr_rem_len := 0\<rparr> else trp) w"

text \<open>The three cases of the switch in \<open>MQTTPacket_readnb\<close>, the last one first.
  \<open>exit\<close> resets the state; the returns with 0 keep it.\<close>

definition readnb_case2 ::
  "'w getfn \<Rightarrow> buffer \<Rightarrow> MQTTTransport \<Rightarrow> 'w \<Rightarrow> (int \<times> buffer \<times> MQTTTransport \<times> 'w) option" where
  "readnb_case2 getfn buf trp w = do {
     (stop, buf, trp, w) \<leftarrow>
       (if tr_rem_len trp \<noteq> 0 then do {
          (frc, bs, w) \<leftarrow> getfn w (tr_rem_len trp);
          buf \<leftarrow> blit buf (nat (tr_len trp)) bs;
          (if frc = -1 then Some (Some (-1), buf, trp\<lparr>tr_state := 0\<rparr>, w)
           else if frc = 0 then Some (Some 0, buf, trp, w)
           else do {
             r \<leftarrow> cint (tr_rem_len trp - frc);
             l \<leftarrow> cint (tr_len trp + frc);
             let trp = trp\<lparr>tr_rem_len := r, tr_len := l\<rparr>;
             (if r \<noteq> 0 then Some (Some 0, buf, trp, w) else Some (None, buf, trp, w)) }) }
        else Some (None, buf, trp, w));
     (case stop of
        Some rc \<Rightarrow> Some (rc, buf, trp, w)
      | None \<Rightarrow> do {
          header \<leftarrow> load buf 0;
          Some (uint (header_type header), buf, trp\<lparr>tr_state := 0\<rparr>, w) }) }"

definition readnb_case1 ::
  "'w getfn \<Rightarrow> buffer \<Rightarrow> int \<Rightarrow> MQTTTransport \<Rightarrow> 'w \<Rightarrow> (int \<times> buffer \<times> MQTTTransport \<times> 'w) option" where
  "readnb_case1 getfn buf buflen trp w = do {
     (frc, trp, w) \<leftarrow> MQTTPacket_decodenb getfn trp w;
     (if frc = MQTTPACKET_READ_ERROR then Some (-1, buf, trp\<lparr>tr_state := 0\<rparr>, w)
      else if frc = 0 then Some (0, buf, trp, w)
      else do {
        (k, buf) \<leftarrow> MQTTPacket_encode buf 1 (tr_rem_len trp);
        let trp = trp\<lparr>tr_len := 1 + k\<rparr>;
        n \<leftarrow> cint (tr_rem_len trp + tr_len trp);
        (if n > buflen then Some (-1, buf, trp\<lparr>tr_state := 0\<rparr>, w)
         else readnb_case2 getfn buf (trp\<lparr>tr_state := tr_state trp + 1\<rparr>) w) }) }"

definition readnb_case0 ::
  "'w getfn \<Rightarrow> buffer \<Rightarrow> int \<Rightarrow> MQTTTransport \<Rightarrow> 'w \<Rightarrow> (int \<times> buffer \<times> MQTTTransport \<times> 'w) option" where
  "readnb_case0 getfn buf buflen trp w = do {
     (frc, bs, w) \<leftarrow> getfn w 1;
     buf \<leftarrow> blit buf 0 bs;
     (if frc = -1 then Some (-1, buf, trp\<lparr>tr_state := 0\<rparr>, w)
      else if frc = 0 then Some (0, buf, trp, w)
      else readnb_case1 getfn buf buflen (trp\<lparr>tr_len := 0, tr_state := tr_state trp + 1\<rparr>) w) }"

definition MQTTPacket_readnb ::
  "'w getfn \<Rightarrow> buffer \<Rightarrow> int \<Rightarrow> MQTTTransport \<Rightarrow> 'w \<Rightarrow> (int \<times> buffer \<times> MQTTTransport \<times> 'w) option" where
  "MQTTPacket_readnb getfn buf buflen trp w =
     (if tr_state trp = 2 then readnb_case2 getfn buf trp w
      else if tr_state trp = 1 then readnb_case1 getfn buf buflen trp w
      else readnb_case0 getfn buf buflen (trp\<lparr>tr_state := 0\<rparr>) w)"

section \<open>Transports\<close>

text \<open>A blocking read function: it stores what it reports and no more than asked.\<close>

definition getfn_ok :: "'w getfn \<Rightarrow> bool" where
  "getfn_ok g \<longleftrightarrow> (\<forall>w n. 0 < n \<longrightarrow> (\<exists>rc bs w'. g w n = Some (rc, bs, w') \<and> rc \<le> n \<and> int (length bs) = max rc 0))"

text \<open>A transport that delivers a byte stream, as many bytes as asked for.\<close>

definition blocking_source :: "'w getfn \<Rightarrow> ('w \<Rightarrow> byte list) \<Rightarrow> bool" where
  "blocking_source g stream \<longleftrightarrow>
     (\<forall>w xs ys. stream w = xs @ ys \<longrightarrow> xs \<noteq> [] \<longrightarrow>
        (\<exists>w'. g w (int (length xs)) = Some (int (length xs), xs, w') \<and> stream w' = ys))"

text \<open>A transport that delivers a byte stream in pieces: each call answers 0
  ("call again", \<open>agains\<close> counts how often that can still happen) or hands out a
  non-empty piece.\<close>

definition nb_source :: "'w getfn \<Rightarrow> ('w \<Rightarrow> byte list) \<Rightarrow> ('w \<Rightarrow> nat) \<Rightarrow> bool" where
  "nb_source g stream agains \<longleftrightarrow>
     (\<forall>w n. 0 < n \<longrightarrow> n \<le> INT_MAX \<longrightarrow> stream w \<noteq> [] \<longrightarrow>
        (\<exists>w'. g w n = Some (0, [], w') \<and> stream w' = stream w \<and> agains w' < agains w) \<or>
        (\<exists>w' xs ys. g w n = Some (int (length xs), xs, w') \<and> stream w = xs @ ys \<and> stream w' = ys \<and>
           xs \<noteq> [] \<and> int (length xs) \<le> n \<and> agains w' \<le> agains w))"

text \<open>The caller of the resumable reader: it calls again, at most \<open>k\<close> times,
  until there is an answer.\<close>

primrec readnb_poll ::
  "nat \<Rightarrow> 'w getfn \<Rightarrow> buffer \<Rightarrow> int \<Rightarrow> MQTTTransport \<Rightarrow> 'w \<Rightarrow> (int \<times> buffer \<times> MQTTTransport \<times> 'w) option" where
  "readnb_poll 0 getfn buf buflen trp w = Some (0, buf, trp, w)"
| "readnb_poll (Suc k) getfn buf buflen trp w = do {
     (rc, buf, trp, w) \<leftarrow> MQTTPacket_readnb getfn buf buflen trp w;
     (if rc = 0 then readnb_poll k getfn buf buflen trp w else Some (rc, buf, trp, w)) }"

section \<open>The blocking reader\<close>

lemma blit_over:
  assumes "length xs + length bs \<le> length b"
  shows "blit (xs @ drop (length xs) b) (length xs) bs = Some ((xs @ bs) @ drop (length (xs @ bs)) b)"
  using assms by (simp add: blit_def put_def add.commute)

lemma blit_len: "blit b p bs = Some b' \<Longrightarrow> length b' = length b"
  by (auto simp: blit_def dest: put_length)

lemma blit_total: "p + length bs \<le> length b \<Longrightarrow> \<exists>b'. blit b p bs = Some b' \<and> length b' = length b"
  by (simp add: blit_def put_def)

lemma encode_over:
  assumes "length xs + length (enc_len n) \<le> length b"
  shows "MQTTPacket_encode (xs @ drop (length xs) b) (length xs) (int n) =
    Some (int (length (enc_len n)), (xs @ enc_len n) @ drop (length (xs @ enc_len n)) b)"
  using assms by (simp add: MQTTPacket_encode_put put_def add.commute)

lemma load_0 [simp]: "load (x # xs) 0 = Some x"
  by (simp add: load_def)

lemma blocking_sourceD:
  "blocking_source g stream \<Longrightarrow> stream w = xs @ ys \<Longrightarrow> xs \<noteq> [] \<Longrightarrow>
     \<exists>w'. g w (int (length xs)) = Some (int (length xs), xs, w') \<and> stream w' = ys"
  by (simp add: blocking_source_def)

lemma blocking_byte_source: "blocking_source g stream \<Longrightarrow> byte_source g stream (\<lambda>_. ())"
  by unfold_locales (use blocking_sourceD [of g stream _ "[c]" for c] in simp)

lemma read_delivers:
  assumes src: "blocking_source g stream" and s: "stream w = h # enc_len n @ body @ rest"
    and n: "length body = n" "n < 268435456"
    and fits: "1 + int (length (enc_len n)) + int n \<le> buflen" "buflen \<le> int (length buf)"
  shows "\<exists>w'. MQTTPacket_read g w buf buflen =
      Some (uint (header_type h), (h # enc_len n @ body) @ drop (length (h # enc_len n @ body)) buf, w') \<and>
    stream w' = rest"
proof -
  let ?l = "length (enc_len n)"
  from blocking_sourceD [OF src, of w "[h]"] s obtain w1 where
    g1: "g w 1 = Some (1, [h], w1)" and s1: "stream w1 = enc_len n @ body @ rest" by auto
  from byte_source.decode_enc [OF blocking_byte_source [OF src] s1 n(2)] obtain w2 where
    d: "MQTTPacket_decode g w1 = Some (int ?l, int n, w2)" and s2: "stream w2 = body @ rest" by blast
  have b1: "blit buf 0 [h] = Some ([h] @ drop (length [h]) buf)"
    using blit_over [of "[]" "[h]" buf] fits by simp
  have e: "MQTTPacket_encode ([h] @ drop (length [h]) buf) 1 (int n) =
      Some (int ?l, (h # enc_len n) @ drop (length (h # enc_len n)) buf)"
    using encode_over [of "[h]" n buf] fits by simp
  show ?thesis
  proof (cases "n = 0")
    case True
    with n s2 g1 d b1 e fits show ?thesis by (auto simp: MQTTPacket_read_def)
  next
    case False
    then obtain w3 where g3: "g w2 (int n) = Some (int n, body, w3)" "stream w3 = rest"
      using blocking_sourceD [OF src s2] n by auto
    have "blit ((h # enc_len n) @ drop (length (h # enc_len n)) buf) (nat (1 + int ?l)) body =
        Some ((h # enc_len n @ body) @ drop (length (h # enc_len n @ body)) buf)"
      using blit_over [of "h # enc_len n" body buf] fits n by (simp add: nat_add_distrib)
    with False g1 d b1 e g3 fits show ?thesis by (auto simp: MQTTPacket_read_def)
  qed
qed

lemma getfn_okD:
  "getfn_ok g \<Longrightarrow> 0 < n \<Longrightarrow> \<exists>rc bs w'. g w n = Some (rc, bs, w') \<and> rc \<le> n \<and> int (length bs) = max rc 0"
  by (simp add: getfn_ok_def)

lemma header_type_range: "0 \<le> uint (header_type h) \<and> uint (header_type h) \<le> 15"
proof -
  have "uint (header_type h) = uint h div 16" by (simp add: header_type_def drop_bit_eq_div uint_div_distrib)
  moreover have "0 \<le> uint h" "uint h < 256" using uint_lt2p [of h] by simp_all
  ultimately show ?thesis by linarith
qed

lemma read_safe:
  assumes src: "getfn_ok g" and size: "5 \<le> length buf" "buflen \<le> int (length buf)"
  shows "\<exists>rc buf' w'. MQTTPacket_read g w buf buflen = Some (rc, buf', w') \<and>
    length buf' = length buf \<and> -1 \<le> rc \<and> rc \<le> 15"
proof -
  have one: "\<exists>rc bs w'. g w 1 = Some (rc, bs, w') \<and> (rc = 1 \<longrightarrow> length bs = 1)" for w
    using getfn_okD [OF src, of 1 w] by (fastforce simp: max_def)
  from getfn_okD [OF src, of 1 w] obtain rc1 bs1 w1 where g1: "g w 1 = Some (rc1, bs1, w1)"
    "int (length bs1) = max rc1 0" "rc1 \<le> 1" by auto
  have "length bs1 \<le> length buf" using g1 size by linarith
  then obtain b1 where b1: "blit buf 0 bs1 = Some b1" "length b1 = length buf"
    using blit_total [of 0 bs1 buf] by auto
  have "\<exists>r. MQTTPacket_decode_loop g w1 0 1 0 = Some r" using one dec_inv_init by (rule decode_loop_total)
  then obtain dl v w2 where d: "MQTTPacket_decode g w1 = Some (dl, v, w2)" by (auto simp: MQTTPacket_decode_def)
  then have v: "0 \<le> v" "v < 268435456"
    by (auto simp: MQTTPacket_decode_def dest: decode_loop_bounds [OF _ dec_inv_init])
  let ?l = "length (enc_len (nat v))"
  have l: "1 \<le> ?l" "?l \<le> 4" using v length_enc_len_pos by (simp_all add: length_enc_len nat_less_iff)
  then obtain b2 where e: "MQTTPacket_encode b1 1 v = Some (int ?l, b2)" "length b2 = length buf"
    using v size b1 by (auto simp: MQTTPacket_encode_put put_def)
  from getfn_okD [OF src, of v w2] have g3: "0 < v \<Longrightarrow> \<exists>rc bs w'. g w2 v = Some (rc, bs, w') \<and>
      rc \<le> v \<and> int (length bs) = max rc 0" by blast
  have b3: "\<exists>b'. blit b2 (nat (1 + int ?l)) bs = Some b' \<and> length b' = length buf"
    if "int (length bs) \<le> v" "v + (1 + int ?l) \<le> buflen" for bs
    using blit_total [of "nat (1 + int ?l)" bs b2] that e size by (auto simp: nat_add_distrib)
  have ld: "load b 0 = Some (b ! 0)" if "length b = length buf" for b
    using that size by (auto simp: load_def)
  show ?thesis
  proof (cases "rc1 = 1 \<and> v + (1 + int ?l) \<le> buflen")
    case True
    show ?thesis
    proof (cases "v = 0")
      case True
      with \<open>rc1 = 1 \<and> _\<close> g1 b1 d e show ?thesis
        by (simp add: MQTTPacket_read_def ld header_type_range order_trans [OF _ conjunct1 [OF header_type_range]])
    next
      case False
      with v obtain rc bs w' where g: "g w2 v = Some (rc, bs, w')" "rc \<le> v" "int (length bs) = max rc 0"
        using g3 by force
      then have "int (length bs) \<le> v" using v by simp
      with b3 True obtain b' where "blit b2 (nat (1 + int ?l)) bs = Some b'" "length b' = length buf" by blast
      with True False g1 b1 d e g show ?thesis
        by (simp add: MQTTPacket_read_def ld header_type_range order_trans [OF _ conjunct1 [OF header_type_range]])
    qed
  next
    case False
    with g1 b1 d e show ?thesis by (auto simp: MQTTPacket_read_def)
  qed
qed

section \<open>The resumable reader\<close>

lemma decodenb_step:
  assumes "dec_inv (tr_len t) (tr_multiplier t) (tr_rem_len t)" and "tr_len t < 4"
  shows "decodenb_loop g t w = do {
     (frc, bs, w) \<leftarrow> g w 1;
     (if frc = -1 then Some (MQTTPACKET_READ_ERROR, t, w)
      else if frc = 0 then Some (0, t, w)
      else do {
        c \<leftarrow> the_byte bs;
        let t' = t\<lparr>tr_len := tr_len t + 1, tr_rem_len := tr_rem_len t + uint c mod 128 * tr_multiplier t,
                   tr_multiplier := tr_multiplier t * 128\<rparr>;
        (if bit c 7 then decodenb_loop g t' w else Some (tr_len t + 1, t', w)) }) }"
proof -
  have "cint (tr_multiplier t * 128) = Some (tr_multiplier t * 128) \<and>
      cint (tr_rem_len t + uint c mod 128 * tr_multiplier t) = Some (tr_rem_len t + uint c mod 128 * tr_multiplier t)"
    for c :: byte
    using dec_inv_range [OF dec_inv_step [OF assms, of "uint c mod 128"]] by simp
  with assms(2) show ?thesis
    by (subst decodenb_loop.simps)
       (simp add: MAX_NO_OF_REMAINING_LENGTH_BYTES_def uint_and_127 and_128_eq_0 Let_def cong: if_cong)
qed

text \<open>What is left of the work: the answers "call again" still to come and the
  bytes still in the transport.\<close>

abbreviation todo :: "('w \<Rightarrow> byte list) \<Rightarrow> ('w \<Rightarrow> nat) \<Rightarrow> 'w \<Rightarrow> nat" where
  "todo stream agains w \<equiv> agains w + length (stream w)"

lemma nb_source_cases:
  assumes "nb_source g stream agains" and "0 < n" and "stream w \<noteq> []" and "n \<le> INT_MAX"
  obtains (again) w' where "g w n = Some (0, [], w')" "stream w' = stream w"
      "todo stream agains w' < todo stream agains w"
  | (data) w' xs ys where "g w n = Some (int (length xs), xs, w')" "stream w = xs @ ys" "stream w' = ys"
      "xs \<noteq> []" "int (length xs) \<le> n" "todo stream agains w' < todo stream agains w"
proof -
  from assms(1) [unfolded nb_source_def, rule_format, OF assms(2,4,3)] consider
    (a) w' where "g w n = Some (0, [], w')" "stream w' = stream w" "agains w' < agains w"
  | (d) w' xs ys where "g w n = Some (int (length xs), xs, w')" "stream w = xs @ ys" "stream w' = ys"
      "xs \<noteq> []" "int (length xs) \<le> n" "agains w' \<le> agains w"
    by blast
  then show thesis
  proof cases
    case a
    with again show thesis by simp
  next
    case d
    with data [of xs w' ys] show thesis by (cases xs) simp_all
  qed
qed

lemma nb_source_byte:
  assumes "nb_source g stream agains" and "stream w = c # cs"
  obtains (again) w' where "g w 1 = Some (0, [], w')" "stream w' = stream w"
      "todo stream agains w' < todo stream agains w"
  | (data) w' where "g w 1 = Some (1, [c], w')" "stream w' = cs"
      "todo stream agains w' < todo stream agains w"
proof (rule nb_source_cases [OF assms(1), of 1 w])
  fix w' xs ys
  assume d: "g w 1 = Some (int (length xs), xs, w')" "stream w = xs @ ys" "stream w' = ys"
    "xs \<noteq> []" "int (length xs) \<le> 1" "todo stream agains w' < todo stream agains w"
  then have "xs = [c]" "ys = cs" using assms(2) by (cases xs; simp)+
  with d data show thesis by simp
qed (use assms again in \<open>auto simp: INT_MAX_def\<close>)

text \<open>The state between two calls while the length is being read: \<open>m\<close> is what
  the digits still to come stand for.\<close>

definition len_inv :: "('w \<Rightarrow> byte list) \<Rightarrow> nat \<Rightarrow> byte list \<Rightarrow> nat \<Rightarrow> MQTTTransport \<Rightarrow> 'w \<Rightarrow> bool" where
  "len_inv stream n r m t w \<longleftrightarrow>
     stream w = enc_len m @ r \<and> dec_inv (tr_len t) (tr_multiplier t) (tr_rem_len t) \<and>
     tr_rem_len t + int m * tr_multiplier t = int n \<and> tr_len t + int (length (enc_len m)) \<le> 4"

lemma decodenb_progress:
  assumes "nb_source g stream agains" and "len_inv stream n r m t w"
  shows "\<exists>rc t' w'. decodenb_loop g t w = Some (rc, t', w') \<and> tr_state t' = tr_state t \<and>
    todo stream agains w' < todo stream agains w \<and>
    (rc = 0 \<and> (\<exists>m'. len_inv stream n r m' t' w') \<or> 0 < rc \<and> tr_rem_len t' = int n \<and> stream w' = r)"
  using assms(2)
proof (induction m arbitrary: t w rule: enc_len.induct)
  case (1 m)
  from 1(2) have s: "stream w = enc_len m @ r" and inv: "dec_inv (tr_len t) (tr_multiplier t) (tr_rem_len t)"
    and n: "tr_rem_len t + int m * tr_multiplier t = int n" and l: "tr_len t + int (length (enc_len m)) \<le> 4"
    by (simp_all add: len_inv_def)
  have lt: "tr_len t < 4" using l length_enc_len_pos [of m] by simp
  have pos: "0 \<le> tr_len t" using inv by (simp add: dec_inv_def)
  obtain c cs where c: "enc_len m = c # cs" by (cases "enc_len m") auto
  then have sc: "stream w = c # (cs @ r)" using s by simp
  show ?case
  proof (rule nb_source_byte [OF assms(1) sc])
    fix w' assume "g w 1 = Some (0, [], w')" "stream w' = stream w" "todo stream agains w' < todo stream agains w"
    with 1(2) show ?thesis by (auto simp: decodenb_step [OF inv lt] len_inv_def)
  next
    fix w' assume g: "g w 1 = Some (1, [c], w')" "stream w' = cs @ r"
      and less: "todo stream agains w' < todo stream agains w"
    show ?thesis
    proof (cases "m < 128")
      case True
      then have "c = word_of_nat m" "cs = []" using c by (simp_all add: enc_len_small)
      with True g less n pos show ?thesis
        by (simp add: decodenb_step [OF inv lt] the_byte_def bit_7_less digit_low)
    next
      case False
      then have c': "c = word_of_nat (m mod 128) OR 128" "cs = enc_len (m div 128)"
        using c by (simp_all add: enc_len_big)
      let ?t = "t\<lparr>tr_len := tr_len t + 1, tr_rem_len := tr_rem_len t + int (m mod 128) * tr_multiplier t,
                   tr_multiplier := tr_multiplier t * 128\<rparr>"
      have "int m = int (m mod 128) + int (m div 128) * 128" by (simp add: zmod_int zdiv_int)
      then have "tr_rem_len ?t + int (m div 128) * tr_multiplier ?t = int n"
        using n by (simp add: algebra_simps)
      then have "len_inv stream n r (m div 128) ?t w'"
        using g c' l False dec_inv_step [OF inv lt, of "int (m mod 128)"] by (simp add: len_inv_def enc_len_big)
      from 1(1) [OF False this] obtain rc t' w'' where
        "decodenb_loop g ?t w' = Some (rc, t', w'')" "tr_state t' = tr_state ?t"
        "todo stream agains w'' < todo stream agains w'"
        "rc = 0 \<and> (\<exists>m'. len_inv stream n r m' t' w'') \<or> 0 < rc \<and> tr_rem_len t' = int n \<and> stream w'' = r"
        by blast
      with g less c' show ?thesis
        by (auto simp: decodenb_step [OF inv lt] the_byte_def digit_high digit_low)
    qed
  qed
qed

text \<open>A packet on the wire, and the states between two calls while it arrives:
  the header byte read, part of the length read, part of the body stored.\<close>

definition packet :: "byte \<Rightarrow> byte list \<Rightarrow> byte list" where
  "packet h body = h # enc_len (length body) @ body"

definition reset_len :: "MQTTTransport \<Rightarrow> MQTTTransport" where
  "reset_len t = (if tr_len t = 0 then t\<lparr>tr_multiplier := 1, tr_rem_len := 0\<rparr> else t)"

definition body_inv ::
  "('w \<Rightarrow> byte list) \<Rightarrow> byte list \<Rightarrow> byte list \<Rightarrow> buffer \<Rightarrow> buffer \<Rightarrow> MQTTTransport \<Rightarrow> 'w \<Rightarrow> nat \<Rightarrow> bool" where
  "body_inv stream pkt rest buf0 buf t w j \<longleftrightarrow>
     tr_state t = 2 \<and> j \<le> length pkt \<and> buf = take j pkt @ drop j buf0 \<and> tr_len t = int j \<and>
     tr_rem_len t = int (length pkt) - int j \<and> stream w = drop j pkt @ rest"

definition nb_inv ::
  "('w \<Rightarrow> byte list) \<Rightarrow> byte \<Rightarrow> byte list \<Rightarrow> byte list \<Rightarrow> buffer \<Rightarrow> buffer \<Rightarrow> MQTTTransport \<Rightarrow> 'w \<Rightarrow> bool" where
  "nb_inv stream h body rest buf0 buf t w \<longleftrightarrow>
     tr_state t \<notin> {1, 2} \<and> buf = buf0 \<and> stream w = packet h body @ rest \<or>
     tr_state t = 1 \<and> buf = [h] @ drop 1 buf0 \<and>
       (\<exists>m. len_inv stream (length body) (body @ rest) m (reset_len t) w) \<or>
     (\<exists>j > 0. body_inv stream (packet h body) rest buf0 buf t w j)"

definition nb_result ::
  "('w \<Rightarrow> byte list) \<Rightarrow> ('w \<Rightarrow> nat) \<Rightarrow> byte \<Rightarrow> byte list \<Rightarrow> byte list \<Rightarrow> buffer \<Rightarrow> 'w \<Rightarrow>
   int \<times> buffer \<times> MQTTTransport \<times> 'w \<Rightarrow> bool" where
  "nb_result stream agains h body rest buf0 w = (\<lambda>(rc, buf, t, w').
     rc = 0 \<and> nb_inv stream h body rest buf0 buf t w' \<and> todo stream agains w' < todo stream agains w \<or>
     rc = uint (header_type h) \<and> buf = packet h body @ drop (length (packet h body)) buf0 \<and>
       tr_state t = 0 \<and> stream w' = rest)"

lemma load_packet [simp]: "load (packet h body @ xs) 0 = Some h"
  by (simp add: packet_def)

lemma nb_result_mono:
  "nb_result stream agains h body rest buf0 w' r \<Longrightarrow> todo stream agains w' < todo stream agains w \<Longrightarrow>
   nb_result stream agains h body rest buf0 w r"
  by (auto simp: nb_result_def)

lemma readnb_case2_step:
  assumes src: "nb_source g stream agains" and inv: "body_inv stream (packet h body) rest buf0 buf t w j"
    and j: "0 < j" and fits: "length (packet h body) \<le> length buf0" "length (packet h body) < 2147483648"
  shows "\<exists>r. readnb_case2 g buf t w = Some r \<and> nb_result stream agains h body rest buf0 w r"
proof -
  let ?p = "packet h body"
  have b: "buf = take j ?p @ drop (length (take j ?p)) buf0" and jl: "length (take j ?p) = j"
    using inv by (simp_all add: body_inv_def min_absorb2)
  show ?thesis
  proof (cases "j = length ?p")
    case True
    with inv show ?thesis by (auto simp: body_inv_def readnb_case2_def nb_result_def packet_def)
  next
    case False
    then have pos: "0 < tr_rem_len t" and ne: "stream w \<noteq> []" and s: "stream w = drop j ?p @ rest"
      and small: "tr_rem_len t \<le> INT_MAX"
      using inv fits(2) by (auto simp: body_inv_def INT_MAX_def)
    show ?thesis
    proof (rule nb_source_cases [OF src pos ne small])
      fix w' assume "g w (tr_rem_len t) = Some (0, [], w')" "stream w' = stream w"
        "todo stream agains w' < todo stream agains w"
      moreover have "blit buf (nat (tr_len t)) [] = Some buf"
        using inv fits by (simp add: body_inv_def blit_def put_Nil)
      moreover have "nb_inv stream h body rest buf0 buf t w'"
        using inv j \<open>stream w' = stream w\<close> by (auto simp: nb_inv_def body_inv_def)
      ultimately show ?thesis using pos by (auto simp: readnb_case2_def nb_result_def)
    next
      fix w' xs ys assume g: "g w (tr_rem_len t) = Some (int (length xs), xs, w')" "stream w = xs @ ys"
        "stream w' = ys" "xs \<noteq> []" "int (length xs) \<le> tr_rem_len t" "todo stream agains w' < todo stream agains w"
      let ?j = "j + length xs" and ?t = "t\<lparr>tr_rem_len := tr_rem_len t - int (length xs), tr_len := tr_len t + int (length xs)\<rparr>"
      have le: "?j \<le> length ?p" using g(5) inv by (simp add: body_inv_def)
      have "xs = take (length xs) (drop j ?p @ rest)" "ys = drop (length xs) (drop j ?p @ rest)"
        using g(2) s by (metis append_eq_conv_conj)+
      with le have xs: "xs = take (length xs) (drop j ?p)" "ys = drop ?j ?p @ rest"
        by (simp_all add: add.commute)
      then have tk: "take ?j ?p = take j ?p @ xs" by (metis take_add)
      have "blit buf (nat (tr_len t)) xs = Some (take ?j ?p @ drop ?j buf0)"
        using blit_over [of "take j ?p" xs buf0] b jl le fits inv by (simp add: body_inv_def tk)
      moreover have "cint (tr_rem_len t - int (length xs)) = Some (tr_rem_len t - int (length xs))"
        "cint (tr_len t + int (length xs)) = Some (tr_len t + int (length xs))"
        using fits le inv by (auto simp: body_inv_def cint_def INT_MIN_def INT_MAX_def)
      moreover have i': "body_inv stream ?p rest buf0 (take ?j ?p @ drop ?j buf0) ?t w' ?j"
        using inv le g(3) xs by (simp add: body_inv_def)
      ultimately have r: "readnb_case2 g buf t w =
          (if ?j = length ?p then Some (uint (header_type h), ?p @ drop ?j buf0, ?t\<lparr>tr_state := 0\<rparr>, w')
           else Some (0, take ?j ?p @ drop ?j buf0, ?t, w'))"
        using g pos inv le by (auto simp: readnb_case2_def body_inv_def Let_def)
      show ?thesis
      proof (cases "?j = length ?p")
        case True
        with r g xs show ?thesis by (simp add: nb_result_def)
      next
        case False
        from i' j have "nb_inv stream h body rest buf0 (take ?j ?p @ drop ?j buf0) ?t w'"
          unfolding nb_inv_def by blast
        with False r g show ?thesis by (simp add: nb_result_def)
      qed
    qed
  qed
qed

lemma readnb_case1_step:
  assumes src: "nb_source g stream agains" and inv: "len_inv stream (length body) (body @ rest) m (reset_len t) w"
    and st: "tr_state t = 1" and b: "buf = [h] @ drop 1 buf0"
    and fits: "length (packet h body) \<le> length buf0" "int (length (packet h body)) \<le> buflen" "length body < 268435456"
  shows "\<exists>r. readnb_case1 g buf buflen t w = Some r \<and> nb_result stream agains h body rest buf0 w r"
proof -
  let ?l = "length (enc_len (length body))"
  have l: "?l \<le> 4" using fits by (simp add: length_enc_len)
  have st': "tr_state (reset_len t) = 1" using st by (simp add: reset_len_def)
  have d: "MQTTPacket_decodenb g t w = decodenb_loop g (reset_len t) w"
    by (simp add: MQTTPacket_decodenb_def reset_len_def)
  from decodenb_progress [OF src inv] obtain rc t' w' where
    r: "MQTTPacket_decodenb g t w = Some (rc, t', w')" "tr_state t' = 1" "todo stream agains w' < todo stream agains w"
    and c: "rc = 0 \<and> (\<exists>m'. len_inv stream (length body) (body @ rest) m' t' w') \<or>
      0 < rc \<and> tr_rem_len t' = int (length body) \<and> stream w' = body @ rest"
    unfolding d st' by blast
  from c show ?thesis
  proof (elim disjE conjE exE)
    fix m' assume 0: "rc = 0" and i: "len_inv stream (length body) (body @ rest) m' t' w'"
    have "reset_len t' = t'" using i by (auto simp: reset_len_def len_inv_def dec_inv_def)
    with r i b 0 have "nb_inv stream h body rest buf0 buf t' w'" by (auto simp: nb_inv_def)
    with r 0 show ?thesis by (simp add: readnb_case1_def nb_result_def MQTTPACKET_READ_ERROR_def)
  next
    assume "0 < rc" and n: "tr_rem_len t' = int (length body)" and s: "stream w' = body @ rest"
    let ?b = "(h # enc_len (length body)) @ drop (length (h # enc_len (length body))) buf0"
    let ?t = "t'\<lparr>tr_len := 1 + int ?l, tr_state := 2\<rparr>"
    have e: "MQTTPacket_encode buf 1 (int (length body)) = Some (int ?l, ?b)"
      using encode_over [of "[h]" "length body" buf0] fits b by (simp add: packet_def)
    have "body_inv stream (packet h body) rest buf0 ?b ?t w' (1 + ?l)"
      using n s by (simp add: body_inv_def packet_def)
    from readnb_case2_step [OF src this] fits l obtain r2 where
      "readnb_case2 g ?b ?t w' = Some r2" "nb_result stream agains h body rest buf0 w' r2"
      by (auto simp: packet_def)
    moreover have "cint (int (length body) + (1 + int ?l)) = Some (int (length body) + (1 + int ?l))"
      using l fits by (simp add: cint_def INT_MIN_def INT_MAX_def)
    moreover have "int (length body) + (1 + int ?l) \<le> buflen" using fits by (simp add: packet_def)
    ultimately show ?thesis using r n e \<open>0 < rc\<close> nb_result_mono [OF _ r(3)]
      by (auto simp: readnb_case1_def MQTTPACKET_READ_ERROR_def)
  qed
qed

lemma readnb_step:
  assumes src: "nb_source g stream agains" and inv: "nb_inv stream h body rest buf0 buf t w"
    and fits: "length (packet h body) \<le> length buf0" "int (length (packet h body)) \<le> buflen" "length body < 268435456"
  shows "\<exists>r. MQTTPacket_readnb g buf buflen t w = Some r \<and> nb_result stream agains h body rest buf0 w r"
proof -
  have l: "length (enc_len (length body)) \<le> 4" using fits by (simp add: length_enc_len)
  from inv consider (start) "tr_state t \<notin> {1, 2}" "buf = buf0" "stream w = packet h body @ rest"
    | (len) m where "tr_state t = 1" "buf = [h] @ drop 1 buf0"
        "len_inv stream (length body) (body @ rest) m (reset_len t) w"
    | (body) j where "0 < j" "body_inv stream (packet h body) rest buf0 buf t w j"
    unfolding nb_inv_def by blast
  then show ?thesis
  proof cases
    case start
    then have s: "stream w = h # (enc_len (length body) @ body @ rest)" by (simp add: packet_def)
    show ?thesis
    proof (rule nb_source_byte [OF src s])
      fix w' assume "g w 1 = Some (0, [], w')" "stream w' = stream w" "todo stream agains w' < todo stream agains w"
      with start show ?thesis
        by (auto simp: MQTTPacket_readnb_def readnb_case0_def nb_result_def nb_inv_def blit_def put_Nil)
    next
      fix w' assume g: "g w 1 = Some (1, [h], w')" "stream w' = enc_len (length body) @ body @ rest"
        and less: "todo stream agains w' < todo stream agains w"
      let ?t = "t\<lparr>tr_len := 0, tr_state := 1\<rparr>"
      have "blit buf0 0 [h] = Some ([h] @ drop 1 buf0)"
        using blit_over [of "[]" "[h]" buf0] fits by (simp add: packet_def)
      moreover have "len_inv stream (length body) (body @ rest) (length body) (reset_len ?t) w'"
        using g l by (simp add: len_inv_def reset_len_def dec_inv_init)
      from readnb_case1_step [OF src this, of "[h] @ drop 1 buf0" h buf0 buflen] fits obtain r where
        "readnb_case1 g ([h] @ drop 1 buf0) buflen ?t w' = Some r" "nb_result stream agains h body rest buf0 w' r"
        by auto
      ultimately show ?thesis using start g nb_result_mono [OF _ less]
        by (auto simp: MQTTPacket_readnb_def readnb_case0_def)
    qed
  next
    case len
    with readnb_case1_step [OF src len(3,1,2) fits] show ?thesis by (simp add: MQTTPacket_readnb_def)
  next
    case body
    with readnb_case2_step [OF src body(2,1)] fits l show ?thesis
      by (auto simp: MQTTPacket_readnb_def body_inv_def packet_def)
  qed
qed

lemma readnb_poll_delivers:
  assumes src: "nb_source g stream agains" and inv: "nb_inv stream h body rest buf0 buf t w"
    and fits: "length (packet h body) \<le> length buf0" "int (length (packet h body)) \<le> buflen" "length body < 268435456"
    and h: "header_type h \<noteq> 0" and k: "todo stream agains w < k + length rest"
  shows "\<exists>t' w'. readnb_poll k g buf buflen t w =
      Some (uint (header_type h), packet h body @ drop (length (packet h body)) buf0, t', w') \<and>
    tr_state t' = 0 \<and> stream w' = rest"
  using inv k
proof (induction k arbitrary: buf t w)
  case 0
  then have "length rest \<le> length (stream w)"
    by (auto simp: nb_inv_def len_inv_def body_inv_def)
  with 0 show ?case by simp
next
  case (Suc k)
  have ht: "uint (header_type h) \<noteq> 0" using h by (simp add: unsigned_eq_0_iff)
  from readnb_step [OF src Suc.prems(1) fits] obtain rc b' t' w' where
    r: "MQTTPacket_readnb g buf buflen t w = Some (rc, b', t', w')"
    and res: "nb_result stream agains h body rest buf0 w (rc, b', t', w')" by auto
  show ?case
  proof (cases "rc = 0")
    case True
    with res ht have "nb_inv stream h body rest buf0 b' t' w'" "todo stream agains w' < todo stream agains w"
      by (auto simp: nb_result_def)
    with Suc True r show ?thesis by auto
  next
    case False
    with res r show ?thesis by (auto simp: nb_result_def)
  qed
qed

section \<open>Properties of the packet readers\<close>

text \<open>Two transports on which the hypotheses below hold: a list of bytes read as
  asked, and a list of bytes handed out one at a time with a "call again" before
  every second byte.\<close>

definition list_source :: "byte list getfn" where
  "list_source w n = (if 0 \<le> n \<and> nat n \<le> length w then Some (n, take (nat n) w, drop (nat n) w) else Some (-1, [], w))"

definition drip_source :: "(nat \<times> byte list) getfn" where
  "drip_source w n = (case w of (k, xs) \<Rightarrow>
     if odd k then Some (0, [], (k - 1, xs))
     else (case xs of [] \<Rightarrow> Some (0, [], w) | x # ys \<Rightarrow> Some (1, [x], (k - 1, ys))))"

lemma list_source_blocking: "blocking_source list_source (\<lambda>w. w)"
  by (auto simp: blocking_source_def list_source_def)

lemma list_source_getfn_ok: "getfn_ok list_source"
  by (auto simp: getfn_ok_def list_source_def)

lemma drip_source_nb: "nb_source drip_source snd fst"
  by (auto simp: nb_source_def drip_source_def split: list.splits elim: oddE)

text \<open>
  when the transport delivers a complete packet that fits the
  caller's buffer, \<open>MQTTPacket_read\<close> returns its type, stores exactly the bytes
  of the packet, leaves the rest of the buffer alone and consumes nothing of
  what follows in the stream.
\<close>

theorem read_delivers_packet:
  assumes "blocking_source g stream" and "stream w = packet h body @ rest" and "length body < 268435456"
    and "int (length (packet h body)) \<le> buflen" and "buflen \<le> int (length buf)"
  shows "\<exists>w'. MQTTPacket_read g w buf buflen =
      Some (uint (header_type h), packet h body @ drop (length (packet h body)) buf, w') \<and> stream w' = rest"
  using read_delivers [OF assms(1), of w h "length body" body rest buflen buf] assms(2-) by (simp add: packet_def)

theorem read_delivers_packet_witness:
  "\<exists>w'. MQTTPacket_read list_source (packet 0x40 [0, 7] @ [0xD0]) (replicate 6 0) 6 =
      Some (uint (header_type 0x40), packet 0x40 [0, 7] @ drop (length (packet 0x40 [0, 7])) (replicate 6 0), w') \<and>
    w' = [0xD0]"
  by (rule read_delivers_packet [OF list_source_blocking]) (simp_all add: packet_def enc_len_small)

text \<open>
  whatever a transport delivers that stores no more than it was
  asked for, \<open>MQTTPacket_read\<close> stays inside a buffer of five bytes or more, has
  no signed overflow, and returns -1 or a four-bit packet type.
\<close>

theorem read_never_overruns:
  assumes "getfn_ok g" and "5 \<le> length buf" and "buflen \<le> int (length buf)"
  shows "\<exists>rc buf' w'. MQTTPacket_read g w buf buflen = Some (rc, buf', w') \<and>
    length buf' = length buf \<and> -1 \<le> rc \<and> rc \<le> 15"
  using assms by (rule read_safe)

theorem read_never_overruns_witness:
  "\<exists>rc buf' w'. MQTTPacket_read list_source [0x30, 0xFF, 0xFF, 0xFF, 0x7F, 1] (replicate 5 0) 5 = Some (rc, buf', w') \<and>
    length buf' = length (replicate 5 (0 :: byte)) \<and> -1 \<le> rc \<and> rc \<le> 15"
  by (rule read_never_overruns [OF list_source_getfn_ok]) simp_all

text \<open>
  C5: the resumable reader delivers a packet however the transport cuts
  it into pieces: after at most as many calls as the packet has bytes and the
  transport has "call again" answers, plus one, a call returns the packet type
  with exactly the packet in the buffer, the rest of the stream unread and the
  state machine back in its initial state.
\<close>

theorem readnb_delivers_packet:
  assumes "nb_source g stream agains" and "stream w = packet h body @ rest" and "length body < 268435456"
    and "int (length (packet h body)) \<le> buflen" and "buflen \<le> int (length buf)"
    and "tr_state t \<notin> {1, 2}" and "header_type h \<noteq> 0" and "agains w + length (packet h body) < k"
  shows "\<exists>t' w'. readnb_poll k g buf buflen t w =
      Some (uint (header_type h), packet h body @ drop (length (packet h body)) buf, t', w') \<and>
    tr_state t' = 0 \<and> stream w' = rest"
proof (rule readnb_poll_delivers [OF assms(1)])
  show "nb_inv stream h body rest buf buf t w" using assms by (simp add: nb_inv_def)
qed (use assms in auto)

theorem readnb_delivers_packet_witness:
  "\<exists>t' w'. readnb_poll 30 drip_source (replicate 6 0) 6 \<lparr>tr_multiplier = 0, tr_rem_len = 0, tr_len = 0, tr_state = 0\<rparr>
        (20, packet 0x40 [0, 7] @ [0xD0]) =
      Some (uint (header_type 0x40), packet 0x40 [0, 7] @ drop (length (packet 0x40 [0, 7])) (replicate 6 0), t', w') \<and>
    tr_state t' = 0 \<and> snd w' = [0xD0]"
  by (rule readnb_delivers_packet [OF drip_source_nb]) (simp_all add: packet_def enc_len_small header_type_def)

end
