(* ===== verification/Topic_Match.thy ===== *)
theory Topic_Match
  imports Packet_Base
begin

text \<open>
  Topic matching: \<open>isTopicMatched\<close> of \<open>paho/MQTTClient-C/src/MQTTClient.c\<close> and what
  \<open>MQTTPacket_equals\<close> means for it. The scanner walks over both strings a character
  at a time; the pointers \<open>curf\<close> and \<open>curn\<close> are modelled by the bytes from them to
  the end of the filter and to \<open>curn_end\<close>.

  The specification splits both strings into levels and compares level by level
  (\<open>levels_match\<close>); the lemmas show that the scanner decides exactly that for every
  filter in the format its comment assumes.
\<close>

section \<open>Operations\<close>

abbreviation SEP :: byte where "SEP \<equiv> 0x2F"
abbreviation PLUS :: byte where "PLUS \<equiv> 0x2B"
abbreviation HASH :: byte where "HASH \<equiv> 0x23"

text \<open>The inner loop: \<open>curn\<close> moves to the last character before the next separator.\<close>

fun skip_level :: "byte list \<Rightarrow> byte list" where
  "skip_level (x # y # n) = (if y \<noteq> SEP then skip_level (y # n) else x # y # n)"
| "skip_level n = n"

text \<open>The outer loop; every exit evaluates \<open>(curn == curn_end) && ( *curf == '\0')\<close>.\<close>

definition both_done :: "byte list \<Rightarrow> byte list \<Rightarrow> bool" where
  "both_done f n \<longleftrightarrow> n = [] \<and> f = []"

fun isTopicMatched_loop :: "byte list \<Rightarrow> byte list \<Rightarrow> bool" where
  "isTopicMatched_loop (c # f) (x # n) =
     (if x = SEP \<and> c \<noteq> SEP then both_done (c # f) (x # n)
      else if c \<noteq> PLUS \<and> c \<noteq> HASH \<and> c \<noteq> x then both_done (c # f) (x # n)
      else if c = PLUS then isTopicMatched_loop f (tl (skip_level (x # n)))
      else if c = HASH then isTopicMatched_loop f []
      else isTopicMatched_loop f n)"
| "isTopicMatched_loop f n = both_done f n"

definition isTopicMatched :: "byte list \<Rightarrow> MQTTString \<Rightarrow> bool option" where
  "isTopicMatched topicFilter topicName =
     (let name = (case ls_data (lenstring topicName) of None \<Rightarrow> [] | Some d \<Rightarrow> d);
          len = ls_len (lenstring topicName)
      in if 0 \<le> len \<and> nat len \<le> length name
         then Some (isTopicMatched_loop topicFilter (take (nat len) name)) else None)"

section \<open>Matching level by level\<close>

text \<open>The levels of a topic: what the separators separate.\<close>

function levels :: "byte list \<Rightarrow> byte list list" where
  "levels xs = takeWhile (\<lambda>x. x \<noteq> SEP) xs #
     (case dropWhile (\<lambda>x. x \<noteq> SEP) xs of [] \<Rightarrow> [] | _ # ys \<Rightarrow> levels ys)"
  by pat_completeness auto
termination
proof (relation "measure length", goal_cases)
  case (2 xs y ys)
  then show ?case using length_dropWhile_le [of "\<lambda>x. x \<noteq> SEP" xs] by simp
qed simp

declare levels.simps [simp del]

text \<open>A filter level against a topic level. \<open>+\<close> stands for one level, \<open>#\<close> for
  the rest; both stand for at least one character.\<close>

fun levels_match :: "byte list list \<Rightarrow> byte list list \<Rightarrow> bool" where
  "levels_match [] [] = True"
| "levels_match (f # fs) (n # ns) =
     (if f = [HASH] \<and> fs = [] then n \<noteq> []
      else (f = [PLUS] \<and> n \<noteq> [] \<or> f = n) \<and> levels_match fs ns)"
| "levels_match _ _ = False"

text \<open>The format the comment above \<open>isTopicMatched\<close> assumes: \<open>#\<close> only at the end,
  \<open>+\<close> and \<open>#\<close> only next to a separator.\<close>

definition literal :: "byte list \<Rightarrow> bool" where
  "literal f \<longleftrightarrow> PLUS \<notin> set f \<and> HASH \<notin> set f"

fun filter_levels_ok :: "byte list list \<Rightarrow> bool" where
  "filter_levels_ok [] = True"
| "filter_levels_ok (f # fs) = ((f = [HASH] \<and> fs = [] \<or> f = [PLUS] \<or> literal f) \<and> filter_levels_ok fs)"

definition filter_ok :: "byte list \<Rightarrow> bool" where
  "filter_ok f \<longleftrightarrow> filter_levels_ok (levels f)"

section \<open>The scanner on one level\<close>

text \<open>What can follow a level: the end, or a separator.\<close>

definition level_end :: "byte list \<Rightarrow> bool" where
  "level_end xs \<longleftrightarrow> xs = [] \<or> hd xs = SEP"

lemma level_endE:
  assumes "level_end xs"
  obtains "xs = []" | ys where "xs = SEP # ys"
  using assms by (cases xs) (auto simp: level_end_def)

lemma skip_level_last:
  assumes "SEP \<notin> set n" and "level_end N"
  shows "tl (skip_level (x # n @ N)) = N"
  using assms
proof (induction n arbitrary: x)
  case Nil
  then show ?case by (auto elim: level_endE)
qed simp

lemma scan_literal:
  assumes "literal f" and "SEP \<notin> set f" and "SEP \<notin> set n" and "level_end F" and "level_end N"
  shows "isTopicMatched_loop (f @ F) (n @ N) \<longleftrightarrow> f = n \<and> isTopicMatched_loop F N"
  using assms
proof (induction f arbitrary: n)
  case Nil
  then show ?case by (cases n) (auto simp: both_done_def elim: level_endE)
next
  case (Cons c f)
  show ?case
  proof (cases n)
    case Nil
    with Cons.prems show ?thesis by (auto simp: both_done_def elim: level_endE [of N])
  next
    case (Cons x n')
    then show ?thesis using Cons.prems Cons.IH [of n'] by (auto simp: literal_def both_done_def)
  qed
qed

lemma scan_plus:
  assumes "SEP \<notin> set n" and "level_end N"
  shows "isTopicMatched_loop (PLUS # F) (n @ N) \<longleftrightarrow> n \<noteq> [] \<and> isTopicMatched_loop F N"
proof (cases n)
  case Nil
  with assms show ?thesis by (auto simp: both_done_def elim: level_endE [of N])
next
  case (Cons x n')
  with assms show ?thesis by (auto simp: skip_level_last simp del: skip_level.simps)
qed

lemma scan_hash:
  assumes "SEP \<notin> set n" and "level_end N"
  shows "isTopicMatched_loop [HASH] (n @ N) \<longleftrightarrow> n \<noteq> []"
  using assms by (cases n) (auto simp: both_done_def elim: level_endE [of N])

section \<open>The scanner decides the specification\<close>

text \<open>A string is its first level followed by nothing or by a separator and the
  other levels.\<close>

lemma levels_cases:
  obtains (last) "SEP \<notin> set xs" "levels xs = [xs]"
  | (more) x ys where "xs = x @ SEP # ys" "SEP \<notin> set x" "levels xs = x # levels ys"
proof (cases "dropWhile (\<lambda>x. x \<noteq> SEP) xs")
  case Nil
  then have "\<forall>x \<in> set xs. x \<noteq> SEP" by (simp add: dropWhile_eq_Nil_conv)
  moreover have "levels xs = [takeWhile (\<lambda>x. x \<noteq> SEP) xs]" by (subst levels.simps) (simp only: Nil list.case)
  ultimately show thesis using last by (auto simp: takeWhile_eq_all_conv [THEN iffD2])
next
  case (Cons y ys)
  then have y: "y = SEP" using hd_dropWhile [of "\<lambda>x. x \<noteq> SEP" xs] by simp
  have "xs = takeWhile (\<lambda>x. x \<noteq> SEP) xs @ SEP # ys"
    using Cons y takeWhile_dropWhile_id [of "\<lambda>x. x \<noteq> SEP" xs] by simp
  moreover have "SEP \<notin> set (takeWhile (\<lambda>x. x \<noteq> SEP) xs)" using set_takeWhileD by fastforce
  ultimately show thesis using more Cons by (simp add: levels.simps [of xs])
qed

lemma levels_not_Nil [simp]: "levels xs \<noteq> []"
  by (subst levels.simps) simp

lemma scan_levels:
  "filter_ok f \<Longrightarrow> isTopicMatched_loop f n \<longleftrightarrow> levels_match (levels f) (levels n)"
proof (induction "length f" arbitrary: f n rule: less_induct)
  case less
  obtain y N where n: "n = y @ N" "SEP \<notin> set y" "level_end N"
    "levels n = y # (case N of [] \<Rightarrow> [] | _ # ys \<Rightarrow> levels ys)"
    by (rule levels_cases [of n]) (force simp: level_end_def)+
  obtain x F where f: "f = x @ F" "SEP \<notin> set x" "level_end F"
    "levels f = x # (case F of [] \<Rightarrow> [] | _ # ys \<Rightarrow> levels ys)"
    by (rule levels_cases [of f]) (force simp: level_end_def)+
  have sep: "isTopicMatched_loop F N \<longleftrightarrow>
      levels_match (case F of [] \<Rightarrow> [] | _ # ys \<Rightarrow> levels ys) (case N of [] \<Rightarrow> [] | _ # ys \<Rightarrow> levels ys)"
  proof (cases F)
    case Nil
    then show ?thesis by (cases N; cases "case N of [] \<Rightarrow> [] | _ # ys \<Rightarrow> levels ys") (simp_all add: both_done_def)
  next
    case (Cons c F')
    with f have F: "F = SEP # F'" by (auto elim: level_endE)
    have ok: "filter_ok F'" using less.prems f Cons by (simp add: filter_ok_def)
    from n(3) show ?thesis
    proof (cases rule: level_endE)
      case 1
      then show ?thesis by (cases "levels F'") (simp_all add: F both_done_def)
    next
      case (2 N')
      with less.hyps [of F' N'] ok f F show ?thesis by simp
    qed
  qed
  have "x = [HASH] \<and> F = [] \<or> x = [PLUS] \<or> literal x"
    using less.prems f by (auto simp: filter_ok_def split: list.splits)
  then consider "x = [HASH]" "F = []" | "x = [PLUS]" | "literal x" by blast
  then show ?case
  proof cases
    case 1
    then show ?thesis using f n by (simp add: scan_hash)
  next
    case 2
    then show ?thesis using f n sep by (simp add: scan_plus)
  next
    case 3
    then have "x \<noteq> [HASH]" "x \<noteq> [PLUS]" by (auto simp: literal_def)
    with 3 show ?thesis using f n sep by (simp add: scan_literal)
  qed
qed

section \<open>Topic names as the client has them\<close>

text \<open>A topic name as a deserializer leaves it: a delimited string inside the
  receive buffer.\<close>

definition name_ok :: "MQTTString \<Rightarrow> bool" where
  "name_ok s \<longleftrightarrow> cstring s = None \<and>
     (case ls_data (lenstring s) of None \<Rightarrow> False
      | Some d \<Rightarrow> 0 \<le> ls_len (lenstring s) \<and> nat (ls_len (lenstring s)) \<le> length d)"

lemma name_okE:
  assumes "name_ok s"
  obtains d where "cstring s = None" "ls_data (lenstring s) = Some d" "0 \<le> ls_len (lenstring s)"
    "nat (ls_len (lenstring s)) \<le> length d" "mstr_bytes s = take (nat (ls_len (lenstring s))) d"
  using assms by (auto simp: name_ok_def mstr_bytes_def split: option.splits)

lemma name_ok_read_string: "p + n \<le> length b \<Longrightarrow> name_ok (read_string b p n)"
  by (simp add: name_ok_def read_string_def)

lemma isTopicMatched_name:
  "name_ok s \<Longrightarrow> isTopicMatched f s = Some (isTopicMatched_loop f (mstr_bytes s))"
  by (erule name_okE) (simp add: isTopicMatched_def)

text \<open>A C string as the handler table holds it.\<close>

definition cstring_ok :: "byte list \<Rightarrow> bool" where
  "cstring_ok f \<longleftrightarrow> 0 \<notin> set f \<and> length f < 2147483648"

lemma strncmp_eq_spec:
  "0 \<notin> set b \<Longrightarrow> length b \<le> length a \<Longrightarrow> strncmp_eq a (b @ [0]) (length b) = Some (take (length b) a = b)"
proof (induction b arbitrary: a)
  case (Cons y b)
  then show ?case by (cases a) auto
qed simp

lemma MQTTPacket_equals_name:
  assumes "name_ok s" and "cstring_ok f"
  shows "MQTTPacket_equals s f = Some (mstr_bytes s = f)"
proof -
  obtain d where s: "cstring s = None" "ls_data (lenstring s) = Some d" "0 \<le> ls_len (lenstring s)"
    "nat (ls_len (lenstring s)) \<le> length d" "mstr_bytes s = take (nat (ls_len (lenstring s))) d"
    using assms(1) by (rule name_okE)
  have f: "int_of_size (length f) = int (length f)" using assms(2) by (simp add: cstring_ok_def int_of_size_small)
  show ?thesis
  proof (cases "ls_len (lenstring s) = int (length f)")
    case True
    with s f assms(2) show ?thesis
      by (simp add: MQTTPacket_equals_def strncmp_eq_spec cstring_ok_def)
  next
    case False
    with s have "length (mstr_bytes s) \<noteq> length f" by auto
    with False s f show ?thesis by (auto simp: MQTTPacket_equals_def)
  qed
qed

lemma literal_filter_ok: "literal f \<Longrightarrow> filter_ok f"
proof -
  have "literal f \<Longrightarrow> \<forall>g \<in> set (levels f). literal g"
  proof (induction f rule: levels.induct)
    case (1 f)
    show ?case
    proof (rule levels_cases [of f])
      assume "levels f = [f]"
      with 1(2) show ?thesis by simp
    next
      fix x ys assume m: "f = x @ SEP # ys" "SEP \<notin> set x" "levels f = x # levels ys"
      have "\<forall>y \<in> set x. y \<noteq> SEP" using m(2) by blast
      then have "dropWhile (\<lambda>x. x \<noteq> SEP) f = SEP # ys" using m(1) by (simp add: dropWhile_append2)
      with 1 m show ?thesis by (simp add: literal_def)
    qed
  qed
  moreover have "\<forall>g \<in> set gs. literal g \<Longrightarrow> filter_levels_ok gs" for gs by (induction gs) auto
  ultimately show "literal f \<Longrightarrow> filter_ok f" by (simp add: filter_ok_def)
qed

section \<open>Properties of topic matching\<close>

text \<open>
  C12: for every filter in the format the code assumes and every received
  topic name, the character scanner \<open>isTopicMatched\<close> returns what comparing the two
  level by level gives: equal levels, \<open>+\<close> for any one non-empty level, \<open>#\<close> for a
  non-empty rest.
\<close>

theorem topic_match_levels:
  assumes "filter_ok f" and "name_ok s"
  shows "isTopicMatched f s = Some (levels_match (levels f) (levels (mstr_bytes s)))"
  using assms by (simp add: isTopicMatched_name scan_levels)

theorem topic_match_levels_witness:
  "isTopicMatched [0x61, SEP, PLUS, SEP, HASH] (read_string [0x61, SEP, 0x62, SEP, 0x63] 0 5) =
     Some (levels_match (levels [0x61, SEP, PLUS, SEP, HASH])
       (levels (mstr_bytes (read_string [0x61, SEP, 0x62, SEP, 0x63] 0 5))))"
  by (rule topic_match_levels)
     (simp_all add: filter_ok_def levels.simps literal_def name_ok_def read_string_def)

text \<open>
  a filter \<open>t/#\<close> does not match the topic \<open>t\<close> itself, although the
  MQTT specification (4.7.1.2) includes the parent level.
\<close>

theorem hash_excludes_parent:
  assumes "name_ok s" and "literal (mstr_bytes s)"
  shows "isTopicMatched (mstr_bytes s @ [SEP, HASH]) s = Some False"
proof -
  have "\<not> isTopicMatched_loop (t @ [SEP, HASH]) t" if "literal t" for t
    using that by (induction t) (auto simp: both_done_def literal_def)
  with assms show ?thesis by (simp add: isTopicMatched_name)
qed

theorem hash_excludes_parent_witness:
  "isTopicMatched (mstr_bytes (read_string [0x61, SEP, 0x62] 0 3) @ [SEP, HASH]) (read_string [0x61, SEP, 0x62] 0 3) = Some False"
  by (rule hash_excludes_parent) (simp_all add: name_ok_def read_string_def mstr_bytes_def literal_def)

end
