(* ===== verification/Handler_Table.thy ===== *)
theory Handler_Table
  imports Topic_Match
begin

text \<open>
  The message handler table of the client, \<open>messageHandlers\<close> in
  \<open>paho/MQTTClient-C/src/MQTTClient.h\<close>: a fixed array of slots, each free or
  holding a topic filter and a handler. A handler (a function pointer) is a number.
  \<open>set_handler\<close> is the body of \<open>MQTTSetMessageHandler\<close> on the array.

  The abstract view of the table is a finite map from filters to handlers; the
  locale \<open>handler_map\<close> states what the client relies on, and its interpretation
  on the array shows that the two loops implement it.
\<close>

section \<open>Data and operations\<close>

definition MAX_MESSAGE_HANDLERS :: nat where
  "MAX_MESSAGE_HANDLERS = 5"

definition FAILURE :: int where
  "FAILURE = -1"

definition SUCCESS :: int where
  "SUCCESS = 0"

definition BUFFER_OVERFLOW :: int where
  "BUFFER_OVERFLOW = -2"

lemmas rc_defs = FAILURE_def SUCCESS_def BUFFER_OVERFLOW_def

record handler_slot =
  topicFilter :: "byte list option"
  fp :: "nat option"

text \<open>\<open>for (i = 0; i < MAX_MESSAGE_HANDLERS; ++i) if (P(slot i)) break;\<close> leaves
  \<open>i\<close> at the first such slot, or at the end of the array.\<close>

primrec scan_slots :: "(handler_slot \<Rightarrow> bool) \<Rightarrow> handler_slot list \<Rightarrow> nat" where
  "scan_slots P [] = 0"
| "scan_slots P (s # ss) = (if P s then 0 else Suc (scan_slots P ss))"

definition set_handler :: "handler_slot list \<Rightarrow> byte list \<Rightarrow> nat option \<Rightarrow> int \<times> handler_slot list" where
  "set_handler slots filt handler =
     (let i = scan_slots (\<lambda>s. topicFilter s = Some filt) slots;
          found = i < length slots;
          slots = (if found \<and> handler = None
                   then slots[i := \<lparr>topicFilter = None, fp = None\<rparr>] else slots);
          rc = (if found then SUCCESS else FAILURE)
      in case handler of
           None \<Rightarrow> (rc, slots)
         | Some h \<Rightarrow>
             let i = (if rc = FAILURE then scan_slots (\<lambda>s. topicFilter s = None) slots else i);
                 rc = (if rc = FAILURE \<and> i < length slots then SUCCESS else rc)
             in (rc, if i < length slots
                     then slots[i := \<lparr>topicFilter = Some filt, fp = Some h\<rparr>] else slots))"

text \<open>\<open>MQTTCleanSession\<close> frees every slot; the function pointers stay.\<close>

definition clean_slots :: "handler_slot list \<Rightarrow> handler_slot list" where
  "clean_slots slots = map (\<lambda>s. s\<lparr>topicFilter := None\<rparr>) slots"

section \<open>The abstract table\<close>

text \<open>A bounded map: what the client relies on.\<close>

locale handler_map =
  fixes lookup :: "'tab \<Rightarrow> byte list \<Rightarrow> nat option"
    and set_fn :: "'tab \<Rightarrow> byte list \<Rightarrow> nat option \<Rightarrow> int \<times> 'tab"
    and clear :: "'tab \<Rightarrow> 'tab"
    and valid :: "'tab \<Rightarrow> bool"
    and cap :: "'tab \<Rightarrow> nat"
  assumes valid_set: "valid t \<Longrightarrow> set_fn t f h = (rc, t') \<Longrightarrow> valid t' \<and> cap t' = cap t"
    and valid_clear: "valid t \<Longrightarrow> valid (clear t) \<and> cap (clear t) = cap t"
    and set_ok: "valid t \<Longrightarrow> set_fn t f h = (rc, t') \<Longrightarrow> rc = SUCCESS \<Longrightarrow> lookup t' = (lookup t)(f := h)"
    and set_fail: "valid t \<Longrightarrow> set_fn t f h = (rc, t') \<Longrightarrow> rc \<noteq> SUCCESS \<Longrightarrow> rc = FAILURE \<and> t' = t"
    and add_ok: "valid t \<Longrightarrow> fst (set_fn t f (Some k)) = SUCCESS \<longleftrightarrow> f \<in> dom (lookup t) \<or> card (dom (lookup t)) < cap t"
    and remove_ok: "valid t \<Longrightarrow> fst (set_fn t f None) = SUCCESS \<longleftrightarrow> f \<in> dom (lookup t)"
    and clear_empty: "valid t \<Longrightarrow> lookup (clear t) = Map.empty"
begin

lemma set_other: "valid t \<Longrightarrow> set_fn t f h = (rc, t') \<Longrightarrow> g \<noteq> f \<Longrightarrow> lookup t' g = lookup t g"
  using set_ok [of t f h rc t'] set_fail [of t f h rc t'] by (cases "rc = SUCCESS") auto

lemma set_then_remove:
  assumes "valid t" and "set_fn t f (Some h) = (SUCCESS, t1)" and "f \<notin> dom (lookup t)"
  shows "\<exists>t2. set_fn t1 f None = (SUCCESS, t2) \<and> lookup t2 = lookup t"
proof -
  obtain rc t2 where r: "set_fn t1 f None = (rc, t2)" by fastforce
  have v1: "valid t1" using valid_set assms by blast
  have l1: "lookup t1 = (lookup t)(f \<mapsto> h)" using set_ok [OF assms(1,2)] by simp
  have "rc = SUCCESS" using remove_ok [OF v1, of f] l1 r by simp
  moreover from this have "lookup t2 = (lookup t1)(f := None)" using set_ok [OF v1 r] by simp
  moreover have "lookup t f = None" using assms(3) by auto
  ultimately show ?thesis using r l1 by auto
qed

lemma set_is_update:
  assumes "valid t" and "f \<in> dom (lookup t) \<or> h \<noteq> None \<and> card (dom (lookup t)) < cap t"
  shows "\<exists>t'. set_fn t f h = (SUCCESS, t') \<and> valid t' \<and> lookup t' = (lookup t)(f := h)"
proof -
  obtain rc t' where r: "set_fn t f h = (rc, t')" by fastforce
  then have "rc = SUCCESS"
    using assms add_ok [OF assms(1)] remove_ok [OF assms(1)] by (cases h) (metis fst_conv)+
  with r show ?thesis using set_ok [OF assms(1) r] valid_set [OF assms(1) r] by blast
qed

end

section \<open>The array implements the table\<close>

text \<open>The filters in use, and the invariant: no filter is in two slots and a used
  slot has a handler.\<close>

definition slot_lookup :: "handler_slot list \<Rightarrow> byte list \<Rightarrow> nat option" where
  "slot_lookup slots f =
     (let i = scan_slots (\<lambda>s. topicFilter s = Some f) slots
      in if i < length slots then fp (slots ! i) else None)"

definition used :: "handler_slot list \<Rightarrow> byte list list" where
  "used slots = List.map_filter topicFilter slots"

definition slots_ok :: "handler_slot list \<Rightarrow> bool" where
  "slots_ok slots \<longleftrightarrow> distinct (used slots) \<and> (\<forall>s \<in> set slots. topicFilter s \<noteq> None \<longrightarrow> fp s \<noteq> None)"

lemma scan_slots_less: "scan_slots P ss < length ss \<longleftrightarrow> (\<exists>s \<in> set ss. P s)"
  by (induction ss) auto

lemma scan_slots_nth: "scan_slots P ss < length ss \<Longrightarrow> P (ss ! scan_slots P ss)"
  by (induction ss) auto

lemma scan_slots_split:
  assumes "scan_slots P ss < length ss"
  obtains l s r where "ss = l @ s # r" "scan_slots P ss = length l" "P s" "\<forall>t \<in> set l. \<not> P t"
  using assms
proof (induction ss arbitrary: thesis)
  case (Cons a ss)
  show ?case
  proof (cases "P a")
    case True
    with Cons.prems(1) [of "[]" a ss] show ?thesis by simp
  next
    case False
    with Cons.IH Cons.prems(2) obtain l s r where
      "ss = l @ s # r" "scan_slots P ss = length l" "P s" "\<forall>t \<in> set l. \<not> P t" by auto
    with False Cons.prems(1) [of "a # l" s r] show ?thesis by simp
  qed
qed simp

lemma used_simps [simp]:
  "used [] = []"
  "used (s # ss) = (case topicFilter s of None \<Rightarrow> used ss | Some f \<Rightarrow> f # used ss)"
  "used (xs @ ys) = used xs @ used ys"
  by (simp_all add: used_def List.map_filter_def split: option.splits)

lemma set_used: "f \<in> set (used ss) \<longleftrightarrow> (\<exists>s \<in> set ss. topicFilter s = Some f)"
  by (induction ss) (auto split: option.splits)

lemma slot_lookup_simps [simp]:
  "slot_lookup [] f = None"
  "slot_lookup (s # ss) f = (if topicFilter s = Some f then fp s else slot_lookup ss f)"
  by (simp_all add: slot_lookup_def)

lemma slot_lookup_append:
  "slot_lookup (l @ r) f = (if f \<in> set (used l) then slot_lookup l f else slot_lookup r f)"
  by (induction l) (auto split: option.splits)

lemma slot_lookup_dom: "\<forall>s \<in> set ss. topicFilter s \<noteq> None \<longrightarrow> fp s \<noteq> None \<Longrightarrow> dom (slot_lookup ss) = set (used ss)"
proof (induction ss)
  case (Cons s ss)
  then have "slot_lookup ss f \<noteq> None \<longleftrightarrow> f \<in> set (used ss)" for f by (auto simp: dom_def)
  then show ?case using Cons.prems by (auto simp: dom_def split: option.splits)
qed (simp add: dom_def)

lemma slot_lookup_None: "f \<notin> set (used ss) \<Longrightarrow> slot_lookup ss f = None"
  by (simp add: slot_lookup_def scan_slots_less set_used)

lemma scan_slots_miss: "\<not> scan_slots P ss < length ss \<Longrightarrow> \<forall>s \<in> set ss. \<not> P s"
  by (simp add: scan_slots_less)

text \<open>What \<open>set_handler\<close> does: it rewrites one slot, or nothing.\<close>

lemma set_handler_cases:
  obtains (hit) l s r where "slots = l @ s # r" "topicFilter s = Some f" "f \<notin> set (used l)"
      "set_handler slots f h = (SUCCESS, l @ \<lparr>topicFilter = (if h = None then None else Some f), fp = h\<rparr> # r)"
  | (free) l s r k where "slots = l @ s # r" "topicFilter s = None" "h = Some k" "f \<notin> set (used slots)"
      "set_handler slots f h = (SUCCESS, l @ \<lparr>topicFilter = Some f, fp = Some k\<rparr> # r)"
  | (full) "set_handler slots f h = (FAILURE, slots)" "f \<notin> set (used slots)"
      "h = None \<or> (\<forall>s \<in> set slots. topicFilter s \<noteq> None)"
proof -
  let ?P = "\<lambda>s. topicFilter s = Some f" and ?Q = "\<lambda>s. topicFilter s = None"
  show thesis
  proof (cases "scan_slots ?P slots < length slots")
    case True
    then obtain l s r where s: "slots = l @ s # r" "scan_slots ?P slots = length l" "topicFilter s = Some f"
      "\<forall>t \<in> set l. topicFilter t \<noteq> Some f" by (rule scan_slots_split)
    moreover from True s have
      "set_handler slots f h = (SUCCESS, l @ \<lparr>topicFilter = (if h = None then None else Some f), fp = h\<rparr> # r)"
      by (cases h) (simp_all add: set_handler_def rc_defs Let_def)
    ultimately show thesis using hit by (simp add: set_used)
  next
    case False
    then have miss: "f \<notin> set (used slots)" by (simp add: scan_slots_less set_used)
    show thesis
    proof (cases "\<exists>k. h = Some k \<and> scan_slots ?Q slots < length slots")
      case True
      then obtain k where k: "h = Some k" and lt: "scan_slots ?Q slots < length slots" by blast
      from lt obtain l s r where s: "slots = l @ s # r" "scan_slots ?Q slots = length l" "topicFilter s = None"
        "\<forall>t \<in> set l. topicFilter t \<noteq> None" by (rule scan_slots_split)
      from lt False k s have "set_handler slots f h = (SUCCESS, l @ \<lparr>topicFilter = Some f, fp = Some k\<rparr> # r)"
        by (simp add: set_handler_def rc_defs Let_def)
      with free s miss k show thesis by blast
    next
      case noroom: False
      then have "set_handler slots f h = (FAILURE, slots)"
        using False by (cases h) (simp_all add: set_handler_def rc_defs Let_def)
      moreover have "h = None \<or> (\<forall>s \<in> set slots. topicFilter s \<noteq> None)"
        using noroom scan_slots_less [of ?Q slots] by (cases h) auto
      ultimately show thesis using full miss by blast
    qed
  qed
qed

lemma length_used: "length (used ss) \<le> length ss \<and> (length (used ss) = length ss \<longleftrightarrow> (\<forall>s \<in> set ss. topicFilter s \<noteq> None))"
  by (induction ss) (auto split: option.splits)

lemma slots_ok_set:
  assumes "slots_ok slots" and "set_handler slots f h = (rc, slots')"
  shows "slots_ok slots' \<and> length slots' = length slots"
  using assms
  by (cases slots f h rule: set_handler_cases) (auto simp: slots_ok_def split: if_splits)

lemma slot_lookup_set:
  assumes "slots_ok slots" and "set_handler slots f h = (rc, slots')" and "rc = SUCCESS"
  shows "slot_lookup slots' = (slot_lookup slots)(f := h)"
proof (cases slots f h rule: set_handler_cases)
  case (hit l s r)
  have "f \<notin> set (used r)" using hit assms(1) by (auto simp: slots_ok_def)
  then have "slot_lookup r f = None" by (rule slot_lookup_None)
  with hit assms show ?thesis by (auto simp: slot_lookup_append fun_eq_iff)
next
  case (free l s r k)
  with assms show ?thesis by (auto simp: slot_lookup_append fun_eq_iff)
qed (use assms in \<open>simp add: rc_defs\<close>)

lemma set_handler_add:
  assumes "slots_ok slots"
  shows "fst (set_handler slots f (Some k)) = SUCCESS \<longleftrightarrow>
    f \<in> dom (slot_lookup slots) \<or> card (dom (slot_lookup slots)) < length slots"
proof -
  have dom: "dom (slot_lookup slots) = set (used slots)" using assms by (simp add: slots_ok_def slot_lookup_dom)
  then have card: "card (dom (slot_lookup slots)) = length (used slots)"
    using assms by (simp add: slots_ok_def distinct_card)
  note len = length_used [of slots]
  show ?thesis
  proof (cases slots f "Some k" rule: set_handler_cases)
    case (hit l s r)
    then show ?thesis using dom by simp
  next
    case (free l s r k')
    then have "\<not> (\<forall>s \<in> set slots. topicFilter s \<noteq> None)" by auto
    with len have "length (used slots) < length slots" by linarith
    with free(5) card show ?thesis by simp
  next
    case full
    with len card dom show ?thesis by (auto simp: rc_defs)
  qed
qed

lemma set_handler_remove:
  assumes "slots_ok slots"
  shows "fst (set_handler slots f None) = SUCCESS \<longleftrightarrow> f \<in> dom (slot_lookup slots)"
proof -
  have dom: "dom (slot_lookup slots) = set (used slots)" using assms by (simp add: slots_ok_def slot_lookup_dom)
  show ?thesis
    by (cases slots f "None :: nat option" rule: set_handler_cases) (use dom in \<open>auto simp: rc_defs\<close>)
qed

lemma used_clean [simp]: "used (clean_slots slots) = []"
  by (induction slots) (simp_all add: clean_slots_def)

lemma slots_ok_clean: "slots_ok (clean_slots slots) \<and> length (clean_slots slots) = length slots"
proof -
  have "\<forall>s \<in> set (clean_slots slots). topicFilter s = None" by (simp add: clean_slots_def)
  then show ?thesis by (auto simp: slots_ok_def) (simp add: clean_slots_def)
qed

interpretation handlers: handler_map slot_lookup set_handler clean_slots slots_ok length
proof
  show "rc = FAILURE \<and> t' = t" if "set_handler t f h = (rc, t')" "rc \<noteq> SUCCESS" for t f h rc t'
    using that by (cases t f h rule: set_handler_cases) auto
  show "slot_lookup (clean_slots t) = Map.empty" for t
    by (rule ext) (simp add: slot_lookup_None)
qed (use slots_ok_set slots_ok_clean slot_lookup_set set_handler_add set_handler_remove in blast)+

end
