(* ===== verification/Client_Core.thy ===== *)
theory Client_Core
  imports Packet_Publish Packet_Connect Packet_Subscribe Packet_Unsubscribe Packet_Read Handler_Table
begin

text \<open>
  The client of \<open>paho/MQTTClient-C/src/MQTTClient.c\<close>, first part: its state and the
  functions below the public operations, from \<open>sendPacket\<close> to \<open>cycle\<close>.

  The operations of the platform header (timers, the network's \<open>mqttread\<close> and
  \<open>mqttwrite\<close>, the mutex) and the user's callbacks are the record \<open>platform\<close>, a
  parameter of every function; their effects are on a world of type \<open>'w\<close> that is
  threaded through the calls. A loop that need not end is a
  \<open>partial_function\<close>, so \<open>None\<close> also stands for not returning.
\<close>

section \<open>Data\<close>

definition MAX_PACKET_ID :: "32 word" where
  "MAX_PACKET_ID = 65535"

record MQTTMessage =
  msg_qos :: int
  msg_retained :: byte
  msg_dup :: byte
  msg_id :: "16 word"
  msg_payload :: "byte list"
  msg_payloadlen :: "32 word"

record MessageData =
  md_message :: MQTTMessage
  md_topicName :: MQTTString

text \<open>\<open>buf\<close> is \<open>c_buf\<close>; truth values of C are \<open>bool\<close>. The network is part of
  the world.\<close>

record 't MQTTClient =
  next_packetid :: "32 word"
  command_timeout_ms :: "32 word"
  buf_size :: "32 word"
  readbuf_size :: "32 word"
  c_buf :: buffer
  readbuf :: buffer
  keepAliveInterval :: "32 word"
  ping_outstanding :: bool
  isconnected :: bool
  cleansession :: bool
  messageHandlers :: "handler_slot list"
  defaultMessageHandler :: "nat option"
  last_sent :: 't
  last_received :: 't

text \<open>The platform. Timer operations take the timer and the world, because they
  read the clock. \<open>mqttread\<close> takes a count and a timeout and gives the return
  code and the bytes stored; \<open>mqttwrite\<close> gets the bytes from the pointer to the end
  of the buffer, the count and the timeout. \<open>callback\<close> runs a message handler.
  \<open>stack_pub\<close> and \<open>stack_ack\<close> are what uninitialised locals hold.\<close>

record ('w, 't) platform =
  TimerInit :: 't
  TimerCountdownMS :: "'t \<Rightarrow> 32 word \<Rightarrow> 'w \<Rightarrow> 't \<times> 'w"
  TimerCountdown :: "'t \<Rightarrow> 32 word \<Rightarrow> 'w \<Rightarrow> 't \<times> 'w"
  TimerIsExpired :: "'t \<Rightarrow> 'w \<Rightarrow> bool \<times> 't \<times> 'w"
  TimerLeftMS :: "'t \<Rightarrow> 'w \<Rightarrow> int \<times> 't \<times> 'w"
  mqttread :: "'w \<Rightarrow> int \<Rightarrow> int \<Rightarrow> (int \<times> byte list \<times> 'w) option"
  mqttwrite :: "'w \<Rightarrow> byte list \<Rightarrow> int \<Rightarrow> int \<Rightarrow> (int \<times> 'w) option"
  MutexInit :: "'w \<Rightarrow> 'w"
  MutexLock :: "'w \<Rightarrow> 'w option"
  MutexUnlock :: "'w \<Rightarrow> 'w"
  callback :: "nat \<Rightarrow> MessageData \<Rightarrow> 'w \<Rightarrow> 'w"
  stack_pub :: publish_out
  stack_ack :: ack_out
  char_is_signed :: bool

text \<open>A packet type as an \<open>int\<close>.\<close>

definition ptype :: "msgTypes \<Rightarrow> int" where
  "ptype t = uint (msg_code t)"

section \<open>Initialisation\<close>

text \<open>\<open>c\<close> is what the memory of the client held before: neither the handler
  pointers nor \<open>keepAliveInterval\<close> are initialised.\<close>

definition MQTTClientInit ::
  "('w, 't) platform \<Rightarrow> 't MQTTClient \<Rightarrow> 32 word \<Rightarrow> buffer \<Rightarrow> 32 word \<Rightarrow> buffer \<Rightarrow> 32 word \<Rightarrow> 'w \<Rightarrow>
   't MQTTClient \<times> 'w" where
  "MQTTClientInit P c timeout_ms sendbuf sendbuf_size rbuf rbuf_size w =
     (c\<lparr>messageHandlers := clean_slots (messageHandlers c),
       command_timeout_ms := timeout_ms,
       c_buf := sendbuf, buf_size := sendbuf_size,
       readbuf := rbuf, readbuf_size := rbuf_size,
       isconnected := False, cleansession := False, ping_outstanding := False,
       defaultMessageHandler := None, next_packetid := 1,
       last_sent := TimerInit P, last_received := TimerInit P\<rparr>, MutexInit P w)"

section \<open>Sending\<close>

definition NewMessageData :: "MQTTString \<Rightarrow> MQTTMessage \<Rightarrow> MessageData" where
  "NewMessageData aTopicName aMessage = \<lparr>md_message = aMessage, md_topicName = aTopicName\<rparr>"

definition getNextPacketId :: "'t MQTTClient \<Rightarrow> 16 word \<times> 't MQTTClient" where
  "getNextPacketId c =
     (let n = (if next_packetid c = MAX_PACKET_ID then 1 else next_packetid c + 1)
      in (ucast n, c\<lparr>next_packetid := n\<rparr>))"

partial_function (option) sendPacket_loop ::
  "('w, 't) platform \<Rightarrow> buffer \<Rightarrow> int \<Rightarrow> int \<Rightarrow> 't \<Rightarrow> 'w \<Rightarrow> (int \<times> 't \<times> 'w) option" where
  "sendPacket_loop P buf len sent timer w =
     (if sent < len then
        (let (expired, timer, w) = TimerIsExpired P timer w in
         if expired then Some (sent, timer, w)
         else
           let (left, timer, w) = TimerLeftMS P timer w in do {
             (rc, w) \<leftarrow> mqttwrite P w (drop (nat sent) buf) len left;
             (if rc < 0 then Some (sent, timer, w)
              else do {
                sent \<leftarrow> cint (sent + rc);
                sendPacket_loop P buf len sent timer w }) })
      else Some (sent, timer, w))"

declare sendPacket_loop.simps [code]

definition sendPacket ::
  "('w, 't) platform \<Rightarrow> 't MQTTClient \<Rightarrow> int \<Rightarrow> 't \<Rightarrow> 'w \<Rightarrow> (int \<times> 't MQTTClient \<times> 't \<times> 'w) option" where
  "sendPacket P c len timer w = do {
     (sent, timer, w) \<leftarrow> sendPacket_loop P (c_buf c) len 0 timer w;
     (if sent = len then
        let (t, w) = TimerCountdown P (last_sent c) (keepAliveInterval c) w
        in Some (SUCCESS, c\<lparr>last_sent := t\<rparr>, timer, w)
      else Some (FAILURE, c, timer, w)) }"

text \<open>Serializing into the client's send buffer: \<open>f(c->buf, c->buf_size)\<close>.\<close>

definition into_buf :: "'t MQTTClient \<Rightarrow> (buffer \<Rightarrow> int \<Rightarrow> (int \<times> buffer) option) \<Rightarrow> (int \<times> 't MQTTClient) option" where
  "into_buf c f = do {
     (len, b) \<leftarrow> f (c_buf c) (sint (buf_size c));
     Some (len, c\<lparr>c_buf := b\<rparr>) }"

section \<open>Receiving\<close>

function decodePacket_loop ::
  "('w, 't) platform \<Rightarrow> int \<Rightarrow> 'w \<Rightarrow> int \<Rightarrow> int \<Rightarrow> int \<Rightarrow> (int \<times> int \<times> 'w) option" where
  "decodePacket_loop P timeout w len multiplier value =
     (let len = len + 1 in
      if len > 4 then Some (len, value, w)
      else do {
        (rc, bs, w) \<leftarrow> mqttread P w 1 timeout;
        (if rc \<noteq> 1 then Some (len, value, w)
         else do {
           i \<leftarrow> the_byte bs;
           value \<leftarrow> cint (value + uint (i AND 127) * multiplier);
           multiplier \<leftarrow> cint (multiplier * 128);
           (if i AND 128 \<noteq> 0 then decodePacket_loop P timeout w len multiplier value
            else Some (len, value, w)) }) })"
  by pat_completeness auto
termination
  by (relation "measure (\<lambda>(P, t, w, len, m, v). nat (5 - len))") auto

declare decodePacket_loop.simps [simp del]

definition decodePacket :: "('w, 't) platform \<Rightarrow> int \<Rightarrow> 'w \<Rightarrow> (int \<times> int \<times> 'w) option" where
  "decodePacket P timeout w = decodePacket_loop P timeout w 0 1 0"

text \<open>Step 3 of \<open>readPacket\<close>: the condition of its \<open>if\<close> and the state after
  evaluating it.\<close>

definition readPacket_body ::
  "('w, 't) platform \<Rightarrow> 't MQTTClient \<Rightarrow> int \<Rightarrow> int \<Rightarrow> 't \<Rightarrow> 'w \<Rightarrow> (bool \<times> 't MQTTClient \<times> 't \<times> 'w) option" where
  "readPacket_body P c rem_len len timer w =
     (if rem_len > 0 then
        let (left, timer, w) = TimerLeftMS P timer w in do {
          (n, bs, w) \<leftarrow> mqttread P w rem_len left;
          b \<leftarrow> blit (readbuf c) (nat len) bs;
          Some (n \<noteq> rem_len, c\<lparr>readbuf := b\<rparr>, timer, w) }
      else Some (False, c, timer, w))"

text \<open>\<open>c->readbuf_size - len\<close> and the comparison with it are unsigned.\<close>

definition readPacket ::
  "('w, 't) platform \<Rightarrow> 't MQTTClient \<Rightarrow> 't \<Rightarrow> 'w \<Rightarrow> (int \<times> 't MQTTClient \<times> 't \<times> 'w) option" where
  "readPacket P c timer w =
     (let (left, timer, w) = TimerLeftMS P timer w in do {
        (rc, bs, w) \<leftarrow> mqttread P w 1 left;
        b \<leftarrow> blit (readbuf c) 0 bs;
        let c = c\<lparr>readbuf := b\<rparr>;
        (if rc \<noteq> 1 then Some (rc, c, timer, w)
         else let (left, timer, w) = TimerLeftMS P timer w in do {
           (_, rem_len, w) \<leftarrow> decodePacket P left w;
           (k, b) \<leftarrow> MQTTPacket_encode (readbuf c) 1 rem_len;
           let c = c\<lparr>readbuf := b\<rparr>;
           let len = 1 + k;
           (if word_of_int rem_len > readbuf_size c - word_of_int len then Some (BUFFER_OVERFLOW, c, timer, w)
            else do {
              (bad, c, timer, w) \<leftarrow> readPacket_body P c rem_len len timer w;
              (if bad then Some (0, c, timer, w)
               else do {
                 header \<leftarrow> load (readbuf c) 0;
                 (if keepAliveInterval c > 0 then
                    let (t, w) = TimerCountdown P (last_received c) (keepAliveInterval c) w
                    in Some (uint (header_type header), c\<lparr>last_received := t\<rparr>, timer, w)
                  else Some (uint (header_type header), c, timer, w)) }) }) }) })"

section \<open>Delivering messages\<close>

text \<open>The test of the handler loop: \<open>MQTTPacket_equals(...) || isTopicMatched(...)\<close>.\<close>

definition topic_hits :: "byte list \<Rightarrow> MQTTString \<Rightarrow> bool option" where
  "topic_hits filt topicName = do {
     e \<leftarrow> MQTTPacket_equals topicName filt;
     (if e then Some True else isTopicMatched filt topicName) }"

definition deliverMessage ::
  "('w, 't) platform \<Rightarrow> 't MQTTClient \<Rightarrow> MQTTString \<Rightarrow> MQTTMessage \<Rightarrow> 'w \<Rightarrow> (int \<times> 'w) option" where
  "deliverMessage P c topicName message w = do {
     (rc, w) \<leftarrow> for_loop 0 MAX_MESSAGE_HANDLERS (\<lambda>i (rc, w). do {
         slot \<leftarrow> idx (messageHandlers c) i;
         (case topicFilter slot of
            None \<Rightarrow> Some (rc, w)
          | Some filt \<Rightarrow> do {
              hit \<leftarrow> topic_hits filt topicName;
              Some (case fp slot of
                      Some f \<Rightarrow> if hit then (SUCCESS, callback P f (NewMessageData topicName message) w) else (rc, w)
                    | None \<Rightarrow> (rc, w)) }) }) (FAILURE, w);
     Some (case defaultMessageHandler c of
             Some f \<Rightarrow> if rc = FAILURE then (SUCCESS, callback P f (NewMessageData topicName message) w) else (rc, w)
           | None \<Rightarrow> (rc, w)) }"

section \<open>The session\<close>

definition keepalive ::
  "('w, 't) platform \<Rightarrow> 't MQTTClient \<Rightarrow> 'w \<Rightarrow> (int \<times> 't MQTTClient \<times> 'w) option" where
  "keepalive P c w =
     (if keepAliveInterval c = 0 then Some (SUCCESS, c, w)
      else
        let (e, t, w) = TimerIsExpired P (last_sent c) w;
            c = c\<lparr>last_sent := t\<rparr>;
            (e, c, w) = (if e then (True, c, w)
                         else let (e, t, w) = TimerIsExpired P (last_received c) w
                              in (e, c\<lparr>last_received := t\<rparr>, w))
        in if \<not> e then Some (SUCCESS, c, w)
           else if ping_outstanding c then Some (FAILURE, c, w)
           else
             let (timer, w) = TimerCountdownMS P (TimerInit P) 1000 w in do {
               (len, c) \<leftarrow> into_buf c MQTTSerialize_pingreq;
               (if len > 0 then do {
                  (rc, c, _, w) \<leftarrow> sendPacket P c len timer w;
                  Some (rc, if rc = SUCCESS then c\<lparr>ping_outstanding := True\<rparr> else c, w) }
                else Some (SUCCESS, c, w)) })"

definition MQTTCleanSession :: "'t MQTTClient \<Rightarrow> 't MQTTClient" where
  "MQTTCleanSession c = c\<lparr>messageHandlers := clean_slots (messageHandlers c)\<rparr>"

definition MQTTCloseSession :: "'t MQTTClient \<Rightarrow> 't MQTTClient" where
  "MQTTCloseSession c =
     (let c = c\<lparr>ping_outstanding := False, isconnected := False\<rparr>
      in if cleansession c then MQTTCleanSession c else c)"

section \<open>One round of the receive loop\<close>

text \<open>The cases of the switch in \<open>cycle\<close>. The flag in the result says that the
  case ended with \<open>goto exit\<close>, so that the keep-alive check is skipped.\<close>

type_synonym ('w, 't) switch_result = "(bool \<times> int \<times> 't MQTTClient \<times> 't \<times> 'w) option"

definition message_of :: "publish_out \<Rightarrow> MQTTMessage" where
  "message_of out =
     \<lparr>msg_qos = pub_qos out, msg_retained = pub_retained out, msg_dup = pub_dup out, msg_id = pub_packetid out,
      msg_payload = pub_payload out, msg_payloadlen = word_of_int (pub_payloadlen out)\<rparr>"

definition cycle_publish ::
  "('w, 't) platform \<Rightarrow> 't MQTTClient \<Rightarrow> 't \<Rightarrow> 'w \<Rightarrow> ('w, 't) switch_result" where
  "cycle_publish P c timer w = do {
     (ok, out) \<leftarrow> MQTTDeserialize_publish ((stack_pub P)\<lparr>pub_payloadlen := 0\<rparr>) (readbuf c) (sint (readbuf_size c));
     (if ok \<noteq> 1 then Some (True, SUCCESS, c, timer, w)
      else do {
        let msg = message_of out;
        (_, w) \<leftarrow> deliverMessage P c (pub_topicName out) msg w;
        (if msg_qos msg \<noteq> 0 then do {
           (len, c) \<leftarrow>
             (if msg_qos msg = 1 then into_buf c (\<lambda>b n. MQTTSerialize_ack b n (msg_code PUBACK) 0 (msg_id msg))
              else if msg_qos msg = 2 then into_buf c (\<lambda>b n. MQTTSerialize_ack b n (msg_code PUBREC) 0 (msg_id msg))
              else Some (0, c));
           (rc, c, timer, w) \<leftarrow>
             (if len \<le> 0 then Some (FAILURE, c, timer, w) else sendPacket P c len timer w);
           Some (rc = FAILURE, rc, c, timer, w) }
         else Some (False, SUCCESS, c, timer, w)) }) }"

definition cycle_pubrec_pubrel ::
  "('w, 't) platform \<Rightarrow> 't MQTTClient \<Rightarrow> int \<Rightarrow> 't \<Rightarrow> 'w \<Rightarrow> ('w, 't) switch_result" where
  "cycle_pubrec_pubrel P c packet_type timer w = do {
     (ok, out) \<leftarrow> MQTTDeserialize_ack (stack_ack P) (readbuf c) (sint (readbuf_size c));
     (rc, c, timer, w) \<leftarrow>
       (if ok \<noteq> 1 then Some (FAILURE, c, timer, w)
        else do {
          (len, c) \<leftarrow> into_buf c (\<lambda>b n. MQTTSerialize_ack b n
             (if packet_type = ptype PUBREC then msg_code PUBREL else msg_code PUBCOMP) 0 (ack_packetid out));
          (if len \<le> 0 then Some (FAILURE, c, timer, w)
           else do {
             (rc, c, timer, w) \<leftarrow> sendPacket P c len timer w;
             Some (if rc \<noteq> SUCCESS then FAILURE else rc, c, timer, w) }) });
     Some (rc = FAILURE, rc, c, timer, w) }"

definition cycle_switch ::
  "('w, 't) platform \<Rightarrow> 't MQTTClient \<Rightarrow> int \<Rightarrow> 't \<Rightarrow> 'w \<Rightarrow> ('w, 't) switch_result" where
  "cycle_switch P c packet_type timer w =
     (if packet_type = 0 then Some (False, SUCCESS, c, timer, w)
      else if packet_type \<in> {ptype CONNACK, ptype PUBACK, ptype SUBACK, ptype UNSUBACK}
      then Some (False, SUCCESS, c, timer, w)
      else if packet_type = ptype PUBLISH then cycle_publish P c timer w
      else if packet_type = ptype PUBREC \<or> packet_type = ptype PUBREL
      then cycle_pubrec_pubrel P c packet_type timer w
      else if packet_type = ptype PUBCOMP then Some (False, SUCCESS, c, timer, w)
      else if packet_type = ptype PINGRESP then Some (False, SUCCESS, c\<lparr>ping_outstanding := False\<rparr>, timer, w)
      else Some (True, packet_type, c, timer, w))"

definition cycle ::
  "('w, 't) platform \<Rightarrow> 't MQTTClient \<Rightarrow> 't \<Rightarrow> 'w \<Rightarrow> (int \<times> 't MQTTClient \<times> 't \<times> 'w) option" where
  "cycle P c timer w = do {
     (packet_type, c, timer, w) \<leftarrow> readPacket P c timer w;
     (stop, rc, c, timer, w) \<leftarrow> cycle_switch P c packet_type timer w;
     (rc, c, w) \<leftarrow>
       (if stop then Some (rc, c, w)
        else do {
          (k, c, w) \<leftarrow> keepalive P c w;
          Some (if k \<noteq> SUCCESS then FAILURE else rc, c, w) });
     (if rc = SUCCESS then Some (packet_type, c, timer, w)
      else Some (rc, if isconnected c then MQTTCloseSession c else c, timer, w)) }"

end
