(* ===== verification/Client_Api.thy ===== *)
theory Client_Api
  imports Client_Core
begin

text \<open>
  The public operations of \<open>paho/MQTTClient-C/src/MQTTClient.c\<close>: \<open>MQTTYield\<close>,
  \<open>MQTTRun\<close>, \<open>MQTTConnect\<close>, \<open>MQTTSubscribe\<close>, \<open>MQTTUnsubscribe\<close>, \<open>MQTTPublish\<close>
  and \<open>MQTTDisconnect\<close>, in the build with \<open>MQTT_TASK\<close> (the one of
  \<open>CMakeLists.txt\<close>): each holds the client's mutex from beginning to end.
\<close>

section \<open>Loops over \<open>cycle\<close>\<close>

partial_function (option) yield_loop ::
  "('w, 't) platform \<Rightarrow> 't MQTTClient \<Rightarrow> 't \<Rightarrow> 'w \<Rightarrow> (int \<times> 't MQTTClient \<times> 'w) option" where
  "yield_loop P c timer w = do {
     (rc, c, timer, w) \<leftarrow> cycle P c timer w;
     (if rc < 0 then Some (FAILURE, c, w)
      else
        let (expired, timer, w) = TimerIsExpired P timer w
        in if expired then Some (SUCCESS, c, w) else yield_loop P c timer w) }"

declare yield_loop.simps [code]

definition MQTTYield ::
  "('w, 't) platform \<Rightarrow> 't MQTTClient \<Rightarrow> int \<Rightarrow> 'w \<Rightarrow> (int \<times> 't MQTTClient \<times> 'w) option" where
  "MQTTYield P c timeout_ms w =
     (let (timer, w) = TimerCountdownMS P (TimerInit P) (word_of_int timeout_ms) w
      in yield_loop P c timer w)"

text \<open>The body of the endless loop of \<open>MQTTRun\<close>, the background task.\<close>

definition MQTTRun_body ::
  "('w, 't) platform \<Rightarrow> 't MQTTClient \<Rightarrow> 't \<Rightarrow> 'w \<Rightarrow> ('t MQTTClient \<times> 't \<times> 'w) option" where
  "MQTTRun_body P c timer w =
     (let (timer, w) = TimerCountdownMS P timer 500 w in do {
        w \<leftarrow> MutexLock P w;
        (_, c, timer, w) \<leftarrow> cycle P c timer w;
        Some (c, timer, MutexUnlock P w) })"

partial_function (option) waitfor_loop ::
  "('w, 't) platform \<Rightarrow> 't MQTTClient \<Rightarrow> int \<Rightarrow> int \<Rightarrow> 't \<Rightarrow> 'w \<Rightarrow> (int \<times> 't MQTTClient \<times> 't \<times> 'w) option" where
  "waitfor_loop P c packet_type rc timer w =
     (let (expired, timer, w) = TimerIsExpired P timer w in
      if expired then Some (rc, c, timer, w)
      else do {
        (rc, c, timer, w) \<leftarrow> cycle P c timer w;
        (if rc \<noteq> packet_type \<and> rc \<ge> 0 then waitfor_loop P c packet_type rc timer w
         else Some (rc, c, timer, w)) })"

declare waitfor_loop.simps [code]

definition waitfor ::
  "('w, 't) platform \<Rightarrow> 't MQTTClient \<Rightarrow> int \<Rightarrow> 't \<Rightarrow> 'w \<Rightarrow> (int \<times> 't MQTTClient \<times> 't \<times> 'w) option" where
  "waitfor P c packet_type timer w = waitfor_loop P c packet_type FAILURE timer w"

section \<open>Connecting\<close>

text \<open>The part between taking and releasing the mutex. \<open>data\<close> is the caller's
  \<open>MQTTConnackData\<close>.\<close>

definition connect_locked ::
  "('w, 't) platform \<Rightarrow> 't MQTTClient \<Rightarrow> MQTTPacket_connectData option \<Rightarrow> connack_out \<Rightarrow> 'w \<Rightarrow>
   (int \<times> connack_out \<times> 't MQTTClient \<times> 'w) option" where
  "connect_locked P c options data w =
     (if isconnected c then Some (FAILURE, data, c, w)
      else
        let (timer, w) = TimerCountdownMS P (TimerInit P) (command_timeout_ms c) w;
            options = (case options of None \<Rightarrow> MQTTPacket_connectData_initializer | Some d \<Rightarrow> d);
            c = c\<lparr>keepAliveInterval := ucast (cd_keepAliveInterval options),
                  cleansession := cd_cleansession options \<noteq> 0\<rparr>;
            (t, w) = TimerCountdown P (last_received c) (keepAliveInterval c) w;
            c = c\<lparr>last_received := t\<rparr>
        in do {
          (len, c) \<leftarrow> into_buf c (\<lambda>b n. MQTTSerialize_connect b n options);
          (if len \<le> 0 then Some (FAILURE, data, c, w)
           else do {
             (rc, c, timer, w) \<leftarrow> sendPacket P c len timer w;
             (if rc \<noteq> SUCCESS then Some (rc, data, c, w)
              else do {
                (got, c, timer, w) \<leftarrow> waitfor P c (ptype CONNACK) timer w;
                (if got = ptype CONNACK then do {
                   (ok, data) \<leftarrow> MQTTDeserialize_connack (data\<lparr>ca_rc := 0, ca_sessionPresent := 0\<rparr>)
                      (readbuf c) (sint (readbuf_size c));
                   let rc = (if ok = 1 then uint (ca_rc data) else FAILURE);
                   Some (rc, data, if rc = SUCCESS then c\<lparr>isconnected := True, ping_outstanding := False\<rparr> else c, w) }
                 else Some (FAILURE, data, c, w)) }) }) })"

definition MQTTConnectWithResults ::
  "('w, 't) platform \<Rightarrow> 't MQTTClient \<Rightarrow> MQTTPacket_connectData option \<Rightarrow> connack_out \<Rightarrow> 'w \<Rightarrow>
   (int \<times> connack_out \<times> 't MQTTClient \<times> 'w) option" where
  "MQTTConnectWithResults P c options data w = do {
     w \<leftarrow> MutexLock P w;
     (rc, data, c, w) \<leftarrow> connect_locked P c options data w;
     Some (rc, data, c, MutexUnlock P w) }"

definition MQTTConnect ::
  "('w, 't) platform \<Rightarrow> 't MQTTClient \<Rightarrow> MQTTPacket_connectData option \<Rightarrow> connack_out \<Rightarrow> 'w \<Rightarrow>
   (int \<times> 't MQTTClient \<times> 'w) option" where
  "MQTTConnect P c options uninit w = do {
     (rc, _, c, w) \<leftarrow> MQTTConnectWithResults P c options uninit w;
     Some (rc, c, w) }"

section \<open>Message handlers and subscriptions\<close>

definition MQTTSetMessageHandler ::
  "'t MQTTClient \<Rightarrow> byte list \<Rightarrow> nat option \<Rightarrow> int \<times> 't MQTTClient" where
  "MQTTSetMessageHandler c filt handler =
     (let (rc, slots) = set_handler (messageHandlers c) filt handler
      in (rc, c\<lparr>messageHandlers := slots\<rparr>))"

text \<open>The common ends of the operations: \<open>if (rc == FAILURE) MQTTCloseSession(c)\<close>
  and releasing the mutex.\<close>

definition close_on_failure :: "int \<Rightarrow> 't MQTTClient \<Rightarrow> 't MQTTClient" where
  "close_on_failure rc c = (if rc = FAILURE then MQTTCloseSession c else c)"

text \<open>A request without its answer: serialize, send; result of the send.\<close>

definition cstring_topic :: "byte list \<Rightarrow> MQTTString" where
  "cstring_topic s = MQTTString_initializer\<lparr>cstring := Some s\<rparr>"

definition send_request ::
  "('w, 't) platform \<Rightarrow> 't MQTTClient \<Rightarrow> (buffer \<Rightarrow> int \<Rightarrow> (int \<times> buffer) option) \<Rightarrow> 't \<Rightarrow> 'w \<Rightarrow>
   (int \<times> 't MQTTClient \<times> 't \<times> 'w) option" where
  "send_request P c f timer w = do {
     (len, c) \<leftarrow> into_buf c f;
     (if len \<le> 0 then Some (FAILURE, c, timer, w) else sendPacket P c len timer w) }"

text \<open>\<open>MQTTSubscribeWithResults\<close>; \<open>granted\<close> is \<open>data->grantedQoS\<close>.\<close>

definition subscribe_locked ::
  "('w, 't) platform \<Rightarrow> 't MQTTClient \<Rightarrow> byte list \<Rightarrow> int \<Rightarrow> nat option \<Rightarrow> int \<Rightarrow> 'w \<Rightarrow>
   (int \<times> int \<times> 't MQTTClient \<times> 'w) option" where
  "subscribe_locked P c filt qos handler granted w =
     (if \<not> isconnected c then Some (FAILURE, granted, c, w)
      else
        let (timer, w) = TimerCountdownMS P (TimerInit P) (command_timeout_ms c) w;
            (packetid, c) = getNextPacketId c
        in do {
          (rc, c, timer, w) \<leftarrow> send_request P c
             (\<lambda>b n. MQTTSerialize_subscribe b n 0 packetid 1 [cstring_topic filt] [qos]) timer w;
          (if rc \<noteq> SUCCESS then Some (rc, granted, c, w)
           else do {
             (got, c, timer, w) \<leftarrow> waitfor P c (ptype SUBACK) timer w;
             (if got = ptype SUBACK then do {
                (ok, out) \<leftarrow> MQTTDeserialize_suback (char_is_signed P) 1
                   \<lparr>sa_packetid = ack_packetid (stack_ack P), sa_count = 0, sa_grantedQoSs = [0]\<rparr>
                   (readbuf c) (sint (readbuf_size c));
                granted \<leftarrow> idx (sa_grantedQoSs out) 0;
                (if ok = 1 \<and> granted \<noteq> 0x80 then
                   let (rc, c) = MQTTSetMessageHandler c filt handler in Some (rc, granted, c, w)
                 else Some (rc, granted, c, w)) }
              else Some (FAILURE, granted, c, w)) }) })"

definition MQTTSubscribeWithResults ::
  "('w, 't) platform \<Rightarrow> 't MQTTClient \<Rightarrow> byte list \<Rightarrow> int \<Rightarrow> nat option \<Rightarrow> int \<Rightarrow> 'w \<Rightarrow>
   (int \<times> int \<times> 't MQTTClient \<times> 'w) option" where
  "MQTTSubscribeWithResults P c filt qos handler granted w = do {
     w \<leftarrow> MutexLock P w;
     (rc, granted, c, w) \<leftarrow> subscribe_locked P c filt qos handler granted w;
     Some (rc, granted, close_on_failure rc c, MutexUnlock P w) }"

definition MQTTSubscribe ::
  "('w, 't) platform \<Rightarrow> 't MQTTClient \<Rightarrow> byte list \<Rightarrow> int \<Rightarrow> nat option \<Rightarrow> int \<Rightarrow> 'w \<Rightarrow>
   (int \<times> 't MQTTClient \<times> 'w) option" where
  "MQTTSubscribe P c filt qos handler uninit w = do {
     (rc, _, c, w) \<leftarrow> MQTTSubscribeWithResults P c filt qos handler uninit w;
     Some (rc, c, w) }"

definition unsubscribe_locked ::
  "('w, 't) platform \<Rightarrow> 't MQTTClient \<Rightarrow> byte list \<Rightarrow> 'w \<Rightarrow> (int \<times> 't MQTTClient \<times> 'w) option" where
  "unsubscribe_locked P c filt w =
     (if \<not> isconnected c then Some (FAILURE, c, w)
      else
        let (timer, w) = TimerCountdownMS P (TimerInit P) (command_timeout_ms c) w;
            (packetid, c) = getNextPacketId c
        in do {
          (rc, c, timer, w) \<leftarrow> send_request P c
             (\<lambda>b n. MQTTSerialize_unsubscribe b n 0 packetid 1 [cstring_topic filt]) timer w;
          (if rc \<noteq> SUCCESS then Some (rc, c, w)
           else do {
             (got, c, timer, w) \<leftarrow> waitfor P c (ptype UNSUBACK) timer w;
             (if got = ptype UNSUBACK then do {
                (ok, _) \<leftarrow> MQTTDeserialize_unsuback (ack_packetid (stack_ack P)) (readbuf c) (sint (readbuf_size c));
                Some (rc, if ok = 1 then snd (MQTTSetMessageHandler c filt None) else c, w) }
              else Some (FAILURE, c, w)) }) })"

definition MQTTUnsubscribe ::
  "('w, 't) platform \<Rightarrow> 't MQTTClient \<Rightarrow> byte list \<Rightarrow> 'w \<Rightarrow> (int \<times> 't MQTTClient \<times> 'w) option" where
  "MQTTUnsubscribe P c filt w = do {
     w \<leftarrow> MutexLock P w;
     (rc, c, w) \<leftarrow> unsubscribe_locked P c filt w;
     Some (rc, close_on_failure rc c, MutexUnlock P w) }"

section \<open>Publishing\<close>

text \<open>Waiting for the acknowledgment of a publication and parsing it.\<close>

definition await_ack ::
  "('w, 't) platform \<Rightarrow> 't MQTTClient \<Rightarrow> msgTypes \<Rightarrow> 't \<Rightarrow> 'w \<Rightarrow> (int \<times> 't MQTTClient \<times> 'w) option" where
  "await_ack P c t timer w = do {
     (got, c, timer, w) \<leftarrow> waitfor P c (ptype t) timer w;
     (if got = ptype t then do {
        (ok, _) \<leftarrow> MQTTDeserialize_ack (stack_ack P) (readbuf c) (sint (readbuf_size c));
        Some (if ok \<noteq> 1 then FAILURE else SUCCESS, c, w) }
      else Some (FAILURE, c, w)) }"

definition publish_locked ::
  "('w, 't) platform \<Rightarrow> 't MQTTClient \<Rightarrow> byte list \<Rightarrow> MQTTMessage \<Rightarrow> 'w \<Rightarrow>
   (int \<times> MQTTMessage \<times> 't MQTTClient \<times> 'w) option" where
  "publish_locked P c topicName message w =
     (if \<not> isconnected c then Some (FAILURE, message, c, w)
      else
        let (timer, w) = TimerCountdownMS P (TimerInit P) (command_timeout_ms c) w;
            (message, c) = (if msg_qos message = 1 \<or> msg_qos message = 2
                            then let (packetid, c) = getNextPacketId c in (message\<lparr>msg_id := packetid\<rparr>, c)
                            else (message, c))
        in do {
          (rc, c, timer, w) \<leftarrow> send_request P c
             (\<lambda>b n. MQTTSerialize_publish b n 0 (msg_qos message) (msg_retained message) (msg_id message)
                (cstring_topic topicName) (msg_payload message) (sint (msg_payloadlen message))) timer w;
          (if rc \<noteq> SUCCESS then Some (rc, message, c, w)
           else do {
             (rc, c, w) \<leftarrow>
               (if msg_qos message = 1 then await_ack P c PUBACK timer w
                else if msg_qos message = 2 then await_ack P c PUBCOMP timer w
                else Some (rc, c, w));
             Some (rc, message, c, w) }) })"

definition MQTTPublish ::
  "('w, 't) platform \<Rightarrow> 't MQTTClient \<Rightarrow> byte list \<Rightarrow> MQTTMessage \<Rightarrow> 'w \<Rightarrow>
   (int \<times> MQTTMessage \<times> 't MQTTClient \<times> 'w) option" where
  "MQTTPublish P c topicName message w = do {
     w \<leftarrow> MutexLock P w;
     (rc, message, c, w) \<leftarrow> publish_locked P c topicName message w;
     Some (rc, message, close_on_failure rc c, MutexUnlock P w) }"

definition MQTTDisconnect ::
  "('w, 't) platform \<Rightarrow> 't MQTTClient \<Rightarrow> 'w \<Rightarrow> (int \<times> 't MQTTClient \<times> 'w) option" where
  "MQTTDisconnect P c w = do {
     w \<leftarrow> MutexLock P w;
     let (timer, w) = TimerCountdownMS P (TimerInit P) (command_timeout_ms c) w;
     (len, c) \<leftarrow> into_buf c MQTTSerialize_disconnect;
     (rc, c, w) \<leftarrow>
       (if len > 0 then do { (rc, c, timer, w) \<leftarrow> sendPacket P c len timer w; Some (rc, c, w) }
        else Some (FAILURE, c, w));
     Some (rc, MQTTCloseSession c, MutexUnlock P w) }"

definition MQTTIsConnected :: "'t MQTTClient \<Rightarrow> bool" where
  "MQTTIsConnected c = isconnected c"

end
