(* ===== verification/Buffer_Frame.thy ===== *)
theory Buffer_Frame
  imports Packet_Publish Packet_Connect Packet_Subscribe Packet_Unsubscribe
begin

text \<open>
  The frame of the serializers: whatever they are asked to write, a call that
  returns leaves a buffer of the same length. The client's invariant rests on it.
\<close>

named_theorems len_frame "the operation keeps the length of the buffer"

lemma store_len [len_frame]: "store b p v = Some b' \<Longrightarrow> length b' = length b"
  by (auto simp: store_def split: if_splits)

lemma memcpy_len [len_frame]: "memcpy b p src n = Some b' \<Longrightarrow> length b' = length b"
  by (auto simp: memcpy_def split: if_splits)

lemma writeChar_len [len_frame]: "writeChar b p c = Some (b', p') \<Longrightarrow> length b' = length b"
  by (auto simp: writeChar_def bind_eq_Some_conv dest: len_frame)

lemma writeInt_len [len_frame]: "writeInt b p n = Some (b', p') \<Longrightarrow> length b' = length b"
  by (auto simp: writeInt_def bind_eq_Some_conv dest!: len_frame)

lemma encode_loop_len: "MQTTPacket_encode_loop b p rc len = Some (k, b') \<Longrightarrow> length b' = length b"
proof (induction b p rc len rule: MQTTPacket_encode_loop.induct)
  case (1 b p rc len)
  have IH: "MQTTPacket_encode_loop b1 p (rc + 1) (len sdiv 128) = Some (k, b') \<Longrightarrow> length b' = length b"
    if "store b (p + nat rc) d = Some b1" "0 < len sdiv 128" "d = uchar (len smod 128) OR 128" for b1 d
    using 1(1) [OF refl refl refl] that store_len [OF that(1)] by simp
  from 1(2) show ?case
    by (subst (asm) MQTTPacket_encode_loop.simps)
       (auto simp: Let_def bind_eq_Some_conv split: if_splits dest: store_len IH)
qed

lemma encode_len [len_frame]: "MQTTPacket_encode b p len = Some (k, b') \<Longrightarrow> length b' = length b"
  by (simp add: MQTTPacket_encode_def encode_loop_len)

lemma encode_advance_len [len_frame]: "encode_advance b p len = Some (b', p') \<Longrightarrow> length b' = length b"
  by (auto simp: encode_advance_def bind_eq_Some_conv dest: len_frame)

lemma writeCString_len [len_frame]: "writeCString b p s = Some (b', p') \<Longrightarrow> length b' = length b"
  by (auto simp: writeCString_def Let_def bind_eq_Some_conv dest!: len_frame)

lemma writeMQTTString_len [len_frame]: "writeMQTTString b p s = Some (b', p') \<Longrightarrow> length b' = length b"
  by (auto simp: writeMQTTString_def bind_eq_Some_conv split: if_splits option.splits dest!: len_frame)

lemma for_loop_len:
  assumes "\<And>i b p b' p'. body i (b, p) = Some (b', p') \<Longrightarrow> length b' = length b"
  shows "for_loop a n body (b, p) = Some (b', p') \<Longrightarrow> length b' = length b"
proof (induction n arbitrary: a b p)
  case (Suc n)
  then show ?case by (auto simp: bind_eq_Some_conv dest!: assms)
qed simp

lemma serialize_zero_len [len_frame]: "MQTTSerialize_zero b n t = Some (k, b') \<Longrightarrow> length b' = length b"
  by (auto simp: MQTTSerialize_zero_def bind_eq_Some_conv split: if_splits dest!: len_frame)

lemma serialize_pingreq_len [len_frame]: "MQTTSerialize_pingreq b n = Some (k, b') \<Longrightarrow> length b' = length b"
  by (simp add: MQTTSerialize_pingreq_def len_frame)

lemma serialize_disconnect_len [len_frame]: "MQTTSerialize_disconnect b n = Some (k, b') \<Longrightarrow> length b' = length b"
  by (simp add: MQTTSerialize_disconnect_def len_frame)

lemma serialize_ack_len [len_frame]: "MQTTSerialize_ack b n t d i = Some (k, b') \<Longrightarrow> length b' = length b"
  by (auto simp: MQTTSerialize_ack_def Let_def bind_eq_Some_conv split: if_splits dest!: len_frame)

lemma serialize_publish_len [len_frame]:
  "MQTTSerialize_publish b n d q r i t p l = Some (k, b') \<Longrightarrow> length b' = length b"
  by (auto simp: MQTTSerialize_publish_def Let_def bind_eq_Some_conv split: if_splits dest!: len_frame)

text \<open>The serializer of CONNECT is a long chain with optional parts; the frame is
  followed step by step.\<close>

definition keeps :: "nat \<Rightarrow> (buffer \<times> nat) option \<Rightarrow> bool" where
  "keeps n m \<longleftrightarrow> (\<forall>b p. m = Some (b, p) \<longrightarrow> length b = n)"

definition keeps_rc :: "nat \<Rightarrow> (int \<times> buffer) option \<Rightarrow> bool" where
  "keeps_rc n m \<longleftrightarrow> (\<forall>k b. m = Some (k, b) \<longrightarrow> length b = n)"

lemma keeps_write:
  "length b = n \<Longrightarrow> keeps n (Some (b, p))"
  "length b = n \<Longrightarrow> keeps n (writeChar b p c)"
  "length b = n \<Longrightarrow> keeps n (writeInt b p i)"
  "length b = n \<Longrightarrow> keeps n (encode_advance b p i)"
  "length b = n \<Longrightarrow> keeps n (writeCString b p s)"
  "length b = n \<Longrightarrow> keeps n (writeMQTTString b p t)"
  unfolding keeps_def
  by (simp, (meson writeChar_len writeInt_len encode_advance_len writeCString_len writeMQTTString_len)+)

lemma keeps_if: "keeps n x \<Longrightarrow> keeps n y \<Longrightarrow> keeps n (if cond then x else y)"
  by simp

lemma keeps_bind:
  "keeps n m \<Longrightarrow> (\<And>b p. length b = n \<Longrightarrow> keeps n (k b p)) \<Longrightarrow> keeps n (Option.bind m (\<lambda>(b, p). k b p))"
proof -
  assume m: "keeps n m" and k: "\<And>b p. length b = n \<Longrightarrow> keeps n (k b p)"
  show ?thesis
  proof (cases m)
    case (Some r)
    obtain b p where r: "r = (b, p)" by fastforce
    with m Some have "length b = n" unfolding keeps_def by blast
    then have "keeps n (k b p)" by (rule k)
    with Some r show ?thesis by simp
  qed (simp add: keeps_def)
qed

lemma keeps_rc_bind:
  "keeps n m \<Longrightarrow> (\<And>b p. length b = n \<Longrightarrow> keeps_rc n (k b p)) \<Longrightarrow> keeps_rc n (Option.bind m (\<lambda>(b, p). k b p))"
proof -
  assume m: "keeps n m" and k: "\<And>b p. length b = n \<Longrightarrow> keeps_rc n (k b p)"
  show ?thesis
  proof (cases m)
    case (Some r)
    obtain b p where r: "r = (b, p)" by fastforce
    with m Some have "length b = n" unfolding keeps_def by blast
    then have "keeps_rc n (k b p)" by (rule k)
    with Some r show ?thesis by simp
  qed (simp add: keeps_rc_def)
qed

lemma keeps_rc_int: "(\<And>x. keeps_rc n (f x)) \<Longrightarrow> keeps_rc n (Option.bind m f)" for m :: "int option"
  by (auto simp: keeps_rc_def bind_eq_Some_conv)

lemma keeps_rc_if: "keeps_rc n x \<Longrightarrow> keeps_rc n y \<Longrightarrow> keeps_rc n (if cond then x else y)"
  by simp

lemma keeps_rc_Some: "length b = n \<Longrightarrow> keeps_rc n (Some (k, b))"
  by (simp add: keeps_rc_def)

lemmas keeps_intros = keeps_rc_bind keeps_rc_int keeps_rc_if keeps_rc_Some keeps_bind keeps_if keeps_write

lemma serialize_connect_len [len_frame]:
  assumes "MQTTSerialize_connect b n options = Some (k, b')"
  shows "length b' = length b"
proof -
  have "keeps_rc (length b) (MQTTSerialize_connect b n options)"
    unfolding MQTTSerialize_connect_def Let_def by (intro keeps_intros) (rule refl | assumption)+
  with assms show ?thesis by (simp add: keeps_rc_def)
qed

lemma serialize_subscribe_len [len_frame]:
  "MQTTSerialize_subscribe b n d i m ts qs = Some (k, b') \<Longrightarrow> length b' = length b"
proof -
  let ?body = "\<lambda>i (b, p). do { s \<leftarrow> idx ts i; (b, p) \<leftarrow> writeMQTTString b p s; q \<leftarrow> idx qs i; writeChar b p (uchar q) }"
  have body: "?body i (b, p) = Some (b', p') \<Longrightarrow> length b' = length b" for i b p b' p'
    by (auto simp: bind_eq_Some_conv dest!: len_frame)
  have loop: "for_loop a k ?body (b, p) = Some (b', p') \<Longrightarrow> length b' = length b" for a k b p b' p'
    by (rule for_loop_len [OF body])
  assume "MQTTSerialize_subscribe b n d i m ts qs = Some (k, b')"
  then show ?thesis
    by (auto simp: MQTTSerialize_subscribe_def bind_eq_Some_conv split: if_splits dest!: len_frame loop)
qed

lemma serialize_unsubscribe_len [len_frame]:
  "MQTTSerialize_unsubscribe b n d i m ts = Some (k, b') \<Longrightarrow> length b' = length b"
proof -
  let ?body = "\<lambda>i (b, p). do { s \<leftarrow> idx ts i; writeMQTTString b p s }"
  have body: "?body i (b, p) = Some (b', p') \<Longrightarrow> length b' = length b" for i b p b' p'
    by (auto simp: bind_eq_Some_conv dest!: len_frame)
  have loop: "for_loop a k ?body (b, p) = Some (b', p') \<Longrightarrow> length b' = length b" for a k b p b' p'
    by (rule for_loop_len [OF body])
  assume "MQTTSerialize_unsubscribe b n d i m ts = Some (k, b')"
  then show ?thesis
    by (auto simp: MQTTSerialize_unsubscribe_def bind_eq_Some_conv split: if_splits dest!: len_frame loop)
qed

end
