(* ===== verification/Client_Inv.thy ===== *)
theory Client_Inv
  imports Client_Api Buffer_Frame
begin

text \<open>
  What the functions of the client leave alone, and the invariant of the client.
  \<open>core\<close> is the part of the state that sending, receiving and waiting never change
  except by closing the session; the lemmas \<open>..._core\<close> say so for every function,
  by rule induction for the loops. The invariant of the client is a predicate on
  the core.
\<close>

section \<open>The core of the client's state\<close>

definition core :: "'t MQTTClient \<Rightarrow> _" where
  "core c = (next_packetid c, command_timeout_ms c, buf_size c, readbuf_size c, length (c_buf c),
     length (readbuf c), keepAliveInterval c, cleansession c, messageHandlers c, defaultMessageHandler c,
     isconnected c)"

lemma coreD:
  assumes "core c' = core c"
  shows "next_packetid c' = next_packetid c" "command_timeout_ms c' = command_timeout_ms c"
    "buf_size c' = buf_size c" "readbuf_size c' = readbuf_size c" "length (c_buf c') = length (c_buf c)"
    "length (readbuf c') = length (readbuf c)" "keepAliveInterval c' = keepAliveInterval c"
    "cleansession c' = cleansession c" "messageHandlers c' = messageHandlers c"
    "defaultMessageHandler c' = defaultMessageHandler c" "isconnected c' = isconnected c"
  using assms by (simp_all add: core_def)

lemma core_update [simp]:
  "core (c\<lparr>last_sent := t\<rparr>) = core c" "core (c\<lparr>last_received := t\<rparr>) = core c"
  "core (c\<lparr>ping_outstanding := b\<rparr>) = core c"
  by (simp_all add: core_def)

lemma core_bufs:
  "length b = length (c_buf c) \<Longrightarrow> core (c\<lparr>c_buf := b\<rparr>) = core c"
  "length b = length (readbuf c) \<Longrightarrow> core (c\<lparr>readbuf := b\<rparr>) = core c"
  by (simp_all add: core_def)

lemma into_buf_core:
  assumes "into_buf c f = Some (len, c')"
    and "\<And>b n k b'. f b n = Some (k, b') \<Longrightarrow> length b' = length b"
  shows "core c' = core c"
proof -
  from assms(1) obtain b' where "f (c_buf c) (sint (buf_size c)) = Some (len, b')" "c' = c\<lparr>c_buf := b'\<rparr>"
    by (auto simp: into_buf_def bind_eq_Some_conv)
  with assms(2) show ?thesis by (simp add: core_bufs)
qed

lemma sendPacket_core:
  "sendPacket P c len timer w = Some (rc, c', timer', w') \<Longrightarrow> core c' = core c \<and> (rc = SUCCESS \<or> rc = FAILURE)"
  by (auto simp: sendPacket_def bind_eq_Some_conv split: if_splits prod.splits)

lemma readPacket_body_core:
  assumes "readPacket_body P c rem_len len timer w = Some (bad, c', timer', w')"
  shows "core c' = core c"
proof -
  have "rets (\<lambda>r. core (fst (snd r)) = core c) (readPacket_body P c rem_len len timer w)"
    unfolding readPacket_body_def by (intro rets_intros) (auto simp: core_bufs dest!: blit_len)
  with assms show ?thesis by (simp add: rets_def)
qed

lemma readPacket_core:
  assumes "readPacket P c timer w = Some (rc, c', timer', w')"
  shows "core c' = core c"
proof -
  have "rets (\<lambda>r. core (fst (snd r)) = core c) (readPacket P c timer w)"
    unfolding readPacket_def
    by (intro rets_intros)
       (auto simp: core_bufs split: if_splits prod.splits dest!: blit_len encode_len readPacket_body_core)
  with assms show ?thesis by (simp add: rets_def)
qed

lemma keepalive_core:
  assumes "keepalive P c w = Some (rc, c', w')"
  shows "core c' = core c \<and> (rc = SUCCESS \<or> rc = FAILURE)"
proof -
  have "rets (\<lambda>r. core (fst (snd r)) = core c \<and> (fst r = SUCCESS \<or> fst r = FAILURE)) (keepalive P c w)"
    unfolding keepalive_def
    by (intro rets_intros)
       (auto split: if_splits prod.splits dest!: sendPacket_core into_buf_core [OF _ serialize_pingreq_len])
  with assms show ?thesis by (simp add: rets_def)
qed

lemma ack_into_buf_core: "into_buf c (\<lambda>b n. MQTTSerialize_ack b n t d i) = Some (len, c') \<Longrightarrow> core c' = core c"
  by (erule into_buf_core) (rule serialize_ack_len)

lemma cycle_publish_core:
  assumes "cycle_publish P c timer w = Some (stop, rc, c', timer', w')"
  shows "core c' = core c \<and> (rc = SUCCESS \<or> rc = FAILURE)"
  using assms
  by (auto simp: cycle_publish_def Let_def bind_eq_Some_conv split: if_splits
      dest!: sendPacket_core ack_into_buf_core)

lemma cycle_pubrec_pubrel_core:
  assumes "cycle_pubrec_pubrel P c t timer w = Some (stop, rc, c', timer', w')"
  shows "core c' = core c \<and> (rc = SUCCESS \<or> rc = FAILURE)"
  using assms
  by (auto simp: cycle_pubrec_pubrel_def Let_def bind_eq_Some_conv split: if_splits
      dest!: sendPacket_core ack_into_buf_core)

text \<open>A packet type that reaches the end of \<open>cycle\<close> with success is not negative.\<close>

lemma cycle_switch_core:
  assumes "cycle_switch P c t timer w = Some (stop, rc, c', timer', w')"
  shows "core c' = core c \<and> (rc = SUCCESS \<longrightarrow> 0 \<le> t)"
  using assms cycle_publish_core [of P c timer w stop rc c'] cycle_pubrec_pubrel_core [of P c t timer w stop rc c']
  by (auto simp: cycle_switch_def ptype_def rc_defs split: if_splits)

section \<open>Closing the session\<close>

lemma clean_slots_idem [simp]: "clean_slots (clean_slots s) = clean_slots s"
  by (simp add: clean_slots_def)

lemma close_simps [simp]:
  "isconnected (MQTTCloseSession c) = False" "ping_outstanding (MQTTCloseSession c) = False"
  "messageHandlers (MQTTCloseSession c) = (if cleansession c then clean_slots (messageHandlers c) else messageHandlers c)"
  "cleansession (MQTTCloseSession c) = cleansession c"
  "next_packetid (MQTTCloseSession c) = next_packetid c"
  by (simp_all add: MQTTCloseSession_def MQTTCleanSession_def Let_def)

lemma core_close: "core c' = core c \<Longrightarrow> core (MQTTCloseSession c') = core (MQTTCloseSession c)"
  by (simp add: core_def MQTTCloseSession_def MQTTCleanSession_def Let_def)

lemma core_close_idem [simp]: "core (MQTTCloseSession (MQTTCloseSession c)) = core (MQTTCloseSession c)"
  by (simp add: core_def MQTTCloseSession_def MQTTCleanSession_def Let_def)

text \<open>What \<open>cycle\<close> and everything that only calls it can do to the core:
  nothing, or close the session.\<close>

definition evolves :: "'t MQTTClient \<Rightarrow> 't MQTTClient \<Rightarrow> bool" where
  "evolves c c' \<longleftrightarrow> core c' = core c \<or> core c' = core (MQTTCloseSession c)"

lemma evolves_refl [simp]: "evolves c c"
  by (simp add: evolves_def)

lemma evolves_core: "core c' = core c \<Longrightarrow> evolves c c'"
  by (simp add: evolves_def)

lemma evolves_trans: "evolves c c1 \<Longrightarrow> evolves c1 c2 \<Longrightarrow> evolves c c2"
  unfolding evolves_def by (metis core_close core_close_idem)

lemma evolves_close: "evolves c c1 \<Longrightarrow> evolves c (MQTTCloseSession c1)"
  unfolding evolves_def by (metis core_close core_close_idem)

lemma evolves_connected: "evolves c c' \<Longrightarrow> isconnected c' \<Longrightarrow> core c' = core c"
  by (auto simp: evolves_def dest: coreD(11))

lemma cycle_evolves:
  assumes "cycle P c timer w = Some (rc, c', timer', w')"
  shows "evolves c c' \<and> (rc < 0 \<longrightarrow> \<not> isconnected c') \<and> (isconnected c' \<longrightarrow> 0 \<le> rc)"
proof -
  from assms obtain t c1 timer1 w1 stop rc2 c2 timer2 w2 rc3 c3 w3 where
    r: "readPacket P c timer w = Some (t, c1, timer1, w1)"
    and s: "cycle_switch P c1 t timer1 w1 = Some (stop, rc2, c2, timer2, w2)"
    and k: "(if stop then Some (rc2, c2, w2) else do { (k, c, w) \<leftarrow> keepalive P c2 w2;
        Some (if k \<noteq> SUCCESS then FAILURE else rc2, c, w) }) = Some (rc3, c3, w3)"
    and e: "(if rc3 = SUCCESS then Some (t, c3, timer2, w3)
        else Some (rc3, if isconnected c3 then MQTTCloseSession c3 else c3, timer2, w3)) = Some (rc, c', timer', w')"
    unfolding cycle_def by (auto simp: bind_eq_Some_conv)
  have c3: "core c3 = core c2" "rc3 = SUCCESS \<longrightarrow> rc2 = SUCCESS"
    using k keepalive_core by (fastforce simp: bind_eq_Some_conv rc_defs split: if_splits)+
  have "core c3 = core c" using c3 cycle_switch_core [OF s] readPacket_core [OF r] by simp
  then have ev: "evolves c c3" by (rule evolves_core)
  have "rc3 = SUCCESS \<longrightarrow> 0 \<le> t" using c3 cycle_switch_core [OF s] by simp
  with e ev show ?thesis by (auto split: if_splits intro: evolves_close)
qed

text \<open>What a loop around \<open>cycle\<close> ensures of its result; \<open>ok\<close> is the return code
  that may come without an iteration.\<close>

definition loop_result :: "'t MQTTClient \<Rightarrow> int \<Rightarrow> int \<times> 't MQTTClient \<times> 'u \<Rightarrow> bool" where
  "loop_result c ok r \<longleftrightarrow>
     (case r of (rc, c', u) \<Rightarrow> evolves c c' \<and> (rc \<noteq> ok \<longrightarrow> rc < 0 \<longrightarrow> \<not> isconnected c'))"

lemma loop_result_trans:
  "evolves c c1 \<Longrightarrow> (0 \<le> rc1 \<or> rc1 = ok) \<Longrightarrow> loop_result c1 rc1 r \<Longrightarrow> loop_result c ok r"
  by (auto simp: loop_result_def intro: evolves_trans split: prod.splits)

lemma waitfor_loop_evolves:
  fixes P :: "('w, 't) platform"
  assumes "waitfor_loop P c t rc0 timer w = Some r"
  shows "loop_result c rc0 r"
proof -
  define Q where "Q = (\<lambda>(((((P :: ('w, 't) platform, c :: 't MQTTClient), t :: int), rc0), timer :: 't), w :: 'w)
      (r :: int \<times> 't MQTTClient \<times> 't \<times> 'w). loop_result c rc0 r)"
  have "Q (((((P, c), t), rc0), timer), w) r"
  proof (rule waitfor_loop.raw_induct [OF _ assms])
    fix self P c t rc0 timer w r
    assume IH: "\<And>P c t rc0 timer w r. self P c t rc0 timer w = Some r \<Longrightarrow> Q (((((P, c), t), rc0), timer), w) r"
      and body: "(let (expired, timer, w) = TimerIsExpired P timer w in
        if expired then Some (rc0, c, timer, w)
        else do {
          (rc, c, timer, w) \<leftarrow> cycle P c timer w;
          (if rc \<noteq> t \<and> 0 \<le> rc then self P c t rc timer w else Some (rc, c, timer, w)) }) = Some r"
    obtain e timer1 w1 where e: "TimerIsExpired P timer w = (e, timer1, w1)" by (cases "TimerIsExpired P timer w")
    have "loop_result c rc0 r"
    proof (cases e)
      case True
      with body e show ?thesis by (auto simp: loop_result_def)
    next
      case False
      with body e obtain rc1 c1 timer2 w2 where
        c: "cycle P c timer1 w1 = Some (rc1, c1, timer2, w2)"
        and n: "(if rc1 \<noteq> t \<and> 0 \<le> rc1 then self P c1 t rc1 timer2 w2 else Some (rc1, c1, timer2, w2)) = Some r"
        by (auto simp: bind_eq_Some_conv)
      note ev = cycle_evolves [OF c]
      show ?thesis
      proof (cases "rc1 \<noteq> t \<and> 0 \<le> rc1")
        case True
        with n have "Q (((((P, c1), t), rc1), timer2), w2) r" by (intro IH) simp
        with True ev show ?thesis by (auto simp: Q_def intro: loop_result_trans)
      qed (use n ev in \<open>auto simp: loop_result_def\<close>)
    qed
    then show "Q (((((P, c), t), rc0), timer), w) r" by (simp add: Q_def)
  qed
  then show ?thesis by (simp add: Q_def)
qed

lemma waitfor_evolves: "waitfor P c t timer w = Some (rc, c', timer', w') \<Longrightarrow> evolves c c'"
  unfolding waitfor_def by (drule waitfor_loop_evolves) (simp add: loop_result_def)

lemma yield_loop_evolves:
  fixes P :: "('w, 't) platform"
  assumes "yield_loop P c timer w = Some r"
  shows "loop_result c 0 r \<and> (fst r = SUCCESS \<or> fst r = FAILURE)"
proof -
  define Q where "Q = (\<lambda>(((P :: ('w, 't) platform, c :: 't MQTTClient), timer :: 't), w :: 'w)
      (r :: int \<times> 't MQTTClient \<times> 'w). loop_result c 0 r \<and> (fst r = SUCCESS \<or> fst r = FAILURE))"
  have "Q (((P, c), timer), w) r"
  proof (rule yield_loop.raw_induct [OF _ assms])
    fix self P c timer w r
    assume IH: "\<And>P c timer w r. self P c timer w = Some r \<Longrightarrow> Q (((P, c), timer), w) r"
      and "do {
        (rc, c, timer, w) \<leftarrow> cycle P c timer w;
        (if rc < 0 then Some (FAILURE, c, w)
         else let (expired, timer, w) = TimerIsExpired P timer w
              in if expired then Some (SUCCESS, c, w) else self P c timer w) } = Some r"
    then obtain rc1 c1 timer2 w2 where
      c: "cycle P c timer w = Some (rc1, c1, timer2, w2)"
      and n: "(if rc1 < 0 then Some (FAILURE, c1, w2) else
          let (expired, timer, w) = TimerIsExpired P timer2 w2
          in if expired then Some (SUCCESS, c1, w) else self P c1 timer w) = Some r"
      by (auto simp: bind_eq_Some_conv)
    note ev = cycle_evolves [OF c]
    obtain e timer3 w3 where e: "TimerIsExpired P timer2 w2 = (e, timer3, w3)" by (cases "TimerIsExpired P timer2 w2")
    show "Q (((P, c), timer), w) r"
    proof (cases "rc1 < 0 \<or> e")
      case True
      with n e ev show ?thesis by (auto simp: Q_def loop_result_def rc_defs split: if_splits)
    next
      case False
      with n e have "Q (((P, c1), timer3), w3) r" by (intro IH) simp
      with False ev show ?thesis
        by (auto simp: Q_def intro: evolves_trans simp: loop_result_def split: prod.splits)
    qed
  qed
  then show ?thesis by (simp add: Q_def)
qed

section \<open>The invariant of the client\<close>

text \<open>The packet identifier is one that MQTT allows, the handler table is a table
  (no filter twice, no used slot without a handler) of the declared size, and the
  buffers are as long as their recorded sizes.\<close>

definition client_inv :: "'t MQTTClient \<Rightarrow> bool" where
  "client_inv c \<longleftrightarrow>
     1 \<le> next_packetid c \<and> next_packetid c \<le> MAX_PACKET_ID \<and>
     slots_ok (messageHandlers c) \<and> length (messageHandlers c) = MAX_MESSAGE_HANDLERS \<and>
     unat (buf_size c) \<le> length (c_buf c) \<and> unat (readbuf_size c) \<le> length (readbuf c)"

lemma inv_core: "core c' = core c \<Longrightarrow> client_inv c' \<longleftrightarrow> client_inv c"
  by (simp add: client_inv_def core_def)

lemma inv_close: "client_inv c \<Longrightarrow> client_inv (MQTTCloseSession c)"
  by (simp add: client_inv_def slots_ok_clean MQTTCloseSession_def MQTTCleanSession_def Let_def)

text \<open>The operations that do not connect: they keep the invariant and never turn a
  closed session into an open one.\<close>

definition tame :: "'t MQTTClient \<Rightarrow> 't MQTTClient \<Rightarrow> bool" where
  "tame c c' \<longleftrightarrow> (client_inv c \<longrightarrow> client_inv c') \<and> (isconnected c' \<longrightarrow> isconnected c) \<and>
     cleansession c' = cleansession c"

lemma tame_refl [simp]: "tame c c"
  by (simp add: tame_def)

lemma tame_trans: "tame c c1 \<Longrightarrow> tame c1 c2 \<Longrightarrow> tame c c2"
  by (simp add: tame_def)

lemma tame_core: "core c' = core c \<Longrightarrow> tame c c'"
  using inv_core [of c' c] coreD(8,11) [of c' c] by (simp add: tame_def)

lemma tame_close: "tame c (MQTTCloseSession c)"
  by (simp add: tame_def inv_close)

lemma tame_evolves: "evolves c c' \<Longrightarrow> tame c c'"
  unfolding evolves_def using tame_core tame_close tame_trans by blast

lemma packetid_range:
  assumes "1 \<le> n" and "n \<le> MAX_PACKET_ID"
  shows "1 \<le> (if n = MAX_PACKET_ID then 1 else n + 1) \<and> (if n = MAX_PACKET_ID then 1 else n + 1) \<le> MAX_PACKET_ID"
proof (cases "n = MAX_PACKET_ID")
  case False
  with assms(2) have lt: "uint n < 65535"
    by (simp add: MAX_PACKET_ID_def word_le_def word_uint_eq_iff)
  moreover have "0 \<le> uint n" by simp
  ultimately have "uint (n + 1) = uint n + 1"
    by (simp add: uint_word_ariths)
  with lt False show ?thesis by (simp add: MAX_PACKET_ID_def word_le_def)
qed (simp add: MAX_PACKET_ID_def word_le_def)

lemma tame_packetid: "getNextPacketId c = (i, c') \<Longrightarrow> tame c c'"
  using packetid_range [of "next_packetid c"]
  by (auto simp: getNextPacketId_def Let_def tame_def client_inv_def)

lemma tame_set_handler: "MQTTSetMessageHandler c f h = (rc, c') \<Longrightarrow> tame c c'"
  using handlers.valid_set [of "messageHandlers c" f h]
  by (auto simp: MQTTSetMessageHandler_def tame_def client_inv_def split: prod.splits)

lemma tame_set_handler_snd: "tame c (snd (MQTTSetMessageHandler c f h))"
  by (rule tame_set_handler [of c f h "fst (MQTTSetMessageHandler c f h)"]) simp

lemma set_handler_rc: "MQTTSetMessageHandler c f h = (rc, c') \<Longrightarrow> rc = SUCCESS \<or> rc = FAILURE"
  by (cases "messageHandlers c" f h rule: set_handler_cases) (auto simp: MQTTSetMessageHandler_def)

lemma tame_close_on_failure: "tame c (close_on_failure rc c)"
  by (simp add: close_on_failure_def tame_close)

section \<open>The public operations\<close>

lemma send_request_tame:
  assumes "send_request P c f timer w = Some (rc, c', timer', w')"
    and "\<And>b n k b'. f b n = Some (k, b') \<Longrightarrow> length b' = length b"
  shows "tame c c' \<and> (rc = SUCCESS \<or> rc = FAILURE)"
proof -
  from assms(1) obtain len c1 where
    i: "into_buf c f = Some (len, c1)"
    and s: "(if len \<le> 0 then Some (FAILURE, c1, timer, w) else sendPacket P c1 len timer w) = Some (rc, c', timer', w')"
    by (auto simp: send_request_def bind_eq_Some_conv)
  have "core c1 = core c" using i assms(2) by (rule into_buf_core)
  with s show ?thesis by (auto split: if_splits intro: tame_core dest!: sendPacket_core)
qed

lemma send_publish_tame:
  "send_request P c (\<lambda>b n. MQTTSerialize_publish b n d q r i t p l) timer w = Some (rc, c', timer', w') \<Longrightarrow>
   tame c c' \<and> (rc = SUCCESS \<or> rc = FAILURE)"
  by (erule send_request_tame) (rule serialize_publish_len)

lemma send_subscribe_tame:
  "send_request P c (\<lambda>b n. MQTTSerialize_subscribe b n d i m ts qs) timer w = Some (rc, c', timer', w') \<Longrightarrow>
   tame c c' \<and> (rc = SUCCESS \<or> rc = FAILURE)"
  by (erule send_request_tame) (rule serialize_subscribe_len)

lemma send_unsubscribe_tame:
  "send_request P c (\<lambda>b n. MQTTSerialize_unsubscribe b n d i m ts) timer w = Some (rc, c', timer', w') \<Longrightarrow>
   tame c c' \<and> (rc = SUCCESS \<or> rc = FAILURE)"
  by (erule send_request_tame) (rule serialize_unsubscribe_len)

lemma await_ack_tame:
  assumes "await_ack P c t timer w = Some (rc, c', w')"
  shows "tame c c' \<and> (rc = SUCCESS \<or> rc = FAILURE)"
proof -
  have "rets (\<lambda>r. tame c (fst (snd r)) \<and> (fst r = SUCCESS \<or> fst r = FAILURE)) (await_ack P c t timer w)"
    unfolding await_ack_def by (intro rets_intros) (auto dest!: waitfor_evolves tame_evolves)
  with assms show ?thesis by (simp add: rets_def)
qed

lemma publish_locked_tame:
  assumes "publish_locked P c topic msg w = Some (rc, msg', c', w')"
  shows "tame c c' \<and> (rc = SUCCESS \<or> rc = FAILURE)"
proof -
  have "rets (\<lambda>r. tame c (fst (snd (snd r))) \<and> (fst r = SUCCESS \<or> fst r = FAILURE)) (publish_locked P c topic msg w)"
    unfolding publish_locked_def
    by (intro rets_intros)
       (auto dest!: send_publish_tame await_ack_tame tame_packetid
         intro: tame_trans split: if_splits prod.splits)
  with assms show ?thesis by (simp add: rets_def)
qed

lemma subscribe_locked_tame:
  assumes "subscribe_locked P c filt qos h g w = Some (rc, g', c', w')"
  shows "tame c c' \<and> (rc = SUCCESS \<or> rc = FAILURE)"
proof -
  have "rets (\<lambda>r. tame c (fst (snd (snd r))) \<and> (fst r = SUCCESS \<or> fst r = FAILURE)) (subscribe_locked P c filt qos h g w)"
    unfolding subscribe_locked_def
    by (intro rets_intros)
       (auto dest!: send_subscribe_tame waitfor_evolves tame_evolves tame_packetid
         dest: set_handler_rc tame_set_handler intro: tame_trans split: if_splits prod.splits)
  with assms show ?thesis by (simp add: rets_def)
qed

lemma unsubscribe_locked_tame:
  assumes "unsubscribe_locked P c filt w = Some (rc, c', w')"
  shows "tame c c' \<and> (rc = SUCCESS \<or> rc = FAILURE)"
proof -
  have "rets (\<lambda>r. tame c (fst (snd r)) \<and> (fst r = SUCCESS \<or> fst r = FAILURE)) (unsubscribe_locked P c filt w)"
    unfolding unsubscribe_locked_def
    by (intro rets_intros)
       (auto dest!: send_unsubscribe_tame waitfor_evolves tame_evolves tame_packetid
         intro: tame_trans tame_trans [OF _ tame_trans [OF _ tame_set_handler_snd]] split: if_splits prod.splits)
  with assms show ?thesis by (simp add: rets_def)
qed

end
