(* ===== verification/Bench.thy ===== *)
theory Bench
  imports Client_Api
begin

text \<open>
  A concrete platform: the bytes the server will send, the bytes it has received, a
  log of the handlers called, and timers that expire after a number of queries. The
  theorems about the client that have hypotheses on the platform are applied to it.
\<close>

record bench =
  b_in :: "byte list"
  b_out :: "byte list"
  b_calls :: "(nat \<times> MessageData) list"
  b_locked :: bool

definition bench_read :: "bench \<Rightarrow> int \<Rightarrow> int \<Rightarrow> (int \<times> byte list \<times> bench) option" where
  "bench_read w n timeout =
     (if 0 \<le> n \<and> nat n \<le> length (b_in w)
      then Some (n, take (nat n) (b_in w), w\<lparr>b_in := drop (nat n) (b_in w)\<rparr>)
      else Some (0, [], w))"

definition bench_write :: "bench \<Rightarrow> byte list \<Rightarrow> int \<Rightarrow> int \<Rightarrow> (int \<times> bench) option" where
  "bench_write w bs n timeout =
     (if 0 \<le> n \<and> nat n \<le> length bs then Some (n, w\<lparr>b_out := b_out w @ take (nat n) bs\<rparr>) else None)"

definition bench_lock :: "bench \<Rightarrow> bench option" where
  "bench_lock w = (if b_locked w then None else Some (w\<lparr>b_locked := True\<rparr>))"

definition bench_platform :: "(bench, nat) platform" where
  "bench_platform = \<lparr>
     TimerInit = 0,
     TimerCountdownMS = (\<lambda>t ms w. (min 3 (unat ms), w)),
     TimerCountdown = (\<lambda>t s w. (min 3 (unat s), w)),
     TimerIsExpired = (\<lambda>t w. (t = 0, t - 1, w)),
     TimerLeftMS = (\<lambda>t w. (int t, t, w)),
     mqttread = bench_read,
     mqttwrite = bench_write,
     MutexInit = (\<lambda>w. w\<lparr>b_locked := False\<rparr>),
     MutexLock = bench_lock,
     MutexUnlock = (\<lambda>w. w\<lparr>b_locked := False\<rparr>),
     callback = (\<lambda>f md w. w\<lparr>b_calls := b_calls w @ [(f, md)]\<rparr>),
     stack_pub = \<lparr>pub_dup = 0, pub_qos = 0, pub_retained = 0, pub_packetid = 0,
        pub_topicName = MQTTString_initializer, pub_payload = [], pub_payloadlen = 0\<rparr>,
     stack_ack = \<lparr>ack_packettype = 0, ack_dup = 0, ack_packetid = 0\<rparr>,
     char_is_signed = False\<rparr>"

definition bench_world :: "byte list \<Rightarrow> bench" where
  "bench_world input = \<lparr>b_in = input, b_out = [], b_calls = [], b_locked = False\<rparr>"

text \<open>A client after \<open>MQTTClientInit\<close> with buffers of 30 bytes.\<close>

definition bench_client :: "nat MQTTClient" where
  "bench_client = fst (MQTTClientInit bench_platform
     \<lparr>next_packetid = 0, command_timeout_ms = 0, buf_size = 0, readbuf_size = 0, c_buf = [], readbuf = [],
      keepAliveInterval = 0, ping_outstanding = False, isconnected = False, cleansession = False,
      messageHandlers = replicate MAX_MESSAGE_HANDLERS \<lparr>topicFilter = None, fp = None\<rparr>,
      defaultMessageHandler = None, last_sent = 0, last_received = 0\<rparr>
     1000 (replicate 30 0) 30 (replicate 30 0) 30 (bench_world []))"

definition bench_message :: MQTTMessage where
  "bench_message = \<lparr>msg_qos = 0, msg_retained = 0, msg_dup = 0, msg_id = 0, msg_payload = [0x68, 0x69], msg_payloadlen = 2\<rparr>"

text \<open>The same platform with timers that never expire and a recursive mutex.\<close>

definition patient_platform :: "(bench, nat) platform" where
  "patient_platform = bench_platform\<lparr>TimerIsExpired := (\<lambda>t w. (False, t, w)), MutexLock := (\<lambda>w. Some (w\<lparr>b_locked := True\<rparr>))\<rparr>"

definition bench_obs :: "bench \<Rightarrow> byte list \<times> byte list \<times> (nat \<times> MessageData) list" where
  "bench_obs w = (b_in w, b_out w, b_calls w)"

end
