(* ===== verification/Client_Reach.thy ===== *)
theory Client_Reach
  imports Client_Inv Bench
begin

text \<open>
  The client as a transition system. With \<open>MQTT_TASK\<close> every public operation and
  every round of the background task holds the mutex from beginning to end, so a
  step is one whole operation or one round of \<open>MQTTRun\<close>, in any order; between
  steps the environment may change the world. The lemmas show the invariant of the
  client in every reachable state, what opens and closes a session, and how packet
  identifiers are given out.
\<close>

section \<open>Steps\<close>

inductive client_step :: "('w, 't) platform \<Rightarrow> 't MQTTClient \<times> 'w \<Rightarrow> 't MQTTClient \<times> 'w \<Rightarrow> bool"
  for P :: "('w, 't) platform" where
  connect: "MQTTConnectWithResults P c options data w = Some (rc, data', c', w') \<Longrightarrow> client_step P (c, w) (c', w')"
| set_handler: "MQTTSetMessageHandler c filt h = (rc, c') \<Longrightarrow> client_step P (c, w) (c', w)"
| subscribe: "MQTTSubscribeWithResults P c filt qos h g w = Some (rc, g', c', w') \<Longrightarrow> client_step P (c, w) (c', w')"
| unsubscribe: "MQTTUnsubscribe P c filt w = Some (rc, c', w') \<Longrightarrow> client_step P (c, w) (c', w')"
| publish: "MQTTPublish P c topic msg w = Some (rc, msg', c', w') \<Longrightarrow> client_step P (c, w) (c', w')"
| disconnect: "MQTTDisconnect P c w = Some (rc, c', w') \<Longrightarrow> client_step P (c, w) (c', w')"
| yields: "MQTTYield P c ms w = Some (rc, c', w') \<Longrightarrow> client_step P (c, w) (c', w')"
| run: "MQTTRun_body P c timer w = Some (c', timer', w') \<Longrightarrow> client_step P (c, w) (c', w')"
| environment: "client_step P (c, w) (c, w')"

inductive_cases client_stepE: "client_step P (c, w) (c', w')"

text \<open>The memory of the client before \<open>MQTTClientInit\<close> is arbitrary, except that
  the handler array has its declared size.\<close>

inductive reachable :: "('w, 't) platform \<Rightarrow> 't MQTTClient \<times> 'w \<Rightarrow> bool" for P :: "('w, 't) platform" where
  init: "MQTTClientInit P c0 ms sendbuf n rbuf m w0 = s \<Longrightarrow> length (messageHandlers c0) = MAX_MESSAGE_HANDLERS \<Longrightarrow>
    unat n \<le> length sendbuf \<Longrightarrow> unat m \<le> length rbuf \<Longrightarrow> reachable P s"
| step: "reachable P s \<Longrightarrow> client_step P s s' \<Longrightarrow> reachable P s'"

section \<open>What the operations do to the session\<close>

lemma client_inv_init:
  assumes "MQTTClientInit P c0 ms sendbuf n rbuf m w0 = (c, w)" and "length (messageHandlers c0) = MAX_MESSAGE_HANDLERS"
    and "unat n \<le> length sendbuf" and "unat m \<le> length rbuf"
  shows "client_inv c"
proof -
  have "c = c0\<lparr>messageHandlers := clean_slots (messageHandlers c0), command_timeout_ms := ms, c_buf := sendbuf,
      buf_size := n, readbuf := rbuf, readbuf_size := m, isconnected := False, cleansession := False,
      ping_outstanding := False, defaultMessageHandler := None, next_packetid := 1,
      last_sent := TimerInit P, last_received := TimerInit P\<rparr>"
    using assms(1) by (simp add: MQTTClientInit_def)
  with assms slots_ok_clean show ?thesis by (simp add: client_inv_def MAX_PACKET_ID_def)
qed

lemma connect_locked_result:
  assumes "connect_locked P c options data w = Some (rc, data', c', w')"
  shows "(client_inv c \<longrightarrow> client_inv c') \<and>
    (isconnected c \<and> rc = FAILURE \<and> c' = c \<or>
     \<not> isconnected c \<and> (isconnected c' \<longleftrightarrow> rc = SUCCESS) \<and>
       (rc = SUCCESS \<longrightarrow> \<not> ping_outstanding c' \<and> ca_rc data' = 0 \<and>
         (\<exists>d. MQTTDeserialize_connack d (readbuf c') (sint (readbuf_size c')) = Some (1, data'))))"
proof (cases "isconnected c")
  case True
  with assms show ?thesis by (auto simp: connect_locked_def)
next
  case False
  define o' where "o' = (case options of None \<Rightarrow> MQTTPacket_connectData_initializer | Some d \<Rightarrow> d)"
  obtain timer w1 where t1: "TimerCountdownMS P (TimerInit P) (command_timeout_ms c) w = (timer, w1)" by fastforce
  let ?c = "c\<lparr>keepAliveInterval := ucast (cd_keepAliveInterval o'), cleansession := cd_cleansession o' \<noteq> 0\<rparr>"
  obtain t w2 where t2: "TimerCountdown P (last_received ?c) (keepAliveInterval ?c) w1 = (t, w2)" by fastforce
  let ?c1 = "?c\<lparr>last_received := t\<rparr>"
  have i1: "client_inv ?c1 = client_inv c" by (simp add: client_inv_def)
  from False assms t1 t2 obtain len c2 where
    b: "into_buf ?c1 (\<lambda>b n. MQTTSerialize_connect b n o') = Some (len, c2)"
    and r: "(if len \<le> 0 then Some (FAILURE, data, c2, w2)
       else do {
         (rc, c, timer, w) \<leftarrow> sendPacket P c2 len timer w2;
         (if rc \<noteq> SUCCESS then Some (rc, data, c, w)
          else do {
            (got, c, timer, w) \<leftarrow> waitfor P c (ptype CONNACK) timer w;
            (if got = ptype CONNACK then do {
               (ok, data) \<leftarrow> MQTTDeserialize_connack (data\<lparr>ca_rc := 0, ca_sessionPresent := 0\<rparr>)
                  (readbuf c) (sint (readbuf_size c));
               let rc = (if ok = 1 then uint (ca_rc data) else FAILURE);
               Some (rc, data, if rc = SUCCESS then c\<lparr>isconnected := True, ping_outstanding := False\<rparr> else c, w) }
             else Some (FAILURE, data, c, w)) }) }) = Some (rc, data', c', w')"
    by (auto simp: connect_locked_def Let_def o'_def bind_eq_Some_conv)
  have t2': "tame ?c1 c2" using into_buf_core [OF b serialize_connect_len] by (rule tame_core)
  have n1: "\<not> isconnected ?c1" using False by simp
  show ?thesis
  proof (cases "len \<le> 0")
    case True
    with r t2' n1 i1 False show ?thesis by (auto simp: rc_defs tame_def)
  next
    case sent: False
    with r obtain rc3 c3 timer3 w3 where s: "sendPacket P c2 len timer w2 = Some (rc3, c3, timer3, w3)"
      by (auto simp: bind_eq_Some_conv)
    have t3: "tame ?c1 c3" using t2' sendPacket_core [OF s] tame_core tame_trans by blast
    show ?thesis
    proof (cases "rc3 = SUCCESS")
      case False
      with r sent s t3 n1 i1 \<open>\<not> isconnected c\<close> show ?thesis by (auto simp: tame_def)
    next
      case True
      with r sent s obtain got c4 timer4 w4 where
        wt: "waitfor P c3 (ptype CONNACK) timer3 w3 = Some (got, c4, timer4, w4)"
        by (auto simp: bind_eq_Some_conv)
      have t4: "tame ?c1 c4" using t3 waitfor_evolves [OF wt] tame_evolves tame_trans by blast
      have i4: "client_inv (c4\<lparr>isconnected := True, ping_outstanding := False\<rparr>) = client_inv c4"
        by (simp add: client_inv_def)
      show ?thesis
      proof (cases "got = ptype CONNACK")
        case False
        with r sent s True wt t4 n1 i1 \<open>\<not> isconnected c\<close> show ?thesis by (auto simp: tame_def rc_defs)
      next
        case got: True
        with r sent s True wt obtain ok where
          d: "MQTTDeserialize_connack (data\<lparr>ca_rc := 0, ca_sessionPresent := 0\<rparr>) (readbuf c4) (sint (readbuf_size c4)) = Some (ok, data')"
          and rc: "rc = (if ok = 1 then uint (ca_rc data') else FAILURE)"
          and c': "c' = (if rc = SUCCESS then c4\<lparr>isconnected := True, ping_outstanding := False\<rparr> else c4)"
          by (auto simp: bind_eq_Some_conv Let_def)
        have "rc = SUCCESS \<Longrightarrow> ok = 1 \<and> ca_rc data' = 0"
          using rc by (auto simp: rc_defs word_uint_eq_iff split: if_splits)
        with d c' t4 n1 i1 i4 \<open>\<not> isconnected c\<close> show ?thesis by (auto simp: tame_def)
      qed
    qed
  qed
qed

lemma disconnect_result:
  assumes "MQTTDisconnect P c w = Some (rc, c', w')"
  shows "\<exists>c1. core c1 = core c \<and> c' = MQTTCloseSession c1"
proof -
  have "rets (\<lambda>r. \<exists>c1. core c1 = core c \<and> fst (snd r) = MQTTCloseSession c1) (MQTTDisconnect P c w)"
    unfolding MQTTDisconnect_def
    by (intro rets_intros)
       (auto simp: bind_eq_Some_conv split: if_splits dest!: into_buf_core [OF _ serialize_disconnect_len] sendPacket_core)
  with assms show ?thesis by (simp add: rets_def)
qed

lemma yield_tame: "MQTTYield P c ms w = Some (rc, c', w') \<Longrightarrow> tame c c'"
  by (auto simp: MQTTYield_def loop_result_def split: prod.splits dest!: yield_loop_evolves intro: tame_evolves)

lemma run_tame: "MQTTRun_body P c timer w = Some (c', timer', w') \<Longrightarrow> tame c c'"
  by (auto simp: MQTTRun_body_def bind_eq_Some_conv split: prod.splits dest!: cycle_evolves intro: tame_evolves)

text \<open>The three request operations end in the same way.\<close>

lemma close_result:
  assumes "tame c c1" and "rc = SUCCESS \<or> rc = FAILURE"
  shows "tame c (close_on_failure rc c1) \<and>
    (rc = FAILURE \<longrightarrow> \<not> isconnected (close_on_failure rc c1) \<and> \<not> ping_outstanding (close_on_failure rc c1) \<and>
       (cleansession c \<longrightarrow> slot_lookup (messageHandlers (close_on_failure rc c1)) = Map.empty))"
proof -
  have "slot_lookup (clean_slots s) = Map.empty" for s by (rule ext) (simp add: slot_lookup_None)
  then show ?thesis
    using assms tame_trans [OF assms(1) tame_close_on_failure [of c1 rc]]
    by (auto simp: close_on_failure_def tame_def)
qed

lemma publish_result:
  assumes "MQTTPublish P c topic msg w = Some (rc, msg', c', w')"
  obtains c1 where "c' = close_on_failure rc c1" "tame c c1" "rc = SUCCESS \<or> rc = FAILURE"
  using assms that publish_locked_tame by (fastforce simp: MQTTPublish_def bind_eq_Some_conv)

lemma subscribe_result:
  assumes "MQTTSubscribeWithResults P c filt qos h g w = Some (rc, g', c', w')"
  obtains c1 where "c' = close_on_failure rc c1" "tame c c1" "rc = SUCCESS \<or> rc = FAILURE"
  using assms that subscribe_locked_tame by (fastforce simp: MQTTSubscribeWithResults_def bind_eq_Some_conv)

lemma unsubscribe_result:
  assumes "MQTTUnsubscribe P c filt w = Some (rc, c', w')"
  obtains c1 where "c' = close_on_failure rc c1" "tame c c1" "rc = SUCCESS \<or> rc = FAILURE"
  using assms that unsubscribe_locked_tame by (fastforce simp: MQTTUnsubscribe_def bind_eq_Some_conv)

text \<open>Every step is tame, except a successful connect.\<close>

lemma publish_tame: "MQTTPublish P c topic msg w = Some (rc, msg', c', w') \<Longrightarrow> tame c c'"
  by (erule publish_result) (blast dest: close_result)

lemma subscribe_tame: "MQTTSubscribeWithResults P c filt qos h g w = Some (rc, g', c', w') \<Longrightarrow> tame c c'"
  by (erule subscribe_result) (blast dest: close_result)

lemma unsubscribe_tame: "MQTTUnsubscribe P c filt w = Some (rc, c', w') \<Longrightarrow> tame c c'"
  by (erule unsubscribe_result) (blast dest: close_result)

lemma disconnect_tame: "MQTTDisconnect P c w = Some (rc, c', w') \<Longrightarrow> tame c c'"
  by (drule disconnect_result) (blast intro: tame_core tame_close tame_trans)

lemmas op_tame = publish_tame subscribe_tame unsubscribe_tame disconnect_tame yield_tame run_tame tame_set_handler

lemma connect_locked_run:
  assumes "MQTTConnectWithResults P c options data w = Some (rc, data', c', w')"
  obtains w1 w2 where "connect_locked P c options data w1 = Some (rc, data', c', w2)"
  using assms that by (auto simp: MQTTConnectWithResults_def bind_eq_Some_conv)

lemma step_cases:
  assumes "client_step P (c, w) (c', w')"
  obtains (tame) "tame c c'"
    | (connect) options data rc data' where "MQTTConnectWithResults P c options data w = Some (rc, data', c', w')"
  using assms
proof (rule client_stepE)
  show thesis if "c' = c" using that tame by simp
qed (blast intro: tame connect op_tame)+

lemma step_inv: "client_step P (c, w) (c', w') \<Longrightarrow> client_inv c \<Longrightarrow> client_inv c'"
  by (erule step_cases) (auto simp: tame_def elim!: connect_locked_run dest!: connect_locked_result)

lemma reachable_inv: "reachable P s \<Longrightarrow> client_inv (fst s)"
proof (induction rule: reachable.induct)
  case (init c0 ms sendbuf n rbuf m w0 s)
  then show ?case by (cases s) (simp add: client_inv_init)
next
  case (step s s')
  then show ?case by (cases s; cases s') (auto dest: step_inv)
qed

section \<open>Packet identifiers\<close>

lemma uint_next_packetid:
  assumes "1 \<le> n" and "n \<le> MAX_PACKET_ID"
  shows "uint (if n = MAX_PACKET_ID then 1 else n + 1) = uint n mod 65535 + 1"
proof (cases "n = MAX_PACKET_ID")
  case False
  then have "uint n < 65535" using assms(2) by (simp add: MAX_PACKET_ID_def word_le_def word_uint_eq_iff)
  moreover have "0 \<le> uint n" by simp
  ultimately show ?thesis using False by (simp add: uint_word_ariths)
qed (simp add: MAX_PACKET_ID_def)

lemma next_packetid_step:
  assumes "client_inv c"
  shows "client_inv (snd (getNextPacketId c))"
    and "uint (next_packetid (snd (getNextPacketId c))) = uint (next_packetid c) mod 65535 + 1"
    and "uint (fst (getNextPacketId c)) = uint (next_packetid (snd (getNextPacketId c)))"
proof -
  show "client_inv (snd (getNextPacketId c))"
    using assms tame_packetid [of c "fst (getNextPacketId c)"] by (simp add: tame_def)
  show u: "uint (next_packetid (snd (getNextPacketId c))) = uint (next_packetid c) mod 65535 + 1"
    using assms uint_next_packetid [of "next_packetid c"] by (simp add: getNextPacketId_def Let_def client_inv_def)
  have "fst (getNextPacketId c) = ucast (next_packetid (snd (getNextPacketId c)))"
    by (simp add: getNextPacketId_def Let_def)
  moreover have "uint (next_packetid (snd (getNextPacketId c))) < 65536"
    using u pos_mod_bound [of 65535 "uint (next_packetid c)"] by simp
  ultimately show "uint (fst (getNextPacketId c)) = uint (next_packetid (snd (getNextPacketId c)))"
    by (simp add: unsigned_ucast_eq take_bit_int_eq_self)
qed

text \<open>The client after it has given out \<open>k\<close> identifiers.\<close>

primrec after_ids :: "nat \<Rightarrow> 't MQTTClient \<Rightarrow> 't MQTTClient" where
  "after_ids 0 c = c"
| "after_ids (Suc k) c = snd (getNextPacketId (after_ids k c))"

lemma packetid_iterate:
  assumes "client_inv c"
  shows "client_inv (after_ids k c) \<and>
    uint (next_packetid (after_ids k c)) mod 65535 = (uint (next_packetid c) + int k) mod 65535"
proof (induction k)
  case (Suc k)
  let ?c = "after_ids k c"
  have inv: "client_inv ?c" using Suc by blast
  have "uint (next_packetid (snd (getNextPacketId ?c))) mod 65535 = (uint (next_packetid ?c) mod 65535 + 1) mod 65535"
    using next_packetid_step(2) [OF inv] by simp
  also have "\<dots> = ((uint (next_packetid c) + int k) mod 65535 + 1) mod 65535" using Suc by metis
  also have "\<dots> = (uint (next_packetid c) + int (Suc k)) mod 65535" unfolding mod_add_left_eq by (simp add: ac_simps)
  finally show ?case using next_packetid_step(1) [OF inv] by simp
qed (use assms in simp)

section \<open>Properties of the session\<close>

text \<open>
  C6: in every state the client can reach, by any sequence of public
  operations and background rounds on any platform, the packet identifier is one
  MQTT allows (1 to 65535), no topic filter is in two slots of the handler table,
  every used slot has a handler, and the buffers still have their recorded sizes.
\<close>

theorem reachable_client_inv:
  assumes "reachable P (c, w)"
  shows "client_inv c"
  using reachable_inv [OF assms] by simp

theorem reachable_client_inv_witness: "client_inv bench_client"
proof (rule reachable_client_inv)
  show "reachable bench_platform (bench_client, bench_world [])"
  proof (rule reachable.init)
    show "MQTTClientInit bench_platform (bench_client\<lparr>next_packetid := 0\<rparr>) 1000 (replicate 30 0) 30 (replicate 30 0) 30
        (bench_world []) = (bench_client, bench_world [])"
      by (simp add: MQTTClientInit_def bench_client_def bench_platform_def bench_world_def clean_slots_def)
  qed (simp_all add: bench_client_def MQTTClientInit_def clean_slots_def)
qed



text \<open>
  C15: when a publication, a subscription or the end of one fails, the
  session is closed: the client is not connected, no ping is outstanding, and if
  it asked for a clean session no message handler is left.
\<close>

theorem failed_request_closes_session:
  assumes "MQTTPublish P c topic msg w = Some (FAILURE, msg', c', w') \<or>
    MQTTSubscribeWithResults P c topic qos h g w = Some (FAILURE, g', c', w') \<or>
    MQTTUnsubscribe P c topic w = Some (FAILURE, c', w')"
  shows "\<not> isconnected c' \<and> \<not> ping_outstanding c' \<and>
    (cleansession c \<longrightarrow> slot_lookup (messageHandlers c') = Map.empty)"
proof -
  from assms obtain c1 where "c' = close_on_failure FAILURE c1" "tame c c1"
    by (elim disjE) (auto elim: publish_result subscribe_result unsubscribe_result)
  then show ?thesis using close_result [of c c1 FAILURE] by simp
qed

theorem failed_request_closes_session_witness:
  "\<exists>msg' c' w'. MQTTPublish bench_platform (bench_client\<lparr>isconnected := True, cleansession := True\<rparr>) [0x61]
       \<lparr>msg_qos = 1, msg_retained = 0, msg_dup = 0, msg_id = 0, msg_payload = [7], msg_payloadlen = 1\<rparr> (bench_world []) =
     Some (FAILURE, msg', c', w') \<and>
   \<not> isconnected c' \<and> \<not> ping_outstanding c' \<and>
    (cleansession (bench_client\<lparr>isconnected := True, cleansession := True\<rparr>) \<longrightarrow> slot_lookup (messageHandlers c') = Map.empty)"
proof -
  let ?r = "MQTTPublish bench_platform (bench_client\<lparr>isconnected := True, cleansession := True\<rparr>) [0x61]
       \<lparr>msg_qos = 1, msg_retained = 0, msg_dup = 0, msg_id = 0, msg_payload = [7], msg_payloadlen = 1\<rparr> (bench_world [])"
  have "case ?r of Some (rc, d, c, w) \<Rightarrow> rc = FAILURE | None \<Rightarrow> False" by code_simp
  then obtain msg' c' w' where r: "?r = Some (FAILURE, msg', c', w')" by (auto split: option.splits)
  from failed_request_closes_session [OF disjI1 [OF this]] r show ?thesis by blast
qed

text \<open>
  without a session, publishing, subscribing and unsubscribing send
  and receive nothing: they fail at once, and all they do to the world is to take
  and release the mutex. With a session, connecting again fails at once and changes
  nothing.
\<close>

theorem request_without_session:
  assumes "MutexLock P w = Some w1"
  shows "if isconnected c
    then MQTTConnectWithResults P c options data w = Some (FAILURE, data, c, MutexUnlock P w1)
    else MQTTPublish P c topic msg w = Some (FAILURE, msg, MQTTCloseSession c, MutexUnlock P w1) \<and>
      MQTTSubscribeWithResults P c topic qos h g w = Some (FAILURE, g, MQTTCloseSession c, MutexUnlock P w1) \<and>
      MQTTUnsubscribe P c topic w = Some (FAILURE, MQTTCloseSession c, MutexUnlock P w1)"
  using assms
  by (simp add: MQTTPublish_def publish_locked_def MQTTSubscribeWithResults_def subscribe_locked_def
      MQTTUnsubscribe_def unsubscribe_locked_def MQTTConnectWithResults_def connect_locked_def close_on_failure_def)

theorem request_without_session_witness:
  "MQTTUnsubscribe bench_platform bench_client [0x61] (bench_world [1]) =
     Some (FAILURE, MQTTCloseSession bench_client, bench_world [1])"
proof -
  have l: "MutexLock bench_platform (bench_world [1]) = Some (bench_world [1]\<lparr>b_locked := True\<rparr>)"
    by (simp add: bench_platform_def bench_lock_def bench_world_def)
  have "\<not> isconnected bench_client" by (simp add: bench_client_def MQTTClientInit_def)
  with request_without_session [OF l, of bench_client _ _ "[0x61]"] show ?thesis
    by (simp add: bench_platform_def bench_world_def)
qed

text \<open>
  packet identifiers are given out in a cycle: the \<open>k\<close>-th identifier
  after the current one is \<open>(n + k) mod 65535 + 1\<close>, so it is never 0 and any
  65535 consecutive ones are different.
\<close>

theorem packet_ids_cycle:
  assumes "client_inv c"
  shows "uint (fst (getNextPacketId (after_ids k c))) =
    (uint (next_packetid c) + int k) mod 65535 + 1"
  using packetid_iterate [OF assms, of k] next_packetid_step(2,3) [of "after_ids k c"]
  by simp

theorem packet_ids_cycle_witness:
  "uint (fst (getNextPacketId (after_ids 65534 bench_client))) =
    (uint (next_packetid bench_client) + int 65534) mod 65535 + 1"
  by (rule packet_ids_cycle) code_simp

end
