(* ===== verification/Client_Deliver.thy ===== *)
theory Client_Deliver
  imports Client_Reach
begin

text \<open>
  Message delivery and the handler table at the level of the client:
  \<open>MQTTSetMessageHandler\<close> updates a map from topic filters to handlers, and
  \<open>deliverMessage\<close> calls exactly the handlers whose filter matches the topic, in
  the order of the table, and the default handler when there is none.
\<close>

section \<open>The handlers a message reaches\<close>

definition slot_hit :: "byte list \<Rightarrow> handler_slot \<Rightarrow> nat list" where
  "slot_hit name s =
     (case (topicFilter s, fp s) of
        (Some f, Some h) \<Rightarrow> if levels_match (levels f) (levels name) then [h] else []
      | _ \<Rightarrow> [])"

definition hits :: "'t MQTTClient \<Rightarrow> byte list \<Rightarrow> nat list" where
  "hits c name = concat (map (slot_hit name) (messageHandlers c))"

definition receivers :: "'t MQTTClient \<Rightarrow> byte list \<Rightarrow> nat list" where
  "receivers c name =
     (if hits c name \<noteq> [] then hits c name
      else case defaultMessageHandler c of None \<Rightarrow> [] | Some h \<Rightarrow> [h])"

definition filters_ok :: "'t MQTTClient \<Rightarrow> bool" where
  "filters_ok c \<longleftrightarrow> (\<forall>s \<in> set (messageHandlers c). case topicFilter s of None \<Rightarrow> True | Some f \<Rightarrow> cstring_ok f \<and> filter_ok f)"

lemma levels_match_refl: "filter_levels_ok f \<Longrightarrow> levels_match f f"
  by (induction f) auto

lemma topic_hits_eq:
  assumes "name_ok s" and "cstring_ok f" and "filter_ok f"
  shows "topic_hits f s = Some (levels_match (levels f) (levels (mstr_bytes s)))"
  using assms levels_match_refl [of "levels f"]
  by (auto simp: topic_hits_def MQTTPacket_equals_name isTopicMatched_name scan_levels filter_ok_def)

text \<open>The loop over the table.\<close>

definition deliver_body ::
  "('w, 't) platform \<Rightarrow> 't MQTTClient \<Rightarrow> MQTTString \<Rightarrow> MQTTMessage \<Rightarrow> nat \<Rightarrow> int \<times> 'w \<Rightarrow> (int \<times> 'w) option" where
  "deliver_body P c topicName message = (\<lambda>i (rc, w). do {
     slot \<leftarrow> idx (messageHandlers c) i;
     (case topicFilter slot of
        None \<Rightarrow> Some (rc, w)
      | Some filt \<Rightarrow> do {
          hit \<leftarrow> topic_hits filt topicName;
          Some (case fp slot of
                  Some f \<Rightarrow> if hit then (SUCCESS, callback P f (NewMessageData topicName message) w) else (rc, w)
                | None \<Rightarrow> (rc, w)) }) })"

definition run_handlers :: "('w, 't) platform \<Rightarrow> MessageData \<Rightarrow> nat list \<Rightarrow> 'w \<Rightarrow> 'w" where
  "run_handlers P md fs w = fold (\<lambda>f. callback P f md) fs w"

lemma deliver_body_step:
  assumes "name_ok s" and "filters_ok c" and "i < length (messageHandlers c)"
  shows "deliver_body P c s m i (rc, w) =
    (let hs = slot_hit (mstr_bytes s) (messageHandlers c ! i)
     in Some (if hs = [] then rc else SUCCESS, run_handlers P (NewMessageData s m) hs w))"
proof -
  let ?s = "messageHandlers c ! i"
  have "case topicFilter ?s of None \<Rightarrow> True | Some f \<Rightarrow> cstring_ok f \<and> filter_ok f"
    using assms(2,3) by (simp add: filters_ok_def)
  with assms show ?thesis
    by (cases "topicFilter ?s"; cases "fp ?s")
       (simp_all add: deliver_body_def slot_hit_def run_handlers_def topic_hits_eq)
qed

lemma deliver_loop:
  assumes "name_ok s" and "filters_ok c" and "a + n \<le> length (messageHandlers c)"
  shows "for_loop a n (deliver_body P c s m) (rc, w) =
    (let hs = concat (map (slot_hit (mstr_bytes s)) (take n (drop a (messageHandlers c))))
     in Some (if hs = [] then rc else SUCCESS, run_handlers P (NewMessageData s m) hs w))"
  using assms(3)
proof (induction n arbitrary: a rc w)
  case 0
  then show ?case by (simp add: run_handlers_def)
next
  case (Suc n)
  then have d: "drop a (messageHandlers c) = messageHandlers c ! a # drop (Suc a) (messageHandlers c)"
    by (simp add: Cons_nth_drop_Suc)
  show ?case
    using Suc.prems
    by (simp add: deliver_body_step [OF assms(1,2)] Suc.IH d Let_def run_handlers_def)
qed

lemma deliverMessage_eq:
  assumes "name_ok s" and "filters_ok c" and "length (messageHandlers c) = MAX_MESSAGE_HANDLERS"
  shows "deliverMessage P c s m w =
    Some (if receivers c (mstr_bytes s) = [] then FAILURE else SUCCESS,
          run_handlers P (NewMessageData s m) (receivers c (mstr_bytes s)) w)"
proof -
  have "deliverMessage P c s m w = do {
      (rc, w) \<leftarrow> for_loop 0 MAX_MESSAGE_HANDLERS (deliver_body P c s m) (FAILURE, w);
      Some (case defaultMessageHandler c of
             Some f \<Rightarrow> if rc = FAILURE then (SUCCESS, callback P f (NewMessageData s m) w) else (rc, w)
           | None \<Rightarrow> (rc, w)) }"
    by (simp add: deliverMessage_def deliver_body_def)
  also have "for_loop 0 MAX_MESSAGE_HANDLERS (deliver_body P c s m) (FAILURE, w) =
      Some (if hits c (mstr_bytes s) = [] then FAILURE else SUCCESS,
            run_handlers P (NewMessageData s m) (hits c (mstr_bytes s)) w)"
    using deliver_loop [OF assms(1,2), of 0 MAX_MESSAGE_HANDLERS P m FAILURE w] assms(3)
    by (simp add: hits_def Let_def)
  finally show ?thesis
    by (cases "defaultMessageHandler c"; cases "hits c (mstr_bytes s)") (simp_all add: receivers_def run_handlers_def rc_defs)
qed

section \<open>Properties of delivery\<close>

text \<open>
  C13: \<open>deliverMessage\<close> runs the handlers whose filter matches the topic
  level by level, each once and in the order of the table, and no other; the
  default handler runs exactly when no handler matched. It reports success exactly
  when something ran.
\<close>

theorem deliver_runs_matching_handlers:
  assumes "client_inv c" and "filters_ok c" and "name_ok s"
  shows "deliverMessage P c s m w =
    Some (if receivers c (mstr_bytes s) = [] then FAILURE else SUCCESS,
          run_handlers P (NewMessageData s m) (receivers c (mstr_bytes s)) w)"
  using assms by (intro deliverMessage_eq) (simp_all add: client_inv_def)

theorem deliver_runs_matching_handlers_witness:
  "deliverMessage bench_platform (snd (MQTTSetMessageHandler bench_client [0x61, SEP, PLUS] (Some 7)))
      (read_string [0x61, SEP, 0x62] 0 3) bench_message (bench_world []) =
    Some (if receivers (snd (MQTTSetMessageHandler bench_client [0x61, SEP, PLUS] (Some 7))) (mstr_bytes (read_string [0x61, SEP, 0x62] 0 3)) = []
            then FAILURE else SUCCESS,
          run_handlers bench_platform (NewMessageData (read_string [0x61, SEP, 0x62] 0 3) bench_message)
            (receivers (snd (MQTTSetMessageHandler bench_client [0x61, SEP, PLUS] (Some 7))) (mstr_bytes (read_string [0x61, SEP, 0x62] 0 3)))
            (bench_world []))"
proof (rule deliver_runs_matching_handlers)
  show "client_inv (snd (MQTTSetMessageHandler bench_client [0x61, SEP, PLUS] (Some 7)))"
    by code_simp
  have "messageHandlers (snd (MQTTSetMessageHandler bench_client [0x61, SEP, PLUS] (Some 7))) =
      \<lparr>topicFilter = Some [0x61, SEP, PLUS], fp = Some 7\<rparr> # replicate 4 \<lparr>topicFilter = None, fp = None\<rparr>"
    by code_simp
  moreover have "filter_ok [0x61, SEP, PLUS]" by (simp add: filter_ok_def levels.simps literal_def)
  ultimately show "filters_ok (snd (MQTTSetMessageHandler bench_client [0x61, SEP, PLUS] (Some 7)))"
    by (simp add: filters_ok_def cstring_ok_def)
qed (simp add: name_ok_def read_string_def)

text \<open>
  \<open>MQTTSetMessageHandler\<close> is an update of the map from filters to
  handlers (removal, for a \<open>NULL\<close> handler) whenever the filter is in the table, or
  a handler is given and one of the five slots is free; otherwise it fails and
  changes nothing. The rest of the client is untouched.
\<close>

theorem set_message_handler_updates_map:
  assumes "client_inv c"
  shows "let table = slot_lookup (messageHandlers c);
      room = (f \<in> dom table \<or> h \<noteq> None \<and> card (dom table) < MAX_MESSAGE_HANDLERS);
      (rc, c') = MQTTSetMessageHandler c f h
    in rc = (if room then SUCCESS else FAILURE) \<and>
       slot_lookup (messageHandlers c') = (if room then table(f := h) else table) \<and>
       c' = c\<lparr>messageHandlers := messageHandlers c'\<rparr> \<and> client_inv c'"
proof -
  let ?t = "messageHandlers c"
  let ?room = "f \<in> dom (slot_lookup ?t) \<or> h \<noteq> None \<and> card (dom (slot_lookup ?t)) < MAX_MESSAGE_HANDLERS"
  have ok: "slots_ok ?t" "length ?t = MAX_MESSAGE_HANDLERS" using assms by (simp_all add: client_inv_def)
  obtain rc t' where r: "set_handler ?t f h = (rc, t')" by fastforce
  have "client_inv (c\<lparr>messageHandlers := t'\<rparr>)"
    using assms handlers.valid_set [OF ok(1) r] by (simp add: client_inv_def)
  moreover have "rc = (if ?room then SUCCESS else FAILURE) \<and>
      slot_lookup t' = (if ?room then (slot_lookup ?t)(f := h) else slot_lookup ?t)"
  proof (cases ?room)
    case True
    with handlers.set_is_update [OF ok(1), of f h] r ok(2) show ?thesis by auto
  next
    case False
    then have "rc \<noteq> SUCCESS"
      using handlers.add_ok [OF ok(1), of f] handlers.remove_ok [OF ok(1), of f] r ok(2)
      by (cases h) (metis fst_conv option.distinct(1))+
    with False handlers.set_fail [OF ok(1) r] show ?thesis by simp
  qed
  ultimately show ?thesis using r by (simp add: MQTTSetMessageHandler_def Let_def)
qed

theorem set_message_handler_updates_map_witness:
  "let table = slot_lookup (messageHandlers bench_client);
      room = ([0x61] \<in> dom table \<or> Some (3 :: nat) \<noteq> None \<and> card (dom table) < MAX_MESSAGE_HANDLERS);
      (rc, c') = MQTTSetMessageHandler bench_client [0x61] (Some (3 :: nat))
    in rc = (if room then SUCCESS else FAILURE) \<and>
       slot_lookup (messageHandlers c') = (if room then table([0x61] := Some 3) else table) \<and>
       c' = bench_client\<lparr>messageHandlers := messageHandlers c'\<rparr> \<and> client_inv c'"
  by (rule set_message_handler_updates_map) code_simp

end
