(* ===== verification/Client_Wire.thy ===== *)
theory Client_Wire
  imports Client_Deliver
begin

text \<open>
  What the client sends and receives when the network delivers bytes in order and
  no timer expires (\<open>ideal_net\<close>): one round of the receive loop reads exactly one
  packet, delivers it and answers it. \<open>obs\<close> observes a world: the byte stream still
  to come from the server, the bytes sent so far and the handler calls so far.
\<close>

section \<open>An ideal network\<close>

type_synonym observation = "byte list \<times> byte list \<times> (nat \<times> MessageData) list"

definition ideal_net :: "('w, 't) platform \<Rightarrow> ('w \<Rightarrow> observation) \<Rightarrow> bool" where
  "ideal_net P obs \<longleftrightarrow>
     (\<forall>w xs ys s t. obs w = (xs @ ys, s) \<longrightarrow> xs \<noteq> [] \<longrightarrow>
        (\<exists>w'. mqttread P w (int (length xs)) t = Some (int (length xs), xs, w') \<and> obs w' = (ys, s))) \<and>
     (\<forall>w bs n t i sent l. obs w = (i, sent, l) \<longrightarrow> 0 < n \<longrightarrow> nat n \<le> length bs \<longrightarrow>
        (\<exists>w'. mqttwrite P w bs n t = Some (n, w') \<and> obs w' = (i, sent @ take (nat n) bs, l))) \<and>
     (\<forall>f md w i sent l. obs w = (i, sent, l) \<longrightarrow> obs (callback P f md w) = (i, sent, l @ [(f, md)])) \<and>
     (\<forall>t w. \<exists>t' w'. TimerIsExpired P t w = (False, t', w') \<and> obs w' = obs w) \<and>
     (\<forall>t w. \<exists>n t' w'. TimerLeftMS P t w = (n, t', w') \<and> obs w' = obs w) \<and>
     (\<forall>t s w. obs (snd (TimerCountdown P t s w)) = obs w) \<and>
     (\<forall>t s w. obs (snd (TimerCountdownMS P t s w)) = obs w) \<and>
     (\<forall>w. \<exists>w'. MutexLock P w = Some w' \<and> obs w' = obs w) \<and>
     (\<forall>w. obs (MutexUnlock P w) = obs w)"

lemma ideal_netD:
  assumes "ideal_net P obs"
  shows "obs w = (xs @ ys, s) \<Longrightarrow> xs \<noteq> [] \<Longrightarrow>
      \<exists>w'. mqttread P w (int (length xs)) t = Some (int (length xs), xs, w') \<and> obs w' = (ys, s)"
    and "obs w = (i, sent, l) \<Longrightarrow> 0 < n \<Longrightarrow> nat n \<le> length bs \<Longrightarrow>
      \<exists>w'. mqttwrite P w bs n t = Some (n, w') \<and> obs w' = (i, sent @ take (nat n) bs, l)"
    and "obs w = (i, sent, l) \<Longrightarrow> obs (callback P f md w) = (i, sent, l @ [(f, md)])"
    and "\<exists>t' w'. TimerIsExpired P tm w = (False, t', w') \<and> obs w' = obs w"
    and "\<exists>n t' w'. TimerLeftMS P tm w = (n, t', w') \<and> obs w' = obs w"
    and "\<exists>t' w'. TimerCountdown P tm c w = (t', w') \<and> obs w' = obs w"
    and "\<exists>t' w'. TimerCountdownMS P tm c w = (t', w') \<and> obs w' = obs w"
    and "\<exists>w'. MutexLock P w = Some w' \<and> obs w' = obs w"
    and "obs (MutexUnlock P w) = obs w"
  using assms unfolding ideal_net_def by (blast | metis surj_pair snd_conv)+

section \<open>Sending and receiving\<close>

lemma sendPacket_ideal:
  assumes net: "ideal_net P obs" and o: "obs w = (i, sent, l)"
    and len: "0 < len" "nat len \<le> length (c_buf c)" "len \<le> INT_MAX"
  shows "\<exists>t timer' w'. sendPacket P c len timer w = Some (SUCCESS, c\<lparr>last_sent := t\<rparr>, timer', w') \<and>
    obs w' = (i, sent @ take (nat len) (c_buf c), l)"
proof -
  obtain t1 w1 where e: "TimerIsExpired P timer w = (False, t1, w1)" "obs w1 = (i, sent, l)"
    using ideal_netD(4) [OF net] o by metis
  obtain n t2 w2 where m: "TimerLeftMS P t1 w1 = (n, t2, w2)" "obs w2 = (i, sent, l)"
    using ideal_netD(5) [OF net, of t1 w1] e by metis
  obtain w3 where r: "mqttwrite P w2 (c_buf c) len n = Some (len, w3)" "obs w3 = (i, sent @ take (nat len) (c_buf c), l)"
    using ideal_netD(2) [OF net m(2) len(1,2)] by blast
  obtain t4 w4 where d: "TimerCountdown P (last_sent c) (keepAliveInterval c) w3 = (t4, w4)" "obs w4 = obs w3"
    using ideal_netD(6) [OF net] by blast
  have c: "cint len = Some len" using len by (simp add: cint_def INT_MIN_def)
  have "sendPacket_loop P (c_buf c) len len t2 w3 = Some (len, t2, w3)"
    by (subst sendPacket_loop.simps) simp
  then have "sendPacket_loop P (c_buf c) len 0 timer w = Some (len, t2, w3)"
    using e m r c len by (subst sendPacket_loop.simps) simp
  then have "sendPacket P c len timer w = Some (SUCCESS, c\<lparr>last_sent := t4\<rparr>, t2, w4)"
    using d by (simp add: sendPacket_def)
  with d r show ?thesis by auto
qed

text \<open>\<open>decodePacket\<close> is \<open>MQTTPacket_decode\<close> on the network.\<close>

lemma decodePacket_loop_eq:
  "decodePacket_loop P timeout w len m v = MQTTPacket_decode_loop (\<lambda>w n. mqttread P w n timeout) w len m v"
proof (induction "nat (5 - len)" arbitrary: w len m v rule: less_induct)
  case less
  let ?g = "\<lambda>w n. mqttread P w n timeout"
  have IH: "decodePacket_loop P timeout w' (len + 1) m' v' = MQTTPacket_decode_loop ?g w' (len + 1) m' v'"
    if "\<not> len + 1 > 4" for w' m' v'
    using less.hyps [of "len + 1" w' m' v'] that by simp
  show ?case
  proof (cases "len + 1 > 4")
    case True
    then show ?thesis
      by (subst decodePacket_loop.simps, subst MQTTPacket_decode_loop.simps)
         (simp add: MAX_NO_OF_REMAINING_LENGTH_BYTES_def)
  next
    case False
    then show ?thesis
      by (subst decodePacket_loop.simps, subst MQTTPacket_decode_loop.simps)
         (simp add: MAX_NO_OF_REMAINING_LENGTH_BYTES_def Let_def IH cong: if_cong)
  qed
qed

lemma decodePacket_eq: "decodePacket P timeout w = MQTTPacket_decode (\<lambda>w n. mqttread P w n timeout) w"
  by (simp add: decodePacket_def MQTTPacket_decode_def decodePacket_loop_eq)

lemma decodePacket_ideal:
  assumes net: "ideal_net P obs" and "obs w = (enc_len n @ rest, s)" and "n < 268435456"
  shows "\<exists>w'. decodePacket P timeout w = Some (int (length (enc_len n)), int n, w') \<and> obs w' = (rest, s)"
proof -
  have "byte_source (\<lambda>w n. mqttread P w n timeout) (fst \<circ> obs) (snd \<circ> obs)"
  proof
    fix w c cs
    assume "(fst \<circ> obs) w = c # cs"
    then have "obs w = ([c] @ cs, snd (obs w))" by (cases "obs w") simp
    from ideal_netD(1) [OF net this, of timeout]
    show "\<exists>w'. mqttread P w 1 timeout = Some (1, [c], w') \<and> (fst \<circ> obs) w' = cs \<and> (snd \<circ> obs) w' = (snd \<circ> obs) w"
      by auto
  qed
  from byte_source.decode_enc [OF this, of w n rest] assms(2,3) show ?thesis
    by (auto simp: decodePacket_eq prod_eq_iff)
qed

lemma fits_unsigned:
  assumes "len + n \<le> unat (sz :: 32 word)"
  shows "\<not> word_of_int (int n) > sz - word_of_int (int len)"
proof -
  have "unat sz < 2 ^ LENGTH(32)" by (rule unsigned_less)
  then have lt: "len + n < 4294967296" using assms by simp
  then have "uint (word_of_int (int n) :: 32 word) = int n" "uint (word_of_int (int len) :: 32 word) = int len"
    by (simp_all add: uint_nat unat_of_nat)
  moreover have "int len + int n \<le> uint sz"
    using assms unfolding uint_nat by linarith
  ultimately have "uint (word_of_int (int n) :: 32 word) \<le> uint (sz - word_of_int (int len))"
    by (simp add: uint_sub_if')
  then show ?thesis by (simp add: word_less_def not_less)
qed

lemma length_packet: "length (packet h body) = 1 + length (enc_len (length body)) + length body"
  by (simp add: packet_def)

lemma readPacket_ideal:
  assumes net: "ideal_net P obs" and o: "obs w = (packet h body @ rest, s)" and n: "length body < 268435456"
    and fits: "length (packet h body) \<le> unat (readbuf_size c)" "unat (readbuf_size c) \<le> length (readbuf c)"
  shows "\<exists>t timer' w'. readPacket P c timer w = Some (uint (header_type h),
      c\<lparr>readbuf := packet h body @ drop (length (packet h body)) (readbuf c), last_received := t\<rparr>, timer', w') \<and>
    obs w' = (rest, s)"
proof -
  let ?l = "length (enc_len (length body))"
  let ?b = "packet h body @ drop (length (packet h body)) (readbuf c)"
  obtain n1 t1 w1 where l1: "TimerLeftMS P timer w = (n1, t1, w1)" "obs w1 = obs w"
    using ideal_netD(5) [OF net] by blast
  have "obs w1 = ([h] @ enc_len (length body) @ body @ rest, s)" using l1 o by (simp add: packet_def)
  from ideal_netD(1) [OF net this, of n1] obtain w2 where
    r1: "mqttread P w1 1 n1 = Some (1, [h], w2)" "obs w2 = (enc_len (length body) @ body @ rest, s)" by auto
  obtain n3 t3 w3 where l3: "TimerLeftMS P t1 w2 = (n3, t3, w3)" "obs w3 = (enc_len (length body) @ body @ rest, s)"
    using ideal_netD(5) [OF net, of t1 w2] r1 by metis
  obtain w4 where d: "decodePacket P n3 w3 = Some (int ?l, int (length body), w4)" "obs w4 = (body @ rest, s)"
    using decodePacket_ideal [OF net l3(2) n, of n3] by blast
  have b1: "blit (readbuf c) 0 [h] = Some ([h] @ drop (length [h]) (readbuf c))"
    using blit_over [of "[]" "[h]" "readbuf c"] fits by (simp add: length_packet)
  have e: "MQTTPacket_encode ([h] @ drop (length [h]) (readbuf c)) 1 (int (length body)) =
      Some (int ?l, (h # enc_len (length body)) @ drop (length (h # enc_len (length body))) (readbuf c))"
    using encode_over [of "[h]" "length body" "readbuf c"] fits by (simp add: length_packet)
  have ok: "\<not> word_of_int (int (length body)) > readbuf_size c - word_of_int (1 + int ?l)"
    using fits_unsigned [of "1 + ?l" "length body" "readbuf_size c"] fits by (simp add: length_packet)
  let ?c = "c\<lparr>readbuf := (h # enc_len (length body)) @ drop (length (h # enc_len (length body))) (readbuf c)\<rparr>"
  have "\<exists>t5 w5. readPacket_body P ?c (int (length body)) (1 + int ?l) t3 w4 = Some (False, c\<lparr>readbuf := ?b\<rparr>, t5, w5) \<and>
      obs w5 = (rest, s)"
  proof (cases "body = []")
    case True
    with d show ?thesis by (simp add: packet_def readPacket_body_def)
  next
    case False
    obtain n5 t5 w5 where l5: "TimerLeftMS P t3 w4 = (n5, t5, w5)" "obs w5 = (body @ rest, s)"
      using ideal_netD(5) [OF net, of t3 w4] d by metis
    obtain w6 where r6: "mqttread P w5 (int (length body)) n5 = Some (int (length body), body, w6)" "obs w6 = (rest, s)"
      using ideal_netD(1) [OF net l5(2) False] by blast
    have "nat (1 + int ?l) = length (h # enc_len (length body))" by simp
    then have "blit (readbuf ?c) (nat (1 + int ?l)) body = Some ?b"
      using blit_over [of "h # enc_len (length body)" body "readbuf c"] fits by (simp add: length_packet packet_def)
    with False l5 r6 show ?thesis by (simp add: readPacket_body_def)
  qed
  then obtain t5 w5 where b5: "readPacket_body P ?c (int (length body)) (1 + int ?l) t3 w4 = Some (False, c\<lparr>readbuf := ?b\<rparr>, t5, w5)"
    "obs w5 = (rest, s)" by blast
  have r: "readPacket P c timer w =
      (if keepAliveInterval c > 0 then
         let (t, w) = TimerCountdown P (last_received c) (keepAliveInterval c) w5
         in Some (uint (header_type h), c\<lparr>readbuf := ?b, last_received := t\<rparr>, t5, w)
       else Some (uint (header_type h), c\<lparr>readbuf := ?b\<rparr>, t5, w5))"
    using l1 r1 b1 l3 d e ok b5 by (simp add: readPacket_def)
  obtain t6 w6 where "TimerCountdown P (last_received c) (keepAliveInterval c) w5 = (t6, w6)" "obs w6 = (rest, s)"
    using ideal_netD(6) [OF net] b5 by metis
  with r b5 show ?thesis
    by (cases "keepAliveInterval c > 0") (auto intro: exI [of _ "last_received c"])
qed

section \<open>One round of the receive loop\<close>

lemma keepalive_ideal:
  assumes net: "ideal_net P obs"
  shows "\<exists>c' w'. keepalive P c w = Some (SUCCESS, c', w') \<and> core c' = core c \<and>
    readbuf c' = readbuf c \<and> obs w' = obs w"
proof (cases "keepAliveInterval c = 0")
  case True
  then show ?thesis by (auto simp: keepalive_def)
next
  case False
  obtain t1 w1 where e1: "TimerIsExpired P (last_sent c) w = (False, t1, w1)" "obs w1 = obs w"
    using ideal_netD(4) [OF net] by blast
  obtain t2 w2 where e2: "TimerIsExpired P (last_received c) w1 = (False, t2, w2)" "obs w2 = obs w"
    using ideal_netD(4) [OF net, of "last_received c" w1] e1 by metis
  from False e1 e2 show ?thesis by (simp add: keepalive_def Let_def)
qed

text \<open>The packet fits the receive buffer, and acknowledgements fit the send buffer.\<close>

definition packet_fits :: "'t MQTTClient \<Rightarrow> byte \<Rightarrow> byte list \<Rightarrow> bool" where
  "packet_fits c h body \<longleftrightarrow>
     length body < 268435456 \<and> length (packet h body) \<le> unat (readbuf_size c) \<and> 4 \<le> sint (buf_size c)"

lemma has_packet: "has (packet h body @ xs) 0 (packet h body)"
  by (rule has_prefix)

text \<open>The switch decides what happens; this is the round around it. \<open>R\<close> is what
  the switch establishes of the core, the receive buffer and the observed world.\<close>

lemma cycle_ideal:
  fixes P :: "('w, 't) platform"
  assumes net: "ideal_net P obs" and inv: "client_inv c" and o: "obs w = (packet h body @ rest, s)"
    and fits: "packet_fits c h body"
    and switch: "\<And>(c1 :: 't MQTTClient) timer1 w1. core c1 = core c \<Longrightarrow> has (readbuf c1) 0 (packet h body) \<Longrightarrow>
      obs w1 = (rest, s) \<Longrightarrow>
      \<exists>c2 timer2 w2. cycle_switch P c1 (uint (header_type h)) timer1 w1 = Some (False, SUCCESS, c2, timer2, w2) \<and>
        core c2 = core c1 \<and> readbuf c2 = readbuf c1 \<and> R (obs w2)"
  shows "\<exists>c' timer' w'. cycle P c timer w = Some (uint (header_type h), c', timer', w') \<and>
    core c' = core c \<and> has (readbuf c') 0 (packet h body) \<and> R (obs w')"
proof -
  have sz: "unat (readbuf_size c) \<le> length (readbuf c)" using inv by (simp add: client_inv_def)
  from readPacket_ideal [OF net o _ _ sz, where timer = timer] fits obtain t timer1 w1 where
    r: "readPacket P c timer w = Some (uint (header_type h),
        c\<lparr>readbuf := packet h body @ drop (length (packet h body)) (readbuf c), last_received := t\<rparr>, timer1, w1)"
    and w1: "obs w1 = (rest, s)" by (auto simp: packet_fits_def)
  let ?c1 = "c\<lparr>readbuf := packet h body @ drop (length (packet h body)) (readbuf c), last_received := t\<rparr>"
  have c1: "core ?c1 = core c" using fits sz by (simp add: core_bufs packet_fits_def)
  have h1: "has (readbuf ?c1) 0 (packet h body)" by (simp add: has_packet)
  from switch [OF c1 h1 w1, of timer1] obtain c2 timer2 w2 where
    s: "cycle_switch P ?c1 (uint (header_type h)) timer1 w1 = Some (False, SUCCESS, c2, timer2, w2)"
    and r2: "core c2 = core ?c1" "readbuf c2 = readbuf ?c1" "R (obs w2)" by blast
  obtain c3 w3 where k: "keepalive P c2 w2 = Some (SUCCESS, c3, w3)" "core c3 = core c2" "readbuf c3 = readbuf c2"
    "obs w3 = obs w2"
    using keepalive_ideal [OF net] by blast
  have "cycle P c timer w = Some (uint (header_type h), c3, timer2, w3)"
    by (simp add: cycle_def r s k(1))
  moreover have "core c3 = core c" using k(2) r2(1) c1 by (rule trans [OF trans])
  moreover have "has (readbuf c3) 0 (packet h body)" using k(3) r2(2) h1 by (rule ssubst [OF trans])
  moreover have "R (obs w3)" using r2(3) by (simp only: k(4))
  ultimately show ?thesis by blast
qed

text \<open>Packets that only have to be read.\<close>

lemma ptype_simps:
  "ptype CONNACK = 2" "ptype PUBLISH = 3" "ptype PUBACK = 4" "ptype PUBREC = 5" "ptype PUBREL = 6"
  "ptype PUBCOMP = 7" "ptype SUBACK = 9" "ptype UNSUBACK = 11" "ptype PINGRESP = 13"
  by (simp_all add: ptype_def)

lemma cycle_switch_quiet:
  "n \<in> {ptype CONNACK, ptype PUBACK, ptype SUBACK, ptype UNSUBACK, ptype PUBCOMP} \<Longrightarrow>
   cycle_switch P c n timer w = Some (False, SUCCESS, c, timer, w)"
  by (elim insertE emptyE) (simp_all add: cycle_switch_def ptype_simps)

text \<open>Sending an acknowledgement.\<close>

lemma sint_le: "sint (x :: 32 word) \<le> int (unat x)"
proof -
  have "0 \<le> uint x" by simp
  then have "- 2147483648 \<le> uint x" by linarith
  then have "sint x \<le> uint x" by (simp add: sint_uint signed_take_bit_int_less_eq_self_iff)
  then show ?thesis by simp
qed

lemma buf_room:
  assumes "client_inv c"
  shows "sint (buf_size c) \<le> int (length (c_buf c))"
proof -
  have "int (unat (buf_size c)) \<le> int (length (c_buf c))"
    using assms by (simp only: client_inv_def of_nat_le_iff)
  with sint_le [of "buf_size c"] show ?thesis by linarith
qed

lemma ack_reply:
  assumes net: "ideal_net P obs" and inv: "client_inv c" and o: "obs w = (i, sent, l)" and b: "4 \<le> sint (buf_size c)"
  shows "\<exists>c1 c' timer' w'. into_buf c (\<lambda>b n. MQTTSerialize_ack b n t 0 pid) = Some (4, c1) \<and>
    sendPacket P c1 4 timer w = Some (SUCCESS, c', timer', w') \<and> core c' = core c \<and> readbuf c' = readbuf c \<and>
    obs w' = (i, sent @ ack_wire t 0 pid, l)"
proof -
  have "sint (buf_size c) \<le> int (length (c_buf c))" by (rule buf_room [OF inv])
  then have s: "MQTTSerialize_ack (c_buf c) (sint (buf_size c)) t 0 pid = Some (4, ack_wire t 0 pid @ drop 4 (c_buf c))"
    and len: "4 \<le> length (c_buf c)" using b by (simp_all add: serialize_ack_eq)
  let ?c1 = "c\<lparr>c_buf := ack_wire t 0 pid @ drop 4 (c_buf c)\<rparr>"
  have "core ?c1 = core c" using len by (simp add: core_bufs)
  moreover from sendPacket_ideal [OF net o, of 4 ?c1 timer] obtain t' timer' w' where
    "sendPacket P ?c1 4 timer w = Some (SUCCESS, ?c1\<lparr>last_sent := t'\<rparr>, timer', w')"
    "obs w' = (i, sent @ ack_wire t 0 pid, l)" using len by (auto simp: INT_MAX_def)
  ultimately show ?thesis using s by (simp add: into_buf_def)
qed

end
