(* ===== verification/Client_Exchange.thy ===== *)
theory Client_Exchange
  imports Client_Wire
begin

text \<open>
  Whole exchanges with the server. \<open>incoming\<close> lists the packets a server may send
  to an established session; \<open>answer\<close> and \<open>deliveries\<close> say what the protocol has the
  client do with each. The lemmas show that a round of the receive loop does exactly
  that, and that a request waits through any sequence of such packets until the one
  it needs.
\<close>

section \<open>What the server sends\<close>

datatype incoming =
    Quiet byte "byte list"
  | Handshake bool "16 word"
  | Message byte int byte "16 word" "byte list" "byte list"

text \<open>\<open>Quiet h body\<close> is a packet that is only read, \<open>Handshake rel pid\<close> is PUBREL
  (if \<open>rel\<close>) or PUBREC, and \<open>Message dup qos retained pid topic payload\<close> is PUBLISH.\<close>

fun in_wire :: "incoming \<Rightarrow> byte list" where
  "in_wire (Quiet h body) = packet h body"
| "in_wire (Handshake rel pid) = ack_wire (if rel then msg_code PUBREL else msg_code PUBREC) 0 pid"
| "in_wire (Message dup qos retained pid topic payload) =
     publish_wire dup qos retained pid (cstring_topic topic) payload"

fun in_type :: "incoming \<Rightarrow> int" where
  "in_type (Quiet h body) = uint (header_type h)"
| "in_type (Handshake rel pid) = (if rel then ptype PUBREL else ptype PUBREC)"
| "in_type (Message dup qos retained pid topic payload) = ptype PUBLISH"

text \<open>The bytes the client answers with.\<close>

fun answer :: "incoming \<Rightarrow> byte list" where
  "answer (Quiet h body) = []"
| "answer (Handshake rel pid) = ack_wire (if rel then msg_code PUBCOMP else msg_code PUBREL) 0 pid"
| "answer (Message dup qos retained pid topic payload) =
     (if qos = 1 then ack_wire (msg_code PUBACK) 0 pid
      else if qos = 2 then ack_wire (msg_code PUBREC) 0 pid else [])"

text \<open>What a handler must be given, and the handlers that must run.\<close>

fun carries :: "incoming \<Rightarrow> MessageData \<Rightarrow> bool" where
  "carries (Message dup qos retained pid topic payload) md \<longleftrightarrow>
     mstr_bytes (md_topicName md) = topic \<and> msg_qos (md_message md) = qos \<and>
     msg_dup (md_message md) = dup AND 1 \<and> msg_retained (md_message md) = retained AND 1 \<and>
     (qos > 0 \<longrightarrow> msg_id (md_message md) = pid) \<and>
     msg_payloadlen (md_message md) = word_of_nat (length payload) \<and>
     take (length payload) (msg_payload (md_message md)) = payload"
| "carries _ md \<longleftrightarrow> False"

fun addressees :: "'t MQTTClient \<Rightarrow> incoming \<Rightarrow> nat list" where
  "addressees c (Message dup qos retained pid topic payload) = receivers c topic"
| "addressees c _ = []"

definition deliveries :: "'t MQTTClient \<Rightarrow> incoming \<Rightarrow> (nat \<times> MessageData) list \<Rightarrow> bool" where
  "deliveries c p l \<longleftrightarrow> map fst l = addressees c p \<and> (\<forall>md \<in> snd ` set l. carries p md)"

text \<open>A packet the client has room for.\<close>

fun in_ok :: "'t MQTTClient \<Rightarrow> incoming \<Rightarrow> bool" where
  "in_ok c (Quiet h body) \<longleftrightarrow> packet_fits c h body \<and>
     uint (header_type h) \<in> {ptype CONNACK, ptype PUBACK, ptype SUBACK, ptype UNSUBACK, ptype PUBCOMP}"
| "in_ok c (Handshake rel pid) \<longleftrightarrow> packet_fits c 0 (int16_wire (uint pid))"
| "in_ok c (Message dup qos retained pid topic payload) \<longleftrightarrow>
     0 \<le> qos \<and> qos \<le> 2 \<and> length topic < 65536 \<and>
     packet_fits c (publish_header dup qos retained) (publish_body qos pid (cstring_topic topic) payload)"

lemma in_ok_core: "core c' = core c \<Longrightarrow> in_ok c' p = in_ok c p"
  by (cases p) (simp_all add: packet_fits_def core_def)

lemma receivers_core: "core c' = core c \<Longrightarrow> receivers c' n = receivers c n"
  by (simp add: receivers_def hits_def core_def)

lemma filters_ok_core: "core c' = core c \<Longrightarrow> filters_ok c' = filters_ok c"
  by (simp add: filters_ok_def core_def)

lemma addressees_core: "core c' = core c \<Longrightarrow> addressees c' p = addressees c p"
  by (cases p) (auto intro: receivers_core)

section \<open>One packet\<close>

lemma header_ack_type: "header_type (ack_header (msg_code t) 0) = msg_code t"
  by (simp only: header_ack msg_code_and)

lemma enc_len_2: "enc_len 2 = [2]"
  by (simp add: enc_len_small)

lemma ack_packet: "ack_wire t d pid = packet (ack_header t d) (int16_wire (uint pid))"
  by (simp add: ack_wire_def packet_def enc_len_2)

lemma publish_packet:
  "publish_wire dup qos retained pid s payload = packet (publish_header dup qos retained) (publish_body qos pid s payload)"
  by (simp add: publish_wire_def packet_def Let_def)

lemma handshake_switch:
  assumes net: "ideal_net P obs" and inv: "client_inv c" and b: "4 \<le> sint (buf_size c)"
    and h: "has (readbuf c) 0 (in_wire (Handshake rel pid))" and o: "obs w = (i, sent, l)"
  shows "\<exists>c' timer' w'. cycle_switch P c (in_type (Handshake rel pid)) timer w = Some (False, SUCCESS, c', timer', w') \<and>
    core c' = core c \<and> readbuf c' = readbuf c \<and> obs w' = (i, sent @ answer (Handshake rel pid), l)"
proof -
  let ?t = "if rel then msg_code PUBREL else msg_code PUBREC"
  let ?r = "if rel then msg_code PUBCOMP else msg_code PUBREL"
  have d: "MQTTDeserialize_ack out (readbuf c) n =
      Some (1, \<lparr>ack_packettype = ?t AND 0x0F, ack_dup = 0 AND 1, ack_packetid = pid\<rparr>)" for out n
    using h by (intro deserialize_ack_has) simp
  obtain c1 c' timer' w' where
    "into_buf c (\<lambda>b n. MQTTSerialize_ack b n ?r 0 pid) = Some (4, c1)"
    "sendPacket P c1 4 timer w = Some (SUCCESS, c', timer', w')"
    and r: "core c' = core c" "readbuf c' = readbuf c" "obs w' = (i, sent @ ack_wire ?r 0 pid, l)"
    using ack_reply [OF net inv o b, of ?r pid timer] by blast
  then have "cycle_pubrec_pubrel P c (in_type (Handshake rel pid)) timer w = Some (False, SUCCESS, c', timer', w')"
    by (cases rel) (simp_all add: cycle_pubrec_pubrel_def d ptype_simps rc_defs)
  then have "cycle_switch P c (in_type (Handshake rel pid)) timer w = Some (False, SUCCESS, c', timer', w')"
    by (simp add: cycle_switch_def ptype_simps split: if_splits)
  with r show ?thesis by simp
qed

lemma run_handlers_obs:
  assumes "ideal_net P obs" and "obs w = (i, sent, l)"
  shows "obs (run_handlers P md fs w) = (i, sent, l @ map (\<lambda>f. (f, md)) fs)"
  using assms(2)
proof (induction fs arbitrary: w l)
  case (Cons f fs)
  have "obs (callback P f md w) = (i, sent, l @ [(f, md)])" using ideal_netD(3) [OF assms(1) Cons.prems] .
  from Cons.IH [OF this] show ?case by (simp add: run_handlers_def)
qed (simp add: run_handlers_def)

lemma message_switch:
  assumes net: "ideal_net P obs" and inv: "client_inv c" and filters: "filters_ok c"
    and h: "has (readbuf c) 0 (in_wire (Message dup qos retained pid topic payload))"
    and ok: "in_ok c (Message dup qos retained pid topic payload)" and o: "obs w = (i, sent, l)"
  shows "\<exists>c' timer' w' ds. cycle_switch P c (ptype PUBLISH) timer w = Some (False, SUCCESS, c', timer', w') \<and>
    core c' = core c \<and> readbuf c' = readbuf c \<and> deliveries c (Message dup qos retained pid topic payload) ds \<and>
    obs w' = (i, sent @ answer (Message dup qos retained pid topic payload), l @ ds)"
proof -
  let ?out = "(stack_pub P)\<lparr>pub_payloadlen := 0\<rparr>"
  let ?p = "Message dup qos retained pid topic payload"
  have st: "mstr_ok (cstring_topic topic)" "mstr_bytes (cstring_topic topic) = topic"
    using ok by (simp_all add: cstring_topic_def mstr_ok_def mstr_bytes_def MQTTString_initializer_def)
  have n: "length (publish_body qos pid (cstring_topic topic) payload) < 268435456" and q: "0 \<le> qos" "qos \<le> 3"
    and b: "4 \<le> sint (buf_size c)"
    using ok by (simp_all add: packet_fits_def)
  have "has (readbuf c) 0 (publish_wire dup qos retained pid (cstring_topic topic) payload)" using h by simp
  from deserialize_publish_has [OF this st(1) n q, of ?out "sint (readbuf_size c)"] obtain s p a m where
    d0: "MQTTDeserialize_publish ?out (readbuf c) (sint (readbuf_size c)) = Some (1,
        \<lparr>pub_dup = dup AND 1, pub_qos = qos, pub_retained = retained AND 1,
         pub_packetid = (if qos > 0 then pid else pub_packetid ?out), pub_topicName = s,
         pub_payload = drop p (readbuf c), pub_payloadlen = int (length payload)\<rparr>)"
    and s: "mstr_bytes s = topic" "s = read_string (readbuf c) a m" "a + m \<le> length (readbuf c)"
    and pl: "take (length payload) (drop p (readbuf c)) = payload"
    unfolding st(2) by (elim exE conjE) (rule that)
  have name: "name_ok s" using s by (simp add: name_ok_def read_string_def)
  obtain out where d: "MQTTDeserialize_publish ?out (readbuf c) (sint (readbuf_size c)) = Some (1, out)"
    and out: "pub_dup out = dup AND 1" "pub_qos out = qos" "pub_retained out = retained AND 1" "qos > 0 \<Longrightarrow> pub_packetid out = pid"
    "pub_topicName out = s" "pub_payload out = drop p (readbuf c)" "pub_payloadlen out = int (length payload)"
    using d0 by (rule that) simp_all
  define msg where "msg = message_of out"
  let ?w1 = "run_handlers P (NewMessageData s msg) (receivers c topic) w"
  let ?ds = "map (\<lambda>f. (f, NewMessageData s msg)) (receivers c topic)"
  have dl: "deliverMessage P c s msg w = Some (if receivers c topic = [] then FAILURE else SUCCESS, ?w1)"
    using deliverMessage_eq [OF name filters, of P msg w] inv s(1) by (simp add: client_inv_def)
  have w1: "obs ?w1 = (i, sent, l @ ?ds)" by (rule run_handlers_obs [OF net o])
  have ds: "deliveries c ?p ?ds"
    using s(1) pl by (auto simp: deliveries_def msg_def message_of_def out NewMessageData_def comp_def)
  have sw: "cycle_switch P c (ptype PUBLISH) timer w = cycle_publish P c timer w"
    by (simp add: cycle_switch_def ptype_simps)
  have mq: "msg_qos msg = qos" "qos > 0 \<Longrightarrow> msg_id msg = pid" by (simp_all add: msg_def message_of_def out)
  show ?thesis
  proof (cases "qos = 0")
    case True
    then have "cycle_publish P c timer w = Some (False, SUCCESS, c, timer, ?w1)"
      using d dl mq by (simp add: cycle_publish_def msg_def [symmetric] Let_def out)
    with True sw w1 ds show ?thesis by auto
  next
    case False
    let ?t = "if qos = 1 then msg_code PUBACK else msg_code PUBREC"
    have q12: "qos = 1 \<or> qos = 2" using ok False by auto
    obtain c1 c' timer' w' where a: "into_buf c (\<lambda>b n. MQTTSerialize_ack b n ?t 0 pid) = Some (4, c1)"
      "sendPacket P c1 4 timer ?w1 = Some (SUCCESS, c', timer', w')"
      and r: "core c' = core c" "readbuf c' = readbuf c" "obs w' = (i, sent @ ack_wire ?t 0 pid, l @ ?ds)"
      using ack_reply [OF net inv w1 b, of ?t pid timer] by blast
    have "cycle_publish P c timer w = Some (False, SUCCESS, c', timer', w')"
      using q12 d dl mq a by (auto simp: cycle_publish_def msg_def [symmetric] Let_def rc_defs out)
    with q12 sw r ds show ?thesis by auto
  qed
qed

text \<open>A round of the receive loop over one packet.\<close>

lemma incoming_round:
  fixes P :: "('w, 't) platform"
  assumes net: "ideal_net P obs" and inv: "client_inv c" and filters: "filters_ok c" and ok: "in_ok c p"
    and o: "obs w = (in_wire p @ rest, sent, l)"
  shows "\<exists>c' timer' w' ds. cycle P c timer w = Some (in_type p, c', timer', w') \<and>
    core c' = core c \<and> has (readbuf c') 0 (in_wire p) \<and> deliveries c p ds \<and>
    obs w' = (rest, sent @ answer p, l @ ds)"
proof -
  let ?R = "\<lambda>s. \<exists>ds. deliveries c p ds \<and> s = (rest, sent @ answer p, l @ ds)"
  have round: ?thesis
    if pk: "in_wire p = packet h body" "uint (header_type h) = in_type p" "packet_fits c h body"
    and sw: "\<And>(c1 :: 't MQTTClient) timer1 w1. core c1 = core c \<Longrightarrow> has (readbuf c1) 0 (in_wire p) \<Longrightarrow> obs w1 = (rest, sent, l) \<Longrightarrow>
      \<exists>c2 timer2 w2. cycle_switch P c1 (in_type p) timer1 w1 = Some (False, SUCCESS, c2, timer2, w2) \<and>
        core c2 = core c1 \<and> readbuf c2 = readbuf c1 \<and> ?R (obs w2)" for h body
  proof -
    have "\<exists>c' timer' w'. cycle P c timer w = Some (uint (header_type h), c', timer', w') \<and>
      core c' = core c \<and> has (readbuf c') 0 (packet h body) \<and> ?R (obs w')"
      by (rule cycle_ideal [OF net inv o [unfolded pk(1)] pk(3)]) (unfold pk(2), rule sw, unfold pk(1))
    then show ?thesis unfolding pk(1,2) by blast
  qed
  show ?thesis
  proof (cases p)
    case (Quiet h body)
    show ?thesis
    proof (rule round [of h body])
      show "\<exists>c2 timer2 w2. cycle_switch P c1 (in_type p) timer1 w1 = Some (False, SUCCESS, c2, timer2, w2) \<and>
          core c2 = core c1 \<and> readbuf c2 = readbuf c1 \<and> ?R (obs w2)"
        if "obs w1 = (rest, sent, l)" for c1 :: "'t MQTTClient" and timer1 w1
        using that ok Quiet cycle_switch_quiet [of "in_type p" P c1 timer1 w1] by (auto simp: deliveries_def)
    qed (use ok Quiet in auto)
  next
    case (Handshake rel pid)
    let ?t = "if rel then msg_code PUBREL else msg_code PUBREC"
    show ?thesis
    proof (rule round [of "ack_header ?t 0" "int16_wire (uint pid)"])
      show "uint (header_type (ack_header ?t 0)) = in_type p"
        unfolding Handshake by (cases rel) (simp_all only: if_True if_False header_ack_type in_type.simps ptype_def)
      show "packet_fits c (ack_header ?t 0) (int16_wire (uint pid))"
        using ok by (simp add: Handshake packet_fits_def packet_def)
      show "\<exists>c2 timer2 w2. cycle_switch P c1 (in_type p) timer1 w1 = Some (False, SUCCESS, c2, timer2, w2) \<and>
          core c2 = core c1 \<and> readbuf c2 = readbuf c1 \<and> ?R (obs w2)"
        if c1: "core c1 = core c" "has (readbuf c1) 0 (in_wire p)" "obs w1 = (rest, sent, l)"
        for c1 :: "'t MQTTClient" and timer1 w1
      proof -
        have "client_inv c1" "4 \<le> sint (buf_size c1)"
          using inv ok inv_core [OF c1(1)] coreD(3) [OF c1(1)] by (simp_all add: Handshake packet_fits_def)
        from handshake_switch [OF net this c1(2) [unfolded Handshake] c1(3), of timer1] show ?thesis
          by (auto simp: Handshake deliveries_def)
      qed
    qed (simp add: Handshake ack_packet)
  next
    case (Message dup qos retained pid topic payload)
    show ?thesis
    proof (rule round [of "publish_header dup qos retained" "publish_body qos pid (cstring_topic topic) payload"])
      show "uint (header_type (publish_header dup qos retained)) = in_type p"
        by (simp add: Message ptype_def)
      show "\<exists>c2 timer2 w2. cycle_switch P c1 (in_type p) timer1 w1 = Some (False, SUCCESS, c2, timer2, w2) \<and>
          core c2 = core c1 \<and> readbuf c2 = readbuf c1 \<and> ?R (obs w2)"
        if c1: "core c1 = core c" "has (readbuf c1) 0 (in_wire p)" "obs w1 = (rest, sent, l)"
        for c1 :: "'t MQTTClient" and timer1 w1
      proof -
        have i: "client_inv c1" "filters_ok c1" "in_ok c1 p"
          using inv filters ok inv_core [OF c1(1)] filters_ok_core [OF c1(1)] in_ok_core [OF c1(1)] by simp_all
        from message_switch [OF net i(1,2) c1(2) [unfolded Message] i(3) [unfolded Message] c1(3), of timer1]
        show ?thesis
          using addressees_core [OF c1(1), of p] unfolding Message deliveries_def by auto
      qed
    qed (use ok in \<open>simp_all add: Message publish_packet\<close>)
  qed
qed

section \<open>Waiting for an answer\<close>

definition answers :: "incoming list \<Rightarrow> byte list" where
  "answers ps = concat (map answer ps)"

definition wire :: "incoming list \<Rightarrow> byte list" where
  "wire ps = concat (map in_wire ps)"

text \<open>The handler calls for a sequence of packets, in order.\<close>

fun all_deliveries :: "'t MQTTClient \<Rightarrow> incoming list \<Rightarrow> (nat \<times> MessageData) list \<Rightarrow> bool" where
  "all_deliveries c [] l \<longleftrightarrow> l = []"
| "all_deliveries c (p # ps) l \<longleftrightarrow>
     deliveries c p (take (length (addressees c p)) l) \<and> all_deliveries c ps (drop (length (addressees c p)) l)"

lemma wire_simps' [simp]: "wire [] = []" "wire (p # ps) = in_wire p @ wire ps" "answers [] = []" "answers (p # ps) = answer p @ answers ps"
  "wire (ps @ qs) = wire ps @ wire qs" "answers (ps @ qs) = answers ps @ answers qs"
  by (simp_all add: wire_def answers_def)

lemma deliveries_length: "deliveries c p l \<Longrightarrow> length l = length (addressees c p)"
  unfolding deliveries_def by (metis length_map)

lemma deliveries_core: "core c' = core c \<Longrightarrow> deliveries c' p l = deliveries c p l"
  using addressees_core [of c' c p] by (simp add: deliveries_def)

lemma all_deliveries_core: "core c' = core c \<Longrightarrow> all_deliveries c' ps l = all_deliveries c ps l"
  using addressees_core [of c' c] deliveries_core [of c' c] by (induction ps arbitrary: l) simp_all

lemma all_deliveries_Cons:
  "deliveries c p l \<Longrightarrow> all_deliveries c ps l' \<Longrightarrow> all_deliveries c (p # ps) (l @ l')"
  by (simp add: deliveries_length)

definition script_ok :: "'t MQTTClient \<Rightarrow> incoming list \<Rightarrow> bool" where
  "script_ok c ps \<longleftrightarrow> list_all (in_ok c) ps \<and> filters_ok c"

lemma script_ok_core: "core c' = core c \<Longrightarrow> script_ok c' ps = script_ok c ps"
  using in_ok_core [of c' c] filters_ok_core [of c' c] by (simp add: script_ok_def list_all_iff)

lemma in_type_nonneg: "0 \<le> in_type p"
  by (cases p) (simp_all add: ptype_def)

lemma waitfor_loop_script:
  fixes P :: "('w, 't) platform"
  assumes net: "ideal_net P obs" and "client_inv c" and "script_ok c (ps @ [p])"
    and "t \<notin> in_type ` set ps" and "in_type p = t"
    and "obs w = (wire (ps @ [p]) @ rest, sent, l)"
  shows "\<exists>c' timer' w' ds. waitfor_loop P c t rc timer w = Some (t, c', timer', w') \<and>
    core c' = core c \<and> has (readbuf c') 0 (in_wire p) \<and> all_deliveries c (ps @ [p]) ds \<and>
    obs w' = (rest, sent @ answers (ps @ [p]), l @ ds)"
  using assms(2-)
proof (induction ps arbitrary: c timer w rc sent l)
  case Nil
  obtain timer1 w1 where e: "TimerIsExpired P timer w = (False, timer1, w1)" "obs w1 = obs w"
    using ideal_netD(4) [OF net] by blast
  have "filters_ok c" "in_ok c p" "obs w1 = (in_wire p @ rest, sent, l)"
    using Nil.prems e(2) by (simp_all add: script_ok_def)
  from incoming_round [OF net Nil.prems(1) this, of timer1] obtain c' timer' w' ds where
    "cycle P c timer1 w1 = Some (in_type p, c', timer', w')" "core c' = core c" "has (readbuf c') 0 (in_wire p)"
    "deliveries c p ds" "obs w' = (rest, sent @ answer p, l @ ds)" by blast
  with e Nil.prems(4) show ?case by (subst waitfor_loop.simps) (auto simp: deliveries_length)
next
  case (Cons q ps)
  obtain timer1 w1 where e: "TimerIsExpired P timer w = (False, timer1, w1)" "obs w1 = obs w"
    using ideal_netD(4) [OF net] by blast
  have q: "filters_ok c" "in_ok c q" "obs w1 = (in_wire q @ wire (ps @ [p]) @ rest, sent, l)"
    using Cons.prems e(2) by (simp_all add: script_ok_def)
  from incoming_round [OF net Cons.prems(1) q, of timer1] obtain c1 timer2 w2 ds where
    c1: "cycle P c timer1 w1 = Some (in_type q, c1, timer2, w2)" "core c1 = core c" "deliveries c q ds"
    "obs w2 = (wire (ps @ [p]) @ rest, sent @ answer q, l @ ds)" by blast
  have "script_ok c (ps @ [p])" using Cons.prems(2) by (simp add: script_ok_def)
  then have "script_ok c1 (ps @ [p])" by (simp only: script_ok_core [OF c1(2)])
  moreover have "client_inv c1" using Cons.prems(1) inv_core [OF c1(2)] by simp
  ultimately obtain c' timer' w' ds' where
    r: "waitfor_loop P c1 t (in_type q) timer2 w2 = Some (t, c', timer', w')" "core c' = core c1"
    "has (readbuf c') 0 (in_wire p)" "all_deliveries c1 (ps @ [p]) ds'"
    "obs w' = (rest, (sent @ answer q) @ answers (ps @ [p]), (l @ ds) @ ds')"
    using Cons.IH [of c1 w2 "sent @ answer q" "l @ ds" "in_type q" timer2] Cons.prems(3,4) c1(4) by auto
  have "waitfor_loop P c t rc timer w = Some (t, c', timer', w')"
    using e c1(1) r(1) Cons.prems(3) in_type_nonneg [of q] by (subst waitfor_loop.simps) auto
  moreover have "all_deliveries c ((q # ps) @ [p]) (ds @ ds')"
    using all_deliveries_Cons [OF c1(3)] r(4) all_deliveries_core [OF c1(2)] by simp
  ultimately show ?case using r c1(2) by auto
qed

lemma send_request_ideal:
  assumes net: "ideal_net P obs" and o: "obs w = (i, sent, l)"
    and f: "f (c_buf c) (sint (buf_size c)) = Some (int (length pkt), pkt @ drop (length pkt) (c_buf c))"
    and len: "pkt \<noteq> []" "length pkt \<le> length (c_buf c)" "int (length pkt) \<le> INT_MAX"
  shows "\<exists>c' timer' w'. send_request P c f timer w = Some (SUCCESS, c', timer', w') \<and> core c' = core c \<and>
    obs w' = (i, sent @ pkt, l)"
proof -
  let ?c = "c\<lparr>c_buf := pkt @ drop (length pkt) (c_buf c)\<rparr>"
  have "core ?c = core c" using len(2) by (simp add: core_bufs)
  moreover from sendPacket_ideal [OF net o, of "int (length pkt)" ?c timer] obtain t timer' w' where
    "sendPacket P ?c (int (length pkt)) timer w = Some (SUCCESS, ?c\<lparr>last_sent := t\<rparr>, timer', w')"
    "obs w' = (i, sent @ pkt, l)" using len by auto
  ultimately show ?thesis using f len(1) by (auto simp: send_request_def into_buf_def)
qed

section \<open>Requests\<close>

text \<open>A request with a body of \<open>n\<close> bytes fits the send buffer.\<close>

definition request_fits :: "'t MQTTClient \<Rightarrow> nat \<Rightarrow> bool" where
  "request_fits c n \<longleftrightarrow> n < 268435456 \<and>
     (case MQTTPacket_len (int n) of None \<Rightarrow> False | Some sz \<Rightarrow> sz \<le> sint (buf_size c))"

lemma length_enc_len_le: "n < 268435456 \<Longrightarrow> length (enc_len n) \<le> 4"
  by (simp add: length_enc_len)

lemma request_fits_wire:
  assumes "request_fits c (length body)" and "client_inv c"
  obtains sz where "MQTTPacket_len (int (length body)) = Some sz" "sz \<le> sint (buf_size c)"
    "length (packet h body) \<le> length (c_buf c)" "int (length (packet h body)) \<le> INT_MAX"
proof -
  from assms(1) obtain sz where sz: "MQTTPacket_len (int (length body)) = Some sz" "sz \<le> sint (buf_size c)"
    and n: "length body < 268435456" by (auto simp: request_fits_def split: option.splits)
  have "sz \<le> int (length (c_buf c))" using sz(2) buf_room [OF assms(2)] by linarith
  from packet_len_fits [OF sz(1) n this] sz length_enc_len_le [of "length body"] n show ?thesis
    by (intro that) (simp_all add: length_packet INT_MAX_def)
qed

lemma send_publish_ideal:
  assumes net: "ideal_net P obs" and inv: "client_inv c" and o: "obs w = (i, sent, l)"
    and ok: "mstr_ok s" and fits: "request_fits c (length (publish_body qos pid s payload))"
  shows "\<exists>c' timer' w'. send_request P c (\<lambda>b n. MQTTSerialize_publish b n dup qos ret pid s payload (int (length payload))) timer w =
      Some (SUCCESS, c', timer', w') \<and> core c' = core c \<and> obs w' = (i, sent @ publish_wire dup qos ret pid s payload, l)"
proof -
  from request_fits_wire [OF fits inv, of "publish_header dup qos ret"] obtain sz where
    sz: "MQTTPacket_len (int (length (publish_body qos pid s payload))) = Some sz" "sz \<le> sint (buf_size c)"
    and n: "length (publish_wire dup qos ret pid s payload) \<le> length (c_buf c)"
      "int (length (publish_wire dup qos ret pid s payload)) \<le> INT_MAX"
    unfolding publish_packet by blast
  have lt: "length (publish_body qos pid s payload) < 268435456" using fits by (simp add: request_fits_def)
  have "MQTTSerialize_publish (c_buf c) (sint (buf_size c)) dup qos ret pid s payload (int (length payload)) =
      Some (int (length (publish_wire dup qos ret pid s payload)), publish_wire dup qos ret pid s payload @
        drop (length (publish_wire dup qos ret pid s payload)) (c_buf c))"
    using serialize_publish_emit [OF ok lt sz(1), of "c_buf c" "sint (buf_size c)" dup ret] sz(2) n(1) by (simp add: emit_fits)
  from send_request_ideal [where f = "\<lambda>b n. MQTTSerialize_publish b n dup qos ret pid s payload (int (length payload))", OF net o this _ n]
  show ?thesis by (simp add: publish_packet packet_def)
qed

text \<open>Waiting for the last packet of a script, which is an acknowledgement.\<close>

abbreviation ack_in :: "msgTypes \<Rightarrow> 16 word \<Rightarrow> incoming" where
  "ack_in t pid \<equiv> Quiet (ack_header (msg_code t) 0) (int16_wire (uint pid))"

lemma ack_in_simps: "in_type (ack_in t pid) = ptype t" "in_wire (ack_in t pid) = ack_wire (msg_code t) 0 pid"
  by (simp_all only: in_type.simps in_wire.simps header_ack_type ptype_def ack_packet)

lemma await_ack_script:
  assumes net: "ideal_net P obs" and inv: "client_inv c" and ps: "script_ok c (ps @ [ack_in t pid])"
    and t: "ptype t \<notin> in_type ` set ps" and o: "obs w = (wire (ps @ [ack_in t pid]) @ rest, sent, l)"
  shows "\<exists>c' w' ds. await_ack P c t timer w = Some (SUCCESS, c', w') \<and> core c' = core c \<and>
    all_deliveries c (ps @ [ack_in t pid]) ds \<and> obs w' = (rest, sent @ answers ps, l @ ds)"
proof -
  obtain c' timer' w' ds where w: "waitfor_loop P c (ptype t) FAILURE timer w = Some (ptype t, c', timer', w')"
    and c': "core c' = core c" "has (readbuf c') 0 (in_wire (ack_in t pid))" "all_deliveries c (ps @ [ack_in t pid]) ds"
    "obs w' = (rest, sent @ answers (ps @ [ack_in t pid]), l @ ds)"
    using waitfor_loop_script [OF net inv ps t ack_in_simps(1) o] by blast
  have "has (readbuf c') 0 (ack_wire (msg_code t) 0 pid)" using c'(2) by (simp only: ack_in_simps)
  note d = deserialize_ack_has [OF this, of "stack_ack P" "sint (readbuf_size c')"]
  have "await_ack P c t timer w = Some (SUCCESS, c', w')"
    by (simp add: await_ack_def waitfor_def w d)
  with c' show ?thesis by auto
qed

lemma with_packetid:
  "getNextPacketId c = (pid, c1) \<Longrightarrow> client_inv c \<Longrightarrow> client_inv c1"
  "getNextPacketId c = (pid, c1) \<Longrightarrow> script_ok c1 ps = script_ok c ps"
  "getNextPacketId c = (pid, c1) \<Longrightarrow> request_fits c1 n = request_fits c n"
  "getNextPacketId c = (pid, c1) \<Longrightarrow> all_deliveries c1 ps ds = all_deliveries c ps ds"
  "getNextPacketId c = (pid, c1) \<Longrightarrow> isconnected c1 = isconnected c"
proof -
  assume g: "getNextPacketId c = (pid, c1)"
  then obtain i where c1: "c1 = c\<lparr>next_packetid := i\<rparr>" by (auto simp: getNextPacketId_def Let_def)
  show "client_inv c \<Longrightarrow> client_inv c1" using tame_packetid [OF g] by (simp add: tame_def)
  have "in_ok c1 p = in_ok c p" for p by (cases p) (simp_all add: c1 packet_fits_def)
  then show "script_ok c1 ps = script_ok c ps" by (simp add: script_ok_def list_all_iff filters_ok_def c1)
  show "request_fits c1 n = request_fits c n" by (simp add: c1 request_fits_def cong: option.case_cong)
  have a: "addressees c1 p = addressees c p" for p by (cases p) (simp_all add: c1 receivers_def hits_def)
  then have d: "deliveries c1 p l = deliveries c p l" for p l by (simp add: deliveries_def)
  show "all_deliveries c1 ps ds = all_deliveries c ps ds"
    by (induction ps arbitrary: ds) (simp_all add: a d)
  show "isconnected c1 = isconnected c" by (simp add: c1)
qed

section \<open>Publishing\<close>

text \<open>The packets after which \<open>MQTTPublish\<close> returns: any sequence, then the
  acknowledgement the quality of service asks for.\<close>

definition publish_final :: "int \<Rightarrow> msgTypes" where
  "publish_final qos = (if qos = 1 then PUBACK else PUBCOMP)"

definition publish_script :: "int \<Rightarrow> incoming list \<Rightarrow> 16 word \<Rightarrow> incoming list" where
  "publish_script qos ps pid = (if qos = 0 then [] else ps @ [ack_in (publish_final qos) pid])"

definition publish_ok :: "'t MQTTClient \<Rightarrow> byte list \<Rightarrow> MQTTMessage \<Rightarrow> bool" where
  "publish_ok c topic msg \<longleftrightarrow>
     length topic < 65536 \<and> 0 \<le> msg_qos msg \<and> msg_qos msg \<le> 2 \<and>
     sint (msg_payloadlen msg) = int (length (msg_payload msg)) \<and>
     request_fits c (length (publish_body (msg_qos msg) 0 (cstring_topic topic) (msg_payload msg)))"

lemma publish_locked_script:
  fixes P :: "('w, 't) platform"
  assumes net: "ideal_net P obs" and inv: "client_inv c" and conn: "isconnected c" and ok: "publish_ok c topic msg"
    and script: "script_ok c (publish_script (msg_qos msg) ps pid)"
    and final: "ptype (publish_final (msg_qos msg)) \<notin> in_type ` set ps"
    and o: "obs w = (wire (publish_script (msg_qos msg) ps pid) @ rest, sent, l)"
  shows "\<exists>msg' c' w' ds. publish_locked P c topic msg w = Some (SUCCESS, msg', c', w') \<and> isconnected c' \<and>
    msg' = (if msg_qos msg = 0 then msg else msg\<lparr>msg_id := fst (getNextPacketId c)\<rparr>) \<and>
    all_deliveries c (publish_script (msg_qos msg) ps pid) ds \<and>
    obs w' = (rest, sent @ publish_wire 0 (msg_qos msg) (msg_retained msg) (msg_id msg') (cstring_topic topic) (msg_payload msg) @
      answers (publish_script (msg_qos msg) ps pid), l @ ds)"
proof -
  obtain timer w1 where t: "TimerCountdownMS P (TimerInit P) (command_timeout_ms c) w = (timer, w1)" "obs w1 = obs w"
    using ideal_netD(7) [OF net] by blast
  have q: "msg_qos msg = 0 \<or> msg_qos msg = 1 \<or> msg_qos msg = 2" using ok by (auto simp: publish_ok_def)
  obtain pid1 c1 where g: "getNextPacketId c = (pid1, c1)" by fastforce
  define c2 where "c2 = (if msg_qos msg = 0 then c else c1)"
  define msg' where "msg' = (if msg_qos msg = 0 then msg else msg\<lparr>msg_id := pid1\<rparr>)"
  have c2: "client_inv c2" "script_ok c2 ps' = script_ok c ps'" "request_fits c2 n = request_fits c n"
    "all_deliveries c2 ps' ds = all_deliveries c ps' ds" "isconnected c2" for ps' n ds
    using with_packetid [OF g] inv conn by (simp_all add: c2_def)
  have m: "msg_qos msg' = msg_qos msg" "msg_retained msg' = msg_retained msg" "msg_payload msg' = msg_payload msg"
    "sint (msg_payloadlen msg') = int (length (msg_payload msg))"
    using ok by (simp_all add: msg'_def publish_ok_def)
  have st: "mstr_ok (cstring_topic topic)"
    using ok by (simp add: publish_ok_def cstring_topic_def mstr_ok_def mstr_bytes_def MQTTString_initializer_def)
  have fits: "request_fits c2 (length (publish_body (msg_qos msg) (msg_id msg') (cstring_topic topic) (msg_payload msg)))"
    using ok c2(3) by (simp add: publish_ok_def length_publish_body)
  let ?w = "publish_wire 0 (msg_qos msg) (msg_retained msg) (msg_id msg') (cstring_topic topic) (msg_payload msg)"
  obtain c3 timer3 w3 where s: "send_request P c2 (\<lambda>b n. MQTTSerialize_publish b n 0 (msg_qos msg) (msg_retained msg) (msg_id msg')
        (cstring_topic topic) (msg_payload msg) (int (length (msg_payload msg)))) timer w1 = Some (SUCCESS, c3, timer3, w3)"
    and c3: "core c3 = core c2" "obs w3 = (wire (publish_script (msg_qos msg) ps pid) @ rest, sent @ ?w, l)"
    using send_publish_ideal [OF net c2(1) _ st fits, of w1] t(2) o by metis
  have run: "publish_locked P c topic msg w = do {
      (rc, c, w) \<leftarrow> (if msg_qos msg = 1 then await_ack P c3 PUBACK timer3 w3
                     else if msg_qos msg = 2 then await_ack P c3 PUBCOMP timer3 w3
                     else Some (SUCCESS, c3, w3));
      Some (rc, msg', c, w) }"
    using conn q t(1) g s m by (auto simp: publish_locked_def c2_def msg'_def)
  show ?thesis
  proof (cases "msg_qos msg = 0")
    case True
    then have "publish_locked P c topic msg w = Some (SUCCESS, msg', c3, w3)" by (simp add: run)
    with True c3 c2(5) coreD(11) [OF c3(1)] show ?thesis by (simp add: msg'_def publish_script_def)
  next
    case False
    let ?t = "publish_final (msg_qos msg)"
    have i3: "client_inv c3" using inv_core [OF c3(1)] c2(1) by simp
    have "script_ok c3 (ps @ [ack_in ?t pid])"
      using script False c2(2) script_ok_core [OF c3(1)] by (simp only: publish_script_def if_False)
    from await_ack_script [OF net i3 this final, of w3 rest "sent @ ?w" l timer3] c3(2) False
    obtain c' w' ds where a: "await_ack P c3 ?t timer3 w3 = Some (SUCCESS, c', w')" "core c' = core c3"
      "all_deliveries c3 (ps @ [ack_in ?t pid]) ds" "obs w' = (rest, (sent @ ?w) @ answers ps, l @ ds)"
      by (auto simp: publish_script_def)
    have "publish_locked P c topic msg w = Some (SUCCESS, msg', c', w')"
      using a(1) False q by (auto simp: run publish_final_def)
    moreover have "isconnected c'" using coreD(11) [OF a(2)] coreD(11) [OF c3(1)] c2(5) by simp
    moreover have "all_deliveries c (ps @ [ack_in ?t pid]) ds"
      using a(3) all_deliveries_core [OF c3(1)] c2(4) by simp
    ultimately show ?thesis using False a(4) g by (simp add: msg'_def publish_script_def)
  qed
qed

section \<open>An instance of the ideal network\<close>

lemma patient_ideal: "ideal_net patient_platform bench_obs"
  unfolding ideal_net_def
proof (intro conjI allI impI)
  fix w xs ys s t
  assume o: "bench_obs w = (xs @ ys, s)" and "xs \<noteq> []"
  have "mqttread patient_platform w (int (length xs)) t = Some (int (length xs), xs, w\<lparr>b_in := ys\<rparr>)"
    using o by (auto simp: patient_platform_def bench_platform_def bench_read_def bench_obs_def)
  moreover have "bench_obs (w\<lparr>b_in := ys\<rparr>) = (ys, s)" using o by (auto simp: bench_obs_def)
  ultimately show "\<exists>w'. mqttread patient_platform w (int (length xs)) t = Some (int (length xs), xs, w') \<and> bench_obs w' = (ys, s)"
    by blast
qed (auto simp: patient_platform_def bench_platform_def bench_write_def bench_lock_def bench_obs_def)

definition bench_online :: "nat MQTTClient" where
  "bench_online = (snd (MQTTSetMessageHandler bench_client [0x61] (Some 7)))\<lparr>isconnected := True\<rparr>"

lemma bench_online_facts:
  "client_inv bench_online" "isconnected bench_online" "sint (buf_size bench_online) = 30"
  "unat (readbuf_size bench_online) = 30" "filters_ok bench_online"
proof -
  have "messageHandlers bench_online = \<lparr>topicFilter = Some [0x61], fp = Some 7\<rparr> # replicate 4 \<lparr>topicFilter = None, fp = None\<rparr>"
    by code_simp
  moreover have "filter_ok [0x61]" by (simp add: filter_ok_def levels.simps literal_def)
  ultimately show "filters_ok bench_online" by (simp add: filters_ok_def cstring_ok_def)
qed code_simp+

text \<open>
  C1: publishing on an open session succeeds once the server's
  acknowledgement for the quality of service has come (PUBACK for QoS 1, PUBCOMP for
  QoS 2), whatever other packets come before it: the bytes sent are exactly the
  PUBLISH packet and the protocol's answers to those packets, in order, and every
  incoming message reaches exactly the handlers it is for. QoS 0 waits for nothing.
  The packet identifier of the acknowledgement is never compared with that of the
  publication.
\<close>

theorem publish_exchange:
  fixes P :: "('w, 't) platform"
  assumes "ideal_net P obs" and "client_inv c" and "isconnected c" and "publish_ok c topic msg"
    and "script_ok c (publish_script (msg_qos msg) ps pid)"
    and "ptype (publish_final (msg_qos msg)) \<notin> in_type ` set ps"
    and "obs w = (wire (publish_script (msg_qos msg) ps pid) @ rest, sent, l)"
  shows "\<exists>msg' c' w' ds. MQTTPublish P c topic msg w = Some (SUCCESS, msg', c', w') \<and> isconnected c' \<and>
    msg' = (if msg_qos msg = 0 then msg else msg\<lparr>msg_id := fst (getNextPacketId c)\<rparr>) \<and>
    all_deliveries c (publish_script (msg_qos msg) ps pid) ds \<and>
    obs w' = (rest, sent @ publish_wire 0 (msg_qos msg) (msg_retained msg) (msg_id msg') (cstring_topic topic) (msg_payload msg) @
      answers (publish_script (msg_qos msg) ps pid), l @ ds)"
proof -
  obtain w1 where m: "MutexLock P w = Some w1" "obs w1 = obs w" using ideal_netD(8) [OF assms(1)] by blast
  from publish_locked_script [OF assms(1-6), of w1 rest sent l] m(2) assms(7)
  obtain msg' c' w' ds where "publish_locked P c topic msg w1 = Some (SUCCESS, msg', c', w')" and r: "isconnected c'"
    "msg' = (if msg_qos msg = 0 then msg else msg\<lparr>msg_id := fst (getNextPacketId c)\<rparr>)"
    "all_deliveries c (publish_script (msg_qos msg) ps pid) ds"
    "obs w' = (rest, sent @ publish_wire 0 (msg_qos msg) (msg_retained msg) (msg_id msg') (cstring_topic topic) (msg_payload msg) @
      answers (publish_script (msg_qos msg) ps pid), l @ ds)" by auto
  then have "MQTTPublish P c topic msg w = Some (SUCCESS, msg', c', MutexUnlock P w')"
    using m(1) by (simp add: MQTTPublish_def close_on_failure_def rc_defs)
  with r ideal_netD(9) [OF assms(1), of w'] show ?thesis by auto
qed

theorem publish_exchange_witness:
  "\<exists>msg' c' w' ds. MQTTPublish patient_platform bench_online [0x62] (bench_message\<lparr>msg_qos := 2\<rparr>)
      (bench_world (wire (publish_script (msg_qos (bench_message\<lparr>msg_qos := 2\<rparr>))
         [Message 0 1 0 9 [0x61] [5], Handshake False 2] 2) @ [1])) = Some (SUCCESS, msg', c', w') \<and> isconnected c' \<and>
    msg' = (if msg_qos (bench_message\<lparr>msg_qos := 2\<rparr>) = 0 then bench_message\<lparr>msg_qos := 2\<rparr>
            else bench_message\<lparr>msg_qos := 2\<rparr>\<lparr>msg_id := fst (getNextPacketId bench_online)\<rparr>) \<and>
    all_deliveries bench_online (publish_script (msg_qos (bench_message\<lparr>msg_qos := 2\<rparr>))
         [Message 0 1 0 9 [0x61] [5], Handshake False 2] 2) ds \<and>
    bench_obs w' = ([1], [] @ publish_wire 0 (msg_qos (bench_message\<lparr>msg_qos := 2\<rparr>)) (msg_retained (bench_message\<lparr>msg_qos := 2\<rparr>)) (msg_id msg')
        (cstring_topic [0x62]) (msg_payload (bench_message\<lparr>msg_qos := 2\<rparr>)) @
      answers (publish_script (msg_qos (bench_message\<lparr>msg_qos := 2\<rparr>)) [Message 0 1 0 9 [0x61] [5], Handshake False 2] 2), [] @ ds)"
proof (rule publish_exchange [OF patient_ideal bench_online_facts(1,2)])
  show "publish_ok bench_online [0x62] (bench_message\<lparr>msg_qos := 2\<rparr>)"
    using bench_online_facts(3)
    by (simp add: publish_ok_def bench_message_def request_fits_def length_publish_body cstring_topic_def mstr_bytes_def
        MQTTString_initializer_def MQTTPacket_len_def cint_def INT_MIN_def INT_MAX_def)
  show "script_ok bench_online (publish_script (msg_qos (bench_message\<lparr>msg_qos := 2\<rparr>)) [Message 0 1 0 9 [0x61] [5], Handshake False 2] 2)"
    using bench_online_facts
    by (simp add: script_ok_def publish_script_def publish_final_def bench_message_def packet_fits_def length_packet
        publish_body_def mstr_wire_def str_wire_def cstring_topic_def mstr_bytes_def MQTTString_initializer_def enc_len_small
        ptype_def)
  show "ptype (publish_final (msg_qos (bench_message\<lparr>msg_qos := 2\<rparr>))) \<notin>
      in_type ` set [Message 0 1 0 9 [0x61] [5], Handshake False 2]"
    by (simp add: publish_final_def bench_message_def ptype_def)
qed (simp add: bench_obs_def bench_world_def)

end
