(* ===== verification/Client_Session.thy ===== *)
theory Client_Session
  imports Client_Exchange
begin

text \<open>
  Opening a session and managing subscriptions over the ideal network: the
  exchanges of \<open>MQTTConnectWithResults\<close>, \<open>MQTTSubscribeWithResults\<close> and
  \<open>MQTTUnsubscribe\<close> with the server.
\<close>

section \<open>Sending the requests\<close>

text \<open>A serializer that emits the packet when it fits sends it.\<close>

lemma send_packet_ideal:
  assumes net: "ideal_net P obs" and inv: "client_inv c" and o: "obs w = (i, sent, l)"
    and fits: "request_fits c (length body)"
    and f: "\<And>b n sz. MQTTPacket_len (int (length body)) = Some sz \<Longrightarrow>
      f b n = (if sz > n then Some (MQTTPACKET_BUFFER_TOO_SHORT, b) else emit b (packet h body))"
  shows "\<exists>c1 c' timer' w'. send_request P c f timer w = Some (SUCCESS, c', timer', w') \<and> core c' = core c \<and>
    obs w' = (i, sent @ packet h body, l) \<and>
    into_buf c f = Some (int (length (packet h body)), c1) \<and>
    sendPacket P c1 (int (length (packet h body))) timer w = Some (SUCCESS, c', timer', w')"
proof -
  from request_fits_wire [OF fits inv, of h] obtain sz where
    sz: "MQTTPacket_len (int (length body)) = Some sz" "sz \<le> sint (buf_size c)"
    and n: "length (packet h body) \<le> length (c_buf c)" "int (length (packet h body)) \<le> INT_MAX" by blast
  have e: "f (c_buf c) (sint (buf_size c)) =
      Some (int (length (packet h body)), packet h body @ drop (length (packet h body)) (c_buf c))"
    using f [OF sz(1)] sz(2) n(1) by (simp add: emit_fits)
  have ne: "packet h body \<noteq> []" by (simp add: packet_def)
  from send_request_ideal [where f = f, OF net o e ne n] obtain c' timer' w' where
    s: "send_request P c f timer w = Some (SUCCESS, c', timer', w')" "core c' = core c" "obs w' = (i, sent @ packet h body, l)"
    by blast
  let ?c1 = "c\<lparr>c_buf := packet h body @ drop (length (packet h body)) (c_buf c)\<rparr>"
  have i: "into_buf c f = Some (int (length (packet h body)), ?c1)" using e by (simp add: into_buf_def)
  then have "sendPacket P ?c1 (int (length (packet h body))) timer w = Some (SUCCESS, c', timer', w')"
    using s(1) ne by (simp add: send_request_def)
  with i s show ?thesis by blast
qed

lemma subscribe_packet:
  "subscribe_wire d pid subs = packet (set_qos 1 (set_dup d (set_type (msg_code SUBSCRIBE) 0))) (subscribe_body pid subs)"
  "unsubscribe_wire d pid ts = packet (set_qos 1 (set_dup d (set_type (msg_code UNSUBSCRIBE) 0))) (unsubscribe_body pid ts)"
  "connect_wire options = packet 0x10 (connect_body options)"
  "connack_wire code sp = packet 0x20 [sp AND 1, code]"
  by (simp_all add: subscribe_wire_def unsubscribe_wire_def connect_wire_def connack_wire_def packet_def enc_len_small)

section \<open>Connecting\<close>

abbreviation connack_in :: "byte \<Rightarrow> byte \<Rightarrow> incoming" where
  "connack_in code sp \<equiv> Quiet 0x20 [sp AND 1, code]"

lemma connack_in_type: "in_type (connack_in code sp) = ptype CONNACK"
  by (simp add: header_type_def ptype_def)

text \<open>
  C2: connecting sends exactly the CONNECT packet, waits for the CONNACK and
  returns its return code; the session is open afterwards exactly when that code is
  0. The keep-alive interval and the clean-session flag are those of the options, and
  the handlers installed before stay.
\<close>

theorem connect_exchange:
  fixes P :: "('w, 't) platform"
  assumes net: "ideal_net P obs" and inv: "client_inv c" and conn: "\<not> isconnected c" and ok: "connect_ok options"
    and fits: "request_fits c (length (connect_body options))" and script: "script_ok c [connack_in code sp]"
    and o: "obs w = (connack_wire code sp @ rest, sent, l)"
  shows "\<exists>c' w'. MQTTConnectWithResults P c (Some options) data w =
      Some (uint code, \<lparr>ca_sessionPresent = sp AND 1, ca_rc = code\<rparr>, c', w') \<and>
    (isconnected c' \<longleftrightarrow> code = 0) \<and> keepAliveInterval c' = ucast (cd_keepAliveInterval options) \<and>
    cleansession c' = (cd_cleansession options \<noteq> 0) \<and> messageHandlers c' = messageHandlers c \<and>
    obs w' = (rest, sent @ connect_wire options, l)"
proof -
  obtain w0 where m: "MutexLock P w = Some w0" "obs w0 = obs w" using ideal_netD(8) [OF net] by blast
  obtain timer w1 where t1: "TimerCountdownMS P (TimerInit P) (command_timeout_ms c) w0 = (timer, w1)" "obs w1 = obs w0"
    using ideal_netD(7) [OF net] by blast
  let ?c = "c\<lparr>keepAliveInterval := ucast (cd_keepAliveInterval options), cleansession := cd_cleansession options \<noteq> 0\<rparr>"
  obtain t w2 where t2: "TimerCountdown P (last_received ?c) (keepAliveInterval ?c) w1 = (t, w2)" "obs w2 = obs w1"
    using ideal_netD(6) [OF net] by blast
  let ?c1 = "?c\<lparr>last_received := t\<rparr>"
  let ?f = "\<lambda>b n. MQTTSerialize_connect b n options"
  let ?l = "int (length (packet 0x10 (connect_body options)))"
  have i1: "client_inv ?c1" using inv by (simp add: client_inv_def)
  have f1: "request_fits ?c1 (length (connect_body options))"
    using fits by (simp add: request_fits_def cong: option.case_cong)
  have s1: "script_ok ?c1 ([] @ [connack_in code sp])"
    using script by (simp add: script_ok_def packet_fits_def filters_ok_def)
  have o2: "obs w2 = (connack_wire code sp @ rest, sent, l)" using m t1 t2 o by simp
  obtain c2 c3 timer3 w3 where b: "into_buf ?c1 ?f = Some (?l, c2)"
    and s: "sendPacket P c2 ?l timer w2 = Some (SUCCESS, c3, timer3, w3)"
    and c3: "core c3 = core ?c1" and w3: "obs w3 = (connack_wire code sp @ rest, sent @ connect_wire options, l)"
    using send_packet_ideal [OF net i1 o2 f1 serialize_connect_emit [OF ok, unfolded subscribe_packet], of timer]
    unfolding subscribe_packet by blast
  have i3: "client_inv c3" using inv_core [OF c3] i1 by simp
  have s3: "script_ok c3 ([] @ [connack_in code sp])" using script_ok_core [OF c3] s1 by blast
  have w3': "obs w3 = (wire ([] @ [connack_in code sp]) @ rest, sent @ connect_wire options, l)"
    using w3 by (simp add: subscribe_packet)
  obtain c4 timer4 w4 ds where wt: "waitfor_loop P c3 (ptype CONNACK) FAILURE timer3 w3 = Some (ptype CONNACK, c4, timer4, w4)"
    and c4: "core c4 = core c3" "has (readbuf c4) 0 (connack_wire code sp)"
    and w4: "obs w4 = (rest, sent @ connect_wire options, l)"
    using waitfor_loop_script [OF net i3 s3 _ connack_in_type w3', of FAILURE timer3]
    by (auto simp: subscribe_packet deliveries_def)
  have d: "MQTTDeserialize_connack out (readbuf c4) n = Some (1, \<lparr>ca_sessionPresent = sp AND 1, ca_rc = code\<rparr>)" for out n
    using c4(2) by (rule deserialize_connack_has)
  let ?c4 = "if code = 0 then c4\<lparr>isconnected := True, ping_outstanding := False\<rparr> else c4"
  have pos: "0 < ?l" by (simp add: packet_def)
  have k: "uint code = 0 \<longleftrightarrow> code = 0" by (simp add: word_uint_eq_iff)
  have "connect_locked P c (Some options) data w0 = Some (uint code, \<lparr>ca_sessionPresent = sp AND 1, ca_rc = code\<rparr>, ?c4, w4)"
    using conn t1(1) t2(1) b s wt d pos k by (simp add: connect_locked_def waitfor_def rc_defs)
  then have "MQTTConnectWithResults P c (Some options) data w =
      Some (uint code, \<lparr>ca_sessionPresent = sp AND 1, ca_rc = code\<rparr>, ?c4, MutexUnlock P w4)"
    using m(1) by (simp add: MQTTConnectWithResults_def)
  moreover have "core c4 = core ?c1" using c4(1) c3 by simp
  note r = coreD [OF this]
  have "isconnected ?c4 = (code = 0)" "keepAliveInterval ?c4 = ucast (cd_keepAliveInterval options)"
    "cleansession ?c4 = (cd_cleansession options \<noteq> 0)" "messageHandlers ?c4 = messageHandlers c"
    using r conn by simp_all
  moreover have "obs (MutexUnlock P w4) = (rest, sent @ connect_wire options, l)"
    using ideal_netD(9) [OF net] w4 by simp
  ultimately show ?thesis by blast
qed

theorem connect_exchange_witness:
  "\<exists>c' w'. MQTTConnectWithResults patient_platform bench_client (Some MQTTPacket_connectData_initializer)
       \<lparr>ca_sessionPresent = 0, ca_rc = 0\<rparr> (bench_world (connack_wire 0 1 @ [7])) =
      Some (uint (0 :: byte), \<lparr>ca_sessionPresent = 1 AND 1, ca_rc = 0\<rparr>, c', w') \<and>
    (isconnected c' \<longleftrightarrow> (0 :: byte) = 0) \<and>
    keepAliveInterval c' = ucast (cd_keepAliveInterval MQTTPacket_connectData_initializer) \<and>
    cleansession c' = (cd_cleansession MQTTPacket_connectData_initializer \<noteq> 0) \<and>
    messageHandlers c' = messageHandlers bench_client \<and>
    bench_obs w' = ([7], [] @ connect_wire MQTTPacket_connectData_initializer, [])"
proof (rule connect_exchange [OF patient_ideal])
  show "client_inv bench_client" "\<not> isconnected bench_client" by code_simp+
  show "connect_ok MQTTPacket_connectData_initializer"
    by (simp add: connect_ok_def MQTTPacket_connectData_initializer_def MQTTString_initializer_def
       mstr_ok_def mstr_bytes_def str_present_def)
  have sz: "sint (buf_size bench_client) = 30" "unat (readbuf_size bench_client) = 30" by code_simp+
  have "messageHandlers bench_client = replicate 5 \<lparr>topicFilter = None, fp = None\<rparr>" by code_simp
  with sz show "script_ok bench_client [connack_in 0 1]"
    by (simp add: script_ok_def packet_fits_def length_packet enc_len_small header_type_def ptype_def filters_ok_def)
  show "request_fits bench_client (length (connect_body MQTTPacket_connectData_initializer))"
    using sz by (simp add: request_fits_def length_connect_body MQTTPacket_connectData_initializer_def MQTTString_initializer_def
       mstr_bytes_def str_present_def MQTTPacket_len_def cint_def INT_MIN_def INT_MAX_def)
qed (simp add: bench_obs_def bench_world_def)

section \<open>Subscribing\<close>

abbreviation suback_in :: "16 word \<Rightarrow> byte \<Rightarrow> incoming" where
  "suback_in pid grant \<equiv> Quiet 0x90 (int16_wire (uint pid) @ [grant])"

lemma suback_in_simps: "in_type (suback_in pid grant) = ptype SUBACK" "in_wire (suback_in pid grant) = suback_wire pid [uint grant]"
  by (simp_all add: header_type_def ptype_def suback_wire_def packet_def)

lemma suback_one_grant:
  assumes "has buf 0 (suback_wire pid [uint grant])"
  shows "\<exists>out'. MQTTDeserialize_suback cs 1 \<lparr>sa_packetid = x, sa_count = 0, sa_grantedQoSs = [0]\<rparr> buf n = Some (1, out') \<and>
    idx (sa_grantedQoSs out') 0 = Some (int_of_char cs grant)"
proof -
  let ?out = "\<lparr>sa_packetid = pid, sa_count = 0, sa_grantedQoSs = [0 :: int]\<rparr>"
  obtain p where d: "MQTTDeserialize_suback cs 1 \<lparr>sa_packetid = x, sa_count = 0, sa_grantedQoSs = [0]\<rparr> buf n =
      suback_loop cs 1 ?out buf p (int p + 1)" and h: "has buf p [grant]"
    using deserialize_suback_start [OF assms, of cs 1 "\<lparr>sa_packetid = x, sa_count = 0, sa_grantedQoSs = [0]\<rparr>" n] by auto
  from suback_loop_has [OF h, of "int p + 1" ?out 0 1 cs] obtain out' where
    l: "suback_loop cs 1 ?out buf p (int p + 1) = Some (1, out')"
      "take 1 (drop 0 (sa_grantedQoSs out')) = [int_of_char cs grant]" by auto
  then have "idx (sa_grantedQoSs out') 0 = Some (int_of_char cs grant)"
    by (cases "sa_grantedQoSs out'") (simp_all add: idx_def)
  with d l show ?thesis by simp
qed

lemma sub_packet_ideal:
  assumes net: "ideal_net P obs" and inv: "client_inv c" and o: "obs w = (i, sent, l)" and "mstr_ok s"
    and fits: "request_fits c (length (subscribe_body pid [(s, qos)]))"
  shows "\<exists>c' timer' w'. send_request P c (\<lambda>b n. MQTTSerialize_subscribe b n 0 pid 1 [s] [qos]) timer w =
      Some (SUCCESS, c', timer', w') \<and> core c' = core c \<and> obs w' = (i, sent @ subscribe_wire 0 pid [(s, qos)], l)"
proof -
  have "length (subscribe_body pid [(s, qos)]) < 268435456" using fits by (simp add: request_fits_def)
  from serialize_subscribe_emit [of "[(s, qos)]", OF _ this] \<open>mstr_ok s\<close>
  have e: "MQTTSerialize_subscribe b n 0 pid 1 [s] [qos] =
    (if sz > n then Some (MQTTPACKET_BUFFER_TOO_SHORT, b) else emit b (subscribe_wire 0 pid [(s, qos)]))"
    if "MQTTPacket_len (int (length (subscribe_body pid [(s, qos)]))) = Some sz" for b n sz
    using that by simp
  show ?thesis
    using send_packet_ideal [OF net inv o fits e [unfolded subscribe_packet], of timer] unfolding subscribe_packet by blast
qed

lemma unsub_packet_ideal:
  assumes net: "ideal_net P obs" and inv: "client_inv c" and o: "obs w = (i, sent, l)" and "mstr_ok s"
    and fits: "request_fits c (length (unsubscribe_body pid [s]))"
  shows "\<exists>c' timer' w'. send_request P c (\<lambda>b n. MQTTSerialize_unsubscribe b n 0 pid 1 [s]) timer w =
      Some (SUCCESS, c', timer', w') \<and> core c' = core c \<and> obs w' = (i, sent @ unsubscribe_wire 0 pid [s], l)"
proof -
  have "length (unsubscribe_body pid [s]) < 268435456" using fits by (simp add: request_fits_def)
  from serialize_unsubscribe_emit [of "[s]", OF _ this] \<open>mstr_ok s\<close>
  have e: "MQTTSerialize_unsubscribe b n 0 pid 1 [s] =
    (if sz > n then Some (MQTTPACKET_BUFFER_TOO_SHORT, b) else emit b (unsubscribe_wire 0 pid [s]))"
    if "MQTTPacket_len (int (length (unsubscribe_body pid [s]))) = Some sz" for b n sz
    using that by simp
  show ?thesis
    using send_packet_ideal [OF net inv o fits e [unfolded subscribe_packet], of timer] unfolding subscribe_packet by blast
qed

lemma cstring_topic_ok: "length f < 65536 \<Longrightarrow> mstr_ok (cstring_topic f)"
  by (simp add: cstring_topic_def mstr_ok_def mstr_bytes_def MQTTString_initializer_def)

text \<open>The handler table after the server granted (or refused, with 0x80) a
  subscription, and the result of the operation.\<close>

definition after_suback :: "bool \<Rightarrow> byte \<Rightarrow> handler_slot list \<Rightarrow> byte list \<Rightarrow> nat option \<Rightarrow> int \<times> handler_slot list" where
  "after_suback cs grant table filt h =
     (if int_of_char cs grant \<noteq> 0x80 then set_handler table filt h else (SUCCESS, table))"

lemma set_handler_core: "core c' = core c \<Longrightarrow> messageHandlers c' = messageHandlers c \<and> isconnected c' = isconnected c \<and> cleansession c' = cleansession c"
  by (simp add: core_def)

lemma subscribe_locked_script:
  fixes P :: "('w, 't) platform"
  assumes net: "ideal_net P obs" and inv: "client_inv c" and conn: "isconnected c" and filt: "length filt < 65536"
    and fits: "request_fits c (length (subscribe_body 0 [(cstring_topic filt, qos)]))"
    and script: "script_ok c (ps @ [suback_in pid grant])" and final: "ptype SUBACK \<notin> in_type ` set ps"
    and o: "obs w = (wire (ps @ [suback_in pid grant]) @ rest, sent, l)"
  shows "\<exists>c' w' ds. subscribe_locked P c filt qos h g0 w =
      Some (fst (after_suback (char_is_signed P) grant (messageHandlers c) filt h), int_of_char (char_is_signed P) grant, c', w') \<and>
    messageHandlers c' = snd (after_suback (char_is_signed P) grant (messageHandlers c) filt h) \<and>
    isconnected c' \<and> cleansession c' = cleansession c \<and> all_deliveries c (ps @ [suback_in pid grant]) ds \<and>
    obs w' = (rest, sent @ subscribe_wire 0 (fst (getNextPacketId c)) [(cstring_topic filt, qos)] @ answers ps, l @ ds)"
proof -
  obtain timer w1 where t: "TimerCountdownMS P (TimerInit P) (command_timeout_ms c) w = (timer, w1)" "obs w1 = obs w"
    using ideal_netD(7) [OF net] by blast
  obtain pid1 c1 where g: "getNextPacketId c = (pid1, c1)" by fastforce
  note c1 = with_packetid [OF g]
  have mh: "messageHandlers c1 = messageHandlers c" "cleansession c1 = cleansession c"
    using g by (auto simp: getNextPacketId_def Let_def)
  have "request_fits c1 (length (subscribe_body pid1 [(cstring_topic filt, qos)]))"
    using fits c1(3) by (simp add: subscribe_body_def)
  from sub_packet_ideal [OF net c1(1) [OF inv] _ cstring_topic_ok [OF filt] this, of w1] t(2) o
  obtain c2 timer2 w2 where s: "send_request P c1 (\<lambda>b n. MQTTSerialize_subscribe b n 0 pid1 1 [cstring_topic filt] [qos]) timer w1 =
      Some (SUCCESS, c2, timer2, w2)" and c2: "core c2 = core c1"
    and w2: "obs w2 = (wire (ps @ [suback_in pid grant]) @ rest, sent @ subscribe_wire 0 pid1 [(cstring_topic filt, qos)], l)"
    by metis
  have i2: "client_inv c2" using inv_core [OF c2] c1(1) [OF inv] by blast
  have s2: "script_ok c2 (ps @ [suback_in pid grant])" using script_ok_core [OF c2] c1(2) script by blast
  obtain c3 timer3 w3 ds where wt: "waitfor_loop P c2 (ptype SUBACK) FAILURE timer2 w2 = Some (ptype SUBACK, c3, timer3, w3)"
    and c3: "core c3 = core c2" "has (readbuf c3) 0 (in_wire (suback_in pid grant))" "all_deliveries c2 (ps @ [suback_in pid grant]) ds"
    and w3: "obs w3 = (rest, (sent @ subscribe_wire 0 pid1 [(cstring_topic filt, qos)]) @ answers (ps @ [suback_in pid grant]), l @ ds)"
    using waitfor_loop_script [OF net i2 s2 final suback_in_simps(1) w2] by blast
  obtain out where d: "MQTTDeserialize_suback (char_is_signed P) 1
        \<lparr>sa_packetid = ack_packetid (stack_ack P), sa_count = 0, sa_grantedQoSs = [0]\<rparr> (readbuf c3) (sint (readbuf_size c3)) = Some (1, out)"
      "idx (sa_grantedQoSs out) 0 = Some (int_of_char (char_is_signed P) grant)"
    using suback_one_grant c3(2) unfolding suback_in_simps by blast
  note m3 = set_handler_core [OF trans [OF c3(1) c2]]
  let ?c4 = "if int_of_char (char_is_signed P) grant \<noteq> 0x80 then snd (MQTTSetMessageHandler c3 filt h) else c3"
  have "subscribe_locked P c filt qos h g0 w =
      Some (fst (after_suback (char_is_signed P) grant (messageHandlers c) filt h), int_of_char (char_is_signed P) grant, ?c4, w3)"
    using conn t(1) g s wt d m3 mh
    by (simp add: subscribe_locked_def waitfor_def after_suback_def MQTTSetMessageHandler_def split: prod.splits)
  moreover have "messageHandlers ?c4 = snd (after_suback (char_is_signed P) grant (messageHandlers c) filt h)"
    "isconnected ?c4" "cleansession ?c4 = cleansession c"
    using m3 mh c1(5) conn by (simp_all add: after_suback_def MQTTSetMessageHandler_def split: prod.splits)
  moreover have "all_deliveries c (ps @ [suback_in pid grant]) ds"
    using c3(3) all_deliveries_core [OF c2] c1(4) by blast
  ultimately show ?thesis using w3 g by auto
qed


lemma bench_sub_fits: "request_fits bench_online (length (subscribe_body 0 [(cstring_topic [0x62], 1)]))"
  using bench_online_facts(3)
  by (simp add: request_fits_def subscribe_body_def sub_wire_def cstring_topic_def mstr_bytes_def
      MQTTString_initializer_def MQTTPacket_len_def cint_def INT_MIN_def INT_MAX_def)


section \<open>Unsubscribing\<close>

lemma unsubscribe_locked_script:
  fixes P :: "('w, 't) platform"
  assumes net: "ideal_net P obs" and inv: "client_inv c" and conn: "isconnected c" and filt: "length filt < 65536"
    and fits: "request_fits c (length (unsubscribe_body 0 [cstring_topic filt]))"
    and script: "script_ok c (ps @ [ack_in UNSUBACK pid])" and final: "ptype UNSUBACK \<notin> in_type ` set ps"
    and o: "obs w = (wire (ps @ [ack_in UNSUBACK pid]) @ rest, sent, l)"
  shows "\<exists>c' w' ds. unsubscribe_locked P c filt w = Some (SUCCESS, c', w') \<and>
    messageHandlers c' = snd (set_handler (messageHandlers c) filt None) \<and> isconnected c' \<and>
    all_deliveries c (ps @ [ack_in UNSUBACK pid]) ds \<and>
    obs w' = (rest, sent @ unsubscribe_wire 0 (fst (getNextPacketId c)) [cstring_topic filt] @ answers ps, l @ ds)"
proof -
  obtain timer w1 where t: "TimerCountdownMS P (TimerInit P) (command_timeout_ms c) w = (timer, w1)" "obs w1 = obs w"
    using ideal_netD(7) [OF net] by blast
  obtain pid1 c1 where g: "getNextPacketId c = (pid1, c1)" by fastforce
  note c1 = with_packetid [OF g]
  have mh: "messageHandlers c1 = messageHandlers c" using g by (auto simp: getNextPacketId_def Let_def)
  have "request_fits c1 (length (unsubscribe_body pid1 [cstring_topic filt]))"
    using fits c1(3) by (simp add: unsubscribe_body_def)
  from unsub_packet_ideal [OF net c1(1) [OF inv] _ cstring_topic_ok [OF filt] this, of w1] t(2) o
  obtain c2 timer2 w2 where s: "send_request P c1 (\<lambda>b n. MQTTSerialize_unsubscribe b n 0 pid1 1 [cstring_topic filt]) timer w1 =
      Some (SUCCESS, c2, timer2, w2)" and c2: "core c2 = core c1"
    and w2: "obs w2 = (wire (ps @ [ack_in UNSUBACK pid]) @ rest, sent @ unsubscribe_wire 0 pid1 [cstring_topic filt], l)"
    by metis
  have i2: "client_inv c2" using inv_core [OF c2] c1(1) [OF inv] by blast
  have s2: "script_ok c2 (ps @ [ack_in UNSUBACK pid])" using script_ok_core [OF c2] c1(2) script by blast
  obtain c3 timer3 w3 ds where wt: "waitfor_loop P c2 (ptype UNSUBACK) FAILURE timer2 w2 = Some (ptype UNSUBACK, c3, timer3, w3)"
    and c3: "core c3 = core c2" "has (readbuf c3) 0 (in_wire (ack_in UNSUBACK pid))" "all_deliveries c2 (ps @ [ack_in UNSUBACK pid]) ds"
    and w3: "obs w3 = (rest, (sent @ unsubscribe_wire 0 pid1 [cstring_topic filt]) @ answers (ps @ [ack_in UNSUBACK pid]), l @ ds)"
    using waitfor_loop_script [OF net i2 s2 final ack_in_simps(1) w2] by blast
  have "has (readbuf c3) 0 (ack_wire (msg_code UNSUBACK) 0 pid)" using c3(2) by (simp only: ack_in_simps)
  then have d: "MQTTDeserialize_unsuback x (readbuf c3) n = Some (1, pid)" for x n
    by (simp add: MQTTDeserialize_unsuback_def deserialize_ack_has)
  note m3 = set_handler_core [OF trans [OF c3(1) c2]]
  have "unsubscribe_locked P c filt w = Some (SUCCESS, snd (MQTTSetMessageHandler c3 filt None), w3)"
    using conn t(1) g s wt d by (simp add: unsubscribe_locked_def waitfor_def)
  moreover have "messageHandlers (snd (MQTTSetMessageHandler c3 filt None)) = snd (set_handler (messageHandlers c) filt None)"
    "isconnected (snd (MQTTSetMessageHandler c3 filt None))"
    using m3 mh c1(5) conn by (simp_all add: MQTTSetMessageHandler_def split: prod.splits)
  moreover have "all_deliveries c (ps @ [ack_in UNSUBACK pid]) ds"
    using c3(3) all_deliveries_core [OF c2] c1(4) by blast
  ultimately show ?thesis using w3 g by auto
qed

text \<open>
  C4: unsubscribing on an open session sends exactly the UNSUBSCRIBE packet,
  answers whatever comes before the UNSUBACK and removes the handler of the filter,
  and of no other, from the map of handlers.
\<close>

theorem unsubscribe_exchange:
  fixes P :: "('w, 't) platform"
  assumes net: "ideal_net P obs" and inv: "client_inv c" and conn: "isconnected c" and filt: "length filt < 65536"
    and fits: "request_fits c (length (unsubscribe_body 0 [cstring_topic filt]))"
    and script: "script_ok c (ps @ [ack_in UNSUBACK pid])" and final: "ptype UNSUBACK \<notin> in_type ` set ps"
    and o: "obs w = (wire (ps @ [ack_in UNSUBACK pid]) @ rest, sent, l)"
  shows "\<exists>c' w' ds. MQTTUnsubscribe P c filt w = Some (SUCCESS, c', w') \<and> isconnected c' \<and>
    slot_lookup (messageHandlers c') = (slot_lookup (messageHandlers c))(filt := None) \<and>
    all_deliveries c (ps @ [ack_in UNSUBACK pid]) ds \<and>
    obs w' = (rest, sent @ unsubscribe_wire 0 (fst (getNextPacketId c)) [cstring_topic filt] @ answers ps, l @ ds)"
proof -
  obtain w1 where m: "MutexLock P w = Some w1" "obs w1 = obs w" using ideal_netD(8) [OF net] by blast
  from unsubscribe_locked_script [OF net inv conn filt fits script final, of w1 rest sent l] m(2) o
  obtain c' w' ds where r: "unsubscribe_locked P c filt w1 = Some (SUCCESS, c', w')"
    "messageHandlers c' = snd (set_handler (messageHandlers c) filt None)" "isconnected c'"
    "all_deliveries c (ps @ [ack_in UNSUBACK pid]) ds"
    "obs w' = (rest, sent @ unsubscribe_wire 0 (fst (getNextPacketId c)) [cstring_topic filt] @ answers ps, l @ ds)" by auto
  have ok: "slots_ok (messageHandlers c)" using inv by (simp add: client_inv_def)
  obtain rc t where sh: "set_handler (messageHandlers c) filt None = (rc, t)" by fastforce
  have "slot_lookup t = (slot_lookup (messageHandlers c))(filt := None)"
  proof (cases "filt \<in> dom (slot_lookup (messageHandlers c))")
    case True
    with handlers.set_is_update [OF ok, of filt None] sh show ?thesis by auto
  next
    case False
    then have "rc \<noteq> SUCCESS" using handlers.remove_ok [OF ok, of filt] sh by simp
    with False handlers.set_fail [OF ok sh] show ?thesis by (auto simp: fun_upd_idem_iff)
  qed
  moreover have "MQTTUnsubscribe P c filt w = Some (SUCCESS, c', MutexUnlock P w')"
    using m(1) r(1) by (simp add: MQTTUnsubscribe_def close_on_failure_def rc_defs)
  ultimately show ?thesis using r sh ideal_netD(9) [OF net, of w'] by auto
qed

lemma bench_unsub_fits: "request_fits bench_online (length (unsubscribe_body 0 [cstring_topic [0x61]]))"
  using bench_online_facts(3)
  by (simp add: request_fits_def unsubscribe_body_def cstring_topic_def mstr_bytes_def
      MQTTString_initializer_def MQTTPacket_len_def cint_def INT_MIN_def INT_MAX_def)

theorem unsubscribe_exchange_witness:
  "\<exists>c' w' ds. MQTTUnsubscribe patient_platform bench_online [0x61]
      (bench_world (wire ([Handshake True 3] @ [ack_in UNSUBACK 2]) @ [])) = Some (SUCCESS, c', w') \<and> isconnected c' \<and>
    slot_lookup (messageHandlers c') = (slot_lookup (messageHandlers bench_online))([0x61] := None) \<and>
    all_deliveries bench_online ([Handshake True 3] @ [ack_in UNSUBACK 2]) ds \<and>
    bench_obs w' = ([], [] @ unsubscribe_wire 0 (fst (getNextPacketId bench_online)) [cstring_topic [0x61]] @
       answers [Handshake True 3], [] @ ds)"
proof (rule unsubscribe_exchange [OF patient_ideal bench_online_facts(1,2) _ bench_unsub_fits])
  show "script_ok bench_online ([Handshake True 3] @ [ack_in UNSUBACK 2])"
    using bench_online_facts by (simp add: script_ok_def packet_fits_def length_packet enc_len_small ptype_def)
qed (simp_all add: bench_obs_def bench_world_def ptype_def)

end
