(* ===== verification/FreeRTOS_Port.thy ===== *)
theory FreeRTOS_Port
  imports Client_Core
begin

text \<open>
  The platform of the MQTT client on FreeRTOS and lwIP,
  \<open>paho/MQTTClient-C/src/FreeRTOS/MQTTFreeRTOS.c\<close>: threads, the mutex, timers, and
  the plain and the TLS network. The kernel, the socket library and the TLS library
  are not part of the repository: the calls the file makes are the record \<open>os\<close>, a
  parameter of every function, acting on a world of type \<open>'w\<close>. Handles (tasks,
  semaphores, TLS contexts and connections) are numbers, 0 for \<open>NULL\<close>.
\<close>

section \<open>The calls of the environment\<close>

record timeval =
  tv_sec :: int
  tv_usec :: "32 word"

record sockaddr_in =
  sin_family :: int
  sin_addr :: "32 word"
  sin_port :: "16 word"

text \<open>A descriptor set is the list of its members, \<open>None\<close> for a null pointer;
  \<open>select\<close> gives back the sets (reading, writing, errors) and the timeout.\<close>

type_synonym fd_sets = "int list option \<times> int list option \<times> int list option"

record ('w, 'o) os =
  portTICK_PERIOD_MS :: "32 word"
  configMINIMAL_STACK_SIZE :: int
  zero_TimeOut :: 'o
  vTaskSetTimeOutState :: "'w \<Rightarrow> 'o \<times> 'w"
  xTaskCheckForTimeOut :: "'o \<Rightarrow> 32 word \<Rightarrow> 'w \<Rightarrow> bool \<times> 'o \<times> 32 word \<times> 'w"
  uxTaskPriorityGet :: "'w \<Rightarrow> 32 word \<times> 'w"
  xTaskCreate :: "nat \<Rightarrow> 16 word \<Rightarrow> nat \<Rightarrow> 32 word \<Rightarrow> 'w \<Rightarrow> int \<times> nat \<times> 'w"
  xSemaphoreCreateMutex :: "'w \<Rightarrow> nat \<times> 'w"
  xSemaphoreTake :: "nat \<Rightarrow> 'w \<Rightarrow> (int \<times> 'w) option"
  xSemaphoreGive :: "nat \<Rightarrow> 'w \<Rightarrow> int \<times> 'w"
  taskYIELD :: "'w \<Rightarrow> 'w"
  sys_select :: "int \<Rightarrow> fd_sets \<Rightarrow> timeval \<Rightarrow> 'w \<Rightarrow> int \<times> fd_sets \<times> timeval \<times> 'w"
  sys_recv :: "int \<Rightarrow> 32 word \<Rightarrow> 'w \<Rightarrow> int \<times> byte list \<times> 'w"
  sys_send :: "int \<Rightarrow> byte list \<Rightarrow> 32 word \<Rightarrow> 'w \<Rightarrow> int \<times> 'w"
  sys_close :: "int \<Rightarrow> 'w \<Rightarrow> 'w"
  sys_gethostbyname :: "byte list \<Rightarrow> 'w \<Rightarrow> 32 word option \<times> 'w"
  sys_htons :: "int \<Rightarrow> 16 word"
  sys_socket :: "'w \<Rightarrow> int \<times> 'w"
  sys_connect :: "int \<Rightarrow> sockaddr_in \<Rightarrow> 'w \<Rightarrow> int \<times> 'w"
  SSL_CTX_new :: "nat \<Rightarrow> 'w \<Rightarrow> nat \<times> 'w"
  SSL_CTX_load_verify_buffer :: "nat \<Rightarrow> byte list \<Rightarrow> 'w \<Rightarrow> int \<times> 'w"
  SSL_CTX_use_certificate_ASN1 :: "nat \<Rightarrow> byte list \<Rightarrow> 'w \<Rightarrow> int \<times> 'w"
  SSL_CTX_use_PrivateKey_ASN1 :: "nat \<Rightarrow> byte list \<Rightarrow> 'w \<Rightarrow> int \<times> 'w"
  SSL_CTX_set_verify :: "nat \<Rightarrow> int \<Rightarrow> 'w \<Rightarrow> 'w"
  SSL_CTX_free :: "nat \<Rightarrow> 'w \<Rightarrow> 'w"
  SSL_new :: "nat \<Rightarrow> 'w \<Rightarrow> nat \<times> 'w"
  SSL_set_fd :: "nat \<Rightarrow> int \<Rightarrow> 'w \<Rightarrow> 'w"
  SSL_connect :: "nat \<Rightarrow> 'w \<Rightarrow> int \<times> 'w"
  SSL_free :: "nat \<Rightarrow> 'w \<Rightarrow> 'w"
  SSL_read :: "nat \<Rightarrow> 32 word \<Rightarrow> 'w \<Rightarrow> int \<times> byte list \<times> 'w"
  SSL_write :: "nat \<Rightarrow> byte list \<Rightarrow> 32 word \<Rightarrow> 'w \<Rightarrow> int \<times> 'w"

definition SSL_VERIFY_NONE :: int where
  "SSL_VERIFY_NONE = 0"

definition AF_INET :: int where
  "AF_INET = 2"

section \<open>Threads and the mutex\<close>

text \<open>\<open>fn\<close> and \<open>arg\<close> are the pointers passed on; the result is the return code and
  the task handle.\<close>

definition ThreadStart :: "('w, 'o) os \<Rightarrow> nat \<Rightarrow> nat \<Rightarrow> 'w \<Rightarrow> int \<times> nat \<times> 'w" where
  "ThreadStart os fn arg w =
     (let usTaskStackSize = word_of_int (configMINIMAL_STACK_SIZE os * 5);
          (uxTaskPriority, w) = uxTaskPriorityGet os w
      in xTaskCreate os fn usTaskStackSize arg uxTaskPriority w)"

text \<open>\<open>MQTTStartTask\<close> of \<open>MQTTClient.c\<close>: the pointers are those of \<open>MQTTRun\<close> and
  of the client.\<close>

definition MQTTStartTask :: "('w, 'o) os \<Rightarrow> nat \<Rightarrow> nat \<Rightarrow> 'w \<Rightarrow> int \<times> nat \<times> 'w" where
  "MQTTStartTask os run client w = ThreadStart os run client w"

record Mutex =
  sem :: nat

definition FreeRTOS_MutexInit :: "('w, 'o) os \<Rightarrow> Mutex \<Rightarrow> 'w \<Rightarrow> Mutex \<times> 'w" where
  "FreeRTOS_MutexInit os mutex w = (let (s, w) = xSemaphoreCreateMutex os w in (mutex\<lparr>sem := s\<rparr>, w))"

definition FreeRTOS_MutexLock :: "('w, 'o) os \<Rightarrow> Mutex \<Rightarrow> 'w \<Rightarrow> (int \<times> 'w) option" where
  "FreeRTOS_MutexLock os mutex w = xSemaphoreTake os (sem mutex) w"

definition FreeRTOS_MutexUnlock :: "('w, 'o) os \<Rightarrow> Mutex \<Rightarrow> 'w \<Rightarrow> int \<times> 'w" where
  "FreeRTOS_MutexUnlock os mutex w = (let (x, w) = xSemaphoreGive os (sem mutex) w in (x, taskYIELD os w))"

section \<open>Timers\<close>

record 'o Timer =
  xTicksToWait :: "32 word"
  xTimeOut :: 'o

definition FreeRTOS_TimerCountdownMS :: "('w, 'o) os \<Rightarrow> 'o Timer \<Rightarrow> 32 word \<Rightarrow> 'w \<Rightarrow> 'o Timer \<times> 'w" where
  "FreeRTOS_TimerCountdownMS os timer timeout_ms w =
     (let timer = timer\<lparr>xTicksToWait := timeout_ms div portTICK_PERIOD_MS os\<rparr>;
          (x, w) = vTaskSetTimeOutState os w
      in (timer\<lparr>xTimeOut := x\<rparr>, w))"

definition FreeRTOS_TimerCountdown :: "('w, 'o) os \<Rightarrow> 'o Timer \<Rightarrow> 32 word \<Rightarrow> 'w \<Rightarrow> 'o Timer \<times> 'w" where
  "FreeRTOS_TimerCountdown os timer timeout w = FreeRTOS_TimerCountdownMS os timer (timeout * 1000) w"

definition FreeRTOS_TimerLeftMS :: "('w, 'o) os \<Rightarrow> 'o Timer \<Rightarrow> 'w \<Rightarrow> int \<times> 'o Timer \<times> 'w" where
  "FreeRTOS_TimerLeftMS os timer w =
     (let (_, x, n, w) = xTaskCheckForTimeOut os (xTimeOut timer) (xTicksToWait timer) w
      in (sint (n * portTICK_PERIOD_MS os), timer\<lparr>xTimeOut := x, xTicksToWait := n\<rparr>, w))"

definition FreeRTOS_TimerIsExpired :: "('w, 'o) os \<Rightarrow> 'o Timer \<Rightarrow> 'w \<Rightarrow> bool \<times> 'o Timer \<times> 'w" where
  "FreeRTOS_TimerIsExpired os timer w =
     (let (expired, x, n, w) = xTaskCheckForTimeOut os (xTimeOut timer) (xTicksToWait timer) w
      in (expired, timer\<lparr>xTimeOut := x, xTicksToWait := n\<rparr>, w))"

definition FreeRTOS_TimerInit :: "('w, 'o) os \<Rightarrow> 'o Timer" where
  "FreeRTOS_TimerInit os = \<lparr>xTicksToWait = 0, xTimeOut = zero_TimeOut os\<rparr>"

section \<open>The plain network\<close>

text \<open>The three function pointers of a \<open>Network\<close> are set together.\<close>

datatype net_kind = Plain | Tls

record Network =
  my_socket :: int
  net_functions :: net_kind
  read_count :: int
  ctx :: nat
  ssl :: nat

definition FD_ISSET :: "int \<Rightarrow> int list option \<Rightarrow> bool" where
  "FD_ISSET s fds = (case fds of None \<Rightarrow> False | Some l \<Rightarrow> s \<in> set l)"

text \<open>The timeout both directions compute from \<open>timeout_ms\<close>; the product wraps.\<close>

definition net_timeval :: "32 word \<Rightarrow> timeval" where
  "net_timeval timeout_ms = \<lparr>tv_sec = 0, tv_usec = timeout_ms * 1000\<rparr>"

text \<open>The bytes stored from a pointer on, after storing \<open>bs\<close> at offset \<open>k\<close>.\<close>

definition overlay :: "byte list \<Rightarrow> nat \<Rightarrow> byte list \<Rightarrow> byte list" where
  "overlay stored k bs = take k stored @ bs @ drop (k + length bs) stored"

partial_function (option) recv_loop ::
  "('w, 'o) os \<Rightarrow> int \<Rightarrow> 32 word \<Rightarrow> int \<Rightarrow> byte list \<Rightarrow> 'o \<Rightarrow> 32 word \<Rightarrow> 'w \<Rightarrow> (int \<times> byte list \<times> 'w) option" where
  "recv_loop os sock len recvLen stored timeOut ticks w =
     (let (rc, bs, w) = sys_recv os sock (len - word_of_int recvLen) w;
          stored = overlay stored (nat recvLen) bs in
      if rc < 0 then Some (rc, stored, w)
      else do {
        recvLen \<leftarrow> cint (recvLen + rc);
        (if word_of_int recvLen < len then
           (let (expired, timeOut, ticks, w) = xTaskCheckForTimeOut os timeOut ticks w
            in if expired then Some (recvLen, stored, w)
               else recv_loop os sock len recvLen stored timeOut ticks w)
         else Some (recvLen, stored, w)) })"

declare recv_loop.simps [code]

text \<open>The result holds the bytes stored from \<open>buffer\<close> on.\<close>

definition esp_read :: "('w, 'o) os \<Rightarrow> Network \<Rightarrow> 32 word \<Rightarrow> 32 word \<Rightarrow> 'w \<Rightarrow> (int \<times> byte list \<times> 'w) option" where
  "esp_read os n len timeout_ms w =
     (let ticks = timeout_ms div portTICK_PERIOD_MS os;
          (timeOut, w) = vTaskSetTimeOutState os w;
          (ready, (fdset, _, _), _, w) =
            sys_select os (my_socket n + 1) (Some [my_socket n], None, None) (net_timeval timeout_ms) w
      in if ready > 0 \<and> FD_ISSET (my_socket n) fdset
         then recv_loop os (my_socket n) len 0 [] timeOut ticks w
         else Some (0, [], w))"

text \<open>The loop around \<open>select\<close>: the descriptor sets and the timeout are those the
  previous call left.\<close>

partial_function (option) wait_writable ::
  "('w, 'o) os \<Rightarrow> int \<Rightarrow> fd_sets \<Rightarrow> timeval \<Rightarrow> 'w \<Rightarrow> (fd_sets \<times> 'w) option" where
  "wait_writable os sock fds tv w =
     (let (readysock, fds, tv, w) = sys_select os (sock + 1) fds tv w
      in if readysock \<le> 0 then wait_writable os sock fds tv w else Some (fds, w))"

declare wait_writable.simps [code]

partial_function (option) send_loop ::
  "('w, 'o) os \<Rightarrow> int \<Rightarrow> byte list \<Rightarrow> 32 word \<Rightarrow> int \<Rightarrow> 'o \<Rightarrow> 32 word \<Rightarrow> 'w \<Rightarrow> (int \<times> 'w) option" where
  "send_loop os sock buffer len sentLen timeOut ticks w =
     (let (rc, w) = sys_send os sock (drop (nat sentLen) buffer) (len - word_of_int sentLen) w in
      if rc < 0 then Some (rc, w)
      else do {
        sentLen \<leftarrow> cint (sentLen + rc);
        (if word_of_int sentLen < len then
           (let (expired, timeOut, ticks, w) = xTaskCheckForTimeOut os timeOut ticks w
            in if expired then Some (sentLen, w)
               else send_loop os sock buffer len sentLen timeOut ticks w)
         else Some (sentLen, w)) })"

declare send_loop.simps [code]

definition esp_write :: "('w, 'o) os \<Rightarrow> Network \<Rightarrow> byte list \<Rightarrow> 32 word \<Rightarrow> 32 word \<Rightarrow> 'w \<Rightarrow> (int \<times> 'w) option" where
  "esp_write os n buffer len timeout_ms w =
     (let ticks = timeout_ms div portTICK_PERIOD_MS os;
          (timeOut, w) = vTaskSetTimeOutState os w
      in do {
        ((_, fdset, _), w) \<leftarrow> wait_writable os (my_socket n) (None, Some [my_socket n], None) (net_timeval timeout_ms) w;
        (if FD_ISSET (my_socket n) fdset
         then send_loop os (my_socket n) buffer len 0 timeOut ticks w
         else Some (0, w)) })"

definition esp_disconnect :: "('w, 'o) os \<Rightarrow> Network \<Rightarrow> 'w \<Rightarrow> 'w" where
  "esp_disconnect os n w = sys_close os (my_socket n) w"

definition NetworkInit :: "Network \<Rightarrow> Network" where
  "NetworkInit n = n\<lparr>my_socket := 0, net_functions := Plain\<rparr>"

definition NetworkConnect :: "('w, 'o) os \<Rightarrow> Network \<Rightarrow> byte list \<Rightarrow> int \<Rightarrow> 'w \<Rightarrow> int \<times> Network \<times> 'w" where
  "NetworkConnect os n addr port w =
     (case sys_gethostbyname os addr w of
        (None, w) \<Rightarrow> (-1, n, w)
      | (Some ip, w) \<Rightarrow>
          let sAddr = \<lparr>sin_family = AF_INET, sin_addr = ip, sin_port = sys_htons os port\<rparr>;
              (s, w) = sys_socket os w;
              n = n\<lparr>my_socket := s\<rparr>
          in if s < 0 then (-1, n, w)
             else
               let (retVal, w) = sys_connect os s sAddr w
               in if retVal < 0 then (retVal, n, sys_close os s w) else (retVal, n, w))"

end
