(* ===== verification/FreeRTOS_Tls.thy ===== *)
theory FreeRTOS_Tls
  imports FreeRTOS_Port
begin

text \<open>
  The TLS network of \<open>paho/MQTTClient-C/src/FreeRTOS/MQTTFreeRTOS.c\<close>.
  \<open>esp_ssl_read\<close> keeps a pointer into the caller's buffer in a static variable and
  serves the next two calls from there, so memory is modelled by an explicit store:
  a map from objects to their bytes, with pointers that are an object and an offset.
\<close>

section \<open>The store\<close>

type_synonym ptr = "nat \<times> nat"
type_synonym store = "nat \<Rightarrow> buffer"

definition load_at :: "store \<Rightarrow> ptr \<Rightarrow> nat \<Rightarrow> byte option" where
  "load_at h p i = load (h (fst p)) (snd p + i)"

definition blit_at :: "store \<Rightarrow> ptr \<Rightarrow> nat \<Rightarrow> byte list \<Rightarrow> store option" where
  "blit_at h p i bs = do {
     b \<leftarrow> blit (h (fst p)) (snd p + i) bs;
     Some (h(fst p := b)) }"

text \<open>The bytes \<open>memcpy\<close> reads.\<close>

definition bytes_at :: "store \<Rightarrow> ptr \<Rightarrow> nat \<Rightarrow> nat \<Rightarrow> byte list option" where
  "bytes_at h p i n =
     (if snd p + i + n \<le> length (h (fst p)) then Some (take n (drop (snd p + i) (h (fst p)))) else None)"

section \<open>Reading\<close>

text \<open>The two loops of the first call: each pass reads \<open>len\<close> bytes to the same
  place, \<open>base\<close> bytes into the static \<open>read_buffer\<close>. The flag tells an error exit.\<close>

partial_function (option) ssl_fill ::
  "('w, 'o) os \<Rightarrow> nat \<Rightarrow> ptr \<Rightarrow> nat \<Rightarrow> 32 word \<Rightarrow> int \<Rightarrow> 'o \<Rightarrow> 32 word \<Rightarrow> store \<Rightarrow> 'w \<Rightarrow>
   (bool \<times> int \<times> 'o \<times> 32 word \<times> store \<times> 'w) option" where
  "ssl_fill os conn read_buffer base len recvLen timeOut ticks h w =
     (let (rc, bs, w) = SSL_read os conn len w in do {
        h \<leftarrow> blit_at h read_buffer base bs;
        (if rc < 0 then Some (True, rc, timeOut, ticks, h, w)
         else do {
           recvLen \<leftarrow> cint (recvLen + rc);
           (if word_of_int recvLen < len then
              (let (expired, timeOut, ticks, w) = xTaskCheckForTimeOut os timeOut ticks w
               in if expired then Some (False, recvLen, timeOut, ticks, h, w)
                  else ssl_fill os conn read_buffer base len recvLen timeOut ticks h w)
            else Some (False, recvLen, timeOut, ticks, h, w)) }) })"

declare ssl_fill.simps [code]

text \<open>\<open>rb\<close> is the static \<open>read_buffer\<close>, \<open>None\<close> before the first call.\<close>

definition esp_ssl_read ::
  "('w, 'o) os \<Rightarrow> Network \<Rightarrow> ptr option \<Rightarrow> store \<Rightarrow> ptr \<Rightarrow> 32 word \<Rightarrow> 32 word \<Rightarrow> 'w \<Rightarrow>
   (int \<times> Network \<times> ptr option \<times> store \<times> 'w) option" where
  "esp_ssl_read os n rb h buffer len timeout_ms w =
     (let ticks = timeout_ms div portTICK_PERIOD_MS os;
          (timeOut, w) = vTaskSetTimeOutState os w
      in if read_count n = 0 then
           let (ready, (readset, _, errset), _, w) =
                 sys_select os (my_socket n + 1) (Some [my_socket n], None, Some [my_socket n]) (net_timeval timeout_ms) w
           in if ready > 0 then
                (if FD_ISSET (my_socket n) errset then Some (0, n, rb, h, w)
                 else if FD_ISSET (my_socket n) readset then do {
                   (err, rc, timeOut, ticks, h, w) \<leftarrow> ssl_fill os (ssl n) buffer 0 2 0 timeOut ticks h w;
                   (if err then Some (rc, n, Some buffer, h, w)
                    else do {
                      l \<leftarrow> load_at h buffer 1;
                      (err, rc, timeOut, ticks, h, w) \<leftarrow>
                        (if l > 0 then ssl_fill os (ssl n) buffer 2 (ucast l) 0 timeOut ticks h w
                         else Some (False, 0, timeOut, ticks, h, w));
                      (if err then Some (rc, n, Some buffer, h, w)
                       else do {
                         k \<leftarrow> cint (read_count n + 1);
                         Some (1, n\<lparr>read_count := k\<rparr>, Some buffer, h, w) }) }) }
                 else Some (0, n, rb, h, w))
              else Some (0, n, rb, h, w)
         else if read_count n = 1 then
           let (expired, _, _, w) = xTaskCheckForTimeOut os timeOut ticks w in do {
             p \<leftarrow> rb;
             (if expired then do {
                h \<leftarrow> blit_at h p 0 [0];
                Some (0, n\<lparr>read_count := 0\<rparr>, rb, h, w) }
              else do {
                l \<leftarrow> load_at h p 1;
                h \<leftarrow> blit_at h buffer 0 [l];
                Some (1, n\<lparr>read_count := 2\<rparr>, rb, h, w) }) }
         else if read_count n = 2 then
           let n = n\<lparr>read_count := 0\<rparr>;
               (expired, _, _, w) = xTaskCheckForTimeOut os timeOut ticks w
           in do {
             p \<leftarrow> rb;
             (if expired then do {
                h \<leftarrow> blit_at h p 0 [0];
                Some (0, n, rb, h, w) }
              else do {
                bs \<leftarrow> bytes_at h p 2 (unat len);
                h \<leftarrow> blit_at h buffer 0 bs;
                Some (sint len, n, rb, h, w) }) }
         else Some (0, n, rb, h, w))"

section \<open>Writing\<close>

partial_function (option) ssl_send_loop ::
  "('w, 'o) os \<Rightarrow> nat \<Rightarrow> byte list \<Rightarrow> 32 word \<Rightarrow> int \<Rightarrow> 'o \<Rightarrow> 32 word \<Rightarrow> 'w \<Rightarrow> (int \<times> 'w) option" where
  "ssl_send_loop os conn buffer len sentLen timeOut ticks w =
     (let (rc, w) = SSL_write os conn (drop (nat sentLen) buffer) (len - word_of_int sentLen) w in
      if rc < 0 then Some (rc, w)
      else do {
        sentLen \<leftarrow> cint (sentLen + rc);
        (if word_of_int sentLen < len then
           (let (expired, timeOut, ticks, w) = xTaskCheckForTimeOut os timeOut ticks w
            in if expired then Some (sentLen, w)
               else ssl_send_loop os conn buffer len sentLen timeOut ticks w)
         else Some (sentLen, w)) })"

declare ssl_send_loop.simps [code]

definition esp_ssl_write :: "('w, 'o) os \<Rightarrow> Network \<Rightarrow> byte list \<Rightarrow> 32 word \<Rightarrow> 32 word \<Rightarrow> 'w \<Rightarrow> (int \<times> 'w) option" where
  "esp_ssl_write os n buffer len timeout_ms w =
     (let ticks = timeout_ms div portTICK_PERIOD_MS os;
          (timeOut, w) = vTaskSetTimeOutState os w
      in do {
        ((_, writeset, errset), w) \<leftarrow>
          wait_writable os (my_socket n) (None, Some [my_socket n], Some [my_socket n]) (net_timeval timeout_ms) w;
        (if FD_ISSET (my_socket n) errset then Some (0, w)
         else if FD_ISSET (my_socket n) writeset
         then ssl_send_loop os (ssl n) buffer len 0 timeOut ticks w
         else Some (0, w)) })"

definition esp_ssl_disconnect :: "('w, 'o) os \<Rightarrow> Network \<Rightarrow> 'w \<Rightarrow> Network \<times> 'w" where
  "esp_ssl_disconnect os n w =
     (let w = sys_close os (my_socket n) w;
          w = SSL_free os (ssl n) w;
          w = SSL_CTX_free os (ctx n) w
      in (n\<lparr>read_count := 0\<rparr>, w))"

section \<open>Connecting\<close>

definition NetworkInitSSL :: "Network \<Rightarrow> Network" where
  "NetworkInitSSL n = n\<lparr>my_socket := 0, net_functions := Tls, read_count := 0, ctx := 0, ssl := 0\<rparr>"

text \<open>The certificates; \<open>None\<close> is a null pointer and the length is that of the list.\<close>

record ssl_ca_crt_key_t =
  cacrt :: "byte list option"
  cert :: "byte list option"
  key :: "byte list option"

text \<open>The steps between creating the context and the socket. The flag says whether
  the function goes on; \<open>retVal\<close> is threaded as in the source.\<close>

definition ssl_load_ca :: "('w, 'o) os \<Rightarrow> nat \<Rightarrow> ssl_ca_crt_key_t \<Rightarrow> int \<Rightarrow> 'w \<Rightarrow> bool \<times> int \<times> 'w" where
  "ssl_load_ca os c cck retVal w =
     (case cacrt cck of
        None \<Rightarrow> (True, retVal, w)
      | Some ca \<Rightarrow> let (retVal, w) = SSL_CTX_load_verify_buffer os c ca w in (retVal = 1, retVal, w))"

definition ssl_load_cert :: "('w, 'o) os \<Rightarrow> nat \<Rightarrow> ssl_ca_crt_key_t \<Rightarrow> int \<Rightarrow> 'w \<Rightarrow> bool \<times> int \<times> 'w" where
  "ssl_load_cert os c cck retVal w =
     (case (cert cck, key cck) of
        (Some crt, Some k) \<Rightarrow>
          let (retVal, w) = SSL_CTX_use_certificate_ASN1 os c crt w
          in if retVal = 0 then (False, retVal, w)
             else let (retVal, w) = SSL_CTX_use_PrivateKey_ASN1 os c k w in (retVal \<noteq> 0, retVal, w)
      | _ \<Rightarrow> (True, retVal, w))"

text \<open>From the socket on, with the exits \<open>exit3\<close>, \<open>exit2\<close> and \<open>exit1\<close>.\<close>

definition ssl_open :: "('w, 'o) os \<Rightarrow> Network \<Rightarrow> 32 word \<Rightarrow> int \<Rightarrow> int \<Rightarrow> 'w \<Rightarrow> int \<times> Network \<times> 'w" where
  "ssl_open os n ip port retVal w =
     (let sAddr = \<lparr>sin_family = AF_INET, sin_addr = ip, sin_port = sys_htons os port\<rparr>;
          (s, w) = sys_socket os w;
          n = n\<lparr>my_socket := s\<rparr>;
          exit1 = (\<lambda>w. SSL_CTX_free os (ctx n) w);
          exit2 = (\<lambda>w. exit1 (sys_close os s w))
      in if s < 0 then (retVal, n, exit1 w)
         else
           let (retVal, w) = sys_connect os s sAddr w
           in if retVal < 0 then (retVal, n, exit2 w)
              else
                let (conn, w) = SSL_new os (ctx n) w;
                    n = n\<lparr>ssl := conn\<rparr>
                in if conn = 0 then (retVal, n, exit2 w)
                   else
                     let w = SSL_set_fd os conn s w;
                         (retVal, w) = SSL_connect os conn w
                     in if retVal \<le> 0 then (retVal, n, exit2 (SSL_free os conn w)) else (retVal, n, w))"

definition NetworkConnectSSL ::
  "('w, 'o) os \<Rightarrow> Network \<Rightarrow> byte list \<Rightarrow> int \<Rightarrow> ssl_ca_crt_key_t \<Rightarrow> nat \<Rightarrow> int \<Rightarrow> 'w \<Rightarrow> int \<times> Network \<times> 'w" where
  "NetworkConnectSSL os n addr port cck method verify_mode w =
     (case sys_gethostbyname os addr w of
        (None, w) \<Rightarrow> (-1, n, w)
      | (Some ip, w) \<Rightarrow>
          let (c, w) = SSL_CTX_new os method w;
              n = n\<lparr>ctx := c\<rparr>
          in if c = 0 then (-1, n, w)
             else
               let (go, retVal, w) = ssl_load_ca os c cck (-1) w
               in if \<not> go then (retVal, n, SSL_CTX_free os c w)
                  else
                    let (go, retVal, w) = ssl_load_cert os c cck retVal w
                    in if \<not> go then (retVal, n, SSL_CTX_free os c w)
                       else
                         let w = SSL_CTX_set_verify os c (if cacrt cck \<noteq> None then verify_mode else SSL_VERIFY_NONE) w
                         in ssl_open os n ip port retVal w)"

section \<open>The platform of the client\<close>

text \<open>The platform operations are those of this file when the network is plain. The
  world of the client holds the network, the mutex and the world of the kernel.\<close>

record 'w board =
  bd_net :: Network
  bd_mutex :: Mutex
  bd_os :: 'w

text \<open>Running a timer operation or a transfer on the kernel's world inside the board.\<close>

definition on_os :: "'w board \<Rightarrow> 'a \<times> 'w \<Rightarrow> 'a \<times> 'w board" where
  "on_os b r = (fst r, b\<lparr>bd_os := snd r\<rparr>)"

definition freertos_platform ::
  "('w, 'o) os \<Rightarrow> (nat \<Rightarrow> MessageData \<Rightarrow> 'w board \<Rightarrow> 'w board) \<Rightarrow> publish_out \<Rightarrow> ack_out \<Rightarrow> bool \<Rightarrow>
   ('w board, 'o Timer) platform" where
  "freertos_platform os cb sp sa char_signed = \<lparr>
     TimerInit = FreeRTOS_TimerInit os,
     TimerCountdownMS = (\<lambda>t ms b. on_os b (FreeRTOS_TimerCountdownMS os t ms (bd_os b))),
     TimerCountdown = (\<lambda>t s b. on_os b (FreeRTOS_TimerCountdown os t s (bd_os b))),
     TimerIsExpired = (\<lambda>t b. case FreeRTOS_TimerIsExpired os t (bd_os b) of (e, t, w) \<Rightarrow> (e, t, b\<lparr>bd_os := w\<rparr>)),
     TimerLeftMS = (\<lambda>t b. case FreeRTOS_TimerLeftMS os t (bd_os b) of (n, t, w) \<Rightarrow> (n, t, b\<lparr>bd_os := w\<rparr>)),
     mqttread = (\<lambda>b n timeout. map_option (\<lambda>(rc, bs, w). (rc, bs, b\<lparr>bd_os := w\<rparr>))
        (esp_read os (bd_net b) (word_of_int n) (word_of_int timeout) (bd_os b))),
     mqttwrite = (\<lambda>b bs n timeout. map_option (\<lambda>(rc, w). (rc, b\<lparr>bd_os := w\<rparr>))
        (esp_write os (bd_net b) bs (word_of_int n) (word_of_int timeout) (bd_os b))),
     MutexInit = (\<lambda>b. case FreeRTOS_MutexInit os (bd_mutex b) (bd_os b) of (m, w) \<Rightarrow> b\<lparr>bd_mutex := m, bd_os := w\<rparr>),
     MutexLock = (\<lambda>b. map_option (\<lambda>(_, w). b\<lparr>bd_os := w\<rparr>) (FreeRTOS_MutexLock os (bd_mutex b) (bd_os b))),
     MutexUnlock = (\<lambda>b. b\<lparr>bd_os := snd (FreeRTOS_MutexUnlock os (bd_mutex b) (bd_os b))\<rparr>),
     callback = cb,
     stack_pub = sp,
     stack_ack = sa,
     char_is_signed = char_signed\<rparr>"

end
