(* ===== verification/FreeRTOS_Net.thy ===== *)
theory FreeRTOS_Net
  imports FreeRTOS_Tls
begin

text \<open>
  What the FreeRTOS platform guarantees on documented behaviour of the kernel and the
  socket library, stated as predicates on \<open>os\<close>: \<open>tick_clock\<close> (time-outs against a
  clock), \<open>runs_out\<close> (waiting uses up the time left), \<open>stream_socket\<close> (reading takes
  bytes off a stream) and \<open>select_clears\<close> (\<open>select\<close> leaves in the sets what is ready).
\<close>

section \<open>A kernel and a network to run on\<close>

text \<open>A concrete \<open>os\<close>: a clock that every test of a time-out advances, segments that
  \<open>recv\<close> takes one at a time and reports \<open>EWOULDBLOCK\<close> (-1) after, results that
  \<open>select\<close> gives in turn, and the open sockets, contexts and connections.\<close>

record bench_kernel =
  bk_now :: nat
  bk_in :: "byte list list"
  bk_out :: "byte list"
  bk_select :: "int list"
  bk_live :: "int list \<times> nat list \<times> nat list"

definition bench_recv :: "32 word \<Rightarrow> bench_kernel \<Rightarrow> int \<times> byte list \<times> bench_kernel" where
  "bench_recv len w =
     (case bk_in w of
        [] \<Rightarrow> (-1, [], w)
      | s # ss \<Rightarrow>
          let k = min (length s) (min (unat len) 1000)
          in (int k, take k s, w\<lparr>bk_in := (if k < length s then drop k s # ss else ss)\<rparr>))"

definition bench_select :: "fd_sets \<Rightarrow> timeval \<Rightarrow> bench_kernel \<Rightarrow> int \<times> fd_sets \<times> timeval \<times> bench_kernel" where
  "bench_select fds tv w =
     (case (fds, bk_select w) of
        ((r, s, e), rc # rest) \<Rightarrow>
          if rc > 0 \<and> (r, s, e) \<noteq> (map_option (\<lambda>_. []) r, map_option (\<lambda>_. []) s, map_option (\<lambda>_. []) e)
          then (rc, (r, s, map_option (\<lambda>_. []) e), tv, w\<lparr>bk_select := rest\<rparr>)
          else (0, (map_option (\<lambda>_. []) r, map_option (\<lambda>_. []) s, map_option (\<lambda>_. []) e), tv, w\<lparr>bk_select := rest\<rparr>)
      | ((r, s, e), []) \<Rightarrow> (0, (map_option (\<lambda>_. []) r, map_option (\<lambda>_. []) s, map_option (\<lambda>_. []) e), tv, w))"

definition bench_fresh :: "nat list \<Rightarrow> nat" where
  "bench_fresh l = Suc (fold max l 0)"

definition bench_os :: "int \<Rightarrow> int \<Rightarrow> (bench_kernel, nat) os" where
  "bench_os connects handshake = \<lparr>
     portTICK_PERIOD_MS = 10,
     configMINIMAL_STACK_SIZE = 768,
     zero_TimeOut = 0,
     vTaskSetTimeOutState = (\<lambda>w. (bk_now w, w)),
     xTaskCheckForTimeOut = (\<lambda>x n w. (x + unat n \<le> bk_now w, bk_now w, word_of_nat (x + unat n - bk_now w), w\<lparr>bk_now := bk_now w + 1\<rparr>)),
     uxTaskPriorityGet = (\<lambda>w. (5, w)),
     xTaskCreate = (\<lambda>fn st arg pr w. (1, 1, w)),
     xSemaphoreCreateMutex = (\<lambda>w. (1, w)),
     xSemaphoreTake = (\<lambda>s w. Some (1, w)),
     xSemaphoreGive = (\<lambda>s w. (1, w)),
     taskYIELD = (\<lambda>w. w),
     sys_select = (\<lambda>n fds tv w. bench_select fds tv w),
     sys_recv = (\<lambda>s. bench_recv),
     sys_send = (\<lambda>s bs len w. (int (unat len), w\<lparr>bk_out := bk_out w @ take (unat len) bs\<rparr>)),
     sys_close = (\<lambda>s w. w\<lparr>bk_live := (removeAll s (fst (bk_live w)), snd (bk_live w))\<rparr>),
     sys_gethostbyname = (\<lambda>a w. (Some 0x0A000001, w)),
     sys_htons = word_of_int,
     sys_socket = (\<lambda>w. if length (fst (bk_live w)) < 4
        then let s = int (bench_fresh (map nat (fst (bk_live w))))
             in (s, w\<lparr>bk_live := (s # fst (bk_live w), snd (bk_live w))\<rparr>)
        else (-1, w)),
     sys_connect = (\<lambda>s a w. (connects, w)),
     SSL_CTX_new = (\<lambda>m w. let c = bench_fresh (fst (snd (bk_live w)))
        in (c, w\<lparr>bk_live := (fst (bk_live w), c # fst (snd (bk_live w)), snd (snd (bk_live w)))\<rparr>)),
     SSL_CTX_load_verify_buffer = (\<lambda>c ca w. (1, w)),
     SSL_CTX_use_certificate_ASN1 = (\<lambda>c x w. (1, w)),
     SSL_CTX_use_PrivateKey_ASN1 = (\<lambda>c x w. (1, w)),
     SSL_CTX_set_verify = (\<lambda>c v w. w),
     SSL_CTX_free = (\<lambda>c w. w\<lparr>bk_live := (fst (bk_live w), removeAll c (fst (snd (bk_live w))), snd (snd (bk_live w)))\<rparr>),
     SSL_new = (\<lambda>c w. let l = bench_fresh (snd (snd (bk_live w)))
        in (l, w\<lparr>bk_live := (fst (bk_live w), fst (snd (bk_live w)), l # snd (snd (bk_live w)))\<rparr>)),
     SSL_set_fd = (\<lambda>c s w. w),
     SSL_connect = (\<lambda>c w. (handshake, w)),
     SSL_free = (\<lambda>c w. w\<lparr>bk_live := (fst (bk_live w), fst (snd (bk_live w)), removeAll c (snd (snd (bk_live w))))\<rparr>),
     SSL_read = (\<lambda>c. bench_recv),
     SSL_write = (\<lambda>c bs len w. (int (unat len), w\<lparr>bk_out := bk_out w @ take (unat len) bs\<rparr>))\<rparr>"

definition bench_kernel_world :: "byte list list \<Rightarrow> int list \<Rightarrow> bench_kernel" where
  "bench_kernel_world segs sel = \<lparr>bk_now = 100, bk_in = segs, bk_out = [], bk_select = sel, bk_live = ([], [], [])\<rparr>"

definition bench_network :: Network where
  "bench_network = \<lparr>my_socket = 3, net_functions = Plain, read_count = 0, ctx = 0, ssl = 0\<rparr>"

section \<open>Timers as deadlines\<close>

text \<open>\<open>now\<close> is the tick count of a world and \<open>since\<close> the tick count recorded in a
  time-out state, which is never in the future.\<close>

definition tick_clock :: "('w, 'o) os \<Rightarrow> ('w \<Rightarrow> nat) \<Rightarrow> ('o \<Rightarrow> nat) \<Rightarrow> bool" where
  "tick_clock os now since \<longleftrightarrow>
     (\<forall>w. case vTaskSetTimeOutState os w of (x, w') \<Rightarrow> since x = now w \<and> now w \<le> now w') \<and>
     (\<forall>x n w. since x \<le> now w \<longrightarrow> (case xTaskCheckForTimeOut os x n w of (e, x', n', w') \<Rightarrow>
        now w \<le> now w' \<and> (e \<longleftrightarrow> since x + unat n \<le> now w) \<and> since x' = now w \<and>
        unat n' = (since x + unat n) - now w))"

definition deadline :: "('o \<Rightarrow> nat) \<Rightarrow> 'o Timer \<Rightarrow> nat" where
  "deadline since t = since (xTimeOut t) + unat (xTicksToWait t)"

text \<open>The timer operations over deadlines: setting, testing and the time left. A test
  or a query moves the start but keeps a deadline that has not passed.\<close>

lemma countdown_deadline:
  assumes "tick_clock os now since" and "FreeRTOS_TimerCountdownMS os t ms w = (t', w')"
  shows "deadline since t' = now w + unat ms div unat (portTICK_PERIOD_MS os) \<and> since (xTimeOut t') \<le> now w'"
proof -
  obtain x w1 where s: "vTaskSetTimeOutState os w = (x, w1)" by fastforce
  with assms(1) have "since x = now w" "now w \<le> now w1" by (auto simp: tick_clock_def split: prod.splits)
  with s assms(2) show ?thesis
    by (auto simp: FreeRTOS_TimerCountdownMS_def Let_def deadline_def unat_div)
qed

lemma check_deadline:
  assumes "tick_clock os now since" and "since (xTimeOut t) \<le> now w"
    and "xTaskCheckForTimeOut os (xTimeOut t) (xTicksToWait t) w = (e, x, n, w')"
  shows "now w \<le> now w' \<and> since x = now w \<and> (e \<longleftrightarrow> deadline since t \<le> now w) \<and> unat n = deadline since t - now w \<and>
    deadline since (t\<lparr>xTimeOut := x, xTicksToWait := n\<rparr>) = max (deadline since t) (now w)"
proof -
  have "now w \<le> now w' \<and> (e \<longleftrightarrow> since (xTimeOut t) + unat (xTicksToWait t) \<le> now w) \<and> since x = now w \<and>
      unat n = (since (xTimeOut t) + unat (xTicksToWait t)) - now w"
    using assms unfolding tick_clock_def by (metis (mono_tags, lifting) case_prod_conv)
  then show ?thesis by (auto simp: deadline_def max_def)
qed

lemma sint_nonneg_product:
  fixes n k :: "32 word"
  assumes "unat n * unat k < 2147483648"
  shows "sint (n * k) = int (unat n * unat k)"
proof -
  have "unat (n * k) = unat n * unat k" using assms by (simp add: unat_word_ariths)
  then have u: "uint (n * k) = int (unat n * unat k)" by (metis uint_nat)
  with assms have "uint (n * k) < 2147483648" by linarith
  moreover have "0 \<le> uint (n * k)" by simp
  then have "- 2147483648 \<le> uint (n * k)" by linarith
  ultimately have "sint (n * k) = uint (n * k)" by (simp add: sint_uint signed_take_bit_int_eq_self_iff)
  with u show ?thesis by simp
qed


lemma bench_tick_clock: "tick_clock (bench_os a b) bk_now (\<lambda>x. x)"
proof -
  have "unat (word_of_nat (x + unat n - k) :: 32 word) = x + unat n - k" if "x \<le> k" for x k :: nat and n :: "32 word"
  proof -
    have "unat n < 2 ^ LENGTH(32)" by (rule unsigned_less)
    with that show ?thesis by (simp add: unat_of_nat)
  qed
  then show ?thesis by (simp add: tick_clock_def bench_os_def)
qed


section \<open>Reading from a stream\<close>

text \<open>\<open>inb\<close> is what is still to be received on the socket. \<open>recv\<close> fails and takes
  nothing, or takes at most \<open>len\<close> bytes off its front.\<close>

definition stream_socket :: "('w, 'o) os \<Rightarrow> int \<Rightarrow> ('w \<Rightarrow> byte list) \<Rightarrow> bool" where
  "stream_socket os sock inb \<longleftrightarrow>
     (\<forall>len w. case sys_recv os sock len w of (rc, bs, w') \<Rightarrow>
        inb w = bs @ inb w' \<and> (rc < 0 \<and> bs = [] \<or> rc = int (length bs) \<and> length bs \<le> unat len)) \<and>
     (\<forall>w. inb (snd (vTaskSetTimeOutState os w)) = inb w) \<and>
     (\<forall>x n w. inb (snd (snd (snd (xTaskCheckForTimeOut os x n w)))) = inb w) \<and>
     (\<forall>n fds tv w. inb (snd (snd (snd (sys_select os n fds tv w)))) = inb w)"

lemma stream_socketD:
  assumes "stream_socket os sock inb"
  shows "sys_recv os sock len w = (rc, bs, w') \<Longrightarrow>
      inb w = bs @ inb w' \<and> (rc < 0 \<and> bs = [] \<or> rc = int (length bs) \<and> length bs \<le> unat len)"
    and "vTaskSetTimeOutState os w = (x, w') \<Longrightarrow> inb w' = inb w"
    and "xTaskCheckForTimeOut os x n w = (e, x', n', w') \<Longrightarrow> inb w' = inb w"
    and "sys_select os k fds tv w = (r, fds', tv', w') \<Longrightarrow> inb w' = inb w"
  using assms unfolding stream_socket_def by (metis (mono_tags, lifting) case_prod_conv snd_conv)+

text \<open>What a read leaves: the bytes stored are the bytes taken off the stream. A
  return value that is not negative counts them; a negative one hides them.\<close>

definition read_ok :: "('w \<Rightarrow> byte list) \<Rightarrow> 32 word \<Rightarrow> 'w \<Rightarrow> int \<times> byte list \<times> 'w \<Rightarrow> bool" where
  "read_ok inb len w r \<longleftrightarrow>
     (case r of (n, bs, w') \<Rightarrow> inb w = bs @ inb w' \<and> length bs \<le> unat len \<and> (n < 0 \<or> n = int (length bs)))"

lemma word_less_len:
  fixes len :: "32 word"
  assumes "k \<le> unat len"
  shows "unat (len - word_of_int (int k)) = unat len - k" and "(word_of_int (int k) < len) = (k < unat len)"
proof -
  have "unat len < 2 ^ LENGTH(32)" by (rule unsigned_less)
  then have k: "unat (word_of_nat k :: 32 word) = k" using assms by (simp add: unat_of_nat)
  then show "unat (len - word_of_int (int k)) = unat len - k" using assms by (simp add: unat_sub word_le_nat_alt)
  show "(word_of_int (int k) < len) = (k < unat len)" using k by (simp add: word_less_nat_alt)
qed

lemma recv_loop_ok:
  fixes os :: "('w, 'o) os"
  assumes net: "stream_socket os sock inb" and len: "unat len < 2147483648"
    and "inb w0 = stored @ inb w" and "length stored \<le> unat len"
    and "recv_loop os sock len (int (length stored)) stored x n w = Some r"
  shows "read_ok inb len w0 r"
proof -
  define Q where "Q = (\<lambda>(((((((os' :: ('w, 'o) os, sock'), len'), k), stored), x :: 'o), n :: 32 word), w) r.
      os' = os \<and> sock' = sock \<and> len' = len \<and> k = int (length stored) \<and> inb w0 = stored @ inb w \<and> length stored \<le> unat len \<longrightarrow>
      read_ok inb len w0 r)"
  have "Q (((((((os, sock), len), int (length stored)), stored), x), n), w) r"
  proof (rule recv_loop.raw_induct [OF _ assms(5)])
    fix self os' sock' len' k stored x n w r
    assume IH: "\<And>os' sock' len' k stored x n w r. self os' sock' len' k stored x n w = Some r \<Longrightarrow>
        Q (((((((os', sock'), len'), k), stored), x), n), w) r"
      and body: "(let (rc, bs, w) = sys_recv os' sock' (len' - word_of_int k) w; stored = overlay stored (nat k) bs in
        if rc < 0 then Some (rc, stored, w)
        else do {
          k \<leftarrow> cint (k + rc);
          (if word_of_int k < len' then
             (let (expired, x, n, w) = xTaskCheckForTimeOut os' x n w
              in if expired then Some (k, stored, w) else self os' sock' len' k stored x n w)
           else Some (k, stored, w)) }) = Some r"
    show "Q (((((((os', sock'), len'), k), stored), x), n), w) r"
      unfolding Q_def prod.case
    proof (intro impI, elim conjE)
      assume eqs: "os' = os" "sock' = sock" "len' = len" "k = int (length stored)"
        and inv: "inb w0 = stored @ inb w" "length stored \<le> unat len"
      obtain rc bs w1 where rv: "sys_recv os sock (len - word_of_int k) w = (rc, bs, w1)" by (metis prod_cases3)
      have ov: "overlay stored (nat k) bs = stored @ bs" by (simp add: overlay_def eqs(4))
      note s = stream_socketD(1) [OF net rv]
      have fits: "rc = int (length bs) \<Longrightarrow> length (stored @ bs) \<le> unat len"
        using s inv(2) word_less_len(1) [OF inv(2)] eqs(4) by auto
      have inv1: "inb w0 = (stored @ bs) @ inb w1" using inv(1) s by simp
      show "read_ok inb len w0 r"
      proof (cases "rc < 0")
        case True
        with body rv ov s inv1 inv(2) show ?thesis by (auto simp: eqs(1-3) read_ok_def)
      next
        case False
        then have rc: "rc = int (length bs)" using s by auto
        then have k1: "cint (k + rc) = Some (int (length (stored @ bs)))"
          using fits len by (simp add: eqs(4) cint_def INT_MIN_def INT_MAX_def)
        obtain e x' n' w2 where ck: "xTaskCheckForTimeOut os x n w1 = (e, x', n', w2)" by (metis prod_cases4)
        have w2: "inb w2 = inb w1" by (rule stream_socketD(3) [OF net ck])
        have r: "(if length (stored @ bs) < unat len then
             (if e then Some (int (length (stored @ bs)), stored @ bs, w2)
              else self os sock len (int (length (stored @ bs))) (stored @ bs) x' n' w2)
           else Some (int (length (stored @ bs)), stored @ bs, w1)) = Some r"
          using body rv ov False k1 ck word_less_len(2) [OF fits [OF rc]] by (simp only: eqs(1-3)) (simp add: Let_def cong: if_cong)
        show ?thesis
        proof (cases "length (stored @ bs) < unat len \<and> \<not> e")
          case True
          with r have "self os sock len (int (length (stored @ bs))) (stored @ bs) x' n' w2 = Some r"
            by (simp only: if_True if_False simp_thms)
          from IH [OF this] show ?thesis using inv1 w2 fits [OF rc] by (simp add: Q_def)
        next
          case F: False
          then have "r = (int (length (stored @ bs)), stored @ bs, w2) \<or> r = (int (length (stored @ bs)), stored @ bs, w1)"
            using r by (auto split: if_splits)
          then show ?thesis using inv1 w2 fits [OF rc] by (auto simp: read_ok_def)
        qed
      qed
    qed
  qed
  with assms(3,4) show ?thesis by (simp add: Q_def)
qed

lemma esp_read_ok:
  assumes net: "stream_socket os (my_socket n) inb" and len: "unat len < 2147483648"
    and "esp_read os n len timeout_ms w = Some r"
  shows "read_ok inb len w r"
proof -
  obtain x w1 where v: "vTaskSetTimeOutState os w = (x, w1)" by fastforce
  obtain ready rs ws es tv w2 where s: "sys_select os (my_socket n + 1) (Some [my_socket n], None, None) (net_timeval timeout_ms) w1 =
      (ready, (rs, ws, es), tv, w2)" by (metis prod_cases3)
  have w2: "inb w2 = inb w" using stream_socketD(2) [OF net v] stream_socketD(4) [OF net s] by simp
  show ?thesis
  proof (cases "ready > 0 \<and> FD_ISSET (my_socket n) rs")
    case True
    with assms(3) v s have "recv_loop os (my_socket n) len (int (length [])) [] x (timeout_ms div portTICK_PERIOD_MS os) w2 = Some r"
      by (simp add: esp_read_def)
    from recv_loop_ok [OF net len _ _ this, of w] show ?thesis using w2 by simp
  next
    case False
    with assms(3) v s have "r = (0, [], w2)" by (auto simp: esp_read_def)
    with w2 show ?thesis by (simp add: read_ok_def)
  qed
qed

text \<open>Waiting uses up time: every test of a time-out that does not report expiry
  brings \<open>left\<close> down, and receiving or sending does not put it up again.\<close>

definition runs_out :: "('w, 'o) os \<Rightarrow> ('o \<Rightarrow> 32 word \<Rightarrow> 'w \<Rightarrow> nat) \<Rightarrow> bool" where
  "runs_out os left \<longleftrightarrow>
     (\<forall>x n w. case xTaskCheckForTimeOut os x n w of (e, x', n', w') \<Rightarrow> \<not> e \<longrightarrow> left x' n' w' < left x n w) \<and>
     (\<forall>s len x n w. left x n (snd (snd (sys_recv os s len w))) \<le> left x n w) \<and>
     (\<forall>s bs len x n w. left x n (snd (sys_send os s bs len w)) \<le> left x n w)"

lemma runs_outD:
  assumes "runs_out os left"
  shows "xTaskCheckForTimeOut os x n w = (False, x', n', w') \<Longrightarrow> left x' n' w' < left x n w"
    and "sys_recv os s len w = (rc, bs, w') \<Longrightarrow> left x n w' \<le> left x n w"
    and "sys_send os s buf len w = (rc, w') \<Longrightarrow> left x n w' \<le> left x n w"
proof -
  have "\<forall>x n w. case xTaskCheckForTimeOut os x n w of (e, x', n', w') \<Rightarrow> \<not> e \<longrightarrow> left x' n' w' < left x n w"
    using assms unfolding runs_out_def by (elim conjE)
  then have "case xTaskCheckForTimeOut os x n w of (e, x', n', w') \<Rightarrow> \<not> e \<longrightarrow> left x' n' w' < left x n w"
    by (elim allE)
  then show "xTaskCheckForTimeOut os x n w = (False, x', n', w') \<Longrightarrow> left x' n' w' < left x n w" by simp
  have "left x n (snd (snd (sys_recv os s len w))) \<le> left x n w" "left x n (snd (sys_send os s buf len w)) \<le> left x n w"
    using assms unfolding runs_out_def by blast+
  then show "sys_recv os s len w = (rc, bs, w') \<Longrightarrow> left x n w' \<le> left x n w"
    and "sys_send os s buf len w = (rc, w') \<Longrightarrow> left x n w' \<le> left x n w" by simp_all
qed

lemma recv_loop_returns:
  assumes net: "stream_socket os sock inb" and time: "runs_out os left" and len: "unat len < 2147483648"
  shows "k \<le> unat len \<Longrightarrow> \<exists>r. recv_loop os sock len (int k) stored x n w = Some r"
proof (induction "left x n w" arbitrary: k stored x n w rule: less_induct)
  case less
  obtain rc bs w1 where rv: "sys_recv os sock (len - word_of_int (int k)) w = (rc, bs, w1)" by (metis prod_cases3)
  obtain e x' n' w2 where ck: "xTaskCheckForTimeOut os x n w1 = (e, x', n', w2)" by (metis prod_cases4)
  note s = stream_socketD(1) [OF net rv]
  show ?case
  proof (cases "rc < 0")
    case True
    with rv show ?thesis by (subst recv_loop.simps) (simp add: Let_def)
  next
    case False
    then have rc: "rc = int (length bs)" "k + length bs \<le> unat len"
      using s word_less_len(1) [OF less.prems] less.prems by auto
    then have c: "cint (int k + rc) = Some (int (k + length bs))"
      using len by (simp add: cint_def INT_MIN_def INT_MAX_def)
    show ?thesis
    proof (cases "e \<or> \<not> word_of_int (int (k + length bs)) < len")
      case True
      with rv ck c False show ?thesis by (subst recv_loop.simps) (auto simp: Let_def)
    next
      case F: False
      have "left x' n' w2 < left x n w"
      proof -
        have "left x' n' w2 < left x n w1" using F ck by (intro runs_outD(1) [OF time]) simp
        also have "\<dots> \<le> left x n w" by (rule runs_outD(2) [OF time rv])
        finally show ?thesis .
      qed
      then obtain r where "recv_loop os sock len (int (k + length bs)) (overlay stored k bs) x' n' w2 = Some r"
        using less.hyps rc(2) by blast
      moreover have "word_of_int (int (k + length bs)) < len" "\<not> e" using F by simp_all
      ultimately show ?thesis using rv ck c False by (subst recv_loop.simps) (simp only: Let_def prod.case if_True if_False bind.bind_lunit nat_int option.inject ex_simps, blast)
    qed
  qed
qed

text \<open>
  C17: reading from a stream socket returns, and what it stores are the next
  bytes of the stream, at most as many as asked for. A return value that is not
  negative counts them. A negative one does not: when \<open>recv\<close> fails after a part of the
  bytes has come, that part is gone from the stream and the caller is not told.
\<close>

theorem esp_read_takes_prefix:
  assumes net: "stream_socket os (my_socket n) inb" and time: "runs_out os left" and len: "unat len < 2147483648"
  shows "\<exists>rc bs w'. esp_read os n len timeout_ms w = Some (rc, bs, w') \<and> inb w = bs @ inb w' \<and>
    length bs \<le> unat len \<and> (rc < 0 \<or> rc = int (length bs))"
proof -
  obtain x w1 where v: "vTaskSetTimeOutState os w = (x, w1)" by fastforce
  obtain ready rs ws es tv w2 where s: "sys_select os (my_socket n + 1) (Some [my_socket n], None, None) (net_timeval timeout_ms) w1 =
      (ready, (rs, ws, es), tv, w2)" by (metis prod_cases3)
  have "\<exists>r. recv_loop os (my_socket n) len (int 0) [] x (timeout_ms div portTICK_PERIOD_MS os) w2 = Some r"
    by (rule recv_loop_returns [OF net time len]) simp
  with v s have "\<exists>r. esp_read os n len timeout_ms w = Some r" by (auto simp: esp_read_def)
  then obtain r where r: "esp_read os n len timeout_ms w = Some r" by blast
  from esp_read_ok [OF net len r] r show ?thesis by (cases r) (auto simp: read_ok_def)
qed

lemma bench_stream: "stream_socket (bench_os a b) s (\<lambda>w. concat (bk_in w))"
proof -
  have "concat (bk_in w) = bs @ concat (bk_in w') \<and> (rc < 0 \<and> bs = [] \<or> rc = int (length bs) \<and> length bs \<le> unat len)"
    if "bench_recv len w = (rc, bs, w')" for len w rc bs w'
    using that by (cases "bk_in w") (auto simp: bench_recv_def Let_def min_def split: if_splits)
  moreover have "bk_in (snd (snd (snd (bench_select fds tv w)))) = bk_in w" for fds tv w
    by (auto simp: bench_select_def split: prod.splits list.splits)
  ultimately show ?thesis by (simp add: stream_socket_def bench_os_def split: prod.splits)
qed

lemma bench_runs_out: "runs_out (bench_os a b) (\<lambda>x n w. x + unat n - bk_now w)"
proof -
  have k: "unat (word_of_nat m :: 32 word) \<le> m" for m by (simp add: unat_of_nat)
  have "bk_now w + unat (word_of_nat (x + unat n - bk_now w) :: 32 word) - (bk_now w + 1) < x + unat n - bk_now w"
    if "\<not> x + unat n \<le> bk_now w" for x and n :: "32 word" and w :: bench_kernel
    using that k [of "x + unat n - bk_now w"] by linarith
  moreover have "bk_now (snd (snd (bench_recv len w))) = bk_now w" for len and w :: bench_kernel
    by (simp add: bench_recv_def Let_def split: list.splits)
  ultimately show ?thesis by (simp add: runs_out_def bench_os_def)
qed

theorem esp_read_takes_prefix_witness:
  "\<exists>rc bs w'. esp_read (bench_os 0 1) bench_network 4 1000 (bench_kernel_world [[1, 2], [3]] [1]) = Some (rc, bs, w') \<and>
    concat (bk_in (bench_kernel_world [[1, 2], [3]] [1])) = bs @ concat (bk_in w') \<and> length bs \<le> unat (4 :: 32 word) \<and> (rc < 0 \<or> rc = int (length bs))"
  by (rule esp_read_takes_prefix [OF bench_stream bench_runs_out]) simp

text \<open>
  the loss happens: three of four bytes have arrived, in two segments, and the third
  \<open>recv\<close> finds nothing.
\<close>

lemma esp_read_loses_bytes:
  "map_option (\<lambda>(rc, bs, w). (rc, bs, bk_in w)) (esp_read (bench_os 0 1) bench_network 4 1000 (bench_kernel_world [[1, 2], [3]] [1])) =
    Some (-1, [1, 2, 3], [])"
  by code_simp

section \<open>Writing\<close>

definition emptied :: "fd_sets \<Rightarrow> bool" where
  "emptied fds \<longleftrightarrow> (case fds of (r, w, e) \<Rightarrow> r \<in> {None, Some []} \<and> w \<in> {None, Some []} \<and> e \<in> {None, Some []})"

text \<open>\<open>select\<close> leaves in the sets the descriptors that are ready: none on a timeout,
  and none when it was given none.\<close>

definition select_clears :: "('w, 'o) os \<Rightarrow> bool" where
  "select_clears os \<longleftrightarrow> (\<forall>n fds tv w. case sys_select os n fds tv w of (ready, fds', tv', w') \<Rightarrow>
     (ready = 0 \<longrightarrow> emptied fds') \<and> (emptied fds \<longrightarrow> ready \<le> 0 \<and> emptied fds'))"

lemma select_clearsD:
  assumes "select_clears os" and "sys_select os n fds tv w = (ready, fds', tv', w')"
  shows "ready = 0 \<Longrightarrow> emptied fds'" and "emptied fds \<Longrightarrow> ready \<le> 0 \<and> emptied fds'"
  using assms unfolding select_clears_def by (metis (mono_tags, lifting) case_prod_conv)+

lemma wait_writable_hangs:
  fixes os :: "('w, 'o) os"
  assumes "select_clears os" and "emptied fds"
  shows "wait_writable os sock fds tv w = None"
proof (rule ccontr)
  assume "wait_writable os sock fds tv w \<noteq> None"
  then obtain r where r: "wait_writable os sock fds tv w = Some r" by auto
  define Q where "Q = (\<lambda>((((os' :: ('w, 'o) os, sock :: int), fds), tv :: timeval), w :: 'w) (r :: fd_sets \<times> 'w). os' = os \<longrightarrow> \<not> emptied fds)"
  have "Q ((((os, sock), fds), tv), w) r"
  proof (rule wait_writable.raw_induct [OF _ r])
    fix self os' sock fds tv w r
    assume IH: "\<And>os' sock fds tv w r. self os' sock fds tv w = Some r \<Longrightarrow> Q ((((os', sock), fds), tv), w) r"
      and body: "(let (readysock, fds, tv, w) = sys_select os' (sock + 1) fds tv w
        in if readysock \<le> 0 then self os' sock fds tv w else Some (fds, w)) = Some r"
    obtain ready fds1 tv1 w1 where s: "sys_select os' (sock + 1) fds tv w = (ready, fds1, tv1, w1)" by (metis prod_cases4)
    have "\<not> emptied fds" if os': "os' = os"
    proof
      assume "emptied fds"
      then have c: "ready \<le> 0" "emptied fds1" using select_clearsD(2) [OF assms(1)] s os' by blast+
      then have "self os' sock fds1 tv1 w1 = Some r" using body s by simp
      from IH [OF this] c(2) os' show False by (simp add: Q_def)
    qed
    then show "Q ((((os', sock), fds), tv), w) r" by (simp add: Q_def)
  qed
  with assms(2) show False by (simp add: Q_def)
qed

text \<open>
  when the socket does not become writable within the first time-out,
  \<open>esp_write\<close> never returns, however soon the socket becomes writable afterwards: the
  loop calls \<open>select\<close> again with the set the time-out has emptied. So \<open>MQTTYield\<close> and
  every request over this platform can block for ever, holding the client's mutex.
\<close>

theorem esp_write_hangs_after_timeout:
  assumes "select_clears os" and "vTaskSetTimeOutState os w = (x, w1)"
    and "sys_select os (my_socket n + 1) (None, Some [my_socket n], None) (net_timeval timeout_ms) w1 = (0, fds, tv, w2)"
  shows "esp_write os n buffer len timeout_ms w = None"
proof -
  have "emptied fds" using select_clearsD(1) [OF assms(1,3)] by simp
  then have "wait_writable os (my_socket n) fds tv w2 = None" by (rule wait_writable_hangs [OF assms(1)])
  then have "wait_writable os (my_socket n) (None, Some [my_socket n], None) (net_timeval timeout_ms) w1 = None"
    using assms(3) by (subst wait_writable.simps) simp
  with assms(2) show ?thesis by (simp add: esp_write_def)
qed

lemma bench_select_clears: "select_clears (bench_os a b)"
proof -
  have e: "emptied (map_option (\<lambda>_. []) r, map_option (\<lambda>_. []) s, map_option (\<lambda>_. []) x)" for r s x
    by (cases r; cases s; cases x) (simp_all add: emptied_def)
  have f: "(r, s, x) = (map_option (\<lambda>_. []) r, map_option (\<lambda>_. []) s, map_option (\<lambda>_. []) x)" if "emptied (r, s, x)" for r s x
    using that by (auto simp: emptied_def)
  have "(ready = 0 \<longrightarrow> emptied fds') \<and> (emptied fds \<longrightarrow> ready \<le> 0 \<and> emptied fds')"
    if b: "bench_select fds tv w = (ready, fds', tv', w')" for fds tv w ready fds' tv' w'
  proof (cases fds)
    case (fields r s x)
    show ?thesis
    proof (cases "bk_select w")
      case Nil
      with b fields e show ?thesis by (auto simp: bench_select_def)
    next
      case (Cons rc rest)
      with b fields e [of r s x] f [of r s x] show ?thesis
        by (simp add: bench_select_def split: if_splits) blast+
    qed
  qed
  then have "case bench_select fds tv w of (ready, fds', tv', w') \<Rightarrow>
      (ready = 0 \<longrightarrow> emptied fds') \<and> (emptied fds \<longrightarrow> ready \<le> 0 \<and> emptied fds')" for fds tv w
    by (cases "bench_select fds tv w") blast
  then show ?thesis unfolding select_clears_def bench_os_def os.simps by blast
qed

theorem esp_write_hangs_after_timeout_witness:
  "esp_write (bench_os 0 1) bench_network [1, 2] 2 1000 (bench_kernel_world [] [0, 1, 1]) = None"
  by (rule esp_write_hangs_after_timeout [OF bench_select_clears])
     (auto simp: bench_os_def bench_select_def bench_kernel_world_def bench_network_def)

end
