(* ===== verification/FreeRTOS_Connect.thy ===== *)
theory FreeRTOS_Connect
  imports FreeRTOS_Net
begin

text \<open>
  Opening and closing connections on FreeRTOS: the sockets, TLS contexts and TLS
  connections in use, counted over all exits of \<open>NetworkConnect\<close> and
  \<open>NetworkConnectSSL\<close>, and the three-call protocol of \<open>esp_ssl_read\<close>.
\<close>

section \<open>Resources\<close>

text \<open>\<open>live\<close> is the set of open sockets, of contexts and of TLS connections.\<close>

type_synonym resources = "int set \<times> nat set \<times> nat set"

definition accounts :: "('w, 'o) os \<Rightarrow> ('w \<Rightarrow> resources) \<Rightarrow> bool" where
  "accounts os live \<longleftrightarrow>
     (\<forall>w S C L. live w = (S, C, L) \<longrightarrow>
        (case sys_socket os w of (s, w') \<Rightarrow> s < 0 \<and> live w' = (S, C, L) \<or> s \<ge> 0 \<and> s \<notin> S \<and> live w' = (insert s S, C, L)) \<and>
        (\<forall>m. case SSL_CTX_new os m w of (c, w') \<Rightarrow> c = 0 \<and> live w' = (S, C, L) \<or> c \<noteq> 0 \<and> c \<notin> C \<and> live w' = (S, insert c C, L)) \<and>
        (\<forall>c. case SSL_new os c w of (l, w') \<Rightarrow> l = 0 \<and> live w' = (S, C, L) \<or> l \<noteq> 0 \<and> l \<notin> L \<and> live w' = (S, C, insert l L)) \<and>
        (\<forall>s. live (sys_close os s w) = (S - {s}, C, L)) \<and>
        (\<forall>c. live (SSL_CTX_free os c w) = (S, C - {c}, L)) \<and>
        (\<forall>l. live (SSL_free os l w) = (S, C, L - {l})) \<and>
        (\<forall>a. live (snd (sys_gethostbyname os a w)) = (S, C, L)) \<and>
        (\<forall>s a. live (snd (sys_connect os s a w)) = (S, C, L)) \<and>
        (\<forall>c ca. live (snd (SSL_CTX_load_verify_buffer os c ca w)) = (S, C, L)) \<and>
        (\<forall>c x. live (snd (SSL_CTX_use_certificate_ASN1 os c x w)) = (S, C, L)) \<and>
        (\<forall>c x. live (snd (SSL_CTX_use_PrivateKey_ASN1 os c x w)) = (S, C, L)) \<and>
        (\<forall>c v. live (SSL_CTX_set_verify os c v w) = (S, C, L)) \<and>
        (\<forall>l s. live (SSL_set_fd os l s w) = (S, C, L)) \<and>
        (\<forall>l. live (snd (SSL_connect os l w)) = (S, C, L)))"

lemma accountsD:
  assumes "accounts os live" and "live w = (S, C, L)"
  shows "sys_socket os w = (s, w') \<Longrightarrow> s < 0 \<and> live w' = (S, C, L) \<or> s \<ge> 0 \<and> s \<notin> S \<and> live w' = (insert s S, C, L)"
    and "SSL_CTX_new os m w = (c, w') \<Longrightarrow> c = 0 \<and> live w' = (S, C, L) \<or> c \<noteq> 0 \<and> c \<notin> C \<and> live w' = (S, insert c C, L)"
    and "SSL_new os k w = (l, w') \<Longrightarrow> l = 0 \<and> live w' = (S, C, L) \<or> l \<noteq> 0 \<and> l \<notin> L \<and> live w' = (S, C, insert l L)"
    and "live (sys_close os t w) = (S - {t}, C, L)"
    and "live (SSL_CTX_free os k w) = (S, C - {k}, L)"
    and "live (SSL_free os k w) = (S, C, L - {k})"
    and "sys_gethostbyname os a w = (ip, w') \<Longrightarrow> live w' = (S, C, L)"
    and "sys_connect os t sa w = (rc, w') \<Longrightarrow> live w' = (S, C, L)"
    and "SSL_CTX_load_verify_buffer os k x w = (rc, w') \<Longrightarrow> live w' = (S, C, L)"
    and "SSL_CTX_use_certificate_ASN1 os k x w = (rc, w') \<Longrightarrow> live w' = (S, C, L)"
    and "SSL_CTX_use_PrivateKey_ASN1 os k x w = (rc, w') \<Longrightarrow> live w' = (S, C, L)"
    and "live (SSL_CTX_set_verify os k v w) = (S, C, L)"
    and "live (SSL_set_fd os k t w) = (S, C, L)"
    and "SSL_connect os k w = (rc, w') \<Longrightarrow> live w' = (S, C, L)"
proof -
  note all = assms(1) [unfolded accounts_def, rule_format, OF assms(2)]
  show "sys_socket os w = (s, w') \<Longrightarrow> s < 0 \<and> live w' = (S, C, L) \<or> s \<ge> 0 \<and> s \<notin> S \<and> live w' = (insert s S, C, L)"
    using all by simp
  show "SSL_CTX_new os m w = (c, w') \<Longrightarrow> c = 0 \<and> live w' = (S, C, L) \<or> c \<noteq> 0 \<and> c \<notin> C \<and> live w' = (S, insert c C, L)"
    using all by (metis (mono_tags, lifting) case_prod_conv)
  show "SSL_new os k w = (l, w') \<Longrightarrow> l = 0 \<and> live w' = (S, C, L) \<or> l \<noteq> 0 \<and> l \<notin> L \<and> live w' = (S, C, insert l L)"
    using all by (metis (mono_tags, lifting) case_prod_conv)
qed (use assms(1) [unfolded accounts_def, rule_format, OF assms(2)] in \<open>metis snd_conv\<close>)+

text \<open>The outcome of an attempt to connect: nothing is left over, or one socket (and
  one context and connection) is, and it is the one recorded in the network.\<close>

definition opened :: "('w \<Rightarrow> resources) \<Rightarrow> 'w \<Rightarrow> Network \<Rightarrow> 'w \<Rightarrow> bool" where
  "opened live w n w' \<longleftrightarrow>
     (case live w of (S, C, L) \<Rightarrow> my_socket n \<notin> S \<and> ctx n \<notin> C \<and> ssl n \<notin> L \<and>
        live w' = (insert (my_socket n) S, insert (ctx n) C, insert (ssl n) L))"

lemma ssl_open_accounts:
  assumes acc: "accounts os live" and o: "live w = (S, insert c C, L)" and c: "c \<notin> C" "ctx n = c"
    and r: "ssl_open os n ip port retVal w = (rc, n', w')"
  shows "live w' = (S, C, L) \<or>
    rc > 0 \<and> my_socket n' \<notin> S \<and> ctx n' = c \<and> ssl n' \<notin> L \<and> live w' = (insert (my_socket n') S, insert c C, insert (ssl n') L)"
proof -
  obtain s w1 where s: "sys_socket os w = (s, w1)" by fastforce
  let ?a = "\<lparr>sin_family = AF_INET, sin_addr = ip, sin_port = sys_htons os port\<rparr>"
  obtain rv w2 where k: "sys_connect os s ?a w1 = (rv, w2)" by fastforce
  obtain l w3 where l: "SSL_new os c w2 = (l, w3)" by fastforce
  define w4 where "w4 = SSL_set_fd os l s w3"
  obtain h w5 where h: "SSL_connect os l w4 = (h, w5)" by fastforce
  note D = accountsD [OF acc]
  have Cc: "insert c C - {c} = C" using c by simp
  consider (none) "s < 0" | (refused) "0 \<le> s" "rv < 0" | (nossl) "0 \<le> s" "\<not> rv < 0" "l = 0"
    | (failed) "0 \<le> s" "\<not> rv < 0" "l \<noteq> 0" "h \<le> 0" | (ok) "0 \<le> s" "\<not> rv < 0" "l \<noteq> 0" "\<not> h \<le> 0" by linarith
  then show ?thesis
  proof cases
    case none
    then have "w' = SSL_CTX_free os c w1" using r s c by (simp add: ssl_open_def Let_def)
    moreover have "live w1 = (S, insert c C, L)" using D(1) [OF o s] none by auto
    ultimately show ?thesis using D(5) Cc by metis
  next
    case refused
    then have s1: "s \<notin> S" "live w1 = (insert s S, insert c C, L)" using D(1) [OF o s] by auto
    have "w' = SSL_CTX_free os c (sys_close os s w2)" using r s c k refused by (simp add: ssl_open_def Let_def)
    moreover have "live (sys_close os s w2) = (S, insert c C, L)"
      using D(4) [OF D(8) [OF s1(2) k], of s] s1(1) by simp
    ultimately show ?thesis using D(5) Cc by metis
  next
    case nossl
    then have s1: "s \<notin> S" "live w1 = (insert s S, insert c C, L)" using D(1) [OF o s] by auto
    have w3: "live w3 = (insert s S, insert c C, L)" using D(3) [OF D(8) [OF s1(2) k] l] nossl by auto
    have "w' = SSL_CTX_free os c (sys_close os s w3)" using r s c k l nossl by (simp add: ssl_open_def Let_def)
    moreover have "live (sys_close os s w3) = (S, insert c C, L)" using D(4) [OF w3, of s] s1(1) by simp
    ultimately show ?thesis using D(5) Cc by metis
  next
    case failed
    then have s1: "s \<notin> S" "live w1 = (insert s S, insert c C, L)" using D(1) [OF o s] by auto
    have w3: "l \<notin> L" "live w3 = (insert s S, insert c C, insert l L)" using D(3) [OF D(8) [OF s1(2) k] l] failed by auto
    have w5: "live w5 = (insert s S, insert c C, insert l L)" using D(14) [OF _ h] D(13) [OF w3(2)] by (simp add: w4_def)
    have "w' = SSL_CTX_free os c (sys_close os s (SSL_free os l w5))"
      using r s c k l failed h by (simp add: ssl_open_def Let_def w4_def)
    moreover have "live (SSL_free os l w5) = (insert s S, insert c C, L)" using D(6) [OF w5, of l] w3(1) by simp
    then have "live (sys_close os s (SSL_free os l w5)) = (S, insert c C, L)" using D(4) s1(1) by (metis Diff_insert_absorb)
    ultimately show ?thesis using D(5) Cc by metis
  next
    case ok
    then have s1: "s \<notin> S" "live w1 = (insert s S, insert c C, L)" using D(1) [OF o s] by auto
    have w3: "l \<notin> L" "live w3 = (insert s S, insert c C, insert l L)" using D(3) [OF D(8) [OF s1(2) k] l] ok by auto
    have w5: "live w5 = (insert s S, insert c C, insert l L)" using D(14) [OF _ h] D(13) [OF w3(2)] by (simp add: w4_def)
    have "rc = h" "n' = n\<lparr>my_socket := s, ssl := l\<rparr>" "w' = w5"
      using r s c k l ok h by (simp_all add: ssl_open_def Let_def w4_def)
    with s1 w3 w5 ok c show ?thesis by simp
  qed
qed

lemma load_ca_live:
  assumes "accounts os live" and "live w = (S, C, L)" and "ssl_load_ca os c cck rv w = (go, rv', w')"
  shows "live w' = (S, C, L)"
  using assms(2,3) accountsD(9) [OF assms(1,2)]
  by (auto simp: ssl_load_ca_def split: option.splits prod.splits)

lemma load_cert_live:
  assumes "accounts os live" and "live w = (S, C, L)" and "ssl_load_cert os c cck rv w = (go, rv', w')"
  shows "live w' = (S, C, L)"
proof (cases "cert cck = None \<or> key cck = None")
  case True
  with assms(2,3) show ?thesis by (auto simp: ssl_load_cert_def split: option.splits)
next
  case False
  then obtain crt k where ck: "cert cck = Some crt" "key cck = Some k" by auto
  obtain a w1 where a: "SSL_CTX_use_certificate_ASN1 os c crt w = (a, w1)" by fastforce
  obtain b w2 where b: "SSL_CTX_use_PrivateKey_ASN1 os c k w1 = (b, w2)" by fastforce
  note w1 = accountsD(10) [OF assms(1,2) a]
  note w2 = accountsD(11) [OF assms(1) w1 b]
  show ?thesis using assms(3) a b ck w1 w2 by (auto simp: ssl_load_cert_def split: if_splits)
qed

text \<open>
  C16: \<open>NetworkConnectSSL\<close> leaks nothing. Whatever fails, on whichever exit,
  the sockets, contexts and TLS connections in use afterwards are those in use
  before; otherwise exactly one of each is new, they are those recorded in the
  network, and the return value is positive.
\<close>

theorem connect_ssl_leaks_nothing:
  assumes acc: "accounts os live" and r: "NetworkConnectSSL os n addr port cck method verify_mode w = (rc, n', w')"
  shows "live w' = live w \<or> rc > 0 \<and> opened live w n' w'"
proof -
  obtain S C L where o: "live w = (S, C, L)" by (cases "live w")
  note D = accountsD [OF acc]
  obtain ip w1 where h: "sys_gethostbyname os addr w = (ip, w1)" by fastforce
  have w1: "live w1 = (S, C, L)" by (rule D(7) [OF o h])
  show ?thesis
  proof (cases ip)
    case None
    with r h w1 o show ?thesis by (simp add: NetworkConnectSSL_def)
  next
    case (Some a)
    obtain c w2 where c: "SSL_CTX_new os method w1 = (c, w2)" by fastforce
    show ?thesis
    proof (cases "c = 0")
      case True
      with r h c Some D(2) [OF w1 c] o show ?thesis by (auto simp: NetworkConnectSSL_def Let_def)
    next
      case c0: False
      then have w2: "c \<notin> C" "live w2 = (S, insert c C, L)" using D(2) [OF w1 c] by auto
      have free: "live (SSL_CTX_free os c v) = (S, C, L)" if "live v = (S, insert c C, L)" for v
        using D(5) [OF that, of c] w2(1) by simp
      obtain go1 rv1 w3 where l1: "ssl_load_ca os c cck (-1) w2 = (go1, rv1, w3)" by (metis prod_cases3)
      obtain go2 rv2 w4 where l2: "ssl_load_cert os c cck rv1 w3 = (go2, rv2, w4)" by (metis prod_cases3)
      note w3 = load_ca_live [OF acc w2(2) l1]
      note w4 = load_cert_live [OF acc w3 l2]
      show ?thesis
      proof (cases "go1 \<and> go2")
        case False
        with r h c Some c0 l1 l2 free [OF w3] free [OF w4] o show ?thesis
          by (auto simp: NetworkConnectSSL_def Let_def split: if_splits)
      next
        case True
        let ?w5 = "SSL_CTX_set_verify os c (if cacrt cck \<noteq> None then verify_mode else SSL_VERIFY_NONE) w4"
        have "ssl_open os (n\<lparr>ctx := c\<rparr>) a port rv2 ?w5 = (rc, n', w')"
          using r h c Some c0 l1 l2 True by (simp add: NetworkConnectSSL_def Let_def)
        from ssl_open_accounts [OF acc D(12) [OF w4] w2(1) _ this] show ?thesis
          using o w2(1) by (auto simp: opened_def)
      qed
    qed
  qed
qed

lemma bench_fresh_new: "bench_fresh l \<notin> set l" "0 < bench_fresh l"
proof -
  have "x \<le> fold max l a" if "x \<in> set l \<or> x \<le> a" for x a :: nat
    using that
  proof (induction l arbitrary: a)
    case (Cons y l)
    then show ?case by (auto simp: max_def)
  qed simp
  then show "bench_fresh l \<notin> set l" by (fastforce simp: bench_fresh_def)
  show "0 < bench_fresh l" by (simp add: bench_fresh_def)
qed

definition bench_live :: "bench_kernel \<Rightarrow> resources" where
  "bench_live w = (set (fst (bk_live w)), set (fst (snd (bk_live w))), set (snd (snd (bk_live w))))"

lemma bench_accounts: "accounts (bench_os a b) bench_live"
proof -
  have "int (bench_fresh (map nat l)) \<notin> set l" for l
    using bench_fresh_new(1) [of "map nat l"] by (auto simp: image_iff)
  then show ?thesis
    using bench_fresh_new by (simp add: accounts_def bench_os_def bench_live_def Let_def set_removeAll)
qed

theorem connect_ssl_leaks_nothing_witness:
  "case NetworkConnectSSL (bench_os 0 (-1)) (NetworkInitSSL bench_network) [0x61] 8883 \<lparr>cacrt = Some [1], cert = None, key = None\<rparr> 1 1
     (bench_kernel_world [] []) of (rc, n', w') \<Rightarrow> bench_live w' = bench_live (bench_kernel_world [] []) \<and> rc = -1"
proof -
  obtain rc n' w' where r: "NetworkConnectSSL (bench_os 0 (-1)) (NetworkInitSSL bench_network) [0x61] 8883
      \<lparr>cacrt = Some [1], cert = None, key = None\<rparr> 1 1 (bench_kernel_world [] []) = (rc, n', w')" by (metis prod_cases3)
  have "fst (NetworkConnectSSL (bench_os 0 (-1)) (NetworkInitSSL bench_network) [0x61] 8883
      \<lparr>cacrt = Some [1], cert = None, key = None\<rparr> 1 1 (bench_kernel_world [] [])) = -1" by code_simp
  then have rc: "rc = -1" by (simp only: r fst_conv)
  then have "bench_live w' = bench_live (bench_kernel_world [] [])"
    using connect_ssl_leaks_nothing [OF bench_accounts r] by auto
  with rc show ?thesis unfolding r prod.case by blast
qed

text \<open>
  \<open>retVal\<close> keeps the result of the step before, so when the certificate has
  been loaded and no socket is to be had, the function returns 1, the value of a
  completed handshake, with nothing open.
\<close>

lemma connect_ssl_false_success:
  assumes "sys_gethostbyname os addr w = (Some ip, w1)" and "SSL_CTX_new os method w1 = (c, w2)" and "c \<noteq> 0"
    and "cacrt cck = Some ca" and "SSL_CTX_load_verify_buffer os c ca w2 = (1, w3)" and "cert cck = None"
    and "sys_socket os (SSL_CTX_set_verify os c verify_mode w3) = (s, w4)" and "s < 0"
  shows "\<exists>n'. NetworkConnectSSL os n addr port cck method verify_mode w = (1, n', SSL_CTX_free os c w4)"
  using assms by (simp add: NetworkConnectSSL_def ssl_load_ca_def ssl_load_cert_def ssl_open_def Let_def)

text \<open>The plain network.\<close>

lemma connect_leaks_nothing:
  assumes acc: "accounts os live" and o: "live w = (S, C, L)" and r: "NetworkConnect os n addr port w = (rc, n', w')"
  shows "if rc < 0 then live w' = live w else my_socket n' \<notin> S \<and> live w' = (insert (my_socket n') S, C, L)"
proof -
  note D = accountsD [OF acc]
  obtain ip w1 where h: "sys_gethostbyname os addr w = (ip, w1)" by fastforce
  have w1: "live w1 = (S, C, L)" by (rule D(7) [OF o h])
  show ?thesis
  proof (cases ip)
    case None
    with r h w1 o show ?thesis by (simp add: NetworkConnect_def)
  next
    case (Some a)
    obtain s w2 where s: "sys_socket os w1 = (s, w2)" by fastforce
    let ?a = "\<lparr>sin_family = AF_INET, sin_addr = a, sin_port = sys_htons os port\<rparr>"
    obtain rv w3 where k: "sys_connect os s ?a w2 = (rv, w3)" by fastforce
    show ?thesis
    proof (cases "s < 0")
      case True
      with r h Some s D(1) [OF w1 s] o show ?thesis by (auto simp: NetworkConnect_def Let_def)
    next
      case False
      then have w2: "s \<notin> S" "live w2 = (insert s S, C, L)" using D(1) [OF w1 s] by auto
      note w3 = D(8) [OF w2(2) k]
      from r h Some s k False w2 w3 D(4) [OF w3, of s] o show ?thesis
        by (auto simp: NetworkConnect_def Let_def split: if_splits)
    qed
  qed
qed

section \<open>Reading over TLS\<close>

text \<open>\<open>conn\<close> delivers a stream in the pieces asked for.\<close>

definition whole_reads :: "('w, 'o) os \<Rightarrow> nat \<Rightarrow> ('w \<Rightarrow> byte list) \<Rightarrow> bool" where
  "whole_reads os conn inb \<longleftrightarrow>
     (\<forall>w xs ys. inb w = xs @ ys \<longrightarrow> xs \<noteq> [] \<longrightarrow> length xs < 4294967296 \<longrightarrow>
        (\<exists>w'. SSL_read os conn (word_of_nat (length xs)) w = (int (length xs), xs, w') \<and> inb w' = ys)) \<and>
     (\<forall>w. inb (snd (vTaskSetTimeOutState os w)) = inb w) \<and>
     (\<forall>x n w. inb (snd (snd (snd (xTaskCheckForTimeOut os x n w)))) = inb w) \<and>
     (\<forall>n fds tv w. inb (snd (snd (snd (sys_select os n fds tv w)))) = inb w)"

lemma whole_readsD:
  assumes "whole_reads os conn inb"
  shows "inb w = xs @ ys \<Longrightarrow> xs \<noteq> [] \<Longrightarrow> length xs < 4294967296 \<Longrightarrow>
      \<exists>w'. SSL_read os conn (word_of_nat (length xs)) w = (int (length xs), xs, w') \<and> inb w' = ys"
    and "vTaskSetTimeOutState os w = (x, w') \<Longrightarrow> inb w' = inb w"
    and "xTaskCheckForTimeOut os x n w = (e, x', n', w') \<Longrightarrow> inb w' = inb w"
    and "sys_select os k fds tv w = (r, fds', tv', w') \<Longrightarrow> inb w' = inb w"
proof -
  show "inb w = xs @ ys \<Longrightarrow> xs \<noteq> [] \<Longrightarrow> length xs < 4294967296 \<Longrightarrow>
      \<exists>w'. SSL_read os conn (word_of_nat (length xs)) w = (int (length xs), xs, w') \<and> inb w' = ys"
    using assms unfolding whole_reads_def by blast
  have "inb (snd (vTaskSetTimeOutState os w)) = inb w" "inb (snd (snd (snd (xTaskCheckForTimeOut os x n w)))) = inb w"
    "inb (snd (snd (snd (sys_select os k fds tv w)))) = inb w"
    using assms unfolding whole_reads_def by blast+
  then show "vTaskSetTimeOutState os w = (x, w') \<Longrightarrow> inb w' = inb w"
    and "xTaskCheckForTimeOut os x n w = (e, x', n', w') \<Longrightarrow> inb w' = inb w"
    and "sys_select os k fds tv w = (r, fds', tv', w') \<Longrightarrow> inb w' = inb w" by simp_all
qed

lemma ssl_fill_whole:
  assumes "whole_reads os conn inb" and "inb w = xs @ ys" and "xs \<noteq> []" and "length xs < 2147483648"
  shows "(\<exists>h' w'. ssl_fill os conn p base (word_of_nat (length xs)) 0 x n h w =
      (case blit_at h p base xs of None \<Rightarrow> None
       | Some h' \<Rightarrow> Some (False, int (length xs), x, n, h', w')) \<and> inb w' = ys)"
proof -
  obtain w' where r: "SSL_read os conn (word_of_nat (length xs)) w = (int (length xs), xs, w')" "inb w' = ys"
    using whole_readsD(1) [OF assms(1,2,3)] assms(4) by auto
  have c: "cint (0 + int (length xs)) = Some (int (length xs))"
    using assms(4) by (simp add: cint_def INT_MIN_def INT_MAX_def)
  have "ssl_fill os conn p base (word_of_nat (length xs)) 0 x n h w =
      (case blit_at h p base xs of None \<Rightarrow> None
       | Some h' \<Rightarrow> Some (False, int (length xs), x, n, h', w'))"
    using r(1) c by (subst ssl_fill.simps) (simp add: Let_def split: option.split)
  with r(2) show ?thesis by blast
qed

lemma blit_at_twice:
  assumes "blit_at h p 0 [x, y] = Some h1"
  shows "blit_at h1 p 2 bs = blit_at h p 0 (x # y # bs)"
proof -
  obtain o' i where p: "p = (o', i)" by fastforce
  let ?b = "h o'"
  from assms p have f: "i + 2 \<le> length ?b" and h1: "h1 = h(o' := take i ?b @ [x, y] @ drop (i + 2) ?b)"
    by (auto simp: blit_at_def blit_def put_def split: if_splits)
  from f have l: "length (take i ?b @ [x, y] @ drop (i + 2) ?b) = length ?b" by simp
  show ?thesis
    using f by (auto simp: blit_at_def blit_def put_def p h1 min_absorb2 ac_simps)
qed

text \<open>
  the first call of \<open>esp_ssl_read\<close> for a packet reads the whole packet
  into the caller's buffer, whatever length the caller asked for: it takes the second
  byte, sent by the server, as the length of the rest and stores that many bytes. If
  the buffer is smaller it writes past its end (\<open>None\<close>); the check against
  \<open>readbuf_size\<close> in \<open>readPacket\<close> comes only after it.
\<close>

theorem ssl_read_trusts_length_byte:
  assumes net: "whole_reads os (ssl n) inb" and first: "read_count n = 0"
    and v: "vTaskSetTimeOutState os w = (x, w1)"
    and s: "sys_select os (my_socket n + 1) (Some [my_socket n], None, Some [my_socket n]) (net_timeval timeout_ms) w1 =
      (ready, (rs, ws, es), tv, w2)" and ready: "ready > 0" "\<not> FD_ISSET (my_socket n) es" "FD_ISSET (my_socket n) rs"
    and stream: "inb w = h # l # body @ rest" "length body = unat l"
  shows "\<exists>w'. inb w' = rest \<and> esp_ssl_read os n rb mem buffer len timeout_ms w =
    (case blit_at mem buffer 0 (h # l # body) of
       None \<Rightarrow> None
     | Some mem' \<Rightarrow> Some (1, n\<lparr>read_count := 1\<rparr>, Some buffer, mem', w'))"
proof -
  let ?t = "timeout_ms div portTICK_PERIOD_MS os"
  have w2: "inb w2 = [h, l] @ (body @ rest)" using whole_readsD(2) [OF net v] whole_readsD(4) [OF net s] stream(1) by simp
  obtain w3 where f1: "ssl_fill os (ssl n) buffer 0 2 0 x ?t mem w2 =
      (case blit_at mem buffer 0 [h, l] of None \<Rightarrow> None | Some m \<Rightarrow> Some (False, 2, x, ?t, m, w3))" "inb w3 = body @ rest"
  proof -
    have "(word_of_nat (length [h, l]) :: 32 word) = 2" "int (length [h, l]) = 2" by simp_all
    with ssl_fill_whole [OF net w2, of buffer 0 x ?t mem] that show ?thesis by (simp only:) auto
  qed
  have run: "esp_ssl_read os n rb mem buffer len timeout_ms w = do {
      (err, rc, x, t, m, w) \<leftarrow> ssl_fill os (ssl n) buffer 0 2 0 x ?t mem w2;
      (if err then Some (rc, n, Some buffer, m, w)
       else do {
         l \<leftarrow> load_at m buffer 1;
         (err, rc, x, t, m, w) \<leftarrow> (if l > 0 then ssl_fill os (ssl n) buffer 2 (ucast l) 0 x t m w else Some (False, 0, x, t, m, w));
         (if err then Some (rc, n, Some buffer, m, w)
          else do { k \<leftarrow> cint (read_count n + 1); Some (1, n\<lparr>read_count := k\<rparr>, Some buffer, m, w) }) }) }"
    using first v s ready by (simp add: esp_ssl_read_def)
  have l256: "length body < 256"
  proof -
    have "unat l < 2 ^ LENGTH(8)" by (rule unsigned_less)
    with stream(2) show ?thesis by simp
  qed
  have one: "cint (read_count n + 1) = Some 1" using first by (simp add: cint_def INT_MIN_def INT_MAX_def)
  show ?thesis
  proof (cases "blit_at mem buffer 0 [h, l]")
    case None
    then have "blit_at mem buffer 0 (h # l # body) = None"
      by (auto simp: blit_at_def blit_def put_def bind_eq_None_conv split: if_splits)
    moreover have "esp_ssl_read os n rb mem buffer len timeout_ms w = None" by (simp add: run f1 None)
    moreover obtain w4 where "inb w4 = rest"
    proof (cases "body = []")
      case True
      with f1(2) that show ?thesis by simp
    next
      case False
      moreover have "length body < 4294967296" using l256 by simp
      ultimately show ?thesis using whole_readsD(1) [OF net f1(2)] that by blast
    qed
    ultimately show ?thesis by auto
  next
    case (Some m)
    have ld: "load_at m buffer (Suc 0) = Some l"
      using Some by (auto simp: load_at_def load_def blit_at_def blit_def put_def nth_append split: if_splits)
    note two = blit_at_twice [OF Some, of body]
    show ?thesis
    proof (cases "body = []")
      case True
      then have "\<not> l > 0" using stream(2) by (simp add: word_less_nat_alt)
      then have "esp_ssl_read os n rb mem buffer len timeout_ms w = Some (1, n\<lparr>read_count := 1\<rparr>, Some buffer, m, w3)"
        by (simp add: run f1 Some ld one)
      with True Some f1(2) show ?thesis by auto
    next
      case False
      then have "0 < unat l" unfolding stream(2) [symmetric] by simp
      then have l: "l > 0" by (simp only: word_less_nat_alt unat_0)
      have u: "(word_of_nat (length body) :: 32 word) = ucast l" using stream(2) by simp
      obtain w4 where f2: "ssl_fill os (ssl n) buffer 2 (word_of_nat (length body)) 0 x ?t m w3 =
          (case blit_at m buffer 2 body of None \<Rightarrow> None | Some m' \<Rightarrow> Some (False, int (length body), x, ?t, m', w4))" "inb w4 = rest"
        using ssl_fill_whole [OF net f1(2) False] l256 by fastforce
      have "esp_ssl_read os n rb mem buffer len timeout_ms w =
          (case blit_at mem buffer 0 (h # l # body) of None \<Rightarrow> None
           | Some m' \<Rightarrow> Some (1, n\<lparr>read_count := 1\<rparr>, Some buffer, m', w4))"
        using f2(1) unfolding u two by (simp add: run f1 Some ld l one split: option.split)
      with f2(2) show ?thesis by blast
    qed
  qed
qed

definition tls_bench_os :: "(bench_kernel, nat) os" where
  "tls_bench_os = bench_os 0 1\<lparr>SSL_read := (\<lambda>c len w. (int (min (unat len) (length (concat (bk_in w)))),
      take (unat len) (concat (bk_in w)), w\<lparr>bk_in := [drop (unat len) (concat (bk_in w))]\<rparr>))\<rparr>"

lemma bench_whole_reads: "whole_reads tls_bench_os conn (\<lambda>w. concat (bk_in w))"
proof -
  have "bk_in (snd (snd (snd (bench_select fds tv w)))) = bk_in w" for fds tv and w :: bench_kernel
    by (auto simp: bench_select_def split: prod.splits list.splits)
  then show ?thesis by (simp add: whole_reads_def tls_bench_os_def bench_os_def unat_of_nat)
qed

theorem ssl_read_trusts_length_byte_witness:
  "esp_ssl_read tls_bench_os (bench_network\<lparr>net_functions := Tls, ssl := 1\<rparr>) None (\<lambda>_. replicate 4 0) (0, 0) 1 1000
     (bench_kernel_world [[0x30, 3, 1, 2, 3]] [1]) = None"
proof -
  let ?n = "bench_network\<lparr>net_functions := Tls, ssl := 1\<rparr>" and ?w = "bench_kernel_world [[0x30, 3, 1, 2, 3]] [1]"
  have v: "vTaskSetTimeOutState tls_bench_os ?w = (100, ?w)" by (simp add: tls_bench_os_def bench_os_def bench_kernel_world_def)
  have s: "sys_select tls_bench_os (my_socket ?n + 1) (Some [my_socket ?n], None, Some [my_socket ?n]) (net_timeval 1000) ?w =
      (1, (Some [3], None, Some []), net_timeval 1000, ?w\<lparr>bk_select := []\<rparr>)"
    by (simp add: tls_bench_os_def bench_os_def bench_select_def bench_kernel_world_def bench_network_def)
  have "concat (bk_in ?w) = 0x30 # 3 # [1, 2, 3] @ []" by (simp add: bench_kernel_world_def)
  from ssl_read_trusts_length_byte [OF bench_whole_reads _ v s _ _ _ this, of None "\<lambda>_. replicate 4 0" "(0, 0)" 1]
  show ?thesis by (simp add: FD_ISSET_def bench_network_def blit_at_def blit_def put_def)
qed

end
