(* ===== verification/Text_Base.thy ===== *)
theory Text_Base
  imports Prelude
begin

text \<open>
  Text shared by the formatting and scanning code: ASCII literals, decimal numbers as
  \<open>printf\<close> writes them and \<open>scanf\<close>, \<open>atoi\<close> and \<open>strtol\<close> read them. Texts are lists of
  bytes without the terminating zero.
\<close>

section \<open>Writing\<close>

definition ascii :: "string \<Rightarrow> byte list" where
  "ascii s = map of_char s"

fun dec_nat :: "nat \<Rightarrow> byte list" where
  "dec_nat n = (if n < 10 then [word_of_nat (48 + n)] else dec_nat (n div 10) @ [word_of_nat (48 + n mod 10)])"

declare dec_nat.simps [simp del]

definition dec :: "int \<Rightarrow> byte list" where
  "dec n = (if n < 0 then 0x2D # dec_nat (nat (- n)) else dec_nat (nat n))"

section \<open>Reading\<close>

definition is_digit :: "byte \<Rightarrow> bool" where
  "is_digit b \<longleftrightarrow> 0x30 \<le> b \<and> b \<le> 0x39"

definition is_space :: "byte \<Rightarrow> bool" where
  "is_space b \<longleftrightarrow> b = 0x20 \<or> 9 \<le> b \<and> b \<le> 13"

definition digits_value :: "byte list \<Rightarrow> nat" where
  "digits_value ds = foldl (\<lambda>v d. 10 * v + unat (d - 0x30)) 0 ds"

text \<open>\<open>%d\<close> and \<open>%u\<close>: white space, a sign, digits; the value and what follows.\<close>

definition scan_number :: "byte list \<Rightarrow> (int \<times> byte list) option" where
  "scan_number s =
     (let s = dropWhile is_space s;
          neg = (case s of c # _ \<Rightarrow> c = 0x2D | [] \<Rightarrow> False);
          s = (case s of c # t \<Rightarrow> if c = 0x2D \<or> c = 0x2B then t else s | [] \<Rightarrow> s);
          v = int (digits_value (takeWhile is_digit s))
      in if takeWhile is_digit s = [] then None else Some (if neg then - v else v, dropWhile is_digit s))"

text \<open>\<open>atoi\<close> of a text: 0 without digits, undefined when the value is not an \<open>int\<close>.\<close>

definition atoi :: "byte list \<Rightarrow> int option" where
  "atoi s = (case scan_number s of None \<Rightarrow> Some 0 | Some (v, _) \<Rightarrow> cint v)"

text \<open>\<open>strchr\<close> and \<open>find\<close>: the offset of the first occurrence.\<close>

primrec find_char :: "byte list \<Rightarrow> byte \<Rightarrow> nat option" where
  "find_char [] c = None"
| "find_char (x # xs) c = (if x = c then Some 0 else map_option Suc (find_char xs c))"

section \<open>Reading back what was written\<close>

lemma digit_of_nat:
  assumes "k < 10"
  shows "is_digit (word_of_nat (48 + k))" and "unat ((word_of_nat (48 + k) :: byte) - 0x30) = k"
proof -
  have "list_all (\<lambda>k. is_digit (word_of_nat (48 + k)) \<and> unat ((word_of_nat (48 + k) :: byte) - 0x30) = k) [0..<10]"
    by code_simp
  then have "is_digit (word_of_nat (48 + k)) \<and> unat ((word_of_nat (48 + k) :: byte) - 0x30) = k"
    using assms unfolding list_all_iff by (metis atLeastLessThan_iff atLeastLessThan_upt le0)
  then show "is_digit (word_of_nat (48 + k))" and "unat ((word_of_nat (48 + k) :: byte) - 0x30) = k" by auto
qed

lemma dec_nat_digits: "\<forall>d \<in> set (dec_nat n). is_digit d"
proof (induction n rule: dec_nat.induct)
  case (1 n)
  show ?case using 1 digit_of_nat(1) [of "n mod 10"] digit_of_nat(1) [of n] by (subst dec_nat.simps) auto
qed

lemma dec_nat_value: "digits_value (dec_nat n) = n"
proof (induction n rule: dec_nat.induct)
  case (1 n)
  show ?case
  proof (cases "n < 10")
    case True
    then show ?thesis using digit_of_nat(2) [of n] by (subst dec_nat.simps) (simp add: digits_value_def)
  next
    case False
    then have "digits_value (dec_nat n) = 10 * digits_value (dec_nat (n div 10)) + unat ((word_of_nat (48 + n mod 10) :: byte) - 0x30)"
      by (subst dec_nat.simps) (simp add: digits_value_def)
    also have "\<dots> = 10 * (n div 10) + n mod 10"
      using 1 False digit_of_nat(2) [of "n mod 10"] by simp
    finally show ?thesis by simp
  qed
qed

lemma dec_nat_not_Nil: "dec_nat n \<noteq> []"
  by (subst dec_nat.simps) simp

lemma digit_no_space: "is_digit d \<Longrightarrow> \<not> is_space d \<and> d \<noteq> 0x2D \<and> d \<noteq> 0x2B \<and> d \<noteq> 0x2C \<and> d \<noteq> 0x28"
  by (auto simp: is_digit_def is_space_def word_le_nat_alt)

lemma takeWhile_stop: "\<forall>d \<in> set ds. P d \<Longrightarrow> (case rest of [] \<Rightarrow> True | c # _ \<Rightarrow> \<not> P c) \<Longrightarrow>
   takeWhile P (ds @ rest) = ds \<and> dropWhile P (ds @ rest) = rest"
  by (induction ds) (auto split: list.splits)

lemma scan_number_dec:
  assumes "case rest of [] \<Rightarrow> True | c # _ \<Rightarrow> \<not> is_digit c"
  shows "scan_number (dec_nat n @ rest) = Some (int n, rest)"
proof -
  obtain d ds where d: "dec_nat n = d # ds" using dec_nat_not_Nil by (cases "dec_nat n") auto
  have dd: "\<not> is_space d \<and> d \<noteq> 0x2D \<and> d \<noteq> 0x2B" using dec_nat_digits [of n] digit_no_space by (simp add: d)
  have tw: "takeWhile is_digit (d # ds @ rest) = dec_nat n" "dropWhile is_digit (d # ds @ rest) = rest"
    using takeWhile_stop [OF dec_nat_digits assms, of n] by (simp_all add: d)
  show ?thesis unfolding scan_number_def Let_def using dd tw dec_nat_value [of n]
    by (simp add: d del: takeWhile.simps dropWhile.simps(2)) (simp add: d)
qed

end
