(* ===== verification/Packet_Format.thy ===== *)
theory Packet_Format
  imports Packet_Publish Packet_Connect Packet_Subscribe Packet_Unsubscribe Text_Base "HOL-Library.Char_ord"
begin

text \<open>
  The printable summaries of packets, \<open>paho/MQTTPacket/src/MQTTFormat.c\<close>. The library
  call \<open>snprintf\<close> is modelled for the conversions used: \<open>%d\<close>, \<open>%s\<close> of a fixed text
  and \<open>%.*s\<close>. Texts are lists of bytes without the terminating zero.
\<close>

section \<open>snprintf\<close>

datatype fmt_arg = Txt string | D int | S int "byte list option"

text \<open>\<open>%.*s\<close>: at most \<open>prec\<close> bytes (if it is not negative), up to a zero byte. It
  must not read past the object the pointer points into.\<close>

definition cut_string :: "int \<Rightarrow> byte list \<Rightarrow> byte list option" where
  "cut_string prec bs =
     (let t = takeWhile (\<lambda>b. b \<noteq> 0) (if prec < 0 then bs else take (nat prec) bs)
      in if 0 \<in> set (if prec < 0 then bs else take (nat prec) bs) \<or> 0 \<le> prec \<and> nat prec \<le> length bs then Some t else None)"

fun render :: "fmt_arg list \<Rightarrow> byte list option" where
  "render [] = Some []"
| "render (Txt s # as) = map_option ((@) (ascii s)) (render as)"
| "render (D n # as) = map_option ((@) (dec n)) (render as)"
| "render (S prec d # as) = do {
     bs \<leftarrow> d;
     t \<leftarrow> cut_string prec bs;
     r \<leftarrow> render as;
     Some (t @ r) }"

text \<open>\<open>snprintf (buf + off, size, ...)\<close>: the size converts to \<open>size_t\<close>; the result is
  the length of the whole text.\<close>

definition snprintf :: "buffer \<Rightarrow> int \<Rightarrow> int \<Rightarrow> fmt_arg list \<Rightarrow> (int \<times> buffer) option" where
  "snprintf buf off bufsize args = do {
     text \<leftarrow> render args;
     n \<leftarrow> cint (int (length text));
     let room = unat (word_of_int bufsize :: 32 word);
     (if room = 0 then Some (n, buf)
      else if off < 0 \<or> length buf < nat off + min (room - 1) (length text) + 1 then None
      else Some (n, take (nat off) buf @ take (room - 1) text @ [0] @ drop (nat off + min (room - 1) (length text) + 1) buf)) }"

text \<open>\<open>strindex += snprintf (&strbuf[strindex], strbuflen - strindex, ...)\<close>\<close>

definition append_text :: "buffer \<Rightarrow> int \<Rightarrow> int \<Rightarrow> fmt_arg list \<Rightarrow> (int \<times> buffer) option" where
  "append_text strbuf strbuflen strindex args = do {
     left \<leftarrow> cint (strbuflen - strindex);
     (n, strbuf) \<leftarrow> snprintf strbuf strindex left args;
     strindex \<leftarrow> cint (strindex + n);
     Some (strindex, strbuf) }"

section \<open>Names\<close>

definition MQTTPacket_names :: "string list" where
  "MQTTPacket_names =
     [''RESERVED'', ''CONNECT'', ''CONNACK'', ''PUBLISH'', ''PUBACK'', ''PUBREC'', ''PUBREL'',
      ''PUBCOMP'', ''SUBSCRIBE'', ''SUBACK'', ''UNSUBSCRIBE'', ''UNSUBACK'',
      ''PINGREQ'', ''PINGRESP'', ''DISCONNECT'']"

definition MQTTPacket_getName :: "16 word \<Rightarrow> string option" where
  "MQTTPacket_getName packetid = idx MQTTPacket_names (unat packetid)"

section \<open>One packet\<close>

definition lenstring_arg :: "MQTTString \<Rightarrow> fmt_arg" where
  "lenstring_arg s = S (ls_len (lenstring s)) (ls_data (lenstring s))"

definition MQTTStringFormat_connect :: "bool \<Rightarrow> buffer \<Rightarrow> int \<Rightarrow> MQTTPacket_connectData \<Rightarrow> (int \<times> buffer) option" where
  "MQTTStringFormat_connect char_signed strbuf strbuflen d = do {
     (strindex, strbuf) \<leftarrow> snprintf strbuf 0 strbuflen
        [Txt ''CONNECT MQTT version '', D (uint (cd_MQTTVersion d)), Txt '', client id '', lenstring_arg (cd_clientID d),
         Txt '', clean session '', D (uint (cd_cleansession d)), Txt '', keep alive '', D (uint (cd_keepAliveInterval d))];
     (strindex, strbuf) \<leftarrow>
       (if cd_willFlag d \<noteq> 0
        then append_text strbuf strbuflen strindex [Txt '', will QoS '', D (int_of_char char_signed (will_qos (cd_will d))), Txt '', will retain '', D (uint (will_retained (cd_will d))),
             Txt '', will topic '', lenstring_arg (will_topicName (cd_will d)),
             Txt '', will message '', lenstring_arg (will_message (cd_will d))]
        else Some (strindex, strbuf));
     (strindex, strbuf) \<leftarrow>
       (if ls_data (lenstring (cd_username d)) \<noteq> None \<and> ls_len (lenstring (cd_username d)) > 0
        then append_text strbuf strbuflen strindex [Txt '', user name '', lenstring_arg (cd_username d)]
        else Some (strindex, strbuf));
     (if ls_data (lenstring (cd_password d)) \<noteq> None \<and> ls_len (lenstring (cd_password d)) > 0
        then append_text strbuf strbuflen strindex [Txt '', password '', lenstring_arg (cd_password d)]
      else Some (strindex, strbuf)) }"

definition MQTTStringFormat_connack :: "buffer \<Rightarrow> int \<Rightarrow> byte \<Rightarrow> byte \<Rightarrow> (int \<times> buffer) option" where
  "MQTTStringFormat_connack strbuf strbuflen connack_rc sessionPresent =
     snprintf strbuf 0 strbuflen [Txt ''CONNACK session present '', D (uint sessionPresent), Txt '', rc '', D (uint connack_rc)]"

definition MQTTStringFormat_publish ::
  "buffer \<Rightarrow> int \<Rightarrow> byte \<Rightarrow> int \<Rightarrow> byte \<Rightarrow> 16 word \<Rightarrow> MQTTString \<Rightarrow> byte list \<Rightarrow> int \<Rightarrow> (int \<times> buffer) option" where
  "MQTTStringFormat_publish strbuf strbuflen dup qos retained packetid topicName payload payloadlen =
     snprintf strbuf 0 strbuflen
       [Txt ''PUBLISH dup '', D (uint dup), Txt '', QoS '', D qos, Txt '', retained '', D (uint retained),
        Txt '', packet id '', D (uint packetid), Txt '', topic '',
        S (if ls_len (lenstring topicName) < 20 then ls_len (lenstring topicName) else 20) (ls_data (lenstring topicName)),
        Txt '', payload length '', D payloadlen, Txt '', payload '',
        S (if payloadlen < 20 then payloadlen else 20) (Some payload)]"

definition MQTTStringFormat_ack :: "buffer \<Rightarrow> int \<Rightarrow> byte \<Rightarrow> byte \<Rightarrow> 16 word \<Rightarrow> (int \<times> buffer) option" where
  "MQTTStringFormat_ack strbuf strbuflen packettype dup packetid = do {
     name \<leftarrow> idx MQTTPacket_names (unat packettype);
     (strindex, strbuf) \<leftarrow> snprintf strbuf 0 strbuflen [Txt name, Txt '', packet id '', D (uint packetid)];
     (if dup \<noteq> 0
        then append_text strbuf strbuflen strindex [Txt '', dup '', D (uint dup)]
      else Some (strindex, strbuf)) }"

definition MQTTStringFormat_subscribe ::
  "buffer \<Rightarrow> int \<Rightarrow> byte \<Rightarrow> 16 word \<Rightarrow> int \<Rightarrow> MQTTString list \<Rightarrow> int list \<Rightarrow> (int \<times> buffer) option" where
  "MQTTStringFormat_subscribe strbuf strbuflen dup packetid count topicFilters requestedQoSs = do {
     t \<leftarrow> idx topicFilters 0;
     q \<leftarrow> idx requestedQoSs 0;
     snprintf strbuf 0 strbuflen
       [Txt ''SUBSCRIBE dup '', D (uint dup), Txt '', packet id '', D (uint packetid), Txt '' count '', D count,
        Txt '' topic '', lenstring_arg t, Txt '' qos '', D q] }"

definition MQTTStringFormat_suback :: "buffer \<Rightarrow> int \<Rightarrow> 16 word \<Rightarrow> int \<Rightarrow> int list \<Rightarrow> (int \<times> buffer) option" where
  "MQTTStringFormat_suback strbuf strbuflen packetid count grantedQoSs = do {
     q \<leftarrow> idx grantedQoSs 0;
     snprintf strbuf 0 strbuflen
       [Txt ''SUBACK packet id '', D (uint packetid), Txt '' count '', D count, Txt '' granted qos '', D q] }"

definition MQTTStringFormat_unsubscribe ::
  "buffer \<Rightarrow> int \<Rightarrow> byte \<Rightarrow> 16 word \<Rightarrow> int \<Rightarrow> MQTTString list \<Rightarrow> (int \<times> buffer) option" where
  "MQTTStringFormat_unsubscribe strbuf strbuflen dup packetid count topicFilters = do {
     t \<leftarrow> idx topicFilters 0;
     snprintf strbuf 0 strbuflen
       [Txt ''UNSUBSCRIBE dup '', D (uint dup), Txt '', packet id '', D (uint packetid), Txt '' count '', D count,
        Txt '' topic '', lenstring_arg t] }"

section \<open>Any packet\<close>

text \<open>What the uninitialised locals of the two functions below hold.\<close>

record format_locals =
  fl_connack :: connack_out
  fl_connect :: MQTTPacket_connectData
  fl_publish :: publish_out
  fl_ack :: ack_out
  fl_suback :: suback_out
  fl_subscribe :: subscribe_out
  fl_unsubscribe :: unsubscribe_out

text \<open>Printing when the parser accepted the packet, and nothing otherwise.\<close>

definition summary :: "buffer \<Rightarrow> (int \<times> 'a) option \<Rightarrow> ('a \<Rightarrow> (int \<times> buffer) option) \<Rightarrow> buffer option" where
  "summary strbuf parsed format = do {
     (ok, out) \<leftarrow> parsed;
     (if ok = 1 then do { (_, strbuf) \<leftarrow> format out; Some strbuf } else Some strbuf) }"

definition format_publish :: "buffer \<Rightarrow> int \<Rightarrow> publish_out \<Rightarrow> (int \<times> buffer) option" where
  "format_publish strbuf strbuflen out =
     MQTTStringFormat_publish strbuf strbuflen (pub_dup out) (pub_qos out) (pub_retained out) (pub_packetid out)
       (pub_topicName out) (pub_payload out) (pub_payloadlen out)"

definition format_ack :: "buffer \<Rightarrow> int \<Rightarrow> ack_out \<Rightarrow> (int \<times> buffer) option" where
  "format_ack strbuf strbuflen out = MQTTStringFormat_ack strbuf strbuflen (ack_packettype out) (ack_dup out) (ack_packetid out)"

definition format_name :: "buffer \<Rightarrow> int \<Rightarrow> byte \<Rightarrow> buffer option" where
  "format_name strbuf strbuflen t = do {
     name \<leftarrow> idx MQTTPacket_names (unat t);
     (_, strbuf) \<leftarrow> snprintf strbuf 0 strbuflen [Txt name];
     Some strbuf }"

definition MQTTFormat_toClientString ::
  "bool \<Rightarrow> format_locals \<Rightarrow> buffer \<Rightarrow> int \<Rightarrow> buffer \<Rightarrow> int \<Rightarrow> buffer option" where
  "MQTTFormat_toClientString char_signed fl strbuf strbuflen buf buflen = do {
     header \<leftarrow> load buf 0;
     (_, _) \<leftarrow> MQTTPacket_decodeBuf buf 1;
     (let t = header_type header in
      if t = msg_code CONNACK then
        summary strbuf (MQTTDeserialize_connack (fl_connack fl) buf buflen)
          (\<lambda>out. MQTTStringFormat_connack strbuf strbuflen (ca_rc out) (ca_sessionPresent out))
      else if t = msg_code PUBLISH then
        summary strbuf (MQTTDeserialize_publish ((fl_publish fl)\<lparr>pub_topicName := MQTTString_initializer\<rparr>) buf buflen)
          (format_publish strbuf strbuflen)
      else if t = msg_code PUBACK \<or> t = msg_code PUBREC \<or> t = msg_code PUBREL \<or> t = msg_code PUBCOMP then
        summary strbuf (MQTTDeserialize_ack (fl_ack fl) buf buflen) (format_ack strbuf strbuflen)
      else if t = msg_code SUBACK then
        summary strbuf
          (MQTTDeserialize_suback char_signed 1 ((fl_suback fl)\<lparr>sa_count := 0, sa_grantedQoSs := take 1 (sa_grantedQoSs (fl_suback fl))\<rparr>) buf buflen)
          (\<lambda>out. MQTTStringFormat_suback strbuf strbuflen (sa_packetid out) (sa_count out) (sa_grantedQoSs out))
      else if t = msg_code UNSUBACK then
        summary strbuf (MQTTDeserialize_unsuback (ack_packetid (fl_ack fl)) buf buflen)
          (\<lambda>packetid. MQTTStringFormat_ack strbuf strbuflen (msg_code UNSUBACK) 0 packetid)
      else if t = msg_code PINGREQ \<or> t = msg_code PINGRESP \<or> t = msg_code DISCONNECT then format_name strbuf strbuflen t
      else Some strbuf) }"

text \<open>The switch of \<open>MQTTFormat_toServerString\<close>.\<close>

definition server_switch ::
  "bool \<Rightarrow> format_locals \<Rightarrow> buffer \<Rightarrow> int \<Rightarrow> buffer \<Rightarrow> int \<Rightarrow> byte \<Rightarrow> buffer option" where
  "server_switch char_signed fl strbuf strbuflen buf buflen t =
     (if t = msg_code CONNECT then
        summary strbuf (MQTTDeserialize_connect char_signed (fl_connect fl) buf buflen)
          (MQTTStringFormat_connect char_signed strbuf strbuflen)
      else if t = msg_code PUBLISH then
        summary strbuf (MQTTDeserialize_publish ((fl_publish fl)\<lparr>pub_topicName := MQTTString_initializer\<rparr>) buf buflen)
          (format_publish strbuf strbuflen)
      else if t = msg_code PUBACK \<or> t = msg_code PUBREC \<or> t = msg_code PUBREL \<or> t = msg_code PUBCOMP then
        summary strbuf (MQTTDeserialize_ack (fl_ack fl) buf buflen) (format_ack strbuf strbuflen)
      else if t = msg_code SUBSCRIBE then
        summary strbuf
          (MQTTDeserialize_subscribe char_signed 1
             ((fl_subscribe fl)\<lparr>so_count := 0, so_topicFilters := take 1 (so_topicFilters (fl_subscribe fl)),
                so_requestedQoSs := take 1 (so_requestedQoSs (fl_subscribe fl))\<rparr>) buf buflen)
          (\<lambda>out. MQTTStringFormat_subscribe strbuf strbuflen (so_dup out) (so_packetid out) (so_count out)
             (so_topicFilters out) (so_requestedQoSs out))
      else if t = msg_code UNSUBSCRIBE then
        summary strbuf
          (MQTTDeserialize_unsubscribe 1
             ((fl_unsubscribe fl)\<lparr>uo_count := 0, uo_topicFilters := take 1 (uo_topicFilters (fl_unsubscribe fl))\<rparr>) buf buflen)
          (\<lambda>out. MQTTStringFormat_unsubscribe strbuf strbuflen (uo_dup out) (uo_packetid out) (uo_count out) (uo_topicFilters out))
      else if t = msg_code PINGREQ \<or> t = msg_code PINGRESP \<or> t = msg_code DISCONNECT then format_name strbuf strbuflen t
      else Some strbuf)"

definition MQTTFormat_toServerString ::
  "bool \<Rightarrow> format_locals \<Rightarrow> buffer \<Rightarrow> int \<Rightarrow> buffer \<Rightarrow> int \<Rightarrow> buffer option" where
  "MQTTFormat_toServerString char_signed fl strbuf strbuflen buf buflen = do {
     header \<leftarrow> load buf 0;
     (_, _) \<leftarrow> MQTTPacket_decodeBuf buf 1;
     strbuf \<leftarrow> server_switch char_signed fl strbuf strbuflen buf buflen (header_type header);
     (if strbuflen < 0 then None else store strbuf (nat strbuflen) 0) }"

section \<open>The buffer\<close>

lemma snprintf_len: "snprintf b off n args = Some (k, b') \<Longrightarrow> length b' = length b"
  by (auto simp: snprintf_def bind_eq_Some_conv Let_def split: if_splits)

text \<open>A buffer that fits its announced size is never overrun by one call, and holds the
  text, cut to the size, and a zero byte.\<close>

lemma snprintf_fits:
  assumes "render args = Some text" and "length text < 2147483648" and "0 < n" and "n \<le> int (length b)" and "n < 2147483648"
  shows "snprintf b 0 n args =
    Some (int (length text), take (nat n - 1) text @ [0] @ drop (min (nat n - 1) (length text) + 1) b)"
proof -
  have "unat (word_of_int n :: 32 word) = nat n" using assms(3,5) by (simp add: unat_eq_nat_uint uint_word_of_int)
  moreover have "\<not> length b < min (nat n - 1) (length text) + 1" using assms(3,4) by simp
  moreover have "cint (int (length text)) = Some (int (length text))"
    using assms(2) by (simp add: cint_def INT_MIN_def INT_MAX_def)
  ultimately show ?thesis using assms(1,3) by (simp add: snprintf_def Let_def)
qed

named_theorems format_len "the printer keeps the length of the buffer"

lemma append_len: "append_text b n i args = Some (k, b') \<Longrightarrow> length b' = length b"
  by (auto simp: append_text_def bind_eq_Some_conv dest!: snprintf_len)

lemma format_connect_len [format_len]:
  assumes "MQTTStringFormat_connect cs b n d = Some (k, b')"
  shows "length b' = length b"
proof -
  have "rets (\<lambda>r. length (snd r) = length b) (MQTTStringFormat_connect cs b n d)"
    unfolding MQTTStringFormat_connect_def
    by (intro rets_intros) (auto split: if_splits dest!: snprintf_len append_len simp: rets_def)
  with assms show ?thesis by (simp add: rets_def)
qed

lemma format_ack_len [format_len]:
  assumes "MQTTStringFormat_ack b n t d i = Some (k, b')"
  shows "length b' = length b"
proof -
  have "rets (\<lambda>r. length (snd r) = length b) (MQTTStringFormat_ack b n t d i)"
    unfolding MQTTStringFormat_ack_def
    by (intro rets_intros) (auto split: if_splits dest!: snprintf_len append_len simp: rets_def)
  with assms show ?thesis by (simp add: rets_def)
qed

lemma format_other_len [format_len]:
  "MQTTStringFormat_connack b n code s = Some (k, b') \<Longrightarrow> length b' = length b"
  "MQTTStringFormat_publish b n d q r i t p l = Some (k, b') \<Longrightarrow> length b' = length b"
  "MQTTStringFormat_subscribe b n d i cnt ts qs = Some (k, b') \<Longrightarrow> length b' = length b"
  "MQTTStringFormat_suback b n i cnt gs = Some (k, b') \<Longrightarrow> length b' = length b"
  "MQTTStringFormat_unsubscribe b n d i cnt ts = Some (k, b') \<Longrightarrow> length b' = length b"
  "format_publish b n out = Some (k, b') \<Longrightarrow> length b' = length b"
  by (auto simp: MQTTStringFormat_connack_def MQTTStringFormat_publish_def MQTTStringFormat_subscribe_def
      MQTTStringFormat_suback_def MQTTStringFormat_unsubscribe_def format_publish_def bind_eq_Some_conv dest!: snprintf_len)

lemma summary_rets:
  assumes "\<And>out k b'. format out = Some (k, b') \<Longrightarrow> length b' = length b"
  shows "rets (\<lambda>b'. length b' = length b) (summary b parsed format)"
  using assms by (auto simp: rets_def summary_def bind_eq_Some_conv split: if_splits)

lemma format_name_rets: "rets (\<lambda>b'. length b' = length b) (format_name b n t)"
  by (auto simp: rets_def format_name_def bind_eq_Some_conv dest!: snprintf_len)

text \<open>
  \<open>MQTTFormat_toServerString\<close> always writes outside a buffer of the
  announced size: after any summary, or none, it stores a zero byte at index
  \<open>strbuflen\<close>. The C++ client calls it with the size of its array.
\<close>

theorem toServerString_overruns:
  assumes "int (length strbuf) = strbuflen"
  shows "MQTTFormat_toServerString char_signed fl strbuf strbuflen buf buflen = None"
proof (rule ccontr)
  assume "MQTTFormat_toServerString char_signed fl strbuf strbuflen buf buflen \<noteq> None"
  then obtain r where r: "MQTTFormat_toServerString char_signed fl strbuf strbuflen buf buflen = Some r" by blast
  then obtain t strbuf1 where sw: "server_switch char_signed fl strbuf strbuflen buf buflen t = Some strbuf1"
    and s: "store strbuf1 (nat strbuflen) 0 = Some r" "\<not> strbuflen < 0"
    unfolding MQTTFormat_toServerString_def by (auto simp: bind_eq_Some_conv split: if_splits)
  have "rets (\<lambda>b'. length b' = length strbuf) (server_switch char_signed fl strbuf strbuflen buf buflen t)"
    unfolding server_switch_def format_ack_def
    by (intro rets_if rets_Some summary_rets format_name_rets) (auto dest: format_len)
  with sw have "length strbuf1 = length strbuf" by (simp add: rets_def)
  with s assms show False by (simp add: store_def split: if_splits)
qed

definition bench_locals :: format_locals where
  "bench_locals = \<lparr>fl_connack = \<lparr>ca_sessionPresent = 0, ca_rc = 0\<rparr>, fl_connect = MQTTPacket_connectData_initializer,
     fl_publish = \<lparr>pub_dup = 0, pub_qos = 0, pub_retained = 0, pub_packetid = 0,
        pub_topicName = MQTTString_initializer, pub_payload = [], pub_payloadlen = 0\<rparr>,
     fl_ack = \<lparr>ack_packettype = 0, ack_dup = 0, ack_packetid = 0\<rparr>,
     fl_suback = \<lparr>sa_packetid = 0, sa_count = 0, sa_grantedQoSs = [0]\<rparr>,
     fl_subscribe = \<lparr>so_dup = 0, so_packetid = 0, so_count = 0, so_topicFilters = [MQTTString_initializer], so_requestedQoSs = [0]\<rparr>,
     fl_unsubscribe = \<lparr>uo_dup = 0, uo_packetid = 0, uo_count = 0, uo_topicFilters = [MQTTString_initializer]\<rparr>\<rparr>"

theorem toServerString_overruns_witness:
  "MQTTFormat_toServerString False bench_locals (replicate 150 0) 150 [0xC0, 0] 2 = None"
  by (rule toServerString_overruns) simp

text \<open>
  the summary of an acknowledgement is its name and its packet identifier
  in decimal, cut to the size of the text buffer and terminated by a zero byte; the
  rest of the buffer is left alone.
\<close>

theorem ack_summary:
  assumes "t \<in> {PUBACK, PUBREC, PUBREL, PUBCOMP}" and "0 < n" and "n \<le> int (length strbuf)" and "n < 2147483648"
    and "text = ascii (MQTTPacket_names ! unat (msg_code t)) @ ascii '', packet id '' @ dec (uint packetid)"
    and "length text < 2147483648"
  shows "MQTTFormat_toClientString char_signed fl strbuf n (ack_wire (msg_code t) 0 packetid) 4 =
    Some (take (nat n - 1) text @ [0] @ drop (min (nat n - 1) (length text) + 1) strbuf)"
proof -
  let ?w = "ack_wire (msg_code t) 0 packetid"
  let ?b = "take (nat n - 1) text @ [0] @ drop (min (nat n - 1) (length text) + 1) strbuf"
  have ld: "load ?w 0 = Some (ack_header (msg_code t) 0)" "load ?w 1 = Some 2" by (simp_all add: ack_wire_def load_def)
  have dec: "MQTTPacket_decodeBuf ?w 1 = Some (1, 2)" using decodeBuf_one_byte [OF ld(2)] by simp
  have ht: "header_type (ack_header (msg_code t) 0) = msg_code t" by (simp only: header_ack msg_code_and)
  have "has ?w 0 ?w" using has_prefix [of ?w "[]"] by simp
  then have d: "MQTTDeserialize_ack (fl_ack fl) ?w 4 =
      Some (1, \<lparr>ack_packettype = msg_code t AND 0x0F, ack_dup = 0 AND 1, ack_packetid = packetid\<rparr>)"
    by (rule deserialize_ack_has)
  have r: "render [Txt (MQTTPacket_names ! unat (msg_code t)), Txt '', packet id '', D (uint packetid)] = Some text"
    using assms(5) by simp
  have i: "unat (msg_code t) < length MQTTPacket_names" using assms(1) by (auto simp: MQTTPacket_names_def)
  have f: "MQTTStringFormat_ack strbuf n (msg_code t) 0 packetid = Some (int (length text), ?b)"
    using i by (simp add: MQTTStringFormat_ack_def snprintf_fits [OF r assms(6,2-4)])
  have "MQTTFormat_toClientString char_signed fl strbuf n ?w 4 =
      summary strbuf (MQTTDeserialize_ack (fl_ack fl) ?w 4) (format_ack strbuf n)"
    using assms(1) ld(1) dec ht unfolding MQTTFormat_toClientString_def by auto
  also have "\<dots> = Some ?b" using d f by (simp add: summary_def format_ack_def)
  finally show ?thesis .
qed

theorem ack_summary_witness:
  "MQTTFormat_toClientString False bench_locals (replicate 24 1) 24 (ack_wire (msg_code PUBREC) 0 258) 4 =
    Some (take (nat 24 - 1) (ascii ''PUBREC, packet id 258'') @ [0] @
      drop (min (nat 24 - 1) (length (ascii ''PUBREC, packet id 258'')) + 1) (replicate 24 1))"
proof (rule ack_summary)
  show "ascii ''PUBREC, packet id 258'' =
      ascii (MQTTPacket_names ! unat (msg_code PUBREC)) @ ascii '', packet id '' @ dec (uint (258 :: 16 word))" by code_simp
  show "length (ascii ''PUBREC, packet id 258'') < 2147483648" by (simp add: ascii_def)
qed simp_all

text \<open>
  After a text that was cut, the next call is handed a pointer behind the buffer and
  a negative size, which converts to a huge one, so it writes outside the buffer.
\<close>

lemma append_text_overruns:
  assumes "int (length b) = n" and "n < i" and "i < 2147483648"
  shows "append_text b n i args = None"
proof -
  have "(n - i) mod 4294967296 = n - i + 4294967296"
    using assms by (subst mod_add_self2 [symmetric]) (rule mod_pos_pos_trivial, simp_all)
  moreover have "uint (word_of_int (n - i) :: 32 word) = (n - i) mod 4294967296"
    by (simp add: uint_word_of_int del: of_int_diff)
  ultimately have "uint (word_of_int (n - i) :: 32 word) \<noteq> 0" using assms by linarith
  then have "unat (word_of_int (n - i) :: 32 word) \<noteq> 0" by (metis unat_eq_zero uint_0_iff)
  moreover have "length b < Suc (nat i + k)" for k using assms by simp
  ultimately have "snprintf b i (n - i) args = None"
    by (auto simp: snprintf_def Let_def bind_eq_None_conv)
  then show ?thesis by (auto simp: append_text_def bind_eq_None_conv cint_def)
qed

end
