(* ===== verification/Cpp_Client.thy ===== *)
theory Cpp_Client
  imports Packet_Publish Packet_Connect Packet_Subscribe Packet_Unsubscribe Packet_Read Topic_Match Handler_Table
begin

text \<open>
  The C++ client template, \<open>paho/MQTTClient/src/MQTTClient.h\<close>, and the callback
  objects of \<open>paho/MQTTClient/src/FP.h\<close>. The network and timer classes are template
  arguments; with \<open>malloc\<close>, \<open>free\<close> and the user's callbacks they form the record
  \<open>env\<close>, a parameter that acts on a world of type \<open>'w\<close>.

  The build options are the record \<open>config\<close>: the size of the buffers and
  \<open>MQTTCLIENT_QOS2\<close> (0 by default). \<open>MQTTCLIENT_QOS1\<close> is 1, as by default, and the
  debugging output is off. A loop that need not end is a \<open>partial_function\<close>.
\<close>

section \<open>Callback objects\<close>

text \<open>\<open>FP\<close>: the object pointer and the union of the two function pointers, 0 for
  null. Calling it is a call of a function or of a method of the object.\<close>

record FP =
  obj_callback :: nat
  callback_word :: nat

datatype invocation = CallFunction nat | CallMethod nat nat

definition FP_new :: FP where
  "FP_new = \<lparr>obj_callback = 0, callback_word = 0\<rparr>"

definition FP_attach_method :: "FP \<Rightarrow> nat \<Rightarrow> nat \<Rightarrow> FP" where
  "FP_attach_method f item method = f\<lparr>obj_callback := item, callback_word := method\<rparr>"

definition FP_attach_function :: "FP \<Rightarrow> nat \<Rightarrow> FP" where
  "FP_attach_function f function_ptr = f\<lparr>callback_word := function_ptr\<rparr>"

definition FP_call :: "FP \<Rightarrow> invocation option" where
  "FP_call f =
     (if callback_word f \<noteq> 0
      then Some (if obj_callback f \<noteq> 0 then CallMethod (obj_callback f) (callback_word f) else CallFunction (callback_word f))
      else None)"

definition FP_attached :: "FP \<Rightarrow> bool" where
  "FP_attached f \<longleftrightarrow> obj_callback f \<noteq> 0 \<or> callback_word f \<noteq> 0"

definition FP_detach :: "FP \<Rightarrow> FP" where
  "FP_detach f = f\<lparr>obj_callback := 0, callback_word := 0\<rparr>"

section \<open>Data\<close>

record config =
  MQTTCLIENT_QOS2 :: bool
  MAX_MQTT_PACKET_SIZE :: int

record Message =
  m_qos :: int
  m_retained :: byte
  m_dup :: byte
  m_id :: "16 word"
  m_payload :: "byte list"
  m_payloadlen :: "32 word"

record connackData =
  ckd_rc :: int
  ckd_sessionPresent :: bool

text \<open>A slot of the handler table: the block \<open>malloc\<close> gave and the string in it.\<close>

record cpp_slot =
  sl_filter :: "(nat \<times> byte list) option"
  sl_fp :: FP

record 't Client =
  sendbuf :: buffer
  cp_readbuf :: buffer
  cp_last_received :: 't
  cp_keepAliveInterval :: "32 word"
  cp_ping_outstanding :: int
  cp_cleansession :: bool
  packetid_next :: int
  cp_messageHandlers :: "cpp_slot list"
  cp_defaultMessageHandler :: FP
  cp_isconnected :: bool
  pubbuf :: buffer
  inflightLen :: int
  inflightMsgid :: "16 word"
  inflightQoS :: int
  pubrel :: bool
  incomingQoS2messages :: "16 word list"

text \<open>\<open>timer_new\<close> and \<open>timer_new_ms\<close> are the constructors of the timer class;
  \<open>net_write\<close> gets the bytes from the pointer to the end of the buffer and the
  count, \<open>net_read\<close> gives the bytes stored. The last fields are what uninitialised
  locals hold.\<close>

record ('w, 't) env =
  timer_new :: "'w \<Rightarrow> 't \<times> 'w"
  timer_new_ms :: "int \<Rightarrow> 'w \<Rightarrow> 't \<times> 'w"
  countdown :: "'t \<Rightarrow> 32 word \<Rightarrow> 'w \<Rightarrow> 't \<times> 'w"
  countdown_ms :: "'t \<Rightarrow> 32 word \<Rightarrow> 'w \<Rightarrow> 't \<times> 'w"
  expired :: "'t \<Rightarrow> 'w \<Rightarrow> bool \<times> 't \<times> 'w"
  left_ms :: "'t \<Rightarrow> 'w \<Rightarrow> int \<times> 't \<times> 'w"
  net_read :: "'w \<Rightarrow> int \<Rightarrow> int \<Rightarrow> (int \<times> byte list \<times> 'w) option"
  net_write :: "'w \<Rightarrow> byte list \<Rightarrow> int \<Rightarrow> int \<Rightarrow> (int \<times> 'w) option"
  heap_malloc :: "nat \<Rightarrow> 'w \<Rightarrow> nat \<times> 'w"
  heap_free :: "nat \<Rightarrow> 'w \<Rightarrow> 'w"
  invoke :: "invocation \<Rightarrow> Message \<Rightarrow> MQTTString \<Rightarrow> 'w \<Rightarrow> 'w"
  local_pub :: publish_out
  local_ack :: ack_out
  char_signedness :: bool

definition type_code :: "msgTypes \<Rightarrow> int" where
  "type_code t = uint (msg_code t)"

section \<open>Packet identifiers\<close>

definition PacketId_getNext :: "'t Client \<Rightarrow> int \<times> 't Client" where
  "PacketId_getNext c =
     (let n = (if packetid_next c = 65535 then 1 else packetid_next c + 1)
      in (n, c\<lparr>packetid_next := n\<rparr>))"

section \<open>Incoming QoS 2 messages\<close>

primrec isQoS2msgidFree :: "16 word list \<Rightarrow> 16 word \<Rightarrow> bool" where
  "isQoS2msgidFree [] i = True"
| "isQoS2msgidFree (x # xs) i = (if x = i then False else isQoS2msgidFree xs i)"

primrec useQoS2msgid :: "16 word list \<Rightarrow> 16 word \<Rightarrow> bool \<times> 16 word list" where
  "useQoS2msgid [] i = (False, [])"
| "useQoS2msgid (x # xs) i =
     (if x = 0 then (True, i # xs) else let (r, ys) = useQoS2msgid xs i in (r, x # ys))"

primrec freeQoS2msgid :: "16 word list \<Rightarrow> 16 word \<Rightarrow> 16 word list" where
  "freeQoS2msgid [] i = []"
| "freeQoS2msgid (x # xs) i = (if x = i then 0 # xs else x # freeQoS2msgid xs i)"

section \<open>Closing a session\<close>

definition free_filters :: "('w, 't) env \<Rightarrow> cpp_slot list \<Rightarrow> 'w \<Rightarrow> 'w" where
  "free_filters E slots w =
     fold (\<lambda>s w. case sl_filter s of None \<Rightarrow> w | Some (p, _) \<Rightarrow> heap_free E p w) slots w"

definition cleanSession :: "('w, 't) env \<Rightarrow> config \<Rightarrow> 't Client \<Rightarrow> 'w \<Rightarrow> 't Client \<times> 'w" where
  "cleanSession E cfg c w =
     (let w = free_filters E (cp_messageHandlers c) w;
          c = c\<lparr>cp_messageHandlers := map (\<lambda>s. s\<lparr>sl_filter := None\<rparr>) (cp_messageHandlers c),
                inflightMsgid := 0, inflightQoS := 0\<rparr>
      in (if MQTTCLIENT_QOS2 cfg
          then c\<lparr>pubrel := False, incomingQoS2messages := map (\<lambda>_. 0) (incomingQoS2messages c)\<rparr> else c, w))"

definition closeSession :: "('w, 't) env \<Rightarrow> config \<Rightarrow> 't Client \<Rightarrow> 'w \<Rightarrow> 't Client \<times> 'w" where
  "closeSession E cfg c w =
     (let c = c\<lparr>cp_ping_outstanding := 0, cp_isconnected := False\<rparr>
      in if cp_cleansession c then cleanSession E cfg c w else (c, w))"

text \<open>The constructor; \<open>c\<close> is the uninitialised memory, in which the constructors
  of the members run first. \<open>memset\<close> then clears the table.\<close>

definition Client_new :: "('w, 't) env \<Rightarrow> config \<Rightarrow> 't Client \<Rightarrow> 'w \<Rightarrow> 't Client \<times> 'w" where
  "Client_new E cfg c w =
     (let (t, w) = timer_new E w;
          c = c\<lparr>cp_last_received := t, packetid_next := 0, cp_defaultMessageHandler := FP_new,
                cp_messageHandlers := map (\<lambda>_. \<lparr>sl_filter = None, sl_fp = FP_new\<rparr>) (cp_messageHandlers c),
                cp_cleansession := True\<rparr>
      in closeSession E cfg c w)"

definition setDefaultMessageHandler_object :: "'t Client \<Rightarrow> nat \<Rightarrow> nat \<Rightarrow> 't Client" where
  "setDefaultMessageHandler_object c mh method =
     (if mh \<noteq> 0 then c\<lparr>cp_defaultMessageHandler := FP_attach_method (cp_defaultMessageHandler c) mh method\<rparr>
      else c\<lparr>cp_defaultMessageHandler := FP_detach (cp_defaultMessageHandler c)\<rparr>)"

definition setDefaultMessageHandler_function :: "'t Client \<Rightarrow> nat \<Rightarrow> 't Client" where
  "setDefaultMessageHandler_function c mh =
     (if mh \<noteq> 0 then c\<lparr>cp_defaultMessageHandler := FP_attach_function (cp_defaultMessageHandler c) mh\<rparr>
      else c\<lparr>cp_defaultMessageHandler := FP_detach (cp_defaultMessageHandler c)\<rparr>)"

section \<open>Sending and receiving\<close>

partial_function (option) cpp_send_loop ::
  "('w, 't) env \<Rightarrow> buffer \<Rightarrow> int \<Rightarrow> int \<Rightarrow> 't \<Rightarrow> 'w \<Rightarrow> (int \<times> 't \<times> 'w) option" where
  "cpp_send_loop E buf len sent timer w =
     (if sent < len then
        (let (e, timer, w) = expired E timer w in
         if e then Some (sent, timer, w)
         else
           let (left, timer, w) = left_ms E timer w in do {
             (rc, w) \<leftarrow> net_write E w (drop (nat sent) buf) (len - sent) left;
             (if rc < 0 then Some (sent, timer, w)
              else do {
                sent \<leftarrow> cint (sent + rc);
                cpp_send_loop E buf len sent timer w }) })
      else Some (sent, timer, w))"

declare cpp_send_loop.simps [code]

definition cpp_sendPacket :: "('w, 't) env \<Rightarrow> 't Client \<Rightarrow> int \<Rightarrow> 't \<Rightarrow> 'w \<Rightarrow> (int \<times> 't \<times> 'w) option" where
  "cpp_sendPacket E c len timer w = do {
     (sent, timer, w) \<leftarrow> cpp_send_loop E (sendbuf c) len 0 timer w;
     Some (if sent = len then SUCCESS else FAILURE, timer, w) }"

text \<open>Serializing into \<open>sendbuf\<close> with its size.\<close>

definition into_sendbuf :: "config \<Rightarrow> 't Client \<Rightarrow> (buffer \<Rightarrow> int \<Rightarrow> (int \<times> buffer) option) \<Rightarrow> (int \<times> 't Client) option" where
  "into_sendbuf cfg c f = do {
     (len, b) \<leftarrow> f (sendbuf c) (MAX_MQTT_PACKET_SIZE cfg);
     Some (len, c\<lparr>sendbuf := b\<rparr>) }"

function cpp_decode_loop ::
  "('w, 't) env \<Rightarrow> int \<Rightarrow> 'w \<Rightarrow> int \<Rightarrow> int \<Rightarrow> int \<Rightarrow> (int \<times> int \<times> 'w) option" where
  "cpp_decode_loop E timeout w len multiplier value =
     (let len = len + 1 in
      if len > 4 then Some (len, value, w)
      else do {
        (rc, bs, w) \<leftarrow> net_read E w 1 timeout;
        (if rc \<noteq> 1 then Some (len, value, w)
         else do {
           c \<leftarrow> the_byte bs;
           value \<leftarrow> cint (value + uint (c AND 127) * multiplier);
           multiplier \<leftarrow> cint (multiplier * 128);
           (if c AND 128 \<noteq> 0 then cpp_decode_loop E timeout w len multiplier value
            else Some (len, value, w)) }) })"
  by pat_completeness auto
termination
  by (relation "measure (\<lambda>(E, t, w, len, m, v). nat (5 - len))") auto

declare cpp_decode_loop.simps [simp del]

definition cpp_decodePacket :: "('w, 't) env \<Rightarrow> int \<Rightarrow> 'w \<Rightarrow> (int \<times> int \<times> 'w) option" where
  "cpp_decodePacket E timeout w = cpp_decode_loop E timeout w 0 1 0"

text \<open>The interval set when a packet is received: half the keep-alive interval, at
  most 60 seconds.\<close>

definition receive_interval :: "'t Client \<Rightarrow> 32 word" where
  "receive_interval c = (if cp_keepAliveInterval c div 2 > 60 then 60 else cp_keepAliveInterval c div 2)"

definition mark_received :: "('w, 't) env \<Rightarrow> 't Client \<Rightarrow> 'w \<Rightarrow> 't Client \<times> 'w" where
  "mark_received E c w =
     (if cp_keepAliveInterval c > 0
      then let (t, w) = countdown E (cp_last_received c) (receive_interval c) w
           in (c\<lparr>cp_last_received := t\<rparr>, w)
      else (c, w))"

definition cpp_readPacket :: "('w, 't) env \<Rightarrow> config \<Rightarrow> 't Client \<Rightarrow> 't \<Rightarrow> 'w \<Rightarrow> (int \<times> 't Client \<times> 't \<times> 'w) option" where
  "cpp_readPacket E cfg c timer w =
     (let (left, timer, w) = left_ms E timer w in do {
        (rc, bs, w) \<leftarrow> net_read E w 1 left;
        b \<leftarrow> blit (cp_readbuf c) 0 bs;
        let c = c\<lparr>cp_readbuf := b\<rparr>;
        (if rc \<noteq> 1 then Some (rc, c, timer, w)
         else let (left, timer, w) = left_ms E timer w in do {
           (_, rem_len, w) \<leftarrow> cpp_decodePacket E left w;
           (k, b) \<leftarrow> MQTTPacket_encode (cp_readbuf c) 1 rem_len;
           let c = c\<lparr>cp_readbuf := b\<rparr>;
           let len = 1 + k;
           (if rem_len > MAX_MQTT_PACKET_SIZE cfg - len then Some (BUFFER_OVERFLOW, c, timer, w)
            else do {
              (bad, c, timer, w) \<leftarrow>
                (if rem_len > 0 then
                   let (left, timer, w) = left_ms E timer w in do {
                     (n, bs, w) \<leftarrow> net_read E w rem_len left;
                     b \<leftarrow> blit (cp_readbuf c) (nat len) bs;
                     Some (n \<noteq> rem_len, c\<lparr>cp_readbuf := b\<rparr>, timer, w) }
                 else Some (False, c, timer, w));
              (if bad then Some (rc, c, timer, w)
               else do {
                 header \<leftarrow> load (cp_readbuf c) 0;
                 let (c, w) = mark_received E c w;
                 Some (uint (header_type header), c, timer, w) }) }) }) })"

section \<open>Delivering messages\<close>

text \<open>The scanner is the one of the C client, copied.\<close>

definition cpp_isTopicMatched :: "byte list \<Rightarrow> MQTTString \<Rightarrow> bool option" where
  "cpp_isTopicMatched filt topicName = isTopicMatched filt topicName"

definition cpp_topic_hits :: "byte list \<Rightarrow> MQTTString \<Rightarrow> bool option" where
  "cpp_topic_hits filt topicName = do {
     e \<leftarrow> MQTTPacket_equals topicName filt;
     (if e then Some True else cpp_isTopicMatched filt topicName) }"

definition FP_run :: "('w, 't) env \<Rightarrow> FP \<Rightarrow> Message \<Rightarrow> MQTTString \<Rightarrow> 'w \<Rightarrow> 'w" where
  "FP_run E f msg topicName w = (case FP_call f of None \<Rightarrow> w | Some i \<Rightarrow> invoke E i msg topicName w)"

definition cpp_deliverMessage ::
  "('w, 't) env \<Rightarrow> 't Client \<Rightarrow> MQTTString \<Rightarrow> Message \<Rightarrow> 'w \<Rightarrow> (int \<times> 'w) option" where
  "cpp_deliverMessage E c topicName msg w = do {
     (rc, w) \<leftarrow> for_loop 0 (length (cp_messageHandlers c)) (\<lambda>i (rc, w). do {
         slot \<leftarrow> idx (cp_messageHandlers c) i;
         (case sl_filter slot of
            None \<Rightarrow> Some (rc, w)
          | Some (_, filt) \<Rightarrow> do {
              hit \<leftarrow> cpp_topic_hits filt topicName;
              Some (if hit \<and> FP_attached (sl_fp slot) then (SUCCESS, FP_run E (sl_fp slot) msg topicName w) else (rc, w)) }) })
       (FAILURE, w);
     Some (if rc = FAILURE \<and> FP_attached (cp_defaultMessageHandler c)
           then (SUCCESS, FP_run E (cp_defaultMessageHandler c) msg topicName w) else (rc, w)) }"

end
