(* ===== verification/Cpp_Api.thy ===== *)
theory Cpp_Api
  imports Cpp_Client
begin

text \<open>
  The receive loop and the public operations of the C++ client,
  \<open>paho/MQTTClient/src/MQTTClient.h\<close>.
\<close>

section \<open>One round of the receive loop\<close>

definition cpp_keepalive ::
  "('w, 't) env \<Rightarrow> config \<Rightarrow> 't Client \<Rightarrow> 'w \<Rightarrow> (int \<times> 't Client \<times> 'w) option" where
  "cpp_keepalive E cfg c w =
     (if cp_keepAliveInterval c = 0 then Some (SUCCESS, c, w)
      else
        let (e, t, w) = expired E (cp_last_received c) w;
            c = c\<lparr>cp_last_received := t\<rparr>
        in if \<not> e then Some (SUCCESS, c, w)
           else if cp_ping_outstanding c > 5 then Some (FAILURE, c, w)
           else
             let (timer, w) = timer_new_ms E 1000 w in do {
               (len, c) \<leftarrow> into_sendbuf cfg c MQTTSerialize_pingreq;
               (if len > 0 then do {
                  (rc, _, w) \<leftarrow> cpp_sendPacket E c len timer w;
                  (if rc = SUCCESS then
                     let (t, w) = countdown E (cp_last_received c) 15 w in do {
                       k \<leftarrow> cint (cp_ping_outstanding c + 1);
                       Some (rc, c\<lparr>cp_last_received := t, cp_ping_outstanding := k\<rparr>, w) }
                   else Some (rc, c, w)) }
                else Some (SUCCESS, c, w)) })"

text \<open>The cases of the switch; the flag says that the case ended with
  \<open>goto exit\<close>.\<close>

definition cpp_message_of :: "publish_out \<Rightarrow> Message" where
  "cpp_message_of out =
     \<lparr>m_qos = pub_qos out, m_retained = pub_retained out, m_dup = pub_dup out, m_id = pub_packetid out,
      m_payload = pub_payload out, m_payloadlen = word_of_int (pub_payloadlen out)\<rparr>"

text \<open>Delivering a received message: with QoS 2 support, a QoS 2 message is delivered
  when its identifier is not yet recorded and there is room to record it.\<close>

definition cpp_receive ::
  "('w, 't) env \<Rightarrow> config \<Rightarrow> 't Client \<Rightarrow> MQTTString \<Rightarrow> Message \<Rightarrow> 'w \<Rightarrow> ('t Client \<times> 'w) option" where
  "cpp_receive E cfg c topicName msg w =
     (if \<not> MQTTCLIENT_QOS2 cfg \<or> m_qos msg \<noteq> 2 then do {
        (_, w) \<leftarrow> cpp_deliverMessage E c topicName msg w;
        Some (c, w) }
      else if isQoS2msgidFree (incomingQoS2messages c) (m_id msg) then
        (let (r, ids) = useQoS2msgid (incomingQoS2messages c) (m_id msg);
             c = c\<lparr>incomingQoS2messages := ids\<rparr>
         in if r then do {
              (_, w) \<leftarrow> cpp_deliverMessage E c topicName msg w;
              Some (c, w) }
            else Some (c, w))
      else Some (c, w))"

definition cpp_cycle_publish ::
  "('w, 't) env \<Rightarrow> config \<Rightarrow> 't Client \<Rightarrow> 't \<Rightarrow> 'w \<Rightarrow> (bool \<times> int \<times> 't Client \<times> 'w) option" where
  "cpp_cycle_publish E cfg c send_timer w = do {
     (ok, out) \<leftarrow> MQTTDeserialize_publish ((local_pub E)\<lparr>pub_payloadlen := 0, pub_topicName := MQTTString_initializer\<rparr>)
        (cp_readbuf c) (MAX_MQTT_PACKET_SIZE cfg);
     (if ok \<noteq> 1 then Some (True, SUCCESS, c, w)
      else do {
        let msg = cpp_message_of out;
        (c, w) \<leftarrow> cpp_receive E cfg c (pub_topicName out) msg w;
        (if m_qos msg \<noteq> 0 then do {
           (len, c) \<leftarrow>
             (if m_qos msg = 1 then into_sendbuf cfg c (\<lambda>b n. MQTTSerialize_ack b n (msg_code PUBACK) 0 (m_id msg))
              else if m_qos msg = 2 then into_sendbuf cfg c (\<lambda>b n. MQTTSerialize_ack b n (msg_code PUBREC) 0 (m_id msg))
              else Some (0, c));
           (rc, w) \<leftarrow>
             (if len \<le> 0 then Some (FAILURE, w)
              else do { (rc, _, w) \<leftarrow> cpp_sendPacket E c len send_timer w; Some (rc, w) });
           Some (rc = FAILURE, rc, c, w) }
         else Some (False, SUCCESS, c, w)) }) }"

definition cpp_cycle_pubrec_pubrel ::
  "('w, 't) env \<Rightarrow> config \<Rightarrow> 't Client \<Rightarrow> int \<Rightarrow> 't \<Rightarrow> 'w \<Rightarrow> (bool \<times> int \<times> 't Client \<times> 'w) option" where
  "cpp_cycle_pubrec_pubrel E cfg c packet_type send_timer w = do {
     (ok, out) \<leftarrow> MQTTDeserialize_ack (local_ack E) (cp_readbuf c) (MAX_MQTT_PACKET_SIZE cfg);
     (rc, c, w) \<leftarrow>
       (if ok \<noteq> 1 then Some (FAILURE, c, w)
        else do {
          (len, c) \<leftarrow> into_sendbuf cfg c (\<lambda>b n. MQTTSerialize_ack b n
             (if packet_type = type_code PUBREC then msg_code PUBREL else msg_code PUBCOMP) 0 (ack_packetid out));
          (if len \<le> 0 then Some (FAILURE, c, w)
           else do {
             (rc, _, w) \<leftarrow> cpp_sendPacket E c len send_timer w;
             Some (if rc \<noteq> SUCCESS then FAILURE else rc, c, w) }) });
     (if rc = FAILURE then Some (True, rc, c, w)
      else Some (False, rc,
        if packet_type = type_code PUBREL
        then c\<lparr>incomingQoS2messages := freeQoS2msgid (incomingQoS2messages c) (ack_packetid out)\<rparr> else c, w)) }"

definition cpp_cycle_switch ::
  "('w, 't) env \<Rightarrow> config \<Rightarrow> 't Client \<Rightarrow> int \<Rightarrow> 't \<Rightarrow> 'w \<Rightarrow> (bool \<times> int \<times> 't Client \<times> 'w) option" where
  "cpp_cycle_switch E cfg c packet_type send_timer w =
     (if packet_type = 0 then Some (False, SUCCESS, c, w)
      else if packet_type \<in> {type_code CONNACK, type_code PUBACK, type_code SUBACK} then Some (False, SUCCESS, c, w)
      else if packet_type = type_code PUBLISH then cpp_cycle_publish E cfg c send_timer w
      else if MQTTCLIENT_QOS2 cfg \<and> (packet_type = type_code PUBREC \<or> packet_type = type_code PUBREL)
      then cpp_cycle_pubrec_pubrel E cfg c packet_type send_timer w
      else if MQTTCLIENT_QOS2 cfg \<and> packet_type = type_code PUBCOMP then Some (False, SUCCESS, c, w)
      else if packet_type = type_code PINGRESP then Some (False, SUCCESS, c\<lparr>cp_ping_outstanding := 0\<rparr>, w)
      else Some (True, packet_type, c, w))"

definition cpp_cycle ::
  "('w, 't) env \<Rightarrow> config \<Rightarrow> 't Client \<Rightarrow> 't \<Rightarrow> 'w \<Rightarrow> (int \<times> 't Client \<times> 't \<times> 'w) option" where
  "cpp_cycle E cfg c timer w =
     (let (send_timer, w) = timer_new E w in do {
        (packet_type, c, timer, w) \<leftarrow> cpp_readPacket E cfg c timer w;
        (stop, rc, c, w) \<leftarrow> cpp_cycle_switch E cfg c packet_type send_timer w;
        (rc, c, w) \<leftarrow>
          (if stop then Some (rc, c, w)
           else do {
             (k, c, w) \<leftarrow> cpp_keepalive E cfg c w;
             Some (if k \<noteq> SUCCESS then FAILURE else rc, c, w) });
        Some (if rc = SUCCESS then (packet_type, c, timer, w)
              else if cp_isconnected c then let (c, w) = closeSession E cfg c w in (rc, c, timer, w)
              else (rc, c, timer, w)) })"

partial_function (option) cpp_yield_loop ::
  "('w, 't) env \<Rightarrow> config \<Rightarrow> 't Client \<Rightarrow> 't \<Rightarrow> 'w \<Rightarrow> (int \<times> 't Client \<times> 'w) option" where
  "cpp_yield_loop E cfg c timer w =
     (let (e, timer, w) = expired E timer w in
      if e then Some (SUCCESS, c, w)
      else do {
        (rc, c, timer, w) \<leftarrow> cpp_cycle E cfg c timer w;
        (if rc < 0 then Some (FAILURE, c, w) else cpp_yield_loop E cfg c timer w) })"

declare cpp_yield_loop.simps [code]

definition cpp_yield ::
  "('w, 't) env \<Rightarrow> config \<Rightarrow> 't Client \<Rightarrow> 32 word \<Rightarrow> 'w \<Rightarrow> (int \<times> 't Client \<times> 'w) option" where
  "cpp_yield E cfg c timeout_ms w =
     (let (timer, w) = timer_new E w; (timer, w) = countdown_ms E timer timeout_ms w
      in cpp_yield_loop E cfg c timer w)"

partial_function (option) cpp_waitfor_loop ::
  "('w, 't) env \<Rightarrow> config \<Rightarrow> 't Client \<Rightarrow> int \<Rightarrow> int \<Rightarrow> 't \<Rightarrow> 'w \<Rightarrow> (int \<times> 't Client \<times> 't \<times> 'w) option" where
  "cpp_waitfor_loop E cfg c packet_type rc timer w =
     (let (e, timer, w) = expired E timer w in
      if e then Some (rc, c, timer, w)
      else do {
        (rc, c, timer, w) \<leftarrow> cpp_cycle E cfg c timer w;
        (if rc \<noteq> packet_type \<and> rc \<ge> 0 then cpp_waitfor_loop E cfg c packet_type rc timer w
         else Some (rc, c, timer, w)) })"

declare cpp_waitfor_loop.simps [code]

definition cpp_waitfor ::
  "('w, 't) env \<Rightarrow> config \<Rightarrow> 't Client \<Rightarrow> int \<Rightarrow> 't \<Rightarrow> 'w \<Rightarrow> (int \<times> 't Client \<times> 't \<times> 'w) option" where
  "cpp_waitfor E cfg c packet_type timer w = cpp_waitfor_loop E cfg c packet_type FAILURE timer w"

section \<open>Publishing\<close>

text \<open>Waiting for the acknowledgement; a matching one clears the message in
  flight.\<close>

definition cpp_await_ack ::
  "('w, 't) env \<Rightarrow> config \<Rightarrow> 't Client \<Rightarrow> msgTypes \<Rightarrow> 't \<Rightarrow> 'w \<Rightarrow> (int \<times> 't Client \<times> 't \<times> 'w) option" where
  "cpp_await_ack E cfg c t timer w = do {
     (got, c, timer, w) \<leftarrow> cpp_waitfor E cfg c (type_code t) timer w;
     (if got = type_code t then do {
        (ok, out) \<leftarrow> MQTTDeserialize_ack (local_ack E) (cp_readbuf c) (MAX_MQTT_PACKET_SIZE cfg);
        Some (if ok \<noteq> 1 then FAILURE else SUCCESS,
              if ok = 1 \<and> inflightMsgid c = ack_packetid out then c\<lparr>inflightMsgid := 0\<rparr> else c, timer, w) }
      else Some (FAILURE, c, timer, w)) }"

text \<open>\<open>publish (len, timer, qos)\<close>, the private overload.\<close>

definition cpp_publish_buffer ::
  "('w, 't) env \<Rightarrow> config \<Rightarrow> 't Client \<Rightarrow> int \<Rightarrow> 't \<Rightarrow> int \<Rightarrow> 'w \<Rightarrow> (int \<times> 't Client \<times> 't \<times> 'w) option" where
  "cpp_publish_buffer E cfg c len timer qos w = do {
     (rc, timer, w) \<leftarrow> cpp_sendPacket E c len timer w;
     (if rc \<noteq> SUCCESS then Some (rc, c, timer, w)
      else if qos = 1 then cpp_await_ack E cfg c PUBACK timer w
      else if MQTTCLIENT_QOS2 cfg \<and> qos = 2 then cpp_await_ack E cfg c PUBCOMP timer w
      else Some (rc, c, timer, w)) }"

text \<open>With a persistent session the packet is kept for sending it again when the
  client reconnects.\<close>

definition keep_for_resend :: "config \<Rightarrow> 't Client \<Rightarrow> int \<Rightarrow> 16 word \<Rightarrow> int \<Rightarrow> 't Client option" where
  "keep_for_resend cfg c len pid qos =
     (if \<not> cp_cleansession c then do {
        b \<leftarrow> memcpy (pubbuf c) 0 (sendbuf c) len;
        let c = c\<lparr>pubbuf := b, inflightMsgid := pid, inflightLen := len, inflightQoS := qos\<rparr>;
        Some (if MQTTCLIENT_QOS2 cfg then c\<lparr>pubrel := False\<rparr> else c) }
      else Some c)"

definition cpp_publish_send ::
  "('w, 't) env \<Rightarrow> config \<Rightarrow> 't Client \<Rightarrow> byte list \<Rightarrow> byte list \<Rightarrow> 32 word \<Rightarrow> 16 word \<Rightarrow> int \<Rightarrow> bool \<Rightarrow> 't \<Rightarrow> 'w \<Rightarrow>
   (int \<times> 't Client \<times> 'w) option" where
  "cpp_publish_send E cfg c topicName payload payloadlen pid qos retained timer w = do {
     (len, c) \<leftarrow> into_sendbuf cfg c (\<lambda>b n. MQTTSerialize_publish b n 0 qos (if retained then 1 else 0) pid
        (MQTTString_initializer\<lparr>cstring := Some topicName\<rparr>) payload (sint payloadlen));
     (if len \<le> 0 then Some (FAILURE, c, w)
      else do {
        c \<leftarrow> keep_for_resend cfg c len pid qos;
        (rc, c, _, w) \<leftarrow> cpp_publish_buffer E cfg c len timer qos w;
        Some (rc, c, w) }) }"

text \<open>The overload with the identifier; \<open>pid\<close> is the caller's variable.\<close>

definition cpp_publish_id ::
  "('w, 't) env \<Rightarrow> config \<Rightarrow> 't Client \<Rightarrow> byte list \<Rightarrow> byte list \<Rightarrow> 32 word \<Rightarrow> 16 word \<Rightarrow> int \<Rightarrow> bool \<Rightarrow> 'w \<Rightarrow>
   (int \<times> 16 word \<times> 't Client \<times> 'w) option" where
  "cpp_publish_id E cfg c topicName payload payloadlen pid qos retained w =
     (let (timer, w) = timer_new E w in
      if \<not> cp_isconnected c then Some (FAILURE, pid, c, w)
      else
        let (pid, c) = (if qos = 1 \<or> qos = 2 then let (n, c) = PacketId_getNext c in (word_of_int n, c) else (pid, c))
        in do {
          (rc, c, w) \<leftarrow> cpp_publish_send E cfg c topicName payload payloadlen pid qos retained timer w;
          Some (rc, pid, c, w) })"

definition cpp_publish ::
  "('w, 't) env \<Rightarrow> config \<Rightarrow> 't Client \<Rightarrow> byte list \<Rightarrow> byte list \<Rightarrow> 32 word \<Rightarrow> int \<Rightarrow> bool \<Rightarrow> 'w \<Rightarrow>
   (int \<times> 't Client \<times> 'w) option" where
  "cpp_publish E cfg c topicName payload payloadlen qos retained w = do {
     (rc, _, c, w) \<leftarrow> cpp_publish_id E cfg c topicName payload payloadlen 0 qos retained w;
     Some (rc, c, w) }"

definition cpp_publish_message ::
  "('w, 't) env \<Rightarrow> config \<Rightarrow> 't Client \<Rightarrow> byte list \<Rightarrow> Message \<Rightarrow> 'w \<Rightarrow> (int \<times> 't Client \<times> 'w) option" where
  "cpp_publish_message E cfg c topicName msg w =
     cpp_publish E cfg c topicName (m_payload msg) (m_payloadlen msg) (m_qos msg) (m_retained msg \<noteq> 0) w"

section \<open>Connecting\<close>

text \<open>Waiting for the CONNACK.\<close>

definition cpp_await_connack ::
  "('w, 't) env \<Rightarrow> config \<Rightarrow> 't Client \<Rightarrow> connackData \<Rightarrow> 't \<Rightarrow> 'w \<Rightarrow>
   (int \<times> connackData \<times> 't Client \<times> 't \<times> 'w) option" where
  "cpp_await_connack E cfg c data timer w = do {
     (got, c, timer, w) \<leftarrow> cpp_waitfor E cfg c (type_code CONNACK) timer w;
     (if got = type_code CONNACK then do {
        (ok, out) \<leftarrow> MQTTDeserialize_connack \<lparr>ca_sessionPresent = 0, ca_rc = 0\<rparr> (cp_readbuf c) (MAX_MQTT_PACKET_SIZE cfg);
        let data = data\<lparr>ckd_rc := uint (ca_rc out), ckd_sessionPresent := ca_sessionPresent out \<noteq> 0\<rparr>;
        Some (if ok = 1 then ckd_rc data else FAILURE, data, c, timer, w) }
      else Some (FAILURE, data, c, timer, w)) }"

text \<open>Sending the message in flight again.\<close>

definition resend_inflight ::
  "('w, 't) env \<Rightarrow> config \<Rightarrow> 't Client \<Rightarrow> int \<Rightarrow> 't \<Rightarrow> 'w \<Rightarrow> (int \<times> 't Client \<times> 'w) option" where
  "resend_inflight E cfg c rc timer w =
     (if MQTTCLIENT_QOS2 cfg \<and> inflightMsgid c > 0 \<and> inflightQoS c = 2 \<and> pubrel c then do {
        (len, c) \<leftarrow> into_sendbuf cfg c (\<lambda>b n. MQTTSerialize_ack b n (msg_code PUBREL) 0 (inflightMsgid c));
        (if len \<le> 0 then Some (FAILURE, c, w)
         else do {
           (rc, c, _, w) \<leftarrow> cpp_publish_buffer E cfg c len timer (inflightQoS c) w;
           Some (rc, c, w) }) }
      else if inflightMsgid c > 0 then do {
        b \<leftarrow> memcpy (sendbuf c) 0 (pubbuf c) (MAX_MQTT_PACKET_SIZE cfg);
        let c = c\<lparr>sendbuf := b\<rparr>;
        (rc, c, _, w) \<leftarrow> cpp_publish_buffer E cfg c (inflightLen c) timer (inflightQoS c) w;
        Some (rc, c, w) }
      else Some (rc, c, w))"

text \<open>What follows the sending of CONNECT.\<close>

definition cpp_connect_answer ::
  "('w, 't) env \<Rightarrow> config \<Rightarrow> 't Client \<Rightarrow> connackData \<Rightarrow> 't \<Rightarrow> 'w \<Rightarrow> (int \<times> connackData \<times> 't Client \<times> 'w) option" where
  "cpp_connect_answer E cfg c data timer w =
     (let (c, w) = mark_received E c w in do {
        (rc, data, c, timer, w) \<leftarrow> cpp_await_connack E cfg c data timer w;
        (rc, c, w) \<leftarrow> resend_inflight E cfg c rc timer w;
        Some (rc, data, c, w) })"

definition cpp_connect_data ::
  "('w, 't) env \<Rightarrow> config \<Rightarrow> 't Client \<Rightarrow> MQTTPacket_connectData \<Rightarrow> connackData \<Rightarrow> 'w \<Rightarrow>
   (int \<times> connackData \<times> 't Client \<times> 'w) option" where
  "cpp_connect_data E cfg c options data w =
     (let (connect_timer, w) = timer_new_ms E 5000 w in do {
        (rc, data, c, w) \<leftarrow>
          (if cp_isconnected c then Some (FAILURE, data, c, w)
           else do {
             let c = c\<lparr>cp_keepAliveInterval := ucast (cd_keepAliveInterval options),
                       cp_cleansession := cd_cleansession options \<noteq> 0\<rparr>;
             (len, c) \<leftarrow> into_sendbuf cfg c (\<lambda>b n. MQTTSerialize_connect b n options);
             (if len \<le> 0 then Some (FAILURE, data, c, w)
              else do {
                (rc, timer, w) \<leftarrow> cpp_sendPacket E c len connect_timer w;
                (if rc \<noteq> SUCCESS then Some (rc, data, c, w)
                 else cpp_connect_answer E cfg c data timer w) }) });
        Some (rc, data, if rc = SUCCESS then c\<lparr>cp_isconnected := True, cp_ping_outstanding := 0\<rparr> else c, w) })"

definition cpp_connect_options ::
  "('w, 't) env \<Rightarrow> config \<Rightarrow> 't Client \<Rightarrow> MQTTPacket_connectData \<Rightarrow> connackData \<Rightarrow> 'w \<Rightarrow> (int \<times> 't Client \<times> 'w) option" where
  "cpp_connect_options E cfg c options uninit w = do {
     (rc, _, c, w) \<leftarrow> cpp_connect_data E cfg c options uninit w;
     Some (rc, c, w) }"

definition cpp_connect :: "('w, 't) env \<Rightarrow> config \<Rightarrow> 't Client \<Rightarrow> connackData \<Rightarrow> 'w \<Rightarrow> (int \<times> 't Client \<times> 'w) option" where
  "cpp_connect E cfg c uninit w = cpp_connect_options E cfg c MQTTPacket_connectData_initializer uninit w"

end
