(* ===== verification/Cpp_Handlers.thy ===== *)
theory Cpp_Handlers
  imports Cpp_Api
begin

text \<open>
  The C++ client: message handlers, subscribing, unsubscribing and disconnecting.
  A callback is a number, 0 for \<open>NULL\<close>.
\<close>

section \<open>Message handlers\<close>

text \<open>The two overloads of \<open>setMessageHandler\<close> differ in the callback they attach.
  \<open>strcpy\<close> into the null pointer of a failed \<open>malloc\<close> is undefined. An existing
  filter is replaced by a fresh copy and its block is not freed.\<close>

primrec scan_table :: "(cpp_slot \<Rightarrow> bool) \<Rightarrow> cpp_slot list \<Rightarrow> nat" where
  "scan_table P [] = 0"
| "scan_table P (s # ss) = (if P s then 0 else Suc (scan_table P ss))"

definition slot_holds :: "byte list \<Rightarrow> cpp_slot \<Rightarrow> bool" where
  "slot_holds filt s \<longleftrightarrow> (case sl_filter s of None \<Rightarrow> False | Some (_, f) \<Rightarrow> f = filt)"

definition remove_slot :: "('w, 't) env \<Rightarrow> cpp_slot \<Rightarrow> 'w \<Rightarrow> cpp_slot \<times> 'w" where
  "remove_slot E s w =
     (s\<lparr>sl_filter := None, sl_fp := FP_detach (sl_fp s)\<rparr>,
      case sl_filter s of None \<Rightarrow> w | Some (p, _) \<Rightarrow> heap_free E p w)"

definition fill_slot ::
  "('w, 't) env \<Rightarrow> byte list \<Rightarrow> (FP \<Rightarrow> FP) \<Rightarrow> cpp_slot \<Rightarrow> 'w \<Rightarrow> (cpp_slot \<times> 'w) option" where
  "fill_slot E filt attach s w =
     (let (p, w) = heap_malloc E (length filt + 1) w
      in if p = 0 then None
         else Some (s\<lparr>sl_filter := Some (p, filt), sl_fp := attach (sl_fp s)\<rparr>, w))"

definition set_table ::
  "('w, 't) env \<Rightarrow> cpp_slot list \<Rightarrow> byte list \<Rightarrow> bool \<Rightarrow> (FP \<Rightarrow> FP) \<Rightarrow> 'w \<Rightarrow> (int \<times> cpp_slot list \<times> 'w) option" where
  "set_table E slots filt removing attach w =
     (let i = scan_table (slot_holds filt) slots;
          found = i < length slots;
          rc = (if found then SUCCESS else FAILURE)
      in if removing then
           (if found then let (s, w) = remove_slot E (slots ! i) w in Some (rc, slots[i := s], w)
            else Some (rc, slots, w))
         else
           let i = (if found then i else scan_table (\<lambda>s. sl_filter s = None) slots);
               rc = (if i < length slots then SUCCESS else rc)
           in if i < length slots then do {
                (s, w) \<leftarrow> fill_slot E filt attach (slots ! i) w;
                Some (rc, slots[i := s], w) }
              else Some (rc, slots, w))"

definition setMessageHandler_function ::
  "('w, 't) env \<Rightarrow> 't Client \<Rightarrow> byte list \<Rightarrow> nat \<Rightarrow> 'w \<Rightarrow> (int \<times> 't Client \<times> 'w) option" where
  "setMessageHandler_function E c filt func_cb w = do {
     (rc, slots, w) \<leftarrow> set_table E (cp_messageHandlers c) filt (func_cb = 0) (\<lambda>f. FP_attach_function f func_cb) w;
     Some (rc, c\<lparr>cp_messageHandlers := slots\<rparr>, w) }"

text \<open>\<open>method\<close> is \<open>&MessageCallback::messageHandler\<close>.\<close>

definition setMessageHandler_object ::
  "('w, 't) env \<Rightarrow> nat \<Rightarrow> 't Client \<Rightarrow> byte list \<Rightarrow> nat \<Rightarrow> 'w \<Rightarrow> (int \<times> 't Client \<times> 'w) option" where
  "setMessageHandler_object E method c filt callback w = do {
     (rc, slots, w) \<leftarrow> set_table E (cp_messageHandlers c) filt (callback = 0) (\<lambda>f. FP_attach_method f callback method) w;
     Some (rc, c\<lparr>cp_messageHandlers := slots\<rparr>, w) }"

section \<open>Subscribing\<close>

text \<open>The body the two overloads share, up to the call of \<open>setMessageHandler\<close>;
  \<open>granted\<close> is \<open>data.grantedQoS\<close>.\<close>

definition cpp_await_suback ::
  "('w, 't) env \<Rightarrow> config \<Rightarrow> ('t Client \<Rightarrow> 'w \<Rightarrow> (int \<times> 't Client \<times> 'w) option) \<Rightarrow> 't Client \<Rightarrow> int \<Rightarrow> 't \<Rightarrow> 'w \<Rightarrow>
   (int \<times> int \<times> 't Client \<times> 'w) option" where
  "cpp_await_suback E cfg set_fn c granted timer w = do {
     (got, c, timer, w) \<leftarrow> cpp_waitfor E cfg c (type_code SUBACK) timer w;
     (if got = type_code SUBACK then do {
        (ok, out) \<leftarrow> MQTTDeserialize_suback (char_signedness E) 1
           \<lparr>sa_packetid = ack_packetid (local_ack E), sa_count = 0, sa_grantedQoSs = [0]\<rparr>
           (cp_readbuf c) (MAX_MQTT_PACKET_SIZE cfg);
        granted \<leftarrow> idx (sa_grantedQoSs out) 0;
        (if ok = 1 \<and> granted \<noteq> 0x80 then do {
           (rc, c, w) \<leftarrow> set_fn c w;
           Some (rc, granted, c, w) }
         else Some (SUCCESS, granted, c, w)) }
      else Some (FAILURE, granted, c, w)) }"

definition cpp_subscribe_body ::
  "('w, 't) env \<Rightarrow> config \<Rightarrow> ('t Client \<Rightarrow> 'w \<Rightarrow> (int \<times> 't Client \<times> 'w) option) \<Rightarrow> 't Client \<Rightarrow> byte list \<Rightarrow> int \<Rightarrow> int \<Rightarrow>
   'w \<Rightarrow> (int \<times> int \<times> 't Client \<times> 'w) option" where
  "cpp_subscribe_body E cfg set_fn c filt qos granted w =
     (let (timer, w) = timer_new E w in
      if \<not> cp_isconnected c then Some (FAILURE, granted, c, w)
      else
        let (n, c) = PacketId_getNext c in do {
          (len, c) \<leftarrow> into_sendbuf cfg c (\<lambda>b m. MQTTSerialize_subscribe b m 0 (word_of_int n) 1
             [MQTTString_initializer\<lparr>cstring := Some filt\<rparr>] [qos]);
          (if len \<le> 0 then Some (FAILURE, granted, c, w)
           else do {
             (rc, timer, w) \<leftarrow> cpp_sendPacket E c len timer w;
             (if rc \<noteq> SUCCESS then Some (rc, granted, c, w)
              else cpp_await_suback E cfg set_fn c granted timer w) }) })"

definition cpp_subscribe_object_data ::
  "('w, 't) env \<Rightarrow> config \<Rightarrow> nat \<Rightarrow> 't Client \<Rightarrow> byte list \<Rightarrow> int \<Rightarrow> nat \<Rightarrow> int \<Rightarrow> 'w \<Rightarrow> (int \<times> int \<times> 't Client \<times> 'w) option" where
  "cpp_subscribe_object_data E cfg method c filt qos callback granted w =
     cpp_subscribe_body E cfg (\<lambda>c w. setMessageHandler_object E method c filt callback w) c filt qos granted w"

definition cpp_subscribe_function_data ::
  "('w, 't) env \<Rightarrow> config \<Rightarrow> 't Client \<Rightarrow> byte list \<Rightarrow> int \<Rightarrow> nat \<Rightarrow> int \<Rightarrow> 'w \<Rightarrow> (int \<times> int \<times> 't Client \<times> 'w) option" where
  "cpp_subscribe_function_data E cfg c filt qos func_cb granted w =
     cpp_subscribe_body E cfg (\<lambda>c w. setMessageHandler_function E c filt func_cb w) c filt qos granted w"

text \<open>Without a \<open>subackData\<close> argument a local, \<open>uninit\<close>, is used.\<close>

definition cpp_subscribe_object ::
  "('w, 't) env \<Rightarrow> config \<Rightarrow> nat \<Rightarrow> 't Client \<Rightarrow> byte list \<Rightarrow> int \<Rightarrow> nat \<Rightarrow> int \<Rightarrow> 'w \<Rightarrow> (int \<times> 't Client \<times> 'w) option" where
  "cpp_subscribe_object E cfg method c filt qos callback uninit w = do {
     (rc, _, c, w) \<leftarrow> cpp_subscribe_object_data E cfg method c filt qos callback uninit w;
     Some (rc, c, w) }"

definition cpp_subscribe_function ::
  "('w, 't) env \<Rightarrow> config \<Rightarrow> 't Client \<Rightarrow> byte list \<Rightarrow> int \<Rightarrow> nat \<Rightarrow> int \<Rightarrow> 'w \<Rightarrow> (int \<times> 't Client \<times> 'w) option" where
  "cpp_subscribe_function E cfg c filt qos func_cb uninit w = do {
     (rc, _, c, w) \<leftarrow> cpp_subscribe_function_data E cfg c filt qos func_cb uninit w;
     Some (rc, c, w) }"

section \<open>Unsubscribing and disconnecting\<close>

definition cpp_unsubscribe ::
  "('w, 't) env \<Rightarrow> config \<Rightarrow> 't Client \<Rightarrow> byte list \<Rightarrow> 'w \<Rightarrow> (int \<times> 't Client \<times> 'w) option" where
  "cpp_unsubscribe E cfg c filt w =
     (let (timer, w) = timer_new E w in
      if \<not> cp_isconnected c then Some (FAILURE, c, w)
      else
        let (n, c) = PacketId_getNext c in do {
          (len, c) \<leftarrow> into_sendbuf cfg c (\<lambda>b m. MQTTSerialize_unsubscribe b m 0 (word_of_int n) 1
             [MQTTString_initializer\<lparr>cstring := Some filt\<rparr>]);
          (if len \<le> 0 then Some (FAILURE, c, w)
           else do {
             (rc, timer, w) \<leftarrow> cpp_sendPacket E c len timer w;
             (if rc \<noteq> SUCCESS then Some (rc, c, w)
              else do {
                (got, c, timer, w) \<leftarrow> cpp_waitfor E cfg c (type_code UNSUBACK) timer w;
                (if got = type_code UNSUBACK then do {
                   (ok, _) \<leftarrow> MQTTDeserialize_unsuback (ack_packetid (local_ack E)) (cp_readbuf c) (MAX_MQTT_PACKET_SIZE cfg);
                   (if ok = 1 then do {
                      (_, c, w) \<leftarrow> setMessageHandler_function E c filt 0 w;
                      Some (rc, c, w) }
                    else Some (rc, c, w)) }
                 else Some (FAILURE, c, w)) }) }) })"

definition cpp_disconnect ::
  "('w, 't) env \<Rightarrow> config \<Rightarrow> 't Client \<Rightarrow> 'w \<Rightarrow> (int \<times> 't Client \<times> 'w) option" where
  "cpp_disconnect E cfg c w =
     (let (timer, w) = timer_new E w in do {
        (len, c) \<leftarrow> into_sendbuf cfg c MQTTSerialize_disconnect;
        (rc, w) \<leftarrow>
          (if len > 0 then do { (rc, _, w) \<leftarrow> cpp_sendPacket E c len timer w; Some (rc, w) }
           else Some (FAILURE, w));
        let (c, w) = closeSession E cfg c w;
        Some (rc, c, w) })"

definition isConnected :: "'t Client \<Rightarrow> bool" where
  "isConnected c = cp_isconnected c"

end
