(* ===== verification/Cpp_Bench.thy ===== *)
theory Cpp_Bench
  imports Cpp_Handlers
begin

text \<open>
  A concrete network, timer class and heap for the C++ client: the bytes the server
  will send, those it has received, the callbacks run, and the next block
  \<open>malloc\<close> gives. Timers expire after six queries.
\<close>

record cpp_world =
  x_in :: "byte list"
  x_out :: "byte list"
  x_calls :: "(invocation \<times> Message \<times> MQTTString) list"
  x_heap :: nat

definition x_read :: "cpp_world \<Rightarrow> int \<Rightarrow> int \<Rightarrow> (int \<times> byte list \<times> cpp_world) option" where
  "x_read w n timeout =
     (if 0 \<le> n \<and> nat n \<le> length (x_in w)
      then Some (n, take (nat n) (x_in w), w\<lparr>x_in := drop (nat n) (x_in w)\<rparr>)
      else Some (0, [], w))"

definition x_write :: "cpp_world \<Rightarrow> byte list \<Rightarrow> int \<Rightarrow> int \<Rightarrow> (int \<times> cpp_world) option" where
  "x_write w bs n timeout =
     (if 0 \<le> n \<and> nat n \<le> length bs then Some (n, w\<lparr>x_out := x_out w @ take (nat n) bs\<rparr>) else None)"

definition cpp_bench :: "(cpp_world, nat) env" where
  "cpp_bench = \<lparr>
     timer_new = (\<lambda>w. (6, w)),
     timer_new_ms = (\<lambda>ms w. (6, w)),
     countdown = (\<lambda>t s w. (6, w)),
     countdown_ms = (\<lambda>t ms w. (6, w)),
     expired = (\<lambda>t w. (t = 0, t - 1, w)),
     left_ms = (\<lambda>t w. (int t, t, w)),
     net_read = x_read,
     net_write = x_write,
     heap_malloc = (\<lambda>n w. (x_heap w, w\<lparr>x_heap := x_heap w + 1\<rparr>)),
     heap_free = (\<lambda>p w. w),
     invoke = (\<lambda>i m t w. w\<lparr>x_calls := x_calls w @ [(i, m, t)]\<rparr>),
     local_pub = \<lparr>pub_dup = 0, pub_qos = 0, pub_retained = 0, pub_packetid = 0,
        pub_topicName = MQTTString_initializer, pub_payload = [], pub_payloadlen = 0\<rparr>,
     local_ack = \<lparr>ack_packettype = 0, ack_dup = 0, ack_packetid = 0\<rparr>,
     char_signedness = False\<rparr>"

definition cpp_world_of :: "byte list \<Rightarrow> cpp_world" where
  "cpp_world_of input = \<lparr>x_in = input, x_out = [], x_calls = [], x_heap = 1\<rparr>"

definition cpp_config :: config where
  "cpp_config = \<lparr>MQTTCLIENT_QOS2 = True, MAX_MQTT_PACKET_SIZE = 30\<rparr>"

text \<open>Arrays of the declared sizes, then the constructor.\<close>

definition cpp_memory :: "nat Client" where
  "cpp_memory = \<lparr>sendbuf = replicate 30 0, cp_readbuf = replicate 30 0, cp_last_received = 0,
     cp_keepAliveInterval = 0, cp_ping_outstanding = 0, cp_cleansession = False, packetid_next = 7,
     cp_messageHandlers = replicate 2 \<lparr>sl_filter = None, sl_fp = \<lparr>obj_callback = 9, callback_word = 9\<rparr>\<rparr>,
     cp_defaultMessageHandler = FP_new, cp_isconnected = False, pubbuf = replicate 30 0, inflightLen = 0,
     inflightMsgid = 0, inflightQoS = 0, pubrel = True, incomingQoS2messages = [5, 5]\<rparr>"

definition cpp_client :: "nat Client" where
  "cpp_client = fst (Client_new cpp_bench cpp_config cpp_memory (cpp_world_of []))"

text \<open>A connected client with a persistent session and an object's handler for
  the topic \<open>t\<close>.\<close>

definition cpp_session :: "nat Client" where
  "cpp_session = cpp_client\<lparr>cp_isconnected := True, cp_cleansession := False,
     cp_messageHandlers := [\<lparr>sl_filter = Some (1, [0x74]), sl_fp = \<lparr>obj_callback = 4, callback_word = 2\<rparr>\<rparr>,
       \<lparr>sl_filter = None, sl_fp = \<lparr>obj_callback = 5, callback_word = 2\<rparr>\<rparr>]\<rparr>"

definition cpp_message :: Message where
  "cpp_message = \<lparr>m_qos = 2, m_retained = 0, m_dup = 0, m_id = 6, m_payload = [0x68], m_payloadlen = 1\<rparr>"

definition cpp_topic :: MQTTString where
  "cpp_topic = MQTTString_initializer\<lparr>cstring := Some [0x74]\<rparr>"

end
