(* ===== verification/Cpp_Qos2.thy ===== *)
theory Cpp_Qos2
  imports Cpp_Bench
begin

text \<open>
  The C++ client's table of incoming QoS 2 messages: it is a bounded set of packet
  identifiers, and with it \<open>cycle\<close> delivers a QoS 2 message exactly once as long as
  the table has room.
\<close>

section \<open>A bounded set of identifiers\<close>

locale msgid_set =
  fixes is_free :: "'t \<Rightarrow> 16 word \<Rightarrow> bool"
    and add :: "'t \<Rightarrow> 16 word \<Rightarrow> bool \<times> 't"
    and remove :: "'t \<Rightarrow> 16 word \<Rightarrow> 't"
    and ids :: "'t \<Rightarrow> 16 word set"
    and ok :: "'t \<Rightarrow> bool"
    and cap :: "'t \<Rightarrow> nat"
  assumes free_iff: "i \<noteq> 0 \<Longrightarrow> is_free t i \<longleftrightarrow> i \<notin> ids t"
    and add_result: "ok t \<Longrightarrow> fst (add t i) \<longleftrightarrow> card (ids t) < cap t"
    and add_ids: "ok t \<Longrightarrow> i \<noteq> 0 \<Longrightarrow> fst (add t i) \<Longrightarrow> ids (snd (add t i)) = insert i (ids t)"
    and add_full: "\<not> fst (add t i) \<Longrightarrow> snd (add t i) = t"
    and add_ok: "ok t \<Longrightarrow> i \<noteq> 0 \<Longrightarrow> i \<notin> ids t \<Longrightarrow> ok (snd (add t i))"
    and add_cap: "cap (snd (add t i)) = cap t"
    and remove_ids: "ok t \<Longrightarrow> ids (remove t i) = ids t - {i}"
    and remove_ok: "ok t \<Longrightarrow> ok (remove t i) \<and> cap (remove t i) = cap t"
    and bound: "ok t \<Longrightarrow> finite (ids t) \<and> card (ids t) \<le> cap t"
begin

lemma receive_cases:
  assumes "ok t" and "i \<noteq> 0"
  obtains (known) "i \<in> ids t" "\<not> is_free t i"
    | (taken) t' where "i \<notin> ids t" "is_free t i" "add t i = (True, t')" "card (ids t) < cap t"
        "ok t'" "ids t' = insert i (ids t)" "cap t' = cap t"
    | (full) "i \<notin> ids t" "is_free t i" "add t i = (False, t)" "\<not> card (ids t) < cap t"
  using assms free_iff [of i t] add_result [of t i] add_ids [of t i] add_full [of t i] add_ok [of t i] add_cap [of t i]
  by (cases "add t i") fastforce

lemma add_then_remove:
  assumes "ok t" and "i \<noteq> 0" and "i \<notin> ids t" and "fst (add t i)"
  shows "ids (remove (snd (add t i)) i) = ids t"
  using assms add_ids [of t i] add_ok [of t i] remove_ids [of "snd (add t i)" i] by auto

end

definition recorded :: "16 word list \<Rightarrow> 16 word set" where
  "recorded xs = set xs - {0}"

definition ids_ok :: "16 word list \<Rightarrow> bool" where
  "ids_ok xs \<longleftrightarrow> distinct (filter (\<lambda>x. x \<noteq> 0) xs)"

lemma isQoS2msgidFree_iff: "isQoS2msgidFree xs i \<longleftrightarrow> i \<notin> set xs"
  by (induction xs) auto

lemma useQoS2msgid_result: "fst (useQoS2msgid xs i) \<longleftrightarrow> 0 \<in> set xs"
  by (induction xs) (auto split: prod.splits)

lemma useQoS2msgid_length [simp]: "length (snd (useQoS2msgid xs i)) = length xs"
  by (induction xs) (auto split: prod.splits)

lemma useQoS2msgid_full: "0 \<notin> set xs \<Longrightarrow> snd (useQoS2msgid xs i) = xs"
  by (induction xs) (auto split: prod.splits)

lemma useQoS2msgid_recorded:
  "0 \<in> set xs \<Longrightarrow> i \<noteq> 0 \<Longrightarrow> recorded (snd (useQoS2msgid xs i)) = insert i (recorded xs)"
proof (induction xs)
  case (Cons x xs)
  then show ?case
    by (cases "x = 0"; cases "useQoS2msgid xs i") (auto simp: recorded_def insert_Diff_if insert_commute)
qed simp

lemma useQoS2msgid_ok:
  assumes "ids_ok xs" and "i \<noteq> 0" and "i \<notin> recorded xs"
  shows "ids_ok (snd (useQoS2msgid xs i))"
  using assms
proof (induction xs)
  case (Cons x xs)
  have "set (snd (useQoS2msgid xs i)) \<subseteq> insert i (set xs)" by (induction xs) (auto split: prod.splits)
  with Cons show ?case by (auto simp: ids_ok_def recorded_def split: prod.splits if_splits)
qed (simp add: ids_ok_def)

lemma freeQoS2msgid_length [simp]: "length (freeQoS2msgid xs i) = length xs"
  by (induction xs) auto

lemma freeQoS2msgid_set: "ids_ok xs \<Longrightarrow> recorded (freeQoS2msgid xs i) = recorded xs - {i}"
  by (induction xs) (auto simp: recorded_def ids_ok_def split: if_splits)

lemma freeQoS2msgid_ok: "ids_ok xs \<Longrightarrow> ids_ok (freeQoS2msgid xs i)"
proof (induction xs)
  case (Cons x xs)
  have "set (freeQoS2msgid xs i) \<subseteq> insert 0 (set xs)" by (induction xs) auto
  with Cons show ?case by (auto simp: ids_ok_def split: if_splits)
qed simp

lemma recorded_card: "ids_ok xs \<Longrightarrow> card (recorded xs) + length (filter (\<lambda>x. x = 0) xs) = length xs"
proof -
  assume "ids_ok xs"
  then have "card (set (filter (\<lambda>x. x \<noteq> 0) xs)) = length (filter (\<lambda>x. x \<noteq> 0) xs)"
    unfolding ids_ok_def by (rule distinct_card)
  moreover have "set (filter (\<lambda>x. x \<noteq> 0) xs) = recorded xs" by (auto simp: recorded_def)
  ultimately show ?thesis using sum_length_filter_compl [of "\<lambda>x. x \<noteq> 0" xs] by simp
qed

lemma room_iff: "ids_ok xs \<Longrightarrow> 0 \<in> set xs \<longleftrightarrow> card (recorded xs) < length xs"
  using recorded_card [of xs] filter_empty_conv [of "\<lambda>x. x = 0" xs]
  by (cases "filter (\<lambda>x. x = 0) xs") auto

interpretation qos2: msgid_set isQoS2msgidFree useQoS2msgid freeQoS2msgid recorded ids_ok length
proof unfold_locales
  show "i \<noteq> 0 \<Longrightarrow> isQoS2msgidFree t i \<longleftrightarrow> i \<notin> recorded t" for i t
    by (simp add: isQoS2msgidFree_iff recorded_def)
  show "ids_ok t \<Longrightarrow> fst (useQoS2msgid t i) \<longleftrightarrow> card (recorded t) < length t" for i t
    by (simp add: useQoS2msgid_result room_iff)
  show "ids_ok t \<Longrightarrow> finite (recorded t) \<and> card (recorded t) \<le> length t" for t
    using recorded_card [of t] by (simp add: recorded_def)
qed (simp_all add: useQoS2msgid_result useQoS2msgid_recorded useQoS2msgid_full useQoS2msgid_ok
      freeQoS2msgid_set freeQoS2msgid_ok)

section \<open>Exactly once\<close>

text \<open>What \<open>cycle\<close> does for a QoS 2 PUBLISH that was read without error and for a
  PUBREL, in the order in which the server sends them.\<close>

datatype qos2_event = Published MQTTString Message | Released "16 word"

primrec receive_all ::
  "('w, 't) env \<Rightarrow> config \<Rightarrow> 't Client \<Rightarrow> qos2_event list \<Rightarrow> 'w \<Rightarrow> ('t Client \<times> 'w) option" where
  "receive_all E cfg c [] w = Some (c, w)"
| "receive_all E cfg c (e # es) w =
     (case e of
        Published t m \<Rightarrow> do {
          (c, w) \<leftarrow> cpp_receive E cfg c t m w;
          receive_all E cfg c es w }
      | Released i \<Rightarrow>
          receive_all E cfg (c\<lparr>incomingQoS2messages := freeQoS2msgid (incomingQoS2messages c) i\<rparr>) es w)"

text \<open>The specification: which messages reach the application, given the set of
  identifiers received and not yet released, and the room for identifiers.\<close>

primrec accepted :: "nat \<Rightarrow> 16 word set \<Rightarrow> qos2_event list \<Rightarrow> (MQTTString \<times> Message) list" where
  "accepted cap S [] = []"
| "accepted cap S (e # es) =
     (case e of
        Published t m \<Rightarrow>
          (if m_id m \<in> S then accepted cap S es
           else if card S < cap then (t, m) # accepted cap (insert (m_id m) S) es
           else accepted cap S es)
      | Released i \<Rightarrow> accepted cap (S - {i}) es)"

primrec deliver_all :: "('w, 't) env \<Rightarrow> 't Client \<Rightarrow> (MQTTString \<times> Message) list \<Rightarrow> 'w \<Rightarrow> 'w option" where
  "deliver_all E c [] w = Some w"
| "deliver_all E c (x # xs) w = do {
     (_, w) \<leftarrow> cpp_deliverMessage E c (fst x) (snd x) w;
     deliver_all E c xs w }"

definition incoming_ok :: "qos2_event list \<Rightarrow> bool" where
  "incoming_ok es \<longleftrightarrow> (\<forall>t m. Published t m \<in> set es \<longrightarrow> m_qos m = 2 \<and> m_id m \<noteq> 0)"

lemma deliver_ids [simp]: "cpp_deliverMessage E (c\<lparr>incomingQoS2messages := ids\<rparr>) t m w = cpp_deliverMessage E c t m w"
  by (simp add: cpp_deliverMessage_def cong: if_cong)

lemma deliver_all_ids [simp]: "deliver_all E (c\<lparr>incomingQoS2messages := ids\<rparr>) xs w = deliver_all E c xs w"
  by (induction xs arbitrary: w) simp_all

lemma receive_all_accepted:
  assumes "MQTTCLIENT_QOS2 cfg" and "incoming_ok es" and "ids_ok (incomingQoS2messages c)"
  shows "map_option snd (receive_all E cfg c es w) =
    deliver_all E c (accepted (length (incomingQoS2messages c)) (recorded (incomingQoS2messages c)) es) w"
  using assms(2,3)
proof (induction es arbitrary: c w)
  case (Cons e es)
  have es: "incoming_ok es" using Cons.prems(1) by (simp add: incoming_ok_def)
  let ?ids = "incomingQoS2messages c"
  show ?case
  proof (cases e)
    case (Released i)
    let ?c = "c\<lparr>incomingQoS2messages := freeQoS2msgid ?ids i\<rparr>"
    have "ids_ok (incomingQoS2messages ?c)" using Cons.prems(2) qos2.remove_ok by simp
    from Cons.IH [OF es this] Released show ?thesis using qos2.remove_ids [OF Cons.prems(2)] by simp
  next
    case (Published t m)
    then have m: "m_qos m = 2" "m_id m \<noteq> 0" using Cons.prems(1) by (auto simp: incoming_ok_def)
    from Cons.prems(2) m(2) show ?thesis
    proof (cases rule: qos2.receive_cases)
      case known
      then show ?thesis using Published m assms(1) Cons.IH [OF es Cons.prems(2)] by (simp add: cpp_receive_def)
    next
      case (taken ids)
      let ?c = "c\<lparr>incomingQoS2messages := ids\<rparr>"
      have "cpp_receive E cfg c t m w = do { (_, w) \<leftarrow> cpp_deliverMessage E c t m w; Some (?c, w) }"
        using taken m assms(1) by (simp add: cpp_receive_def)
      then show ?thesis
        using taken Published Cons.IH [OF es, of ?c]
        by (cases "cpp_deliverMessage E c t m w") auto
    next
      case full
      then show ?thesis using Published m assms(1) Cons.IH [OF es Cons.prems(2)] by (simp add: cpp_receive_def)
    qed
  qed
qed simp

lemma accepted_known: "i \<in> S \<Longrightarrow> Released i \<notin> set es \<Longrightarrow> filter (\<lambda>x. m_id (snd x) = i) (accepted cap S es) = []"
proof (induction es arbitrary: S)
  case (Cons e es)
  then show ?case using Cons.IH [of S] Cons.IH [of "insert j S" for j] Cons.IH [of "S - {j}" for j]
    by (cases e) auto
qed simp

definition published_ids :: "qos2_event list \<Rightarrow> 16 word set" where
  "published_ids es = {m_id m | t m. Published t m \<in> set es}"

lemma published_ids_Cons:
  "published_ids (e # es) = (case e of Published t m \<Rightarrow> insert (m_id m) (published_ids es) | Released i \<Rightarrow> published_ids es)"
  by (auto simp: published_ids_def split: qos2_event.splits)

lemma accepted_once:
  assumes "Published t m \<in> set es" and "Released (m_id m) \<notin> set es" and "m_id m \<notin> S"
    and "finite S" and "card (S \<union> published_ids es) \<le> cap"
  shows "\<exists>x. filter (\<lambda>x. m_id (snd x) = m_id m) (accepted cap S es) = [x]"
  using assms
proof (induction es arbitrary: S)
  case (Cons e es)
  show ?case
  proof (cases e)
    case (Released i)
    have fin: "finite (S \<union> published_ids (e # es))"
      by simp
    have "card (S - {i} \<union> published_ids es) \<le> card (S \<union> published_ids (e # es))"
      using fin Released by (intro card_mono) (auto simp: published_ids_Cons)
    then show ?thesis using Cons.IH [of "S - {i}"] Cons.prems Released by auto
  next
    case (Published t' m')
    have fin: "finite (S \<union> published_ids (e # es))"
      by simp
    have sub: "card (insert (m_id m') S) \<le> card (S \<union> published_ids (e # es))"
      using fin Published by (intro card_mono) (auto simp: published_ids_Cons)
    have un: "insert (m_id m') S \<union> published_ids es = S \<union> published_ids (e # es)"
      using Published by (simp add: published_ids_Cons)
    consider "m_id m' \<in> S" | "m_id m' \<notin> S" "m_id m' = m_id m" | "m_id m' \<notin> S" "m_id m' \<noteq> m_id m" by blast
    then show ?thesis
    proof cases
      case 1
      then have "Published t m \<in> set es" using Published Cons.prems(1,3) by auto
      moreover have "S \<union> published_ids es = S \<union> published_ids (e # es)"
        using 1 Published by (auto simp: published_ids_Cons)
      ultimately show ?thesis using 1 Cons.IH [of S] Cons.prems Published by simp
    next
      case 2
      then have "card S < cap" using sub Cons.prems(4,5) by simp
      then show ?thesis using 2 Published accepted_known [of "m_id m" "insert (m_id m) S" es cap] Cons.prems(2) by simp
    next
      case 3
      then have "card S < cap" using sub Cons.prems(4,5) by simp
      moreover have "Published t m \<in> set es" using 3 Published Cons.prems(1) by auto
      ultimately show ?thesis using 3 Cons.IH [of "insert (m_id m') S"] Cons.prems Published un by simp
    qed
  qed
qed simp



end
