(* ===== verification/Cpp_Frame.thy ===== *)
theory Cpp_Frame
  imports Cpp_Qos2 Buffer_Frame
begin

text \<open>
  What the functions of the C++ client leave alone. \<open>settled\<close> is the part of the
  state that sending, receiving and waiting change only by closing the session; the
  lemmas say so for every function, by rule induction for the loops.
\<close>

definition settled :: "'t Client \<Rightarrow> _" where
  "settled c = (packetid_next c, cp_keepAliveInterval c, cp_cleansession c, cp_messageHandlers c,
     cp_defaultMessageHandler c, cp_isconnected c, (pubbuf c, inflightLen c, inflightMsgid c, inflightQoS c, pubrel c),
     length (sendbuf c), length (cp_readbuf c), length (incomingQoS2messages c))"

text \<open>\<open>stays\<close>: the settled part is the same and the table of identifiers stays
  well formed.\<close>

definition stays :: "'t Client \<Rightarrow> 't Client \<Rightarrow> bool" where
  "stays c c' \<longleftrightarrow> settled c' = settled c \<and> (ids_ok (incomingQoS2messages c) \<longrightarrow> ids_ok (incomingQoS2messages c'))"

named_theorems stays_simps "updates outside the settled part"

lemma stays_refl [simp]: "stays c c"
  by (simp add: stays_def)

lemma stays_trans [trans]: "stays c c1 \<Longrightarrow> stays c1 c2 \<Longrightarrow> stays c c2"
  by (simp add: stays_def)

lemma staysD:
  assumes "stays c c'"
  shows "packetid_next c' = packetid_next c" "cp_cleansession c' = cp_cleansession c"
    "cp_messageHandlers c' = cp_messageHandlers c" "cp_isconnected c' = cp_isconnected c" "pubbuf c' = pubbuf c"
    "inflightLen c' = inflightLen c" "inflightMsgid c' = inflightMsgid c" "inflightQoS c' = inflightQoS c"
    "pubrel c' = pubrel c" "length (sendbuf c') = length (sendbuf c)" "length (cp_readbuf c') = length (cp_readbuf c)"
    "length (incomingQoS2messages c') = length (incomingQoS2messages c)"
    "ids_ok (incomingQoS2messages c) \<Longrightarrow> ids_ok (incomingQoS2messages c')"
  using assms by (simp_all add: stays_def settled_def)

lemma stays_update [stays_simps]:
  "stays c (c'\<lparr>cp_last_received := t\<rparr>) = stays c c'" "stays c (c'\<lparr>cp_ping_outstanding := k\<rparr>) = stays c c'"
  "stays (c\<lparr>cp_last_received := t\<rparr>) c' = stays c c'" "stays (c\<lparr>cp_ping_outstanding := k\<rparr>) c' = stays c c'"
  by (simp_all add: stays_def settled_def)

lemma stays_bufs:
  "length b = length (sendbuf c) \<Longrightarrow> stays c (c\<lparr>sendbuf := b\<rparr>)"
  "length b = length (cp_readbuf c) \<Longrightarrow> stays c (c\<lparr>cp_readbuf := b\<rparr>)"
  by (simp_all add: stays_def settled_def)

lemma stays_ids:
  "length ids = length (incomingQoS2messages c) \<Longrightarrow> (ids_ok (incomingQoS2messages c) \<Longrightarrow> ids_ok ids) \<Longrightarrow>
   stays c (c\<lparr>incomingQoS2messages := ids\<rparr>)"
  by (simp add: stays_def settled_def)

lemma into_sendbuf_stays:
  assumes "into_sendbuf cfg c f = Some (len, c')" and "\<And>b n k b'. f b n = Some (k, b') \<Longrightarrow> length b' = length b"
  shows "stays c c'"
proof -
  from assms(1) obtain b' where "f (sendbuf c) (MAX_MQTT_PACKET_SIZE cfg) = Some (len, b')" "c' = c\<lparr>sendbuf := b'\<rparr>"
    by (auto simp: into_sendbuf_def bind_eq_Some_conv)
  with assms(2) show ?thesis by (simp add: stays_bufs)
qed

lemma cpp_sendPacket_rc: "cpp_sendPacket E c len timer w = Some (rc, timer', w') \<Longrightarrow> rc = SUCCESS \<or> rc = FAILURE"
  by (auto simp: cpp_sendPacket_def bind_eq_Some_conv split: if_splits)

lemma cpp_blit_len: "blit b p bs = Some b' \<Longrightarrow> length b' = length b"
  by (auto simp: blit_def dest: put_length)

lemma mark_received_stays: "mark_received E c w = (c', w') \<Longrightarrow> stays c c'"
  by (auto simp: mark_received_def stays_simps split: if_splits prod.splits)

lemma cpp_readPacket_stays:
  assumes "cpp_readPacket E cfg c timer w = Some (rc, c', timer', w')"
  shows "stays c c'"
proof -
  have "rets (\<lambda>r. stays c (fst (snd r))) (cpp_readPacket E cfg c timer w)"
    unfolding cpp_readPacket_def
    by (intro rets_intros)
       (auto simp: stays_def settled_def bind_eq_Some_conv split: if_splits prod.splits
          dest!: cpp_blit_len encode_len mark_received_stays)
  with assms show ?thesis by (simp add: rets_def)
qed

lemma cpp_keepalive_stays:
  assumes "cpp_keepalive E cfg c w = Some (rc, c', w')"
  shows "stays c c' \<and> (rc = SUCCESS \<or> rc = FAILURE)"
proof -
  have "rets (\<lambda>r. stays c (fst (snd r)) \<and> (fst r = SUCCESS \<or> fst r = FAILURE)) (cpp_keepalive E cfg c w)"
    unfolding cpp_keepalive_def
    by (intro rets_intros)
       (auto simp: stays_simps split: if_splits prod.splits
          dest!: cpp_sendPacket_rc dest!: into_sendbuf_stays [OF _ serialize_pingreq_len])
  with assms show ?thesis by (simp add: rets_def)
qed

lemma cpp_receive_stays:
  assumes "cpp_receive E cfg c t m w = Some (c', w')"
  shows "stays c c'"
proof -
  let ?ids = "incomingQoS2messages c"
  obtain r ids where u: "useQoS2msgid ?ids (m_id m) = (r, ids)" by fastforce
  have l: "length ids = length ?ids" using useQoS2msgid_length [of ?ids "m_id m"] u by simp
  have "ids_ok ids" if "ids_ok ?ids" and "isQoS2msgidFree ?ids (m_id m)"
  proof (cases "m_id m = 0")
    case True
    with that(2) have "0 \<notin> set ?ids" by (simp add: isQoS2msgidFree_iff)
    from useQoS2msgid_full [OF this, of "m_id m"] u that(1) show ?thesis by simp
  next
    case False
    with that show ?thesis using qos2.add_ok [of ?ids "m_id m"] qos2.free_iff [of "m_id m" ?ids] u by simp
  qed
  then have s: "isQoS2msgidFree ?ids (m_id m) \<Longrightarrow> stays c (c\<lparr>incomingQoS2messages := ids\<rparr>)"
    using l by (intro stays_ids) auto
  show ?thesis
    using assms s unfolding cpp_receive_def u by (auto simp: Let_def bind_eq_Some_conv split: if_splits)
qed

lemma ack_into_sendbuf_stays: "into_sendbuf cfg c (\<lambda>b n. MQTTSerialize_ack b n t d i) = Some (len, c') \<Longrightarrow> stays c c'"
  by (erule into_sendbuf_stays) (rule serialize_ack_len)

lemma cpp_cycle_publish_stays:
  assumes "cpp_cycle_publish E cfg c timer w = Some (stop, rc, c', w')"
  shows "stays c c' \<and> (rc = SUCCESS \<or> rc = FAILURE)"
proof -
  have "rets (\<lambda>r. stays c (fst (snd (snd r))) \<and> (fst (snd r) = SUCCESS \<or> fst (snd r) = FAILURE))
      (cpp_cycle_publish E cfg c timer w)"
    unfolding cpp_cycle_publish_def
    by (intro rets_intros)
       (auto simp: bind_eq_Some_conv split: if_splits prod.splits dest!: cpp_sendPacket_rc cpp_receive_stays ack_into_sendbuf_stays
          intro: stays_trans)
  with assms show ?thesis by (simp add: rets_def)
qed

lemma free_stays: "stays c (c\<lparr>incomingQoS2messages := freeQoS2msgid (incomingQoS2messages c) i\<rparr>)"
  by (intro stays_ids) (simp_all add: freeQoS2msgid_ok)

lemma cpp_cycle_pubrec_pubrel_stays:
  assumes "cpp_cycle_pubrec_pubrel E cfg c t timer w = Some (stop, rc, c', w')"
  shows "stays c c' \<and> (rc = SUCCESS \<or> rc = FAILURE)"
proof -
  have "rets (\<lambda>r. stays c (fst (snd (snd r))) \<and> (fst (snd r) = SUCCESS \<or> fst (snd r) = FAILURE))
      (cpp_cycle_pubrec_pubrel E cfg c t timer w)"
    unfolding cpp_cycle_pubrec_pubrel_def
    by (intro rets_intros)
       (auto simp: bind_eq_Some_conv split: if_splits prod.splits dest!: cpp_sendPacket_rc ack_into_sendbuf_stays
          intro: stays_trans [OF _ free_stays] free_stays)
  with assms show ?thesis by (simp add: rets_def)
qed

text \<open>The packet types \<open>cycle\<close> has a case for. Any other packet ends it with the
  type as the return code, and not with success.\<close>

definition handled :: "config \<Rightarrow> int \<Rightarrow> bool" where
  "handled cfg t \<longleftrightarrow> t = 0 \<or> t \<in> type_code ` {CONNACK, PUBACK, SUBACK, PUBLISH, PINGRESP} \<or>
     MQTTCLIENT_QOS2 cfg \<and> t \<in> type_code ` {PUBREC, PUBREL, PUBCOMP}"

lemma unsuback_not_handled: "\<not> handled cfg (type_code UNSUBACK)"
  by (simp add: handled_def type_code_def)

lemma handled_pos: "handled cfg t \<Longrightarrow> 0 \<le> t"
  by (auto simp: handled_def type_code_def)

lemma cpp_cycle_switch_stays:
  assumes "cpp_cycle_switch E cfg c t timer w = Some (stop, rc, c', w')"
  shows "stays c c' \<and> (rc = SUCCESS \<longrightarrow> handled cfg t) \<and> (rc \<noteq> SUCCESS \<longrightarrow> \<not> handled cfg rc)"
proof -
  have nz: "\<not> handled cfg FAILURE" using handled_pos [of cfg FAILURE] by (auto simp: rc_defs)
  have d: "handled cfg t \<or> stop \<and> rc = t \<and> c' = c" using assms by (auto simp: cpp_cycle_switch_def handled_def split: if_splits)
  have "stays c c' \<and> (handled cfg t \<longrightarrow> rc = SUCCESS \<or> rc = FAILURE)"
    using assms by (auto simp: cpp_cycle_switch_def stays_simps handled_def split: if_splits
      dest: cpp_cycle_publish_stays cpp_cycle_pubrec_pubrel_stays)
  with d nz show ?thesis by (auto simp: handled_def rc_defs)
qed

section \<open>Closing the session\<close>

definition closed :: "config \<Rightarrow> 't Client \<Rightarrow> 't Client" where
  "closed cfg c =
     (let c = c\<lparr>cp_ping_outstanding := 0, cp_isconnected := False\<rparr>
      in if \<not> cp_cleansession c then c
         else let c = c\<lparr>cp_messageHandlers := map (\<lambda>s. s\<lparr>sl_filter := None\<rparr>) (cp_messageHandlers c),
                        inflightMsgid := 0, inflightQoS := 0\<rparr>
              in if MQTTCLIENT_QOS2 cfg
                 then c\<lparr>pubrel := False, incomingQoS2messages := map (\<lambda>_. 0) (incomingQoS2messages c)\<rparr> else c)"

lemma closeSession_closed: "closeSession E cfg c w = (c', w') \<Longrightarrow> c' = closed cfg c"
  by (auto simp: closeSession_def closed_def cleanSession_def Let_def split: if_splits)

lemma ids_ok_zeros: "ids_ok (map (\<lambda>_. 0) xs)"
  by (simp add: ids_ok_def comp_def)

lemma closed_connected [simp]: "\<not> cp_isconnected (closed cfg c)"
  by (simp add: closed_def Let_def)

lemma stays_closed: "stays c c' \<Longrightarrow> stays (closed cfg c) (closed cfg c')"
  by (auto simp: stays_def settled_def closed_def Let_def ids_ok_zeros)

lemma closed_idem: "stays (closed cfg c) (closed cfg (closed cfg c))"
  by (simp add: stays_def settled_def closed_def Let_def comp_def)

text \<open>What \<open>cycle\<close> and its callers can do: leave the settled part alone or close
  the session.\<close>

definition cpp_evolves :: "config \<Rightarrow> 't Client \<Rightarrow> 't Client \<Rightarrow> bool" where
  "cpp_evolves cfg c c' \<longleftrightarrow> stays c c' \<or> stays (closed cfg c) c'"

lemma cpp_evolves_stays: "stays c c' \<Longrightarrow> cpp_evolves cfg c c'"
  by (simp add: cpp_evolves_def)

lemma cpp_evolves_trans: "cpp_evolves cfg c c1 \<Longrightarrow> cpp_evolves cfg c1 c2 \<Longrightarrow> cpp_evolves cfg c c2"
  unfolding cpp_evolves_def by (metis stays_closed closed_idem stays_trans)

lemma cpp_evolves_closed: "cpp_evolves cfg c c1 \<Longrightarrow> cpp_evolves cfg c (closed cfg c1)"
  unfolding cpp_evolves_def by (metis stays_closed closed_idem stays_trans)

lemma cpp_evolves_connected: "cpp_evolves cfg c c' \<Longrightarrow> cp_isconnected c' \<Longrightarrow> stays c c'"
  by (auto simp: cpp_evolves_def dest: staysD(4))

lemma cpp_evolves_open: "cpp_evolves cfg c c' \<Longrightarrow> \<not> cp_isconnected c \<Longrightarrow> \<not> cp_isconnected c'"
  by (auto simp: cpp_evolves_def dest: staysD(4))

lemma cpp_cycle_evolves:
  assumes "cpp_cycle E cfg c timer w = Some (rc, c', timer', w')"
  shows "cpp_evolves cfg c c' \<and> (\<not> handled cfg rc \<longrightarrow> \<not> cp_isconnected c')"
proof -
  obtain st w0 where n: "timer_new E w = (st, w0)" by fastforce
  from assms n obtain t c1 timer1 w1 stop rc2 c2 w2 rc3 c3 w3 where
    r: "cpp_readPacket E cfg c timer w0 = Some (t, c1, timer1, w1)"
    and s: "cpp_cycle_switch E cfg c1 t st w1 = Some (stop, rc2, c2, w2)"
    and k: "(if stop then Some (rc2, c2, w2) else do { (k, c, w) \<leftarrow> cpp_keepalive E cfg c2 w2;
        Some (if k \<noteq> SUCCESS then FAILURE else rc2, c, w) }) = Some (rc3, c3, w3)"
    and e: "(if rc3 = SUCCESS then (t, c3, timer1, w3)
        else if cp_isconnected c3 then let (c, w) = closeSession E cfg c3 w3 in (rc3, c, timer1, w)
        else (rc3, c3, timer1, w3)) = (rc, c', timer', w')"
    unfolding cpp_cycle_def by (auto simp: bind_eq_Some_conv)
  note sw = cpp_cycle_switch_stays [OF s]
  have c3: "stays c2 c3" "rc3 = SUCCESS \<longrightarrow> rc2 = SUCCESS"
    using k by (auto simp: bind_eq_Some_conv rc_defs split: if_splits dest!: cpp_keepalive_stays)
  have "stays c c3" using cpp_readPacket_stays [OF r] sw c3(1) stays_trans by blast
  then have ev: "cpp_evolves cfg c c3" by (rule cpp_evolves_stays)
  have h: "rc3 = SUCCESS \<longrightarrow> handled cfg t" using c3(2) sw by blast
  from e ev h show ?thesis
    by (auto split: if_splits prod.splits dest!: closeSession_closed intro: cpp_evolves_closed)
qed

text \<open>The loops around \<open>cycle\<close>. \<open>ok\<close> is the code that comes without an iteration.\<close>

definition cpp_loop_result :: "config \<Rightarrow> 't Client \<Rightarrow> int \<Rightarrow> int \<times> 't Client \<times> 'u \<Rightarrow> bool" where
  "cpp_loop_result cfg c ok r \<longleftrightarrow>
     (case r of (rc, c', u) \<Rightarrow> cpp_evolves cfg c c' \<and> (rc \<noteq> ok \<longrightarrow> \<not> handled cfg rc \<longrightarrow> \<not> cp_isconnected c'))"

lemma cpp_loop_trans:
  "cpp_evolves cfg c c1 \<Longrightarrow> handled cfg rc1 \<or> \<not> cp_isconnected c1 \<Longrightarrow> cpp_loop_result cfg c1 rc1 r \<Longrightarrow> cpp_loop_result cfg c ok r"
  unfolding cpp_loop_result_def by (auto intro: cpp_evolves_trans dest: cpp_evolves_open)

lemma cpp_waitfor_loop_evolves:
  fixes E :: "('w, 't) env"
  assumes "cpp_waitfor_loop E cfg c t rc0 timer w = Some r"
  shows "cpp_loop_result cfg c rc0 r"
proof -
  define Q where "Q = (\<lambda>((((((E :: ('w, 't) env, cfg), c :: 't Client), t :: int), rc0), timer :: 't), w :: 'w)
      (r :: int \<times> 't Client \<times> 't \<times> 'w). cpp_loop_result cfg c rc0 r)"
  have "Q ((((((E, cfg), c), t), rc0), timer), w) r"
  proof (rule cpp_waitfor_loop.raw_induct [OF _ assms])
    fix self E cfg c t rc0 timer w r
    assume IH: "\<And>E cfg c t rc0 timer w r. self E cfg c t rc0 timer w = Some r \<Longrightarrow> Q ((((((E, cfg), c), t), rc0), timer), w) r"
      and body: "(let (e, timer, w) = expired E timer w in
        if e then Some (rc0, c, timer, w)
        else do {
          (rc, c, timer, w) \<leftarrow> cpp_cycle E cfg c timer w;
          (if rc \<noteq> t \<and> 0 \<le> rc then self E cfg c t rc timer w else Some (rc, c, timer, w)) }) = Some r"
    obtain e timer1 w1 where e: "expired E timer w = (e, timer1, w1)" by (cases "expired E timer w")
    have "cpp_loop_result cfg c rc0 r"
    proof (cases e)
      case True
      with body e show ?thesis by (auto simp: cpp_loop_result_def cpp_evolves_def)
    next
      case False
      with body e obtain rc1 c1 timer2 w2 where
        c: "cpp_cycle E cfg c timer1 w1 = Some (rc1, c1, timer2, w2)"
        and n: "(if rc1 \<noteq> t \<and> 0 \<le> rc1 then self E cfg c1 t rc1 timer2 w2 else Some (rc1, c1, timer2, w2)) = Some r"
        by (auto simp: bind_eq_Some_conv)
      note ev = cpp_cycle_evolves [OF c]
      show ?thesis
      proof (cases "rc1 \<noteq> t \<and> 0 \<le> rc1")
        case True
        with n have "Q ((((((E, cfg), c1), t), rc1), timer2), w2) r" by (intro IH) simp
        with ev show ?thesis by (auto simp: Q_def intro: cpp_loop_trans)
      qed (use n ev in \<open>auto simp: cpp_loop_result_def\<close>)
    qed
    then show "Q ((((((E, cfg), c), t), rc0), timer), w) r" by (simp add: Q_def)
  qed
  then show ?thesis by (simp add: Q_def)
qed

lemma cpp_waitfor_evolves:
  assumes "cpp_waitfor E cfg c t timer w = Some (rc, c', timer', w')"
  shows "cpp_evolves cfg c c' \<and> (rc \<noteq> FAILURE \<longrightarrow> \<not> handled cfg rc \<longrightarrow> \<not> cp_isconnected c')"
  using cpp_waitfor_loop_evolves [OF assms [unfolded cpp_waitfor_def]] by (simp add: cpp_loop_result_def)

lemma cpp_yield_loop_evolves:
  fixes E :: "('w, 't) env"
  assumes "cpp_yield_loop E cfg c timer w = Some r"
  shows "cpp_evolves cfg c (fst (snd r)) \<and> (fst r = SUCCESS \<or> fst r = FAILURE \<and> \<not> cp_isconnected (fst (snd r)))"
proof -
  define Q where "Q = (\<lambda>((((E :: ('w, 't) env, cfg), c :: 't Client), timer :: 't), w :: 'w) (r :: int \<times> 't Client \<times> 'w).
      cpp_evolves cfg c (fst (snd r)) \<and> (fst r = SUCCESS \<or> fst r = FAILURE \<and> \<not> cp_isconnected (fst (snd r))))"
  have "Q ((((E, cfg), c), timer), w) r"
  proof (rule cpp_yield_loop.raw_induct [OF _ assms])
    fix self E cfg c timer w r
    assume IH: "\<And>E cfg c timer w r. self E cfg c timer w = Some r \<Longrightarrow> Q ((((E, cfg), c), timer), w) r"
      and body: "(let (e, timer, w) = expired E timer w in
        if e then Some (SUCCESS, c, w)
        else do {
          (rc, c, timer, w) \<leftarrow> cpp_cycle E cfg c timer w;
          (if rc < 0 then Some (FAILURE, c, w) else self E cfg c timer w) }) = Some r"
    obtain e timer1 w1 where e: "expired E timer w = (e, timer1, w1)" by (cases "expired E timer w")
    show "Q ((((E, cfg), c), timer), w) r"
    proof (cases e)
      case True
      with body e show ?thesis by (auto simp: Q_def cpp_evolves_def)
    next
      case False
      with body e obtain rc1 c1 timer2 w2 where
        c: "cpp_cycle E cfg c timer1 w1 = Some (rc1, c1, timer2, w2)"
        and n: "(if rc1 < 0 then Some (FAILURE, c1, w2) else self E cfg c1 timer2 w2) = Some r"
        by (auto simp: bind_eq_Some_conv)
      note ev = cpp_cycle_evolves [OF c]
      show ?thesis
      proof (cases "rc1 < 0")
        case True
        then have "\<not> handled cfg rc1" using handled_pos by force
        with True n ev show ?thesis by (auto simp: Q_def)
      next
        case False
        with n have "Q ((((E, cfg), c1), timer2), w2) r" by (intro IH) simp
        with ev show ?thesis by (auto simp: Q_def intro: cpp_evolves_trans)
      qed
    qed
  qed
  then show ?thesis by (simp add: Q_def)
qed

end
