(* ===== verification/Cpp_Table.thy ===== *)
theory Cpp_Table
  imports Cpp_Frame
begin

text \<open>
  The handler table of the C++ client: what \<open>setMessageHandler\<close> does to it, and what
  it does to the callback object of a slot it takes again.
\<close>

section \<open>The handler table\<close>

text \<open>No filter is in two slots.\<close>

definition table_ok :: "cpp_slot list \<Rightarrow> bool" where
  "table_ok slots \<longleftrightarrow>
     (\<forall>i < length slots. \<forall>j < length slots. \<forall>f. slot_holds f (slots ! i) \<longrightarrow> slot_holds f (slots ! j) \<longrightarrow> i = j)"

lemma scan_table_nth: "scan_table P ss < length ss \<Longrightarrow> P (ss ! scan_table P ss)"
  by (induction ss) auto

lemma scan_table_none: "\<not> scan_table P ss < length ss \<Longrightarrow> i < length ss \<Longrightarrow> \<not> P (ss ! i)"
  by (induction ss arbitrary: i) (auto simp: nth_Cons' split: if_splits)

lemma slot_holds_simps:
  "sl_filter s = None \<Longrightarrow> \<not> slot_holds f s"
  "sl_filter s = Some (p, g) \<Longrightarrow> slot_holds f s \<longleftrightarrow> g = f"
  by (simp_all add: slot_holds_def)

lemma table_ok_update:
  assumes "table_ok slots"
    and "\<And>f j. slot_holds f s \<Longrightarrow> j < length slots \<Longrightarrow> j \<noteq> i \<Longrightarrow> \<not> slot_holds f (slots ! j)"
  shows "table_ok (slots[i := s])"
  unfolding table_ok_def
proof (intro allI impI)
  fix a b f
  assume l: "a < length (slots[i := s])" "b < length (slots[i := s])"
    and h: "slot_holds f (slots[i := s] ! a)" "slot_holds f (slots[i := s] ! b)"
  consider "a = i" "b = i" | "a = i" "b \<noteq> i" | "a \<noteq> i" "b = i" | "a \<noteq> i" "b \<noteq> i" by blast
  then show "a = b"
  proof cases
    case 2
    then show ?thesis using l h assms(2) [of f b] by simp
  next
    case 3
    then show ?thesis using l h assms(2) [of f a] by simp
  next
    case 4
    then show ?thesis using l h assms(1) unfolding table_ok_def by (metis length_list_update nth_list_update_neq)
  qed simp
qed

text \<open>The outcomes of \<open>set_table\<close>.\<close>

lemma set_table_cases:
  assumes "set_table E slots filt removing attach w = Some (rc, slots', w')"
  obtains (removed) i where "removing" "i < length slots" "slot_holds filt (slots ! i)" "rc = SUCCESS"
      "slots' = slots[i := fst (remove_slot E (slots ! i) w)]"
    | (filled) i s where "\<not> removing" "i < length slots" "rc = SUCCESS" "slots' = slots[i := s]"
      "fill_slot E filt attach (slots ! i) w = Some (s, w')"
      "slot_holds filt (slots ! i) \<or>
       sl_filter (slots ! i) = None \<and> (\<forall>j < length slots. \<not> slot_holds filt (slots ! j))"
    | (failed) "rc = FAILURE" "slots' = slots" "w' = w" "\<forall>j < length slots. \<not> slot_holds filt (slots ! j)"
proof -
  define i where "i = scan_table (slot_holds filt) slots"
  define j where "j = scan_table (\<lambda>s. sl_filter s = None) slots"
  have hi: "slot_holds filt (slots ! i)" if "i < length slots"
    using that scan_table_nth unfolding i_def by blast
  have hj: "sl_filter (slots ! j) = None" if "j < length slots"
    using that scan_table_nth [of "\<lambda>s. sl_filter s = None"] unfolding j_def by blast
  have none: "\<forall>k < length slots. \<not> slot_holds filt (slots ! k)" if "\<not> i < length slots"
    using that scan_table_none unfolding i_def by blast
  note r = assms [unfolded set_table_def Let_def, folded i_def j_def]
  consider "removing" "i < length slots" | "\<not> i < length slots" "removing \<or> \<not> j < length slots"
    | "\<not> removing" "i < length slots" | "\<not> removing" "\<not> i < length slots" "j < length slots" by blast
  then show thesis
  proof cases
    case 1
    have "rc = SUCCESS" "slots' = slots[i := fst (remove_slot E (slots ! i) w)]"
      using r 1 by (auto split: prod.splits)
    then show ?thesis using 1 hi by (intro removed)
  next
    case 2
    then have "rc = FAILURE" "slots' = slots" "w' = w" using r by (auto split: if_splits)
    then show ?thesis using 2 none by (intro failed)
  next
    case 3
    then obtain s where "fill_slot E filt attach (slots ! i) w = Some (s, w')" "slots' = slots[i := s]" "rc = SUCCESS"
      using r by (auto simp: bind_eq_Some_conv)
    then show ?thesis using 3 hi by (intro filled [of i s] disjI1)
  next
    case 4
    then obtain s where "fill_slot E filt attach (slots ! j) w = Some (s, w')" "slots' = slots[j := s]" "rc = SUCCESS"
      using r by (auto simp: bind_eq_Some_conv)
    then show ?thesis using 4 hj none by (intro filled [of j s] disjI2 conjI)
  qed
qed

lemma fill_slot_result:
  "fill_slot E filt attach s w = Some (s', w') \<Longrightarrow> \<exists>p. sl_filter s' = Some (p, filt) \<and> sl_fp s' = attach (sl_fp s)"
  by (auto simp: fill_slot_def split: if_splits prod.splits)

lemma set_table_ok:
  assumes "table_ok slots" and r: "set_table E slots filt removing attach w = Some (rc, slots', w')"
  shows "table_ok slots' \<and> length slots' = length slots \<and> (rc = SUCCESS \<or> rc = FAILURE)"
  using r
proof (cases rule: set_table_cases)
  case (removed i)
  then show ?thesis
    using table_ok_update [OF assms(1), of "fst (remove_slot E (slots ! i) w)" i] by (simp add: remove_slot_def slot_holds_simps)
next
  case (filled i s)
  from fill_slot_result [OF filled(5)] obtain p where s: "sl_filter s = Some (p, filt)" by blast
  have "\<not> slot_holds filt (slots ! j)" if "j < length slots" "j \<noteq> i" for j
    using filled(2,6) that assms(1) unfolding table_ok_def by blast
  then have "table_ok (slots[i := s])" using s by (intro table_ok_update [OF assms(1)]) (simp add: slot_holds_simps)
  then show ?thesis using filled by simp
qed (use assms(1) in auto)

section \<open>Callback objects in slots that are used again\<close>

text \<open>
  \<open>attach\<close> of a plain function sets the function pointer and leaves the object
  pointer, and closing a session frees the filters without detaching the callbacks.
  So a function handler set in a slot that held an object's method before is called
  as a method of that old object; after \<open>detach\<close> it would be called as a function.
\<close>

theorem stale_object_called:
  assumes "setMessageHandler_function E (closed cfg c) filt h w = Some (SUCCESS, c', w')"
    and "h \<noteq> 0" and "cp_cleansession c"
    and "\<forall>s \<in> set (cp_messageHandlers c). obj_callback (sl_fp s) \<noteq> 0"
  shows "\<exists>s s0. s \<in> set (cp_messageHandlers c') \<and> slot_holds filt s \<and> s0 \<in> set (cp_messageHandlers c) \<and>
    FP_call (sl_fp s) = Some (CallMethod (obj_callback (sl_fp s0)) h) \<and>
    FP_call (FP_attach_function (FP_detach (sl_fp s0)) h) = Some (CallFunction h)"
proof -
  let ?t = "cp_messageHandlers (closed cfg c)"
  have t: "?t = map (\<lambda>s. s\<lparr>sl_filter := None\<rparr>) (cp_messageHandlers c)"
    using assms(3) by (simp add: closed_def Let_def)
  obtain slots where r: "set_table E ?t filt False (\<lambda>f. FP_attach_function f h) w = Some (SUCCESS, slots, w')"
    and c': "cp_messageHandlers c' = slots"
    using assms(1,2) by (auto simp: setMessageHandler_function_def bind_eq_Some_conv)
  from r show ?thesis
  proof (cases rule: set_table_cases)
    case (filled i s)
    let ?s0 = "cp_messageHandlers c ! i"
    have i: "i < length (cp_messageHandlers c)" using filled(2) t by simp
    from fill_slot_result [OF filled(5)] i t obtain p
      where s: "sl_filter s = Some (p, filt)" "sl_fp s = FP_attach_function (sl_fp ?s0) h" by auto
    have "s \<in> set slots" using filled(2,4) by (simp add: set_update_memI)
    moreover have "obj_callback (sl_fp ?s0) \<noteq> 0" using assms(4) i by simp
    ultimately show ?thesis
      using s i c' assms(2) nth_mem [OF i]
      by (intro exI [of _ s] exI [of _ ?s0]) (simp add: slot_holds_simps FP_call_def FP_attach_function_def FP_detach_def)
  qed (simp_all add: rc_defs)
qed

text \<open>After a clean session with two object handlers, the function 3 is set for the
  topic \<open>t\<close>.\<close>

theorem stale_object_called_witness:
  "\<exists>c w. setMessageHandler_function cpp_bench (closed cpp_config (cpp_session\<lparr>cp_cleansession := True\<rparr>)) [0x74] 3
      (cpp_world_of []) = Some (SUCCESS, c, w) \<and>
     (\<exists>s s0. s \<in> set (cp_messageHandlers c) \<and> slot_holds [0x74] s \<and> s0 \<in> set (cp_messageHandlers cpp_session) \<and>
        FP_call (sl_fp s) = Some (CallMethod (obj_callback (sl_fp s0)) 3))"
proof -
  let ?c = "cpp_session\<lparr>cp_cleansession := True\<rparr>"
  have "map_option fst (setMessageHandler_function cpp_bench (closed cpp_config ?c) [0x74] 3 (cpp_world_of [])) = Some SUCCESS"
    by code_simp
  then obtain c w where r: "setMessageHandler_function cpp_bench (closed cpp_config ?c) [0x74] 3 (cpp_world_of []) = Some (SUCCESS, c, w)"
    by auto
  have "\<forall>s \<in> set (cp_messageHandlers ?c). obj_callback (sl_fp s) \<noteq> 0" by (simp add: cpp_session_def)
  from stale_object_called [OF r _ _ this] show ?thesis using r by auto
qed

end
