(* ===== verification/Cpp_Session.thy ===== *)
theory Cpp_Session
  imports Cpp_Table
begin

text \<open>
  The C++ client as a transition system: the invariant of its state in every
  reachable state, the message in flight that survives failures, and what an
  UNSUBACK does to the session.
\<close>

section \<open>The invariant\<close>

text \<open>Identifiers stay in the range of MQTT, the buffers have the declared size,
  no filter is in two slots, recorded QoS 2 identifiers are distinct, and
  \<open>pubrel\<close> is never set: no PUBREL is ever sent for a message in flight when the
  client reconnects.\<close>

definition cpp_inv :: "config \<Rightarrow> 't Client \<Rightarrow> bool" where
  "cpp_inv cfg c \<longleftrightarrow>
     0 \<le> packetid_next c \<and> packetid_next c \<le> 65535 \<and>
     length (sendbuf c) = nat (MAX_MQTT_PACKET_SIZE cfg) \<and> length (cp_readbuf c) = nat (MAX_MQTT_PACKET_SIZE cfg) \<and>
     length (pubbuf c) = nat (MAX_MQTT_PACKET_SIZE cfg) \<and> table_ok (cp_messageHandlers c) \<and>
     (MQTTCLIENT_QOS2 cfg \<longrightarrow> \<not> pubrel c \<and> ids_ok (incomingQoS2messages c))"

definition inv_kept :: "config \<Rightarrow> 't Client \<Rightarrow> 't Client \<Rightarrow> bool" where
  "inv_kept cfg c c' \<longleftrightarrow> (cpp_inv cfg c \<longrightarrow> cpp_inv cfg c')"

lemma inv_kept_refl [simp]: "inv_kept cfg c c"
  by (simp add: inv_kept_def)

lemma inv_kept_trans: "inv_kept cfg c c1 \<Longrightarrow> inv_kept cfg c1 c2 \<Longrightarrow> inv_kept cfg c c2"
  by (simp add: inv_kept_def)

lemma inv_kept_stays: "stays c c' \<Longrightarrow> inv_kept cfg c c'"
  using staysD [of c c'] by (simp add: inv_kept_def cpp_inv_def)

lemma inv_kept_closed: "inv_kept cfg c (closed cfg c)"
  by (auto simp: inv_kept_def cpp_inv_def closed_def Let_def ids_ok_zeros table_ok_def slot_holds_simps)

lemma inv_kept_evolves: "cpp_evolves cfg c c' \<Longrightarrow> inv_kept cfg c c'"
  unfolding cpp_evolves_def by (metis inv_kept_stays inv_kept_closed inv_kept_trans)

lemma inv_kept_into_sendbuf:
  "into_sendbuf cfg c f = Some (len, c') \<Longrightarrow> (\<And>b n k b'. f b n = Some (k, b') \<Longrightarrow> length b' = length b) \<Longrightarrow> inv_kept cfg c c'"
  by (rule inv_kept_stays) (rule into_sendbuf_stays)

lemma inv_kept_getNext: "PacketId_getNext c = (n, c') \<Longrightarrow> inv_kept cfg c c'"
  by (auto simp: PacketId_getNext_def Let_def inv_kept_def cpp_inv_def split: if_splits)

lemma inv_kept_handlers:
  "set_table E (cp_messageHandlers c) filt r a w = Some (rc, slots, w') \<Longrightarrow> inv_kept cfg c (c\<lparr>cp_messageHandlers := slots\<rparr>)"
  using set_table_ok [of "cp_messageHandlers c" E filt r a w rc slots w'] by (auto simp: inv_kept_def cpp_inv_def)

lemma inv_kept_function: "setMessageHandler_function E c filt h w = Some (rc, c', w') \<Longrightarrow> inv_kept cfg c c'"
  by (auto simp: setMessageHandler_function_def bind_eq_Some_conv intro: inv_kept_handlers)

lemma inv_kept_object: "setMessageHandler_object E m c filt h w = Some (rc, c', w') \<Longrightarrow> inv_kept cfg c c'"
  by (auto simp: setMessageHandler_object_def bind_eq_Some_conv intro: inv_kept_handlers)

lemma inv_kept_fields:
  "inv_kept cfg c (c'\<lparr>inflightMsgid := i\<rparr>) = inv_kept cfg c c'"
  "inv_kept cfg c (c'\<lparr>cp_isconnected := b\<rparr>) = inv_kept cfg c c'"
  "inv_kept cfg c (c'\<lparr>cp_ping_outstanding := k\<rparr>) = inv_kept cfg c c'"
  "inv_kept cfg c (c'\<lparr>cp_last_received := t\<rparr>) = inv_kept cfg c c'"
  "inv_kept cfg c (c'\<lparr>cp_keepAliveInterval := n\<rparr>) = inv_kept cfg c c'"
  "inv_kept cfg c (c'\<lparr>cp_cleansession := b\<rparr>) = inv_kept cfg c c'"
  "inv_kept cfg c (c'\<lparr>cp_defaultMessageHandler := f\<rparr>) = inv_kept cfg c c'"
  by (simp_all add: inv_kept_def cpp_inv_def)

section \<open>Publishing\<close>

text \<open>Waiting for the acknowledgement changes the message in flight in one way:
  the acknowledgement that was read carries its identifier.\<close>

definition acked :: "config \<Rightarrow> 't Client \<Rightarrow> bool" where
  "acked cfg c \<longleftrightarrow> (\<exists>d out. MQTTDeserialize_ack d (cp_readbuf c) (MAX_MQTT_PACKET_SIZE cfg) = Some (1, out) \<and>
     ack_packetid out = inflightMsgid c)"

lemma cpp_await_ack_result:
  assumes "cpp_await_ack E cfg c t timer w = Some (rc, c', timer', w')"
  shows "\<exists>c1. cpp_evolves cfg c c1 \<and> (c' = c1 \<or> c' = c1\<lparr>inflightMsgid := 0\<rparr> \<and> rc = SUCCESS \<and> acked cfg c1)"
proof -
  from assms obtain got c1 timer1 w1 where
    wt: "cpp_waitfor E cfg c (type_code t) timer w = Some (got, c1, timer1, w1)"
    and r: "(if got = type_code t then do {
        (ok, out) \<leftarrow> MQTTDeserialize_ack (local_ack E) (cp_readbuf c1) (MAX_MQTT_PACKET_SIZE cfg);
        Some (if ok \<noteq> 1 then FAILURE else SUCCESS,
              if ok = 1 \<and> inflightMsgid c1 = ack_packetid out then c1\<lparr>inflightMsgid := 0\<rparr> else c1, timer1, w1) }
      else Some (FAILURE, c1, timer1, w1)) = Some (rc, c', timer', w')"
    by (auto simp: cpp_await_ack_def bind_eq_Some_conv)
  have "c' = c1 \<or> c' = c1\<lparr>inflightMsgid := 0\<rparr> \<and> rc = SUCCESS \<and> acked cfg c1"
  proof (cases "got = type_code t")
    case True
    with r obtain ok out where d: "MQTTDeserialize_ack (local_ack E) (cp_readbuf c1) (MAX_MQTT_PACKET_SIZE cfg) = Some (ok, out)"
      and o: "rc = (if ok \<noteq> 1 then FAILURE else SUCCESS)"
        "c' = (if ok = 1 \<and> inflightMsgid c1 = ack_packetid out then c1\<lparr>inflightMsgid := 0\<rparr> else c1)"
      by (auto simp: bind_eq_Some_conv)
    show ?thesis
    proof (cases "ok = 1 \<and> inflightMsgid c1 = ack_packetid out")
      case True
      with d have "acked cfg c1" unfolding acked_def by (intro exI [of _ "local_ack E"] exI [of _ out]) simp
      with True o show ?thesis by simp
    qed (use o in auto)
  qed (use r in simp)
  with cpp_waitfor_evolves [OF wt] show ?thesis by blast
qed

lemma cpp_publish_buffer_result:
  assumes "cpp_publish_buffer E cfg c len timer qos w = Some (rc, c', timer', w')"
  shows "\<exists>c1. cpp_evolves cfg c c1 \<and> (c' = c1 \<or> c' = c1\<lparr>inflightMsgid := 0\<rparr> \<and> rc = SUCCESS \<and> acked cfg c1)"
  using assms cpp_evolves_stays [OF stays_refl, of cfg c]
  by (auto simp: cpp_publish_buffer_def bind_eq_Some_conv split: if_splits dest: cpp_await_ack_result)

lemma inv_kept_publish_buffer:
  "cpp_publish_buffer E cfg c len timer qos w = Some (rc, c', timer', w') \<Longrightarrow> inv_kept cfg c c'"
  by (drule cpp_publish_buffer_result) (auto simp: inv_kept_fields intro: inv_kept_evolves)

lemma keep_for_resend_cases:
  assumes "keep_for_resend cfg c len pid qos = Some c'"
  obtains (clean) "cp_cleansession c" "c' = c"
    | (kept) b where "\<not> cp_cleansession c" "memcpy (pubbuf c) 0 (sendbuf c) len = Some b"
      "c' = c\<lparr>pubbuf := b, inflightMsgid := pid, inflightLen := len, inflightQoS := qos,
         pubrel := (if MQTTCLIENT_QOS2 cfg then False else pubrel c)\<rparr>"
proof (cases "cp_cleansession c")
  case True
  with assms show ?thesis by (intro clean) (simp_all add: keep_for_resend_def)
next
  case False
  with assms obtain b where m: "memcpy (pubbuf c) 0 (sendbuf c) len = Some b"
    and "(let c = c\<lparr>pubbuf := b, inflightMsgid := pid, inflightLen := len, inflightQoS := qos\<rparr>
      in if MQTTCLIENT_QOS2 cfg then c\<lparr>pubrel := False\<rparr> else c) = c'"
    by (auto simp: keep_for_resend_def bind_eq_Some_conv Let_def)
  then show ?thesis by (intro kept [OF False m]) (auto simp: Let_def split: if_splits)
qed

lemma keep_for_resend_inv:
  assumes "keep_for_resend cfg c len pid qos = Some c'"
  shows "inv_kept cfg c c'"
  using assms
proof (cases rule: keep_for_resend_cases)
  case (kept b)
  then show ?thesis using memcpy_len [OF kept(2)] by (simp add: inv_kept_def cpp_inv_def)
qed simp

text \<open>The packet that \<open>publish\<close> sends.\<close>

definition publish_packet ::
  "config \<Rightarrow> 't Client \<Rightarrow> byte list \<Rightarrow> byte list \<Rightarrow> 32 word \<Rightarrow> 16 word \<Rightarrow> int \<Rightarrow> bool \<Rightarrow> (int \<times> buffer) option" where
  "publish_packet cfg c topicName payload payloadlen pid qos retained =
     MQTTSerialize_publish (sendbuf c) (MAX_MQTT_PACKET_SIZE cfg) 0 qos (if retained then 1 else 0) pid
       (MQTTString_initializer\<lparr>cstring := Some topicName\<rparr>) payload (sint payloadlen)"

lemma cpp_publish_send_cases:
  assumes "cpp_publish_send E cfg c topicName payload payloadlen pid qos retained timer w = Some (rc, c', w')"
  obtains (refused) len b where "publish_packet cfg c topicName payload payloadlen pid qos retained = Some (len, b)"
      "len \<le> 0" "rc = FAILURE" "c' = c\<lparr>sendbuf := b\<rparr>" "length b = length (sendbuf c)"
    | (sent) len b c2 timer' where "publish_packet cfg c topicName payload payloadlen pid qos retained = Some (len, b)"
      "0 < len" "length b = length (sendbuf c)" "keep_for_resend cfg (c\<lparr>sendbuf := b\<rparr>) len pid qos = Some c2"
      "cpp_publish_buffer E cfg c2 len timer qos w = Some (rc, c', timer', w')"
proof -
  from assms obtain len b where b: "publish_packet cfg c topicName payload payloadlen pid qos retained = Some (len, b)"
    and r: "(if len \<le> 0 then Some (FAILURE, c\<lparr>sendbuf := b\<rparr>, w)
      else do {
        c \<leftarrow> keep_for_resend cfg (c\<lparr>sendbuf := b\<rparr>) len pid qos;
        (rc, c, _, w) \<leftarrow> cpp_publish_buffer E cfg c len timer qos w;
        Some (rc, c, w) }) = Some (rc, c', w')"
    by (auto simp: cpp_publish_send_def into_sendbuf_def publish_packet_def bind_eq_Some_conv simp del: not_le)
  have l: "length b = length (sendbuf c)" using b unfolding publish_packet_def by (rule serialize_publish_len)
  show thesis
  proof (cases "len \<le> 0")
    case True
    with r b l show ?thesis by (intro refused [of len b]) auto
  next
    case False
    with r obtain c2 timer' where "keep_for_resend cfg (c\<lparr>sendbuf := b\<rparr>) len pid qos = Some c2"
      "cpp_publish_buffer E cfg c2 len timer qos w = Some (rc, c', timer', w')"
      by (auto simp: bind_eq_Some_conv)
    with False b l show ?thesis by (intro sent [of len b c2 timer']) auto
  qed
qed

lemma inv_kept_sendbuf: "length b = length (sendbuf c) \<Longrightarrow> inv_kept cfg c (c\<lparr>sendbuf := b\<rparr>)"
  by (intro inv_kept_stays stays_bufs)

lemma inv_kept_publish_send:
  assumes "cpp_publish_send E cfg c topicName payload payloadlen pid qos retained timer w = Some (rc, c', w')"
  shows "inv_kept cfg c c'"
  using assms
proof (cases rule: cpp_publish_send_cases)
  case (sent len b c2 timer')
  then show ?thesis
    using inv_kept_trans [OF inv_kept_sendbuf [OF sent(3)] inv_kept_trans [OF keep_for_resend_inv [OF sent(4)]
      inv_kept_publish_buffer [OF sent(5)]]] by simp
qed (simp add: inv_kept_sendbuf)

lemma cpp_publish_id_run:
  assumes "cpp_publish_id E cfg c topicName payload payloadlen pid qos retained w = Some (rc, pid', c', w')"
  obtains (offline) "\<not> cp_isconnected c" "rc = FAILURE" "c' = c"
    | (online) timer w1 c1 where "cp_isconnected c"
      "(pid', c1) = (if qos = 1 \<or> qos = 2 then (word_of_int (fst (PacketId_getNext c)), snd (PacketId_getNext c)) else (pid, c))"
      "cpp_publish_send E cfg c1 topicName payload payloadlen pid' qos retained timer w1 = Some (rc, c', w')"
  using assms by (cases "cp_isconnected c"; cases "qos = 1 \<or> qos = 2"; cases "timer_new E w"; cases "PacketId_getNext c")
    (auto simp: cpp_publish_id_def bind_eq_Some_conv)

lemma inv_kept_getNext_snd: "inv_kept cfg c (snd (PacketId_getNext c))"
  by (rule inv_kept_getNext [of c "fst (PacketId_getNext c)"]) simp

lemma inv_kept_publish:
  assumes "cpp_publish_id E cfg c topicName payload payloadlen pid qos retained w = Some (rc, pid', c', w')"
  shows "inv_kept cfg c c'"
  using assms
proof (cases rule: cpp_publish_id_run)
  case (online timer w1 c1)
  then have "inv_kept cfg c c1" using inv_kept_getNext_snd [of cfg c] by (auto split: if_splits)
  with inv_kept_publish_send [OF online(3)] show ?thesis using inv_kept_trans by blast
qed simp

section \<open>The message in flight\<close>

text \<open>What is kept for sending again; without a clean session nothing but a new
  publish or its acknowledgement changes it.\<close>

definition inflight :: "'t Client \<Rightarrow> _" where
  "inflight c = (pubbuf c, inflightLen c, inflightMsgid c, inflightQoS c)"

lemma inflight_evolves:
  assumes "cpp_evolves cfg c c'" and "\<not> cp_cleansession c"
  shows "inflight c' = inflight c"
  using assms(1) unfolding cpp_evolves_def
proof
  assume "stays (closed cfg c) c'"
  from staysD(5-8) [OF this] assms(2) show ?thesis by (simp add: inflight_def closed_def Let_def)
qed (simp add: inflight_def staysD(5-8))


section \<open>Unsubscribing\<close>

lemma setMessageHandler_function_connected:
  "setMessageHandler_function E c filt h w = Some (rc, c', w') \<Longrightarrow> cp_isconnected c' = cp_isconnected c"
  by (auto simp: setMessageHandler_function_def bind_eq_Some_conv)

text \<open>
  C23: \<open>cycle\<close> has no case for UNSUBACK, so the packet that \<open>unsubscribe\<close> waits for
  ends \<open>cycle\<close> through its default case, which closes the session. An
  \<open>unsubscribe\<close> that returns success leaves the client disconnected.
\<close>

theorem unsubscribe_closes_session:
  assumes "cpp_unsubscribe E cfg c filt w = Some (SUCCESS, c', w')"
  shows "\<not> cp_isconnected c'"
proof -
  obtain timer w0 where t: "timer_new E w = (timer, w0)" by fastforce
  have "cp_isconnected c" using assms t by (cases "cp_isconnected c") (auto simp: cpp_unsubscribe_def rc_defs)
  with assms t obtain len c1 rc timer1 w1 got c2 timer2 w2 where
    "into_sendbuf cfg (snd (PacketId_getNext c)) (\<lambda>b m. MQTTSerialize_unsubscribe b m 0
       (word_of_int (fst (PacketId_getNext c))) 1 [MQTTString_initializer\<lparr>cstring := Some filt\<rparr>]) = Some (len, c1)"
    and wt: "cpp_waitfor E cfg c1 (type_code UNSUBACK) timer1 w1 = Some (got, c2, timer2, w2)"
    and r: "(if got = type_code UNSUBACK then do {
         (ok, _) \<leftarrow> MQTTDeserialize_unsuback (ack_packetid (local_ack E)) (cp_readbuf c2) (MAX_MQTT_PACKET_SIZE cfg);
         (if ok = 1 then do {
            (_, c, w) \<leftarrow> setMessageHandler_function E c2 filt 0 w2;
            Some (rc, c, w) }
          else Some (rc, c2, w2)) }
       else Some (FAILURE, c2, w2)) = Some (SUCCESS, c', w')"
    by (auto simp: cpp_unsubscribe_def bind_eq_Some_conv rc_defs split: prod.splits if_splits)
  have got: "got = type_code UNSUBACK" using r by (auto simp: rc_defs split: if_splits)
  have "got \<noteq> FAILURE" using got by (simp add: type_code_def rc_defs)
  then have "\<not> cp_isconnected c2" using cpp_waitfor_evolves [OF wt] unsuback_not_handled got by blast
  moreover have "cp_isconnected c' = cp_isconnected c2"
    using r got by (auto simp: bind_eq_Some_conv split: if_splits dest: setMessageHandler_function_connected)
  ultimately show ?thesis by simp
qed


text \<open>The server acknowledges.\<close>

theorem unsubscribe_closes_session_witness:
  "\<exists>c w. cpp_unsubscribe cpp_bench cpp_config cpp_session [0x74] (cpp_world_of [0xB0, 2, 0, 1]) = Some (SUCCESS, c, w) \<and>
     cp_isconnected cpp_session \<and> \<not> cp_isconnected c"
proof -
  have "map_option fst (cpp_unsubscribe cpp_bench cpp_config cpp_session [0x74] (cpp_world_of [0xB0, 2, 0, 1])) = Some SUCCESS"
    by code_simp
  then obtain c w where r: "cpp_unsubscribe cpp_bench cpp_config cpp_session [0x74] (cpp_world_of [0xB0, 2, 0, 1]) = Some (SUCCESS, c, w)"
    by auto
  from unsubscribe_closes_session [OF r] show ?thesis using r by (auto simp: cpp_session_def)
qed

end
