(* ===== verification/Cpp_Reach.thy ===== *)
theory Cpp_Reach
  imports Cpp_Session
begin

text \<open>
  The reachable states of the C++ client, whose operations run one after the other,
  and the invariant that holds in all of them.
\<close>

lemma inv_kept_resend:
  assumes "resend_inflight E cfg c rc0 timer w = Some (rc, c', w')"
  shows "inv_kept cfg c c'"
proof -
  have "rets (\<lambda>r. inv_kept cfg c (fst (snd r))) (resend_inflight E cfg c rc0 timer w)"
    unfolding resend_inflight_def
    by (intro rets_intros)
       (auto dest!: inv_kept_publish_buffer memcpy_len inv_kept_stays [OF ack_into_sendbuf_stays, where cfg = cfg]
          intro: inv_kept_trans [OF inv_kept_sendbuf] inv_kept_trans)
  with assms show ?thesis by (simp add: rets_def)
qed

lemma inv_kept_waitfor: "cpp_waitfor E cfg c t timer w = Some (rc, c', timer', w') \<Longrightarrow> inv_kept cfg c c'"
  by (drule cpp_waitfor_evolves) (blast intro: inv_kept_evolves)

lemma inv_kept_await_connack:
  assumes "cpp_await_connack E cfg c d timer w = Some (rc, d', c', timer', w')"
  shows "inv_kept cfg c c'"
proof -
  have "rets (\<lambda>r. inv_kept cfg c (fst (snd (snd r)))) (cpp_await_connack E cfg c d timer w)"
    unfolding cpp_await_connack_def by (intro rets_intros) (auto dest: inv_kept_waitfor)
  with assms show ?thesis by (simp add: rets_def)
qed

lemma inv_kept_connect_answer:
  assumes "cpp_connect_answer E cfg c d timer w = Some (rc, d', c', w')"
  shows "inv_kept cfg c c'"
proof -
  have "rets (\<lambda>r. inv_kept cfg c (fst (snd (snd r)))) (cpp_connect_answer E cfg c d timer w)"
    unfolding cpp_connect_answer_def
    by (intro rets_intros)
       (auto dest!: inv_kept_stays [OF mark_received_stays, of _ _ _ _ _ cfg] inv_kept_await_connack inv_kept_resend
          intro: inv_kept_trans)
  with assms show ?thesis by (simp add: rets_def)
qed

lemma inv_kept_connect:
  assumes "cpp_connect_data E cfg c options data w = Some (rc, data', c', w')"
  shows "inv_kept cfg c c'"
proof -
  have s: "into_sendbuf cfg (c\<lparr>cp_keepAliveInterval := k, cp_cleansession := b\<rparr>) (\<lambda>b n. MQTTSerialize_connect b n options) =
      Some (len, c1) \<Longrightarrow> inv_kept cfg c c1" for k b len c1
    by (rule inv_kept_trans [OF _ inv_kept_into_sendbuf [OF _ serialize_connect_len]]) (simp_all add: inv_kept_fields)
  have "rets (\<lambda>r. inv_kept cfg c (fst (snd (snd r)))) (cpp_connect_data E cfg c options data w)"
    unfolding cpp_connect_data_def Let_def
    by (intro rets_intros)
       (auto simp: inv_kept_fields bind_eq_Some_conv split: if_splits dest!: s inv_kept_connect_answer intro: inv_kept_trans)
  with assms show ?thesis by (simp add: rets_def)
qed

lemma inv_kept_await_suback:
  assumes "cpp_await_suback E cfg set_fn c g timer w = Some (rc, g', c', w')"
    and "\<And>c w rc c' w'. set_fn c w = Some (rc, c', w') \<Longrightarrow> inv_kept cfg c c'"
  shows "inv_kept cfg c c'"
proof -
  have "rets (\<lambda>r. inv_kept cfg c (fst (snd (snd r)))) (cpp_await_suback E cfg set_fn c g timer w)"
    unfolding cpp_await_suback_def
    by (intro rets_intros) (auto dest!: inv_kept_waitfor assms(2) intro: inv_kept_trans)
  with assms(1) show ?thesis by (simp add: rets_def)
qed

lemma inv_kept_subscribe:
  assumes "cpp_subscribe_body E cfg set_fn c filt qos g w = Some (rc, g', c', w')"
    and set_fn: "\<And>c w rc c' w'. set_fn c w = Some (rc, c', w') \<Longrightarrow> inv_kept cfg c c'"
  shows "inv_kept cfg c c'"
proof -
  have "rets (\<lambda>r. inv_kept cfg c (fst (snd (snd r)))) (cpp_subscribe_body E cfg set_fn c filt qos g w)"
    unfolding cpp_subscribe_body_def
    by (intro rets_intros)
       (auto simp: rets_def dest!: inv_kept_getNext [where cfg = cfg] inv_kept_into_sendbuf [OF _ serialize_subscribe_len]
          inv_kept_await_suback [OF _ set_fn] intro: inv_kept_trans)
  with assms(1) show ?thesis by (simp add: rets_def)
qed

lemma inv_kept_unsubscribe:
  assumes "cpp_unsubscribe E cfg c filt w = Some (rc, c', w')"
  shows "inv_kept cfg c c'"
proof -
  have "rets (\<lambda>r. inv_kept cfg c (fst (snd r))) (cpp_unsubscribe E cfg c filt w)"
    unfolding cpp_unsubscribe_def
    by (intro rets_intros)
       (auto dest!: inv_kept_getNext [where cfg = cfg] inv_kept_into_sendbuf [OF _ serialize_unsubscribe_len]
          inv_kept_waitfor inv_kept_function [where cfg = cfg] intro: inv_kept_trans)
  with assms show ?thesis by (simp add: rets_def)
qed

lemma inv_kept_close: "closeSession E cfg c w = (c', w') \<Longrightarrow> inv_kept cfg c c'"
  by (drule closeSession_closed) (simp add: inv_kept_closed)

lemma inv_kept_disconnect:
  assumes "cpp_disconnect E cfg c w = Some (rc, c', w')"
  shows "inv_kept cfg c c'"
proof -
  have "rets (\<lambda>r. inv_kept cfg c (fst (snd r))) (cpp_disconnect E cfg c w)"
    unfolding cpp_disconnect_def
    by (intro rets_intros)
       (auto dest!: inv_kept_into_sendbuf [OF _ serialize_disconnect_len] inv_kept_close intro: inv_kept_trans)
  with assms show ?thesis by (simp add: rets_def)
qed

lemma inv_kept_yield: "cpp_yield E cfg c ms w = Some (rc, c', w') \<Longrightarrow> inv_kept cfg c c'"
  by (auto simp: cpp_yield_def split: prod.splits dest!: cpp_yield_loop_evolves intro: inv_kept_evolves)

section \<open>Reachable states\<close>

text \<open>The client is not meant for several threads: a step is one public operation,
  in any order, or a change of the world by the environment.\<close>

inductive cpp_step :: "('w, 't) env \<Rightarrow> config \<Rightarrow> 't Client \<times> 'w \<Rightarrow> 't Client \<times> 'w \<Rightarrow> bool"
  for E :: "('w, 't) env" and cfg :: config where
  connect: "cpp_connect_data E cfg c options d w = Some (rc, d', c', w') \<Longrightarrow> cpp_step E cfg (c, w) (c', w')"
| default_object: "cpp_step E cfg (c, w) (setDefaultMessageHandler_object c h m, w)"
| default_function: "cpp_step E cfg (c, w) (setDefaultMessageHandler_function c h, w)"
| set_object: "setMessageHandler_object E m c filt h w = Some (rc, c', w') \<Longrightarrow> cpp_step E cfg (c, w) (c', w')"
| set_function: "setMessageHandler_function E c filt h w = Some (rc, c', w') \<Longrightarrow> cpp_step E cfg (c, w) (c', w')"
| subscribe_object: "cpp_subscribe_object_data E cfg m c filt qos h g w = Some (rc, g', c', w') \<Longrightarrow> cpp_step E cfg (c, w) (c', w')"
| subscribe_function: "cpp_subscribe_function_data E cfg c filt qos h g w = Some (rc, g', c', w') \<Longrightarrow> cpp_step E cfg (c, w) (c', w')"
| unsubscribe: "cpp_unsubscribe E cfg c filt w = Some (rc, c', w') \<Longrightarrow> cpp_step E cfg (c, w) (c', w')"
| publish: "cpp_publish_id E cfg c topic payload n pid qos retained w = Some (rc, pid', c', w') \<Longrightarrow> cpp_step E cfg (c, w) (c', w')"
| disconnect: "cpp_disconnect E cfg c w = Some (rc, c', w') \<Longrightarrow> cpp_step E cfg (c, w) (c', w')"
| yields: "cpp_yield E cfg c ms w = Some (rc, c', w') \<Longrightarrow> cpp_step E cfg (c, w) (c', w')"
| environment: "cpp_step E cfg (c, w) (c, w')"

inductive_cases cpp_stepE: "cpp_step E cfg (c, w) (c', w')"

text \<open>The memory before the constructor is arbitrary but for the size of the
  arrays.\<close>

definition declared_sizes :: "config \<Rightarrow> 't Client \<Rightarrow> bool" where
  "declared_sizes cfg c \<longleftrightarrow>
     length (sendbuf c) = nat (MAX_MQTT_PACKET_SIZE cfg) \<and> length (cp_readbuf c) = nat (MAX_MQTT_PACKET_SIZE cfg) \<and>
     length (pubbuf c) = nat (MAX_MQTT_PACKET_SIZE cfg)"

inductive cpp_reachable :: "('w, 't) env \<Rightarrow> config \<Rightarrow> 't Client \<times> 'w \<Rightarrow> bool"
  for E :: "('w, 't) env" and cfg :: config where
  construct: "Client_new E cfg c0 w0 = s \<Longrightarrow> declared_sizes cfg c0 \<Longrightarrow> cpp_reachable E cfg s"
| step: "cpp_reachable E cfg s \<Longrightarrow> cpp_step E cfg s s' \<Longrightarrow> cpp_reachable E cfg s'"

lemma inv_kept_default:
  "inv_kept cfg c (setDefaultMessageHandler_object c h m)" "inv_kept cfg c (setDefaultMessageHandler_function c h)"
  by (simp_all add: setDefaultMessageHandler_object_def setDefaultMessageHandler_function_def inv_kept_fields)

lemma step_inv_kept: "cpp_step E cfg (c, w) (c', w') \<Longrightarrow> inv_kept cfg c c'"
  by (erule cpp_stepE)
     (auto simp: inv_kept_default cpp_subscribe_object_data_def cpp_subscribe_function_data_def
        intro: inv_kept_connect inv_kept_object inv_kept_function inv_kept_unsubscribe inv_kept_publish
          inv_kept_disconnect inv_kept_yield
        elim!: inv_kept_subscribe)

lemma Client_new_inv:
  assumes "Client_new E cfg c0 w0 = (c, w)" and "declared_sizes cfg c0"
  shows "cpp_inv cfg c"
proof -
  obtain t w1 where t: "timer_new E w0 = (t, w1)" by fastforce
  let ?c = "c0\<lparr>cp_last_received := t, packetid_next := 0, cp_defaultMessageHandler := FP_new,
      cp_messageHandlers := map (\<lambda>_. \<lparr>sl_filter = None, sl_fp = FP_new\<rparr>) (cp_messageHandlers c0),
      cp_cleansession := True\<rparr>"
  have "closeSession E cfg ?c w1 = (c, w)" using assms(1) t by (simp add: Client_new_def)
  then have "c = closed cfg ?c" by (rule closeSession_closed)
  then show ?thesis
    using assms(2) by (simp add: cpp_inv_def closed_def Let_def declared_sizes_def ids_ok_zeros table_ok_def slot_holds_simps)
qed

text \<open>
  C9: in every state the C++ client can reach, whatever the network delivers, the
  last packet identifier is in 0..65535, the buffers have the template's size, no
  filter is in two slots of the handler table, the recorded QoS 2 identifiers are
  distinct, and \<open>pubrel\<close> is false: \<open>connect\<close> never resumes a QoS 2 message with
  PUBREL.
\<close>

theorem cpp_reachable_inv:
  assumes "cpp_reachable E cfg (c, w)"
  shows "0 \<le> packetid_next c \<and> packetid_next c \<le> 65535 \<and>
    length (sendbuf c) = nat (MAX_MQTT_PACKET_SIZE cfg) \<and> length (cp_readbuf c) = nat (MAX_MQTT_PACKET_SIZE cfg) \<and>
    length (pubbuf c) = nat (MAX_MQTT_PACKET_SIZE cfg) \<and>
    (\<forall>i < length (cp_messageHandlers c). \<forall>j < length (cp_messageHandlers c). \<forall>p q f.
       sl_filter (cp_messageHandlers c ! i) = Some (p, f) \<longrightarrow> sl_filter (cp_messageHandlers c ! j) = Some (q, f) \<longrightarrow> i = j) \<and>
    (MQTTCLIENT_QOS2 cfg \<longrightarrow> \<not> pubrel c \<and> distinct (filter (\<lambda>i. i \<noteq> 0) (incomingQoS2messages c)))"
proof -
  have "cpp_inv cfg (fst s)" if "cpp_reachable E cfg s" for s
    using that
  proof (induction rule: cpp_reachable.induct)
    case (construct c0 w0 s)
    then show ?case using Client_new_inv [of E cfg c0 w0 "fst s" "snd s"] by simp
  next
    case (step s s')
    then show ?case using step_inv_kept [of E cfg "fst s" "snd s" "fst s'" "snd s'"] by (simp add: inv_kept_def)
  qed
  from this [OF assms] show ?thesis
    unfolding cpp_inv_def table_ok_def ids_ok_def by (auto simp: slot_holds_simps)
qed

text \<open>The constructed client, then a handler set.\<close>

theorem cpp_reachable_inv_witness:
  "cpp_reachable cpp_bench cpp_config (setDefaultMessageHandler_function cpp_client 1, cpp_world_of []) \<and>
   \<not> pubrel (setDefaultMessageHandler_function cpp_client 1)"
proof -
  have "Client_new cpp_bench cpp_config cpp_memory (cpp_world_of []) = (cpp_client, cpp_world_of [])"
    by code_simp
  moreover have "declared_sizes cpp_config cpp_memory" by code_simp
  ultimately have "cpp_reachable cpp_bench cpp_config (cpp_client, cpp_world_of [])" by (rule construct)
  then have r: "cpp_reachable cpp_bench cpp_config (setDefaultMessageHandler_function cpp_client 1, cpp_world_of [])"
    by (rule step) (rule default_function)
  then show ?thesis using cpp_reachable_inv [OF r] by (simp add: cpp_config_def)
qed

section \<open>A refused connection\<close>

text \<open>
  with a message in flight the return code of the CONNACK is lost. The server
  refuses the connection with code 5 and the acknowledgement of the message sent
  again follows: \<open>connect\<close> returns success, the client counts as connected, and
  only \<open>data.rc\<close> still tells the refusal. Without a message in flight the code 5 is
  returned.
\<close>

theorem refused_connack_overridden:
  "map_option (\<lambda>(rc, d, c, w). (rc, ckd_rc d, cp_isconnected c))
     (cpp_connect_data cpp_bench cpp_config
        (cpp_client\<lparr>inflightMsgid := 3, inflightQoS := 1, inflightLen := 4\<rparr>)
        (MQTTPacket_connectData_initializer\<lparr>cd_cleansession := 0\<rparr>) \<lparr>ckd_rc = 0, ckd_sessionPresent = False\<rparr>
        (cpp_world_of [0x20, 2, 0, 5, 0x40, 2, 0, 3])) = Some (SUCCESS, 5, True) \<and>
   map_option (\<lambda>(rc, d, c, w). (rc, ckd_rc d, cp_isconnected c))
     (cpp_connect_data cpp_bench cpp_config cpp_client
        (MQTTPacket_connectData_initializer\<lparr>cd_cleansession := 0\<rparr>) \<lparr>ckd_rc = 0, ckd_sessionPresent = False\<rparr>
        (cpp_world_of [0x20, 2, 0, 5])) = Some (5, 5, False)"
  by code_simp

end
