(* ===== verification/Tls_Names.thy ===== *)
theory Tls_Names
  imports Text_Base
begin

text \<open>
  The checks of \<open>src/ssl_client.cpp\<close> that compute on strings: the comparison of a
  name in a certificate with the domain name, the hexadecimal fingerprint, and the
  pre-shared key given in hexadecimal. A \<open>std::string\<close> is the list of its
  characters.
\<close>

section \<open>Positions\<close>

text \<open>Comparing positions: \<open>None\<close> is \<open>npos\<close>, which is larger than any other.\<close>

definition pos_greater :: "nat option \<Rightarrow> nat option \<Rightarrow> bool" where
  "pos_greater a b \<longleftrightarrow>
     (case b of None \<Rightarrow> False | Some j \<Rightarrow> (case a of None \<Rightarrow> True | Some i \<Rightarrow> i > j))"

definition matchName :: "byte list \<Rightarrow> byte list \<Rightarrow> bool" where
  "matchName name domainName =
     (let wildcardPos = find_char name 0x2A in
      if wildcardPos = None then name = domainName
      else
        let firstDotPos = find_char name 0x2E in
        if pos_greater wildcardPos firstDotPos then False
        else if wildcardPos \<noteq> Some 0 \<or> firstDotPos \<noteq> Some 1 then False
        else (case find_char domainName 0x2E of
                None \<Rightarrow> False
              | Some d \<Rightarrow> drop d domainName = drop 1 name))"

text \<open>\<open>tolower\<close> in the C locale.\<close>

definition lower :: "byte \<Rightarrow> byte" where
  "lower b = (if 0x41 \<le> b \<and> b \<le> 0x5A then b + 0x20 else b)"

section \<open>The certificate\<close>

text \<open>What the code reads of \<open>mbedtls_x509_crt\<close>: the alternative names, the subject
  as a list of attributes (is it a common name, its value) and the raw bytes.\<close>

record certificate =
  subject_alt_names :: "byte list list"
  subject :: "(bool \<times> byte list) list"
  raw :: "byte list"

primrec any_san :: "byte list list \<Rightarrow> byte list \<Rightarrow> bool" where
  "any_san [] domain = False"
| "any_san (s # ss) domain = (if matchName (map lower s) domain then True else any_san ss domain)"

primrec any_cn :: "(bool \<times> byte list) list \<Rightarrow> byte list \<Rightarrow> bool" where
  "any_cn [] domain = False"
| "any_cn (a # as) domain = (if fst a \<and> matchName (snd a) domain then True else any_cn as domain)"

text \<open>\<open>verify_ssl_dn\<close>; without a peer certificate a null pointer is dereferenced. The
  domain name is a C string: \<open>None\<close> for a null pointer.\<close>

definition verify_ssl_dn :: "certificate option \<Rightarrow> byte list option \<Rightarrow> bool option" where
  "verify_ssl_dn crt domain_name = do {
     d \<leftarrow> domain_name;
     crt \<leftarrow> crt;
     let domain = map lower d;
     Some (if any_san (subject_alt_names crt) domain then True else any_cn (subject crt) domain) }"

section \<open>Hexadecimal\<close>

definition parseHexNibble :: "byte \<Rightarrow> byte option" where
  "parseHexNibble pb =
     (if 0x30 \<le> pb \<and> pb \<le> 0x39 then Some (pb - 0x30)
      else if 0x61 \<le> pb \<and> pb \<le> 0x66 then Some (pb - 0x61 + 10)
      else if 0x41 \<le> pb \<and> pb \<le> 0x46 then Some (pb - 0x41 + 10)
      else None)"

text \<open>The digits of the fingerprint, \<open>fp\<close> from the current position: skipping
  separators, then two digits for each of the \<open>n\<close> bytes left. \<open>None\<close> is the result
  false.\<close>

definition is_separator :: "byte \<Rightarrow> bool" where
  "is_separator c \<longleftrightarrow> c = 0x20 \<or> c = 0x3A"

primrec parse_fingerprint :: "nat \<Rightarrow> byte list \<Rightarrow> byte list option" where
  "parse_fingerprint 0 fp = Some []"
| "parse_fingerprint (Suc n) fp =
     (case dropWhile is_separator fp of
        h # l # rest \<Rightarrow> do {
          high \<leftarrow> parseHexNibble h;
          low \<leftarrow> parseHexNibble l;
          bs \<leftarrow> parse_fingerprint n rest;
          Some ((low OR push_bit 4 high) # bs) }
      | _ \<Rightarrow> None)"

text \<open>\<open>verify_ssl_fingerprint\<close>; \<open>sha256\<close> is the hash function of the TLS library.\<close>

definition verify_ssl_fingerprint ::
  "(byte list \<Rightarrow> byte list) \<Rightarrow> certificate option \<Rightarrow> byte list \<Rightarrow> byte list option \<Rightarrow> bool option" where
  "verify_ssl_fingerprint sha256 crt fp domain_name =
     (case parse_fingerprint 32 fp of
        None \<Rightarrow> Some False
      | Some fingerprint_local \<Rightarrow>
          (case crt of
             None \<Rightarrow> Some False
           | Some c \<Rightarrow>
               if take 32 (sha256 (raw c)) \<noteq> fingerprint_local then Some False
               else if domain_name \<noteq> None then verify_ssl_dn crt domain_name
               else Some True))"

text \<open>The pre-shared key: pairs of digits, in an order of tests of its own. \<open>None\<close> is
  the return of -1.\<close>

definition psk_nibble :: "byte \<Rightarrow> byte option" where
  "psk_nibble c =
     (if 0x30 \<le> c \<and> c \<le> 0x39 then Some (c - 0x30)
      else if 0x41 \<le> c \<and> c \<le> 0x46 then Some (c - (0x41 - 10))
      else if 0x61 \<le> c \<and> c \<le> 0x66 then Some (c - (0x61 - 10))
      else None)"

fun psk_bytes :: "byte list \<Rightarrow> byte list option" where
  "psk_bytes (h # l # rest) = do {
     high \<leftarrow> psk_nibble h;
     low \<leftarrow> psk_nibble l;
     bs \<leftarrow> psk_bytes rest;
     Some ((push_bit 4 high OR low) # bs) }"
| "psk_bytes _ = Some []"

definition parse_psk :: "nat \<Rightarrow> byte list \<Rightarrow> byte list option" where
  "parse_psk psk_max psKey =
     (if odd (length psKey) \<or> length psKey > 2 * psk_max then None else psk_bytes psKey)"

section \<open>Matching names\<close>

lemma find_char_None: "find_char xs c = None \<longleftrightarrow> c \<notin> set xs"
  by (induction xs) auto

lemma find_char_split: "find_char xs c = Some i \<Longrightarrow> xs = take i xs @ c # drop (Suc i) xs \<and> c \<notin> set (take i xs) \<and> i < length xs"
  by (induction xs arbitrary: i) (auto split: if_splits)

lemma find_char_append: "c \<notin> set ys \<Longrightarrow> find_char (ys @ c # zs) c = Some (length ys)"
  by (induction ys) auto

lemma find_char_Some: "find_char xs c = Some i \<longleftrightarrow> (\<exists>ys zs. xs = ys @ c # zs \<and> length ys = i \<and> c \<notin> set ys)"
proof
  assume "find_char xs c = Some i"
  from find_char_split [OF this] show "\<exists>ys zs. xs = ys @ c # zs \<and> length ys = i \<and> c \<notin> set ys"
    by (intro exI [of _ "take i xs"] exI [of _ "drop (Suc i) xs"]) simp
qed (auto simp: find_char_append)

text \<open>
  C32: the comparison of a certificate's name with the domain name is the one of
  RFC 6125: without a wildcard the names are equal; a wildcard is accepted only as
  the whole leftmost label and stands for exactly one label, so neither
  \<open>a*.example.com\<close> nor a second level below \<open>*.example.com\<close> matches.
\<close>

theorem matchName_iff:
  "matchName name domainName \<longleftrightarrow>
     0x2A \<notin> set name \<and> name = domainName \<or>
     (\<exists>rest label. name = 0x2A # 0x2E # rest \<and> domainName = label @ 0x2E # rest \<and> 0x2E \<notin> set label)"
proof (cases "find_char name 0x2A")
  case None
  then show ?thesis by (auto simp: matchName_def find_char_None)
next
  case (Some i)
  then have star: "0x2A \<in> set name" using find_char_None [of name "0x2A"] by auto
  show ?thesis
  proof (cases "i = 0 \<and> find_char name 0x2E = Some 1")
    case True
    then obtain rest where n: "name = 0x2A # 0x2E # rest"
      using Some by (auto simp: find_char_Some length_Suc_conv)
    have "matchName name domainName \<longleftrightarrow> (\<exists>d. find_char domainName 0x2E = Some d \<and> drop d domainName = 0x2E # rest)"
      unfolding n by (auto simp: matchName_def pos_greater_def split: option.splits)
    also have "\<dots> \<longleftrightarrow> (\<exists>label. domainName = label @ 0x2E # rest \<and> 0x2E \<notin> set label)"
    proof
      assume "\<exists>d. find_char domainName 0x2E = Some d \<and> drop d domainName = 0x2E # rest"
      then obtain d where d: "find_char domainName 0x2E = Some d" "drop d domainName = 0x2E # rest" by blast
      from find_char_split [OF d(1)] d(2) show "\<exists>label. domainName = label @ 0x2E # rest \<and> 0x2E \<notin> set label"
        by (intro exI [of _ "take d domainName"]) (metis append_take_drop_id)
    next
      assume "\<exists>label. domainName = label @ 0x2E # rest \<and> 0x2E \<notin> set label"
      then obtain label where l: "domainName = label @ 0x2E # rest" "0x2E \<notin> set label" by blast
      then show "\<exists>d. find_char domainName 0x2E = Some d \<and> drop d domainName = 0x2E # rest"
        by (intro exI [of _ "length label"]) (simp add: find_char_append)
    qed
    finally show ?thesis using n by auto
  next
    case False
    then have "\<not> matchName name domainName"
      using Some by (auto simp: matchName_def Let_def)
    moreover have "\<not> (\<exists>rest. name = 0x2A # 0x2E # rest)"
      using False Some by auto
    ultimately show ?thesis using star by auto
  qed
qed

section \<open>Fingerprints and keys\<close>

text \<open>The usual notation of a fingerprint: two digits for a byte, with any separators
  in front of every pair.\<close>

definition hex_digit :: "bool \<Rightarrow> byte \<Rightarrow> byte" where
  "hex_digit upper n = (if n < 10 then n + 0x30 else if upper then n + 55 else n + 87)"

definition hex_pair :: "bool \<Rightarrow> byte \<Rightarrow> byte list" where
  "hex_pair upper b = [hex_digit upper (drop_bit 4 b), hex_digit upper (b AND 15)]"

primrec hex_text :: "(byte list \<times> bool \<times> byte) list \<Rightarrow> byte list" where
  "hex_text [] = []"
| "hex_text (x # xs) = fst x @ hex_pair (fst (snd x)) (snd (snd x)) @ hex_text xs"

lemma nibble_cases:
  assumes "n < (16 :: byte)"
  shows "n \<in> set [0, 1, 2, 3, 4, 5, 6, 7, 8, 9, 10, 11, 12, 13, 14, 15]"
proof -
  have "unat n \<in> set [0..<16]" using assms by (simp add: word_less_nat_alt)
  then have "word_of_nat (unat n) \<in> set (map word_of_nat [0..<16] :: byte list)" by (metis image_eqI set_map)
  moreover have "map word_of_nat [0..<16] = [0 :: byte, 1, 2, 3, 4, 5, 6, 7, 8, 9, 10, 11, 12, 13, 14, 15]" by code_simp
  ultimately show ?thesis by simp
qed

lemma nibbles: "drop_bit 4 b < 16" "b AND 15 < 16" "push_bit 4 (drop_bit 4 b) OR (b AND 15) = b" for b :: byte
proof -
  have "unat (drop_bit 4 b) = unat b div 16" by (simp only: unat_drop_bit_eq) (simp add: drop_bit_eq_div)
  moreover have "unat b < 256" by (rule order_less_le_trans [OF unsigned_less]) simp
  ultimately show "drop_bit 4 b < 16" by (simp add: word_less_nat_alt)
  have "b AND 15 \<le> 15" by (rule word_and_le1)
  then show "b AND 15 < 16" by (simp add: word_le_nat_alt word_less_nat_alt)
  show "push_bit 4 (drop_bit 4 b) OR (b AND 15) = b"
  proof -
    have "b AND 15 = take_bit 4 b" by (simp add: take_bit_eq_mask mask_eq_exp_minus_1)
    then show ?thesis by (intro bit_word_eqI) (auto simp: bit_simps)
  qed
qed

lemma hex_digit_parses:
  assumes "n < (16 :: byte)"
  shows "parseHexNibble (hex_digit u n) = Some n" "psk_nibble (hex_digit u n) = Some n" "\<not> is_separator (hex_digit u n)"
proof -
  have "list_all (\<lambda>n. list_all (\<lambda>u. parseHexNibble (hex_digit u n) = Some n \<and> psk_nibble (hex_digit u n) = Some n \<and>
      \<not> is_separator (hex_digit u n)) [True, False]) [0, 1, 2, 3, 4, 5, 6, 7, 8, 9, 10, 11, 12, 13, 14, 15]"
    by code_simp
  with nibble_cases [OF assms]
  have "parseHexNibble (hex_digit u n) = Some n \<and> psk_nibble (hex_digit u n) = Some n \<and> \<not> is_separator (hex_digit u n)"
    unfolding list_all_iff by (cases u) auto
  then show "parseHexNibble (hex_digit u n) = Some n" "psk_nibble (hex_digit u n) = Some n" "\<not> is_separator (hex_digit u n)"
    by auto
qed

lemma parse_fingerprint_text:
  assumes "\<forall>x \<in> set xs. \<forall>c \<in> set (fst x). is_separator c"
  shows "parse_fingerprint (length xs) (hex_text xs @ rest) = Some (map (snd \<circ> snd) xs)"
  using assms
proof (induction xs)
  case (Cons x xs)
  obtain seps u b where x: "x = (seps, u, b)" by (cases x)
  have d: "dropWhile is_separator (seps @ hex_pair u b @ ys) = hex_pair u b @ ys" for ys
    using Cons.prems hex_digit_parses(3) [OF nibbles(1)]
    by (subst dropWhile_append2) (auto simp: x hex_pair_def)
  show ?case
    using Cons d hex_digit_parses [OF nibbles(1)] hex_digit_parses [OF nibbles(2)] nibbles(3) [of b]
    by (simp add: x) (simp add: hex_pair_def or.commute)
qed simp


text \<open>
  a pre-shared key of at most the maximal length, written in hexadecimal in
  either case, is read back as its bytes; a longer key is refused, and so is one with
  an odd number of digits.
\<close>

theorem psk_roundtrip:
  "parse_psk psk_max (hex_text (map (\<lambda>b. ([], u, b)) bs)) = (if length bs \<le> psk_max then Some bs else None) \<and>
   parse_psk psk_max (hex_text (map (\<lambda>b. ([], u, b)) bs) @ [c]) = None"
proof -
  have l: "length (hex_text (map (\<lambda>b. ([], u, b)) bs)) = 2 * length bs" by (induction bs) (simp_all add: hex_pair_def)
  have "psk_bytes (hex_text (map (\<lambda>b. ([], u, b)) bs)) = Some bs"
    using hex_digit_parses(2) [OF nibbles(1)] hex_digit_parses(2) [OF nibbles(2)] nibbles(3)
    by (induction bs) (simp_all add: hex_pair_def)
  then show ?thesis by (simp add: parse_psk_def l)
qed


end
