(* ===== verification/Lwip_Tcp.thy ===== *)
theory Lwip_Tcp
  imports Prelude
begin

text \<open>
  The TCP classes over lwIP, \<open>src/TCPClient.cpp\<close> and \<open>src/TCPServer.cpp\<close>. lwIP is
  not part of the repository: the calls the classes make are the record \<open>lwip\<close>, a
  parameter of every function, acting on a world of type \<open>'w\<close>. A method takes and
  returns the state of its object.
\<close>

section \<open>The calls of lwIP\<close>

record inet_addr_port =
  ia_family :: int
  ia_addr :: "32 word"
  ia_port :: "16 word"

text \<open>\<open>timeval\<close>: seconds and microseconds.\<close>

type_synonym tv = "int \<times> int"

datatype sockopt = SO_KEEPALIVE int | SO_REUSEADDR int | SO_SNDTIMEO tv | SO_RCVTIMEO tv
  | SO_SNDTIMEO_ms int | SO_RCVTIMEO_ms int | TCP_NODELAY int

datatype socktype = SOCK_STREAM | SOCK_DGRAM

record addrinfo =
  ai_family :: int
  ai_addr :: "32 word"

text \<open>\<open>lwip_ioctl_FIONREAD\<close> gives what the variable holds after the call;
  \<open>lwip_select_read\<close> waits without a timeout for data. Reading gives the bytes stored
  in the caller's buffer.\<close>

record 'w lwip =
  lwip_socket :: "socktype \<Rightarrow> 'w \<Rightarrow> int \<times> 'w"
  lwip_setsockopt :: "int \<Rightarrow> sockopt \<Rightarrow> 'w \<Rightarrow> int \<times> 'w"
  lwip_getsockopt_error :: "int \<Rightarrow> 'w \<Rightarrow> int \<times> 'w"
  lwip_close :: "int \<Rightarrow> 'w \<Rightarrow> 'w"
  lwip_shutdown :: "int \<Rightarrow> 'w \<Rightarrow> 'w"
  lwip_connect :: "int \<Rightarrow> inet_addr_port \<Rightarrow> 'w \<Rightarrow> int \<times> 'w"
  lwip_write :: "int \<Rightarrow> byte list \<Rightarrow> 'w \<Rightarrow> int \<times> 'w"
  lwip_ioctl_FIONREAD :: "int \<Rightarrow> 'w \<Rightarrow> int \<times> 'w"
  lwip_select_read :: "int \<Rightarrow> 'w \<Rightarrow> (int \<times> 'w) option"
  lwip_recv :: "int \<Rightarrow> nat \<Rightarrow> 'w \<Rightarrow> int \<times> byte list \<times> 'w"
  lwip_sendto :: "int \<Rightarrow> byte list \<Rightarrow> inet_addr_port \<Rightarrow> 'w \<Rightarrow> int \<times> 'w"
  lwip_recvfrom :: "int \<Rightarrow> nat \<Rightarrow> inet_addr_port \<Rightarrow> 'w \<Rightarrow> int \<times> byte list \<times> inet_addr_port \<times> 'w"
  lwip_bind :: "int \<Rightarrow> inet_addr_port \<Rightarrow> 'w \<Rightarrow> int \<times> 'w"
  lwip_listen :: "int \<Rightarrow> int \<Rightarrow> 'w \<Rightarrow> int \<times> 'w"
  lwip_accept :: "int \<Rightarrow> inet_addr_port \<Rightarrow> 'w \<Rightarrow> int \<times> inet_addr_port \<times> 'w"
  lwip_getsockname :: "int \<Rightarrow> inet_addr_port \<Rightarrow> 'w \<Rightarrow> int \<times> inet_addr_port \<times> 'w"
  lwip_getaddrinfo :: "byte list \<Rightarrow> 'w \<Rightarrow> int \<times> addrinfo list \<times> 'w"
  lwip_freeaddrinfo :: "addrinfo list \<Rightarrow> 'w \<Rightarrow> 'w"
  inet_addr :: "byte list \<Rightarrow> 32 word"
  lwip_htons :: "16 word \<Rightarrow> 16 word"
  lwip_htonl :: "32 word \<Rightarrow> 32 word"
  lwip_char_signed :: bool

definition AF_INET4 :: int where
  "AF_INET4 = 2"

definition IPADDR_NONE :: "32 word" where
  "IPADDR_NONE = 0xFFFFFFFF"

section \<open>\<open>TCPClient\<close>\<close>

record TCPClient =
  m_socket_fd :: int
  m_sa :: inet_addr_port
  m_so_timeout :: tv
  tc_connected :: bool

definition no_address :: inet_addr_port where
  "no_address = \<lparr>ia_family = 0, ia_addr = 0, ia_port = 0\<rparr>"

text \<open>The constructors; \<open>c\<close> is the uninitialised memory.\<close>

definition TCPClient_new :: "TCPClient \<Rightarrow> TCPClient" where
  "TCPClient_new c = c\<lparr>m_socket_fd := -1, tc_connected := False\<rparr>"

definition TCPClient_of_socket :: "TCPClient \<Rightarrow> int \<Rightarrow> inet_addr_port \<Rightarrow> TCPClient" where
  "TCPClient_of_socket c sock_id sa = (TCPClient_new c)\<lparr>m_socket_fd := sock_id, tc_connected := sock_id \<ge> 0, m_sa := sa\<rparr>"

definition TCPClient_delete :: "'w lwip \<Rightarrow> TCPClient \<Rightarrow> 'w \<Rightarrow> 'w" where
  "TCPClient_delete L c w =
     (if m_socket_fd c \<ge> 0 then lwip_close L (m_socket_fd c) (lwip_shutdown L (m_socket_fd c) w) else w)"

definition tcp_stop :: "'w lwip \<Rightarrow> TCPClient \<Rightarrow> 'w \<Rightarrow> TCPClient \<times> 'w" where
  "tcp_stop L c w =
     (let w = (if m_socket_fd c \<ge> 0 then lwip_close L (m_socket_fd c) (lwip_shutdown L (m_socket_fd c) w) else w)
      in (c\<lparr>tc_connected := False, m_socket_fd := -1\<rparr>, w))"

text \<open>Converting the timeout, with the division and remainder of C.\<close>

definition so_timeout :: "int \<Rightarrow> tv" where
  "so_timeout timeout = (timeout sdiv 1000, (timeout smod 1000) * 1000)"

definition tcp_open ::
  "'w lwip \<Rightarrow> TCPClient \<Rightarrow> 32 word \<Rightarrow> 16 word \<Rightarrow> int \<Rightarrow> 'w \<Rightarrow> int \<times> TCPClient \<times> 'w" where
  "tcp_open L c ip port timeout w =
     (let sa = \<lparr>ia_family = AF_INET4, ia_addr = ip, ia_port = lwip_htons L port\<rparr>;
          (rc, w) = lwip_connect L (m_socket_fd c) sa w;
          (c, w) = (if rc < 0 then (c\<lparr>m_socket_fd := -2\<rparr>, lwip_close L (m_socket_fd c) w) else (c, w));
          c = c\<lparr>m_sa := sa, m_so_timeout := so_timeout timeout, tc_connected := True\<rparr>
      in (m_socket_fd c, c, w))"

definition tcp_connectV4 ::
  "'w lwip \<Rightarrow> TCPClient \<Rightarrow> 32 word \<Rightarrow> 16 word \<Rightarrow> int \<Rightarrow> 'w \<Rightarrow> int \<times> TCPClient \<times> 'w" where
  "tcp_connectV4 L c ip port timeout w =
     (let (c, w) = (if m_socket_fd c \<ge> 0 then tcp_stop L c w else (c, w));
          (fd, w) = lwip_socket L SOCK_STREAM w;
          c = c\<lparr>m_socket_fd := fd\<rparr>
      in if fd < 0 then (-1, c, w)
         else
           let (rc, w) = lwip_setsockopt L fd (SO_KEEPALIVE timeout) w
           in if rc = -1 then (-1, c, lwip_close L fd w)
              else
                let (rc, w) = lwip_setsockopt L fd (SO_REUSEADDR 1) w
                in if rc = -1 then (-1, c, lwip_close L fd w) else tcp_open L c ip port timeout w)"

definition tcp_connect_ip :: "'w lwip \<Rightarrow> TCPClient \<Rightarrow> 32 word \<Rightarrow> 16 word \<Rightarrow> 'w \<Rightarrow> int \<times> TCPClient \<times> 'w" where
  "tcp_connect_ip L c ip port w = tcp_connectV4 L c ip port 5000 w"

text \<open>The addresses of a host. Freeing from the node that was chosen frees the rest
  of the list. An empty list is a null pointer that is dereferenced.\<close>

primrec skip_to_ipv4 :: "addrinfo list \<Rightarrow> addrinfo list" where
  "skip_to_ipv4 [] = []"
| "skip_to_ipv4 (a # as) = (if ai_family a = AF_INET4 then a # as else skip_to_ipv4 as)"

definition resolve :: "'w lwip \<Rightarrow> byte list \<Rightarrow> 'w \<Rightarrow> (32 word \<times> 'w) option" where
  "resolve L host w =
     (let ip = inet_addr L host
      in if ip \<noteq> IPADDR_NONE then Some (ip, w)
         else
           let (rc, result, w) = lwip_getaddrinfo L host w
           in if rc \<noteq> 0 then Some (ip, w)
              else
                let chosen = (if skip_to_ipv4 result = [] then result else skip_to_ipv4 result)
                in case chosen of
                     [] \<Rightarrow> None
                   | a # as \<Rightarrow> Some (if ai_family a = AF_INET4 then ai_addr a else ip, lwip_freeaddrinfo L chosen w))"

text \<open>\<open>addr\<close> is the caller's variable for the address.\<close>

definition hostByName :: "'w lwip \<Rightarrow> byte list \<Rightarrow> 32 word \<Rightarrow> 'w \<Rightarrow> (int \<times> 32 word \<times> 'w) option" where
  "hostByName L host addr w = do {
     (ip, w) \<leftarrow> resolve L host w;
     Some (if ip = IPADDR_NONE then (0, addr, w) else (1, ip, w)) }"

definition tcp_connect_timeout ::
  "'w lwip \<Rightarrow> TCPClient \<Rightarrow> byte list \<Rightarrow> 16 word \<Rightarrow> int \<Rightarrow> 'w \<Rightarrow> (int \<times> TCPClient \<times> 'w) option" where
  "tcp_connect_timeout L c host port timeout w =
     (let (c, w) = (if m_socket_fd c \<ge> 0 then let (c, w) = tcp_stop L c w in (c\<lparr>m_socket_fd := -1\<rparr>, w) else (c, w))
      in do {
        (ok, ip, w) \<leftarrow> hostByName L host 0 w;
        Some (if ok = 0 then (-1, c, w) else tcp_connectV4 L c ip port timeout w) })"

definition tcp_connect_host :: "'w lwip \<Rightarrow> TCPClient \<Rightarrow> byte list \<Rightarrow> 16 word \<Rightarrow> 'w \<Rightarrow> (int \<times> TCPClient \<times> 'w) option" where
  "tcp_connect_host L c host port w = tcp_connect_timeout L c host port 5000 w"

definition tcp_setKeepAlive :: "'w lwip \<Rightarrow> TCPClient \<Rightarrow> int \<Rightarrow> 'w \<Rightarrow> 'w" where
  "tcp_setKeepAlive L c time w =
     (if m_socket_fd c \<ge> 0 then snd (lwip_setsockopt L (m_socket_fd c) (SO_KEEPALIVE time) w) else w)"

text \<open>The result is a \<open>size_t\<close>: without a socket -1 becomes the largest value.\<close>

definition tcp_write :: "'w lwip \<Rightarrow> TCPClient \<Rightarrow> byte list \<Rightarrow> 'w \<Rightarrow> 32 word \<times> 'w" where
  "tcp_write L c buf w =
     (if m_socket_fd c < 0 then (-1, w)
      else
        let (_, w) = lwip_setsockopt L (m_socket_fd c) (SO_SNDTIMEO (m_so_timeout c)) w;
            (rc, w) = lwip_write L (m_socket_fd c) buf w
        in (if rc < 0 then 0 else word_of_int rc, w))"

definition tcp_write_byte :: "'w lwip \<Rightarrow> TCPClient \<Rightarrow> byte \<Rightarrow> 'w \<Rightarrow> 32 word \<times> 'w" where
  "tcp_write_byte L c b w =
     (if m_socket_fd c < 0 then (-1, w)
      else
        let (_, w) = lwip_setsockopt L (m_socket_fd c) (SO_SNDTIMEO (m_so_timeout c)) w;
            (rc, w) = lwip_write L (m_socket_fd c) [b] w
        in (if rc < 0 then 0 else word_of_int rc, w))"

definition tcp_write_cstr :: "'w lwip \<Rightarrow> TCPClient \<Rightarrow> byte list \<Rightarrow> 'w \<Rightarrow> 32 word \<times> 'w" where
  "tcp_write_cstr L c msg w = tcp_write L c msg w"

definition tcp_available :: "'w lwip \<Rightarrow> TCPClient \<Rightarrow> 'w \<Rightarrow> int \<times> TCPClient \<times> 'w" where
  "tcp_available L c w =
     (if m_socket_fd c \<ge> 0 then
        let (rc, w) = lwip_ioctl_FIONREAD L (m_socket_fd c) w
        in if rc < 0 then (0, c\<lparr>tc_connected := False\<rparr>, w) else (rc, c, w)
      else (0, c, w))"

text \<open>One byte: any result of \<open>lwip_recv\<close> but 0 counts as success.\<close>

definition tcp_read_byte :: "'w lwip \<Rightarrow> TCPClient \<Rightarrow> 'w \<Rightarrow> (int \<times> TCPClient \<times> 'w) option" where
  "tcp_read_byte L c w =
     (if m_socket_fd c < 0 then Some (-1, c, w)
      else do {
        (ready, w) \<leftarrow> lwip_select_read L (m_socket_fd c) w;
        (if ready > 0 then
           let (_, w) = lwip_setsockopt L (m_socket_fd c) (SO_RCVTIMEO (m_so_timeout c)) w;
               (n, bs, w) = lwip_recv L (m_socket_fd c) 1 w;
               buf = (case bs of [] \<Rightarrow> 0 | b # _ \<Rightarrow> b)
           in Some (if n \<noteq> 0 then int_of_char (lwip_char_signed L) buf else 0, c, w)
         else Some (0, c\<lparr>tc_connected := False\<rparr>, w)) })"

definition tcp_read :: "'w lwip \<Rightarrow> TCPClient \<Rightarrow> nat \<Rightarrow> 'w \<Rightarrow> (int \<times> byte list \<times> TCPClient \<times> 'w) option" where
  "tcp_read L c n w =
     (if m_socket_fd c < 0 then Some (-1, [], c, w)
      else do {
        (ready, w) \<leftarrow> lwip_select_read L (m_socket_fd c) w;
        (if ready > 0 then
           let (_, w) = lwip_setsockopt L (m_socket_fd c) (SO_RCVTIMEO (m_so_timeout c)) w;
               (rc, bs, w) = lwip_recv L (m_socket_fd c) n w
           in Some (rc, bs, c, w)
         else Some (-1, [], c\<lparr>tc_connected := False\<rparr>, w)) })"

definition tcp_peek :: "TCPClient \<Rightarrow> int" where
  "tcp_peek c = 0"

definition tcp_connected :: "'w lwip \<Rightarrow> TCPClient \<Rightarrow> 'w \<Rightarrow> bool \<times> TCPClient \<times> 'w" where
  "tcp_connected L c w =
     (if m_socket_fd c < 0 then (False, c, w)
      else let (_, c, w) = tcp_available L c w in (tc_connected c, c, w))"

definition tcp_bool :: "TCPClient \<Rightarrow> bool" where
  "tcp_bool c \<longleftrightarrow> m_socket_fd c \<ge> 0"

section \<open>\<open>TCPServer\<close>\<close>

record TCPServer =
  ts_socket_fd :: int
  ts_serv_addr :: inet_addr_port
  ts_cli_addr :: inet_addr_port

definition server_begin :: "'w lwip \<Rightarrow> TCPServer \<Rightarrow> 'w \<Rightarrow> TCPServer \<times> 'w" where
  "server_begin L s w =
     (let (fd, w) = lwip_socket L SOCK_STREAM w
      in (s\<lparr>ts_serv_addr := no_address, ts_cli_addr := no_address, ts_socket_fd := fd\<rparr>, w))"

definition server_end :: "'w lwip \<Rightarrow> TCPServer \<Rightarrow> 'w \<Rightarrow> 'w" where
  "server_end L s w = (if ts_socket_fd s \<ge> 0 then lwip_close L (ts_socket_fd s) w else w)"

definition TCP_SERVER_MAX_CONN :: int where
  "TCP_SERVER_MAX_CONN = 2"

definition server_establish ::
  "'w lwip \<Rightarrow> TCPServer \<Rightarrow> 16 word \<Rightarrow> 32 word \<Rightarrow> 'w \<Rightarrow> bool \<times> TCPServer \<times> 'w" where
  "server_establish L s port bind_addr w =
     (let s = s\<lparr>ts_serv_addr := (ts_serv_addr s)\<lparr>ia_family := AF_INET4, ia_addr := lwip_htonl L bind_addr,
                  ia_port := lwip_htons L port\<rparr>\<rparr>
      in if ts_socket_fd s < 0 then (False, s, w)
         else
           let (_, w) = lwip_setsockopt L (ts_socket_fd s) (SO_REUSEADDR 1) w;
               (_, w) = lwip_setsockopt L (ts_socket_fd s) (SO_RCVTIMEO (5, 0)) w;
               (rc, w) = lwip_bind L (ts_socket_fd s) (ts_serv_addr s) w
           in if rc < 0 then (False, s, w)
              else let (rc, w) = lwip_listen L (ts_socket_fd s) TCP_SERVER_MAX_CONN w in (rc \<ge> 0, s, w))"

definition TCPServer_new :: "TCPServer \<Rightarrow> TCPServer" where
  "TCPServer_new s = s\<lparr>ts_socket_fd := -1\<rparr>"

definition TCPServer_on_port :: "'w lwip \<Rightarrow> TCPServer \<Rightarrow> 16 word \<Rightarrow> 'w \<Rightarrow> TCPServer \<times> 'w" where
  "TCPServer_on_port L s port w =
     (let (s, w) = server_begin L (TCPServer_new s) w;
          (_, s, w) = server_establish L s port 0 w
      in (s, w))"

text \<open>\<open>accept\<close> gives no client when there is none, \<open>available\<close> one without a
  socket; \<open>mem\<close> is the memory of the new object.\<close>

definition server_accept :: "'w lwip \<Rightarrow> TCPServer \<Rightarrow> TCPClient \<Rightarrow> 'w \<Rightarrow> TCPClient option \<times> TCPServer \<times> 'w" where
  "server_accept L s mem w =
     (if ts_socket_fd s \<ge> 0 then
        let (fd, sa, w) = lwip_accept L (ts_socket_fd s) (ts_cli_addr s) w;
            s = s\<lparr>ts_cli_addr := sa\<rparr>
        in if fd \<ge> 0 then (Some (TCPClient_of_socket mem fd sa), s, w) else (None, s, w)
      else (None, s, w))"

definition server_available :: "'w lwip \<Rightarrow> TCPServer \<Rightarrow> TCPClient \<Rightarrow> 'w \<Rightarrow> TCPClient \<times> TCPServer \<times> 'w" where
  "server_available L s mem w =
     (if ts_socket_fd s \<ge> 0 then
        let (fd, sa, w) = lwip_accept L (ts_socket_fd s) (ts_cli_addr s) w;
            s = s\<lparr>ts_cli_addr := sa\<rparr>
        in if fd \<ge> 0 then (TCPClient_of_socket mem fd sa, s, w) else (TCPClient_new mem, s, w)
      else (TCPClient_new mem, s, w))"

end
