(* ===== verification/Tls_Client.thy ===== *)
theory Tls_Client
  imports Tls_Names Lwip_Tcp
begin

text \<open>
  The TLS connection of \<open>src/ssl_client.cpp\<close>. The TLS library is not part of the
  repository: a call of it is a request of the datatype \<open>tls_call\<close>, answered by the
  parameter \<open>mbedtls\<close> with an integer and a new world; the contexts of one
  \<open>sslclient_context\<close> live in the world and are named by a number. The calls that
  pass data are parameters of their own.

  A \<open>const char *\<close> that is kept is a pointer (0 for \<open>NULL\<close>); \<open>cstr\<close> reads the C string
  there and is undefined for a dangling pointer. Logging is left out.
\<close>

section \<open>The calls of the TLS library\<close>

datatype cert_slot = Ca_cert | Client_cert

datatype authmode = VERIFY_NONE | VERIFY_REQUIRED

datatype tls_call =
    Ssl_init | Ssl_config_init | Ctr_drbg_init | Entropy_init | Ctr_drbg_seed "byte list"
  | Ssl_config_defaults | X509_crt_init cert_slot | Conf_authmode authmode
  | X509_crt_parse cert_slot "byte list" | Conf_ca_chain | Conf_psk "byte list" "byte list"
  | Pk_init | Pk_parse_key "byte list" | Conf_own_cert | Set_hostname "byte list" | Conf_rng
  | Ssl_setup | Set_bio | Ssl_handshake | Get_record_expansion | Get_verify_result
  | X509_crt_free cert_slot | Pk_free | Ssl_free | Config_free | Ctr_drbg_free | Entropy_free
  | Ssl_read_nothing | Get_bytes_avail

record 'w tls =
  lw :: "'w lwip"
  mbedtls :: "nat \<Rightarrow> tls_call \<Rightarrow> 'w \<Rightarrow> int \<times> 'w"
  ssl_write :: "nat \<Rightarrow> byte list \<Rightarrow> 'w \<Rightarrow> int \<times> 'w"
  ssl_read :: "nat \<Rightarrow> nat \<Rightarrow> 'w \<Rightarrow> int \<times> byte list \<times> 'w"
  peer_cert :: "nat \<Rightarrow> 'w \<Rightarrow> certificate option"
  sha256 :: "byte list \<Rightarrow> byte list"
  cstr :: "nat \<Rightarrow> 'w \<Rightarrow> byte list option"
  fcntl_nonblock :: "int \<Rightarrow> 'w \<Rightarrow> 'w"
  tls_millis :: "'w \<Rightarrow> 32 word \<times> 'w"
  task_delay :: "'w \<Rightarrow> 'w"
  psk_max_len :: nat

definition WANT_READ :: int where
  "WANT_READ = - 26880"

definition WANT_WRITE :: int where
  "WANT_WRITE = - 26752"

record sslclient_context =
  ssl_socket :: int
  handshake_timeout :: "32 word"
  ssl_id :: nat

definition pers :: "byte list" where
  "pers = ascii ''FEmbed-tls''"

text \<open>A call whose result is not used.\<close>

definition tls_do :: "'w tls \<Rightarrow> sslclient_context \<Rightarrow> tls_call \<Rightarrow> 'w \<Rightarrow> 'w" where
  "tls_do T s k w = snd (mbedtls T (ssl_id s) k w)"

text \<open>\<open>_handle_error\<close> reports the error and returns it.\<close>

definition handle_error :: "int \<Rightarrow> int" where
  "handle_error err = err"

definition ssl_init :: "'w tls \<Rightarrow> sslclient_context \<Rightarrow> 'w \<Rightarrow> 'w" where
  "ssl_init T s w = tls_do T s Ctr_drbg_init (tls_do T s Ssl_config_init (tls_do T s Ssl_init w))"

definition stop_ssl_socket :: "'w tls \<Rightarrow> sslclient_context \<Rightarrow> 'w \<Rightarrow> sslclient_context \<times> 'w" where
  "stop_ssl_socket T s w =
     (let (s, w) = (if ssl_socket s \<ge> 0 then (s\<lparr>ssl_socket := -1\<rparr>, lwip_close (lw T) (ssl_socket s) w) else (s, w))
      in (s, tls_do T s Entropy_free (tls_do T s Ctr_drbg_free (tls_do T s Config_free (tls_do T s Ssl_free w)))))"

section \<open>The steps of \<open>start_ssl_client\<close>\<close>

text \<open>Each step returns \<open>Inl\<close> of the return code when the function returns in it.\<close>

definition open_socket ::
  "'w tls \<Rightarrow> sslclient_context \<Rightarrow> byte list \<Rightarrow> 16 word \<Rightarrow> int \<Rightarrow> 'w \<Rightarrow>
   ((int + unit) \<times> sslclient_context \<times> 'w) option" where
  "open_socket T s host port timeout w =
     (let (fd, w) = lwip_socket (lw T) SOCK_STREAM w;
          s = s\<lparr>ssl_socket := fd\<rparr>
      in if fd < 0 then Some (Inl fd, s, w)
         else do {
           (ok, srv, w) \<leftarrow> hostByName (lw T) host 0 w;
           (if ok = 0 then Some (Inl (-1), s, w)
            else
              let (rc, w) = lwip_connect (lw T) fd \<lparr>ia_family = AF_INET4, ia_addr = srv, ia_port = lwip_htons (lw T) port\<rparr> w
              in if rc = 0 then
                   let timeout = (if timeout \<le> 0 then 30000 else timeout);
                       (_, w) = lwip_setsockopt (lw T) fd (SO_RCVTIMEO_ms timeout) w;
                       (_, w) = lwip_setsockopt (lw T) fd (SO_SNDTIMEO_ms timeout) w;
                       (_, w) = lwip_setsockopt (lw T) fd (TCP_NODELAY 1) w;
                       (_, w) = lwip_setsockopt (lw T) fd (SO_KEEPALIVE 1) w
                   in Some (Inr (), s, fcntl_nonblock T fd w)
                 else Some (Inl (-1), s, w)) })"

definition seed_and_defaults :: "'w tls \<Rightarrow> sslclient_context \<Rightarrow> 'w \<Rightarrow> (int + unit) \<times> 'w" where
  "seed_and_defaults T s w =
     (let w = tls_do T s Entropy_init w;
          (ret, w) = mbedtls T (ssl_id s) (Ctr_drbg_seed pers) w
      in if ret < 0 then (Inl (handle_error ret), w)
         else
           let (ret, w) = mbedtls T (ssl_id s) Ssl_config_defaults w
           in if ret \<noteq> 0 then (Inl (handle_error ret), w) else (Inr (), w))"

text \<open>Who is trusted: a certification authority, a pre-shared key, or anybody.\<close>

definition configure_trust ::
  "'w tls \<Rightarrow> sslclient_context \<Rightarrow> nat \<Rightarrow> nat \<Rightarrow> nat \<Rightarrow> 'w \<Rightarrow> ((int + unit) \<times> 'w) option" where
  "configure_trust T s rootCA pskIdent psKey w =
     (if rootCA \<noteq> 0 then
        let w = tls_do T s (Conf_authmode VERIFY_REQUIRED) (tls_do T s (X509_crt_init Ca_cert) w) in do {
          pem \<leftarrow> cstr T rootCA w;
          let (ret, w) = mbedtls T (ssl_id s) (X509_crt_parse Ca_cert pem) w;
          let w = tls_do T s Conf_ca_chain w;
          Some (if ret < 0 then Inl (handle_error ret) else Inr (), w) }
      else if pskIdent \<noteq> 0 \<and> psKey \<noteq> 0 then do {
        key \<leftarrow> cstr T psKey w;
        (case parse_psk (psk_max_len T) key of
           None \<Rightarrow> Some (Inl (-1), w)
         | Some psk \<Rightarrow> do {
             ident \<leftarrow> cstr T pskIdent w;
             let (ret, w) = mbedtls T (ssl_id s) (Conf_psk psk ident) w;
             Some (if ret \<noteq> 0 then Inl (handle_error ret) else Inr (), w) }) }
      else Some (Inr (), tls_do T s (Conf_authmode VERIFY_NONE) w))"

definition configure_identity ::
  "'w tls \<Rightarrow> sslclient_context \<Rightarrow> nat \<Rightarrow> nat \<Rightarrow> 'w \<Rightarrow> ((int + unit) \<times> 'w) option" where
  "configure_identity T s cli_cert cli_key w =
     (if cli_cert \<noteq> 0 \<and> cli_key \<noteq> 0 then
        let w = tls_do T s Pk_init (tls_do T s (X509_crt_init Client_cert) w) in do {
          pem \<leftarrow> cstr T cli_cert w;
          let (ret, w) = mbedtls T (ssl_id s) (X509_crt_parse Client_cert pem) w;
          (if ret < 0 then Some (Inl (handle_error ret), w)
           else do {
             key \<leftarrow> cstr T cli_key w;
             let (ret, w) = mbedtls T (ssl_id s) (Pk_parse_key key) w;
             Some (if ret \<noteq> 0 then (Inl (handle_error ret), w) else (Inr (), tls_do T s Conf_own_cert w)) }) }
      else Some (Inr (), w))"

definition setup_session :: "'w tls \<Rightarrow> sslclient_context \<Rightarrow> byte list \<Rightarrow> 'w \<Rightarrow> (int + unit) \<times> 'w" where
  "setup_session T s host w =
     (let (ret, w) = mbedtls T (ssl_id s) (Set_hostname host) w
      in if ret \<noteq> 0 then (Inl (handle_error ret), w)
         else
           let w = tls_do T s Conf_rng w;
               (ret, w) = mbedtls T (ssl_id s) Ssl_setup w
           in if ret \<noteq> 0 then (Inl (handle_error ret), w) else (Inr (), tls_do T s Set_bio w))"

text \<open>The handshake is repeated while the library waits for the network and the time
  is not up.\<close>

partial_function (option) handshake_loop ::
  "'w tls \<Rightarrow> sslclient_context \<Rightarrow> 32 word \<Rightarrow> 'w \<Rightarrow> ((int + unit) \<times> 'w) option" where
  "handshake_loop T s start w =
     (let (ret, w) = mbedtls T (ssl_id s) Ssl_handshake w in
      if ret = 0 then Some (Inr (), w)
      else if ret \<noteq> WANT_READ \<and> ret \<noteq> WANT_WRITE then Some (Inl (handle_error ret), w)
      else
        let (now, w) = tls_millis T w in
        if now - start > handshake_timeout s then Some (Inl (-1), w)
        else handshake_loop T s start (task_delay T w))"

declare handshake_loop.simps [code]

definition handshake :: "'w tls \<Rightarrow> sslclient_context \<Rightarrow> 'w \<Rightarrow> ((int + unit) \<times> 'w) option" where
  "handshake T s w = (let (start, w) = tls_millis T w in handshake_loop T s start w)"

text \<open>After the handshake \<open>ret\<close> is 0, unless it is set again to the record
  expansion.\<close>

definition free_certs :: "'w tls \<Rightarrow> sslclient_context \<Rightarrow> nat \<Rightarrow> nat \<Rightarrow> nat \<Rightarrow> 'w \<Rightarrow> 'w" where
  "free_certs T s rootCA cli_cert cli_key w =
     (let w = (if rootCA \<noteq> 0 then tls_do T s (X509_crt_free Ca_cert) w else w);
          w = (if cli_cert \<noteq> 0 then tls_do T s (X509_crt_free Client_cert) w else w)
      in if cli_key \<noteq> 0 then tls_do T s Pk_free w else w)"

definition verify_peer ::
  "'w tls \<Rightarrow> sslclient_context \<Rightarrow> nat \<Rightarrow> nat \<Rightarrow> nat \<Rightarrow> 'w \<Rightarrow> int \<times> sslclient_context \<times> 'w" where
  "verify_peer T s rootCA cli_cert cli_key w =
     (let (ret, w) = (if cli_cert \<noteq> 0 \<and> cli_key \<noteq> 0 then mbedtls T (ssl_id s) Get_record_expansion w else (0, w));
          (flags, w) = mbedtls T (ssl_id s) Get_verify_result w
      in if flags \<noteq> 0 then let (s, w) = stop_ssl_socket T s w in (handle_error ret, s, w)
         else (ssl_socket s, s, free_certs T s rootCA cli_cert cli_key w))"

definition start_ssl_client ::
  "'w tls \<Rightarrow> sslclient_context \<Rightarrow> byte list \<Rightarrow> 16 word \<Rightarrow> int \<Rightarrow> nat \<Rightarrow> nat \<Rightarrow> nat \<Rightarrow> nat \<Rightarrow> nat \<Rightarrow> 'w \<Rightarrow>
   (int \<times> sslclient_context \<times> 'w) option" where
  "start_ssl_client T s host port timeout rootCA cli_cert cli_key pskIdent psKey w = do {
     (r, s, w) \<leftarrow> open_socket T s host port timeout w;
     (case r of Inl rc \<Rightarrow> Some (rc, s, w) | Inr _ \<Rightarrow>
       (let (r, w) = seed_and_defaults T s w in
        case r of Inl rc \<Rightarrow> Some (rc, s, w) | Inr _ \<Rightarrow> do {
          (r, w) \<leftarrow> configure_trust T s rootCA pskIdent psKey w;
          (case r of Inl rc \<Rightarrow> Some (rc, s, w) | Inr _ \<Rightarrow> do {
             (r, w) \<leftarrow> configure_identity T s cli_cert cli_key w;
             (case r of Inl rc \<Rightarrow> Some (rc, s, w) | Inr _ \<Rightarrow>
               (let (r, w) = setup_session T s host w in
                case r of Inl rc \<Rightarrow> Some (rc, s, w) | Inr _ \<Rightarrow> do {
                  (r, w) \<leftarrow> handshake T s w;
                  (case r of Inl rc \<Rightarrow> Some (rc, s, w)
                   | Inr _ \<Rightarrow> Some (verify_peer T s rootCA cli_cert cli_key w)) })) }) })) }"

section \<open>Reading and writing\<close>

definition data_to_read :: "'w tls \<Rightarrow> sslclient_context \<Rightarrow> 'w \<Rightarrow> int \<times> 'w" where
  "data_to_read T s w =
     (let (ret, w) = mbedtls T (ssl_id s) Ssl_read_nothing w;
          (res, w) = mbedtls T (ssl_id s) Get_bytes_avail w
      in (if ret \<noteq> WANT_READ \<and> ret \<noteq> WANT_WRITE \<and> ret < 0 then handle_error ret else res, w))"

text \<open>\<open>len\<close> is a \<open>uint16_t\<close>.\<close>

partial_function (option) send_ssl_loop :: "'w tls \<Rightarrow> sslclient_context \<Rightarrow> byte list \<Rightarrow> 'w \<Rightarrow> (int \<times> 'w) option" where
  "send_ssl_loop T s data w =
     (let (ret, w) = ssl_write T (ssl_id s) data w in
      if ret > 0 then Some (ret, w)
      else if ret \<noteq> WANT_READ \<and> ret \<noteq> WANT_WRITE then Some (handle_error ret, w)
      else send_ssl_loop T s data w)"

declare send_ssl_loop.simps [code]

definition send_ssl_data :: "'w tls \<Rightarrow> sslclient_context \<Rightarrow> byte list \<Rightarrow> 16 word \<Rightarrow> 'w \<Rightarrow> (int \<times> 'w) option" where
  "send_ssl_data T s data len w = send_ssl_loop T s (take (unat len) data) w"

definition get_ssl_receive :: "'w tls \<Rightarrow> sslclient_context \<Rightarrow> nat \<Rightarrow> 'w \<Rightarrow> int \<times> byte list \<times> 'w" where
  "get_ssl_receive T s n w = ssl_read T (ssl_id s) n w"

section \<open>What a connection that is reported as open has gone through\<close>

text \<open>The same library with a log of its calls and their results, newest first. A
  call of lwIP and the clock leave the log alone.\<close>

type_synonym tls_log = "(nat \<times> tls_call \<times> int) list"

definition log_lwip :: "'w lwip \<Rightarrow> ('w \<times> tls_log) lwip" where
  "log_lwip L =
     \<lparr>lwip_socket = (\<lambda>t (w, l). let (r, w) = lwip_socket L t w in (r, w, l)),
      lwip_setsockopt = (\<lambda>s p (w, l). let (r, w) = lwip_setsockopt L s p w in (r, w, l)),
      lwip_getsockopt_error = (\<lambda>s (w, l). let (r, w) = lwip_getsockopt_error L s w in (r, w, l)),
      lwip_close = (\<lambda>s (w, l). (lwip_close L s w, l)),
      lwip_shutdown = (\<lambda>s (w, l). (lwip_shutdown L s w, l)),
      lwip_connect = (\<lambda>s a (w, l). let (r, w) = lwip_connect L s a w in (r, w, l)),
      lwip_write = (\<lambda>s b (w, l). let (r, w) = lwip_write L s b w in (r, w, l)),
      lwip_ioctl_FIONREAD = (\<lambda>s (w, l). let (r, w) = lwip_ioctl_FIONREAD L s w in (r, w, l)),
      lwip_select_read = (\<lambda>s (w, l). map_option (\<lambda>(r, w). (r, w, l)) (lwip_select_read L s w)),
      lwip_recv = (\<lambda>s n (w, l). let (r, b, w) = lwip_recv L s n w in (r, b, w, l)),
      lwip_sendto = (\<lambda>s b a (w, l). let (r, w) = lwip_sendto L s b a w in (r, w, l)),
      lwip_recvfrom = (\<lambda>s n a (w, l). let (r, b, a, w) = lwip_recvfrom L s n a w in (r, b, a, w, l)),
      lwip_bind = (\<lambda>s a (w, l). let (r, w) = lwip_bind L s a w in (r, w, l)),
      lwip_listen = (\<lambda>s n (w, l). let (r, w) = lwip_listen L s n w in (r, w, l)),
      lwip_accept = (\<lambda>s a (w, l). let (r, a, w) = lwip_accept L s a w in (r, a, w, l)),
      lwip_getsockname = (\<lambda>s a (w, l). let (r, a, w) = lwip_getsockname L s a w in (r, a, w, l)),
      lwip_getaddrinfo = (\<lambda>h (w, l). let (r, a, w) = lwip_getaddrinfo L h w in (r, a, w, l)),
      lwip_freeaddrinfo = (\<lambda>a (w, l). (lwip_freeaddrinfo L a w, l)),
      inet_addr = inet_addr L, lwip_htons = lwip_htons L, lwip_htonl = lwip_htonl L,
      lwip_char_signed = lwip_char_signed L\<rparr>"

definition log_tls :: "'w tls \<Rightarrow> ('w \<times> tls_log) tls" where
  "log_tls T =
     \<lparr>lw = log_lwip (lw T),
      mbedtls = (\<lambda>i k (w, l). let (r, w) = mbedtls T i k w in (r, w, (i, k, r) # l)),
      ssl_write = (\<lambda>i b (w, l). let (r, w) = ssl_write T i b w in (r, w, l)),
      ssl_read = (\<lambda>i n (w, l). let (r, b, w) = ssl_read T i n w in (r, b, w, l)),
      peer_cert = (\<lambda>i (w, l). peer_cert T i w), sha256 = sha256 T, cstr = (\<lambda>p (w, l). cstr T p w),
      fcntl_nonblock = (\<lambda>s (w, l). (fcntl_nonblock T s w, l)),
      tls_millis = (\<lambda>(w, l). let (r, w) = tls_millis T w in (r, w, l)),
      task_delay = (\<lambda>(w, l). (task_delay T w, l)), psk_max_len = psk_max_len T\<rparr>"

end
