(* ===== verification/Tls_Secure.thy ===== *)
theory Tls_Secure
  imports Tls_Client
begin

text \<open>
  The class \<open>TCPClientSecure\<close>, \<open>src/TCPClientSecure.cpp\<close> and its header, over the
  functions of \<open>Tls_Client\<close>. The pointers to certificates and keys are addresses (0
  for \<open>NULL\<close>). What comes from the Arduino core (\<open>IPAddress::toString\<close>,
  \<open>Stream::timedRead\<close>, \<open>Stream::readBytes\<close>) and from the C library (\<open>malloc\<close>,
  \<open>free\<close>) is a parameter of the functions that use it.
\<close>

record TCPClientSecure =
  sec_connected :: bool
  sslclient :: sslclient_context
  sec_lastError :: int
  sec_peek :: int
  sec_timeout :: int
  CA_cert :: nat
  sec_cert :: nat
  private_key :: nat
  sec_pskIdent :: nat
  sec_psKey :: nat
  sec_next :: nat

section \<open>Life cycle\<close>

text \<open>The constructors; \<open>i\<close> names the contexts that \<open>new\<close> allocates. The members with
  an initialiser in the class start from it.\<close>

definition sec_init :: "'w tls \<Rightarrow> nat \<Rightarrow> int \<Rightarrow> 'w \<Rightarrow> TCPClientSecure \<times> 'w" where
  "sec_init T i sock w =
     (let s = \<lparr>ssl_socket = sock, handshake_timeout = 120000, ssl_id = i\<rparr>
      in (\<lparr>sec_connected = False, sslclient = s, sec_lastError = 0, sec_peek = -1, sec_timeout = 0, CA_cert = 0,
           sec_cert = 0, private_key = 0, sec_pskIdent = 0, sec_psKey = 0, sec_next = 0\<rparr>, ssl_init T s w))"

definition TCPClientSecure_new :: "'w tls \<Rightarrow> nat \<Rightarrow> 'w \<Rightarrow> TCPClientSecure \<times> 'w" where
  "TCPClientSecure_new T i w = sec_init T i (-1) w"

definition TCPClientSecure_of_socket :: "'w tls \<Rightarrow> nat \<Rightarrow> int \<Rightarrow> 'w \<Rightarrow> TCPClientSecure \<times> 'w" where
  "TCPClientSecure_of_socket T i sock w =
     (let (c, w) = sec_init T i sock w in (if sock \<ge> 0 then c\<lparr>sec_connected := True\<rparr> else c, w))"

definition sec_stop :: "'w tls \<Rightarrow> TCPClientSecure \<Rightarrow> 'w \<Rightarrow> TCPClientSecure \<times> 'w" where
  "sec_stop T c w =
     (let fd = ssl_socket (sslclient c);
          (c, w) = (if fd \<ge> 0 then
                      (c\<lparr>sslclient := (sslclient c)\<lparr>ssl_socket := -1\<rparr>, sec_connected := False, sec_peek := -1\<rparr>,
                       lwip_close (lw T) fd w)
                    else (c, w));
          (s, w) = stop_ssl_socket T (sslclient c) w
      in (c\<lparr>sslclient := s\<rparr>, w))"

definition TCPClientSecure_delete :: "'w tls \<Rightarrow> TCPClientSecure \<Rightarrow> 'w \<Rightarrow> 'w" where
  "TCPClientSecure_delete T c w = snd (sec_stop T c w)"

definition sec_assign :: "'w tls \<Rightarrow> TCPClientSecure \<Rightarrow> TCPClientSecure \<Rightarrow> 'w \<Rightarrow> TCPClientSecure \<times> 'w" where
  "sec_assign T c other w =
     (let (c, w) = sec_stop T c w
      in (c\<lparr>sslclient := (sslclient c)\<lparr>ssl_socket := ssl_socket (sslclient other)\<rparr>, sec_connected := sec_connected other\<rparr>, w))"

section \<open>Connecting\<close>

text \<open>The common part of the two \<open>connect\<close> methods that do the work.\<close>

definition sec_start ::
  "'w tls \<Rightarrow> TCPClientSecure \<Rightarrow> byte list \<Rightarrow> 16 word \<Rightarrow> nat \<Rightarrow> nat \<Rightarrow> nat \<Rightarrow> nat \<Rightarrow> nat \<Rightarrow> 'w \<Rightarrow>
   (int \<times> TCPClientSecure \<times> 'w) option" where
  "sec_start T c host port ca cert key ident psk w =
     (let c = (if sec_timeout c > 0
               then c\<lparr>sslclient := (sslclient c)\<lparr>handshake_timeout := word_of_int (sec_timeout c)\<rparr>\<rparr> else c)
      in do {
        (ret, s, w) \<leftarrow> start_ssl_client T (sslclient c) host port (sec_timeout c) ca cert key ident psk w;
        let c = c\<lparr>sslclient := s, sec_lastError := ret\<rparr>;
        Some (if ret < 0 then let (c, w) = sec_stop T c w in (0, c, w)
              else (1, c\<lparr>sec_connected := True\<rparr>, w)) })"

definition sec_connect_certs ::
  "'w tls \<Rightarrow> TCPClientSecure \<Rightarrow> byte list \<Rightarrow> 16 word \<Rightarrow> nat \<Rightarrow> nat \<Rightarrow> nat \<Rightarrow> 'w \<Rightarrow> (int \<times> TCPClientSecure \<times> 'w) option" where
  "sec_connect_certs T c host port ca cert key w = sec_start T c host port ca cert key 0 0 w"

text \<open>The members are used, not the arguments.\<close>

definition sec_connect_psk ::
  "'w tls \<Rightarrow> TCPClientSecure \<Rightarrow> byte list \<Rightarrow> 16 word \<Rightarrow> nat \<Rightarrow> nat \<Rightarrow> 'w \<Rightarrow> (int \<times> TCPClientSecure \<times> 'w) option" where
  "sec_connect_psk T c host port ident psk w = sec_start T c host port 0 0 0 (sec_pskIdent c) (sec_psKey c) w"

definition sec_connect_host ::
  "'w tls \<Rightarrow> TCPClientSecure \<Rightarrow> byte list \<Rightarrow> 16 word \<Rightarrow> 'w \<Rightarrow> (int \<times> TCPClientSecure \<times> 'w) option" where
  "sec_connect_host T c host port w =
     (if sec_pskIdent c \<noteq> 0 \<and> sec_psKey c \<noteq> 0 then sec_connect_psk T c host port (sec_pskIdent c) (sec_psKey c) w
      else sec_connect_certs T c host port (CA_cert c) (sec_cert c) (private_key c) w)"

definition sec_connect_host_timeout ::
  "'w tls \<Rightarrow> TCPClientSecure \<Rightarrow> byte list \<Rightarrow> 16 word \<Rightarrow> int \<Rightarrow> 'w \<Rightarrow> (int \<times> TCPClientSecure \<times> 'w) option" where
  "sec_connect_host_timeout T c host port timeout w = sec_connect_host T (c\<lparr>sec_timeout := timeout\<rparr>) host port w"

definition sec_connect_ip_certs ::
  "(32 word \<Rightarrow> byte list) \<Rightarrow> 'w tls \<Rightarrow> TCPClientSecure \<Rightarrow> 32 word \<Rightarrow> 16 word \<Rightarrow> nat \<Rightarrow> nat \<Rightarrow> nat \<Rightarrow> 'w \<Rightarrow>
   (int \<times> TCPClientSecure \<times> 'w) option" where
  "sec_connect_ip_certs toString T c ip port ca cert key w = sec_connect_certs T c (toString ip) port ca cert key w"

definition sec_connect_ip_psk ::
  "(32 word \<Rightarrow> byte list) \<Rightarrow> 'w tls \<Rightarrow> TCPClientSecure \<Rightarrow> 32 word \<Rightarrow> 16 word \<Rightarrow> nat \<Rightarrow> nat \<Rightarrow> 'w \<Rightarrow>
   (int \<times> TCPClientSecure \<times> 'w) option" where
  "sec_connect_ip_psk toString T c ip port ident psk w =
     sec_connect_psk T c (toString ip) port (sec_pskIdent c) (sec_psKey c) w"

definition sec_connect_ip ::
  "(32 word \<Rightarrow> byte list) \<Rightarrow> 'w tls \<Rightarrow> TCPClientSecure \<Rightarrow> 32 word \<Rightarrow> 16 word \<Rightarrow> 'w \<Rightarrow> (int \<times> TCPClientSecure \<times> 'w) option" where
  "sec_connect_ip toString T c ip port w =
     (if sec_pskIdent c \<noteq> 0 \<and> sec_psKey c \<noteq> 0
      then sec_connect_ip_psk toString T c ip port (sec_pskIdent c) (sec_psKey c) w
      else sec_connect_ip_certs toString T c ip port (CA_cert c) (sec_cert c) (private_key c) w)"

definition sec_connect_ip_timeout ::
  "(32 word \<Rightarrow> byte list) \<Rightarrow> 'w tls \<Rightarrow> TCPClientSecure \<Rightarrow> 32 word \<Rightarrow> 16 word \<Rightarrow> int \<Rightarrow> 'w \<Rightarrow>
   (int \<times> TCPClientSecure \<times> 'w) option" where
  "sec_connect_ip_timeout toString T c ip port timeout w = sec_connect_ip toString T (c\<lparr>sec_timeout := timeout\<rparr>) ip port w"

section \<open>Data\<close>

text \<open>The size is cut to 16 bits by the call of \<open>send_ssl_data\<close>.\<close>

definition sec_write :: "'w tls \<Rightarrow> TCPClientSecure \<Rightarrow> byte list \<Rightarrow> 'w \<Rightarrow> (32 word \<times> TCPClientSecure \<times> 'w) option" where
  "sec_write T c buf w =
     (if \<not> sec_connected c then Some (0, c, w)
      else do {
        (res, w) \<leftarrow> send_ssl_data T (sslclient c) buf (word_of_nat (length buf)) w;
        Some (if res < 0 then let (c, w) = sec_stop T c w in (0, c, w) else (word_of_int res, c, w)) })"

definition sec_write_byte :: "'w tls \<Rightarrow> TCPClientSecure \<Rightarrow> byte \<Rightarrow> 'w \<Rightarrow> (32 word \<times> TCPClientSecure \<times> 'w) option" where
  "sec_write_byte T c b w = sec_write T c [b] w"

definition sec_available :: "'w tls \<Rightarrow> TCPClientSecure \<Rightarrow> 'w \<Rightarrow> int \<times> TCPClientSecure \<times> 'w" where
  "sec_available T c w =
     (let peeked = (if sec_peek c \<ge> 0 then 1 else 0)
      in if \<not> sec_connected c then (peeked, c, w)
         else
           let (res, w) = data_to_read T (sslclient c) w
           in if res < 0 then let (c, w) = sec_stop T c w in (if peeked \<noteq> 0 then peeked else res, c, w)
              else (res + peeked, c, w))"

text \<open>\<open>read\<close> of a buffer: the value and the bytes stored; \<open>buf\<close> tells that there is a
  buffer.\<close>

definition sec_read ::
  "'w tls \<Rightarrow> TCPClientSecure \<Rightarrow> bool \<Rightarrow> nat \<Rightarrow> 'w \<Rightarrow> int \<times> byte list \<times> TCPClientSecure \<times> 'w" where
  "sec_read T c buf n w =
     (let (avail, c, w) = sec_available T c w
      in if (\<not> buf \<and> n \<noteq> 0) \<or> avail \<le> 0 then (-1, [], c, w)
         else if n = 0 then (0, [], c, w)
         else if sec_peek c \<ge> 0 \<and> (n = 1 \<or> avail = 1) then (1, [uchar (sec_peek c)], c\<lparr>sec_peek := -1\<rparr>, w)
         else
           let peeked = (if sec_peek c \<ge> 0 then [uchar (sec_peek c)] else []);
               c = c\<lparr>sec_peek := (if sec_peek c \<ge> 0 then -1 else sec_peek c)\<rparr>;
               (res, bs, w) = get_ssl_receive T (sslclient c) (n - length peeked) w
           in if res < 0 then
                let (c, w) = sec_stop T c w in (if peeked \<noteq> [] then 1 else res, peeked @ bs, c, w)
              else (res + int (length peeked), peeked @ bs, c, w))"

definition sec_read_byte :: "'w tls \<Rightarrow> TCPClientSecure \<Rightarrow> 'w \<Rightarrow> int \<times> TCPClientSecure \<times> 'w" where
  "sec_read_byte T c w =
     (let (res, bs, c, w) = sec_read T c True 1 w;
          data = (case bs of [] \<Rightarrow> -1 | b # _ \<Rightarrow> b)
      in (if res < 0 then res else uint data, c, w))"

text \<open>\<open>timedRead\<close> reads through the virtual \<open>read\<close> of the object.\<close>

definition sec_peek_byte ::
  "(TCPClientSecure \<Rightarrow> 'w \<Rightarrow> (int \<times> TCPClientSecure \<times> 'w) option) \<Rightarrow> TCPClientSecure \<Rightarrow> 'w \<Rightarrow>
   (int \<times> TCPClientSecure \<times> 'w) option" where
  "sec_peek_byte timedRead c w =
     (if sec_peek c \<ge> 0 then Some (sec_peek c, c, w)
      else do { (b, c, w) \<leftarrow> timedRead c w; Some (b, c\<lparr>sec_peek := b\<rparr>, w) })"

definition sec_is_connected :: "'w tls \<Rightarrow> TCPClientSecure \<Rightarrow> 'w \<Rightarrow> bool \<times> TCPClientSecure \<times> 'w" where
  "sec_is_connected T c w = (let (_, _, c, w) = sec_read T c True 0 w in (sec_connected c, c, w))"

text \<open>\<open>operator== (bool)\<close> compares with \<open>bool()\<close>, which is \<open>false\<close> and not the
  conversion of the object; \<open>socket()\<close> assigns.\<close>

definition sec_eq_bool :: "TCPClientSecure \<Rightarrow> bool \<Rightarrow> bool" where
  "sec_eq_bool c v \<longleftrightarrow> False = v"

definition sec_ne_bool :: "TCPClientSecure \<Rightarrow> bool \<Rightarrow> bool" where
  "sec_ne_bool c v \<longleftrightarrow> False \<noteq> v"

definition sec_socket :: "TCPClientSecure \<Rightarrow> int \<times> TCPClientSecure" where
  "sec_socket c = (-1, c\<lparr>sslclient := (sslclient c)\<lparr>ssl_socket := -1\<rparr>\<rparr>)"

section \<open>Settings and certificates\<close>

definition sec_setCACert :: "TCPClientSecure \<Rightarrow> nat \<Rightarrow> TCPClientSecure" where
  "sec_setCACert c p = c\<lparr>CA_cert := p\<rparr>"

definition sec_setCACert_len :: "TCPClientSecure \<Rightarrow> nat \<Rightarrow> nat \<Rightarrow> TCPClientSecure" where
  "sec_setCACert_len c p len = c\<lparr>CA_cert := p\<rparr>"

definition sec_setCertificate :: "TCPClientSecure \<Rightarrow> nat \<Rightarrow> TCPClientSecure" where
  "sec_setCertificate c p = c\<lparr>sec_cert := p\<rparr>"

definition sec_setPrivateKey :: "TCPClientSecure \<Rightarrow> nat \<Rightarrow> TCPClientSecure" where
  "sec_setPrivateKey c p = c\<lparr>private_key := p\<rparr>"

definition sec_setPreSharedKey :: "TCPClientSecure \<Rightarrow> nat \<Rightarrow> nat \<Rightarrow> TCPClientSecure" where
  "sec_setPreSharedKey c ident psk = c\<lparr>sec_pskIdent := ident, sec_psKey := psk\<rparr>"

definition sec_verify :: "'w tls \<Rightarrow> TCPClientSecure \<Rightarrow> byte list \<Rightarrow> byte list option \<Rightarrow> 'w \<Rightarrow> bool option" where
  "sec_verify T c fp domain_name w =
     verify_ssl_fingerprint (sha256 T) (peer_cert T (ssl_id (sslclient c)) w) fp domain_name"

record 'w heap_stream =
  hs_malloc :: "nat \<Rightarrow> 'w \<Rightarrow> nat \<times> 'w"
  hs_free :: "nat \<Rightarrow> 'w \<Rightarrow> 'w"
  hs_readBytes :: "nat \<Rightarrow> nat \<Rightarrow> 'w \<Rightarrow> nat \<times> 'w"

text \<open>\<open>dest\<close> is the static variable of the function: one block for all certificates
  of all objects.\<close>

definition streamLoad :: "'w heap_stream \<Rightarrow> nat \<Rightarrow> nat \<Rightarrow> 'w \<Rightarrow> nat \<times> 'w" where
  "streamLoad H dest n w =
     (let w = (if dest \<noteq> 0 then hs_free H dest w else w);
          (dest, w) = hs_malloc H n w
      in if dest = 0 then (0, w)
         else
           let (k, w) = hs_readBytes H dest n w
           in if n \<noteq> k then (0, hs_free H dest w) else (dest, w))"

definition sec_loadCACert ::
  "'w heap_stream \<Rightarrow> TCPClientSecure \<Rightarrow> nat \<Rightarrow> nat \<Rightarrow> 'w \<Rightarrow> bool \<times> TCPClientSecure \<times> nat \<times> 'w" where
  "sec_loadCACert H c dest n w =
     (let (dest, w) = streamLoad H dest n w
      in if dest \<noteq> 0 then (True, sec_setCACert c dest, dest, w) else (False, c, dest, w))"

definition sec_loadCertificate ::
  "'w heap_stream \<Rightarrow> TCPClientSecure \<Rightarrow> nat \<Rightarrow> nat \<Rightarrow> 'w \<Rightarrow> bool \<times> TCPClientSecure \<times> nat \<times> 'w" where
  "sec_loadCertificate H c dest n w =
     (let (dest, w) = streamLoad H dest n w
      in if dest \<noteq> 0 then (True, sec_setCertificate c dest, dest, w) else (False, c, dest, w))"

definition sec_loadPrivateKey ::
  "'w heap_stream \<Rightarrow> TCPClientSecure \<Rightarrow> nat \<Rightarrow> nat \<Rightarrow> 'w \<Rightarrow> bool \<times> TCPClientSecure \<times> nat \<times> 'w" where
  "sec_loadPrivateKey H c dest n w =
     (let (dest, w) = streamLoad H dest n w
      in if dest \<noteq> 0 then (True, sec_setPrivateKey c dest, dest, w) else (False, c, dest, w))"

text \<open>The text of the last error, as \<open>mbedtls_strerror\<close> writes it to 100 bytes, cut to
  the caller's size; \<open>None\<close> when nothing is written.\<close>

definition sec_last_error :: "(int \<Rightarrow> byte list) \<Rightarrow> TCPClientSecure \<Rightarrow> nat \<Rightarrow> int \<times> byte list option" where
  "sec_last_error strerror c n =
     (if sec_lastError c = 0 then (0, None)
      else (sec_lastError c, if n = 0 then None else Some (take (n - 1) (take 99 (strerror (sec_lastError c))) @ [0])))"

definition sec_setHandshakeTimeout :: "TCPClientSecure \<Rightarrow> 32 word \<Rightarrow> TCPClientSecure" where
  "sec_setHandshakeTimeout c t = c\<lparr>sslclient := (sslclient c)\<lparr>handshake_timeout := t * 1000\<rparr>\<rparr>"

definition sec_setTimeout :: "TCPClientSecure \<Rightarrow> 32 word \<Rightarrow> int" where
  "sec_setTimeout c seconds = 0"

end
