(* ===== verification/Tls_Verify.thy ===== *)
theory Tls_Verify
  imports Tls_Secure
begin

text \<open>
  What a TLS connection has gone through when \<open>connect\<close> of \<open>TCPClientSecure\<close>
  returns. The library is instrumented with a log of its calls (\<open>log_tls\<close>); the
  lemmas follow \<open>start_ssl_client\<close> step by step and say which calls each step adds.
\<close>

section \<open>The log and the steps\<close>

lemma log_tls_fields [simp]:
  "lw (log_tls T) = log_lwip (lw T)" "cstr (log_tls T) p (w, l) = cstr T p w" "psk_max_len (log_tls T) = psk_max_len T"
  "mbedtls (log_tls T) i k (w, l) = (case mbedtls T i k w of (r, w) \<Rightarrow> (r, w, (i, k, r) # l))"
  "fcntl_nonblock (log_tls T) fd (w, l) = (fcntl_nonblock T fd w, l)"
  "tls_millis (log_tls T) (w, l) = (case tls_millis T w of (r, w) \<Rightarrow> (r, w, l))"
  "task_delay (log_tls T) (w, l) = (task_delay T w, l)"
  by (simp_all add: log_tls_def)

lemma log_lwip_fields [simp]:
  "lwip_socket (log_lwip L) t (w, l) = (case lwip_socket L t w of (r, w) \<Rightarrow> (r, w, l))"
  "lwip_setsockopt (log_lwip L) fd p (w, l) = (case lwip_setsockopt L fd p w of (r, w) \<Rightarrow> (r, w, l))"
  "lwip_connect (log_lwip L) fd a (w, l) = (case lwip_connect L fd a w of (r, w) \<Rightarrow> (r, w, l))"
  "lwip_close (log_lwip L) fd (w, l) = (lwip_close L fd w, l)" "lwip_htons (log_lwip L) = lwip_htons L"
  by (simp_all add: log_lwip_def)

lemma tls_do_log: "tls_do (log_tls T) s k (w, l) = (case mbedtls T (ssl_id s) k w of (r, w) \<Rightarrow> (w, (ssl_id s, k, r) # l))"
  by (simp add: tls_do_def split: prod.splits)

text \<open>\<open>adds i ks l l'\<close>: between the logs \<open>l\<close> and \<open>l'\<close> only calls of the kinds \<open>ks\<close>
  were made.\<close>

definition adds :: "(tls_call \<Rightarrow> bool) \<Rightarrow> tls_log \<Rightarrow> tls_log \<Rightarrow> bool" where
  "adds K l l' \<longleftrightarrow> (\<exists>new. l' = new @ l \<and> (\<forall>e \<in> set new. K (fst (snd e))))"

lemma adds_refl [simp]: "adds K l l"
  by (simp add: adds_def)

lemma adds_Cons: "K k \<Longrightarrow> adds K l l' \<Longrightarrow> adds K l ((i, k, r) # l')"
  unfolding adds_def by (metis append_Cons fst_conv set_ConsD snd_conv)

lemma adds_trans: "adds K l l' \<Longrightarrow> adds K l' l'' \<Longrightarrow> adds K l l''"
  unfolding adds_def by (metis Un_iff append.assoc set_append)

lemma adds_mono: "adds K l l' \<Longrightarrow> (\<And>k. K k \<Longrightarrow> K' k) \<Longrightarrow> adds K' l l'"
  unfolding adds_def by blast

lemma adds_below: "K k \<Longrightarrow> adds K ((i, k, r) # l) l' \<Longrightarrow> adds K l l'"
  by (rule adds_trans [OF adds_Cons [OF _ adds_refl]])

lemma adds_set: "adds K l l' \<Longrightarrow> e \<in> set l \<Longrightarrow> e \<in> set l'"
  unfolding adds_def by auto

lemma hostByName_log:
  "hostByName (log_lwip L) host a (w, l) = map_option (\<lambda>(r, a, w). (r, a, w, l)) (hostByName L host a w)"
  by (auto simp: hostByName_def resolve_def Let_def log_lwip_def split: prod.splits option.splits list.splits)

lemma open_socket_log:
  "rets (\<lambda>(r, s', w', l'). l' = l \<and> ssl_id s' = ssl_id s \<and> handshake_timeout s' = handshake_timeout s \<and>
      (\<forall>rc. r = Inl rc \<longrightarrow> rc < 0))
     (open_socket (log_tls T) s host port timeout (w, l))"
  unfolding open_socket_def
  by (intro rets_intros) (auto simp: hostByName_log split: prod.splits if_splits)

text \<open>The functions of mbedTLS whose result the code compares with 0 are documented to
  return 0 or a negative error code.\<close>

definition errors_negative :: "'w tls \<Rightarrow> bool" where
  "errors_negative T \<longleftrightarrow>
     (\<forall>i k w. k \<notin> {Get_record_expansion, Get_verify_result, Get_bytes_avail, Ssl_read_nothing} \<longrightarrow> fst (mbedtls T i k w) \<le> 0)"

lemma errors_negativeI:
  "mbedtls T i k w = (r, w') \<Longrightarrow> errors_negative T \<Longrightarrow> r \<noteq> 0 \<Longrightarrow>
   k \<notin> {Get_record_expansion, Get_verify_result, Get_bytes_avail, Ssl_read_nothing} \<Longrightarrow> r < 0"
  unfolding errors_negative_def by (metis fst_conv order_le_less)

lemma rets_option [rets_intros]:
  "(m = None \<Longrightarrow> rets Q x) \<Longrightarrow> (\<And>a. m = Some a \<Longrightarrow> rets Q (f a)) \<Longrightarrow>
   rets Q (case m of None \<Rightarrow> x | Some a \<Rightarrow> f a)"
  by (cases m) simp_all

text \<open>What a step makes of the log: only calls of the given kinds, and a negative code
  when the function returns in it.\<close>

definition step_ok :: "(tls_call \<Rightarrow> bool) \<Rightarrow> tls_log \<Rightarrow> (int + unit) \<Rightarrow> tls_log \<Rightarrow> bool" where
  "step_ok K l r l' \<longleftrightarrow> adds K l l' \<and> (\<forall>rc. r = Inl rc \<longrightarrow> rc < 0)"

definition quiet :: "tls_call \<Rightarrow> bool" where
  "quiet k \<longleftrightarrow> k \<noteq> Get_verify_result \<and> k \<noteq> Ssl_handshake \<and> (\<forall>m. k \<noteq> Conf_authmode m)"

lemma seed_and_defaults_log:
  assumes "errors_negative T" and "seed_and_defaults (log_tls T) s (w, l) = (r, w', l')"
  shows "step_ok quiet l r l'"
  using assms
  by (auto simp: seed_and_defaults_def tls_do_log handle_error_def step_ok_def quiet_def Let_def
      intro!: adds_Cons intro: errors_negativeI split: prod.splits if_splits)

lemma setup_session_log:
  assumes "errors_negative T" and "setup_session (log_tls T) s host (w, l) = (r, w', l')"
  shows "step_ok quiet l r l' \<and> (r = Inr () \<longrightarrow> (ssl_id s, Set_hostname host, 0) \<in> set l')"
  using assms
  by (auto simp: setup_session_def tls_do_log handle_error_def step_ok_def quiet_def Let_def
      intro!: adds_Cons intro: errors_negativeI split: prod.splits if_splits)

lemma configure_identity_log:
  assumes "errors_negative T"
  shows "rets (\<lambda>(r, w', l'). step_ok quiet l r l') (configure_identity (log_tls T) s cert key (w, l))"
  unfolding configure_identity_def
  by (intro rets_intros)
    (use assms in \<open>auto simp: tls_do_log handle_error_def step_ok_def quiet_def Let_def
      intro!: adds_Cons intro: errors_negativeI split: prod.splits if_splits\<close>)

definition called :: "nat \<Rightarrow> tls_call \<Rightarrow> tls_log \<Rightarrow> bool" where
  "called i k l \<longleftrightarrow> (i, k) \<in> (\<lambda>e. (fst e, fst (snd e))) ` set l"

lemma called_Cons [simp]: "called i k ((j, m, r) # l) \<longleftrightarrow> i = j \<and> k = m \<or> called i k l"
  by (simp add: called_def)

definition trusted :: "nat \<Rightarrow> tls_call \<Rightarrow> bool" where
  "trusted ca k \<longleftrightarrow> k \<noteq> Get_verify_result \<and> k \<noteq> Ssl_handshake \<and> (ca \<noteq> 0 \<longrightarrow> k \<noteq> Conf_authmode VERIFY_NONE)"

lemma configure_trust_log:
  assumes "errors_negative T"
  shows "rets (\<lambda>(r, w', l'). step_ok (trusted ca) l r l' \<and> (ca \<noteq> 0 \<longrightarrow> called (ssl_id s) (Conf_authmode VERIFY_REQUIRED) l'))
     (configure_trust (log_tls T) s ca ident psk (w, l))"
  unfolding configure_trust_def
  by (intro rets_intros)
    (use assms in \<open>auto simp: tls_do_log handle_error_def step_ok_def trusted_def Let_def
      intro!: adds_Cons intro: errors_negativeI split: prod.splits if_splits option.splits\<close>)

text \<open>The handshake.\<close>

definition handshaken :: "nat \<Rightarrow> tls_log \<Rightarrow> tls_log \<Rightarrow> bool" where
  "handshaken i l l' \<longleftrightarrow> (\<exists>l0. l' = (i, Ssl_handshake, 0) # l0 \<and> adds (\<lambda>k. k = Ssl_handshake) l l0)"

definition handshake_post :: "nat \<Rightarrow> tls_log \<Rightarrow> (int + unit) \<Rightarrow> tls_log \<Rightarrow> bool" where
  "handshake_post i l r l' \<longleftrightarrow>
     (case r of Inl rc \<Rightarrow> rc < 0 \<and> adds (\<lambda>k. k = Ssl_handshake) l l' | Inr _ \<Rightarrow> handshaken i l l')"

lemma handshake_post_step:
  "handshake_post i ((i, Ssl_handshake, r) # l) x l' \<Longrightarrow> handshake_post i l x l'"
  unfolding handshake_post_def handshaken_def by (auto dest: adds_below [rotated] split: sum.splits)

lemma handshake_loop_log:
  assumes "errors_negative T" and "handshake_loop (log_tls T) s start (w, l) = Some (r, w', l')"
  shows "handshake_post (ssl_id s) l r l'"
proof -
  define Q :: "('a \<times> tls_log) tls \<Rightarrow> sslclient_context \<Rightarrow> 32 word \<Rightarrow> 'a \<times> tls_log \<Rightarrow> (int + unit) \<times> 'a \<times> tls_log \<Rightarrow> bool"
    where "Q = (\<lambda>T' s start wl res. T' = log_tls T \<longrightarrow> handshake_post (ssl_id s) (snd wl) (fst res) (snd (snd res)))"
  have "Q (log_tls T) s start (w, l) (r, w', l')"
  proof (rule handshake_loop.raw_induct [OF _ assms(2)])
    fix loop :: "('a \<times> tls_log) tls \<Rightarrow> sslclient_context \<Rightarrow> 32 word \<Rightarrow> 'a \<times> tls_log \<Rightarrow> ((int + unit) \<times> 'a \<times> tls_log) option"
      and T' s start wl res
    assume IH: "\<And>T' s start wl res. loop T' s start wl = Some res \<Longrightarrow> Q T' s start wl res"
      and b: "(let (ret, w) = mbedtls T' (ssl_id s) Ssl_handshake wl in
          if ret = 0 then Some (Inr (), w)
          else if ret \<noteq> WANT_READ \<and> ret \<noteq> WANT_WRITE then Some (Inl (handle_error ret), w)
          else
            let (now, w) = tls_millis T' w in
            if now - start > handshake_timeout s then Some (Inl (-1), w)
            else loop T' s start (task_delay T' w)) = Some res"
    obtain w l where wl: "wl = (w, l)" by (cases wl)
    obtain ret w1 where m: "mbedtls T (ssl_id s) Ssl_handshake w = (ret, w1)" by (cases "mbedtls T (ssl_id s) Ssl_handshake w")
    obtain now w2 where n: "tls_millis T w1 = (now, w2)" by (cases "tls_millis T w1")
    have neg: "ret \<noteq> 0 \<Longrightarrow> ret < 0" using errors_negativeI [OF m assms(1)] by simp
    show "Q T' s start wl res"
    proof (cases "T' = log_tls T")
      case True
      show ?thesis
      proof (cases "ret \<noteq> 0 \<and> (ret = WANT_READ \<or> ret = WANT_WRITE) \<and> \<not> now - start > handshake_timeout s")
        case cont: True
        then have "loop (log_tls T) s start (task_delay T w2, (ssl_id s, Ssl_handshake, ret) # l) = Some res"
          using b by (auto simp: True wl m n split: if_splits)
        from IH [OF this] show ?thesis by (auto simp: Q_def wl intro: handshake_post_step)
      next
        case False
        then show ?thesis
          using b neg by (auto simp: Q_def True wl m n handshake_post_def handshaken_def handle_error_def
              intro!: adds_Cons split: if_splits)
      qed
    qed (simp add: Q_def)
  qed
  then show ?thesis by (simp add: Q_def)
qed

lemma handshake_log:
  assumes "errors_negative T" and "handshake (log_tls T) s (w, l) = Some (r, w', l')"
  shows "handshake_post (ssl_id s) l r l'"
  using assms handshake_loop_log [OF assms(1)] by (auto simp: handshake_def split: prod.splits)

section \<open>The whole of \<open>connect\<close>\<close>

text \<open>The log at the end: the handshake succeeded, with the trust that was asked for,
  and then the result of the verification was read.\<close>

definition no_verdict :: "tls_log \<Rightarrow> bool" where
  "no_verdict l \<longleftrightarrow> (\<forall>e \<in> set l. fst (snd e) \<noteq> Get_verify_result)"

definition went_through :: "nat \<Rightarrow> byte list \<Rightarrow> nat \<Rightarrow> tls_log \<Rightarrow> bool" where
  "went_through i host ca l \<longleftrightarrow>
     no_verdict l \<and> (i, Set_hostname host, 0) \<in> set l \<and>
     (ca \<noteq> 0 \<longrightarrow> called i (Conf_authmode VERIFY_REQUIRED) l \<and> \<not> called i (Conf_authmode VERIFY_NONE) l)"

lemma adds_no_verdict: "adds K l l' \<Longrightarrow> no_verdict l \<Longrightarrow> (\<And>k. K k \<Longrightarrow> k \<noteq> Get_verify_result) \<Longrightarrow> no_verdict l'"
  unfolding adds_def no_verdict_def by fastforce

lemma adds_not_called: "adds K l l' \<Longrightarrow> \<not> called i k l \<Longrightarrow> \<not> K k \<Longrightarrow> \<not> called i k l'"
  unfolding adds_def called_def by fastforce

lemma adds_called: "adds K l l' \<Longrightarrow> called i k l \<Longrightarrow> called i k l'"
  unfolding adds_def called_def by auto

lemma tls_do_adds: "adds K l (snd wl) \<Longrightarrow> K k \<Longrightarrow> adds K l (snd (tls_do (log_tls T) s k wl))"
  by (cases wl) (auto simp: tls_do_log intro: adds_Cons split: prod.splits)

lemma stop_ssl_socket_log:
  assumes "stop_ssl_socket (log_tls T) s wl = (s', wl')"
  shows "ssl_socket s' = (if ssl_socket s \<ge> 0 then -1 else ssl_socket s)" "adds quiet (snd wl) (snd wl')"
proof -
  show "ssl_socket s' = (if ssl_socket s \<ge> 0 then -1 else ssl_socket s)"
    using assms by (auto simp: stop_ssl_socket_def)
  have "adds quiet (snd wl) (snd (snd (stop_ssl_socket (log_tls T) s wl)))"
    by (cases wl; cases "ssl_socket s \<ge> 0") (simp_all add: stop_ssl_socket_def tls_do_adds quiet_def)
  with assms show "adds quiet (snd wl) (snd wl')" by simp
qed

lemma free_certs_log: "adds quiet (snd wl) (snd (free_certs (log_tls T) s ca cert key wl))"
  by (simp add: free_certs_def Let_def tls_do_adds quiet_def)

lemma verify_peer_log:
  assumes "verify_peer (log_tls T) s ca cert key (w, l) = (rc, s', w', l')" and "no_verdict l"
  shows "\<exists>flags l1 l2. l' = l1 @ (ssl_id s, Get_verify_result, flags) # l2 @ l \<and> no_verdict l1 \<and> no_verdict l2 \<and>
      (if flags = 0 then rc = ssl_socket s \<and> s' = s
       else ssl_socket s' < 0 \<and> (cert = 0 \<or> key = 0 \<longrightarrow> rc = 0))"
proof -
  obtain ret w1 l2 where 1: "(if cert \<noteq> 0 \<and> key \<noteq> 0 then mbedtls (log_tls T) (ssl_id s) Get_record_expansion (w, l)
        else (0, (w, l))) = (ret, w1, l2 @ l)" "no_verdict l2" "cert = 0 \<or> key = 0 \<longrightarrow> ret = 0"
    by (cases "cert \<noteq> 0 \<and> key \<noteq> 0"; cases "mbedtls T (ssl_id s) Get_record_expansion w")
      (auto simp: no_verdict_def)
  obtain flags w2 where 2: "mbedtls T (ssl_id s) Get_verify_result w1 = (flags, w2)"
    by (cases "mbedtls T (ssl_id s) Get_verify_result w1")
  have q: "\<exists>l1. l' = l1 @ (ssl_id s, Get_verify_result, flags) # l2 @ l \<and> no_verdict l1"
    if "adds quiet ((ssl_id s, Get_verify_result, flags) # l2 @ l) l'"
    using that by (auto simp: adds_def no_verdict_def quiet_def)
  let ?l = "(ssl_id s, Get_verify_result, flags) # l2 @ l"
  have v: "mbedtls (log_tls T) (ssl_id s) Get_verify_result (w1, l2 @ l) = (flags, w2, ?l)" by (simp add: 2)
  show ?thesis
  proof (cases "flags = 0")
    case True
    with assms(1) have r: "rc = ssl_socket s" "s' = s" "(w', l') = free_certs (log_tls T) s ca cert key (w2, ?l)"
      unfolding verify_peer_def 1(1) Let_def prod.case v by auto
    from free_certs_log [of "(w2, ?l)" T s ca cert key] have "adds quiet ?l l'" unfolding r(3) [symmetric] by simp
    from q [OF this] 1(2) True r(1,2) show ?thesis by (intro exI [of _ flags]) auto
  next
    case False
    with assms(1) have r: "stop_ssl_socket (log_tls T) s (w2, ?l) = (s', w', l')" "rc = ret"
      unfolding verify_peer_def 1(1) Let_def prod.case v handle_error_def by (auto split: prod.splits)
    from stop_ssl_socket_log [OF r(1)] have "ssl_socket s' < 0" "adds quiet ?l l'" by auto
    from q [OF this(2)] this(1) r(2) 1(2,3) False show ?thesis by (intro exI [of _ flags]) auto
  qed
qed

definition trail :: "nat \<Rightarrow> nat \<Rightarrow> tls_log \<Rightarrow> bool" where
  "trail i ca l \<longleftrightarrow> no_verdict l \<and> (ca \<noteq> 0 \<longrightarrow> \<not> called i (Conf_authmode VERIFY_NONE) l)"

lemma adds_trail: "adds K l l' \<Longrightarrow> (\<And>k. K k \<Longrightarrow> trusted ca k) \<Longrightarrow> trail i ca l \<Longrightarrow> trail i ca l'"
  unfolding trail_def by (auto simp: trusted_def intro: adds_no_verdict dest: adds_not_called)

definition need :: "nat \<Rightarrow> nat \<Rightarrow> tls_log \<Rightarrow> bool" where
  "need i ca l \<longleftrightarrow> (ca \<noteq> 0 \<longrightarrow> called i (Conf_authmode VERIFY_REQUIRED) l)"

lemma adds_need: "adds K l l' \<Longrightarrow> need i ca l \<Longrightarrow> need i ca l'"
  by (auto simp: need_def intro: adds_called)

definition step_keeps :: "nat \<Rightarrow> nat \<Rightarrow> (int + unit) \<Rightarrow> tls_log \<Rightarrow> tls_log \<Rightarrow> bool" where
  "step_keeps i ca r l l' \<longleftrightarrow>
     (trail i ca l \<longrightarrow> trail i ca l') \<and> (need i ca l \<longrightarrow> need i ca l') \<and> (\<forall>rc. r = Inl rc \<longrightarrow> rc < 0)"

lemma step_ok_keeps: "step_ok K l r l' \<Longrightarrow> (\<And>k. K k \<Longrightarrow> trusted ca k) \<Longrightarrow> step_keeps i ca r l l'"
  unfolding step_ok_def step_keeps_def by (auto intro: adds_trail adds_need)

lemma quiet_trusted: "quiet k \<Longrightarrow> trusted ca k"
  by (simp add: quiet_def trusted_def)

lemma seed_keeps:
  assumes "errors_negative T" and "seed_and_defaults (log_tls T) s wl = (r, wl')"
  shows "step_keeps i ca r (snd wl) (snd wl')"
  using seed_and_defaults_log [OF assms(1), of s "fst wl" "snd wl" r "fst wl'" "snd wl'"] assms(2)
  by (auto intro: step_ok_keeps quiet_trusted)

lemma setup_keeps:
  assumes "errors_negative T" and "setup_session (log_tls T) s host wl = (r, wl')"
  shows "step_keeps i ca r (snd wl) (snd wl') \<and> (r = Inr () \<longrightarrow> (ssl_id s, Set_hostname host, 0) \<in> set (snd wl'))"
  using setup_session_log [OF assms(1), of s host "fst wl" "snd wl" r "fst wl'" "snd wl'"] assms(2)
  by (auto intro: step_ok_keeps quiet_trusted)

lemma identity_keeps:
  assumes "errors_negative T" and "configure_identity (log_tls T) s cert key wl = Some (r, wl')"
  shows "step_keeps i ca r (snd wl) (snd wl')"
  using retsD [OF configure_identity_log [OF assms(1)], of s cert key "fst wl" "snd wl" "(r, wl')"] assms(2)
  by (auto intro: step_ok_keeps quiet_trusted)

lemma trust_keeps:
  assumes "errors_negative T" and "configure_trust (log_tls T) s ca ident psk wl = Some (r, wl')"
  shows "step_keeps i ca r (snd wl) (snd wl') \<and>
      need (ssl_id s) ca (snd wl')"
  using retsD [OF configure_trust_log [OF assms(1)], of s ca ident psk "fst wl" "snd wl" "(r, wl')"] assms(2)
  by (auto simp: need_def intro: step_ok_keeps)

lemma handshake_keeps:
  assumes "errors_negative T" and "handshake (log_tls T) s wl = Some (r, wl')"
  shows "(\<forall>rc. r = Inl rc \<longrightarrow> rc < 0 \<and> (trail i ca (snd wl) \<longrightarrow> no_verdict (snd wl'))) \<and>
     (r = Inr () \<longrightarrow> (\<exists>l0. snd wl' = (ssl_id s, Ssl_handshake, 0) # l0 \<and> (trail i ca (snd wl) \<longrightarrow> trail i ca l0) \<and>
        (need i ca (snd wl) \<longrightarrow> need i ca l0) \<and> (\<forall>e \<in> set (snd wl). e \<in> set l0)))"
proof -
  have hs: "(trail i ca l \<longrightarrow> trail i ca l') \<and> (need i ca l \<longrightarrow> need i ca l') \<and> (\<forall>e \<in> set l. e \<in> set l')"
    if "adds (\<lambda>k. k = Ssl_handshake) l l'" for l l'
    using that adds_no_verdict [OF that] adds_not_called [OF that, of i "Conf_authmode VERIFY_NONE"]
    by (auto simp: trail_def intro: adds_need [OF that] adds_set [OF that])
  show ?thesis
    using handshake_log [OF assms(1), of s "fst wl" "snd wl" r "fst wl'" "snd wl'"] assms(2)
    by (auto simp: handshake_post_def handshaken_def trail_def [of _ _ "snd wl'"] dest!: hs split: sum.splits)
qed

lemma rets_sum [rets_intros]:
  "(\<And>e. r = Inl e \<Longrightarrow> rets Q (f e)) \<Longrightarrow> (\<And>u. r = Inr u \<Longrightarrow> rets Q (g u)) \<Longrightarrow>
   rets Q (case r of Inl e \<Rightarrow> f e | Inr u \<Rightarrow> g u)"
  by (cases r) simp_all

definition start_post :: "nat \<Rightarrow> byte list \<Rightarrow> nat \<Rightarrow> nat \<Rightarrow> nat \<Rightarrow> int \<Rightarrow> sslclient_context \<Rightarrow> tls_log \<Rightarrow> bool" where
  "start_post i host ca cert key rc s' l \<longleftrightarrow>
     rc < 0 \<and> no_verdict l \<or>
     (\<exists>flags l1 l2 l3. l = l1 @ (i, Get_verify_result, flags) # l2 @ (i, Ssl_handshake, 0) # l3 \<and>
        no_verdict l1 \<and> no_verdict l2 \<and> went_through i host ca l3 \<and>
        (if flags = 0 then rc = ssl_socket s' else ssl_socket s' < 0 \<and> (cert = 0 \<or> key = 0 \<longrightarrow> rc = 0)))"

lemma start_post_early:
  "rc < 0 \<Longrightarrow> trail i ca l \<Longrightarrow> start_post i host ca cert key rc s' l"
  "rc < 0 \<Longrightarrow> no_verdict l \<Longrightarrow> start_post i host ca cert key rc s' l"
  by (auto simp: start_post_def trail_def)

lemma verify_peer_post:
  assumes v: "verify_peer (log_tls T) s ca cert key (w, (i, Ssl_handshake, 0) # l0) = (rc, s', w', l')" and i: "ssl_id s = i"
    and l0: "trail i ca l0" "(i, Set_hostname host, 0) \<in> set l0"
      "need i ca l0"
  shows "start_post i host ca cert key rc s' l'"
proof -
  have "no_verdict ((i, Ssl_handshake, 0) # l0)" using l0(1) by (simp add: trail_def no_verdict_def)
  from verify_peer_log [OF v this]
  obtain flags l1 l2 where 1: "l' = l1 @ (i, Get_verify_result, flags) # l2 @ (i, Ssl_handshake, 0) # l0"
    "no_verdict l1" "no_verdict l2"
    "if flags = 0 then rc = ssl_socket s \<and> s' = s else ssl_socket s' < 0 \<and> (cert = 0 \<or> key = 0 \<longrightarrow> rc = 0)"
    unfolding i by auto
  moreover have "went_through i host ca l0" using l0 by (simp add: went_through_def trail_def need_def)
  ultimately show ?thesis unfolding start_post_def
    by (intro disjI2 exI [of _ flags] exI [of _ l1] exI [of _ l2] exI [of _ l0]) (auto split: if_splits)
qed

lemma open_keeps:
  assumes "open_socket (log_tls T) s host port timeout wl = Some (r, s', wl')"
  shows "snd wl' = snd wl \<and> ssl_id s' = ssl_id s \<and> (\<forall>rc. r = Inl rc \<longrightarrow> rc < 0)"
  using retsD [OF open_socket_log, of T s host port timeout "fst wl" "snd wl" "(r, s', wl')"] assms by auto

lemma start_ssl_client_log:
  assumes e: "errors_negative T" and "snd wl = []"
  shows "rets (\<lambda>(rc, s', wl'). start_post (ssl_id s) host ca cert key rc s' (snd wl'))
    (start_ssl_client (log_tls T) s host port timeout ca cert key ident psk wl)"
proof -
  have t: "trail (ssl_id s) ca []" by (simp add: trail_def no_verdict_def called_def)
  show ?thesis
    unfolding start_ssl_client_def
    by (intro rets_intros)
      (use assms(2) t in \<open>auto dest!: open_keeps seed_keeps [OF e, where i = "ssl_id s" and ca = ca]
        trust_keeps [OF e, where i = "ssl_id s" and ca = ca]
        identity_keeps [OF e, where i = "ssl_id s" and ca = ca] setup_keeps [OF e, where i = "ssl_id s" and ca = ca]
        handshake_keeps [OF e, where i = "ssl_id s" and ca = ca] simp: step_keeps_def
        intro: start_post_early verify_peer_post\<close>)
qed

lemma sec_connect_certs_start:
  assumes "sec_connect_certs T c host port ca cert key w = Some (r, c', w')"
  shows "\<exists>s rc s' v. ssl_id s = ssl_id (sslclient c) \<and>
      start_ssl_client T s host port (sec_timeout c) ca cert key 0 0 w = Some (rc, s', v) \<and>
      (if rc < 0 then r = 0 \<and> (\<exists>c1. sec_stop T c1 v = (c', w'))
       else r = 1 \<and> sslclient c' = s' \<and> sec_connected c' \<and> w' = v)"
proof -
  define c0 where "c0 = (if sec_timeout c > 0
      then c\<lparr>sslclient := (sslclient c)\<lparr>handshake_timeout := word_of_int (sec_timeout c)\<rparr>\<rparr> else c)"
  have c0: "ssl_id (sslclient c0) = ssl_id (sslclient c)" "sec_timeout c0 = sec_timeout c" by (simp_all add: c0_def)
  obtain rc s' v where
    s: "start_ssl_client T (sslclient c0) host port (sec_timeout c) ca cert key 0 0 w = Some (rc, s', v)"
    and r: "(if rc < 0 then let (c, w) = sec_stop T (c0\<lparr>sslclient := s', sec_lastError := rc\<rparr>) v in (0, c, w)
        else (1, c0\<lparr>sslclient := s', sec_lastError := rc, sec_connected := True\<rparr>, v)) = (r, c', w')"
    using assms c0 unfolding sec_connect_certs_def sec_start_def c0_def [symmetric] Let_def bind_eq_Some_conv
    by fastforce
  with c0 show ?thesis
    by (intro exI [of _ "sslclient c0"] exI [of _ rc] exI [of _ s'] exI [of _ v])
      (auto split: if_splits prod.splits)
qed

text \<open>
  C28: a TLS connection that is reported as open and has its socket has gone through
  the handshake for the given host name, and afterwards the library's verdict on the
  peer's certificate was read and had no flags. With a certification authority the
  verification was made mandatory before the handshake and not switched off.
\<close>

theorem open_connection_was_verified:
  assumes "errors_negative T" and "sec_connect_certs (log_tls T) c host port ca cert key (w, []) = Some (r, c', w', l)"
    and "r = 1" and "ssl_socket (sslclient c') \<ge> 0"
  shows "\<exists>l1 l2 l3. l = l1 @ (ssl_id (sslclient c), Get_verify_result, 0) # l2 @ (ssl_id (sslclient c), Ssl_handshake, 0) # l3 \<and>
      (ssl_id (sslclient c), Set_hostname host, 0) \<in> set l3 \<and>
      (ca \<noteq> 0 \<longrightarrow> called (ssl_id (sslclient c)) (Conf_authmode VERIFY_REQUIRED) l3 \<and>
        \<not> called (ssl_id (sslclient c)) (Conf_authmode VERIFY_NONE) l3)"
proof -
  from sec_connect_certs_start [OF assms(2)] obtain s rc s' where s: "ssl_id s = ssl_id (sslclient c)"
      "start_ssl_client (log_tls T) s host port (sec_timeout c) ca cert key 0 0 (w, []) = Some (rc, s', w', l)"
      "0 \<le> rc" "sslclient c' = s'"
    using assms(3) by (force split: if_splits)
  from retsD [OF start_ssl_client_log [OF assms(1), of "(w, [])"] s(2)] s(1,3,4) assms(4)
  show ?thesis by (fastforce simp: start_post_def went_through_def split: if_splits)
qed

lemma sec_stop_log:
  assumes "sec_stop (log_tls T) c wl = (c', wl')"
  shows "adds quiet (snd wl) (snd wl')"
proof -
  obtain s wl1 where "snd wl1 = snd wl" "stop_ssl_socket (log_tls T) s wl1 = (sslclient c', wl')"
    using assms by (cases wl) (auto simp: sec_stop_def Let_def split: prod.splits if_splits)
  with stop_ssl_socket_log(2) [OF this(2)] show ?thesis by simp
qed

text \<open>
  C35: when the verification of the peer fails, \<open>start_ssl_client\<close> closes the socket but
  returns the success code of the handshake, so without a client certificate
  \<open>connect\<close> reports an open connection.
\<close>

theorem failed_verification_reported_open:
  assumes "errors_negative T" and "sec_connect_certs (log_tls T) c host port ca cert key (w, []) = Some (r, c', w', l)"
    and "cert = 0 \<or> key = 0"
    and "(i, Get_verify_result, flags) \<in> set l" and "flags \<noteq> 0"
  shows "r = 1 \<and> sec_connected c' \<and> ssl_socket (sslclient c') < 0"
proof -
  from sec_connect_certs_start [OF assms(2)] obtain s rc s' v where s: "ssl_id s = ssl_id (sslclient c)"
      "start_ssl_client (log_tls T) s host port (sec_timeout c) ca cert key 0 0 (w, []) = Some (rc, s', v)"
      "if rc < 0 then r = 0 \<and> (\<exists>c1. sec_stop (log_tls T) c1 v = (c', w', l))
       else r = 1 \<and> sslclient c' = s' \<and> sec_connected c' \<and> (w', l) = v"
    by blast
  have q: "adds quiet (snd v) l" using s(3) by (auto split: if_splits dest: sec_stop_log)
  then have fl: "(i, Get_verify_result, flags) \<in> set (snd v)"
    using assms(4) by (fastforce simp: adds_def quiet_def)
  then have "\<not> no_verdict (snd v)" by (force simp: no_verdict_def)
  with retsD [OF start_ssl_client_log [OF assms(1), of "(w, [])"] s(2)] assms(3)
  obtain flags' l1 l2 l3 where
      "snd v = l1 @ (ssl_id s, Get_verify_result, flags') # l2 @ (ssl_id s, Ssl_handshake, 0) # l3"
      "no_verdict l1" "no_verdict l2" "no_verdict l3"
      and f: "if flags' = 0 then rc = ssl_socket s' else ssl_socket s' < 0 \<and> rc = 0"
    by (auto simp: start_post_def went_through_def)
  with fl have "flags' = flags" by (fastforce simp: no_verdict_def)
  with f assms(5) s(3) show ?thesis by simp
qed

section \<open>A connection to a library that answers at once\<close>

definition demo_lwip :: "unit lwip" where
  "demo_lwip =
     \<lparr>lwip_socket = (\<lambda>_ _. (3, ())), lwip_setsockopt = (\<lambda>_ _ _. (0, ())), lwip_getsockopt_error = (\<lambda>_ _. (0, ())),
      lwip_close = (\<lambda>_ _. ()), lwip_shutdown = (\<lambda>_ _. ()), lwip_connect = (\<lambda>_ _ _. (0, ())),
      lwip_write = (\<lambda>_ bs _. (int (length bs), ())), lwip_ioctl_FIONREAD = (\<lambda>_ _. (0, ())),
      lwip_select_read = (\<lambda>_ _. Some (1, ())), lwip_recv = (\<lambda>_ _ _. (0, [], ())),
      lwip_sendto = (\<lambda>_ bs _ _. (int (length bs), ())), lwip_recvfrom = (\<lambda>_ _ a _. (0, [], a, ())),
      lwip_bind = (\<lambda>_ _ _. (0, ())), lwip_listen = (\<lambda>_ _ _. (0, ())), lwip_accept = (\<lambda>_ a _. (4, a, ())),
      lwip_getsockname = (\<lambda>_ a _. (0, a, ())), lwip_getaddrinfo = (\<lambda>_ _. (0, [], ())), lwip_freeaddrinfo = (\<lambda>_ _. ()),
      inet_addr = (\<lambda>_. 1), lwip_htons = (\<lambda>x. x), lwip_htonl = (\<lambda>x. x), lwip_char_signed = True\<rparr>"

definition demo_tls :: "int \<Rightarrow> unit tls" where
  "demo_tls verdict =
     \<lparr>lw = demo_lwip, mbedtls = (\<lambda>_ k _. (if k = Get_verify_result then verdict else 0, ())),
      ssl_write = (\<lambda>_ bs _. (int (length bs), ())), ssl_read = (\<lambda>_ _ _. (0, [], ())),
      peer_cert = (\<lambda>_ _. None), sha256 = (\<lambda>b. b), cstr = (\<lambda>p _. Some [word_of_nat p]),
      fcntl_nonblock = (\<lambda>_ _. ()), tls_millis = (\<lambda>_. (0, ())), task_delay = (\<lambda>_. ()), psk_max_len = 32\<rparr>"

definition demo_client :: TCPClientSecure where
  "demo_client = fst (TCPClientSecure_new (demo_tls 0) 7 ())"

lemma demo_errors_negative: "errors_negative (demo_tls v)"
  by (simp add: errors_negative_def demo_tls_def)

theorem open_connection_was_verified_witness:
  "\<exists>c' w' l. sec_connect_certs (log_tls (demo_tls 0)) demo_client [0x65] 443 9 0 0 ((), []) = Some (1, c', w', l) \<and>
     (\<exists>l1 l2 l3. l = l1 @ (7, Get_verify_result, 0) # l2 @ (7, Ssl_handshake, 0) # l3 \<and> (7, Set_hostname [0x65], 0) \<in> set l3)"
proof -
  let ?r = "sec_connect_certs (log_tls (demo_tls 0)) demo_client [0x65] 443 9 0 0 ((), [])"
  obtain r c' w' l where e: "?r = Some (r, c', w', l)" and r: "r = 1" "ssl_socket (sslclient c') \<ge> 0"
  proof -
    have "(case ?r of None \<Rightarrow> False | Some (r, c', w', l) \<Rightarrow> r = 1 \<and> ssl_socket (sslclient c') \<ge> 0)" by code_simp
    then show ?thesis using that by (auto split: option.splits)
  qed
  have "ssl_id (sslclient demo_client) = 7" by code_simp
  with open_connection_was_verified [OF demo_errors_negative e r] e r(1) show ?thesis by auto
qed

theorem failed_verification_reported_open_witness:
  "\<exists>c' w' l. sec_connect_certs (log_tls (demo_tls 8)) demo_client [0x65] 443 0 0 0 ((), []) = Some (1, c', w', l) \<and>
     sec_connected c' \<and> ssl_socket (sslclient c') < 0"
proof -
  let ?r = "sec_connect_certs (log_tls (demo_tls 8)) demo_client [0x65] 443 0 0 0 ((), [])"
  obtain r c' w' l where e: "?r = Some (r, c', w', l)" and f: "(7, Get_verify_result, 8) \<in> set l"
  proof -
    have "(case ?r of None \<Rightarrow> False | Some (r, c', w', l) \<Rightarrow> (7, Get_verify_result, 8) \<in> set l)" by code_simp
    then show ?thesis using that by (auto split: option.splits)
  qed
  from failed_verification_reported_open [OF demo_errors_negative e _ f] e show ?thesis by auto
qed

end
