(* ===== verification/Lwip_Owner.thy ===== *)
theory Lwip_Owner
  imports Lwip_Tcp
begin

text \<open>
  Who owns the descriptor of a \<open>TCPClient\<close>. lwIP is instrumented with the list of
  its open descriptors and a flag for a call on a descriptor that is not open; the
  states of a client are those a sequence of its methods reaches.
\<close>

section \<open>lwIP with its open descriptors\<close>

type_synonym 'w fds = "'w \<times> int list \<times> bool"

definition on_fd :: "int \<Rightarrow> ('w \<Rightarrow> 'a \<times> 'w) \<Rightarrow> 'w fds \<Rightarrow> 'a \<times> 'w fds" where
  "on_fd fd call = (\<lambda>(w, open_fds, bad). let (r, w) = call w in (r, w, open_fds, bad \<or> fd \<notin> set open_fds))"

definition fd_lwip :: "'w lwip \<Rightarrow> 'w fds lwip" where
  "fd_lwip L =
     \<lparr>lwip_socket = (\<lambda>t (w, fds, bad). let (fd, w) = lwip_socket L t w
        in (fd, w, if fd \<ge> 0 then fd # fds else fds, bad)),
      lwip_setsockopt = (\<lambda>fd p. on_fd fd (lwip_setsockopt L fd p)),
      lwip_getsockopt_error = (\<lambda>fd. on_fd fd (lwip_getsockopt_error L fd)),
      lwip_close = (\<lambda>fd (w, fds, bad). (lwip_close L fd w, remove1 fd fds, bad \<or> fd \<notin> set fds)),
      lwip_shutdown = (\<lambda>fd (w, fds, bad). (lwip_shutdown L fd w, fds, bad \<or> fd \<notin> set fds)),
      lwip_connect = (\<lambda>fd a. on_fd fd (lwip_connect L fd a)),
      lwip_write = (\<lambda>fd b. on_fd fd (lwip_write L fd b)),
      lwip_ioctl_FIONREAD = (\<lambda>fd. on_fd fd (lwip_ioctl_FIONREAD L fd)),
      lwip_select_read = (\<lambda>fd (w, fds, bad). map_option (\<lambda>(r, w). (r, w, fds, bad \<or> fd \<notin> set fds)) (lwip_select_read L fd w)),
      lwip_recv = (\<lambda>fd n (w, fds, bad). let (r, b, w) = lwip_recv L fd n w in (r, b, w, fds, bad \<or> fd \<notin> set fds)),
      lwip_sendto = (\<lambda>fd b a. on_fd fd (lwip_sendto L fd b a)),
      lwip_recvfrom = (\<lambda>fd n a (w, fds, bad). let (r, b, a, w) = lwip_recvfrom L fd n a w in (r, b, a, w, fds, bad \<or> fd \<notin> set fds)),
      lwip_bind = (\<lambda>fd a. on_fd fd (lwip_bind L fd a)),
      lwip_listen = (\<lambda>fd n. on_fd fd (lwip_listen L fd n)),
      lwip_accept = (\<lambda>fd a (w, fds, bad). let (r, a, w) = lwip_accept L fd a w
        in (r, a, w, if r \<ge> 0 then r # fds else fds, bad \<or> fd \<notin> set fds)),
      lwip_getsockname = (\<lambda>fd a (w, fds, bad). let (r, a, w) = lwip_getsockname L fd a w in (r, a, w, fds, bad \<or> fd \<notin> set fds)),
      lwip_getaddrinfo = (\<lambda>h (w, l). let (r, a, w) = lwip_getaddrinfo L h w in (r, a, w, l)),
      lwip_freeaddrinfo = (\<lambda>a (w, l). (lwip_freeaddrinfo L a w, l)),
      inet_addr = inet_addr L, lwip_htons = lwip_htons L, lwip_htonl = lwip_htonl L,
      lwip_char_signed = lwip_char_signed L\<rparr>"

lemma on_fd_apply [simp]: "on_fd fd call (w, fds, bad) = (case call w of (r, w) \<Rightarrow> (r, w, fds, bad \<or> fd \<notin> set fds))"
  by (simp add: on_fd_def)

lemma fd_lwip_fields [simp]:
  "lwip_socket (fd_lwip L) t (w, fds, bad) = (case lwip_socket L t w of (fd, w) \<Rightarrow> (fd, w, if fd \<ge> 0 then fd # fds else fds, bad))"
  "lwip_setsockopt (fd_lwip L) fd p = on_fd fd (lwip_setsockopt L fd p)"
  "lwip_close (fd_lwip L) fd (w, fds, bad) = (lwip_close L fd w, remove1 fd fds, bad \<or> fd \<notin> set fds)"
  "lwip_shutdown (fd_lwip L) fd (w, fds, bad) = (lwip_shutdown L fd w, fds, bad \<or> fd \<notin> set fds)"
  "lwip_connect (fd_lwip L) fd a = on_fd fd (lwip_connect L fd a)"
  "lwip_write (fd_lwip L) fd b = on_fd fd (lwip_write L fd b)"
  "lwip_ioctl_FIONREAD (fd_lwip L) fd = on_fd fd (lwip_ioctl_FIONREAD L fd)"
  "lwip_select_read (fd_lwip L) fd (w, fds, bad) =
     map_option (\<lambda>(r, w). (r, w, fds, bad \<or> fd \<notin> set fds)) (lwip_select_read L fd w)"
  "lwip_recv (fd_lwip L) fd n (w, fds, bad) = (case lwip_recv L fd n w of (r, b, w) \<Rightarrow> (r, b, w, fds, bad \<or> fd \<notin> set fds))"
  "lwip_getaddrinfo (fd_lwip L) h (w, l) = (case lwip_getaddrinfo L h w of (r, a, w) \<Rightarrow> (r, a, w, l))"
  "lwip_freeaddrinfo (fd_lwip L) ai (w, l) = (lwip_freeaddrinfo L ai w, l)"
  "inet_addr (fd_lwip L) = inet_addr L" "lwip_htons (fd_lwip L) = lwip_htons L"
  by (simp_all add: fd_lwip_def)

section \<open>The methods of a client as steps\<close>

datatype tcp_op =
    Op_connectV4 "32 word" "16 word" int | Op_connect_ip "32 word" "16 word" | Op_connect_host "byte list" "16 word"
  | Op_connect_timeout "byte list" "16 word" int | Op_setKeepAlive int | Op_write "byte list" | Op_write_byte byte
  | Op_available | Op_read_byte | Op_read nat | Op_stop | Op_connected

fun tcp_step :: "'w lwip \<Rightarrow> tcp_op \<Rightarrow> TCPClient \<Rightarrow> 'w \<Rightarrow> (TCPClient \<times> 'w) option" where
  "tcp_step L (Op_connectV4 ip port t) c w = Some (snd (tcp_connectV4 L c ip port t w))"
| "tcp_step L (Op_connect_ip ip port) c w = Some (snd (tcp_connect_ip L c ip port w))"
| "tcp_step L (Op_connect_host h port) c w = map_option snd (tcp_connect_host L c h port w)"
| "tcp_step L (Op_connect_timeout h port t) c w = map_option snd (tcp_connect_timeout L c h port t w)"
| "tcp_step L (Op_setKeepAlive t) c w = Some (c, tcp_setKeepAlive L c t w)"
| "tcp_step L (Op_write bs) c w = Some (c, snd (tcp_write L c bs w))"
| "tcp_step L (Op_write_byte b) c w = Some (c, snd (tcp_write_byte L c b w))"
| "tcp_step L Op_available c w = Some (snd (tcp_available L c w))"
| "tcp_step L Op_read_byte c w = map_option snd (tcp_read_byte L c w)"
| "tcp_step L (Op_read n) c w = map_option (snd \<circ> snd) (tcp_read L c n w)"
| "tcp_step L Op_stop c w = Some (tcp_stop L c w)"
| "tcp_step L Op_connected c w = Some (snd (tcp_connected L c w))"

text \<open>A fresh client in a world without open descriptors, then any methods.\<close>

inductive tcp_reach :: "'w lwip \<Rightarrow> TCPClient \<Rightarrow> 'w fds \<Rightarrow> bool" for L where
  new: "tcp_reach L (TCPClient_new mem) (w, [], False)"
| step: "tcp_reach L c w \<Longrightarrow> tcp_step (fd_lwip L) oper c w = Some (c', w') \<Longrightarrow> tcp_reach L c' w'"

text \<open>The client has exactly its own descriptor open, and no call was made on any
  other.\<close>

definition owns :: "TCPClient \<Rightarrow> 'w fds \<Rightarrow> bool" where
  "owns c v \<longleftrightarrow> (case v of (w, fds, bad) \<Rightarrow> \<not> bad \<and> fds = (if m_socket_fd c \<ge> 0 then [m_socket_fd c] else []))"

definition options_succeed :: "'w lwip \<Rightarrow> bool" where
  "options_succeed L \<longleftrightarrow> (\<forall>fd p w. fst (lwip_setsockopt L fd p w) \<noteq> -1)"

lemma tcp_stop_owns: "owns c v \<Longrightarrow> tcp_stop (fd_lwip L) c v = (c', v') \<Longrightarrow> owns c' v' \<and> m_socket_fd c' = -1"
  by (cases v) (auto simp: owns_def tcp_stop_def split: if_splits)

lemma tcp_open_owns:
  "owns c v \<Longrightarrow> m_socket_fd c \<ge> 0 \<Longrightarrow> tcp_open (fd_lwip L) c ip port t v = (r, c', v') \<Longrightarrow> owns c' v'"
  by (cases v) (auto simp: owns_def tcp_open_def Let_def split: if_splits prod.splits)

lemma tcp_connectV4_owns:
  assumes o: "options_succeed L" and c: "owns c v" and e: "tcp_connectV4 (fd_lwip L) c ip port t v = (r, c', v')"
  shows "owns c' v'"
proof -
  obtain c1 w1 where 1: "(if m_socket_fd c \<ge> 0 then tcp_stop (fd_lwip L) c v else (c, v)) = (c1, w1, [], False)" "m_socket_fd c1 < 0"
    using c tcp_stop_owns [OF c] by (cases "m_socket_fd c \<ge> 0"; cases v; cases "tcp_stop (fd_lwip L) c v") (fastforce simp: owns_def)+
  have ok: "lwip_setsockopt L fd p w = (rc, w') \<Longrightarrow> rc \<noteq> -1" for fd p w rc w'
    using o unfolding options_succeed_def by (metis fst_conv)
  show ?thesis
    using e 1(2) unfolding tcp_connectV4_def 1(1) Let_def prod.case
    by (auto simp: owns_def dest: ok dest!: tcp_open_owns [rotated 2] split: prod.splits if_splits)
qed

lemma hostByName_fd:
  "hostByName (fd_lwip L) host a (w, l) = map_option (\<lambda>(r, a, w). (r, a, w, l)) (hostByName L host a w)"
  by (auto simp: hostByName_def resolve_def Let_def split: prod.splits option.splits list.splits)

lemma tcp_connect_timeout_owns:
  assumes "options_succeed L" and "owns c v" and "tcp_connect_timeout (fd_lwip L) c host port t v = Some (r, c', v')"
  shows "owns c' v'"
proof -
  obtain c1 v1 where 1: "(if m_socket_fd c \<ge> 0 then let (c, w) = tcp_stop (fd_lwip L) c v in (c\<lparr>m_socket_fd := -1\<rparr>, w) else (c, v))
      = (c1, v1)" "owns c1 v1"
  proof (cases "m_socket_fd c \<ge> 0")
    case True
    obtain c0 v0 where s: "tcp_stop (fd_lwip L) c v = (c0, v0)" by (rule prod.exhaust)
    from tcp_stop_owns [OF assms(2) s] have "owns (c0\<lparr>m_socket_fd := -1\<rparr>) v0" by (cases v0) (simp add: owns_def)
    with True s that show ?thesis by simp
  qed (use assms(2) in \<open>simp add: that\<close>)
  obtain w1 x where v1: "v1 = (w1, x)" by (rule prod.exhaust)
  have o: "owns c1 (w, x)" for w using 1(2) by (simp add: v1 owns_def)
  show ?thesis
    using assms(3) o unfolding tcp_connect_timeout_def 1(1) v1
    unfolding Let_def prod.case
    by (auto simp: hostByName_fd bind_eq_Some_conv intro: tcp_connectV4_owns [OF assms(1) o] split: if_splits)
qed

lemma tcp_step_owns:
  assumes "options_succeed L" and "owns c v" and "tcp_step (fd_lwip L) oper c v = Some (c', v')"
  shows "owns c' v'"
proof (cases oper)
  case (Op_connectV4 ip port t)
  with assms(3) tcp_connectV4_owns [OF assms(1,2)] show ?thesis
    by (cases "tcp_connectV4 (fd_lwip L) c ip port t v") auto
next
  case (Op_connect_ip ip port)
  with assms(3) tcp_connectV4_owns [OF assms(1,2)] show ?thesis
    by (cases "tcp_connectV4 (fd_lwip L) c ip port 5000 v") (auto simp: tcp_connect_ip_def)
next
  case Op_stop
  with assms(3) tcp_stop_owns [OF assms(2)] show ?thesis by auto
next
  case (Op_connect_host h port)
  with assms(3) tcp_connect_timeout_owns [OF assms(1,2)] show ?thesis
    by (fastforce simp: tcp_connect_host_def)
next
  case (Op_connect_timeout h port t)
  with assms(3) tcp_connect_timeout_owns [OF assms(1,2)] show ?thesis by fastforce
qed (use assms(2,3) in \<open>(cases v, auto simp: owns_def tcp_setKeepAlive_def tcp_write_def tcp_write_byte_def
      tcp_available_def tcp_read_byte_def tcp_read_def tcp_connected_def Let_def bind_eq_Some_conv
      split: if_splits prod.splits)[1]\<close>)+

text \<open>
  C31: a TCP client owns its socket. If setting the options of a socket succeeds, then
  after any sequence of its methods, with any results of the network, the open
  descriptors are exactly the one it holds (or none), no call was made on a closed
  descriptor, and its destructor leaves nothing open.
\<close>

theorem tcp_client_owns_socket:
  assumes "options_succeed L" and "tcp_reach L c v"
  shows "owns c v \<and> (\<exists>w. TCPClient_delete (fd_lwip L) c v = (w, [], False))"
proof -
  have "owns c v" using assms(2) by induction (auto simp: owns_def TCPClient_new_def tcp_step_owns [OF assms(1), unfolded owns_def])
  then show ?thesis by (cases v) (auto simp: owns_def TCPClient_delete_def)
qed

text \<open>
  when \<open>SO_KEEPALIVE\<close> cannot be set, \<open>connectV4\<close> closes the new socket but keeps
  its number, so the destructor (or the next \<open>connect\<close>) shuts down and closes a
  descriptor that is not its own any more.
\<close>

theorem failed_option_double_close:
  assumes "lwip_socket L SOCK_STREAM w = (fd, w1)" and "fd \<ge> 0"
    and "lwip_setsockopt L fd (SO_KEEPALIVE timeout) w1 = (-1, w2)"
  shows "\<exists>c' v v'. tcp_connectV4 (fd_lwip L) (TCPClient_new mem) ip port timeout (w, [], False) = (-1, c', v, [], False) \<and>
      TCPClient_delete (fd_lwip L) c' (v, [], False) = (v', [], True)"
  using assms by (simp add: tcp_connectV4_def TCPClient_new_def TCPClient_delete_def)

section \<open>A network that answers at once\<close>

definition demo_net :: "int \<Rightarrow> unit lwip" where
  "demo_net opt =
     \<lparr>lwip_socket = (\<lambda>_ _. (3, ())), lwip_setsockopt = (\<lambda>_ _ _. (opt, ())), lwip_getsockopt_error = (\<lambda>_ _. (0, ())),
      lwip_close = (\<lambda>_ _. ()), lwip_shutdown = (\<lambda>_ _. ()), lwip_connect = (\<lambda>_ _ _. (0, ())),
      lwip_write = (\<lambda>_ bs _. (int (length bs), ())), lwip_ioctl_FIONREAD = (\<lambda>_ _. (0, ())),
      lwip_select_read = (\<lambda>_ _. Some (1, ())), lwip_recv = (\<lambda>_ _ _. (0, [], ())),
      lwip_sendto = (\<lambda>_ bs _ _. (int (length bs), ())), lwip_recvfrom = (\<lambda>_ _ a _. (0, [], a, ())),
      lwip_bind = (\<lambda>_ _ _. (0, ())), lwip_listen = (\<lambda>_ _ _. (0, ())), lwip_accept = (\<lambda>_ a _. (4, a, ())),
      lwip_getsockname = (\<lambda>_ a _. (0, a, ())), lwip_getaddrinfo = (\<lambda>_ _. (0, [], ())), lwip_freeaddrinfo = (\<lambda>_ _. ()),
      inet_addr = (\<lambda>_. 1), lwip_htons = (\<lambda>x. x), lwip_htonl = (\<lambda>x. x), lwip_char_signed = True\<rparr>"

definition blank_client :: TCPClient where
  "blank_client = \<lparr>m_socket_fd = 0, m_sa = no_address, m_so_timeout = (0, 0), tc_connected = True\<rparr>"

theorem tcp_client_owns_socket_witness:
  "\<exists>c v. tcp_step (fd_lwip (demo_net 0)) (Op_connect_ip 1 80) (TCPClient_new blank_client) ((), [], False) = Some (c, v) \<and>
     owns c v \<and> m_socket_fd c = 3"
proof -
  let ?r = "tcp_step (fd_lwip (demo_net 0)) (Op_connect_ip 1 80) (TCPClient_new blank_client) ((), [], False)"
  obtain c v where e: "?r = Some (c, v)" and f: "m_socket_fd c = 3"
  proof -
    have "(case ?r of None \<Rightarrow> False | Some (c, v) \<Rightarrow> m_socket_fd c = 3)" by code_simp
    then show ?thesis using that by (auto split: option.splits)
  qed
  have "options_succeed (demo_net 0)" by (simp add: options_succeed_def demo_net_def)
  from tcp_client_owns_socket [OF this tcp_reach.step [OF tcp_reach.new e]] e f show ?thesis by auto
qed

theorem failed_option_double_close_witness:
  "\<exists>c' v v'. tcp_connectV4 (fd_lwip (demo_net (-1))) (TCPClient_new blank_client) 1 80 5000 ((), [], False) = (-1, c', v, [], False) \<and>
      TCPClient_delete (fd_lwip (demo_net (-1))) c' (v, [], False) = (v', [], True)"
  by (rule failed_option_double_close [where fd = 3 and ?w1.0 = "()" and ?w2.0 = "()"]) (simp_all add: demo_net_def)

end
