(* ===== verification/Lwip_Udp.thy ===== *)
theory Lwip_Udp
  imports Lwip_Tcp
begin

text \<open>
  The UDP classes over lwIP, \<open>src/UDPClient.cpp\<close> and \<open>src/UDPServer.cpp\<close>.
\<close>

section \<open>\<open>UDPClient\<close>\<close>

record UDPClient =
  uc_socket_fd :: int
  uc_sa :: inet_addr_port

definition UDPClient_new :: "UDPClient \<Rightarrow> UDPClient" where
  "UDPClient_new c = c\<lparr>uc_socket_fd := -1\<rparr>"

definition UDPClient_delete :: "'w lwip \<Rightarrow> UDPClient \<Rightarrow> 'w \<Rightarrow> 'w" where
  "UDPClient_delete L c w = (if uc_socket_fd c \<ge> 0 then lwip_close L (uc_socket_fd c) w else w)"

text \<open>A socket that is open already is not closed.\<close>

definition udp_connectV4 ::
  "'w lwip \<Rightarrow> UDPClient \<Rightarrow> 32 word \<Rightarrow> 16 word \<Rightarrow> int \<Rightarrow> 'w \<Rightarrow> int \<times> UDPClient \<times> 'w" where
  "udp_connectV4 L c ip port timeout w =
     (let (fd, w) = lwip_socket L SOCK_DGRAM w;
          c = c\<lparr>uc_socket_fd := fd\<rparr>
      in if fd < 0 then (-1, c, w)
         else
           let (rc, w) = lwip_setsockopt L fd (SO_KEEPALIVE timeout) w
           in if rc = -1 then (-1, c, lwip_close L fd w)
              else (fd, c\<lparr>uc_sa := \<lparr>ia_family = AF_INET4, ia_addr = ip, ia_port = lwip_htons L port\<rparr>\<rparr>, w))"

definition udp_connect_ip :: "'w lwip \<Rightarrow> UDPClient \<Rightarrow> 32 word \<Rightarrow> 16 word \<Rightarrow> 'w \<Rightarrow> int \<times> UDPClient \<times> 'w" where
  "udp_connect_ip L c ip port w = udp_connectV4 L c ip port 5000 w"

text \<open>The method without a timeout calls itself.\<close>

partial_function (option) udp_connect_host ::
  "'w lwip \<Rightarrow> UDPClient \<Rightarrow> byte list \<Rightarrow> 16 word \<Rightarrow> 'w \<Rightarrow> (int \<times> UDPClient \<times> 'w) option" where
  "udp_connect_host L c host port w = udp_connect_host L c host port w"

text \<open>The timeout is not used.\<close>

definition udp_connect_timeout ::
  "'w lwip \<Rightarrow> UDPClient \<Rightarrow> byte list \<Rightarrow> 16 word \<Rightarrow> int \<Rightarrow> 'w \<Rightarrow> (int \<times> UDPClient \<times> 'w) option" where
  "udp_connect_timeout L c host port timeout w =
     (if uc_socket_fd c \<ge> 0 then Some (uc_socket_fd c, c, w)
      else do {
        (ip, w) \<leftarrow> resolve L host w;
        Some (if ip = IPADDR_NONE then (-1, c, w) else udp_connectV4 L c ip port 5000 w) })"

definition udp_write :: "'w lwip \<Rightarrow> UDPClient \<Rightarrow> byte list \<Rightarrow> 'w \<Rightarrow> 32 word \<times> 'w" where
  "udp_write L c buf w =
     (if uc_socket_fd c < 0 then (-1, w)
      else let (rc, w) = lwip_sendto L (uc_socket_fd c) buf (uc_sa c) w in (if rc < 0 then 0 else word_of_int rc, w))"

definition udp_write_byte :: "'w lwip \<Rightarrow> UDPClient \<Rightarrow> byte \<Rightarrow> 'w \<Rightarrow> 32 word \<times> 'w" where
  "udp_write_byte L c b w =
     (if uc_socket_fd c < 0 then (-1, w)
      else let (rc, w) = lwip_sendto L (uc_socket_fd c) [b] (uc_sa c) w in (if rc < 0 then 0 else word_of_int rc, w))"

definition udp_available :: "'w lwip \<Rightarrow> UDPClient \<Rightarrow> 'w \<Rightarrow> int \<times> 'w" where
  "udp_available L c w =
     (if uc_socket_fd c \<ge> 0 then
        let (rc, w) = lwip_ioctl_FIONREAD L (uc_socket_fd c) w in (if rc < 0 then 0 else rc, w)
      else (0, w))"

definition udp_read_byte :: "'w lwip \<Rightarrow> UDPClient \<Rightarrow> 'w \<Rightarrow> int \<times> 'w" where
  "udp_read_byte L c w =
     (if uc_socket_fd c < 0 then (-1, w)
      else
        let (n, bs, w) = lwip_recv L (uc_socket_fd c) 1 w;
            buf = (case bs of [] \<Rightarrow> 0 | b # _ \<Rightarrow> b)
        in (if n \<noteq> 0 then int_of_char (lwip_char_signed L) buf else 0, w))"

definition udp_read :: "'w lwip \<Rightarrow> UDPClient \<Rightarrow> nat \<Rightarrow> 'w \<Rightarrow> int \<times> byte list \<times> 'w" where
  "udp_read L c n w = (if uc_socket_fd c < 0 then (-1, [], w) else lwip_recv L (uc_socket_fd c) n w)"

definition udp_peek :: "UDPClient \<Rightarrow> int" where
  "udp_peek c = 0"

definition udp_stop :: "'w lwip \<Rightarrow> UDPClient \<Rightarrow> 'w \<Rightarrow> UDPClient \<times> 'w" where
  "udp_stop L c w =
     (c\<lparr>uc_socket_fd := -1\<rparr>, if uc_socket_fd c \<ge> 0 then lwip_close L (uc_socket_fd c) w else w)"

definition udp_connected :: "'w lwip \<Rightarrow> UDPClient \<Rightarrow> 'w \<Rightarrow> bool \<times> 'w" where
  "udp_connected L c w =
     (if uc_socket_fd c < 0 then (False, w)
      else let (error_code, w) = lwip_getsockopt_error L (uc_socket_fd c) w in (error_code = 0, w))"

definition udp_bool :: "UDPClient \<Rightarrow> bool" where
  "udp_bool c \<longleftrightarrow> uc_socket_fd c \<ge> 0"

section \<open>\<open>UDPServer\<close>\<close>

record UDPServer =
  us_socket_fd :: int
  us_serv_addr :: inet_addr_port
  us_cli_addr :: inet_addr_port

definition UDPServer_new :: "UDPServer \<Rightarrow> UDPServer" where
  "UDPServer_new s = s\<lparr>us_socket_fd := -1\<rparr>"

definition UDPServer_delete :: "'w lwip \<Rightarrow> UDPServer \<Rightarrow> 'w \<Rightarrow> 'w" where
  "UDPServer_delete L s w = (if us_socket_fd s \<ge> 0 then lwip_close L (us_socket_fd s) w else w)"

definition udps_begin :: "'w lwip \<Rightarrow> UDPServer \<Rightarrow> 'w \<Rightarrow> UDPServer \<times> 'w" where
  "udps_begin L s w =
     (let (fd, w) = lwip_socket L SOCK_DGRAM w
      in (s\<lparr>us_serv_addr := no_address, us_cli_addr := no_address, us_socket_fd := fd\<rparr>, w))"

definition udps_end :: "'w lwip \<Rightarrow> UDPServer \<Rightarrow> 'w \<Rightarrow> UDPServer \<times> 'w" where
  "udps_end L s w =
     (s\<lparr>us_socket_fd := -1\<rparr>, if us_socket_fd s \<ge> 0 then lwip_close L (us_socket_fd s) w else w)"

text \<open>Without a socket the result is \<open>false\<close>, the 0 that means success otherwise.\<close>

definition udps_establish :: "'w lwip \<Rightarrow> UDPServer \<Rightarrow> 16 word \<Rightarrow> 32 word \<Rightarrow> 'w \<Rightarrow> int \<times> UDPServer \<times> 'w" where
  "udps_establish L s port bind_addr w =
     (let s = s\<lparr>us_serv_addr := (us_serv_addr s)\<lparr>ia_family := AF_INET4, ia_addr := lwip_htonl L bind_addr,
                  ia_port := lwip_htons L port\<rparr>,
                us_cli_addr := (us_cli_addr s)\<lparr>ia_family := AF_INET4, ia_addr := 0xFFFFFFFF, ia_port := lwip_htons L port\<rparr>\<rparr>
      in if us_socket_fd s < 0 then (0, s, w)
         else
           let (_, w) = lwip_setsockopt L (us_socket_fd s) (SO_RCVTIMEO (5, 0)) w;
               (rc, w) = lwip_bind L (us_socket_fd s) (us_serv_addr s) w
           in if rc = -1 then (rc, s, w)
              else
                let (rc, a, w) = lwip_getsockname L (us_socket_fd s) (us_serv_addr s) w
                in (rc, s\<lparr>us_serv_addr := a\<rparr>, w))"

definition udps_write :: "'w lwip \<Rightarrow> UDPServer \<Rightarrow> byte list \<Rightarrow> 'w \<Rightarrow> 32 word \<times> 'w" where
  "udps_write L s buf w =
     (let (rc, w) = lwip_sendto L (us_socket_fd s) buf (us_cli_addr s) w in (if rc < 0 then 0 else word_of_int rc, w))"

definition udps_write_byte :: "'w lwip \<Rightarrow> UDPServer \<Rightarrow> byte \<Rightarrow> 'w \<Rightarrow> 32 word \<times> 'w" where
  "udps_write_byte L s b w =
     (let (rc, w) = lwip_sendto L (us_socket_fd s) [b] (us_cli_addr s) w in (if rc < 0 then 0 else word_of_int rc, w))"

text \<open>Reading remembers the sender, whom \<open>write\<close> answers. Reading one byte returns
  the number of bytes, the byte itself is lost.\<close>

definition udps_read_byte :: "'w lwip \<Rightarrow> UDPServer \<Rightarrow> 'w \<Rightarrow> int \<times> UDPServer \<times> 'w" where
  "udps_read_byte L s w =
     (let (rc, _, a, w) = lwip_recvfrom L (us_socket_fd s) 1 (us_cli_addr s) w in (rc, s\<lparr>us_cli_addr := a\<rparr>, w))"

definition udps_read :: "'w lwip \<Rightarrow> UDPServer \<Rightarrow> nat \<Rightarrow> 'w \<Rightarrow> int \<times> byte list \<times> UDPServer \<times> 'w" where
  "udps_read L s n w =
     (let (rc, bs, a, w) = lwip_recvfrom L (us_socket_fd s) n (us_cli_addr s) w in (rc, bs, s\<lparr>us_cli_addr := a\<rparr>, w))"

definition udps_available :: "'w lwip \<Rightarrow> UDPServer \<Rightarrow> 'w \<Rightarrow> int \<times> 'w" where
  "udps_available L s w =
     (if us_socket_fd s \<ge> 0 then
        let (rc, w) = lwip_ioctl_FIONREAD L (us_socket_fd s) w in (if rc < 0 then 0 else rc, w)
      else (0, w))"

definition clientAddress :: "UDPServer \<Rightarrow> inet_addr_port" where
  "clientAddress s = us_cli_addr s"

section \<open>Properties\<close>

text \<open>
  connecting a UDP client to a host without giving a timeout never returns: the
  method calls itself with the same arguments, whatever the network does.
\<close>

theorem udp_connect_never_returns: "udp_connect_host L c host port w = None"
proof (cases "udp_connect_host L c host port w")
  case (Some r)
  have "(\<lambda>L c host port w r. False) L c host port w r"
    by (rule udp_connect_host.raw_induct [OF _ Some])
  then show ?thesis by simp
qed simp

end
