(* ===== verification/Ftp_Base.thy ===== *)
theory Ftp_Base
  imports Lwip_Tcp Text_Base
begin

text \<open>
  \<open>FTPClientBase\<close>, \<open>src/FTPClient.cpp\<close>: lines and replies of the FTP control
  connection over \<open>TCPClient\<close>. The pointers \<open>cput\<close> and \<open>cget\<close> are offsets into the
  buffer of the object (\<open>None\<close> for a null pointer). \<open>ctrl\<close> and \<open>data\<close> tell whether the
  shared pointers are set.
\<close>

definition FTPLIB_BUFSIZ :: nat where
  "FTPLIB_BUFSIZ = 512"

definition FTPLIB_RESPONSE_BUFSIZ :: nat where
  "FTPLIB_RESPONSE_BUFSIZ = 512"

definition FTPLIB_CONTROL :: int where
  "FTPLIB_CONTROL = 0"

definition FTPLIB_READ :: int where
  "FTPLIB_READ = 1"

definition FTPLIB_WRITE :: int where
  "FTPLIB_WRITE = 2"

record FTPClientBase =
  ftp_tcp :: TCPClient
  cput :: "nat option"
  cget :: "nat option"
  cavail :: int
  cleft :: int
  dir :: int
  has_ctrl :: bool
  has_data :: bool
  cmode :: int
  idletime :: tv
  xfered :: "32 word"
  xfered1 :: "32 word"
  fbuf :: "byte list"
  response :: "byte list"

text \<open>The constructor; \<open>f\<close> is the uninitialised memory.\<close>

definition FTPClientBase_new :: "FTPClientBase \<Rightarrow> FTPClientBase" where
  "FTPClientBase_new f =
     f\<lparr>ftp_tcp := TCPClient_new (ftp_tcp f), cput := None, cget := None, cavail := 0, cleft := 0, dir := 0,
       has_ctrl := False, has_data := False, cmode := 0, idletime := (0, 0), xfered := 0, xfered1 := 0\<rparr>"

section \<open>Reading a line\<close>

text \<open>\<open>memccpy\<close> of the file: copies to the offset \<open>p\<close> up to and including the byte
  \<open>c\<close>, at most \<open>n\<close> bytes; the result is the offset after \<open>c\<close>, if it was found.\<close>

primrec memccpy :: "byte \<Rightarrow> nat \<Rightarrow> byte list \<Rightarrow> nat \<Rightarrow> byte list \<Rightarrow> (byte list \<times> nat option) option" where
  "memccpy c 0 dest p src = Some (dest, None)"
| "memccpy c (Suc n) dest p src =
     (case src of
        [] \<Rightarrow> None
      | b # bs \<Rightarrow> do {
          dest \<leftarrow> store dest p b;
          (if b = c then Some (dest, Some (Suc p)) else memccpy c n dest (Suc p) bs) })"

text \<open>Taking what is left in the buffer: the line so far, its position, the room and
  the count, and whether the line is complete. The comparison with \<open>"\r\n"\<close> looks two
  bytes back.\<close>

definition end_of_line :: "byte list \<Rightarrow> nat \<Rightarrow> int \<Rightarrow> (byte list \<times> int) option" where
  "end_of_line buf bp retval =
     (if bp < 2 then None
      else do {
        r \<leftarrow> load buf (bp - 2);
        n \<leftarrow> load buf (bp - 1);
        z \<leftarrow> load buf bp;
        (if r = 0x0D \<and> n = 0x0A \<and> z = 0 then do {
           buf \<leftarrow> store buf (bp - 2) 0x0A;
           buf \<leftarrow> store buf (bp - 1) 0;
           Some (buf, retval - 1) }
         else Some (buf, retval)) })"

definition line_take ::
  "FTPClientBase \<Rightarrow> byte list \<Rightarrow> nat \<Rightarrow> int \<Rightarrow> int \<Rightarrow> (bool \<times> FTPClientBase \<times> byte list \<times> nat \<times> int \<times> int) option" where
  "line_take f buf bp room retval =
     (let x = (if room \<ge> cavail f then cavail f else room - 1)
      in if x < 0 then None
         else do {
           g \<leftarrow> cget f;
           (buf, e) \<leftarrow> memccpy 0x0A (nat x) buf bp (drop g (fbuf f));
           let n = (case e of None \<Rightarrow> nat x | Some q \<Rightarrow> q - bp);
           let bp = bp + n;
           buf \<leftarrow> store buf bp 0;
           let f = f\<lparr>cget := Some (g + n), cavail := cavail f - int n\<rparr>;
           (if e \<noteq> None then do {
              (buf, r) \<leftarrow> end_of_line buf bp (retval + int n);
              Some (True, f, buf, bp, room - int n, r) }
            else Some (False, f, buf, bp, room - int n, retval + int n)) })"

text \<open>Reading more from the socket; \<open>None\<close> of the inner option is the end with an
  error.\<close>

definition line_fill ::
  "'w lwip \<Rightarrow> FTPClientBase \<Rightarrow> 'w \<Rightarrow> (int \<times> FTPClientBase \<times> 'w) option" where
  "line_fill L f w = do {
     (x, bs, tcp, w) \<leftarrow> tcp_read L (ftp_tcp f) (nat (cleft f)) w;
     let f = f\<lparr>ftp_tcp := tcp\<rparr>;
     (if x = -1 then Some (x, f, w)
      else do {
        p \<leftarrow> cput f;
        mem \<leftarrow> memcpy (fbuf f) p bs (int (length bs));
        let avail = cavail f + x;
        mem \<leftarrow> (if avail < 0 then None else store mem (nat avail) 0);
        Some (x, f\<lparr>cleft := cleft f - x, cavail := avail, cput := Some (nat (int p + x)), fbuf := mem\<rparr>, w) }) }"

definition line_reset :: "FTPClientBase \<Rightarrow> FTPClientBase" where
  "line_reset f =
     (if cput f = cget f then f\<lparr>cput := Some 0, cget := Some 0, cavail := 0, cleft := int FTPLIB_BUFSIZ\<rparr> else f)"

partial_function (option) readLine_loop ::
  "'w lwip \<Rightarrow> FTPClientBase \<Rightarrow> byte list \<Rightarrow> nat \<Rightarrow> int \<Rightarrow> int \<Rightarrow> bool \<Rightarrow> 'w \<Rightarrow>
   (int \<times> byte list \<times> FTPClientBase \<times> 'w) option" where
  "readLine_loop L f buf bp room retval eof w = do {
     (found, f, buf, bp, room, retval) \<leftarrow>
       (if cavail f > 0 then line_take f buf bp room retval else Some (False, f, buf, bp, room, retval));
     (if found then Some (retval, buf, f, w)
      else if room = 1 then do { buf \<leftarrow> store buf 0 0; Some (retval, buf, f, w) }
      else
        let f = line_reset f
        in if eof then Some (if retval = 0 then -1 else retval, buf, f, w)
           else do {
             (x, f, w) \<leftarrow> line_fill L f w;
             (if x = -1 then Some (-1, buf, f, w) else readLine_loop L f buf bp room retval (x = 0) w) }) }"

declare readLine_loop.simps [code]

definition readLine ::
  "'w lwip \<Rightarrow> FTPClientBase \<Rightarrow> byte list \<Rightarrow> nat \<Rightarrow> 'w \<Rightarrow> (int \<times> byte list \<times> FTPClientBase \<times> 'w) option" where
  "readLine L f buf room w =
     (if dir f \<noteq> FTPLIB_CONTROL \<and> dir f \<noteq> FTPLIB_READ then Some (-1, buf, f, w)
      else if room = 0 then Some (0, buf, f, w)
      else readLine_loop L f buf 0 (int room) 0 False w)"

section \<open>Writing lines\<close>

text \<open>\<open>flush_line\<close> writes the buffer when it is full; \<open>Inl\<close> is the return of -1.\<close>

definition flush_line :: "'w lwip \<Rightarrow> FTPClientBase \<Rightarrow> nat \<Rightarrow> 'w \<Rightarrow> (unit + nat) \<times> 'w" where
  "flush_line L f nb w =
     (if nb = FTPLIB_BUFSIZ then
        let (n, w) = tcp_write L (ftp_tcp f) (take FTPLIB_BUFSIZ (fbuf f)) w
        in (if sint n \<noteq> int FTPLIB_BUFSIZ then Inl () else Inr 0, w)
      else (Inr nb, w))"

definition add_char :: "FTPClientBase \<Rightarrow> nat \<Rightarrow> byte \<Rightarrow> (FTPClientBase \<times> nat) option" where
  "add_char f nb c = do { m \<leftarrow> store (fbuf f) nb c; Some (f\<lparr>fbuf := m\<rparr>, Suc nb) }"

definition write_char ::
  "'w lwip \<Rightarrow> FTPClientBase \<Rightarrow> nat \<Rightarrow> byte \<Rightarrow> 'w \<Rightarrow> ((unit + FTPClientBase \<times> nat) \<times> 'w) option" where
  "write_char L f nb c w =
     (let (r, w) = flush_line L f nb w in
      case r of
        Inl _ \<Rightarrow> Some (Inl (), w)
      | Inr nb \<Rightarrow> do { (f, nb) \<leftarrow> add_char f nb c; Some (Inr (f, nb), w) })"

primrec writeLine_loop ::
  "'w lwip \<Rightarrow> byte list \<Rightarrow> FTPClientBase \<Rightarrow> nat \<Rightarrow> byte \<Rightarrow> 'w \<Rightarrow> ((unit + FTPClientBase \<times> nat) \<times> 'w) option" where
  "writeLine_loop L [] f nb lc w = Some (Inr (f, nb), w)"
| "writeLine_loop L (c # cs) f nb lc w = do {
     (r, w) \<leftarrow> (if c = 0x0A \<and> lc \<noteq> 0x0D then write_char L f nb 0x0D w else Some (Inr (f, nb), w));
     (case r of
        Inl _ \<Rightarrow> Some (Inl (), w)
      | Inr (f, nb) \<Rightarrow> do {
          (r, w) \<leftarrow> write_char L f nb c w;
          (case r of Inl _ \<Rightarrow> Some (Inl (), w) | Inr (f, nb) \<Rightarrow> writeLine_loop L cs f nb c w) }) }"

text \<open>\<open>f\<close> is the object the buffer of which is filled; on an error its buffer is
  not of interest any more and the old one is kept here.\<close>

definition writeLine :: "'w lwip \<Rightarrow> FTPClientBase \<Rightarrow> byte list \<Rightarrow> 'w \<Rightarrow> (int \<times> FTPClientBase \<times> 'w) option" where
  "writeLine L f text w =
     (if dir f \<noteq> FTPLIB_WRITE then Some (-1, f, w)
      else do {
        (r, w) \<leftarrow> writeLine_loop L text f 0 0 w;
        (case r of
           Inl _ \<Rightarrow> Some (-1, f, w)
         | Inr (f, nb) \<Rightarrow>
             (if nb = 0 then Some (int (length text), f, w)
              else
                let (n, w) = tcp_write L (ftp_tcp f) (take nb (fbuf f)) w
                in Some (if sint n \<noteq> int nb then -1 else int (length text), f, w))) })"

section \<open>Reading a reply\<close>

text \<open>\<open>strncmp (a, b, n) == 0\<close> of two C strings.\<close>

primrec strncmp_eq :: "nat \<Rightarrow> byte list \<Rightarrow> byte list \<Rightarrow> bool option" where
  "strncmp_eq 0 a b = Some True"
| "strncmp_eq (Suc n) a b =
     (case a of [] \<Rightarrow> None | x # a \<Rightarrow>
        (case b of [] \<Rightarrow> None | y # b \<Rightarrow>
           (if x \<noteq> y then Some False else if x = 0 then Some True else strncmp_eq n a b)))"

text \<open>\<open>strncpy (match, s, 3)\<close> stops at the end of the string and pads with zeros.\<close>

primrec strncpy :: "nat \<Rightarrow> byte list \<Rightarrow> byte list" where
  "strncpy 0 s = []"
| "strncpy (Suc n) s = (case s of [] \<Rightarrow> replicate (Suc n) 0
     | c # s \<Rightarrow> if c = 0 then replicate (Suc n) 0 else c # strncpy n s)"

text \<open>A line into the member \<open>response\<close>.\<close>

definition read_response :: "'w lwip \<Rightarrow> FTPClientBase \<Rightarrow> 'w \<Rightarrow> (int \<times> FTPClientBase \<times> 'w) option" where
  "read_response L f w = do {
     (n, r, f, w) \<leftarrow> readLine L f (response f) FTPLIB_RESPONSE_BUFSIZ w;
     Some (n, f\<lparr>response := r\<rparr>, w) }"

partial_function (option) readResp_loop ::
  "'w lwip \<Rightarrow> byte list \<Rightarrow> FTPClientBase \<Rightarrow> 'w \<Rightarrow> (bool \<times> FTPClientBase \<times> 'w) option" where
  "readResp_loop L pat f w = do {
     (n, f, w) \<leftarrow> read_response L f w;
     (if n = -1 then Some (False, f, w)
      else do {
        same \<leftarrow> strncmp_eq 4 (response f) pat;
        (if same then Some (True, f, w) else readResp_loop L pat f w) }) }"

declare readResp_loop.simps [code]

definition readResp :: "'w lwip \<Rightarrow> FTPClientBase \<Rightarrow> byte \<Rightarrow> 'w \<Rightarrow> (int \<times> FTPClientBase \<times> 'w) option" where
  "readResp L f c w = do {
     (n, f, w) \<leftarrow> read_response L f w;
     (if n = -1 then Some (0, f, w)
      else do {
        d \<leftarrow> load (response f) 3;
        (ok, f, w) \<leftarrow>
          (if d = 0x2D then readResp_loop L (strncpy 3 (response f) @ [0x20, 0]) f w else Some (True, f, w));
        (if \<not> ok then Some (0, f, w)
         else do { r \<leftarrow> load (response f) 0; Some (if r = c then 1 else 0, f, w) }) }) }"

text \<open>The destructor of the base class. A data connection waits for the closing reply
  on the control connection \<open>ctrl\<close>, unless the last reply was an error.\<close>

definition FTPClientBase_delete ::
  "'w lwip \<Rightarrow> FTPClientBase \<Rightarrow> FTPClientBase \<Rightarrow> 'w \<Rightarrow> (FTPClientBase \<times> 'w) option" where
  "FTPClientBase_delete L f ctrl w = do {
     (f, w) \<leftarrow> (if dir f = FTPLIB_WRITE then do { (_, f, w) \<leftarrow> writeLine L f [] w; Some (f, w) } else Some (f, w));
     (ctrl, w) \<leftarrow>
       (if (dir f = FTPLIB_WRITE \<or> dir f = FTPLIB_READ) \<and> has_ctrl f then do {
          let ctrl = ctrl\<lparr>has_data := False\<rparr>;
          r \<leftarrow> load (response ctrl) 0;
          (if r \<noteq> 0x34 \<and> r \<noteq> 0x35 then do { (_, ctrl, w) \<leftarrow> readResp L ctrl 0x32 w; Some (ctrl, w) }
           else Some (ctrl, w)) }
        else Some (ctrl, w));
     Some (ctrl, TCPClient_delete L (ftp_tcp f) w) }"

end
