(* ===== verification/Ftp_Client.thy ===== *)
theory Ftp_Client
  imports Ftp_Base
begin

text \<open>
  \<open>FTPClient\<close> and \<open>FTPClientData\<close>, \<open>src/FTPClient.cpp\<close>: the commands on the control
  connection, the data connection and the transfer of a file. \<open>Print::printf\<close> of the
  Arduino core and the file callbacks of the application are parameters; a text is
  passed to \<open>print_text\<close> with its arguments filled in.
\<close>

record 'w fs_callback =
  cb_open :: "byte list \<Rightarrow> byte list \<Rightarrow> 'w \<Rightarrow> 'w"
  cb_read :: "nat \<Rightarrow> 'w \<Rightarrow> int \<times> byte list \<times> 'w"
  cb_write :: "byte list \<Rightarrow> 'w \<Rightarrow> nat \<times> 'w"
  cb_close :: "'w \<Rightarrow> 'w"

record 'w ftp_env =
  fnet :: "'w lwip"
  print_text :: "TCPClient \<Rightarrow> byte list \<Rightarrow> 'w \<Rightarrow> 'w"
  m_fs_cb :: "'w fs_callback option"

datatype xfer_type = DIR | DIR_VERBOSE | FILE_READ | FILE_WRITE

definition TEXT :: byte where
  "TEXT = 0x41"

definition BINARY :: byte where
  "BINARY = 0x49"

definition PASSIVE :: int where
  "PASSIVE = 1"

definition PORT :: int where
  "PORT = 2"

definition CRLF :: "byte list" where
  "CRLF = [0x0D, 0x0A]"

section \<open>The control connection\<close>

definition ftp_print :: "'w ftp_env \<Rightarrow> FTPClientBase \<Rightarrow> byte list \<Rightarrow> 'w \<Rightarrow> 'w" where
  "ftp_print E f s w = print_text E (ftp_tcp f) s w"

text \<open>A command and its reply.\<close>

definition ftp_command ::
  "'w ftp_env \<Rightarrow> FTPClientBase \<Rightarrow> byte list \<Rightarrow> byte \<Rightarrow> 'w \<Rightarrow> (int \<times> FTPClientBase \<times> 'w) option" where
  "ftp_command E f s c w = readResp (fnet E) f c (ftp_print E f (s @ CRLF) w)"

definition host_port :: "byte list \<Rightarrow> byte list \<times> byte list" where
  "host_port host =
     (if 0x3A \<in> set host then (takeWhile (\<lambda>c. c \<noteq> 0x3A) host, tl (dropWhile (\<lambda>c. c \<noteq> 0x3A) host))
      else (host, ascii ''21''))"

text \<open>\<open>TCPClient::connect\<close> returns -2 when the connection fails, which is not -1.\<close>

definition connectHost :: "'w ftp_env \<Rightarrow> FTPClientBase \<Rightarrow> byte list \<Rightarrow> 'w \<Rightarrow> (bool \<times> FTPClientBase \<times> 'w) option" where
  "connectHost E f host w =
     (let (lhost, pnum) = host_port host
      in if pnum = [] \<or> \<not> is_digit (hd pnum) then Some (False, f, w)
         else do {
           port \<leftarrow> atoi pnum;
           (rc, tcp, w) \<leftarrow> tcp_connect_host (fnet E) (ftp_tcp f) lhost (word_of_int port) w;
           let f = f\<lparr>ftp_tcp := tcp\<rparr>;
           (if rc = -1 then Some (False, f, w)
            else do {
              let f = f\<lparr>dir := FTPLIB_CONTROL, has_ctrl := False, has_data := False, cmode := 1, idletime := (0, 0),
                        xfered := 0, xfered1 := 0\<rparr>;
              (r, f, w) \<leftarrow> readResp (fnet E) f 0x32 w;
              (if r = 0 then let (tcp, w) = tcp_stop (fnet E) (ftp_tcp f) w in Some (False, f\<lparr>ftp_tcp := tcp\<rparr>, w)
               else Some (True, f, w)) }) })"

definition FTPClient_new :: "FTPClientBase \<Rightarrow> FTPClientBase" where
  "FTPClient_new f = FTPClientBase_new f"

definition FTPClient_of_host :: "'w ftp_env \<Rightarrow> FTPClientBase \<Rightarrow> byte list \<Rightarrow> 'w \<Rightarrow> (FTPClientBase \<times> 'w) option" where
  "FTPClient_of_host E f host w = do { (_, f, w) \<leftarrow> connectHost E (FTPClientBase_new f) host w; Some (f, w) }"

definition getLastResponse :: "FTPClientBase \<Rightarrow> byte list option" where
  "getLastResponse f = (if dir f = FTPLIB_CONTROL then Some (response f) else None)"

definition setConnectionMode :: "FTPClientBase \<Rightarrow> int \<Rightarrow> FTPClientBase" where
  "setConnectionMode f mode = f\<lparr>cmode := mode\<rparr>"

definition setIdleTime :: "FTPClientBase \<Rightarrow> int \<Rightarrow> FTPClientBase" where
  "setIdleTime f ms = f\<lparr>idletime := so_timeout ms\<rparr>"

text \<open>The default for \<open>password\<close> is a null pointer, which \<open>%s\<close> must not get.\<close>

definition login ::
  "'w ftp_env \<Rightarrow> FTPClientBase \<Rightarrow> byte list \<Rightarrow> byte list option \<Rightarrow> 'w \<Rightarrow> (int \<times> FTPClientBase \<times> 'w) option" where
  "login E f user password w = do {
     (r, f, w) \<leftarrow> ftp_command E f (ascii ''USER '' @ user) 0x33 w;
     (if r = 0 then do { d \<leftarrow> load (response f) 0; Some (if d = 0x32 then 1 else 0, f, w) }
      else do {
        p \<leftarrow> password;
        ftp_command E f (ascii ''PASS '' @ p) 0x32 w }) }"

text \<open>A \<open>std::string\<close> made from the response; returning 0 or \<open>NULL\<close> makes one from a
  null pointer, which is undefined.\<close>

definition c_string :: "byte list \<Rightarrow> byte list" where
  "c_string b = takeWhile (\<lambda>c. c \<noteq> 0) b"

function scan_token :: "byte list \<Rightarrow> byte \<Rightarrow> nat \<Rightarrow> nat" where
  "scan_token r stop s =
     (if s < FTPLIB_RESPONSE_BUFSIZ - 1 \<and> s < length r \<and> r ! s \<noteq> 0 \<and> r ! s \<noteq> stop
      then scan_token r stop (if r ! s = 0x5C then s + 2 else s + 1) else s)"
  by auto
termination by (relation "measure (\<lambda>(r, stop, s). length r - s)") auto

declare scan_token.simps [simp del]

definition getSystemType :: "'w ftp_env \<Rightarrow> FTPClientBase \<Rightarrow> 'w \<Rightarrow> (byte list \<times> FTPClientBase \<times> 'w) option" where
  "getSystemType E f w = do {
     (r, f, w) \<leftarrow> ftp_command E f (ascii ''SYST'') 0x32 w;
     (if r = 0 then None
      else do {
        m \<leftarrow> store (response f) (scan_token (response f) 0x20 4) 0;
        Some (c_string (drop 4 m), f\<lparr>response := m\<rparr>, w) }) }"

definition getDirectory :: "'w ftp_env \<Rightarrow> FTPClientBase \<Rightarrow> 'w \<Rightarrow> (byte list \<times> FTPClientBase \<times> 'w) option" where
  "getDirectory E f w = do {
     (r, f, w) \<leftarrow> ftp_command E f (ascii ''PWD'') 0x32 w;
     (if r = 0 then None
      else do {
        q \<leftarrow> find_char (c_string (response f)) 0x22;
        m \<leftarrow> store (response f) (scan_token (response f) 0x22 (Suc q)) 0;
        Some (c_string (drop (Suc q) m), f\<lparr>response := m\<rparr>, w) }) }"

section \<open>Commands\<close>

text \<open>A command that succeeds with a reply 2xx.\<close>

definition ftp_simple ::
  "'w ftp_env \<Rightarrow> FTPClientBase \<Rightarrow> byte list \<Rightarrow> 'w \<Rightarrow> (int \<times> FTPClientBase \<times> 'w) option" where
  "ftp_simple E f s w = do { (r, f, w) \<leftarrow> ftp_command E f s 0x32 w; Some (if r = 0 then 0 else 1, f, w) }"

definition cd :: "'w ftp_env \<Rightarrow> FTPClientBase \<Rightarrow> byte list \<Rightarrow> 'w \<Rightarrow> (int \<times> FTPClientBase \<times> 'w) option" where
  "cd E f directory w = ftp_simple E f (ascii ''CWD '' @ directory) w"

definition cdup :: "'w ftp_env \<Rightarrow> FTPClientBase \<Rightarrow> 'w \<Rightarrow> (int \<times> FTPClientBase \<times> 'w) option" where
  "cdup E f w = ftp_simple E f (ascii ''CDUP'') w"

definition mkdir :: "'w ftp_env \<Rightarrow> FTPClientBase \<Rightarrow> byte list \<Rightarrow> 'w \<Rightarrow> (int \<times> FTPClientBase \<times> 'w) option" where
  "mkdir E f directory w = ftp_simple E f (ascii ''MKD '' @ directory) w"

definition rmdir :: "'w ftp_env \<Rightarrow> FTPClientBase \<Rightarrow> byte list \<Rightarrow> 'w \<Rightarrow> (int \<times> FTPClientBase \<times> 'w) option" where
  "rmdir E f directory w = ftp_simple E f (ascii ''RMD '' @ directory) w"

definition ftp_rename ::
  "'w ftp_env \<Rightarrow> FTPClientBase \<Rightarrow> byte list \<Rightarrow> byte list \<Rightarrow> 'w \<Rightarrow> (int \<times> FTPClientBase \<times> 'w) option" where
  "ftp_rename E f oldName newName w = do {
     (r, f, w) \<leftarrow> ftp_command E f (ascii ''RNFR '' @ oldName) 0x33 w;
     (if r = 0 then Some (0, f, w) else ftp_simple E f (ascii ''RNTO '' @ newName) w) }"

definition ftp_unlink :: "'w ftp_env \<Rightarrow> FTPClientBase \<Rightarrow> byte list \<Rightarrow> 'w \<Rightarrow> (int \<times> FTPClientBase \<times> 'w) option" where
  "ftp_unlink E f filename w = ftp_simple E f (ascii ''DELE '' @ filename) w"

definition site :: "'w ftp_env \<Rightarrow> FTPClientBase \<Rightarrow> byte list \<Rightarrow> 'w \<Rightarrow> (int \<times> FTPClientBase \<times> 'w) option" where
  "site E f command w = ftp_simple E f (ascii ''SITE '' @ command) w"

text \<open>\<open>sscanf\<close> with \<open>"%d %u"\<close>; a number outside its type is undefined.\<close>

definition scan_size :: "byte list \<Rightarrow> 32 word option option" where
  "scan_size s =
     (case scan_number s of
        None \<Rightarrow> Some None
      | Some (resp, s) \<Rightarrow>
          (case cint resp of
             None \<Rightarrow> None
           | Some _ \<Rightarrow>
               (case scan_number s of
                  None \<Rightarrow> Some None
                | Some (sz, _) \<Rightarrow> if \<bar>sz\<bar> < 2 ^ 32 then Some (Some (word_of_int sz)) else None)))"

definition ftp_size ::
  "'w ftp_env \<Rightarrow> FTPClientBase \<Rightarrow> byte list \<Rightarrow> byte \<Rightarrow> 'w \<Rightarrow> (32 word \<times> FTPClientBase \<times> 'w) option" where
  "ftp_size E f path mode w = do {
     (r, f, w) \<leftarrow> ftp_command E f (ascii ''TYPE '' @ [mode]) 0x32 w;
     (if r = 0 then Some (0, f, w)
      else do {
        (r, f, w) \<leftarrow> ftp_command E f (ascii ''SIZE '' @ path) 0x32 w;
        (if r = 0 then Some (0, f, w)
         else do {
           sz \<leftarrow> scan_size (c_string (response f));
           Some (case sz of Some v \<Rightarrow> v | None \<Rightarrow> 0, f, w) }) }) }"

definition modDate :: "'w ftp_env \<Rightarrow> FTPClientBase \<Rightarrow> byte list \<Rightarrow> 'w \<Rightarrow> (byte list \<times> FTPClientBase \<times> 'w) option" where
  "modDate E f path w = do {
     (r, f, w) \<leftarrow> ftp_command E f (ascii ''MDTM '' @ path) 0x32 w;
     (if r = 0 then None else Some (c_string (drop 4 (response f)), f, w)) }"

section \<open>The data connection\<close>

text \<open>\<open>sprintf\<close> into the response.\<close>

definition set_response :: "FTPClientBase \<Rightarrow> byte list \<Rightarrow> FTPClientBase option" where
  "set_response f s = do { m \<leftarrow> memcpy (response f) 0 (s @ [0]) (int (length s) + 1); Some (f\<lparr>response := m\<rparr>) }"

text \<open>\<open>sscanf\<close> with \<open>"%u,%u,%u,%u,%u,%u"\<close>: the result is not checked, so with fewer
  numbers uninitialised variables are used.\<close>

primrec scan_numbers :: "nat \<Rightarrow> byte list \<Rightarrow> int list option" where
  "scan_numbers 0 s = Some []"
| "scan_numbers (Suc n) s = do {
     (v, s) \<leftarrow> scan_number s;
     s \<leftarrow> (if n = 0 then Some s else if s \<noteq> [] \<and> hd s = 0x2C then Some (tl s) else None);
     vs \<leftarrow> scan_numbers n s;
     (if \<bar>v\<bar> < 2 ^ 32 then Some (v # vs) else None) }"

text \<open>An address in memory order on a little-endian machine.\<close>

definition ip_of_octets :: "int \<Rightarrow> int \<Rightarrow> int \<Rightarrow> int \<Rightarrow> 32 word" where
  "ip_of_octets a b c d =
     word_of_int (a mod 256 + 256 * (b mod 256) + 65536 * (c mod 256) + 16777216 * (d mod 256))"

definition parse_pasv :: "byte list \<Rightarrow> (32 word \<times> 16 word) option option" where
  "parse_pasv s =
     (case find_char s 0x28 of
        None \<Rightarrow> Some None
      | Some p \<Rightarrow>
          (case scan_numbers 6 (drop (Suc p) s) of
             Some [a, b, c, d, p1, p2] \<Rightarrow> Some (Some (ip_of_octets a b c d, word_of_int (256 * p1 + p2)))
           | _ \<Rightarrow> None))"

text \<open>The PORT mode prints its command on the data connection, which has no socket.\<close>

definition octet :: "32 word \<Rightarrow> nat \<Rightarrow> byte list" where
  "octet a k = dec (uint (drop_bit (8 * k) a AND 255))"

definition port_command :: "inet_addr_port \<Rightarrow> byte list" where
  "port_command a =
     ascii ''PORT '' @ octet (ia_addr a) 0 @ [0x2C] @ octet (ia_addr a) 1 @ [0x2C] @ octet (ia_addr a) 2 @ [0x2C] @
     octet (ia_addr a) 3 @ [0x2C] @ octet (ucast (ia_port a)) 0 @ [0x2C] @ octet (ucast (ia_port a)) 1 @ CRLF"

definition open_port ::
  "'w ftp_env \<Rightarrow> FTPClientBase \<Rightarrow> FTPClientBase \<Rightarrow> inet_addr_port \<Rightarrow> 'w \<Rightarrow>
   (int \<times> FTPClientBase \<times> FTPClientBase \<times> 'w) option" where
  "open_port E d ctrl mem w =
     (let L = fnet E;
          (sData, w) = lwip_socket L SOCK_STREAM w
      in if sData = -1 then Some (-1, d, ctrl, w)
         else
           let (rc, w) = lwip_setsockopt L sData (SO_REUSEADDR 1) w
           in if rc = -1 then Some (-1, d, ctrl, lwip_close L sData w)
              else
                let sa = mem\<lparr>ia_addr := 0, ia_port := 0\<rparr>;
                    (rc, w) = lwip_bind L sData sa w
                in if rc = -1 then Some (-1, d, ctrl, lwip_close L sData w)
                   else
                     let (rc, w) = lwip_listen L sData 1 w
                     in if rc < 0 then Some (-1, d, ctrl, lwip_close L sData w)
                        else
                          let (rc, sa, w) = lwip_getsockname L sData sa w
                          in if rc < 0 then Some (-1, d, ctrl, w)
                             else do {
                               let w = ftp_print E d (port_command sa) w;
                               (r, ctrl, w) \<leftarrow> readResp L ctrl 0x32 w;
                               Some (if r = 0 then (-1, d, ctrl, lwip_close L sData w)
                                     else (1, d\<lparr>ftp_tcp := (ftp_tcp d)\<lparr>m_socket_fd := sData\<rparr>\<rparr>, ctrl, w)) })"

text \<open>The result of \<open>connectV4\<close> is not used.\<close>

definition open_passive ::
  "'w ftp_env \<Rightarrow> FTPClientBase \<Rightarrow> FTPClientBase \<Rightarrow> 'w \<Rightarrow> (int \<times> FTPClientBase \<times> FTPClientBase \<times> 'w) option" where
  "open_passive E d ctrl w = do {
     (r, ctrl, w) \<leftarrow> ftp_command E ctrl (ascii ''PASV'') 0x32 w;
     (if r = 0 then Some (-1, d, ctrl, w)
      else do {
        a \<leftarrow> parse_pasv (c_string (response ctrl));
        (case a of
           None \<Rightarrow> Some (-1, d, ctrl, w)
         | Some (ip, port) \<Rightarrow>
             (let (_, tcp, w) = tcp_connectV4 (fnet E) (ftp_tcp d) ip port 5000 w
              in Some (1, d\<lparr>ftp_tcp := tcp\<rparr>, ctrl, w))) }) }"

definition openDataConn ::
  "'w ftp_env \<Rightarrow> FTPClientBase \<Rightarrow> FTPClientBase \<Rightarrow> byte \<Rightarrow> int \<Rightarrow> inet_addr_port \<Rightarrow> 'w \<Rightarrow>
   (int \<times> FTPClientBase \<times> FTPClientBase \<times> 'w) option" where
  "openDataConn E d ctrl mode direction mem w =
     (if dir ctrl \<noteq> FTPLIB_CONTROL then Some (-1, d, ctrl, w)
      else if direction \<noteq> FTPLIB_READ \<and> direction \<noteq> FTPLIB_WRITE then do {
        ctrl \<leftarrow> set_response ctrl (ascii ''Invalid direction '' @ dec direction @ [0x0A]);
        Some (-1, d, ctrl, w) }
      else if mode \<noteq> TEXT \<and> mode \<noteq> BINARY then do {
        ctrl \<leftarrow> set_response ctrl (ascii ''Invalid mode '' @ [mode, 0x0A]);
        Some (-1, d, ctrl, w) }
      else do {
        (r, d, ctrl, w) \<leftarrow> (if cmode ctrl = PASSIVE then open_passive E d ctrl w else open_port E d ctrl mem w);
        (if r = -1 then Some (-1, d, ctrl, w)
         else Some (1, d\<lparr>dir := direction, idletime := idletime ctrl, xfered := 0, xfered1 := 0, has_ctrl := True\<rparr>, ctrl, w)) })"

definition acceptConnection :: "FTPClientBase \<Rightarrow> FTPClientBase \<Rightarrow> int" where
  "acceptConnection d ctrl = -1"

definition type_command :: "xfer_type \<Rightarrow> byte list" where
  "type_command typ =
     (case typ of DIR \<Rightarrow> ascii ''NLST '' | DIR_VERBOSE \<Rightarrow> ascii ''LIST '' | FILE_READ \<Rightarrow> ascii ''RETR '' | FILE_WRITE \<Rightarrow> ascii ''STOR '')"

text \<open>The constructor of \<open>FTPClientData\<close>: every failure is an early return, which the
  caller does not see.\<close>

definition FTPClientData_new ::
  "'w ftp_env \<Rightarrow> FTPClientBase \<Rightarrow> inet_addr_port \<Rightarrow> FTPClientBase \<Rightarrow> byte list option \<Rightarrow> xfer_type \<Rightarrow> byte \<Rightarrow> 'w \<Rightarrow>
   (FTPClientBase \<times> FTPClientBase \<times> 'w) option" where
  "FTPClientData_new E mem sa ctrl path typ mode w =
     (let d = FTPClientBase_new mem in
      if path = None \<and> (typ = FILE_WRITE \<or> typ = FILE_READ) then do {
        ctrl \<leftarrow> set_response ctrl (ascii ''Missing path argument for file transfer'' @ [0x0A]);
        Some (d, ctrl, w) }
      else do {
        (r, ctrl, w) \<leftarrow> ftp_command E ctrl (ascii ''TYPE '' @ [mode]) 0x32 w;
        (if r = 0 then Some (d, ctrl, w)
         else do {
           (r, d, ctrl, w) \<leftarrow>
             openDataConn E d ctrl mode (if typ = FILE_WRITE then FTPLIB_WRITE else FTPLIB_READ) sa w;
           (if r = -1 then Some (d, ctrl, w)
            else do {
              let w = ftp_print E ctrl (type_command typ) w;
              p \<leftarrow> path;
              (r, ctrl, w) \<leftarrow> ftp_command E ctrl p 0x31 w;
              (if r = 0 then let (tcp, w) = tcp_stop (fnet E) (ftp_tcp d) w in Some (d\<lparr>ftp_tcp := tcp\<rparr>, ctrl, w)
               else if cmode ctrl = PORT \<and> acceptConnection d ctrl = 0 then
                 let (tcp, w) = tcp_stop (fnet E) (ftp_tcp d) w
                 in Some (d\<lparr>ftp_tcp := tcp, has_ctrl := False\<rparr>, ctrl\<lparr>has_data := False\<rparr>, w)
               else Some (d, ctrl, w)) }) }) })"

section \<open>Transferring a file\<close>

partial_function (option) xfer_send ::
  "'w lwip \<Rightarrow> 'w fs_callback \<Rightarrow> TCPClient \<Rightarrow> 'w \<Rightarrow> (int \<times> 'w) option" where
  "xfer_send L cb tcp w =
     (let (l, bs, w) = cb_read cb FTPLIB_BUFSIZ w in
      if l > 0 then
        if int (length bs) < l then None
        else
          let (c, w) = tcp_write L tcp (take (nat l) bs) w
          in if sint c < l then Some (0, w) else xfer_send L cb tcp w
      else Some (1, w))"

declare xfer_send.simps [code]

partial_function (option) xfer_receive ::
  "'w lwip \<Rightarrow> 'w fs_callback \<Rightarrow> TCPClient \<Rightarrow> 'w \<Rightarrow> (int \<times> TCPClient \<times> 'w) option" where
  "xfer_receive L cb tcp w = do {
     (l, bs, tcp, w) \<leftarrow> tcp_read L tcp FTPLIB_BUFSIZ w;
     (if l > 0 then
        if int (length bs) < l then None
        else
          let (n, w) = cb_write cb (take (nat l) bs) w
          in if n = 0 then Some (0, tcp, w) else xfer_receive L cb tcp w
      else Some (1, tcp, w)) }"

declare xfer_receive.simps [code]

definition file_mode :: "xfer_type \<Rightarrow> byte \<Rightarrow> byte list" where
  "file_mode typ mode = (if typ = FILE_WRITE then 0x72 else 0x77) # (if mode = BINARY then [0x62] else [])"

text \<open>\<open>mem\<close> and \<open>sa\<close> are the uninitialised memory of the new object and of the socket
  address. The reply after the transfer is read and not looked at.\<close>

definition xfer ::
  "'w ftp_env \<Rightarrow> FTPClientBase \<Rightarrow> FTPClientBase \<Rightarrow> inet_addr_port \<Rightarrow> byte list option \<Rightarrow> byte list option \<Rightarrow>
   xfer_type \<Rightarrow> byte \<Rightarrow> 'w \<Rightarrow> (int \<times> FTPClientBase \<times> 'w) option" where
  "xfer E f mem sa localfile path typ mode w =
     (if localfile \<noteq> None \<and> m_fs_cb E = None then Some (0, f, w)
      else do {
        let w = (case (localfile, m_fs_cb E) of (Some name, Some cb) \<Rightarrow> cb_open cb name (file_mode typ mode) w | _ \<Rightarrow> w);
        (d, f, w) \<leftarrow> FTPClientData_new E mem sa f path typ mode w;
        let f = f\<lparr>has_data := True\<rparr>;
        cb \<leftarrow> m_fs_cb E;
        (rv, tcp, w) \<leftarrow>
          (if typ = FILE_WRITE then do { (rv, w) \<leftarrow> xfer_send (fnet E) cb (ftp_tcp d) w; Some (rv, ftp_tcp d, w) }
           else xfer_receive (fnet E) cb (ftp_tcp d) w);
        let d = d\<lparr>ftp_tcp := tcp\<rparr>;
        let w = cb_close cb w;
        (d, f, w) \<leftarrow>
          (if tcp_bool (ftp_tcp d) then do {
             let (tcp, w) = tcp_stop (fnet E) (ftp_tcp d) w;
             (_, f, w) \<leftarrow> readResp (fnet E) f 0x32 w;
             Some (d\<lparr>ftp_tcp := tcp\<rparr>, f, w) }
           else Some (d, f, w));
        (f, w) \<leftarrow> FTPClientBase_delete (fnet E) (d\<lparr>has_ctrl := False\<rparr>) (f\<lparr>has_data := False\<rparr>) w;
        Some (rv, f, w) })"

definition getList ::
  "'w ftp_env \<Rightarrow> FTPClientBase \<Rightarrow> FTPClientBase \<Rightarrow> inet_addr_port \<Rightarrow> byte list option \<Rightarrow> byte list option \<Rightarrow> 'w \<Rightarrow>
   (int \<times> FTPClientBase \<times> 'w) option" where
  "getList E f mem sa filename path w = xfer E f mem sa filename path DIR TEXT w"

definition getFullList ::
  "'w ftp_env \<Rightarrow> FTPClientBase \<Rightarrow> FTPClientBase \<Rightarrow> inet_addr_port \<Rightarrow> byte list option \<Rightarrow> byte list option \<Rightarrow> 'w \<Rightarrow>
   (int \<times> FTPClientBase \<times> 'w) option" where
  "getFullList E f mem sa filename path w = xfer E f mem sa filename path DIR_VERBOSE TEXT w"

definition ftp_get ::
  "'w ftp_env \<Rightarrow> FTPClientBase \<Rightarrow> FTPClientBase \<Rightarrow> inet_addr_port \<Rightarrow> byte list option \<Rightarrow> byte list option \<Rightarrow> byte \<Rightarrow> 'w \<Rightarrow>
   (int \<times> FTPClientBase \<times> 'w) option" where
  "ftp_get E f mem sa loc remote mode w = xfer E f mem sa loc remote FILE_READ mode w"

definition ftp_put ::
  "'w ftp_env \<Rightarrow> FTPClientBase \<Rightarrow> FTPClientBase \<Rightarrow> inet_addr_port \<Rightarrow> byte list option \<Rightarrow> byte list option \<Rightarrow> byte \<Rightarrow> 'w \<Rightarrow>
   (int \<times> FTPClientBase \<times> 'w) option" where
  "ftp_put E f mem sa loc remote mode w = xfer E f mem sa loc remote FILE_WRITE mode w"

end
