(* ===== verification/Ftp_Lines.thy ===== *)
theory Ftp_Lines
  imports Ftp_Base
begin

text \<open>
  Lines and replies on the FTP control connection: what \<open>readLine\<close>, \<open>readResp\<close> and
  \<open>writeLine\<close> do to the byte stream, however the network cuts it into pieces.
\<close>

section \<open>The incoming stream\<close>

text \<open>The network delivers the pieces \<open>cs\<close>, each one shorter than the buffer.\<close>

inductive serves :: "'w lwip \<Rightarrow> TCPClient \<Rightarrow> 'w \<Rightarrow> byte list list \<Rightarrow> 'w \<Rightarrow> bool" for L tc where
  none: "serves L tc w [] w"
| piece: "tcp_read L tc FTPLIB_BUFSIZ w = Some (int (length c), c, tc, w1) \<Longrightarrow> c \<noteq> [] \<Longrightarrow> length c < FTPLIB_BUFSIZ \<Longrightarrow>
    serves L tc w1 cs w2 \<Longrightarrow> serves L tc w (c # cs) w2"

inductive_cases serves_ConsE: "serves L tc w (c # cs) w2"

text \<open>The buffer holds the bytes \<open>p\<close> that were read and not yet used.\<close>

definition holds :: "FTPClientBase \<Rightarrow> byte list \<Rightarrow> bool" where
  "holds f p \<longleftrightarrow> length (fbuf f) = FTPLIB_BUFSIZ \<and> cavail f = int (length p) \<and>
     (if p = [] then cput f = cget f
      else \<exists>g. cget f = Some g \<and> cput f = Some (g + length p) \<and> has (fbuf f) g p)"

text \<open>The bytes \<open>bs\<close> are still to come; when the network has delivered them all, its
  state is \<open>we\<close>.\<close>

definition stream :: "'w lwip \<Rightarrow> FTPClientBase \<Rightarrow> 'w \<Rightarrow> 'w \<Rightarrow> byte list \<Rightarrow> bool" where
  "stream L f w we bs \<longleftrightarrow> (\<exists>p cs. holds f p \<and> serves L (ftp_tcp f) w cs we \<and> p @ concat cs = bs)"

lemma streamI: "holds f p \<Longrightarrow> p @ concat cs = bs \<Longrightarrow> serves L (ftp_tcp f) w cs we \<Longrightarrow> stream L f w we bs"
  by (auto simp: stream_def)

definition same_session :: "FTPClientBase \<Rightarrow> FTPClientBase \<Rightarrow> bool" where
  "same_session f f' \<longleftrightarrow> ftp_tcp f' = ftp_tcp f \<and> dir f' = dir f \<and> response f' = response f \<and>
     has_ctrl f' = has_ctrl f \<and> has_data f' = has_data f \<and> cmode f' = cmode f"

lemma same_session_refl [simp]: "same_session f f"
  by (simp add: same_session_def)

lemma same_session_trans: "same_session f g \<Longrightarrow> same_session g h \<Longrightarrow> same_session f h"
  by (simp add: same_session_def)

section \<open>One step of \<open>readLine\<close>\<close>

lemma store_middle: "store (d @ x # t) (length d) v = Some (d @ v # t)"
  by (simp add: store_def)

lemma memccpy_found:
  assumes "0x0A \<notin> set q" and "length q < n" and "length q < length t"
  shows "memccpy 0x0A n (d @ t) (length d) (q @ 0x0A # r) =
    Some (d @ q @ 0x0A # drop (Suc (length q)) t, Some (length d + Suc (length q)))"
  using assms
proof (induction q arbitrary: n d t)
  case Nil
  then obtain m x t1 where "n = Suc m" "t = x # t1" by (cases n; cases t) auto
  then show ?case by (simp add: store_middle)
next
  case (Cons c q)
  then obtain m x t1 where n: "n = Suc m" "t = x # t1" by (cases n; cases t) auto
  with Cons.IH [of m t1 "d @ [c]"] Cons.prems show ?case by (auto simp: store_middle)
qed

lemma memccpy_all:
  assumes "0x0A \<notin> set q" and "length q \<le> length t"
  shows "memccpy 0x0A (length q) (d @ t) (length d) (q @ r) = Some (d @ q @ drop (length q) t, None)"
  using assms
proof (induction q arbitrary: d t)
  case (Cons c q)
  then obtain x t1 where t: "t = x # t1" by (cases t) auto
  with Cons.IH [of t1 "d @ [c]"] Cons.prems show ?case by (auto simp: store_middle)
qed simp

lemma has_split: "has b g p \<Longrightarrow> \<exists>r. drop g b = p @ r"
  unfolding has_def by (metis append_take_drop_id)

lemma drop_room: "n < length t \<Longrightarrow> \<exists>x. drop n t = x # drop (Suc n) t"
  by (metis Cons_nth_drop_Suc)

text \<open>All that is there belongs to the line, and the line goes on.\<close>

lemma line_take_all:
  assumes "holds f p" and "p \<noteq> []" and "0x0A \<notin> set p" and "length p < length t" and "int (length p) \<le> room"
  shows "\<exists>f'. line_take f (d @ t) (length d) room r =
      Some (False, f', d @ p @ 0 # drop (Suc (length p)) t, length d + length p, room - int (length p), r + int (length p)) \<and>
      holds f' [] \<and> same_session f f'"
proof -
  obtain g where g: "cget f = Some g" "cput f = Some (g + length p)" "has (fbuf f) g p"
    using assms(1,2) by (auto simp: holds_def)
  obtain s where s: "drop g (fbuf f) = p @ s" using has_split [OF g(3)] by blast
  obtain x where x: "drop (length p) t = x # drop (Suc (length p)) t" using drop_room [OF assms(4)] by blast
  have m: "memccpy 0x0A (length p) (d @ t) (length d) (drop g (fbuf f)) = Some (d @ p @ x # drop (Suc (length p)) t, None)"
    using memccpy_all [OF assms(3), of t d s] assms(4) s x by simp
  have z: "store (d @ p @ x # drop (Suc (length p)) t) (length d + length p) 0 = Some (d @ p @ 0 # drop (Suc (length p)) t)"
    using store_middle [of "d @ p" x "drop (Suc (length p)) t" 0] by simp
  show ?thesis
    using assms g m z
    by (intro exI [of _ "f\<lparr>cget := Some (g + length p), cavail := 0\<rparr>"])
      (auto simp: line_take_def holds_def same_session_def Let_def)
qed

text \<open>The line ends in what is there.\<close>

lemma end_of_line_crlf:
  "end_of_line (line @ 0x0D # 0x0A # 0 # t) (length line + 2) r = Some (line @ 0x0A # 0 # 0 # t, r - 1)"
  by (simp add: end_of_line_def load_def store_def nth_append list_update_append)

lemma line_take_end:
  assumes h: "holds f (q @ 0x0A # p)" and q: "0x0A \<notin> set q" and l: "d @ q = line @ [0x0D]"
    and t: "Suc (length q) < length t" and room: "int (Suc (length q)) < room"
  shows "\<exists>f' n. line_take f (d @ t) (length d) room r =
      Some (True, f', line @ 0x0A # 0 # 0 # drop (Suc (Suc (length q))) t, length line + 2, n, r + int (length q)) \<and>
      holds f' p \<and> same_session f f'"
proof -
  obtain g where g: "cget f = Some g" "cput f = Some (g + Suc (length q + length p))" "has (fbuf f) g (q @ 0x0A # p)"
    "cavail f = int (Suc (length q + length p))" "length (fbuf f) = FTPLIB_BUFSIZ"
    using h by (auto simp: holds_def)
  obtain s where s: "drop g (fbuf f) = q @ 0x0A # p @ s" using has_split [OF g(3)] by auto
  define x where "x = (if room \<ge> cavail f then cavail f else room - 1)"
  have x: "0 \<le> x" "length q < nat x" using room g(4) by (auto simp: x_def)
  obtain y where y: "drop (Suc (length q)) t = y # drop (Suc (Suc (length q))) t" using drop_room [OF t] by blast
  have m: "memccpy 0x0A (nat x) (d @ t) (length d) (drop g (fbuf f)) =
      Some (line @ 0x0D # 0x0A # y # drop (Suc (Suc (length q))) t, Some (length d + Suc (length q)))"
    using memccpy_found [OF q x(2), of t d "p @ s"] t s y l by (metis append.assoc append_Cons append_Nil Suc_lessD)
  have len: "length d + Suc (length q) = length line + 2" using arg_cong [OF l, of length] by simp
  have e1: "Suc (Suc (length line)) - length d = Suc (length q)" using len by simp
  have e2: "length d + (Suc (Suc (length line)) - length d) = Suc (Suc (length line))" using len by simp
  have z: "store (line @ 0x0D # 0x0A # y # drop (Suc (Suc (length q))) t) (length line + 2) 0 =
      Some (line @ 0x0D # 0x0A # 0 # drop (Suc (Suc (length q))) t)"
    by (simp add: store_def list_update_append)
  define f' where "f' = f\<lparr>cget := Some (g + Suc (length q)), cavail := cavail f - int (Suc (length q))\<rparr>"
  have "has (fbuf f) (g + Suc (length q)) p" using g(3) by (simp add: has_append has_Cons)
  then have "holds f' p" "same_session f f'" using g by (auto simp: f'_def holds_def same_session_def)
  moreover have "line_take f (d @ t) (length d) room r =
      Some (True, f', line @ 0x0A # 0 # 0 # drop (Suc (Suc (length q))) t, length line + 2,
        room - int (Suc (length q)), r + int (length q))"
    unfolding line_take_def x_def [symmetric] Let_def
    using x(1) g(1) m [unfolded len] z e1 e2 end_of_line_crlf [of line "drop (Suc (Suc (length q))) t" "r + int (Suc (length q))"]
    by (simp add: f'_def)
  ultimately show ?thesis by blast
qed

lemma line_fill_piece:
  assumes h: "holds f []" and r: "tcp_read L (ftp_tcp f) FTPLIB_BUFSIZ w = Some (int (length c), c, ftp_tcp f, w1)"
    and c: "c \<noteq> []" "length c < FTPLIB_BUFSIZ"
  shows "\<exists>f'. line_fill L (line_reset f) w = Some (int (length c), f', w1) \<and> holds f' c \<and> same_session f f'"
proof -
  define mem where "mem = (c @ drop (length c) (fbuf f))[length c := 0]"
  have len: "length (fbuf f) = FTPLIB_BUFSIZ" "cput f = cget f" using h by (auto simp: holds_def)
  have "has mem 0 c" using len c by (simp add: has_def mem_def)
  then have "holds (f\<lparr>cput := Some (length c), cget := Some 0, cavail := int (length c), cleft := int FTPLIB_BUFSIZ - int (length c),
      fbuf := mem\<rparr>) c"
    using len c by (auto simp: holds_def mem_def)
  moreover have "same_session f (f\<lparr>cput := Some (length c), cget := Some 0, cavail := int (length c),
      cleft := int FTPLIB_BUFSIZ - int (length c), fbuf := mem\<rparr>)"
    by (simp add: same_session_def)
  moreover have "line_fill L (line_reset f) w = Some (int (length c), f\<lparr>cput := Some (length c), cget := Some 0,
      cavail := int (length c), cleft := int FTPLIB_BUFSIZ - int (length c), fbuf := mem\<rparr>, w1)"
    using len r c by (simp add: line_fill_def line_reset_def memcpy_def store_def mem_def Let_def)
  ultimately show ?thesis by blast
qed

lemma until_newline:
  assumes "xs @ ys = line @ [0x0D, 0x0A] @ rest" and "length xs \<le> length line + 1"
  shows "\<exists>zs. xs @ zs = line @ [0x0D] \<and> ys = zs @ 0x0A # rest"
proof -
  have "xs @ ys = (line @ [0x0D]) @ 0x0A # rest" using assms(1) by simp
  then obtain us where "(xs = (line @ [0x0D]) @ us \<and> us @ ys = 0x0A # rest) \<or> (xs @ us = line @ [0x0D] \<and> ys = us @ 0x0A # rest)"
    unfolding append_eq_append_conv2 by auto
  then show ?thesis using assms(2) by (cases us) auto
qed

lemma first_newline:
  "q @ x # p = zs @ x # rest \<Longrightarrow> x \<notin> set q \<Longrightarrow> x \<notin> set zs \<Longrightarrow> q = zs \<and> p = rest"
  by (induction q arbitrary: zs) (case_tac zs; auto)+

lemma line_goes_on:
  assumes "holds f p" and "0x0A \<notin> set p" and "length p < length t"
  shows "\<exists>f1 t1. (if cavail f > 0 then line_take f (d @ t) (length d) (int (length t)) (int (length d))
        else Some (False, f, d @ t, length d, int (length t), int (length d))) =
      Some (False, f1, (d @ p) @ t1, length (d @ p), int (length t1), int (length (d @ p))) \<and>
      length t1 + length p = length t \<and> (\<forall>n. n > length p \<longrightarrow> drop (n - length p) t1 = drop n t) \<and>
      holds f1 [] \<and> same_session f f1"
proof (cases "p = []")
  case True
  then show ?thesis using assms(1) by (intro exI [of _ f] exI [of _ t]) (simp add: holds_def)
next
  case False
  from line_take_all [OF assms(1) False assms(2,3), of "int (length t)" d "int (length d)"] obtain f1 where
    f1: "line_take f (d @ t) (length d) (int (length t)) (int (length d)) =
      Some (False, f1, d @ p @ 0 # drop (Suc (length p)) t, length d + length p, int (length t) - int (length p), int (length d) + int (length p))"
      "holds f1 []" "same_session f f1"
    using assms(3) by auto
  have "cavail f > 0" using assms(1) False by (simp add: holds_def)
  moreover have "drop (n - length p) (0 # drop (Suc (length p)) t) = drop n t" if "n > length p" for n
  proof -
    define k where "k = n - Suc (length p)"
    have "n = length p + Suc k" using that by (simp add: k_def)
    then show ?thesis by (simp add: add.commute)
  qed
  ultimately show ?thesis
    using f1 assms(3) by (intro exI [of _ f1] exI [of _ "0 # drop (Suc (length p)) t"]) (auto simp: of_nat_diff)
qed

lemma readLine_loop_ends:
  assumes h: "holds f p" and nl: "0x0A \<in> set p" and p: "p @ s = zs @ 0x0A # rest" and zs: "d @ zs = line @ [0x0D]"
    and line: "0x0A \<notin> set line" and t: "length line + 3 \<le> length d + length t"
  shows "\<exists>f' p'. readLine_loop L f (d @ t) (length d) (int (length t)) (int (length d)) False w =
      Some (int (length line) + 1, line @ 0x0A # 0 # 0 # drop (length line + 3) (d @ t), f', w) \<and>
      holds f' p' \<and> p' @ s = rest \<and> same_session f f'"
proof -
  obtain q p' where q: "p = q @ 0x0A # p'" "0x0A \<notin> set q" using split_list_first [OF nl] by blast
  have "set zs \<subseteq> set line \<union> {0x0D}" using arg_cong [OF zs, of set] by auto
  then have nz: "0x0A \<notin> set zs" using line by auto
  have "q @ 0x0A # p' @ s = zs @ 0x0A # rest" using p q(1) by simp
  from first_newline [OF this q(2) nz] have e: "q = zs" "p' @ s = rest" by blast+
  have len: "length d + length zs = length line + 1" using arg_cong [OF zs, of length] by simp
  have "cavail f > 0" using h q by (simp add: holds_def)
  moreover obtain f' n where "line_take f (d @ t) (length d) (int (length t)) (int (length d)) =
      Some (True, f', line @ 0x0A # 0 # 0 # drop (Suc (Suc (length q))) t, length line + 2, n, int (length d) + int (length q))"
      "holds f' p'" "same_session f f'"
    using line_take_end [of f q p' d line t "int (length t)" "int (length d)"] h q e(1) zs t len by auto
  moreover have "drop (Suc (Suc (length q))) t = drop (length line + 3) (d @ t)"
  proof -
    have k: "length line + 3 = length d + Suc (Suc (length q))" using len e(1) by simp
    show ?thesis unfolding k by simp
  qed
  moreover have "int (length d) + int (length q) = int (length line) + 1" using len e(1) by simp
  ultimately show ?thesis using e(2) by (subst readLine_loop.simps) auto
qed

lemma readLine_loop_line:
  assumes "holds f p" and "serves L (ftp_tcp f) w cs w'" and "d @ p @ concat cs = line @ [0x0D, 0x0A] @ rest"
    and "0x0A \<notin> set line" and "length d \<le> length line + 1" and "length line + 3 \<le> length d + length t"
  shows "\<exists>f' w1. readLine_loop L f (d @ t) (length d) (int (length t)) (int (length d)) False w =
      Some (int (length line) + 1, line @ 0x0A # 0 # 0 # drop (length line + 3) (d @ t), f', w1) \<and>
      stream L f' w1 w' rest \<and> same_session f f'"
  using assms
proof (induction cs arbitrary: f p d t w)
  case (Nil f p d t w)
  obtain zs where zs: "d @ zs = line @ [0x0D]" "p = zs @ 0x0A # rest"
    using until_newline [OF Nil.prems(3,5)] by auto
  have "0x0A \<in> set p" "p @ [] = zs @ 0x0A # rest" using zs(2) by simp_all
  from readLine_loop_ends [OF Nil.prems(1) this zs(1) Nil.prems(4,6), of L w]
  show ?case using Nil.prems(2) by (fastforce simp: same_session_def intro: streamI [where cs = "[]"])
next
  case (Cons c cs f p d t w)
  obtain zs where zs: "d @ zs = line @ [0x0D]" "p @ concat (c # cs) = zs @ 0x0A # rest"
    using until_newline [OF Cons.prems(3,5)] by auto
  have len: "length d + length zs = length line + 1" using arg_cong [OF zs(1), of length] by simp
  show ?case
  proof (cases "0x0A \<in> set p")
    case True
    from readLine_loop_ends [OF Cons.prems(1) True zs(2,1) Cons.prems(4,6), of L w]
    obtain f' p' where f': "readLine_loop L f (d @ t) (length d) (int (length t)) (int (length d)) False w =
        Some (int (length line) + 1, line @ 0x0A # 0 # 0 # drop (length line + 3) (d @ t), f', w)"
      "holds f' p'" "p' @ concat (c # cs) = rest" "same_session f f'" by blast
    then have "serves L (ftp_tcp f') w (c # cs) w'" using Cons.prems(2) by (simp add: same_session_def)
    with f' show ?thesis by (blast intro: streamI)
  next
    case False
    obtain us where "p = zs @ us \<and> us @ concat (c # cs) = 0x0A # rest \<or> p @ us = zs"
      using zs(2) unfolding append_eq_append_conv2 by blast
    then have "\<exists>us. zs = p @ us" using False by (cases us) auto
    then obtain us where us: "zs = p @ us" by blast
    obtain f1 t1 where f1: "(if cavail f > 0 then line_take f (d @ t) (length d) (int (length t)) (int (length d))
        else Some (False, f, d @ t, length d, int (length t), int (length d))) =
        Some (False, f1, (d @ p) @ t1, length (d @ p), int (length t1), int (length (d @ p)))"
      "length t1 + length p = length t" "\<forall>n. n > length p \<longrightarrow> drop (n - length p) t1 = drop n t"
      "holds f1 []" "same_session f f1"
      using line_goes_on [OF Cons.prems(1) False, of t d] us len Cons.prems(6) by auto
    have tc: "ftp_tcp f1 = ftp_tcp f" using f1(5) by (simp add: same_session_def)
    obtain w1 where w1: "tcp_read L (ftp_tcp f1) FTPLIB_BUFSIZ w = Some (int (length c), c, ftp_tcp f1, w1)"
      "c \<noteq> []" "length c < FTPLIB_BUFSIZ" "serves L (ftp_tcp f) w1 cs w'"
      unfolding tc by (rule serves_ConsE [OF Cons.prems(2)])
    obtain f2 where f2: "line_fill L (line_reset f1) w = Some (int (length c), f2, w1)" "holds f2 c" "same_session f1 f2"
      using line_fill_piece [OF f1(4) w1(1-3)] by blast
    have n1: "int (length t1) \<noteq> 1" using f1(2) us len Cons.prems(6) by auto
    have ss: "same_session f f2" using f1(5) f2(3) by (rule same_session_trans)
    have "readLine_loop L f (d @ t) (length d) (int (length t)) (int (length d)) False w =
        readLine_loop L f2 ((d @ p) @ t1) (length (d @ p)) (int (length t1)) (int (length (d @ p))) False w1"
      using n1 f2(1) w1(2) by (subst readLine_loop.simps) (simp only: f1(1), simp)
    moreover have "drop (length line + 3) ((d @ p) @ t1) = drop (length line + 3) (d @ t)"
      using f1(3) [rule_format, of "length line + 3 - length d"] us len by simp
    moreover have "serves L (ftp_tcp f2) w1 cs w'" using w1(4) ss by (simp add: same_session_def)
    moreover note Cons.IH [OF f2(2), of w1 "d @ p" t1]
    ultimately show ?thesis
      using Cons.prems(3,4,6) us len f1(2) ss by (auto intro: same_session_trans)
  qed
qed

lemma readLine_line:
  assumes "stream L f w we (line @ [0x0D, 0x0A] @ rest)" and "0x0A \<notin> set line"
    and "dir f = FTPLIB_CONTROL \<or> dir f = FTPLIB_READ" and "length line + 3 \<le> length dst"
  shows "\<exists>f' w1. readLine L f dst (length dst) w =
      Some (int (length line) + 1, line @ 0x0A # 0 # 0 # drop (length line + 3) dst, f', w1) \<and>
      stream L f' w1 we rest \<and> same_session f f'"
proof -
  obtain p cs where s: "holds f p" "serves L (ftp_tcp f) w cs we" "[] @ p @ concat cs = line @ [0x0D, 0x0A] @ rest"
    using assms(1) by (auto simp: stream_def)
  have "dst \<noteq> []" using assms(4) by auto
  with readLine_loop_line [OF s assms(2), of dst] assms(3,4) show ?thesis
    by (auto simp: readLine_def FTPLIB_CONTROL_def FTPLIB_READ_def)
qed

text \<open>
  however the network cuts the stream into pieces, \<open>readLine\<close> stores the next line
  up to its CR LF, with the CR removed, returns its length, and leaves exactly the
  rest of the stream for the next call.
\<close>

theorem readLine_next_line:
  assumes "stream L f w we (line @ [0x0D, 0x0A] @ rest)" and "0x0A \<notin> set line"
    and "dir f = FTPLIB_CONTROL \<or> dir f = FTPLIB_READ" and "length line + 3 \<le> length dst"
  shows "\<exists>f' w1. readLine L f dst (length dst) w =
      Some (int (length line) + 1, line @ 0x0A # 0 # 0 # drop (length line + 3) dst, f', w1) \<and>
      stream L f' w1 we rest \<and> same_session f f'"
  using assms by (rule readLine_line)

section \<open>Replies\<close>

definition wire :: "byte list list \<Rightarrow> byte list" where
  "wire ls = concat (map (\<lambda>l. l @ [0x0D, 0x0A]) ls)"

text \<open>A reply is one line, or it starts with a code and a hyphen and ends with the
  first line that starts with the same code and a space (RFC 959, 4.2).\<close>

definition closes :: "byte list \<Rightarrow> byte list \<Rightarrow> bool" where
  "closes l m \<longleftrightarrow> take 4 m = take 3 l @ [0x20]"

definition multi :: "byte list \<Rightarrow> bool" where
  "multi l \<longleftrightarrow> length l > 3 \<and> l ! 3 = 0x2D"

definition line_ok :: "byte list \<Rightarrow> bool" where
  "line_ok l \<longleftrightarrow> l \<noteq> [] \<and> length l + 3 \<le> FTPLIB_RESPONSE_BUFSIZ \<and> 0x0A \<notin> set l \<and> 0 \<notin> set l"

definition is_reply :: "byte list list \<Rightarrow> bool" where
  "is_reply ls \<longleftrightarrow>
     (case ls of
        [] \<Rightarrow> False
      | l # ls \<Rightarrow> if multi l then ls \<noteq> [] \<and> closes l (last ls) \<and> (\<forall>m \<in> set (butlast ls). \<not> closes l m) else ls = [])"

definition same_conn :: "FTPClientBase \<Rightarrow> FTPClientBase \<Rightarrow> bool" where
  "same_conn f f' \<longleftrightarrow> ftp_tcp f' = ftp_tcp f \<and> dir f' = dir f \<and> length (response f') = length (response f) \<and>
     has_ctrl f' = has_ctrl f \<and> has_data f' = has_data f \<and> cmode f' = cmode f"

lemma same_conn_trans: "same_conn f g \<Longrightarrow> same_conn g h \<Longrightarrow> same_conn f h"
  by (simp add: same_conn_def)

lemma stream_response [simp]: "stream L (f\<lparr>response := r\<rparr>) w we bs \<longleftrightarrow> stream L f w we bs"
  by (simp add: stream_def holds_def)

lemma read_response_line:
  assumes "stream L f w we (wire (l # ls) @ rest)" and "line_ok l"
    and "dir f = FTPLIB_CONTROL" and "length (response f) = FTPLIB_RESPONSE_BUFSIZ"
  shows "\<exists>f' w1. read_response L f w = Some (int (length l) + 1, f', w1) \<and> stream L f' w1 we (wire ls @ rest) \<and>
      same_conn f f' \<and> response f' = l @ 0x0A # 0 # 0 # drop (length l + 3) (response f)"
proof -
  have "stream L f w we (l @ [0x0D, 0x0A] @ wire ls @ rest)" using assms(1) by (simp add: wire_def)
  from readLine_line [OF this, of "response f"] assms(2-4)
  obtain f' w1 where "readLine L f (response f) FTPLIB_RESPONSE_BUFSIZ w =
      Some (int (length l) + 1, l @ 0x0A # 0 # 0 # drop (length l + 3) (response f), f', w1)"
      "stream L f' w1 we (wire ls @ rest)" "same_session f f'"
    by (auto simp: line_ok_def)
  then show ?thesis using assms(2,4) by (auto simp: read_response_def same_conn_def same_session_def line_ok_def)
qed

lemma strncmp_eq_prefix:
  "0 \<notin> set pat \<Longrightarrow> 0x0A \<notin> set pat \<Longrightarrow> strncmp_eq (length pat) (m @ 0x0A # t) (pat @ z) = Some (take (length pat) m = pat)"
proof (induction pat arbitrary: m)
  case (Cons y pat)
  then show ?case by (cases m) auto
qed simp

lemma strncpy_no_zero: "0 \<notin> set l \<Longrightarrow> n \<le> length l \<Longrightarrow> strncpy n (l @ t) = take n l"
proof (induction n arbitrary: l)
  case (Suc n)
  then show ?case by (cases l) auto
qed simp

lemma readResp_loop_closes:
  assumes "stream L f w we (wire ls @ rest)" and "\<forall>m \<in> set ls. line_ok m" and "multi l" and "line_ok l"
    and "ls \<noteq> []" and "closes l (last ls)" and "\<forall>m \<in> set (butlast ls). \<not> closes l m"
    and "dir f = FTPLIB_CONTROL" and "length (response f) = FTPLIB_RESPONSE_BUFSIZ"
  shows "\<exists>f' w1 t. readResp_loop L (take 3 l @ [0x20, 0]) f w = Some (True, f', w1) \<and> stream L f' w1 we rest \<and>
      same_conn f f' \<and> response f' = last ls @ 0x0A # 0 # t"
  using assms
proof (induction ls arbitrary: f w)
  case (Cons m ls)
  obtain f1 w1 where r: "read_response L f w = Some (int (length m) + 1, f1, w1)" "stream L f1 w1 we (wire ls @ rest)"
      "same_conn f f1" "response f1 = m @ 0x0A # 0 # 0 # drop (length m + 3) (response f)"
    using read_response_line [OF Cons.prems(1)] Cons.prems(2,8,9) by auto
  have pat: "length (take 3 l @ [0x20]) = 4" "0 \<notin> set (take 3 l @ [0x20])" "0x0A \<notin> set (take 3 l @ [0x20])"
    using Cons.prems(3,4) by (auto simp: multi_def line_ok_def dest: in_set_takeD)
  from strncmp_eq_prefix [OF pat(2,3), of m "0 # 0 # drop (length m + 3) (response f)" "[0]", unfolded pat(1)]
  have c: "strncmp_eq 4 (response f1) (take 3 l @ [0x20, 0]) = Some (closes l m)"
    by (simp add: r(4) closes_def)
  show ?case
  proof (cases "closes l m")
    case True
    then have "ls = []" using Cons.prems(7) by (cases ls) auto
    with True r c show ?thesis by (subst readResp_loop.simps) (auto simp: wire_def)
  next
    case False
    then have "ls \<noteq> []" using Cons.prems(6) by auto
    with Cons.IH [OF r(2)] Cons.prems r(3) obtain f' w2 t where
      "readResp_loop L (take 3 l @ [0x20, 0]) f1 w1 = Some (True, f', w2)" "stream L f' w2 we rest" "same_conn f1 f'"
      "response f' = last ls @ 0x0A # 0 # t"
      by (auto simp: same_conn_def)
    with False r(1,3) c \<open>ls \<noteq> []\<close> show ?thesis
      by (subst readResp_loop.simps) (auto intro: same_conn_trans)
  qed
qed simp

lemma readResp_one_reply_lemma:
  assumes "stream L f w we (wire ls @ rest)" and "is_reply ls" and "\<forall>l \<in> set ls. line_ok l"
    and "dir f = FTPLIB_CONTROL" and "length (response f) = FTPLIB_RESPONSE_BUFSIZ"
  shows "\<exists>f' w1 t. readResp L f c w = Some (if hd (last ls) = c then 1 else 0, f', w1) \<and> stream L f' w1 we rest \<and>
      same_conn f f' \<and> response f' = last ls @ 0x0A # 0 # t"
proof -
  obtain l ms where ls: "ls = l # ms" using assms(2) by (cases ls) (auto simp: is_reply_def)
  have l: "line_ok l" "l \<noteq> []" using assms(3) by (auto simp: ls line_ok_def)
  obtain f1 w1 where r: "read_response L f w = Some (int (length l) + 1, f1, w1)" "stream L f1 w1 we (wire ms @ rest)"
      "same_conn f f1" "response f1 = l @ 0x0A # 0 # 0 # drop (length l + 3) (response f)"
    using read_response_line [OF assms(1) [unfolded ls] l(1) assms(4,5)] by auto
  have hd: "load (response f1) 0 = Some (hd l)" using l(2) by (cases l) (simp_all add: r(4) load_def)
  have "\<exists>x. load (response f1) 3 = Some x \<and> (x = 0x2D \<longleftrightarrow> multi l)"
  proof (cases "length l > 3")
    case False
    moreover have "length l > 0" using l(2) by simp
    ultimately have "length l = 1 \<or> length l = 2 \<or> length l = 3" by linarith
    then consider "length l = 1" | "length l = 2" | "length l = 3" by blast
    then show ?thesis by cases (auto simp: r(4) load_def multi_def nth_append)
  qed (use l(2) in \<open>simp add: r(4) load_def multi_def nth_append\<close>)
  then obtain x where x: "load (response f1) 3 = Some x" "x = 0x2D \<longleftrightarrow> multi l" by blast
  show ?thesis
  proof (cases "multi l")
    case False
    then have "ms = []" using assms(2) by (simp add: ls is_reply_def)
    with False r x hd show ?thesis by (simp add: readResp_def ls wire_def)
  next
    case True
    then have ms: "ms \<noteq> []" "closes l (last ms)" "\<forall>m \<in> set (butlast ms). \<not> closes l m" using assms(2) by (simp_all add: ls is_reply_def)
    have len: "strncpy 3 (response f1) = take 3 l" using l(1) True by (simp add: r(4) strncpy_no_zero line_ok_def multi_def)
    obtain f2 w2 t where f2: "readResp_loop L (take 3 l @ [0x20, 0]) f1 w1 = Some (True, f2, w2)" "stream L f2 w2 we rest"
        "same_conn f1 f2" "response f2 = last ms @ 0x0A # 0 # t"
      using readResp_loop_closes [OF r(2) _ True l(1) ms] assms(3-5) r(3) by (auto simp: ls same_conn_def)
    have "last ms \<noteq> []" using assms(3) ms(1) by (auto simp: ls line_ok_def dest: bspec [where x = "last ms"])
    then have "load (response f2) 0 = Some (hd (last ms))" by (cases "last ms") (simp_all add: f2(4) load_def)
    with True r(1,3) x f2 ms(1) len show ?thesis by (auto simp: readResp_def ls intro: same_conn_trans)
  qed
qed


section \<open>Writing\<close>

text \<open>A network that takes all it is given; \<open>sent\<close> is what it was given so far.\<close>

definition reliable :: "'w lwip \<Rightarrow> ('w \<Rightarrow> byte list) \<Rightarrow> bool" where
  "reliable L sent \<longleftrightarrow>
     (\<forall>fd b w. fst (lwip_write L fd b w) = int (length b) \<and> sent (snd (lwip_write L fd b w)) = sent w @ b) \<and>
     (\<forall>fd p w. sent (snd (lwip_setsockopt L fd p w)) = sent w)"

lemma reliable_write:
  assumes "reliable L sent" and "m_socket_fd c \<ge> 0" and "length b \<le> FTPLIB_BUFSIZ" and "tcp_write L c b w = (n, w')"
  shows "sint n = int (length b)" "sent w' = sent w @ b"
proof -
  obtain o1 w1 where 1: "lwip_setsockopt L (m_socket_fd c) (SO_SNDTIMEO (m_so_timeout c)) w = (o1, w1)" by fastforce
  obtain rc w2 where 2: "lwip_write L (m_socket_fd c) b w1 = (rc, w2)" by fastforce
  have rc: "rc = int (length b)" "sent w1 = sent w" "sent w2 = sent w1 @ b"
    using assms(1) 1 2 unfolding reliable_def by (metis fst_conv snd_conv)+
  have "n = word_of_nat (length b)" "w' = w2" using assms(2,4) 1 2 rc(1) by (auto simp: tcp_write_def)
  then show "sint n = int (length b)" "sent w' = sent w @ b"
    using rc assms(3) int_of_size_small [of "length b"] by (simp_all add: int_of_size_def FTPLIB_BUFSIZ_def)
qed

text \<open>A CR in front of every LF that has none.\<close>

primrec crlf :: "byte \<Rightarrow> byte list \<Rightarrow> byte list" where
  "crlf lc [] = []"
| "crlf lc (c # cs) = (if c = 0x0A \<and> lc \<noteq> 0x0D then [0x0D] else []) @ c # crlf c cs"

definition unsent :: "('w \<Rightarrow> byte list) \<Rightarrow> FTPClientBase \<Rightarrow> nat \<Rightarrow> 'w \<Rightarrow> byte list" where
  "unsent sent f nb w = sent w @ take nb (fbuf f)"

definition buf_ok :: "FTPClientBase \<Rightarrow> nat \<Rightarrow> bool" where
  "buf_ok f nb \<longleftrightarrow> length (fbuf f) = FTPLIB_BUFSIZ \<and> nb \<le> FTPLIB_BUFSIZ \<and> m_socket_fd (ftp_tcp f) \<ge> 0"

lemma write_char_reliable:
  assumes "reliable L sent" and "buf_ok f nb"
  shows "\<exists>f' nb' w'. write_char L f nb c w = Some (Inr (f', nb'), w') \<and> buf_ok f' nb' \<and>
      unsent sent f' nb' w' = unsent sent f nb w @ [c]"
proof -
  have "\<exists>nb' w'. flush_line L f nb w = (Inr nb', w') \<and> nb' < FTPLIB_BUFSIZ \<and> sent w' @ take nb' (fbuf f) = unsent sent f nb w"
  proof (cases "nb = FTPLIB_BUFSIZ")
    case True
    obtain n w' where n: "tcp_write L (ftp_tcp f) (take FTPLIB_BUFSIZ (fbuf f)) w = (n, w')" by fastforce
    have "m_socket_fd (ftp_tcp f) \<ge> 0" "length (take FTPLIB_BUFSIZ (fbuf f)) = FTPLIB_BUFSIZ"
      using assms(2) by (simp_all add: buf_ok_def)
    with reliable_write [OF assms(1) _ _ n] True n show ?thesis by (simp add: flush_line_def unsent_def FTPLIB_BUFSIZ_def)
  qed (use assms(2) in \<open>simp add: flush_line_def unsent_def buf_ok_def\<close>)
  then obtain nb' w' where f: "flush_line L f nb w = (Inr nb', w')" "nb' < FTPLIB_BUFSIZ"
    "sent w' @ take nb' (fbuf f) = unsent sent f nb w" by blast
  have "take (Suc nb') ((fbuf f)[nb' := c]) = take nb' (fbuf f) @ [c]"
    using f(2) assms(2) by (simp add: buf_ok_def take_Suc_conv_app_nth)
  with f assms(2) show ?thesis
    by (auto simp: write_char_def add_char_def store_def buf_ok_def unsent_def)
qed

lemma writeLine_loop_reliable:
  assumes "reliable L sent" and "buf_ok f nb"
  shows "\<exists>f' nb' w'. writeLine_loop L cs f nb lc w = Some (Inr (f', nb'), w') \<and> buf_ok f' nb' \<and>
      unsent sent f' nb' w' = unsent sent f nb w @ crlf lc cs"
  using assms(2)
proof (induction cs arbitrary: f nb lc w)
  case (Cons c cs)
  obtain f1 nb1 w1 where 1: "(if c = 0x0A \<and> lc \<noteq> 0x0D then write_char L f nb 0x0D w else Some (Inr (f, nb), w)) =
      Some (Inr (f1, nb1), w1)" "buf_ok f1 nb1"
    "unsent sent f1 nb1 w1 = unsent sent f nb w @ (if c = 0x0A \<and> lc \<noteq> 0x0D then [0x0D] else [])"
    using write_char_reliable [OF assms(1) Cons.prems, of "0x0D" w] Cons.prems by (cases "c = 0x0A \<and> lc \<noteq> 0x0D") auto
  obtain f2 nb2 w2 where 2: "write_char L f1 nb1 c w1 = Some (Inr (f2, nb2), w2)" "buf_ok f2 nb2"
    "unsent sent f2 nb2 w2 = unsent sent f1 nb1 w1 @ [c]"
    using write_char_reliable [OF assms(1) 1(2)] by blast
  from Cons.IH [OF 2(2), of c w2] show ?case
    unfolding writeLine_loop.simps 1(1) by (auto simp: 2 1(3))
qed simp

text \<open>
  on a network that takes all it is given, \<open>writeLine\<close> sends the text with a CR in
  front of every LF that has none, as one run of bytes, wherever the buffer of 512
  bytes fills up in between.
\<close>

theorem writeLine_sends_crlf:
  assumes "reliable L sent" and "m_socket_fd (ftp_tcp f) \<ge> 0" and "length (fbuf f) = FTPLIB_BUFSIZ" and "dir f = FTPLIB_WRITE"
  shows "\<exists>f' w'. writeLine L f msg w = Some (int (length msg), f', w') \<and> sent w' = sent w @ crlf 0 msg"
proof -
  have "buf_ok f 0" using assms by (simp add: buf_ok_def)
  from writeLine_loop_reliable [OF assms(1) this, of msg 0 w] obtain f' nb' w' where
    1: "writeLine_loop L msg f 0 0 w = Some (Inr (f', nb'), w')" "buf_ok f' nb'" "unsent sent f' nb' w' = sent w @ crlf 0 msg"
    by (auto simp: unsent_def)
  obtain n w2 where 2: "tcp_write L (ftp_tcp f') (take nb' (fbuf f')) w' = (n, w2)" by fastforce
  have "m_socket_fd (ftp_tcp f') \<ge> 0" "length (take nb' (fbuf f')) = nb'" "nb' \<le> FTPLIB_BUFSIZ"
    using 1(2) by (simp_all add: buf_ok_def)
  with reliable_write [OF assms(1) _ _ 2] 1 2 assms(4) show ?thesis
    by (cases "nb' = 0") (auto simp: writeLine_def unsent_def)
qed

section \<open>A network that follows a script\<close>

text \<open>It delivers the given pieces and keeps what it is given.\<close>

definition script_net :: "(byte list list \<times> byte list) lwip" where
  "script_net =
     \<lparr>lwip_socket = (\<lambda>_ w. (3, w)), lwip_setsockopt = (\<lambda>_ _ w. (0, w)), lwip_getsockopt_error = (\<lambda>_ w. (0, w)),
      lwip_close = (\<lambda>_ w. w), lwip_shutdown = (\<lambda>_ w. w), lwip_connect = (\<lambda>_ _ w. (0, w)),
      lwip_write = (\<lambda>_ bs (ins, out). (int (length bs), ins, out @ bs)), lwip_ioctl_FIONREAD = (\<lambda>_ w. (0, w)),
      lwip_select_read = (\<lambda>_ w. Some (1, w)),
      lwip_recv = (\<lambda>_ _ (ins, out). case ins of [] \<Rightarrow> (0, [], [], out) | c # cs \<Rightarrow> (int (length c), c, cs, out)),
      lwip_sendto = (\<lambda>_ bs _ w. (int (length bs), w)), lwip_recvfrom = (\<lambda>_ _ a w. (0, [], a, w)),
      lwip_bind = (\<lambda>_ _ w. (0, w)), lwip_listen = (\<lambda>_ _ w. (0, w)), lwip_accept = (\<lambda>_ a w. (4, a, w)),
      lwip_getsockname = (\<lambda>_ a w. (0, a, w)), lwip_getaddrinfo = (\<lambda>_ w. (0, [], w)), lwip_freeaddrinfo = (\<lambda>_ w. w),
      inet_addr = (\<lambda>_. 1), lwip_htons = (\<lambda>x. x), lwip_htonl = (\<lambda>x. x), lwip_char_signed = True\<rparr>"

definition script_conn :: TCPClient where
  "script_conn = \<lparr>m_socket_fd = 3, m_sa = no_address, m_so_timeout = (5, 0), tc_connected = True\<rparr>"

definition script_ftp :: "int \<Rightarrow> FTPClientBase" where
  "script_ftp d =
     \<lparr>ftp_tcp = script_conn, cput = None, cget = None, cavail = 0, cleft = 0, dir = d, has_ctrl = False, has_data = False,
      cmode = 1, idletime = (0, 0), xfered = 0, xfered1 = 0, fbuf = replicate FTPLIB_BUFSIZ 0,
      response = replicate FTPLIB_RESPONSE_BUFSIZ 0\<rparr>"

lemma script_serves:
  "\<forall>c \<in> set cs. c \<noteq> [] \<and> length c < FTPLIB_BUFSIZ \<Longrightarrow> serves script_net script_conn (cs, out) cs ([], out)"
proof (induction cs)
  case (Cons c cs)
  have "tcp_read script_net script_conn FTPLIB_BUFSIZ (c # cs, out) = Some (int (length c), c, script_conn, cs, out)"
    by (simp add: tcp_read_def script_net_def script_conn_def)
  with Cons show ?case by (intro serves.piece) auto
qed (simp add: serves.none)

lemma script_stream:
  "\<forall>c \<in> set cs. c \<noteq> [] \<and> length c < FTPLIB_BUFSIZ \<Longrightarrow> concat cs = bs \<Longrightarrow> stream script_net (script_ftp d) (cs, out) ([], out) bs"
  using script_serves [of cs out] unfolding stream_def
  by (intro exI [of _ "[]"] exI [of _ cs]) (simp add: holds_def script_ftp_def)

text \<open>The piece boundaries cut the line end in two.\<close>

theorem readLine_next_line_witness:
  "\<exists>f' w1. readLine script_net (script_ftp 0) (replicate 6 0) (length (replicate 6 (0 :: byte)))
       ([[0x61, 0x62, 0x0D], [0x0A, 0x63]], []) =
     Some (3, [0x61, 0x62] @ 0x0A # 0 # 0 # drop (length [0x61, 0x62 :: byte] + 3) (replicate 6 0), f', w1) \<and>
     stream script_net f' w1 ([], []) [0x63]"
proof -
  have 1: "stream script_net (script_ftp 0) ([[0x61, 0x62, 0x0D], [0x0A, 0x63]], []) ([], []) ([0x61, 0x62] @ [0x0D, 0x0A] @ [0x63])"
    by (rule script_stream) (simp_all add: FTPLIB_BUFSIZ_def)
  have 2: "0x0A \<notin> set [0x61, 0x62 :: byte]" and 3: "length [0x61, 0x62 :: byte] + 3 \<le> length (replicate 6 (0 :: byte))"
    and 4: "dir (script_ftp 0) = FTPLIB_CONTROL \<or> dir (script_ftp 0) = FTPLIB_READ"
    and 5: "int (length [0x61, 0x62 :: byte]) + 1 = 3"
    by (simp_all add: script_ftp_def FTPLIB_CONTROL_def)
  from readLine_next_line [OF 1 2 4 3, unfolded 5] show ?thesis by blast
qed


theorem writeLine_sends_crlf_witness:
  "\<exists>f' w'. writeLine script_net (script_ftp 2) [0x61, 0x0A, 0x0D, 0x0A] ([], []) = Some (4, f', w') \<and>
     snd w' = [0x61, 0x0D, 0x0A, 0x0D, 0x0A]"
proof -
  have 1: "reliable script_net snd" by (auto simp: reliable_def script_net_def)
  have "m_socket_fd (ftp_tcp (script_ftp 2)) \<ge> 0" "length (fbuf (script_ftp 2)) = FTPLIB_BUFSIZ" "dir (script_ftp 2) = FTPLIB_WRITE"
    by (simp_all add: script_ftp_def script_conn_def FTPLIB_WRITE_def)
  from writeLine_sends_crlf [OF 1 this, of "[0x61, 0x0A, 0x0D, 0x0A]" "([], [])"] show ?thesis by auto
qed

end
