(* ===== verification/Ftp_Transfer.thy ===== *)
theory Ftp_Transfer
  imports Ftp_Client Ftp_Lines
begin

text \<open>
  Downloading a file, end to end: an FTP server that sends its replies on the control
  connection and the file on the data connection, each cut into arbitrary pieces.
\<close>

section \<open>The server\<close>

text \<open>What the control and the data connection still deliver, what was sent on the
  control connection, and the local file.\<close>

record ftp_world =
  ctl_in :: "byte list list"
  data_in :: "byte list list"
  ctl_out :: "byte list"
  file_out :: "byte list"

definition server_net :: "ftp_world lwip" where
  "server_net =
     \<lparr>lwip_socket = (\<lambda>_ w. (4, w)), lwip_setsockopt = (\<lambda>_ _ w. (0, w)), lwip_getsockopt_error = (\<lambda>_ w. (0, w)),
      lwip_close = (\<lambda>_ w. w), lwip_shutdown = (\<lambda>_ w. w), lwip_connect = (\<lambda>_ _ w. (0, w)),
      lwip_write = (\<lambda>_ bs w. (int (length bs), w)), lwip_ioctl_FIONREAD = (\<lambda>_ w. (0, w)),
      lwip_select_read = (\<lambda>_ w. Some (1, w)),
      lwip_recv = (\<lambda>fd n w.
        if fd = 3 then (case ctl_in w of [] \<Rightarrow> (0, [], w) | c # cs \<Rightarrow> (int (length c), c, w\<lparr>ctl_in := cs\<rparr>))
        else (case data_in w of [] \<Rightarrow> (0, [], w) | c # cs \<Rightarrow> (int (length c), c, w\<lparr>data_in := cs\<rparr>))),
      lwip_sendto = (\<lambda>_ bs _ w. (int (length bs), w)), lwip_recvfrom = (\<lambda>_ _ a w. (0, [], a, w)),
      lwip_bind = (\<lambda>_ _ w. (0, w)), lwip_listen = (\<lambda>_ _ w. (0, w)), lwip_accept = (\<lambda>_ a w. (4, a, w)),
      lwip_getsockname = (\<lambda>_ a w. (0, a, w)), lwip_getaddrinfo = (\<lambda>_ w. (0, [], w)), lwip_freeaddrinfo = (\<lambda>_ w. w),
      inet_addr = (\<lambda>_. 1), lwip_htons = (\<lambda>x. x), lwip_htonl = (\<lambda>x. x), lwip_char_signed = True\<rparr>"

definition server_env :: "ftp_world ftp_env" where
  "server_env =
     \<lparr>fnet = server_net,
      print_text = (\<lambda>tcp s w. if m_socket_fd tcp = 3 then w\<lparr>ctl_out := ctl_out w @ s\<rparr> else w),
      m_fs_cb = Some
        \<lparr>cb_open = (\<lambda>_ _ w. w), cb_read = (\<lambda>_ w. (0, [], w)),
         cb_write = (\<lambda>bs w. (length bs, w\<lparr>file_out := file_out w @ bs\<rparr>)), cb_close = (\<lambda>w. w)\<rparr>\<rparr>"

definition start_world :: "byte list list \<Rightarrow> byte list list \<Rightarrow> ftp_world" where
  "start_world cs ds = \<lparr>ctl_in = cs, data_in = ds, ctl_out = [], file_out = []\<rparr>"

definition pieces :: "byte list list \<Rightarrow> bool" where
  "pieces cs \<longleftrightarrow> (\<forall>c \<in> set cs. c \<noteq> [] \<and> length c < FTPLIB_BUFSIZ)"

section \<open>Replies on the control connection\<close>

lemma server_read:
  "tcp_read server_net script_conn n w =
     Some (case ctl_in w of [] \<Rightarrow> (0, [], script_conn, w) | c # cs \<Rightarrow> (int (length c), c, script_conn, w\<lparr>ctl_in := cs\<rparr>))"
  by (simp add: tcp_read_def server_net_def script_conn_def split: list.splits)

lemma server_serves_world:
  "serves server_net script_conn w cs w' \<Longrightarrow> w = w'\<lparr>ctl_in := ctl_in w\<rparr> \<and>
     serves server_net script_conn (v\<lparr>ctl_in := ctl_in w\<rparr>) cs (v\<lparr>ctl_in := ctl_in w'\<rparr>)"
proof (induction rule: serves.induct)
  case (none w)
  show ?case by (simp add: serves.none)
next
  case (piece w c w1 cs w2)
  then have c: "ctl_in w = c # ctl_in w1" "w1 = w\<lparr>ctl_in := ctl_in w1\<rparr>" by (auto simp: server_read split: list.splits)
  have "tcp_read server_net script_conn FTPLIB_BUFSIZ (v\<lparr>ctl_in := ctl_in w\<rparr>) =
      Some (int (length c), c, script_conn, v\<lparr>ctl_in := ctl_in w1\<rparr>)"
    by (simp add: server_read c(1))
  then have "serves server_net script_conn (v\<lparr>ctl_in := ctl_in w\<rparr>) (c # cs) (v\<lparr>ctl_in := ctl_in w2\<rparr>)"
    using piece by (intro serves.piece) auto
  moreover have "w = w2\<lparr>ctl_in := ctl_in w\<rparr>"
  proof -
    have "w = w1\<lparr>ctl_in := ctl_in w\<rparr>" using c(2) by (metis ftp_world.surjective ftp_world.update_convs(1))
    also have "\<dots> = w2\<lparr>ctl_in := ctl_in w\<rparr>" using piece.IH by (metis ftp_world.surjective ftp_world.update_convs(1))
    finally show ?thesis .
  qed
  ultimately show ?case by blast
qed

lemma server_serves: "pieces cs \<Longrightarrow> serves server_net script_conn (v\<lparr>ctl_in := cs\<rparr>) cs (v\<lparr>ctl_in := []\<rparr>)"
proof (induction cs)
  case (Cons c cs)
  then show ?case by (intro serves.piece [where ?w1.0 = "v\<lparr>ctl_in := cs\<rparr>"]) (auto simp: pieces_def server_read)
qed (simp add: serves.none)

text \<open>The client is between commands, \<open>bs\<close> is what the server still says and \<open>i\<close> how
  it is cut into pieces.\<close>

definition ready :: "FTPClientBase \<Rightarrow> byte list list \<Rightarrow> byte list \<Rightarrow> bool" where
  "ready f i bs \<longleftrightarrow> (\<forall>v. stream server_net f (v\<lparr>ctl_in := i\<rparr>) (v\<lparr>ctl_in := []\<rparr>) bs) \<and> ftp_tcp f = script_conn \<and>
     dir f = FTPLIB_CONTROL \<and> length (response f) = FTPLIB_RESPONSE_BUFSIZ \<and> cmode f = PASSIVE"

lemma server_stream_all:
  assumes "stream server_net f w we bs" and "ftp_tcp f = script_conn" and "ctl_in we = []"
  shows "w = we\<lparr>ctl_in := ctl_in w\<rparr>" "stream server_net f (v\<lparr>ctl_in := ctl_in w\<rparr>) (v\<lparr>ctl_in := []\<rparr>) bs"
  using assms server_serves_world unfolding stream_def by (metis, metis)

lemma reply_step:
  assumes "ready f i (wire ls @ rest)" and "is_reply ls" and "\<forall>l \<in> set ls. line_ok l"
  shows "\<exists>f' i' t. readResp server_net f c (v\<lparr>ctl_in := i\<rparr>) = Some (if hd (last ls) = c then 1 else 0, f', v\<lparr>ctl_in := i'\<rparr>) \<and>
      ready f' i' rest \<and> response f' = last ls @ 0x0A # 0 # t"
proof -
  have r: "stream server_net f (v\<lparr>ctl_in := i\<rparr>) (v\<lparr>ctl_in := []\<rparr>) (wire ls @ rest)" "ftp_tcp f = script_conn"
    "dir f = FTPLIB_CONTROL" "length (response f) = FTPLIB_RESPONSE_BUFSIZ" "cmode f = PASSIVE"
    using assms(1) by (simp_all add: ready_def)
  from readResp_one_reply_lemma [OF r(1) assms(2,3) r(3,4)] obtain f' w1 t where
    1: "readResp server_net f c (v\<lparr>ctl_in := i\<rparr>) = Some (if hd (last ls) = c then 1 else 0, f', w1)"
    "stream server_net f' w1 (v\<lparr>ctl_in := []\<rparr>) rest" "same_conn f f'" "response f' = last ls @ 0x0A # 0 # t" by blast
  have tc: "ftp_tcp f' = script_conn" using 1(3) r(2) by (simp add: same_conn_def)
  from server_stream_all(1) [OF 1(2) tc] have w1: "w1 = v\<lparr>ctl_in := ctl_in w1\<rparr>" by simp
  have "ready f' (ctl_in w1) rest"
    using server_stream_all(2) [OF 1(2) tc] 1(3) r by (simp add: ready_def same_conn_def)
  with 1(1,4) w1 show ?thesis by metis
qed

text \<open>The server has delivered all but \<open>i\<close>, the client has said \<open>s\<close>.\<close>

definition says :: "ftp_world \<Rightarrow> byte list list \<Rightarrow> byte list \<Rightarrow> ftp_world" where
  "says v i s = (v\<lparr>ctl_out := ctl_out v @ s\<rparr>)\<lparr>ctl_in := i\<rparr>"

lemma says_print: "ready f i' bs \<Longrightarrow> ftp_print server_env f s (says v i u) = says v i (u @ s)"
  by (cases v) (simp add: ftp_print_def server_env_def ready_def script_conn_def says_def)

lemma server_net_of: "fnet server_env = server_net"
  by (simp add: server_env_def)

lemma command_step:
  assumes "ready f i (wire ls @ rest)" and "is_reply ls" and "\<forall>l \<in> set ls. line_ok l"
  shows "\<exists>f' i' t. ftp_command server_env f s c (says v i u) =
      Some (if hd (last ls) = c then 1 else 0, f', says v i' (u @ s @ CRLF)) \<and>
      ready f' i' rest \<and> response f' = last ls @ 0x0A # 0 # t"
  unfolding ftp_command_def says_print [OF assms(1)] server_net_of
  using reply_step [OF assms, of c "v\<lparr>ctl_out := ctl_out v @ u @ s @ CRLF\<rparr>"] unfolding says_def by simp

section \<open>The data connection\<close>

definition data_conn :: "TCPClient \<Rightarrow> bool" where
  "data_conn tcp \<longleftrightarrow> m_socket_fd tcp = 4"

lemma server_connect:
  "m_socket_fd tcp < 0 \<Longrightarrow> \<exists>rc tcp'. tcp_connectV4 server_net tcp ip port t w = (rc, tcp', w) \<and> data_conn tcp'"
  by (auto simp: tcp_connectV4_def tcp_open_def server_net_def data_conn_def)

lemma c_string_line: "0 \<notin> set xs \<Longrightarrow> c_string (xs @ 0x0A # 0 # t) = xs @ [0x0A]"
  by (induction xs) (auto simp: c_string_def)

lemma open_passive_step:
  assumes "ready f i (wire ls @ rest)" and "is_reply ls" and "\<forall>l \<in> set ls. line_ok l" and "hd (last ls) = 0x32"
    and "parse_pasv (last ls @ [0x0A]) = Some (Some a)" and "m_socket_fd (ftp_tcp d) < 0"
  shows "\<exists>f' i' tcp. open_passive server_env d f (says v i u) =
      Some (1, d\<lparr>ftp_tcp := tcp\<rparr>, f', says v i' (u @ ascii ''PASV'' @ CRLF)) \<and>
      ready f' i' rest \<and> data_conn tcp"
proof -
  obtain f' i' t where 1: "ftp_command server_env f (ascii ''PASV'') 0x32 (says v i u) =
      Some (1, f', says v i' (u @ ascii ''PASV'' @ CRLF))" "ready f' i' rest"
      "response f' = last ls @ 0x0A # 0 # t"
    using command_step [OF assms(1-3), of "ascii ''PASV''" "0x32" v u] assms(4) by auto
  have "0 \<notin> set (last ls)" "last ls \<noteq> []"
    using assms(2,3) last_in_set [of ls] by (auto simp: is_reply_def line_ok_def split: list.splits)
  then have "c_string (response f') = last ls @ [0x0A]" by (simp add: 1(3) c_string_line)
  moreover obtain ip port where "a = (ip, port)" by fastforce
  moreover obtain rc tcp where "tcp_connectV4 server_net (ftp_tcp d) ip port 5000 (says v i' (u @ ascii ''PASV'' @ CRLF)) =
      (rc, tcp, says v i' (u @ ascii ''PASV'' @ CRLF))" "data_conn tcp"
    using server_connect [OF assms(6)] by blast
  ultimately show ?thesis using 1(1,2) assms(5) by (auto simp: open_passive_def server_env_def)
qed

text \<open>Receiving stores the pieces in the file, up to the end of the connection.\<close>

lemma receive_stores:
  assumes "data_conn tcp" and "m_fs_cb server_env = Some cb" and "\<forall>c \<in> set ds. c \<noteq> []"
  shows "xfer_receive server_net cb tcp (v\<lparr>data_in := ds\<rparr>) = Some (1, tcp, v\<lparr>data_in := [], file_out := file_out v @ concat ds\<rparr>)"
  using assms(3)
proof (induction ds arbitrary: v)
  case Nil
  then show ?case using assms(1)
    by (subst xfer_receive.simps) (simp add: tcp_read_def server_net_def data_conn_def)
next
  case (Cons c ds)
  have cb: "cb_write cb bs w = (length bs, w\<lparr>file_out := file_out w @ bs\<rparr>)" for bs w
    using assms(2) by (auto simp: server_env_def)
  have "tcp_read server_net tcp FTPLIB_BUFSIZ (v\<lparr>data_in := c # ds\<rparr>) = Some (int (length c), c, tcp, v\<lparr>data_in := ds\<rparr>)"
    using assms(1) by (simp add: tcp_read_def server_net_def data_conn_def)
  with Cons.prems have "xfer_receive server_net cb tcp (v\<lparr>data_in := c # ds\<rparr>) =
      xfer_receive server_net cb tcp ((v\<lparr>file_out := file_out v @ c\<rparr>)\<lparr>data_in := ds\<rparr>)"
    by (subst xfer_receive.simps) (cases v; simp add: cb)
  also have "\<dots> = Some (1, tcp, v\<lparr>data_in := [], file_out := file_out v @ concat (c # ds)\<rparr>)"
    using Cons.IH [of "v\<lparr>file_out := file_out v @ c\<rparr>"] Cons.prems by simp
  finally show ?case .
qed

section \<open>The whole transfer\<close>

lemma openDataConn_step:
  assumes "ready f i (wire ls @ rest)" and "is_reply ls" and "\<forall>l \<in> set ls. line_ok l" and "hd (last ls) = 0x32"
    and "parse_pasv (last ls @ [0x0A]) = Some (Some a)" and "m_socket_fd (ftp_tcp d) < 0" and "mode = TEXT \<or> mode = BINARY"
  shows "\<exists>d' f' i'. openDataConn server_env d f mode FTPLIB_READ sa (says v i u) =
      Some (1, d', f', says v i' (u @ ascii ''PASV'' @ CRLF)) \<and> ready f' i' rest \<and> data_conn (ftp_tcp d') \<and> dir d' = FTPLIB_READ"
proof -
  have "dir f = FTPLIB_CONTROL" "cmode f = PASSIVE" using assms(1) by (simp_all add: ready_def)
  with open_passive_step [OF assms(1-6), of v u] assms(7) show ?thesis
    unfolding openDataConn_def by (auto simp: FTPLIB_READ_def)
qed

lemma data_new_step:
  assumes r: "ready f i (wire ts @ wire ps @ wire rs @ rest)"
    and ts: "is_reply ts" "\<forall>l \<in> set ts. line_ok l" "hd (last ts) = 0x32"
    and ps: "is_reply ps" "\<forall>l \<in> set ps. line_ok l" "hd (last ps) = 0x32" "parse_pasv (last ps @ [0x0A]) = Some (Some a)"
    and rs: "is_reply rs" "\<forall>l \<in> set rs. line_ok l"
    and mode: "mode = TEXT \<or> mode = BINARY"
  shows "\<exists>d f' i'. FTPClientData_new server_env mem sa f (Some path) FILE_READ mode (says v i []) =
      Some (d, f', says v i' (ascii ''TYPE '' @ [mode] @ CRLF @ ascii ''PASV'' @ CRLF @ ascii ''RETR '' @ path @ CRLF)) \<and>
      ready f' i' rest \<and> dir d = FTPLIB_READ \<and>
      (if hd (last rs) = 0x31 then data_conn (ftp_tcp d) else m_socket_fd (ftp_tcp d) = -1)"
proof -
  obtain f1 i1 where 1: "ftp_command server_env f (ascii ''TYPE '' @ [mode]) 0x32 (says v i []) =
      Some (1, f1, says v i1 (ascii ''TYPE '' @ [mode] @ CRLF))" "ready f1 i1 (wire ps @ wire rs @ rest)"
    using command_step [OF r ts(1,2), of "ascii ''TYPE '' @ [mode]" "0x32" v "[]"] ts(3) by auto
  have fd: "m_socket_fd (ftp_tcp (FTPClientBase_new mem)) < 0" by (simp add: FTPClientBase_new_def TCPClient_new_def)
  obtain d f2 i2 where 2: "openDataConn server_env (FTPClientBase_new mem) f1 mode FTPLIB_READ sa (says v i1 (ascii ''TYPE '' @ [mode] @ CRLF)) =
      Some (1, d, f2, says v i2 (ascii ''TYPE '' @ [mode] @ CRLF @ ascii ''PASV'' @ CRLF))"
    "ready f2 i2 (wire rs @ rest)" "data_conn (ftp_tcp d)" "dir d = FTPLIB_READ"
    using openDataConn_step [OF 1(2) ps fd mode, of sa v "ascii ''TYPE '' @ [mode] @ CRLF"] by auto
  obtain f3 i3 where 3: "ftp_command server_env f2 path 0x31
        (says v i2 ((ascii ''TYPE '' @ [mode] @ CRLF @ ascii ''PASV'' @ CRLF) @ ascii ''RETR '')) =
      Some (if hd (last rs) = 0x31 then 1 else 0, f3,
        says v i3 (ascii ''TYPE '' @ [mode] @ CRLF @ ascii ''PASV'' @ CRLF @ ascii ''RETR '' @ path @ CRLF))" "ready f3 i3 rest"
    using command_step [OF 2(2) rs, of path "0x31" v "(ascii ''TYPE '' @ [mode] @ CRLF @ ascii ''PASV'' @ CRLF) @ ascii ''RETR ''"]
    by auto
  have pasv: "cmode f3 \<noteq> PORT" using 3(2) by (simp add: ready_def PASSIVE_def PORT_def)
  have stop: "tcp_stop server_net (ftp_tcp d) w = ((ftp_tcp d)\<lparr>tc_connected := False, m_socket_fd := -1\<rparr>, w)" for w
    by (simp add: tcp_stop_def server_net_def)
  show ?thesis
    unfolding FTPClientData_new_def Let_def
    using 1(1) 2(1,3,4) 3 pasv
    by (simp add: says_print [OF 2(2)] type_command_def server_net_of stop) blast
qed

lemma ready_has_data [simp]: "ready (f\<lparr>has_data := b\<rparr>) i bs \<longleftrightarrow> ready f i bs"
  by (simp add: ready_def stream_def holds_def)

lemma receive_file:
  assumes "data_conn tcp" and "m_fs_cb server_env = Some cb" and "\<forall>c \<in> set (data_in w). c \<noteq> []"
  shows "xfer_receive server_net cb tcp w = Some (1, tcp, w\<lparr>data_in := [], file_out := file_out w @ concat (data_in w)\<rparr>)"
  using receive_stores [OF assms, of w] by simp

lemma receive_nothing:
  "m_socket_fd tcp < 0 \<Longrightarrow> xfer_receive L cb tcp w = Some (1, tcp, w)"
  by (subst xfer_receive.simps) (simp add: tcp_read_def)

lemma delete_data:
  "dir d = FTPLIB_READ \<Longrightarrow> m_socket_fd (ftp_tcp d) < 0 \<Longrightarrow> \<not> has_ctrl d \<Longrightarrow> FTPClientBase_delete L d f w = Some (f, w)"
  by (simp add: FTPClientBase_delete_def FTPLIB_READ_def FTPLIB_WRITE_def TCPClient_delete_def)

lemma get_refused:
  assumes "FTPClientData_new server_env mem sa f (Some remote) FILE_READ mode w = Some (d, f', w')"
    and "m_socket_fd (ftp_tcp d) = -1" and "dir d = FTPLIB_READ"
  shows "ftp_get server_env f mem sa (Some loc) (Some remote) mode w = Some (1, f'\<lparr>has_data := False\<rparr>, w')"
proof -
  obtain cb where cb: "m_fs_cb server_env = Some cb" "\<And>n m w. cb_open cb n m w = w" "\<And>w. cb_close cb w = w"
    by (simp add: server_env_def)
  show ?thesis
    using assms by (simp add: ftp_get_def xfer_def cb receive_nothing tcp_bool_def delete_data)
qed

lemma get_delivered:
  assumes "FTPClientData_new server_env mem sa f (Some remote) FILE_READ mode w = Some (d, f1, says v i u)"
    and "data_conn (ftp_tcp d)" and "dir d = FTPLIB_READ" and "\<forall>c \<in> set (data_in v). c \<noteq> []"
    and "ready f1 i (wire ls @ rest)" and "is_reply ls" and "\<forall>l \<in> set ls. line_ok l"
  shows "\<exists>f' w'. ftp_get server_env f mem sa (Some loc) (Some remote) mode w = Some (1, f', w') \<and>
      file_out w' = file_out v @ concat (data_in v) \<and> ctl_out w' = ctl_out v @ u \<and> ready f' (ctl_in w') rest"
proof -
  obtain cb where cb: "m_fs_cb server_env = Some cb" "\<And>n m w. cb_open cb n m w = w" "\<And>w. cb_close cb w = w"
    by (simp add: server_env_def)
  define x where "x = (v\<lparr>ctl_out := ctl_out v @ u\<rparr>)\<lparr>data_in := [], file_out := file_out v @ concat (data_in v)\<rparr>"
  have s: "says v i u\<lparr>data_in := [], file_out := file_out (says v i u) @ concat (data_in (says v i u))\<rparr> = x\<lparr>ctl_in := i\<rparr>"
    by (cases v) (simp add: says_def x_def)
  have di: "\<forall>c \<in> set (data_in (says v i u)). c \<noteq> []" using assms(4) by (simp add: says_def)
  obtain f2 i2 where 2: "readResp server_net (f1\<lparr>has_data := True\<rparr>) 0x32 (x\<lparr>ctl_in := i\<rparr>) =
      Some (if hd (last ls) = 0x32 then 1 else 0, f2, x\<lparr>ctl_in := i2\<rparr>)" "ready f2 i2 rest"
    using reply_step [of "f1\<lparr>has_data := True\<rparr>" i ls rest "0x32" x] assms(5-7) by auto
  have st: "tcp_stop server_net (ftp_tcp d) w = ((ftp_tcp d)\<lparr>tc_connected := False, m_socket_fd := -1\<rparr>, w)" for w
    by (simp add: tcp_stop_def server_net_def)
  have "ftp_get server_env f mem sa (Some loc) (Some remote) mode w = Some (1, f2\<lparr>has_data := False\<rparr>, x\<lparr>ctl_in := i2\<rparr>)"
    using assms(1,2,3) 2(1) receive_file [OF assms(2) cb(1) di]
    by (simp add: ftp_get_def xfer_def cb server_net_of s st tcp_bool_def data_conn_def delete_data)
  with 2(2) show ?thesis by (simp add: x_def)
qed

text \<open>A client whose control connection has just been opened.\<close>

lemma ready_start: "pieces cs \<Longrightarrow> ready (script_ftp 0) cs (concat cs)"
  using server_serves [of cs]
  by (auto simp: ready_def stream_def holds_def script_ftp_def FTPLIB_CONTROL_def PASSIVE_def intro!: exI [of _ cs])

lemma says_start: "start_world cs ds = says (start_world cs ds) cs []"
  by (simp add: says_def start_world_def)

definition retr_dialogue :: "byte \<Rightarrow> byte list \<Rightarrow> byte list" where
  "retr_dialogue mode path =
     ascii ''TYPE '' @ [mode] @ CRLF @ ascii ''PASV'' @ CRLF @ ascii ''RETR '' @ path @ CRLF"

definition good_reply :: "byte list list \<Rightarrow> bool" where
  "good_reply ls \<longleftrightarrow> is_reply ls \<and> (\<forall>l \<in> set ls. line_ok l)"


text \<open>
  when the server refuses the file (its reply to RETR does not start with 1),
  \<open>get\<close> still returns 1 for success; the local file was created and stays empty.
\<close>

theorem get_reports_refused_file:
  assumes "pieces cs" and "concat cs = wire ts @ wire ps @ wire rs @ rest"
    and "good_reply ts" and "good_reply ps" and "good_reply rs"
    and "hd (last ts) = 0x32" and "hd (last ps) = 0x32" and "hd (last rs) \<noteq> 0x31"
    and "parse_pasv (last ps @ [0x0A]) = Some (Some a)" and "mode = TEXT \<or> mode = BINARY"
  shows "\<exists>f' w'. ftp_get server_env (script_ftp 0) mem sa (Some loc) (Some remote) mode (start_world cs ds) = Some (1, f', w') \<and>
      file_out w' = [] \<and> ready f' (ctl_in w') rest"
proof -
  let ?v = "start_world cs ds"
  have r: "ready (script_ftp 0) cs (wire ts @ wire ps @ wire rs @ rest)" using ready_start [OF assms(1)] assms(2) by simp
  obtain d f1 i where 1: "FTPClientData_new server_env mem sa (script_ftp 0) (Some remote) FILE_READ mode (says ?v cs []) =
      Some (d, f1, says ?v i (retr_dialogue mode remote))" "ready f1 i rest" "dir d = FTPLIB_READ" "m_socket_fd (ftp_tcp d) = -1"
    using data_new_step [OF r _ _ assms(6) _ _ assms(7,9) _ _ assms(10)] assms(3-5,8)
    unfolding good_reply_def retr_dialogue_def by metis
  from get_refused [OF 1(1) [folded says_start] 1(4,3)] 1(2) show ?thesis by (simp add: says_def start_world_def)
qed

text \<open>A server at 1.2.3.4, port 21; the replies come in two pieces, the file in two.\<close>

definition demo_pasv :: "byte list list" where
  "demo_pasv = [ascii ''227 Entering (1,2,3,4,0,21)'']"

lemma demo_replies:
  "good_reply [ascii ''200 ok'']" "good_reply demo_pasv" "good_reply [ascii ''150 go'']" "good_reply [ascii ''226 done'']"
  "good_reply [ascii ''550-no'', ascii ''550 such file'']" "hd (last [ascii ''200 ok'']) = 0x32" "hd (last demo_pasv) = 0x32"
  "hd (last [ascii ''150 go'']) = 0x31" "hd (last [ascii ''550-no'', ascii ''550 such file'']) \<noteq> 0x31"
  "parse_pasv (last demo_pasv @ [0x0A]) = Some (Some (0x04030201, 21))"
  by code_simp+

lemma demo_client: "m_socket_fd (ftp_tcp (script_ftp 0)) = 3"
  by (simp add: script_ftp_def script_conn_def)


theorem get_reports_refused_file_witness:
  "\<exists>f' w'. ftp_get server_env (script_ftp 0) (script_ftp 0) no_address (Some (ascii ''l'')) (Some (ascii ''r'')) TEXT
      (start_world [wire [ascii ''200 ok''] @ wire demo_pasv @ wire [ascii ''550-no'', ascii ''550 such file'']] []) =
      Some (1, f', w') \<and> file_out w' = []"
proof -
  let ?cs = "[wire [ascii ''200 ok''] @ wire demo_pasv @ wire [ascii ''550-no'', ascii ''550 such file'']]"
  have 1: "pieces ?cs" by code_simp
  have 2: "concat ?cs = wire [ascii ''200 ok''] @ wire demo_pasv @ wire [ascii ''550-no'', ascii ''550 such file''] @ []" by simp
  from get_reports_refused_file [OF 1 2 demo_replies(1,2,5,6,7,9,10) disjI1 [OF refl], of _ _ _ _ "[]"] show ?thesis by force
qed

section \<open>The address in the reply to PASV\<close>

definition pasv_text :: "nat \<Rightarrow> nat \<Rightarrow> nat \<Rightarrow> nat \<Rightarrow> nat \<Rightarrow> nat \<Rightarrow> byte list" where
  "pasv_text a b c d p q =
     dec_nat a @ 0x2C # dec_nat b @ 0x2C # dec_nat c @ 0x2C # dec_nat d @ 0x2C # dec_nat p @ 0x2C # dec_nat q"

lemma scan_numbers_step:
  "n > 0 \<Longrightarrow> k < 2 ^ 32 \<Longrightarrow> scan_numbers (Suc n) (dec_nat k @ 0x2C # s) = map_option ((#) (int k)) (scan_numbers n s)"
  using scan_number_dec [of "0x2C # s" k] by (cases "scan_numbers n s") (auto simp: is_digit_def zless_nat_eq_int_zless)

lemma scan_numbers_last:
  "k < 2 ^ 32 \<Longrightarrow> (case s of [] \<Rightarrow> True | c # _ \<Rightarrow> \<not> is_digit c) \<Longrightarrow> scan_numbers (Suc 0) (dec_nat k @ s) = Some [int k]"
  using scan_number_dec [of s k] by simp

lemma scan_numbers_six:
  assumes "a < 256" "b < 256" "c < 256" "d < 256" "p < 256" "q < 256"
    and "case s of [] \<Rightarrow> True | c # _ \<Rightarrow> \<not> is_digit c"
  shows "scan_numbers 6 (pasv_text a b c d p q @ s) = Some [int a, int b, int c, int d, int p, int q]"
proof -
  have n: "6 = Suc (Suc (Suc (Suc (Suc (Suc 0)))))" by simp
  show ?thesis unfolding n pasv_text_def
    using assms by (simp only: append.assoc append_Cons) (simp add: scan_numbers_step scan_numbers_last del: scan_numbers.simps)
qed

text \<open>
  C34: the six numbers of a reply to PASV, written in decimal behind the first
  parenthesis, are read as the address and the port they stand for (RFC 959), whatever
  text surrounds them.
\<close>

theorem pasv_roundtrip:
  assumes "0x28 \<notin> set pre" and "\<forall>n \<in> {a, b, c, d, p, q}. n < 256" and "case post of [] \<Rightarrow> True | x # _ \<Rightarrow> \<not> is_digit x"
  shows "parse_pasv (pre @ 0x28 # pasv_text a b c d p q @ post) =
    Some (Some (word_of_nat (a + 2 ^ 8 * b + 2 ^ 16 * c + 2 ^ 24 * d), word_of_nat (2 ^ 8 * p + q)))"
proof -
  have "find_char (pre @ 0x28 # t) 0x28 = Some (length pre)" for t using assms(1) by (induction pre) auto
  moreover have "scan_numbers 6 (pasv_text a b c d p q @ post) = Some [int a, int b, int c, int d, int p, int q]"
    using assms(2,3) by (intro scan_numbers_six) auto
  ultimately show ?thesis using assms(2) by (simp add: parse_pasv_def ip_of_octets_def)
qed

theorem pasv_roundtrip_witness:
  "parse_pasv (ascii ''227 '' @ 0x28 # pasv_text 10 0 0 7 200 9 @ ascii '').'') =
    Some (Some (word_of_nat (10 + 2 ^ 8 * 0 + 2 ^ 16 * 0 + 2 ^ 24 * 7), word_of_nat (2 ^ 8 * 200 + 9)))"
  by (rule pasv_roundtrip) (simp_all add: ascii_def is_digit_def)

end
