(* ===== verification/Http_Env.thy ===== *)
theory Http_Env
  imports Text_Base
begin

text \<open>
  What \<open>src/HTTPClient.cpp\<close> calls that is not part of it: the Arduino class
  \<open>String\<close>, the virtual methods of a \<open>TCPClient\<close>, an Arduino \<open>Stream\<close>, the heap and the
  clock. None of the Arduino code is in the repository, so each of these calls is a
  parameter. A \<open>String\<close> is the list of its bytes; concatenation, comparison and
  length are those of lists.
\<close>

section \<open>Strings\<close>

text \<open>Offsets are the \<open>int\<close> values that the callers pass. \<open>str_number\<close> is the
  constructor from an integer, \<open>base64\<close> is \<open>base64::encode\<close>.\<close>

record string_ops =
  indexOf_char :: "byte list \<Rightarrow> byte \<Rightarrow> int"
  indexOf_char_from :: "byte list \<Rightarrow> byte \<Rightarrow> int \<Rightarrow> int"
  indexOf_str :: "byte list \<Rightarrow> byte list \<Rightarrow> int"
  substring_from :: "byte list \<Rightarrow> int \<Rightarrow> byte list"
  substring :: "byte list \<Rightarrow> int \<Rightarrow> int \<Rightarrow> byte list"
  str_remove :: "byte list \<Rightarrow> int \<Rightarrow> int \<Rightarrow> byte list"
  str_trim :: "byte list \<Rightarrow> byte list"
  str_toInt :: "byte list \<Rightarrow> int"
  str_startsWith :: "byte list \<Rightarrow> byte list \<Rightarrow> bool"
  equalsIgnoreCase :: "byte list \<Rightarrow> byte list \<Rightarrow> bool"
  str_replace :: "byte list \<Rightarrow> byte list \<Rightarrow> byte list \<Rightarrow> byte list"
  str_at :: "byte list \<Rightarrow> nat \<Rightarrow> byte"
  str_number :: "int \<Rightarrow> byte list"
  base64 :: "byte list \<Rightarrow> byte list"

text \<open>The documented results on arguments inside the string. A part of the empty string
  is empty.\<close>

primrec find_text :: "byte list \<Rightarrow> byte list \<Rightarrow> nat option" where
  "find_text [] t = (if t = [] then Some 0 else None)"
| "find_text (x # xs) t =
     (if take (length t) (x # xs) = t then Some 0 else map_option Suc (find_text xs t))"

definition offset_or_minus1 :: "nat option \<Rightarrow> int" where
  "offset_or_minus1 r = (case r of None \<Rightarrow> -1 | Some n \<Rightarrow> int n)"

definition trimmed :: "byte list \<Rightarrow> byte list" where
  "trimmed s = rev (dropWhile is_space (rev (dropWhile is_space s)))"

definition lower_byte :: "byte \<Rightarrow> byte" where
  "lower_byte b = (if 0x41 \<le> b \<and> b \<le> 0x5A then b + 0x20 else b)"

definition same_ignoring_case :: "byte list \<Rightarrow> byte list \<Rightarrow> bool" where
  "same_ignoring_case s t \<longleftrightarrow> map lower_byte s = map lower_byte t"

definition arduino_strings :: "string_ops \<Rightarrow> bool" where
  "arduino_strings S \<longleftrightarrow>
     (\<forall>s c. indexOf_char S s c = offset_or_minus1 (find_char s c)) \<and>
     (\<forall>s c i. i \<le> length s \<longrightarrow>
        indexOf_char_from S s c (int i) = offset_or_minus1 (map_option ((+) i) (find_char (drop i s) c))) \<and>
     (\<forall>s t. t \<noteq> [] \<longrightarrow> indexOf_str S s t = offset_or_minus1 (find_text s t)) \<and>
     (\<forall>s i. i \<le> length s \<longrightarrow> substring_from S s (int i) = drop i s) \<and>
     (\<forall>s i j. i \<le> j \<and> j \<le> length s \<longrightarrow> substring S s (int i) (int j) = drop i (take j s)) \<and>
     (\<forall>j. substring S [] 0 j = []) \<and>
     (\<forall>s i n. i + n \<le> length s \<longrightarrow> str_remove S s (int i) (int n) = take i s @ drop (i + n) s) \<and>
     (\<forall>s. str_trim S s = trimmed s) \<and>
     (\<forall>n rest. n \<le> 2147483647 \<and> (case rest of [] \<Rightarrow> True | c # _ \<Rightarrow> \<not> is_digit c) \<longrightarrow>
        str_toInt S (dec_nat n @ rest) = int n) \<and>
     (\<forall>s t. str_startsWith S s t \<longleftrightarrow> take (length t) s = t) \<and>
     (\<forall>s t. equalsIgnoreCase S s t \<longleftrightarrow> same_ignoring_case s t) \<and>
     (\<forall>s c. c \<notin> set s \<longrightarrow> str_replace S s [c] [] = s) \<and>
     (\<forall>s i. i < length s \<longrightarrow> str_at S s i = s ! i) \<and>
     (\<forall>n. str_number S (int n) = dec_nat n)"

text \<open>Strings with these results, for concrete inputs. Outside the documented
  arguments they do what the class of the Arduino core does: offsets are cut at the
  end of the string. The encoding is left out.\<close>

definition std_strings :: string_ops where
  "std_strings = \<lparr>
     indexOf_char = \<lambda>s c. offset_or_minus1 (find_char s c),
     indexOf_char_from = \<lambda>s c i. offset_or_minus1 (map_option ((+) (nat i)) (find_char (drop (nat i) s) c)),
     indexOf_str = \<lambda>s t. offset_or_minus1 (find_text s t),
     substring_from = \<lambda>s i. drop (nat i) s,
     substring = \<lambda>s i j. drop (nat i) (if j < 0 then s else take (nat j) s),
     str_remove = \<lambda>s i n. take (nat i) s @ (if n < 0 then [] else drop (nat i + nat n) s),
     str_trim = trimmed,
     str_toInt = \<lambda>s. case scan_number s of None \<Rightarrow> 0 | Some (v, _) \<Rightarrow> v,
     str_startsWith = \<lambda>s t. take (length t) s = t,
     equalsIgnoreCase = same_ignoring_case,
     str_replace = \<lambda>s t r. if length t = 1 \<and> r = [] then filter (\<lambda>b. [b] \<noteq> t) s else s,
     str_at = \<lambda>s i. if i < length s then s ! i else 0,
     str_number = dec,
     base64 = \<lambda>s. s\<rparr>"

lemma std_strings_ok: "arduino_strings std_strings"
proof -
  have r: "filter (\<lambda>b. b \<noteq> c) s = s" if "c \<notin> set s" for c :: byte and s
    using that by (induction s) auto
  show ?thesis
    by (auto simp: arduino_strings_def std_strings_def scan_number_dec dec_def r)
qed

section \<open>The TCP client behind the pointer\<close>

text \<open>An object is named by its address, 0 is the null pointer. Reading gives the
  bytes that were stored. A call that does not return, or is undefined on its object,
  gives \<open>None\<close>. \<open>new_TCPClient\<close> and \<open>new_TCPClientSecure\<close> allocate an object of the two
  classes with one shared pointer to it; \<open>x_retain\<close> and \<open>x_release\<close> count the shared
  pointers of an object, which is deleted with the last of them. Certificates and keys
  are addresses, and \<open>x_strlen\<close> is the length of the text at one. \<open>x_long_max\<close> is the
  largest \<open>long\<close>; \<open>fembed_platform\<close> tells whether \<open>FEMBED_PLATFORM\<close> is defined.\<close>

record 'w http_env =
  strings :: string_ops
  x_connect :: "nat \<Rightarrow> byte list \<Rightarrow> 16 word \<Rightarrow> int \<Rightarrow> 'w \<Rightarrow> (int \<times> 'w) option"
  x_available :: "nat \<Rightarrow> 'w \<Rightarrow> (int \<times> 'w) option"
  x_connected :: "nat \<Rightarrow> 'w \<Rightarrow> (bool \<times> 'w) option"
  x_read :: "nat \<Rightarrow> 'w \<Rightarrow> (int \<times> 'w) option"
  x_stop :: "nat \<Rightarrow> 'w \<Rightarrow> 'w option"
  x_write :: "nat \<Rightarrow> byte list \<Rightarrow> 'w \<Rightarrow> (32 word \<times> 'w) option"
  x_setCACert :: "nat \<Rightarrow> nat \<Rightarrow> 'w \<Rightarrow> 'w option"
  x_setCertificate :: "nat \<Rightarrow> nat \<Rightarrow> 'w \<Rightarrow> 'w option"
  x_setPrivateKey :: "nat \<Rightarrow> nat \<Rightarrow> 'w \<Rightarrow> 'w option"
  x_retain :: "nat \<Rightarrow> 'w \<Rightarrow> 'w"
  x_release :: "nat \<Rightarrow> 'w \<Rightarrow> 'w"
  new_TCPClient :: "'w \<Rightarrow> nat \<times> 'w"
  new_TCPClientSecure :: "'w \<Rightarrow> nat \<times> 'w"
  x_setTimeout :: "nat \<Rightarrow> int \<Rightarrow> 'w \<Rightarrow> 'w"
  x_readStringUntil :: "nat \<Rightarrow> byte \<Rightarrow> 'w \<Rightarrow> (byte list \<times> 'w) option"
  x_readBytes :: "nat \<Rightarrow> nat \<Rightarrow> 'w \<Rightarrow> (byte list \<times> 'w) option"
  x_getWriteError :: "nat \<Rightarrow> 'w \<Rightarrow> int"
  x_clearWriteError :: "nat \<Rightarrow> 'w \<Rightarrow> 'w"
  s_available :: "nat \<Rightarrow> 'w \<Rightarrow> (int \<times> 'w) option"
  s_readBytes :: "nat \<Rightarrow> nat \<Rightarrow> 'w \<Rightarrow> (byte list \<times> 'w) option"
  s_write :: "nat \<Rightarrow> byte list \<Rightarrow> 'w \<Rightarrow> (32 word \<times> 'w) option"
  s_getWriteError :: "nat \<Rightarrow> 'w \<Rightarrow> int"
  s_clearWriteError :: "nat \<Rightarrow> 'w \<Rightarrow> 'w"
  new_StreamString :: "'w \<Rightarrow> nat \<times> 'w"
  s_reserve :: "nat \<Rightarrow> 32 word \<Rightarrow> 'w \<Rightarrow> bool \<times> 'w"
  s_text :: "nat \<Rightarrow> 'w \<Rightarrow> byte list"
  x_malloc :: "nat \<Rightarrow> 'w \<Rightarrow> byte list option \<times> 'w"
  x_free :: "'w \<Rightarrow> 'w"
  x_delay :: "nat \<Rightarrow> 'w \<Rightarrow> 'w"
  x_millis :: "'w \<Rightarrow> 32 word \<times> 'w"
  x_strlen :: "nat \<Rightarrow> 'w \<Rightarrow> nat option"
  x_long_max :: int
  fembed_platform :: bool

section \<open>\<open>strtol\<close> in base 16\<close>

definition hex_value :: "byte \<Rightarrow> int option" where
  "hex_value b =
     (if 0x30 \<le> b \<and> b \<le> 0x39 then Some (uint b - 48)
      else if 0x41 \<le> b \<and> b \<le> 0x46 then Some (uint b - 55)
      else if 0x61 \<le> b \<and> b \<le> 0x66 then Some (uint b - 87)
      else None)"

primrec hex_run :: "int \<Rightarrow> byte list \<Rightarrow> int" where
  "hex_run v [] = v"
| "hex_run v (b # bs) = (case hex_value b of None \<Rightarrow> v | Some d \<Rightarrow> hex_run (16 * v + d) bs)"

definition skip_0x :: "byte list \<Rightarrow> byte list" where
  "skip_0x s =
     (case s of z # x # d # t \<Rightarrow> if z = 0x30 \<and> (x = 0x78 \<or> x = 0x58) \<and> hex_value d \<noteq> None then d # t else s
      | _ \<Rightarrow> s)"

definition strtol16 :: "int \<Rightarrow> byte list \<Rightarrow> int" where
  "strtol16 long_max s =
     (let s = dropWhile is_space s;
          neg = (case s of c # _ \<Rightarrow> c = 0x2D | [] \<Rightarrow> False);
          s = (case s of c # t \<Rightarrow> if c = 0x2D \<or> c = 0x2B then t else s | [] \<Rightarrow> s);
          v = hex_run 0 (skip_0x s)
      in if neg then max (- v) (- long_max - 1) else min v long_max)"

text \<open>A chunk size in hexadecimal, without leading zeros, is read back.\<close>

definition hex_char :: "nat \<Rightarrow> byte" where
  "hex_char k = (if k < 10 then word_of_nat (48 + k) else word_of_nat (87 + k))"

fun hex_nat :: "nat \<Rightarrow> byte list" where
  "hex_nat n = (if n < 16 then [hex_char n] else hex_nat (n div 16) @ [hex_char (n mod 16)])"

declare hex_nat.simps [simp del]

lemma hex_value_char:
  assumes "k < 16"
  shows "hex_value (hex_char k) = Some (int k)" and "\<not> is_space (hex_char k)" and "hex_char k \<noteq> 0x2D" and
    "hex_char k \<noteq> 0x2B" and "hex_char k \<noteq> 0x78" and "hex_char k \<noteq> 0x58" and "hex_char k \<noteq> 0x0A"
proof -
  have "list_all (\<lambda>k. hex_value (hex_char k) = Some (int k) \<and> \<not> is_space (hex_char k) \<and> hex_char k \<noteq> 0x2D \<and>
      hex_char k \<noteq> 0x2B \<and> hex_char k \<noteq> 0x78 \<and> hex_char k \<noteq> 0x58 \<and> hex_char k \<noteq> 0x0A) [0..<16]"
    by code_simp
  then have "hex_value (hex_char k) = Some (int k) \<and> \<not> is_space (hex_char k) \<and> hex_char k \<noteq> 0x2D \<and>
      hex_char k \<noteq> 0x2B \<and> hex_char k \<noteq> 0x78 \<and> hex_char k \<noteq> 0x58 \<and> hex_char k \<noteq> 0x0A"
    using assms unfolding list_all_iff by (metis atLeastLessThan_iff atLeastLessThan_upt le0)
  then show "hex_value (hex_char k) = Some (int k)" and "\<not> is_space (hex_char k)" and "hex_char k \<noteq> 0x2D" and
    "hex_char k \<noteq> 0x2B" and "hex_char k \<noteq> 0x78" and "hex_char k \<noteq> 0x58" and "hex_char k \<noteq> 0x0A" by auto
qed

lemma hex_nat_chars: "\<forall>b \<in> set (hex_nat n). \<exists>k < 16. b = hex_char k"
proof (induction n rule: hex_nat.induct)
  case (1 n)
  show ?case
  proof (cases "n < 16")
    case True
    then show ?thesis by (subst hex_nat.simps) auto
  next
    case False
    have "\<exists>k < 16. hex_char (n mod 16) = hex_char k" by (intro exI [of _ "n mod 16"]) simp
    then show ?thesis using 1 False by (subst hex_nat.simps) auto
  qed
qed

lemma hex_nat_not_Nil: "hex_nat n \<noteq> []"
  by (subst hex_nat.simps) simp

lemma hex_run_append:
  "\<forall>b \<in> set s. \<exists>k < 16. b = hex_char k \<Longrightarrow> hex_run v (s @ t) = hex_run (hex_run v s) t"
  by (induction s arbitrary: v) (auto simp: hex_value_char)

lemma hex_run_nat: "hex_run 0 (hex_nat n) = int n"
proof (induction n rule: hex_nat.induct)
  case (1 n)
  show ?case
  proof (cases "n < 16")
    case True
    then show ?thesis by (subst hex_nat.simps) (simp add: hex_value_char)
  next
    case False
    then have "hex_run 0 (hex_nat n) = hex_run (hex_run 0 (hex_nat (n div 16))) [hex_char (n mod 16)]"
      by (subst hex_nat.simps) (simp add: hex_run_append hex_nat_chars)
    also have "\<dots> = int n" using 1 False by (simp add: hex_value_char zdiv_int zmod_int)
    finally show ?thesis .
  qed
qed

lemma strtol16_hex_nat:
  assumes "int n \<le> L"
  shows "strtol16 L (hex_nat n) = int n"
proof -
  obtain c t where c: "hex_nat n = c # t" using hex_nat_not_Nil by (cases "hex_nat n") auto
  have k: "\<exists>k < 16. b = hex_char k" if "b \<in> set (c # t)" for b using hex_nat_chars [of n] that c by auto
  have "\<not> is_space c" "c \<noteq> 0x2D" "c \<noteq> 0x2B" using k [of c] hex_value_char by auto
  moreover have "skip_0x (c # t) = c # t"
    using k hex_value_char(5,6) by (fastforce simp: skip_0x_def split: list.splits)
  ultimately show ?thesis using assms hex_run_nat [of n] by (simp add: strtol16_def c)
qed

end
