(* ===== verification/Http_Client.thy ===== *)
theory Http_Client
  imports Http_Env
begin

text \<open>
  The class \<open>HTTPClient\<close>, \<open>src/HTTPClient.cpp\<close> and its header: the URL, the request,
  the response header and the body. The TCP client is behind a shared pointer and is
  reached through its methods only.
\<close>

section \<open>State\<close>

definition HTTPC_ERROR_CONNECTION_REFUSED :: int where "HTTPC_ERROR_CONNECTION_REFUSED = -1"
definition HTTPC_ERROR_SEND_HEADER_FAILED :: int where "HTTPC_ERROR_SEND_HEADER_FAILED = -2"
definition HTTPC_ERROR_SEND_PAYLOAD_FAILED :: int where "HTTPC_ERROR_SEND_PAYLOAD_FAILED = -3"
definition HTTPC_ERROR_NOT_CONNECTED :: int where "HTTPC_ERROR_NOT_CONNECTED = -4"
definition HTTPC_ERROR_CONNECTION_LOST :: int where "HTTPC_ERROR_CONNECTION_LOST = -5"
definition HTTPC_ERROR_NO_STREAM :: int where "HTTPC_ERROR_NO_STREAM = -6"
definition HTTPC_ERROR_NO_HTTP_SERVER :: int where "HTTPC_ERROR_NO_HTTP_SERVER = -7"
definition HTTPC_ERROR_TOO_LESS_RAM :: int where "HTTPC_ERROR_TOO_LESS_RAM = -8"
definition HTTPC_ERROR_ENCODING :: int where "HTTPC_ERROR_ENCODING = -9"
definition HTTPC_ERROR_STREAM_WRITE :: int where "HTTPC_ERROR_STREAM_WRITE = -10"
definition HTTPC_ERROR_READ_TIMEOUT :: int where "HTTPC_ERROR_READ_TIMEOUT = -11"
definition HTTP_TCP_BUFFER_SIZE :: int where "HTTP_TCP_BUFFER_SIZE = 1460"

lemmas httpc_errors =
  HTTPC_ERROR_CONNECTION_REFUSED_def HTTPC_ERROR_SEND_HEADER_FAILED_def HTTPC_ERROR_SEND_PAYLOAD_FAILED_def
  HTTPC_ERROR_NOT_CONNECTED_def HTTPC_ERROR_CONNECTION_LOST_def HTTPC_ERROR_NO_STREAM_def
  HTTPC_ERROR_NO_HTTP_SERVER_def HTTPC_ERROR_TOO_LESS_RAM_def HTTPC_ERROR_ENCODING_def
  HTTPC_ERROR_STREAM_WRITE_def HTTPC_ERROR_READ_TIMEOUT_def

datatype transferEncoding_t = HTTPC_TE_IDENTITY | HTTPC_TE_CHUNKED

text \<open>\<open>TransportTraits\<close>, and its subclass with certificate authority, certificate and
  key.\<close>

datatype traits = TransportTraits | TLSTraits nat nat nat

text \<open>\<open>_currentHeaders\<close> and its count are the list of the collected headers, each a
  key and a value.\<close>

record HTTPClient =
  transportTraits :: "traits option"
  tcpDeprecated :: nat
  h_client :: nat
  h_host :: "byte list"
  h_port :: "16 word"
  connectTimeout :: int
  h_reuse :: bool
  tcpTimeout :: "16 word"
  h_useHTTP10 :: bool
  h_secure :: bool
  h_uri :: "byte list"
  h_protocol :: "byte list"
  h_headers :: "byte list"
  h_userAgent :: "byte list"
  base64Authorization :: "byte list"
  currentHeaders :: "(byte list \<times> byte list) list"
  returnCode :: int
  h_size :: int
  canReuse :: bool
  h_transferEncoding :: transferEncoding_t

definition HTTPClient_new :: HTTPClient where
  "HTTPClient_new = \<lparr>transportTraits = None, tcpDeprecated = 0, h_client = 0, h_host = [], h_port = 0,
     connectTimeout = -1, h_reuse = True, tcpTimeout = 60000, h_useHTTP10 = False, h_secure = False, h_uri = [],
     h_protocol = [], h_headers = [], h_userAgent = ascii ''CustomHTTPClient'', base64Authorization = [],
     currentHeaders = [], returnCode = 0, h_size = -1, canReuse = False, h_transferEncoding = HTTPC_TE_IDENTITY\<rparr>"

text \<open>Assigning the shared pointers: the object that was pointed to is released.\<close>

definition set_client :: "'w http_env \<Rightarrow> HTTPClient \<Rightarrow> nat \<Rightarrow> 'w \<Rightarrow> HTTPClient \<times> 'w" where
  "set_client E h c w =
     (let w = (if c \<noteq> 0 then x_retain E c w else w);
          w = (if h_client h \<noteq> 0 then x_release E (h_client h) w else w)
      in (h\<lparr>h_client := c\<rparr>, w))"

definition drop_deprecated :: "'w http_env \<Rightarrow> HTTPClient \<Rightarrow> 'w \<Rightarrow> HTTPClient \<times> 'w" where
  "drop_deprecated E h w =
     (h\<lparr>tcpDeprecated := 0\<rparr>, if tcpDeprecated h \<noteq> 0 then x_release E (tcpDeprecated h) w else w)"

definition HTTPClient_delete :: "'w http_env \<Rightarrow> HTTPClient \<Rightarrow> 'w \<Rightarrow> 'w option" where
  "HTTPClient_delete E h w = do {
     w \<leftarrow> (if h_client h \<noteq> 0 then x_stop E (h_client h) w else Some w);
     let (h, w) = set_client E h 0 w;
     Some (snd (drop_deprecated E h w)) }"

definition http_clear :: "HTTPClient \<Rightarrow> HTTPClient" where
  "http_clear h = h\<lparr>returnCode := 0, h_size := -1, h_headers := []\<rparr>"

section \<open>Closing\<close>

definition http_connected :: "'w http_env \<Rightarrow> HTTPClient \<Rightarrow> 'w \<Rightarrow> (bool \<times> 'w) option" where
  "http_connected E h w =
     (if h_client h = 0 then Some (False, w)
      else do {
        (n, w) \<leftarrow> x_available E (h_client h) w;
        (if n > 0 then Some (True, w) else x_connected E (h_client h) w) })"

text \<open>Reading what is there and dropping it.\<close>

partial_function (option) drain :: "'w http_env \<Rightarrow> nat \<Rightarrow> 'w \<Rightarrow> 'w option" where
  "drain E c w = do {
     (n, w) \<leftarrow> x_available E c w;
     (if n > 0 then do { (_, w) \<leftarrow> x_read E c w; drain E c w } else Some w) }"

declare drain.simps [code]

definition disconnect :: "'w http_env \<Rightarrow> HTTPClient \<Rightarrow> bool \<Rightarrow> 'w \<Rightarrow> (HTTPClient \<times> 'w) option" where
  "disconnect E h preserveClient w = do {
     (up, w) \<leftarrow> http_connected E h w;
     (if \<not> up then Some (h, w)
      else do {
        (n, w) \<leftarrow> x_available E (h_client h) w;
        w \<leftarrow> (if n > 0 then drain E (h_client h) w else Some w);
        (if h_reuse h \<and> canReuse h then Some (h, w)
         else do {
           w \<leftarrow> x_stop E (h_client h) w;
           let (h, w) = (if \<not> preserveClient then set_client E h 0 w else (h, w));
           Some (if tcpDeprecated h \<noteq> 0 then drop_deprecated E (h\<lparr>transportTraits := None\<rparr>) w else (h, w)) }) }) }"

definition http_end :: "'w http_env \<Rightarrow> HTTPClient \<Rightarrow> 'w \<Rightarrow> (HTTPClient \<times> 'w) option" where
  "http_end E h w = do { (h, w) \<leftarrow> disconnect E h False w; Some (http_clear h, w) }"

definition returnError :: "'w http_env \<Rightarrow> HTTPClient \<Rightarrow> int \<Rightarrow> 'w \<Rightarrow> (int \<times> 'w) option" where
  "returnError E h error w =
     (if error < 0 then do {
        (up, w) \<leftarrow> http_connected E h w;
        w \<leftarrow> (if up then x_stop E (h_client h) w else Some w);
        Some (error, w) }
      else Some (error, w))"

section \<open>The URL\<close>

definition beginInternal :: "string_ops \<Rightarrow> HTTPClient \<Rightarrow> byte list \<Rightarrow> byte list \<Rightarrow> bool \<times> HTTPClient" where
  "beginInternal S h url expectedProtocol =
     (let h = http_clear h;
          i = indexOf_char S url 0x3A
      in if i < 0 then (False, h)
         else
           let h = h\<lparr>h_protocol := substring S url 0 i\<rparr>
           in if h_protocol h \<noteq> expectedProtocol then (False, h)
              else
                let url = str_remove S url 0 (i + 3);
                    i = indexOf_char S url 0x2F;
                    host = substring S url 0 i;
                    url = str_remove S url 0 i;
                    i = indexOf_char S host 0x40;
                    (host, h) = (if i \<ge> 0
                                 then (str_remove S host 0 (i + 1), h\<lparr>base64Authorization := base64 S (substring S host 0 i)\<rparr>)
                                 else (host, h));
                    i = indexOf_char S host 0x3A;
                    h = (if i \<ge> 0
                         then h\<lparr>h_host := substring S host 0 i, h_port := word_of_int (str_toInt S (str_remove S host 0 (i + 1)))\<rparr>
                         else h\<lparr>h_host := host\<rparr>)
                in (True, h\<lparr>h_uri := url\<rparr>))"

text \<open>The two interfaces may not be mixed: with a client of the other one, the
  connection is closed first.\<close>

definition end_deprecated :: "'w http_env \<Rightarrow> HTTPClient \<Rightarrow> 'w \<Rightarrow> (HTTPClient \<times> 'w) option" where
  "end_deprecated E h w = (if tcpDeprecated h \<noteq> 0 then http_end E (h\<lparr>canReuse := False\<rparr>) w else Some (h, w))"

definition end_given :: "'w http_env \<Rightarrow> HTTPClient \<Rightarrow> 'w \<Rightarrow> (HTTPClient \<times> 'w) option" where
  "end_given E h w =
     (if h_client h \<noteq> 0 \<and> tcpDeprecated h = 0 then http_end E (h\<lparr>canReuse := False\<rparr>) w else Some (h, w))"

definition begin_client_url ::
  "'w http_env \<Rightarrow> HTTPClient \<Rightarrow> nat \<Rightarrow> byte list \<Rightarrow> 'w \<Rightarrow> (bool \<times> HTTPClient \<times> 'w) option" where
  "begin_client_url E h client url w = do {
     (h, w) \<leftarrow> end_deprecated E h w;
     let (h, w) = set_client E h client w;
     let i = indexOf_char (strings E) url 0x3A;
     Some (if i < 0 then (False, h, w)
           else
             let protocol = substring (strings E) url 0 i
             in if protocol \<noteq> ascii ''http'' \<and> protocol \<noteq> ascii ''https'' then (False, h, w)
                else
                  let (ok, h) = beginInternal (strings E) (h\<lparr>h_port := if protocol = ascii ''https'' then 443 else 80\<rparr>) url protocol
                  in (ok, h, w)) }"

definition begin_client_host ::
  "'w http_env \<Rightarrow> HTTPClient \<Rightarrow> nat \<Rightarrow> byte list \<Rightarrow> 16 word \<Rightarrow> byte list \<Rightarrow> bool \<Rightarrow> 'w \<Rightarrow> (bool \<times> HTTPClient \<times> 'w) option" where
  "begin_client_host E h client host port uri https w = do {
     (h, w) \<leftarrow> end_deprecated E h w;
     let (h, w) = set_client E h client w;
     Some (True, (http_clear h)\<lparr>h_host := host, h_port := port, h_uri := uri,
                   h_protocol := if https then ascii ''https'' else ascii ''http''\<rparr>, w) }"

definition begin_url_ca ::
  "'w http_env \<Rightarrow> HTTPClient \<Rightarrow> byte list \<Rightarrow> nat \<Rightarrow> 'w \<Rightarrow> (bool \<times> HTTPClient \<times> 'w) option" where
  "begin_url_ca E h url ca w = do {
     (h, w) \<leftarrow> end_given E h w;
     let (ok, h) = beginInternal (strings E) (h\<lparr>h_port := 443\<rparr>) url (ascii ''https'');
     Some (if \<not> ok then (False, h, w)
           else (True, h\<lparr>h_secure := True, transportTraits := Some (TLSTraits ca 0 0)\<rparr>, w)) }"

definition begin_url :: "'w http_env \<Rightarrow> HTTPClient \<Rightarrow> byte list \<Rightarrow> 'w \<Rightarrow> (bool \<times> HTTPClient \<times> 'w) option" where
  "begin_url E h url w = do {
     (h, w) \<leftarrow> end_given E h w;
     let (ok, h) = beginInternal (strings E) (h\<lparr>h_port := 80\<rparr>) url (ascii ''http'');
     (if \<not> ok then begin_url_ca E h url 0 w
      else Some (True, h\<lparr>transportTraits := Some TransportTraits\<rparr>, w)) }"

definition begin_host ::
  "'w http_env \<Rightarrow> HTTPClient \<Rightarrow> byte list \<Rightarrow> 16 word \<Rightarrow> byte list \<Rightarrow> 'w \<Rightarrow> (bool \<times> HTTPClient \<times> 'w) option" where
  "begin_host E h host port uri w = do {
     (h, w) \<leftarrow> end_given E h w;
     Some (True, (http_clear h)\<lparr>h_host := host, h_port := port, h_uri := uri, transportTraits := Some TransportTraits\<rparr>, w) }"

definition begin_host_ca ::
  "'w http_env \<Rightarrow> HTTPClient \<Rightarrow> byte list \<Rightarrow> 16 word \<Rightarrow> byte list \<Rightarrow> nat \<Rightarrow> 'w \<Rightarrow> (bool \<times> HTTPClient \<times> 'w) option" where
  "begin_host_ca E h host port uri ca w = do {
     (h, w) \<leftarrow> end_given E h w;
     let h = (http_clear h)\<lparr>h_host := host, h_port := port, h_uri := uri\<rparr>;
     n \<leftarrow> x_strlen E ca w;
     Some (if n = 0 then (False, h, w)
           else (True, h\<lparr>h_secure := True, transportTraits := Some (TLSTraits ca 0 0)\<rparr>, w)) }"

definition begin_host_certs ::
  "'w http_env \<Rightarrow> HTTPClient \<Rightarrow> byte list \<Rightarrow> 16 word \<Rightarrow> byte list \<Rightarrow> nat \<Rightarrow> nat \<Rightarrow> nat \<Rightarrow> 'w \<Rightarrow>
   (bool \<times> HTTPClient \<times> 'w) option" where
  "begin_host_certs E h host port uri ca cli_cert cli_key w = do {
     (h, w) \<leftarrow> end_given E h w;
     let h = (http_clear h)\<lparr>h_host := host, h_port := port, h_uri := uri\<rparr>;
     n \<leftarrow> x_strlen E ca w;
     Some (if n = 0 then (False, h, w)
           else (True, h\<lparr>h_secure := True, transportTraits := Some (TLSTraits ca cli_cert cli_key)\<rparr>, w)) }"

section \<open>Settings\<close>

definition setReuse :: "HTTPClient \<Rightarrow> bool \<Rightarrow> HTTPClient" where
  "setReuse h reuse = h\<lparr>h_reuse := reuse\<rparr>"

definition setUserAgent :: "HTTPClient \<Rightarrow> byte list \<Rightarrow> HTTPClient" where
  "setUserAgent h agent = h\<lparr>h_userAgent := agent\<rparr>"

definition setAuthorization_user :: "string_ops \<Rightarrow> HTTPClient \<Rightarrow> byte list option \<Rightarrow> byte list option \<Rightarrow> HTTPClient" where
  "setAuthorization_user S h user password =
     (case (user, password) of
        (Some u, Some p) \<Rightarrow> h\<lparr>base64Authorization := base64 S (u @ ascii '':'' @ p)\<rparr>
      | _ \<Rightarrow> h)"

definition setAuthorization :: "HTTPClient \<Rightarrow> byte list option \<Rightarrow> HTTPClient" where
  "setAuthorization h auth = (case auth of Some a \<Rightarrow> h\<lparr>base64Authorization := a\<rparr> | None \<Rightarrow> h)"

definition setConnectTimeout :: "HTTPClient \<Rightarrow> int \<Rightarrow> HTTPClient" where
  "setConnectTimeout h t = h\<lparr>connectTimeout := t\<rparr>"

definition timeout_argument :: "16 word \<Rightarrow> int" where
  "timeout_argument t = (uint t + 500) div 1000"

definition http_setTimeout :: "'w http_env \<Rightarrow> HTTPClient \<Rightarrow> 16 word \<Rightarrow> 'w \<Rightarrow> (HTTPClient \<times> 'w) option" where
  "http_setTimeout E h t w = do {
     let h = h\<lparr>tcpTimeout := t\<rparr>;
     (up, w) \<leftarrow> http_connected E h w;
     Some (h, if up then x_setTimeout E (h_client h) (timeout_argument t) w else w) }"

definition useHTTP10 :: "HTTPClient \<Rightarrow> bool \<Rightarrow> HTTPClient" where
  "useHTTP10 h b = h\<lparr>h_useHTTP10 := b, h_reuse := \<not> b\<rparr>"

end
