(* ===== verification/Http_Request.thy ===== *)
theory Http_Request
  imports Http_Client
begin

text \<open>
  \<open>HTTPClient\<close>, \<open>src/HTTPClient.cpp\<close>: connecting, the header of the request, the header
  of the response, and requests with a body from memory or from a stream.
\<close>

section \<open>Headers\<close>

definition CRLF :: "byte list" where
  "CRLF = [0x0D, 0x0A]"

definition addHeader :: "string_ops \<Rightarrow> HTTPClient \<Rightarrow> byte list \<Rightarrow> byte list \<Rightarrow> bool \<Rightarrow> bool \<Rightarrow> HTTPClient" where
  "addHeader S h name value first repl =
     (if \<not> equalsIgnoreCase S name (ascii ''Connection'') \<and> \<not> equalsIgnoreCase S name (ascii ''User-Agent'') \<and>
         \<not> equalsIgnoreCase S name (ascii ''Host'') \<and>
         \<not> (equalsIgnoreCase S name (ascii ''Authorization'') \<and> base64Authorization h \<noteq> []) then
        let headerLine = name @ ascii '': '';
            start = indexOf_str S (h_headers h) headerLine;
            hs = (if repl \<and> start \<noteq> -1
                  then substring S (h_headers h) 0 start @
                       substring_from S (h_headers h) (indexOf_char_from S (h_headers h) 0x0A start + 1)
                  else h_headers h);
            headerLine = headerLine @ value @ CRLF
        in h\<lparr>h_headers := if first then headerLine @ hs else hs @ headerLine\<rparr>
      else h)"

text \<open>The arguments are an array and its length.\<close>

definition collectHeaders :: "HTTPClient \<Rightarrow> byte list list \<Rightarrow> nat \<Rightarrow> HTTPClient option" where
  "collectHeaders h headerKeys headerKeysCount =
     (if headerKeysCount \<le> length headerKeys
      then Some (h\<lparr>currentHeaders := map (\<lambda>k. (k, [])) (take headerKeysCount headerKeys)\<rparr>) else None)"

definition header_named :: "HTTPClient \<Rightarrow> byte list \<Rightarrow> byte list" where
  "header_named h name = (case List.find (\<lambda>(k, v). k = name) (currentHeaders h) of None \<Rightarrow> [] | Some (k, v) \<Rightarrow> v)"

definition header_at :: "HTTPClient \<Rightarrow> nat \<Rightarrow> byte list" where
  "header_at h i = (if i < length (currentHeaders h) then snd (currentHeaders h ! i) else [])"

definition headerName :: "HTTPClient \<Rightarrow> nat \<Rightarrow> byte list" where
  "headerName h i = (if i < length (currentHeaders h) then fst (currentHeaders h ! i) else [])"

definition headers :: "HTTPClient \<Rightarrow> int" where
  "headers h = int_of_size (length (currentHeaders h))"

definition hasHeader :: "HTTPClient \<Rightarrow> byte list \<Rightarrow> bool" where
  "hasHeader h name = list_ex (\<lambda>(k, v). k = name \<and> v \<noteq> []) (currentHeaders h)"

section \<open>Connecting\<close>

definition traits_create :: "'w http_env \<Rightarrow> traits \<Rightarrow> 'w \<Rightarrow> nat \<times> 'w" where
  "traits_create E t w =
     (case t of
        TransportTraits \<Rightarrow> new_TCPClient E w
      | TLSTraits _ _ _ \<Rightarrow> if fembed_platform E then new_TCPClient E w else new_TCPClientSecure E w)"

definition traits_verify :: "'w http_env \<Rightarrow> traits \<Rightarrow> nat \<Rightarrow> 'w \<Rightarrow> (bool \<times> 'w) option" where
  "traits_verify E t c w =
     (case t of
        TransportTraits \<Rightarrow> Some (True, w)
      | TLSTraits ca cert key \<Rightarrow>
          if c = 0 then Some (False, w)
          else if fembed_platform E then Some (True, w)
          else do {
            w \<leftarrow> x_setCACert E c ca w;
            w \<leftarrow> x_setCertificate E c cert w;
            w \<leftarrow> x_setPrivateKey E c key w;
            Some (True, w) })"

definition create_client :: "'w http_env \<Rightarrow> HTTPClient \<Rightarrow> 'w \<Rightarrow> bool \<times> HTTPClient \<times> 'w" where
  "create_client E h w =
     (case transportTraits h of
        None \<Rightarrow> (True, h, w)
      | Some t \<Rightarrow>
          if h_client h \<noteq> 0 then (True, h, w)
          else
            let (c, w) = traits_create E t w;
                (h, w) = drop_deprecated E h w;
                h = h\<lparr>tcpDeprecated := c\<rparr>
            in if c = 0 then (False, h, w) else let (h, w) = set_client E h c w in (True, h, w))"

text \<open>A null pointer to the traits is dereferenced when there is a client of the old
  interface without them.\<close>

definition http_open :: "'w http_env \<Rightarrow> HTTPClient \<Rightarrow> 'w \<Rightarrow> (bool \<times> HTTPClient \<times> 'w) option" where
  "http_open E h w =
     (let (ok, h, w) = create_client E h w
      in if \<not> ok \<or> h_client h = 0 then Some (False, h, w)
         else do {
           (rc, w) \<leftarrow> x_connect E (h_client h) (h_host h) (h_port h) (connectTimeout h) w;
           (if rc < 0 then Some (False, h, w)
            else do {
              let w = x_setTimeout E (h_client h) (timeout_argument (tcpTimeout h)) w;
              (ok, w) \<leftarrow> (if tcpDeprecated h \<noteq> 0
                          then (case transportTraits h of None \<Rightarrow> None | Some t \<Rightarrow> traits_verify E t (h_client h) w)
                          else Some (True, w));
              (if \<not> ok then do { w \<leftarrow> x_stop E (h_client h) w; Some (False, h, w) }
               else do { (up, w) \<leftarrow> http_connected E h w; Some (up, h, w) }) }) })"

definition http_connect :: "'w http_env \<Rightarrow> HTTPClient \<Rightarrow> 'w \<Rightarrow> (bool \<times> HTTPClient \<times> 'w) option" where
  "http_connect E h w = do {
     (up, w) \<leftarrow> http_connected E h w;
     (if up then do { w \<leftarrow> drain E (h_client h) w; Some (True, h, w) } else http_open E h w) }"

section \<open>The request\<close>

text \<open>The text of the header; \<open>auth\<close> is what it has for the authorization.\<close>

definition request_text :: "string_ops \<Rightarrow> HTTPClient \<Rightarrow> byte list option \<Rightarrow> byte list \<Rightarrow> byte list" where
  "request_text S h auth type =
     type @ ascii '' '' @ h_uri h @ ascii '' HTTP/1.'' @ (if h_useHTTP10 h then ascii ''0'' else ascii ''1'') @
     CRLF @ ascii ''Host: '' @ h_host h @
     (if h_port h \<noteq> 80 \<and> h_port h \<noteq> 443 then ascii '':'' @ str_number S (uint (h_port h)) else []) @
     CRLF @ ascii ''User-Agent: '' @ h_userAgent h @ CRLF @ ascii ''Connection: '' @
     (if h_reuse h then ascii ''keep-alive'' else ascii ''close'') @ CRLF @
     (if h_useHTTP10 h then [] else ascii ''Accept-Encoding: identity;q=1,chunked;q=0.1,*;q=0'' @ CRLF) @
     (case auth of None \<Rightarrow> [] | Some a \<Rightarrow> ascii ''Authorization: Basic '' @ a @ CRLF) @
     h_headers h @ CRLF"

definition sendHeader :: "'w http_env \<Rightarrow> HTTPClient \<Rightarrow> byte list \<Rightarrow> 'w \<Rightarrow> (bool \<times> HTTPClient \<times> 'w) option" where
  "sendHeader E h type w = do {
     (up, w) \<leftarrow> http_connected E h w;
     (if \<not> up then Some (False, h, w)
      else do {
        let (auth, h) = (if base64Authorization h = [] then (None, h)
                         else let a = str_replace (strings E) (base64Authorization h) [0x0A] []
                              in (Some a, h\<lparr>base64Authorization := a\<rparr>));
        let header = request_text (strings E) h auth type;
        (n, w) \<leftarrow> x_write E (h_client h) header w;
        Some (n = word_of_nat (length header), h, w) }) }"

section \<open>The header of the response\<close>

definition int_of_long :: "int \<Rightarrow> int" where
  "int_of_long x = sint (word_of_int x :: 32 word)"

primrec set_header :: "string_ops \<Rightarrow> (byte list \<times> byte list) list \<Rightarrow> byte list \<Rightarrow> byte list \<Rightarrow> (byte list \<times> byte list) list" where
  "set_header S [] name value = []"
| "set_header S (kv # hs) name value =
     (if equalsIgnoreCase S (fst kv) name then (fst kv, value) # hs else kv # set_header S hs name value)"

definition status_line :: "string_ops \<Rightarrow> HTTPClient \<Rightarrow> byte list \<Rightarrow> HTTPClient" where
  "status_line S h line =
     h\<lparr>canReuse := canReuse h \<and> str_at S line 7 \<noteq> 0x30,
       returnCode := int_of_long (str_toInt S (substring S line 9 (indexOf_char_from S line 0x20 9)))\<rparr>"

text \<open>A line of the header; \<open>te\<close> is the transfer encoding so far.\<close>

definition field_line :: "string_ops \<Rightarrow> HTTPClient \<Rightarrow> byte list \<Rightarrow> byte list \<Rightarrow> HTTPClient \<times> byte list" where
  "field_line S h te line =
     (let name = substring S line 0 (indexOf_char S line 0x3A);
          value = str_trim S (substring_from S line (indexOf_char S line 0x3A + 1));
          h = (if equalsIgnoreCase S name (ascii ''Content-Length'')
               then h\<lparr>h_size := int_of_long (str_toInt S value)\<rparr> else h);
          h = (if canReuse h \<and> equalsIgnoreCase S name (ascii ''Connection'') \<and>
                  indexOf_str S value (ascii ''close'') \<ge> 0 \<and> indexOf_str S value (ascii ''keep-alive'') < 0
               then h\<lparr>canReuse := False\<rparr> else h);
          te = (if equalsIgnoreCase S name (ascii ''Transfer-Encoding'') then value else te)
      in (h\<lparr>currentHeaders := set_header S (currentHeaders h) name value\<rparr>, te))"

definition header_line :: "string_ops \<Rightarrow> HTTPClient \<Rightarrow> byte list \<Rightarrow> byte list \<Rightarrow> HTTPClient \<times> byte list" where
  "header_line S h te line =
     (if str_startsWith S line (ascii ''HTTP/1.'') then (status_line S h line, te)
      else if indexOf_char S line 0x3A \<noteq> 0 then field_line S h te line
      else (h, te))"

text \<open>The empty line.\<close>

definition header_end :: "string_ops \<Rightarrow> HTTPClient \<Rightarrow> byte list \<Rightarrow> int \<times> HTTPClient" where
  "header_end S h te =
     (if te \<noteq> [] \<and> \<not> equalsIgnoreCase S te (ascii ''chunked'') then (HTTPC_ERROR_ENCODING, h)
      else
        (if returnCode h \<noteq> 0 then returnCode h else HTTPC_ERROR_NO_HTTP_SERVER,
         h\<lparr>h_transferEncoding := if te \<noteq> [] then HTTPC_TE_CHUNKED else HTTPC_TE_IDENTITY\<rparr>))"

text \<open>The number of bytes available becomes a \<open>size_t\<close>: only 0 is not positive.\<close>

partial_function (option) header_loop ::
  "'w http_env \<Rightarrow> HTTPClient \<Rightarrow> byte list \<Rightarrow> 32 word \<Rightarrow> 'w \<Rightarrow> (int \<times> HTTPClient \<times> 'w) option" where
  "header_loop E h te lastDataTime w = do {
     (up, w) \<leftarrow> http_connected E h w;
     (if \<not> up then Some (HTTPC_ERROR_CONNECTION_LOST, h, w)
      else do {
        (n, w) \<leftarrow> x_available E (h_client h) w;
        (if n \<noteq> 0 then do {
           (line, w) \<leftarrow> x_readStringUntil E (h_client h) 0x0A w;
           let (lastDataTime, w) = x_millis E w;
           let line = str_trim (strings E) line;
           let (h, te) = header_line (strings E) h te line;
           (if line = [] then let (r, h) = header_end (strings E) h te in Some (r, h, w)
            else header_loop E h te lastDataTime w) }
         else do {
           let (now, w) = x_millis E w;
           (if now - lastDataTime > ucast (tcpTimeout h) then Some (HTTPC_ERROR_READ_TIMEOUT, h, w)
            else header_loop E h te lastDataTime (x_delay E 10 w)) }) }) }"

declare header_loop.simps [code]

definition handleHeaderResponse :: "'w http_env \<Rightarrow> HTTPClient \<Rightarrow> 'w \<Rightarrow> (int \<times> HTTPClient \<times> 'w) option" where
  "handleHeaderResponse E h w = do {
     (up, w) \<leftarrow> http_connected E h w;
     (if \<not> up then Some (HTTPC_ERROR_NOT_CONNECTED, h, w)
      else
        let h = (http_clear h)\<lparr>canReuse := h_reuse h, h_transferEncoding := HTTPC_TE_IDENTITY\<rparr>;
            (t, w) = x_millis E w
        in header_loop E h [] t w) }"

definition finish_request :: "'w http_env \<Rightarrow> HTTPClient \<Rightarrow> 'w \<Rightarrow> (int \<times> HTTPClient \<times> 'w) option" where
  "finish_request E h w = do {
     (code, h, w) \<leftarrow> handleHeaderResponse E h w;
     (r, w) \<leftarrow> returnError E h code w;
     Some (r, h, w) }"

definition http_fail :: "'w http_env \<Rightarrow> HTTPClient \<Rightarrow> int \<Rightarrow> 'w \<Rightarrow> (int \<times> HTTPClient \<times> 'w) option" where
  "http_fail E h error w = do { (r, w) \<leftarrow> returnError E h error w; Some (r, h, w) }"

section \<open>Requests\<close>

text \<open>\<open>payload\<close> is the object that the argument points to (\<open>None\<close> for \<open>NULL\<close>); sending
  more than its bytes is undefined.\<close>

definition sendRequest ::
  "'w http_env \<Rightarrow> HTTPClient \<Rightarrow> byte list \<Rightarrow> byte list option \<Rightarrow> nat \<Rightarrow> 'w \<Rightarrow> (int \<times> HTTPClient \<times> 'w) option" where
  "sendRequest E h type payload n w = do {
     (ok, h, w) \<leftarrow> http_connect E h w;
     (if \<not> ok then http_fail E h HTTPC_ERROR_CONNECTION_REFUSED w
      else do {
        let body = payload \<noteq> None \<and> n > 0;
        let h = (if body then addHeader (strings E) h (ascii ''Content-Length'') (str_number (strings E) (int n)) False True else h);
        (ok, h, w) \<leftarrow> sendHeader E h type w;
        (if \<not> ok then http_fail E h HTTPC_ERROR_SEND_HEADER_FAILED w
         else do {
           (sent, w) \<leftarrow> (case payload of
              Some p \<Rightarrow> if n > 0 then (if length p < n then None else x_write E (h_client h) (take n p) w)
                        else Some (word_of_nat n, w)
            | None \<Rightarrow> Some (word_of_nat n, w));
           (if sent \<noteq> word_of_nat n then http_fail E h HTTPC_ERROR_SEND_PAYLOAD_FAILED w
            else finish_request E h w) }) }) }"

definition http_GET :: "'w http_env \<Rightarrow> HTTPClient \<Rightarrow> 'w \<Rightarrow> (int \<times> HTTPClient \<times> 'w) option" where
  "http_GET E h w = sendRequest E h (ascii ''GET'') None 0 w"

definition http_POST :: "'w http_env \<Rightarrow> HTTPClient \<Rightarrow> byte list option \<Rightarrow> nat \<Rightarrow> 'w \<Rightarrow> (int \<times> HTTPClient \<times> 'w) option" where
  "http_POST E h payload n w = sendRequest E h (ascii ''POST'') payload n w"

definition http_PATCH :: "'w http_env \<Rightarrow> HTTPClient \<Rightarrow> byte list option \<Rightarrow> nat \<Rightarrow> 'w \<Rightarrow> (int \<times> HTTPClient \<times> 'w) option" where
  "http_PATCH E h payload n w = sendRequest E h (ascii ''PATCH'') payload n w"

definition http_PUT :: "'w http_env \<Rightarrow> HTTPClient \<Rightarrow> byte list option \<Rightarrow> nat \<Rightarrow> 'w \<Rightarrow> (int \<times> HTTPClient \<times> 'w) option" where
  "http_PUT E h payload n w = sendRequest E h (ascii ''PUT'') payload n w"

text \<open>The variants that take a \<open>String\<close>.\<close>

definition sendRequest_text ::
  "'w http_env \<Rightarrow> HTTPClient \<Rightarrow> byte list \<Rightarrow> byte list \<Rightarrow> 'w \<Rightarrow> (int \<times> HTTPClient \<times> 'w) option" where
  "sendRequest_text E h type payload w = sendRequest E h type (Some payload) (length payload) w"

definition http_POST_text :: "'w http_env \<Rightarrow> HTTPClient \<Rightarrow> byte list \<Rightarrow> 'w \<Rightarrow> (int \<times> HTTPClient \<times> 'w) option" where
  "http_POST_text E h payload w = http_POST E h (Some payload) (length payload) w"

definition http_PATCH_text :: "'w http_env \<Rightarrow> HTTPClient \<Rightarrow> byte list \<Rightarrow> 'w \<Rightarrow> (int \<times> HTTPClient \<times> 'w) option" where
  "http_PATCH_text E h payload w = http_PATCH E h (Some payload) (length payload) w"

definition http_PUT_text :: "'w http_env \<Rightarrow> HTTPClient \<Rightarrow> byte list \<Rightarrow> 'w \<Rightarrow> (int \<times> HTTPClient \<times> 'w) option" where
  "http_PUT_text E h payload w = http_PUT E h (Some payload) (length payload) w"

end
