(* ===== verification/Http_Body.thy ===== *)
theory Http_Body
  imports Http_Request
begin

text \<open>
  \<open>HTTPClient\<close>, \<open>src/HTTPClient.cpp\<close>: the body of the response, of a known length, up
  to the end of the connection or in chunks, and the body of a request that comes
  from a stream. A stream is named by its address, 0 for \<open>NULL\<close>.
\<close>

section \<open>One block of the response\<close>

text \<open>The number of bytes to read next: what is available, what is asked for, what the
  buffer holds.\<close>

definition read_size :: "int \<Rightarrow> int \<Rightarrow> int \<Rightarrow> int" where
  "read_size available len buff_size =
     (let r = (if len > 0 \<and> available > len then len else available)
      in if r > buff_size then buff_size else r)"

definition size_of_int :: "int \<Rightarrow> nat" where
  "size_of_int n = unat (word_of_int n :: 32 word)"

text \<open>Writing \<open>got\<close> bytes of the buffer to the stream, with a second attempt for the
  rest of the \<open>asked\<close> ones; \<open>Inl\<close> is an error, \<open>Inr\<close> the number of bytes written.\<close>

definition store_block ::
  "'w http_env \<Rightarrow> nat \<Rightarrow> byte list \<Rightarrow> int \<Rightarrow> nat \<Rightarrow> int \<Rightarrow> 'w \<Rightarrow> ((int + int) \<times> 'w) option" where
  "store_block E s buff asked got written w = do {
     (n, w) \<leftarrow> s_write E s (take got buff) w;
     let n = sint n;
     written \<leftarrow> cint (written + n);
     (ok, written, w) \<leftarrow>
       (if n = int_of_size got then Some (True, written, w)
        else do {
          let w = (if s_getWriteError E s w \<noteq> 0 then s_clearWriteError E s w else w);
          let w = x_delay E 1 w;
          let left = asked - n;
          (if n < 0 \<or> left < 0 \<or> n + left > int (length buff) then None
           else do {
             (m, w) \<leftarrow> s_write E s (take (nat left) (drop (nat n) buff)) w;
             let m = sint m;
             written \<leftarrow> cint (written + m);
             Some (m = left, written, w) }) });
     Some (if \<not> ok \<or> s_getWriteError E s w \<noteq> 0 then (Inl HTTPC_ERROR_STREAM_WRITE, x_free E w)
           else (Inr written, w)) }"

partial_function (option) block_loop ::
  "'w http_env \<Rightarrow> HTTPClient \<Rightarrow> nat \<Rightarrow> int \<Rightarrow> int \<Rightarrow> int \<Rightarrow> byte list \<Rightarrow> 'w \<Rightarrow> ((int + int) \<times> 'w) option" where
  "block_loop E h s buff_size len written buff w = do {
     (up, w) \<leftarrow> http_connected E h w;
     (if \<not> (up \<and> (len > 0 \<or> len = -1)) then Some (Inr written, x_free E w)
      else do {
        (n, w) \<leftarrow> x_available E (h_client h) w;
        (if n = 0 then block_loop E h s buff_size len written buff (x_delay E 1 w)
         else do {
           let asked = read_size n len buff_size;
           (bs, w) \<leftarrow> x_readBytes E (h_client h) (size_of_int asked) w;
           buff \<leftarrow> memcpy buff 0 bs (int (length bs));
           (r, w) \<leftarrow> store_block E s buff asked (length bs) written w;
           (case r of
              Inl e \<Rightarrow> Some (Inl e, w)
            | Inr written \<Rightarrow> do {
                len \<leftarrow> (if len > 0 then cint (len - asked) else Some len);
                block_loop E h s buff_size len written buff (x_delay E 0 w) }) }) }) }"

declare block_loop.simps [code]

text \<open>The test for 0 bytes to read is never true here: neither the available bytes nor
  the length nor the buffer are 0.\<close>

definition block_buffer :: "int \<Rightarrow> int" where
  "block_buffer len = (if len > 0 \<and> len < HTTP_TCP_BUFFER_SIZE then len else HTTP_TCP_BUFFER_SIZE)"

definition writeToStreamDataBlock :: "'w http_env \<Rightarrow> HTTPClient \<Rightarrow> nat \<Rightarrow> int \<Rightarrow> 'w \<Rightarrow> (int \<times> 'w) option" where
  "writeToStreamDataBlock E h s n w =
     (let (buff, w) = x_malloc E (nat (block_buffer n)) w
      in case buff of
           None \<Rightarrow> Some (HTTPC_ERROR_TOO_LESS_RAM, w)
         | Some buff \<Rightarrow> do {
             (r, w) \<leftarrow> block_loop E h s (block_buffer n) n 0 buff w;
             Some (case r of
                     Inl e \<Rightarrow> e
                   | Inr written \<Rightarrow> if n > 0 \<and> n \<noteq> written then HTTPC_ERROR_STREAM_WRITE else written, w) })"

section \<open>The body of the response\<close>

definition chunk_size :: "'w http_env \<Rightarrow> byte list \<Rightarrow> int" where
  "chunk_size E line = sint (word_of_int (strtol16 (x_long_max E) line) :: 32 word)"

text \<open>The data of a chunk and the line end behind it, and the end after the last chunk.
  \<open>Inl\<close> is the value \<open>writeToStream\<close> returns at once.\<close>

definition read_chunk :: "'w http_env \<Rightarrow> HTTPClient \<Rightarrow> nat \<Rightarrow> int \<Rightarrow> int \<Rightarrow> 'w \<Rightarrow> ((int + int) \<times> 'w) option" where
  "read_chunk E h s len ret w = do {
     (r, w) \<leftarrow> writeToStreamDataBlock E h s len w;
     (if r < 0 then do { (r, w) \<leftarrow> returnError E h r w; Some (Inl r, w) }
      else do {
        ret \<leftarrow> cint (ret + r);
        (trail, w) \<leftarrow> x_readBytes E (h_client h) 2 w;
        (if length trail > 2 then None
         else if trail \<noteq> CRLF then do { (r, w) \<leftarrow> returnError E h HTTPC_ERROR_READ_TIMEOUT w; Some (Inl r, w) }
         else Some (Inr ret, w)) }) }"

definition last_chunk :: "'w http_env \<Rightarrow> HTTPClient \<Rightarrow> int \<Rightarrow> int \<Rightarrow> 'w \<Rightarrow> ((int + int) \<times> HTTPClient \<times> 'w) option" where
  "last_chunk E h body ret w =
     (let h = (if h_size h \<le> 0 then h\<lparr>h_size := body\<rparr> else h)
      in if ret \<noteq> h_size h then do { (r, w) \<leftarrow> returnError E h HTTPC_ERROR_STREAM_WRITE w; Some (Inl r, h, w) }
         else Some (Inr ret, h, w))"

partial_function (option) chunk_loop ::
  "'w http_env \<Rightarrow> HTTPClient \<Rightarrow> nat \<Rightarrow> int \<Rightarrow> int \<Rightarrow> 'w \<Rightarrow> ((int + int) \<times> HTTPClient \<times> 'w) option" where
  "chunk_loop E h s body ret w = do {
     (up, w) \<leftarrow> http_connected E h w;
     (if \<not> up then do { (r, w) \<leftarrow> returnError E h HTTPC_ERROR_CONNECTION_LOST w; Some (Inl r, h, w) }
      else do {
        (line, w) \<leftarrow> x_readStringUntil E (h_client h) 0x0A w;
        (if line = [] then do { (r, w) \<leftarrow> returnError E h HTTPC_ERROR_READ_TIMEOUT w; Some (Inl r, h, w) }
         else do {
           let len = chunk_size E (str_trim (strings E) line);
           body \<leftarrow> cint (body + len);
           (if len > 0 then do {
              (r, w) \<leftarrow> read_chunk E h s len ret w;
              (case r of Inl e \<Rightarrow> Some (Inl e, h, w) | Inr ret \<Rightarrow> chunk_loop E h s body ret (x_delay E 0 w)) }
            else last_chunk E h body ret w) }) }) }"

declare chunk_loop.simps [code]

definition write_identity :: "'w http_env \<Rightarrow> HTTPClient \<Rightarrow> nat \<Rightarrow> 'w \<Rightarrow> ((int + int) \<times> HTTPClient \<times> 'w) option" where
  "write_identity E h s w = do {
     (r, w) \<leftarrow> writeToStreamDataBlock E h s (h_size h) w;
     (if r < 0 then do { (r, w) \<leftarrow> returnError E h r w; Some (Inl r, h, w) } else Some (Inr r, h, w)) }"

definition writeToStream :: "'w http_env \<Rightarrow> HTTPClient \<Rightarrow> nat \<Rightarrow> 'w \<Rightarrow> (int \<times> HTTPClient \<times> 'w) option" where
  "writeToStream E h s w =
     (if s = 0 then http_fail E h HTTPC_ERROR_NO_STREAM w
      else do {
        (up, w) \<leftarrow> http_connected E h w;
        (if \<not> up then http_fail E h HTTPC_ERROR_NOT_CONNECTED w
         else do {
           (r, h, w) \<leftarrow> (case h_transferEncoding h of
              HTTPC_TE_IDENTITY \<Rightarrow> write_identity E h s w
            | HTTPC_TE_CHUNKED \<Rightarrow> chunk_loop E h s 0 0 w);
           (case r of
              Inl e \<Rightarrow> Some (e, h, w)
            | Inr ret \<Rightarrow> do { (h, w) \<leftarrow> disconnect E h True w; Some (ret, h, w) }) }) })"

definition getString :: "'w http_env \<Rightarrow> HTTPClient \<Rightarrow> 'w \<Rightarrow> (byte list \<times> HTTPClient \<times> 'w) option" where
  "getString E h w = do {
     let (s, w) = new_StreamString E w;
     room \<leftarrow> (if h_size h \<noteq> 0 then cint (h_size h + 1) else Some 0);
     let (ok, w) = (if h_size h \<noteq> 0 then s_reserve E s (word_of_int room) w else (True, w));
     (if \<not> ok then Some ([], h, w)
      else do { (_, h, w) \<leftarrow> writeToStream E h s w; Some (s_text E s w, h, w) }) }"

definition getSize :: "HTTPClient \<Rightarrow> int" where
  "getSize h = h_size h"

text \<open>\<open>getStream\<close> gives the client, or a client that is never connected (\<open>None\<close>).\<close>

definition getStream :: "'w http_env \<Rightarrow> HTTPClient \<Rightarrow> 'w \<Rightarrow> (nat option \<times> 'w) option" where
  "getStream E h w = do { (up, w) \<leftarrow> http_connected E h w; Some (if up then Some (h_client h) else None, w) }"

definition getStreamPtr :: "'w http_env \<Rightarrow> HTTPClient \<Rightarrow> 'w \<Rightarrow> (nat \<times> 'w) option" where
  "getStreamPtr E h w = do { (up, w) \<leftarrow> http_connected E h w; Some (if up then h_client h else 0, w) }"

definition errorToString :: "int \<Rightarrow> byte list" where
  "errorToString error =
     (if error = HTTPC_ERROR_CONNECTION_REFUSED then ascii ''connection refused''
      else if error = HTTPC_ERROR_SEND_HEADER_FAILED then ascii ''send header failed''
      else if error = HTTPC_ERROR_SEND_PAYLOAD_FAILED then ascii ''send payload failed''
      else if error = HTTPC_ERROR_NOT_CONNECTED then ascii ''not connected''
      else if error = HTTPC_ERROR_CONNECTION_LOST then ascii ''connection lost''
      else if error = HTTPC_ERROR_NO_STREAM then ascii ''no stream''
      else if error = HTTPC_ERROR_NO_HTTP_SERVER then ascii ''no HTTP server''
      else if error = HTTPC_ERROR_TOO_LESS_RAM then ascii ''too less ram''
      else if error = HTTPC_ERROR_ENCODING then ascii ''Transfer-Encoding not supported''
      else if error = HTTPC_ERROR_STREAM_WRITE then ascii ''Stream write error''
      else if error = HTTPC_ERROR_READ_TIMEOUT then ascii ''read Timeout''
      else [])"

section \<open>A request with a body from a stream\<close>

text \<open>Sending a block, with the second attempt.\<close>

definition send_block ::
  "'w http_env \<Rightarrow> HTTPClient \<Rightarrow> byte list \<Rightarrow> int \<Rightarrow> nat \<Rightarrow> int \<Rightarrow> 'w \<Rightarrow> ((int + int) \<times> 'w) option" where
  "send_block E h buff asked got written w = do {
     (n, w) \<leftarrow> x_write E (h_client h) (take got buff) w;
     let n = sint n;
     written \<leftarrow> cint (written + n);
     (ok, written, w) \<leftarrow>
       (if n = int_of_size got then Some (True, written, w)
        else do {
          let w = (if x_getWriteError E (h_client h) w \<noteq> 0 then x_clearWriteError E (h_client h) w else w);
          let w = x_delay E 1 w;
          let left = asked - n;
          (if n < 0 \<or> left < 0 \<or> n + left > int (length buff) then None
           else do {
             (m, w) \<leftarrow> x_write E (h_client h) (take (nat left) (drop (nat n) buff)) w;
             let m = sint m;
             written \<leftarrow> cint (written + m);
             Some (m = left, written, w) }) });
     Some (if \<not> ok \<or> x_getWriteError E (h_client h) w \<noteq> 0 then (Inl HTTPC_ERROR_SEND_PAYLOAD_FAILED, x_free E w)
           else (Inr written, w)) }"

partial_function (option) stream_send_loop ::
  "'w http_env \<Rightarrow> HTTPClient \<Rightarrow> nat \<Rightarrow> int \<Rightarrow> int \<Rightarrow> int \<Rightarrow> byte list \<Rightarrow> 'w \<Rightarrow> ((int + int) \<times> 'w) option" where
  "stream_send_loop E h s buff_size len written buff w = do {
     (up, w) \<leftarrow> http_connected E h w;
     (if \<not> up then Some (Inr written, x_free E w)
      else do {
        (more, w) \<leftarrow> s_available E s w;
        (if \<not> (more > -1 \<and> (len > 0 \<or> len = -1)) then Some (Inr written, x_free E w)
         else do {
           (n, w) \<leftarrow> s_available E s w;
           (if n = 0 then stream_send_loop E h s buff_size len written buff (x_delay E 1 w)
            else do {
              let asked = read_size n len buff_size;
              (bs, w) \<leftarrow> s_readBytes E s (size_of_int asked) w;
              buff \<leftarrow> memcpy buff 0 bs (int (length bs));
              (r, w) \<leftarrow> send_block E h buff asked (length bs) written w;
              (case r of
                 Inl e \<Rightarrow> Some (Inl e, w)
               | Inr written \<Rightarrow> do {
                   len \<leftarrow> (if len > 0 then cint (len - asked) else Some len);
                   stream_send_loop E h s buff_size len written buff (x_delay E 0 w) }) }) }) }) }"

declare stream_send_loop.simps [code]

definition send_stream :: "'w http_env \<Rightarrow> HTTPClient \<Rightarrow> nat \<Rightarrow> nat \<Rightarrow> 'w \<Rightarrow> (int \<times> HTTPClient \<times> 'w) option" where
  "send_stream E h s n w =
     (let len = (if int_of_size n = 0 then -1 else int_of_size n);
          (buff, w) = x_malloc E (nat (block_buffer len)) w
      in case buff of
           None \<Rightarrow> http_fail E h HTTPC_ERROR_TOO_LESS_RAM w
         | Some buff \<Rightarrow> do {
             (r, w) \<leftarrow> stream_send_loop E h s (block_buffer len) len 0 buff w;
             (case r of
                Inl e \<Rightarrow> http_fail E h e w
              | Inr written \<Rightarrow>
                  if n \<noteq> 0 \<and> int_of_size n \<noteq> written then http_fail E h HTTPC_ERROR_SEND_PAYLOAD_FAILED w
                  else finish_request E h w) })"

definition sendRequest_stream ::
  "'w http_env \<Rightarrow> HTTPClient \<Rightarrow> byte list \<Rightarrow> nat \<Rightarrow> nat \<Rightarrow> 'w \<Rightarrow> (int \<times> HTTPClient \<times> 'w) option" where
  "sendRequest_stream E h type s n w =
     (if s = 0 then http_fail E h HTTPC_ERROR_NO_STREAM w
      else do {
        (ok, h, w) \<leftarrow> http_connect E h w;
        (if \<not> ok then http_fail E h HTTPC_ERROR_CONNECTION_REFUSED w
         else do {
           let h = (if n > 0 then addHeader (strings E) h (ascii ''Content-Length'') (str_number (strings E) (int n)) False True else h);
           (ok, h, w) \<leftarrow> sendHeader E h type w;
           (if \<not> ok then http_fail E h HTTPC_ERROR_SEND_HEADER_FAILED w else send_stream E h s n w) }) })"

end
