(* ===== verification/Http_Serve.thy ===== *)
theory Http_Serve
  imports Http_Body
begin

text \<open>
  A connection of \<open>HTTPClient\<close> that works: \<open>http_net\<close> says what the methods of the TCP
  client, the stream and the heap do when the server's bytes arrive in order, however
  many of them are there at a time. A world is observed as whether the
  connection is open, the bytes still to come from the server, the bytes sent to it, and the bytes written to the stream of the caller.
  The lemmas follow one block of a body, a chunked body, and the lines of a header.
\<close>

section \<open>The connection\<close>

type_synonym 'w view = "'w \<Rightarrow> bool \<times> byte list \<times> byte list \<times> byte list"

text \<open>Documented behaviour: \<open>available\<close> counts bytes that can be read without waiting,
  \<open>readBytes\<close> waits for all the bytes it is asked for, \<open>readStringUntil\<close> drops the
  terminator, a completed \<open>write\<close> gives the number of bytes.\<close>

definition net_reads :: "'w http_env \<Rightarrow> nat \<Rightarrow> 'w view \<Rightarrow> bool" where
  "net_reads E c obs \<longleftrightarrow> (\<forall>w i q d. obs w = (True, i, q, d) \<longrightarrow>
     (\<exists>n w'. x_available E c w = Some (int n, w') \<and> n \<le> length i \<and> (i \<noteq> [] \<longrightarrow> 0 < n) \<and> obs w' = (True, i, q, d)) \<and>
     (\<exists>w'. x_connected E c w = Some (True, w') \<and> obs w' = (True, i, q, d)) \<and>
     (i \<noteq> [] \<longrightarrow> (\<exists>b w'. x_read E c w = Some (b, w') \<and> obs w' = (True, tl i, q, d))) \<and>
     (\<forall>line rest. i = line @ 0x0A # rest \<and> 0x0A \<notin> set line \<longrightarrow>
        (\<exists>w'. x_readStringUntil E c 0x0A w = Some (line, w') \<and> obs w' = (True, rest, q, d))) \<and>
     (\<forall>n. n \<le> length i \<longrightarrow> (\<exists>w'. x_readBytes E c n w = Some (take n i, w') \<and> obs w' = (True, drop n i, q, d))))"

definition net_writes :: "'w http_env \<Rightarrow> nat \<Rightarrow> nat \<Rightarrow> 'w view \<Rightarrow> bool" where
  "net_writes E c s obs \<longleftrightarrow> (\<forall>w i q d. obs w = (True, i, q, d) \<longrightarrow>
     (\<forall>bs. \<exists>w'. x_write E c bs w = Some (word_of_nat (length bs), w') \<and> obs w' = (True, i, q @ bs, d)) \<and>
     (\<forall>bs. \<exists>w'. s_write E s bs w = Some (word_of_nat (length bs), w') \<and> obs w' = (True, i, q, d @ bs)) \<and>
     s_getWriteError E s w = 0 \<and>
     (\<exists>w' a i'. x_stop E c w = Some w' \<and> obs w' = (a, i', q, d)))"

definition quiet_calls :: "'w http_env \<Rightarrow> 'w view \<Rightarrow> bool" where
  "quiet_calls E obs \<longleftrightarrow>
     (\<forall>w. (\<forall>n. obs (x_delay E n w) = obs w) \<and> obs (x_free E w) = obs w \<and> obs (snd (x_millis E w)) = obs w \<and>
       (\<forall>n t. obs (x_setTimeout E n t w) = obs w) \<and> (\<forall>n. obs (x_retain E n w) = obs w) \<and>
       (\<forall>n. snd (snd (obs (x_release E n w))) = snd (snd (obs w))) \<and>
       (\<forall>n. \<exists>buff w'. x_malloc E n w = (Some buff, w') \<and> length buff = n \<and> obs w' = obs w))"

definition http_net :: "'w http_env \<Rightarrow> nat \<Rightarrow> nat \<Rightarrow> 'w view \<Rightarrow> bool" where
  "http_net E c s obs \<longleftrightarrow> c \<noteq> 0 \<and> s \<noteq> 0 \<and> arduino_strings (strings E) \<and> x_long_max E \<ge> INT_MAX \<and>
     net_reads E c obs \<and> net_writes E c s obs \<and> quiet_calls E obs"

lemma net_availableE:
  assumes "http_net E c s obs" and "obs w = (True, i, q, d)"
  obtains n w' where "x_available E c w = Some (int n, w')" "n \<le> length i" "i \<noteq> [] \<Longrightarrow> 0 < n" "obs w' = (True, i, q, d)"
  using assms unfolding http_net_def net_reads_def by blast

lemma net_connectedE:
  assumes "http_net E c s obs" and "obs w = (True, i, q, d)"
  obtains w' where "x_connected E c w = Some (True, w')" "obs w' = (True, i, q, d)"
  using assms unfolding http_net_def net_reads_def by blast

lemma net_readE:
  assumes "http_net E c s obs" and "obs w = (True, i, q, d)" and "i \<noteq> []"
  obtains b w' where "x_read E c w = Some (b, w')" "obs w' = (True, tl i, q, d)"
  using assms unfolding http_net_def net_reads_def by blast

lemma net_lineE:
  assumes "http_net E c s obs" and "obs w = (True, line @ 0x0A # rest, q, d)" and "0x0A \<notin> set line"
  obtains w' where "x_readStringUntil E c 0x0A w = Some (line, w')" "obs w' = (True, rest, q, d)"
  using assms unfolding http_net_def net_reads_def by blast

lemma net_bytesE:
  assumes "http_net E c s obs" and "obs w = (True, i, q, d)" and "n \<le> length i"
  obtains w' where "x_readBytes E c n w = Some (take n i, w')" "obs w' = (True, drop n i, q, d)"
  using assms unfolding http_net_def net_reads_def by blast

lemma net_writeE:
  assumes "http_net E c s obs" and "obs w = (True, i, q, d)"
  obtains w' where "x_write E c bs w = Some (word_of_nat (length bs), w')" "obs w' = (True, i, q @ bs, d)"
  using assms unfolding http_net_def net_writes_def by blast

lemma net_sinkE:
  assumes "http_net E c s obs" and "obs w = (True, i, q, d)"
  obtains w' where "s_write E s bs w = Some (word_of_nat (length bs), w')" "obs w' = (True, i, q, d @ bs)"
  using assms unfolding http_net_def net_writes_def by blast

lemma net_stopE:
  assumes "http_net E c s obs" and "obs w = (True, i, q, d)"
  obtains a i' w' where "x_stop E c w = Some w'" "obs w' = (a, i', q, d)"
  using assms unfolding http_net_def net_writes_def by blast

lemma net_no_error: "http_net E c s obs \<Longrightarrow> obs w = (True, i, q, d) \<Longrightarrow> s_getWriteError E s w = 0"
  unfolding http_net_def net_writes_def by blast

lemma net_mallocE:
  assumes "http_net E c s obs"
  obtains buff w' where "x_malloc E n w = (Some buff, w')" "length buff = n" "obs w' = obs w"
  using assms unfolding http_net_def quiet_calls_def by blast

lemma net_quiet:
  assumes "http_net E c s obs"
  shows "obs (x_delay E n w) = obs w" and "obs (x_free E w) = obs w" and "obs (snd (x_millis E w)) = obs w"
    and "c \<noteq> 0" and "s \<noteq> 0" and "arduino_strings (strings E)" and "x_long_max E \<ge> INT_MAX"
  using assms unfolding http_net_def quiet_calls_def by auto

lemma net_up:
  assumes "http_net E c s obs" and "obs w = (True, i, q, d)" and "h_client h = c"
  obtains w' where "http_connected E h w = Some (True, w')" "obs w' = (True, i, q, d)"
proof -
  obtain n w1 where a: "x_available E c w = Some (int n, w1)" "obs w1 = (True, i, q, d)"
    using net_availableE [OF assms(1,2)] by blast
  obtain w2 where b: "x_connected E c w1 = Some (True, w2)" "obs w2 = (True, i, q, d)"
    using net_connectedE [OF assms(1) a(2)] by blast
  show ?thesis
  proof (cases "0 < n")
    case True
    with a that [of w1] show ?thesis using assms(3) net_quiet(4) [OF assms(1)] by (simp add: http_connected_def)
  next
    case False
    with a b that [of w2] show ?thesis using assms(3) net_quiet(4) [OF assms(1)] by (simp add: http_connected_def)
  qed
qed

lemma drain_empties:
  assumes "http_net E c s obs" and "obs w = (True, i, q, d)"
  shows "\<exists>w'. drain E c w = Some w' \<and> obs w' = (True, [], q, d)"
  using assms(2)
proof (induction i arbitrary: w)
  case Nil
  obtain n w1 where a: "x_available E c w = Some (int n, w1)" "n \<le> 0" "obs w1 = (True, [], q, d)"
    using net_availableE [OF assms(1) Nil.prems] by auto
  then show ?case by (subst drain.simps) simp
next
  case (Cons b i)
  obtain n w1 where a: "x_available E c w = Some (int n, w1)" "0 < n" "obs w1 = (True, b # i, q, d)"
    using net_availableE [OF assms(1) Cons.prems] by blast
  obtain r w2 where r: "x_read E c w1 = Some (r, w2)" "obs w2 = (True, i, q, d)"
    using net_readE [OF assms(1) a(3)] by auto
  from Cons.IH [OF r(2)] show ?case using a r by (subst drain.simps) simp
qed

lemma disconnect_keeps_sink:
  assumes "http_net E c s obs" and "obs w = (True, i, q, d)" and "h_client h = c"
  shows "\<exists>h' w' a i'. disconnect E h True w = Some (h', w') \<and> obs w' = (a, i', q, d)"
proof -
  obtain w1 where u: "http_connected E h w = Some (True, w1)" "obs w1 = (True, i, q, d)" using net_up [OF assms(1-3)] by blast
  obtain n w2 where a: "x_available E c w1 = Some (int n, w2)" "obs w2 = (True, i, q, d)"
    using net_availableE [OF assms(1) u(2)] by blast
  obtain w3 i3 where w3: "(if 0 < int n then drain E c w2 else Some w2) = Some w3" "obs w3 = (True, i3, q, d)"
    using drain_empties [OF assms(1) a(2)] a(2) by (cases "0 < n") auto
  obtain a i4 w4 where w4: "x_stop E c w3 = Some w4" "obs w4 = (a, i4, q, d)" using net_stopE [OF assms(1) w3(2)] by blast
  have r: "snd (snd (obs (x_release E n w))) = snd (snd (obs w))" for n w using assms(1) unfolding http_net_def quiet_calls_def by blast
  obtain b i5 where i5: "obs (x_release E (tcpDeprecated h) w4) = (b, i5, q, d)"
    using r [of "tcpDeprecated h" w4] w4(2) by (cases "obs (x_release E (tcpDeprecated h) w4)") auto
  show ?thesis
    using u a w3 w4 i5 assms(3) by (auto simp: disconnect_def drop_deprecated_def)
qed

section \<open>One block\<close>

lemma uint_length_small: "n < 2147483648 \<Longrightarrow> sint (word_of_nat n :: 32 word) = int n"
  by (metis int_of_size_def int_of_size_small)

lemma block_loop_delivers:
  assumes net: "http_net E c s obs" and c: "h_client h = c"
    and "obs w = (True, p @ rest, q, d)" and "length buff = nat b" and "0 < b" and "b \<le> HTTP_TCP_BUFFER_SIZE"
    and "0 \<le> written" and "written + int (length p) \<le> INT_MAX"
  shows "\<exists>w'. block_loop E h s b (int (length p)) written buff w = Some (Inr (written + int (length p)), w') \<and>
    obs w' = (True, rest, q, d @ p)"
  using assms(3-)
proof (induction p arbitrary: w d written buff rule: length_induct)
  case (1 p)
  obtain w1 where u: "http_connected E h w = Some (True, w1)" "obs w1 = (True, p @ rest, q, d)"
    using net_up [OF net 1(2) c] by blast
  show ?case
  proof (cases "p = []")
    case True
    then show ?thesis using u net_quiet(2) [OF net] by (subst block_loop.simps) simp
  next
    case False
    obtain n w2 where a: "x_available E c w1 = Some (int n, w2)" "n \<le> length (p @ rest)" "0 < n" "obs w2 = (True, p @ rest, q, d)"
      using net_availableE [OF net u(2)] False by auto
    define r where "r = min (min n (length p)) (nat b)"
    have r: "read_size (int n) (int (length p)) b = int r" "0 < r" "r \<le> length p" "r \<le> nat b"
      using False a(3) 1(4) by (auto simp: r_def read_size_def min_def Let_def)
    have small: "r < 2147483648" using r(3) 1(6,7) by (simp add: INT_MAX_def)
    have sz: "size_of_int (int r) = r" using small by (simp add: size_of_int_def unat_of_nat)
    obtain w3 where w3: "x_readBytes E c r w2 = Some (take r p, w3)" "obs w3 = (True, drop r p @ rest, q, d)"
      using net_bytesE [OF net a(4), of r] r(3) by auto
    define buff1 where "buff1 = take r p @ drop r buff"
    have m: "memcpy buff 0 (take r p) (int (length (take r p))) = Some buff1"
      using r 1(3) by (simp add: memcpy_def buff1_def min_def)
    have tk: "take r buff1 = take r p" using r(3) by (simp add: buff1_def)
    have len1: "length buff1 = nat b" using r 1(3) by (simp add: buff1_def)
    obtain w4 where w4: "s_write E s (take r p) w3 = Some (word_of_nat (length (take r p)), w4)"
      "obs w4 = (True, drop r p @ rest, q, d @ take r p)" using net_sinkE [OF net w3(2)] by blast
    have st: "store_block E s buff1 (int r) r written w3 = Some (Inr (written + int r), w4)"
      using w4 tk small r(3) 1(6,7) net_no_error [OF net w4(2)]
      by (simp add: store_block_def uint_length_small int_of_size_small min_def cint_in_range INT_MIN_def)
    have ih: "\<exists>w'. block_loop E h s b (int (length (drop r p))) (written + int r) buff1 (x_delay E 0 w4) =
        Some (Inr (written + int r + int (length (drop r p))), w') \<and> obs w' = (True, rest, q, (d @ take r p) @ drop r p)"
    proof -
      have "length (drop r p) < length p" using r False by simp
      moreover have "obs (x_delay E 0 w4) = (True, drop r p @ rest, q, d @ take r p)" using net_quiet(1) [OF net] w4(2) by simp
      moreover have "0 \<le> written + int r" "written + int r + int (length (drop r p)) \<le> INT_MAX"
        using r(3) 1(6,7) by (simp_all add: of_nat_diff)
      ultimately show ?thesis using 1(1) 1(4,5) len1 by blast
    qed
    have left: "cint (int (length p) - int r) = Some (int (length (drop r p)))"
      using r(3) 1(6,7) by (subst cint_in_range) (auto simp: INT_MIN_def of_nat_diff)
    have tl: "length (take r p) = r" using r(3) by simp
    note m = m [unfolded tl]
    show ?thesis
      using u a w3 m st ih left sz r False c
      by (subst block_loop.simps) (simp add: Let_def min_absorb2 of_nat_diff del: cint_in_range)
  qed
qed

lemma data_block_delivers:
  assumes net: "http_net E c s obs" and c: "h_client h = c" and v: "obs w = (True, p @ rest, q, d)"
    and len: "int (length p) \<le> INT_MAX"
  shows "\<exists>w'. writeToStreamDataBlock E h s (int (length p)) w = Some (int (length p), w') \<and> obs w' = (True, rest, q, d @ p)"
proof -
  define b where "b = block_buffer (int (length p))"
  have b: "0 < b" "b \<le> HTTP_TCP_BUFFER_SIZE" by (auto simp: b_def block_buffer_def HTTP_TCP_BUFFER_SIZE_def)
  obtain buff w1 where m: "x_malloc E (nat b) w = (Some buff, w1)" "length buff = nat b" "obs w1 = (True, p @ rest, q, d)"
    using net_mallocE [OF net] v by metis
  from block_loop_delivers [OF net c m(3,2) b, of 0] len show ?thesis
    using m by (auto simp: writeToStreamDataBlock_def b_def [symmetric])
qed

end
