(* ===== verification/Http_Chunks.thy ===== *)
theory Http_Chunks
  imports Http_Serve
begin

text \<open>
  The chunked transfer encoding: whatever the sizes of the chunks, \<open>writeToStream\<close> gives
  the stream exactly their contents.
\<close>

section \<open>Lines\<close>

lemma trimmed_CR:
  assumes "s \<noteq> []" and "\<not> is_space (hd s)" and "\<not> is_space (last s)"
  shows "trimmed (s @ [0x0D]) = s"
proof -
  obtain b t where t: "s = b # t" using assms(1) by (cases s) auto
  obtain l z where l: "s = l @ [z]" using assms(1) by (cases s rule: rev_cases) auto
  have "dropWhile is_space (s @ [0x0D]) = s @ [0x0D]" using assms(2) t by simp
  moreover have "is_space 0x0D" by (simp add: is_space_def)
  then have "dropWhile is_space (rev (s @ [0x0D])) = rev s" using assms(3) l by simp
  ultimately show ?thesis by (simp only: trimmed_def rev_rev_ident)
qed

lemma trimmed_only_CR: "trimmed [0x0D] = []"
  by (simp add: trimmed_def is_space_def)

lemma arduino_trim: "arduino_strings S \<Longrightarrow> str_trim S s = trimmed s"
  unfolding arduino_strings_def by blast

lemma hex_nat_ends: "\<not> is_space (hd (hex_nat n)) \<and> \<not> is_space (last (hex_nat n)) \<and> 0x0A \<notin> set (hex_nat n)"
proof -
  have "hd (hex_nat n) \<in> set (hex_nat n)" "last (hex_nat n) \<in> set (hex_nat n)" using hex_nat_not_Nil by auto
  with hex_nat_chars [of n] hex_value_char show ?thesis by metis
qed

section \<open>The loop over the chunks\<close>

definition chunk_text :: "byte list \<Rightarrow> byte list" where
  "chunk_text c = hex_nat (length c) @ CRLF @ c @ CRLF"

definition chunked :: "byte list list \<Rightarrow> byte list" where
  "chunked cs = concat (map chunk_text cs) @ hex_nat 0 @ CRLF"

lemma chunk_size_hex:
  assumes "x_long_max E \<ge> INT_MAX" and "arduino_strings (strings E)" and "int n \<le> INT_MAX"
  shows "chunk_size E (str_trim (strings E) (hex_nat n @ [0x0D])) = int n"
  using assms hex_nat_ends [of n] hex_nat_not_Nil [of n]
  by (simp add: chunk_size_def arduino_trim trimmed_CR strtol16_hex_nat uint_length_small INT_MAX_def)

lemma chunk_line:
  assumes "http_net E c s obs" and "h_client h = c" and "obs w = (True, hex_nat n @ CRLF @ rest, q, d)"
  obtains w1 w2 where "http_connected E h w = Some (True, w1)"
    "x_readStringUntil E c 0x0A w1 = Some (hex_nat n @ [0x0D], w2)" "obs w2 = (True, rest, q, d)"
proof -
  obtain w1 where u: "http_connected E h w = Some (True, w1)" "obs w1 = (True, hex_nat n @ CRLF @ rest, q, d)"
    using net_up [OF assms(1,3,2)] by blast
  have v: "obs w1 = (True, (hex_nat n @ [0x0D]) @ 0x0A # rest, q, d)" using u(2) by (simp add: CRLF_def)
  have "0x0A \<notin> set (hex_nat n @ [0x0D])" using hex_nat_ends [of n] by simp
  from net_lineE [OF assms(1) v this] that u(1) show ?thesis by blast
qed

lemma chunk_loop_delivers:
  assumes net: "http_net E c s obs" and c: "h_client h = c" and size: "h_size h \<le> 0"
    and "obs w = (True, chunked cs @ rest, q, d)" and "\<forall>x \<in> set cs. x \<noteq> []"
    and "0 \<le> ret" and "ret + int (length (concat cs)) \<le> INT_MAX"
  shows "\<exists>w'. chunk_loop E h s ret ret w =
      Some (Inr (ret + int (length (concat cs))), h\<lparr>h_size := ret + int (length (concat cs))\<rparr>, w') \<and>
    obs w' = (True, rest, q, d @ concat cs)"
  using assms(4-)
proof (induction cs arbitrary: w d ret)
  case Nil
  then have "obs w = (True, hex_nat 0 @ CRLF @ rest, q, d)" by (simp add: chunked_def)
  then obtain w1 w2 where l: "http_connected E h w = Some (True, w1)"
    "x_readStringUntil E c 0x0A w1 = Some (hex_nat 0 @ [0x0D], w2)" "obs w2 = (True, rest, q, d)"
    using chunk_line [OF net c] by blast
  have z: "chunk_size E (str_trim (strings E) (hex_nat 0 @ [0x0D])) = int 0"
    using chunk_size_hex [of E 0] net_quiet(6,7) [OF net] by (simp add: INT_MAX_def)
  show ?case using l z c size Nil
    by (subst chunk_loop.simps) (simp add: cint_in_range INT_MIN_def last_chunk_def)
next
  case (Cons x cs)
  define n where "n = length x"
  have n: "0 < n" "int n \<le> INT_MAX" using Cons.prems by (auto simp: n_def)
  have "obs w = (True, hex_nat n @ CRLF @ x @ CRLF @ chunked cs @ rest, q, d)"
    using Cons.prems by (simp add: chunked_def chunk_text_def n_def)
  then obtain w1 w2 where l: "http_connected E h w = Some (True, w1)"
    "x_readStringUntil E c 0x0A w1 = Some (hex_nat n @ [0x0D], w2)" "obs w2 = (True, x @ CRLF @ chunked cs @ rest, q, d)"
    using chunk_line [OF net c] by blast
  have z: "chunk_size E (str_trim (strings E) (hex_nat n @ [0x0D])) = int n"
    using chunk_size_hex [of E n] net_quiet(6,7) [OF net] n(2) by simp
  obtain w3 where b: "writeToStreamDataBlock E h s (int n) w2 = Some (int n, w3)" "obs w3 = (True, CRLF @ chunked cs @ rest, q, d @ x)"
    using data_block_delivers [OF net c l(3)] n(2) by (auto simp: n_def)
  obtain w4 where t: "x_readBytes E c 2 w3 = Some (CRLF, w4)" "obs w4 = (True, chunked cs @ rest, q, d @ x)"
    using net_bytesE [OF net b(2), of 2] by (auto simp: CRLF_def)
  have o5: "obs (x_delay E 0 w4) = (True, chunked cs @ rest, q, d @ x)" using net_quiet(1) [OF net] t(2) by simp
  have prem: "\<forall>x \<in> set cs. x \<noteq> []" "0 \<le> ret + int n" "ret + int n + int (length (concat cs)) \<le> INT_MAX"
    using Cons.prems by (auto simp: n_def)
  obtain w5 where r: "chunk_loop E h s (ret + int n) (ret + int n) (x_delay E 0 w4) =
      Some (Inr (ret + int n + int (length (concat cs))), h\<lparr>h_size := ret + int n + int (length (concat cs))\<rparr>, w5)"
    "obs w5 = (True, rest, q, (d @ x) @ concat cs)"
    using Cons.IH [OF o5 prem] by blast
  have i: "cint (ret + int n) = Some (ret + int n)"
    using prem by (subst cint_in_range) (auto simp: INT_MIN_def)
  have "chunk_loop E h s ret ret w =
      Some (Inr (ret + int n + int (length (concat cs))), h\<lparr>h_size := ret + int n + int (length (concat cs))\<rparr>, w5)"
    using l z b(1) t(1) r(1) i c n(1) by (subst chunk_loop.simps) (simp add: read_chunk_def CRLF_def Let_def)
  then show ?case using r(2) by (auto simp: n_def ac_simps)
qed

section \<open>The body\<close>

lemma chunked_to_stream:
  assumes net: "http_net E c s obs" and c: "h_client h = c" and size: "h_size h \<le> 0"
    and te: "h_transferEncoding h = HTTPC_TE_CHUNKED"
    and v: "obs w = (True, chunked cs @ rest, q, d)" and "\<forall>x \<in> set cs. x \<noteq> []" and "int (length (concat cs)) \<le> INT_MAX"
  shows "\<exists>h' w' a i'. writeToStream E h s w = Some (int (length (concat cs)), h', w') \<and> obs w' = (a, i', q, d @ concat cs)"
proof -
  obtain w1 where u: "http_connected E h w = Some (True, w1)" "obs w1 = (True, chunked cs @ rest, q, d)"
    using net_up [OF net v c] by blast
  obtain w2 where l: "chunk_loop E h s 0 0 w1 =
      Some (Inr (int (length (concat cs))), h\<lparr>h_size := int (length (concat cs))\<rparr>, w2)" "obs w2 = (True, rest, q, d @ concat cs)"
    using chunk_loop_delivers [OF net c size u(2), of 0] assms(6,7) by auto
  obtain h' w' a i' where e: "disconnect E (h\<lparr>h_size := int (length (concat cs))\<rparr>) True w2 = Some (h', w')"
    "obs w' = (a, i', q, d @ concat cs)"
    using disconnect_keeps_sink [OF net l(2), of "h\<lparr>h_size := int (length (concat cs))\<rparr>"] c by auto
  show ?thesis
    using u l e te net_quiet(5) [OF net] by (auto simp: writeToStream_def)
qed

lemma sized_to_stream:
  assumes net: "http_net E c s obs" and c: "h_client h = c" and size: "h_size h = int (length p)"
    and te: "h_transferEncoding h = HTTPC_TE_IDENTITY"
    and v: "obs w = (True, p @ rest, q, d)" and len: "int (length p) \<le> INT_MAX"
  shows "\<exists>h' w' a i'. writeToStream E h s w = Some (int (length p), h', w') \<and> obs w' = (a, i', q, d @ p)"
proof -
  obtain w1 where u: "http_connected E h w = Some (True, w1)" "obs w1 = (True, p @ rest, q, d)"
    using net_up [OF net v c] by blast
  obtain w2 where l: "writeToStreamDataBlock E h s (int (length p)) w1 = Some (int (length p), w2)" "obs w2 = (True, rest, q, d @ p)"
    using data_block_delivers [OF net c u(2) len] by blast
  obtain h' w' a i' where e: "disconnect E h True w2 = Some (h', w')" "obs w' = (a, i', q, d @ p)"
    using disconnect_keeps_sink [OF net l(2) c] by blast
  show ?thesis
    using u l e te size net_quiet(5) [OF net] by (auto simp: writeToStream_def write_identity_def)
qed

end
