(* ===== verification/Http_Response.thy ===== *)
theory Http_Response
  imports Http_Chunks
begin

text \<open>
  The header of a response, line by line, and a whole GET request: what the server
  receives, what the caller gets, and the body in either framing.
\<close>

section \<open>What the calls on strings give\<close>

lemma find_char_skip: "c \<notin> set p \<Longrightarrow> find_char (p @ c # t) c = Some (length p)"
  by (induction p) auto

lemma find_char_none: "c \<notin> set p \<Longrightarrow> find_char p c = None"
  by (induction p) auto

lemma arduino_index:
  assumes "arduino_strings S"
  shows "c \<notin> set p \<Longrightarrow> indexOf_char S (p @ c # t) c = int (length p)" and "c \<notin> set p \<Longrightarrow> indexOf_char S p c = -1"
  using assms unfolding arduino_strings_def offset_or_minus1_def by (simp_all add: find_char_skip find_char_none)

lemma arduino_index_from:
  assumes "arduino_strings S" and "c \<notin> set p"
  shows "indexOf_char_from S (a @ p @ c # t) c (int (length a)) = int (length a + length p)"
  using assms unfolding arduino_strings_def offset_or_minus1_def by (simp add: find_char_skip)

lemma arduino_parts:
  assumes "arduino_strings S"
  shows "substring S (a @ p @ t) (int (length a)) (int (length a + length p)) = p"
    and "substring S (p @ t) 0 (int (length p)) = p"
    and "substring_from S (a @ t) (int (length a)) = t"
    and "str_remove S (a @ t) 0 (int (length a)) = t"
    and "substring S [] 0 j = []" and "substring_from S [] 0 = []"
proof -
  have sub: "substring S s (int i) (int j) = drop i (take j s)" if "i \<le> j" "j \<le> length s" for s i j
    using assms that by (simp add: arduino_strings_def)
  have from1: "substring_from S s (int i) = drop i s" if "i \<le> length s" for s i
    using assms that by (simp add: arduino_strings_def)
  have rem: "str_remove S s (int i) (int n) = take i s @ drop (i + n) s" if "i + n \<le> length s" for s i n
    using assms that by (simp add: arduino_strings_def)
  show "substring S (a @ p @ t) (int (length a)) (int (length a + length p)) = p"
    using sub [of "length a" "length a + length p" "a @ p @ t"] by simp
  show "substring S (p @ t) 0 (int (length p)) = p" using sub [of 0 "length p" "p @ t"] by simp
  show "substring_from S (a @ t) (int (length a)) = t" using from1 [of "length a" "a @ t"] by simp
  show "str_remove S (a @ t) 0 (int (length a)) = t" using rem [of 0 "length a" "a @ t"] by simp
  show "substring S [] 0 j = []" using assms by (simp add: arduino_strings_def)
  show "substring_from S [] 0 = []" using from1 [of 0 "[]"] by simp
qed

lemma arduino_tests:
  assumes "arduino_strings S"
  shows "str_startsWith S s t \<longleftrightarrow> take (length t) s = t" and "equalsIgnoreCase S s t \<longleftrightarrow> same_ignoring_case s t"
    and "i < length s \<Longrightarrow> str_at S s i = s ! i" and "str_number S (int n) = dec_nat n"
    and "c \<notin> set s \<Longrightarrow> str_replace S s [c] [] = s"
  using assms unfolding arduino_strings_def by auto

lemma arduino_toInt:
  "arduino_strings S \<Longrightarrow> int n \<le> INT_MAX \<Longrightarrow> int_of_long (str_toInt S (dec_nat n)) = int n"
proof -
  assume a: "arduino_strings S" and n: "int n \<le> INT_MAX"
  have "\<forall>n rest. n \<le> 2147483647 \<and> (case rest of [] \<Rightarrow> True | c # _ \<Rightarrow> \<not> is_digit c) \<longrightarrow> str_toInt S (dec_nat n @ rest) = int n"
    using a by (simp add: arduino_strings_def)
  from this [rule_format, of n "[]"] n have "str_toInt S (dec_nat n) = int n" by (simp add: INT_MAX_def)
  with n show ?thesis by (simp add: int_of_long_def INT_MAX_def uint_length_small)
qed

section \<open>Lines\<close>

definition clean :: "byte list \<Rightarrow> bool" where
  "clean s \<longleftrightarrow> s \<noteq> [] \<and> 0x0A \<notin> set s \<and> \<not> is_space (hd s) \<and> \<not> is_space (last s)"

text \<open>A field of the header: its name has no separator, colon or slash in it.\<close>

definition field_ok :: "byte list \<times> byte list \<Rightarrow> bool" where
  "field_ok f \<longleftrightarrow> clean (fst f) \<and> 0x3A \<notin> set (fst f) \<and> 0x2F \<notin> set (fst f) \<and> clean (snd f)"

definition field_text :: "byte list \<times> byte list \<Rightarrow> byte list" where
  "field_text f = fst f @ [0x3A, 0x20] @ snd f"

definition status_text :: "byte \<Rightarrow> nat \<Rightarrow> byte list \<Rightarrow> byte list" where
  "status_text v code reason = ascii ''HTTP/1.'' @ [v, 0x20] @ dec_nat code @ 0x20 # reason"

text \<open>What a field does.\<close>

definition apply_field :: "HTTPClient \<Rightarrow> string_ops \<Rightarrow> byte list \<Rightarrow> byte list \<times> byte list \<Rightarrow> HTTPClient \<times> byte list" where
  "apply_field h S te f =
     (let named = same_ignoring_case (fst f) \<circ> ascii
      in (h\<lparr>h_size := if named ''Content-Length'' then int_of_long (str_toInt S (snd f)) else h_size h,
            canReuse := canReuse h \<and> \<not> (named ''Connection'' \<and> indexOf_str S (snd f) (ascii ''close'') \<ge> 0 \<and>
                                      indexOf_str S (snd f) (ascii ''keep-alive'') < 0),
            currentHeaders := set_header S (currentHeaders h) (fst f) (snd f)\<rparr>,
          if named ''Transfer-Encoding'' then snd f else te))"

lemma trimmed_space: "clean s \<Longrightarrow> trimmed (0x20 # s) = s"
proof -
  assume c: "clean s"
  then obtain b t where b: "s = b # t" by (cases s) (auto simp: clean_def)
  obtain l z where l: "s = l @ [z]" using c by (cases s rule: rev_cases) (auto simp: clean_def)
  have "is_space 0x20" by (simp add: is_space_def)
  then have "dropWhile is_space (0x20 # s) = s" using c b by (simp add: clean_def)
  moreover have "dropWhile is_space (rev s) = rev s" using c l by (simp add: clean_def)
  ultimately show ?thesis by (simp add: trimmed_def)
qed

lemma field_not_status: "field_ok f \<Longrightarrow> take 7 (field_text f) \<noteq> ascii ''HTTP/1.''"
proof
  assume ok: "field_ok f" and t: "take 7 (field_text f) = ascii ''HTTP/1.''"
  have h: "ascii ''HTTP/1.'' = [0x48, 0x54, 0x54, 0x50, 0x2F, 0x31, 0x2E]" by code_simp
  have c: "0x3A \<notin> set (take 7 (field_text f))" unfolding t h by simp
  have n: "7 \<le> length (fst f)"
  proof (rule ccontr)
    assume "\<not> 7 \<le> length (fst f)"
    then have "take 7 (field_text f) = fst f @ 0x3A # take (6 - length (fst f)) (0x20 # snd f)"
      by (auto simp: field_text_def take_Cons')
    with c show False by simp
  qed
  then have "take 7 (fst f) = ascii ''HTTP/1.''" using t by (simp add: field_text_def)
  then have "0x2F \<in> set (take 7 (fst f))" unfolding h by simp
  with ok show False by (auto simp: field_ok_def dest: in_set_takeD)
qed

lemma header_line_field:
  assumes S: "arduino_strings S" and f: "field_ok f"
  shows "header_line S h te (field_text f) = apply_field h S te f"
proof -
  have t: "field_text f = fst f @ 0x3A # (0x20 # snd f)" by (simp add: field_text_def)
  have i: "indexOf_char S (field_text f) 0x3A = int (length (fst f))"
    unfolding t by (rule arduino_index(1) [OF S]) (use f in \<open>simp add: field_ok_def\<close>)
  have n: "fst f \<noteq> []" using f by (simp add: field_ok_def clean_def)
  have name: "substring S (field_text f) 0 (int (length (fst f))) = fst f"
    unfolding t by (rule arduino_parts(2) [OF S])
  have v: "substring_from S (field_text f) (int (length (fst f)) + 1) = 0x20 # snd f"
    using arduino_parts(3) [OF S, of "fst f @ [0x3A]" "0x20 # snd f"] by (simp add: t add.commute)
  have tr: "str_trim S (0x20 # snd f) = snd f"
    using f by (simp add: arduino_trim [OF S] trimmed_space field_ok_def)
  have ns: "\<not> str_startsWith S (field_text f) (ascii ''HTTP/1.'')"
  proof -
    have "length (ascii ''HTTP/1.'') = 7" by code_simp
    then show ?thesis using field_not_status [OF f] arduino_tests(1) [OF S] by (simp only:) simp
  qed
  show ?thesis
    using i n name v tr ns
    by (cases h) (auto simp: header_line_def field_line_def apply_field_def Let_def arduino_tests(2) [OF S])
qed

lemma header_line_status:
  assumes S: "arduino_strings S" and code: "int code \<le> INT_MAX"
  shows "header_line S h te (status_text v code reason) =
    (h\<lparr>canReuse := canReuse h \<and> v \<noteq> 0x30, returnCode := int code\<rparr>, te)"
proof -
  define a where "a = ascii ''HTTP/1.'' @ [v, 0x20]"
  have la: "length a = 9" by (simp add: a_def ascii_def)
  have t: "status_text v code reason = a @ dec_nat code @ 0x20 # reason" by (simp add: status_text_def a_def)
  have "0x20 \<notin> set (dec_nat code)" using dec_nat_digits [of code] digit_no_space by (auto simp: is_space_def)
  then have i: "indexOf_char_from S (status_text v code reason) 0x20 9 = int (9 + length (dec_nat code))"
    using arduino_index_from [OF S, of "0x20" "dec_nat code" a reason] by (simp add: t la)
  have c: "substring S (status_text v code reason) 9 (int (9 + length (dec_nat code))) = dec_nat code"
    using arduino_parts(1) [OF S, of a "dec_nat code" "0x20 # reason"] by (simp add: t la)
  have st: "str_startsWith S (status_text v code reason) (ascii ''HTTP/1.'')"
    using arduino_tests(1) [OF S] by (simp add: status_text_def ascii_def)
  have at: "str_at S (status_text v code reason) 7 = v"
    using arduino_tests(3) [OF S, of 7 "status_text v code reason"] by (simp add: status_text_def ascii_def)
  show ?thesis
    using i c st at arduino_toInt [OF S code] by (simp add: header_line_def status_line_def)
qed

lemma header_line_empty:
  assumes S: "arduino_strings S" and k: "\<forall>kv \<in> set (currentHeaders h). fst kv \<noteq> []"
  shows "header_line S h te [] = (h, te)"
proof -
  have i: "indexOf_char S [] 0x3A = -1" using arduino_index(2) [OF S, of "0x3A" "[]"] by simp
  have tr: "str_trim S [] = []" by (simp add: arduino_trim [OF S] trimmed_def)
  have ns: "\<not> str_startsWith S [] (ascii ''HTTP/1.'')" using arduino_tests(1) [OF S] by (simp add: ascii_def)
  have e: "\<not> equalsIgnoreCase S [] (ascii (x # y))" for x y by (simp add: arduino_tests(2) [OF S] same_ignoring_case_def ascii_def)
  have "set_header S hs [] [] = hs" if "\<forall>kv \<in> set hs. fst kv \<noteq> []" for hs
    using that by (induction hs) (auto simp: arduino_tests(2) [OF S] same_ignoring_case_def)
  from this [OF k] show ?thesis
    using i tr ns e arduino_parts(5,6) [OF S]
    by (cases h) (simp add: header_line_def field_line_def Let_def)
qed

end
