(* ===== verification/Http_Exchange.thy ===== *)
theory Http_Exchange
  imports Http_Response
begin

text \<open>
  A whole GET request over a connection that works: what the server receives, the
  code the caller gets, and the body in either framing.
\<close>

section \<open>The header, line by line\<close>

primrec run_lines :: "string_ops \<Rightarrow> byte list list \<Rightarrow> HTTPClient \<times> byte list \<Rightarrow> HTTPClient \<times> byte list" where
  "run_lines S [] x = x"
| "run_lines S (l # ls) x = run_lines S ls (header_line S (fst x) (snd x) l)"

definition lines_text :: "byte list list \<Rightarrow> byte list" where
  "lines_text ls = concat (map (\<lambda>l. l @ CRLF) ls) @ CRLF"

lemma header_line_client: "h_client (fst (header_line S h te l)) = h_client h"
  by (simp add: header_line_def status_line_def field_line_def Let_def split: if_splits)

lemma run_lines_append: "run_lines S (ls @ [l]) x = header_line S (fst (run_lines S ls x)) (snd (run_lines S ls x)) l"
  by (induction ls arbitrary: x) simp_all

lemma header_loop_step:
  assumes net: "http_net E c s obs" and c: "h_client h = c" and v: "obs w = (True, l @ CRLF @ rest, q, d)" and l: "0x0A \<notin> set l"
    and tr: "trimmed (l @ [0x0D]) = l"
  shows "\<exists>t' w'. header_loop E h te t w =
      (let (h, te) = header_line (strings E) h te l
       in if l = [] then let (r, h) = header_end (strings E) h te in Some (r, h, w') else header_loop E h te t' w') \<and>
    obs w' = (True, rest, q, d)"
proof -
  obtain w1 where u: "http_connected E h w = Some (True, w1)" "obs w1 = (True, l @ CRLF @ rest, q, d)"
    using net_up [OF net v c] by blast
  obtain n w2 where a: "x_available E c w1 = Some (int n, w2)" "0 < n" "obs w2 = (True, l @ CRLF @ rest, q, d)"
  proof (rule net_availableE [OF net u(2)])
    fix n w2
    assume "x_available E c w1 = Some (int n, w2)" "l @ CRLF @ rest \<noteq> [] \<Longrightarrow> 0 < n" "obs w2 = (True, l @ CRLF @ rest, q, d)"
    then show thesis using that by (simp add: CRLF_def)
  qed
  have v2: "obs w2 = (True, (l @ [0x0D]) @ 0x0A # rest, q, d)" using a(3) by (simp add: CRLF_def)
  obtain w3 where r: "x_readStringUntil E c 0x0A w2 = Some (l @ [0x0D], w3)" "obs w3 = (True, rest, q, d)"
    using net_lineE [OF net v2] l by auto
  have o4: "obs (snd (x_millis E w3)) = (True, rest, q, d)" using net_quiet(3) [OF net] r(2) by simp
  have tr: "str_trim (strings E) (l @ [0x0D]) = l" using tr arduino_trim net_quiet(6) [OF net] by simp
  have "header_loop E h te t w =
      (let (h, te) = header_line (strings E) h te l
       in if l = [] then let (r, h) = header_end (strings E) h te in Some (r, h, snd (x_millis E w3))
          else header_loop E h te (fst (x_millis E w3)) (snd (x_millis E w3)))"
    using u a(1,2) r(1) c tr by (cases "l = []"; subst header_loop.simps) (simp_all add: split_def Let_def)
  with o4 show ?thesis by blast
qed

lemma clean_trim: "clean l \<Longrightarrow> trimmed (l @ [0x0D]) = l"
  by (rule trimmed_CR) (simp_all add: clean_def)

lemma header_loop_lines:
  assumes net: "http_net E c s obs" and "h_client h = c" and "obs w = (True, lines_text ls @ rest, q, d)" and "\<forall>l \<in> set ls. clean l"
  shows "\<exists>w'. header_loop E h te t w =
      (let (h, te) = run_lines (strings E) (ls @ [[]]) (h, te); (r, h) = header_end (strings E) h te in Some (r, h, w')) \<and>
    obs w' = (True, rest, q, d)"
  using assms(2-)
proof (induction ls arbitrary: h te t w)
  case Nil
  have v: "obs w = (True, [] @ CRLF @ rest, q, d)" using Nil by (simp add: lines_text_def)
  obtain w' where w': "header_loop E h te t w =
      (let (h, te) = header_line (strings E) h te [] in let (r, h) = header_end (strings E) h te in Some (r, h, w'))"
    "obs w' = (True, rest, q, d)"
    using header_loop_step [OF net Nil(1) v, of te t] by (auto simp: trimmed_only_CR)
  then show ?case by (auto simp: split_def Let_def)
next
  case (Cons l ls)
  have v: "obs w = (True, l @ CRLF @ lines_text ls @ rest, q, d)" using Cons.prems by (simp add: lines_text_def)
  have l: "clean l" using Cons.prems by simp
  obtain h1 te1 where h1: "header_line (strings E) h te l = (h1, te1)" by (rule prod.exhaust)
  obtain t' w1 where w1: "header_loop E h te t w = header_loop E h1 te1 t' w1" "obs w1 = (True, lines_text ls @ rest, q, d)"
    using header_loop_step [OF net Cons.prems(1) v, of te t] l clean_trim [OF l] h1 by (auto simp: clean_def)
  have c1: "h_client h1 = c" using header_line_client [of "strings E" h te l] h1 Cons.prems(1) by simp
  from Cons.IH [OF c1 w1(2)] Cons.prems(3) show ?case by (simp add: w1(1) h1)
qed

section \<open>What a response says\<close>

text \<open>The value of the last field with a name.\<close>

definition last_value :: "(byte list \<times> byte list) list \<Rightarrow> string \<Rightarrow> byte list option" where
  "last_value fs name = map_option snd (List.find (\<lambda>f. same_ignoring_case (fst f) (ascii name)) (rev fs))"

lemma last_value_snoc:
  "last_value (fs @ [f]) name = (if same_ignoring_case (fst f) (ascii name) then Some (snd f) else last_value fs name)"
  by (simp add: last_value_def)

lemma set_header_keys: "map fst (set_header S hs name v) = map fst hs"
  by (induction hs) auto

lemma run_fields:
  assumes S: "arduino_strings S" and "\<forall>f \<in> set fs. field_ok f"
  shows "\<exists>h' te'. run_lines S (map field_text fs) (h, te) = (h', te') \<and>
    h_size h' = (case last_value fs ''Content-Length'' of None \<Rightarrow> h_size h | Some v \<Rightarrow> int_of_long (str_toInt S v)) \<and>
    te' = (case last_value fs ''Transfer-Encoding'' of None \<Rightarrow> te | Some v \<Rightarrow> v) \<and>
    h_client h' = h_client h \<and> returnCode h' = returnCode h \<and> map fst (currentHeaders h') = map fst (currentHeaders h)"
  using assms(2)
proof (induction fs rule: rev_induct)
  case Nil
  then show ?case by (simp add: last_value_def)
next
  case (snoc f fs)
  then obtain h' te' where i: "run_lines S (map field_text fs) (h, te) = (h', te')"
    "h_size h' = (case last_value fs ''Content-Length'' of None \<Rightarrow> h_size h | Some v \<Rightarrow> int_of_long (str_toInt S v))"
    "te' = (case last_value fs ''Transfer-Encoding'' of None \<Rightarrow> te | Some v \<Rightarrow> v)"
    "h_client h' = h_client h" "returnCode h' = returnCode h" "map fst (currentHeaders h') = map fst (currentHeaders h)"
    by auto
  have "run_lines S (map field_text (fs @ [f])) (h, te) = apply_field h' S te' f"
    using i(1) snoc.prems by (simp add: run_lines_append header_line_field [OF S])
  then show ?case using i by (simp add: apply_field_def Let_def last_value_snoc set_header_keys)
qed

text \<open>The framing of a body: its length is given, or it comes in chunks.\<close>

definition framed :: "(byte list \<times> byte list) list \<Rightarrow> byte list \<Rightarrow> byte list \<Rightarrow> bool" where
  "framed fs bytes body \<longleftrightarrow>
     (last_value fs ''Transfer-Encoding'' = None \<and> last_value fs ''Content-Length'' = Some (dec_nat (length body)) \<and> bytes = body) \<or>
     (\<exists>te cs. last_value fs ''Transfer-Encoding'' = Some te \<and> same_ignoring_case te (ascii ''chunked'') \<and>
        last_value fs ''Content-Length'' = None \<and> (\<forall>x \<in> set cs. x \<noteq> []) \<and> concat cs = body \<and> bytes = chunked cs)"

definition response_text :: "byte \<Rightarrow> nat \<Rightarrow> byte list \<Rightarrow> (byte list \<times> byte list) list \<Rightarrow> byte list" where
  "response_text v code reason fs = lines_text (status_text v code reason # map field_text fs)"

definition request_sent :: "string_ops \<Rightarrow> HTTPClient \<Rightarrow> byte list \<Rightarrow> byte list" where
  "request_sent S h type =
     request_text S h (if base64Authorization h = [] then None else Some (base64Authorization h)) type"

lemma clean_status:
  assumes "clean reason" and "v \<noteq> 0x0A"
  shows "clean (status_text v code reason)"
proof -
  have "\<not> is_digit 0x0A" by (simp add: is_digit_def)
  then have "0x0A \<notin> set (dec_nat code)" using dec_nat_digits [of code] by blast
  then show ?thesis using assms by (auto simp: clean_def status_text_def ascii_def is_space_def)
qed

lemma clean_field: "field_ok f \<Longrightarrow> clean (field_text f)"
  by (auto simp: clean_def field_ok_def field_text_def)

lemma response_header:
  assumes net: "http_net E c s obs" and c: "h_client h = c"
    and v: "obs w = (True, response_text ver code reason fs @ rest, q, d)"
    and code: "0 < code" "int code \<le> INT_MAX" and reason: "clean reason" and ver: "ver \<noteq> 0x0A"
    and fs: "\<forall>f \<in> set fs. field_ok f" and keys: "[] \<notin> set (map fst (currentHeaders h))"
    and te: "case last_value fs ''Transfer-Encoding'' of None \<Rightarrow> True | Some te \<Rightarrow> same_ignoring_case te (ascii ''chunked'')"
  shows "\<exists>h' w'. finish_request E h w = Some (int code, h', w') \<and> obs w' = (True, rest, q, d) \<and> h_client h' = c \<and>
    h_size h' = (case last_value fs ''Content-Length'' of None \<Rightarrow> -1 | Some v \<Rightarrow> int_of_long (str_toInt (strings E) v)) \<and>
    h_transferEncoding h' = (if last_value fs ''Transfer-Encoding'' = None then HTTPC_TE_IDENTITY else HTTPC_TE_CHUNKED)"
proof -
  define S where "S = strings E"
  have S: "arduino_strings S" using net_quiet(6) [OF net] by (simp add: S_def)
  obtain w1 where u: "http_connected E h w = Some (True, w1)" "obs w1 = (True, response_text ver code reason fs @ rest, q, d)"
    using net_up [OF net v c] by blast
  define h1 where "h1 = (http_clear h)\<lparr>canReuse := h_reuse h, h_transferEncoding := HTTPC_TE_IDENTITY\<rparr>"
  define h2 where "h2 = h1\<lparr>canReuse := canReuse h1 \<and> ver \<noteq> 0x30, returnCode := int code\<rparr>"
  define ls where "ls = status_text ver code reason # map field_text fs"
  have ls: "\<forall>l \<in> set ls. clean l" using clean_status [OF reason ver] fs clean_field by (auto simp: ls_def)
  obtain t w2 where t: "x_millis E w1 = (t, w2)" by (rule prod.exhaust)
  have o2: "obs w2 = (True, lines_text ls @ rest, q, d)"
    using net_quiet(3) [OF net, of w1] t u(2) by (simp add: response_text_def ls_def)
  have c1: "h_client h1 = c" using c by (simp add: h1_def http_clear_def)
  obtain w3 where w3: "header_loop E h1 [] t w2 =
      (let (h, te) = run_lines S (ls @ [[]]) (h1, []); (r, h) = header_end S h te in Some (r, h, w3))" "obs w3 = (True, rest, q, d)"
    using header_loop_lines [OF net c1 o2 ls, of "[]" t] by (auto simp: S_def)
  obtain h3 te3 where f: "run_lines S (map field_text fs) (h2, []) = (h3, te3)"
    "h_size h3 = (case last_value fs ''Content-Length'' of None \<Rightarrow> h_size h2 | Some v \<Rightarrow> int_of_long (str_toInt S v))"
    "te3 = (case last_value fs ''Transfer-Encoding'' of None \<Rightarrow> [] | Some v \<Rightarrow> v)"
    "h_client h3 = h_client h2" "returnCode h3 = returnCode h2" "map fst (currentHeaders h3) = map fst (currentHeaders h2)"
    using run_fields [OF S fs, of h2 "[]"] by blast
  have keys3: "\<forall>kv \<in> set (currentHeaders h3). fst kv \<noteq> []"
  proof
    fix kv
    assume "kv \<in> set (currentHeaders h3)"
    then have "fst kv \<in> set (map fst (currentHeaders h3))" by simp
    then have "fst kv \<in> set (map fst (currentHeaders h))" unfolding f(6) by (simp add: h2_def h1_def http_clear_def)
    then show "fst kv \<noteq> []" using keys by metis
  qed
  have "run_lines S (ls @ [[]]) (h1, []) = (h3, te3)"
    using f(1) header_line_empty [OF S keys3] header_line_status [OF S code(2), of h1 "[]" ver reason]
    by (simp add: ls_def run_lines_append [of S _ "[]", simplified] h2_def)
  moreover have "te3 \<noteq> [] \<longleftrightarrow> last_value fs ''Transfer-Encoding'' \<noteq> None" "te3 \<noteq> [] \<Longrightarrow> same_ignoring_case te3 (ascii ''chunked'')"
    using f(3) te by (auto simp: same_ignoring_case_def ascii_def split: option.splits)
  ultimately have l: "header_loop E h1 [] t w2 = Some (int code,
      h3\<lparr>h_transferEncoding := if last_value fs ''Transfer-Encoding'' = None then HTTPC_TE_IDENTITY else HTTPC_TE_CHUNKED\<rparr>, w3)"
    using w3(1) f(5) code(1) arduino_tests(2) [OF S] by (auto simp: header_end_def h2_def)
  have "finish_request E h w = Some (int code,
      h3\<lparr>h_transferEncoding := if last_value fs ''Transfer-Encoding'' = None then HTTPC_TE_IDENTITY else HTTPC_TE_CHUNKED\<rparr>, w3)"
    using u(1) t l by (simp add: finish_request_def handleHeaderResponse_def h1_def returnError_def)
  then show ?thesis
    using w3(2) f(2,4) c1 by (auto simp: h2_def S_def h1_def http_clear_def split: option.splits)
qed

end
