(* ===== verification/Http_Get.thy ===== *)
theory Http_Get
  imports Http_Exchange
begin

text \<open>
  Downloading with \<open>HTTPClient\<close>, end to end, and the parsing of the URL. \<open>demo_http\<close> is a
  concrete connection: a world is whether it is open, what the server sends, what it
  has received, and what the stream of the caller holds.
\<close>

section \<open>A GET request and its body\<close>

lemma open_given_client:
  assumes net: "http_net E c s obs" and c: "h_client h = c" and td: "tcpDeprecated h = 0"
    and "x_connect E c (h_host h) (h_port h) (connectTimeout h) w = Some (rc, w1)" and "0 \<le> rc"
    and "obs w1 = (True, i, q, d)"
  shows "\<exists>w'. http_open E h w = Some (True, h, w') \<and> obs w' = (True, i, q, d)"
proof -
  define w2 where "w2 = x_setTimeout E c (timeout_argument (tcpTimeout h)) w1"
  have o2: "obs w2 = (True, i, q, d)" using assms(6) net unfolding w2_def http_net_def quiet_calls_def by simp
  obtain w3 where u: "http_connected E h w2 = Some (True, w3)" "obs w3 = (True, i, q, d)" using net_up [OF net o2 c] by blast
  have cr: "create_client E h w = (True, h, w)" using c net_quiet(4) [OF net] by (simp add: create_client_def split: option.splits)
  show ?thesis
    using assms(4,5) u c td cr net_quiet(4) [OF net] by (simp add: http_open_def w2_def [symmetric])
qed

lemma send_header_text:
  assumes net: "http_net E c s obs" and c: "h_client h = c" and v: "obs w = (True, i, q, d)"
    and auth: "0x0A \<notin> set (base64Authorization h)"
  shows "\<exists>w'. sendHeader E h type w = Some (True, h, w') \<and> obs w' = (True, i, q @ request_sent (strings E) h type, d)"
proof -
  obtain w1 where u: "http_connected E h w = Some (True, w1)" "obs w1 = (True, i, q, d)" using net_up [OF net v c] by blast
  obtain w2 where wr: "x_write E c (request_sent (strings E) h type) w1 =
      Some (word_of_nat (length (request_sent (strings E) h type)), w2)"
    "obs w2 = (True, i, q @ request_sent (strings E) h type, d)" using net_writeE [OF net u(2)] by blast
  have r: "str_replace (strings E) (base64Authorization h) [0x0A] [] = base64Authorization h"
    by (rule arduino_tests(5) [OF net_quiet(6) [OF net] auth])
  show ?thesis
    using u wr c r by (cases "base64Authorization h = []") (auto simp: sendHeader_def request_sent_def)
qed

text \<open>C36: Downloading with \<open>GET\<close> and \<open>writeToStream\<close> over a connection that works: the
  server receives exactly the text of the request, \<open>GET\<close> returns the status code of the
  response, and the stream of the caller gets exactly the body, whether its length is
  given or it comes in chunks of any sizes, and whatever other fields the header has.\<close>
theorem http_get_downloads:
  assumes net: "http_net E c s obs" and c: "h_client h = c" and td: "tcpDeprecated h = 0"
    and down: "http_connected E h w = Some (False, w0)"
    and up: "x_connect E c (h_host h) (h_port h) (connectTimeout h) w0 = Some (rc, w1)" and rc: "0 \<le> rc"
    and v: "obs w1 = (True, response_text ver code reason fs @ bytes @ rest, q, d)"
    and auth: "0x0A \<notin> set (base64Authorization h)"
    and code: "0 < code" "int code \<le> INT_MAX" and reason: "clean reason" and ver: "ver \<noteq> 0x0A"
    and fs: "\<forall>f \<in> set fs. field_ok f" and keys: "[] \<notin> set (map fst (currentHeaders h))"
    and body: "framed fs bytes body" and len: "int (length body) \<le> INT_MAX"
  shows "\<exists>h1 w2 h2 w3 a i. http_GET E h w = Some (int code, h1, w2) \<and>
    writeToStream E h1 s w2 = Some (int (length body), h2, w3) \<and>
    obs w3 = (a, i, q @ request_sent (strings E) h (ascii ''GET''), d @ body)"
proof -
  define sent where "sent = request_sent (strings E) h (ascii ''GET'')"
  obtain w2 where w2: "http_open E h w0 = Some (True, h, w2)"
    "obs w2 = (True, response_text ver code reason fs @ bytes @ rest, q, d)"
    using open_given_client [OF net c td up rc v] by blast
  obtain w3 where w3: "sendHeader E h (ascii ''GET'') w2 = Some (True, h, w3)"
    "obs w3 = (True, response_text ver code reason fs @ bytes @ rest, q @ sent, d)"
    using send_header_text [OF net c w2(2) auth] by (auto simp: sent_def)
  have te: "case last_value fs ''Transfer-Encoding'' of None \<Rightarrow> True | Some te \<Rightarrow> same_ignoring_case te (ascii ''chunked'')"
    using body by (auto simp: framed_def)
  obtain h4 w4 where w4: "finish_request E h w3 = Some (int code, h4, w4)" "obs w4 = (True, bytes @ rest, q @ sent, d)"
    "h_client h4 = c"
    "h_size h4 = (case last_value fs ''Content-Length'' of None \<Rightarrow> -1 | Some v \<Rightarrow> int_of_long (str_toInt (strings E) v))"
    "h_transferEncoding h4 = (if last_value fs ''Transfer-Encoding'' = None then HTTPC_TE_IDENTITY else HTTPC_TE_CHUNKED)"
    using response_header [OF net c w3(2) code reason ver fs keys te] by blast
  have get: "http_GET E h w = Some (int code, h4, w4)"
    using down w2(1) w3(1) w4(1) by (simp add: http_GET_def sendRequest_def http_connect_def)
  have "\<exists>h' w' a i'. writeToStream E h4 s w4 = Some (int (length body), h', w') \<and> obs w' = (a, i', q @ sent, d @ body)"
    using body unfolding framed_def
  proof (elim disjE exE conjE)
    assume "last_value fs ''Transfer-Encoding'' = None" "last_value fs ''Content-Length'' = Some (dec_nat (length body))"
      and b: "bytes = body"
    then have "h_size h4 = int (length body)" "h_transferEncoding h4 = HTTPC_TE_IDENTITY"
      using w4(4,5) arduino_toInt [OF net_quiet(6) [OF net] len] by simp_all
    then show ?thesis using sized_to_stream [OF net w4(3) _ _ w4(2) [unfolded b] len] by blast
  next
    fix te cs
    assume "last_value fs ''Transfer-Encoding'' = Some te" "last_value fs ''Content-Length'' = None"
      and cs: "\<forall>x \<in> set cs. x \<noteq> []" "concat cs = body" "bytes = chunked cs"
    then have "h_size h4 \<le> 0" "h_transferEncoding h4 = HTTPC_TE_CHUNKED" using w4(4,5) by simp_all
    then show ?thesis
      using chunked_to_stream [OF net w4(3) _ _ w4(2) [unfolded cs(3)] cs(1)] len unfolding cs(2) by blast
  qed
  with get show ?thesis unfolding sent_def by blast
qed

section \<open>A concrete connection\<close>

type_synonym demo = "bool \<times> byte list \<times> byte list \<times> byte list"

definition demo_http :: "demo http_env" where
  "demo_http = \<lparr>
     strings = std_strings,
     x_connect = \<lambda>c host port t (up, i, q, d). Some (3, True, i, q, d),
     x_available = \<lambda>c (up, i, q, d). Some (if up then int (length i) else 0, up, i, q, d),
     x_connected = \<lambda>c (up, i, q, d). Some (up, up, i, q, d),
     x_read = \<lambda>c (up, i, q, d). Some (uint (hd i), up, tl i, q, d),
     x_stop = \<lambda>c (up, i, q, d). Some (False, [], q, d),
     x_write = \<lambda>c bs (up, i, q, d). Some (word_of_nat (length bs), up, i, q @ bs, d),
     x_setCACert = \<lambda>c a w. Some w, x_setCertificate = \<lambda>c a w. Some w, x_setPrivateKey = \<lambda>c a w. Some w,
     x_retain = \<lambda>c w. w, x_release = \<lambda>c w. w,
     new_TCPClient = \<lambda>w. (1, w), new_TCPClientSecure = \<lambda>w. (1, w),
     x_setTimeout = \<lambda>c t w. w,
     x_readStringUntil = \<lambda>c b (up, i, q, d). Some (takeWhile (\<lambda>x. x \<noteq> b) i, up, tl (dropWhile (\<lambda>x. x \<noteq> b) i), q, d),
     x_readBytes = \<lambda>c n (up, i, q, d). Some (take n i, up, drop n i, q, d),
     x_getWriteError = \<lambda>c w. 0, x_clearWriteError = \<lambda>c w. w,
     s_available = \<lambda>s w. Some (0, w),
     s_readBytes = \<lambda>s n w. Some ([], w),
     s_write = \<lambda>s bs (up, i, q, d). Some (word_of_nat (length bs), up, i, q, d @ bs),
     s_getWriteError = \<lambda>s w. 0, s_clearWriteError = \<lambda>s w. w,
     new_StreamString = \<lambda>w. (2, w), s_reserve = \<lambda>s n w. (True, w), s_text = \<lambda>s (up, i, q, d). d,
     x_malloc = \<lambda>n w. (Some (replicate n 0), w), x_free = \<lambda>w. w, x_delay = \<lambda>n w. w,
     x_millis = \<lambda>w. (0, w), x_strlen = \<lambda>a w. Some a, x_long_max = INT_MAX, fembed_platform = False\<rparr>"

lemma takeWhile_line: "b \<notin> set l \<Longrightarrow> takeWhile (\<lambda>x. x \<noteq> b) (l @ b # r) = l \<and> dropWhile (\<lambda>x. x \<noteq> b) (l @ b # r) = b # r"
  by (induction l) auto

lemma demo_net: "http_net demo_http 1 2 (\<lambda>w. w)"
  by (auto simp: http_net_def net_reads_def net_writes_def quiet_calls_def demo_http_def std_strings_ok takeWhile_line)

definition demo_get_client :: HTTPClient where
  "demo_get_client = HTTPClient_new\<lparr>h_client := 1, h_host := ascii ''example.org'', h_port := 80, h_uri := ascii ''/index''\<rparr>"

definition demo_fields :: "(byte list \<times> byte list) list" where
  "demo_fields = [(ascii ''Server'', ascii ''test''), (ascii ''transfer-encoding'', ascii ''Chunked'')]"

definition demo_response :: "byte list" where
  "demo_response = response_text 0x31 200 (ascii ''OK'') demo_fields @ chunked [ascii ''Hello'', ascii '' World''] @ CRLF"

lemma demo_framed: "framed demo_fields (chunked [ascii ''Hello'', ascii '' World'']) (ascii ''Hello World'')"
proof -
  have "last_value demo_fields ''Transfer-Encoding'' = Some (ascii ''Chunked'')" by code_simp
  moreover have "same_ignoring_case (ascii ''Chunked'') (ascii ''chunked'')" by code_simp
  moreover have "last_value demo_fields ''Content-Length'' = None" by code_simp
  moreover have "concat [ascii ''Hello'', ascii '' World''] = ascii ''Hello World''" by code_simp
  moreover have "\<forall>x \<in> set [ascii ''Hello'', ascii '' World'']. x \<noteq> []" by code_simp
  ultimately show ?thesis unfolding framed_def by blast
qed

lemma http_get_downloads_witness:
  "\<exists>h1 w2 h2 w3 a i. http_GET demo_http demo_get_client (False, demo_response, [], []) = Some (200, h1, w2) \<and>
    writeToStream demo_http h1 2 w2 = Some (11, h2, w3) \<and>
    w3 = (a, i, request_sent std_strings demo_get_client (ascii ''GET''), ascii ''Hello World'')"
proof -
  have c: "h_client demo_get_client = 1" "tcpDeprecated demo_get_client = 0" by code_simp+
  have down: "http_connected demo_http demo_get_client (False, demo_response, [], []) = Some (False, False, demo_response, [], [])"
    by (simp add: http_connected_def c demo_http_def)
  have up: "x_connect demo_http 1 (h_host demo_get_client) (h_port demo_get_client) (connectTimeout demo_get_client)
      (False, demo_response, [], []) = Some (3, True, demo_response, [], [])"
    by (simp add: demo_http_def)
  have f: "\<forall>f \<in> set demo_fields. field_ok f" by code_simp
  have r: "clean (ascii ''OK'')" "0x0A \<notin> set (base64Authorization demo_get_client)"
    "[] \<notin> set (map fst (currentHeaders demo_get_client))" by code_simp+
  have l: "int (length (ascii ''Hello World'')) = 11" by code_simp
  have s: "strings demo_http = std_strings" by (simp add: demo_http_def)
  show ?thesis
    using http_get_downloads [OF demo_net c(1,2) down up,
      where ver = "0x31" and code = 200 and reason = "ascii ''OK''" and fs = demo_fields and rest = CRLF and q = "[]" and
      d = "[]" and bytes = "chunked [ascii ''Hello'', ascii '' World'']" and body = "ascii ''Hello World''"]
      f r demo_framed l s
    by (simp add: demo_response_def INT_MAX_def)
qed

end
