(* ===== verification/Http_Url.thy ===== *)
theory Http_Url
  imports Http_Get
begin

text \<open>
  The URL that \<open>HTTPClient\<close> takes apart, the headers the caller adds, and the state in
  which a failed call leaves the connection.
\<close>

section \<open>URLs\<close>

text \<open>\<open>protocol://[authorization@]host[:port]path\<close>.\<close>

definition url_text :: "byte list \<Rightarrow> byte list option \<Rightarrow> byte list \<Rightarrow> nat option \<Rightarrow> byte list \<Rightarrow> byte list" where
  "url_text protocol auth host port path =
     protocol @ [0x3A, 0x2F, 0x2F] @ (case auth of None \<Rightarrow> [] | Some a \<Rightarrow> a @ [0x40]) @ host @
     (case port of None \<Rightarrow> [] | Some n \<Rightarrow> 0x3A # dec_nat n) @ path"

lemma dec_nat_no: "\<not> is_digit c \<Longrightarrow> c \<notin> set (dec_nat n)"
  using dec_nat_digits [of n] by blast

definition with_port :: "byte list \<Rightarrow> nat option \<Rightarrow> byte list" where
  "with_port host port = host @ (case port of None \<Rightarrow> [] | Some n \<Rightarrow> 0x3A # dec_nat n)"

text \<open>C38: A URL with a protocol, an optional authorization part, a host, an optional port
  and a path is taken apart into exactly these parts; a port or an authorization that is
  not given stays as it was.\<close>
theorem url_taken_apart:
  assumes S: "arduino_strings S" and protocol: "0x3A \<notin> set protocol"
    and auth: "case auth of None \<Rightarrow> True | Some a \<Rightarrow> 0x2F \<notin> set a \<and> 0x40 \<notin> set a"
    and host: "0x2F \<notin> set host" "0x40 \<notin> set host" "0x3A \<notin> set host"
    and port: "case port of None \<Rightarrow> True | Some n \<Rightarrow> n < 65536"
    and path: "path = 0x2F # rest"
  shows "beginInternal S h (url_text protocol auth host port path) protocol =
    (True, (http_clear h)\<lparr>h_protocol := protocol,
       base64Authorization := (case auth of None \<Rightarrow> base64Authorization h | Some a \<Rightarrow> base64 S a),
       h_host := host, h_port := (case port of None \<Rightarrow> h_port h | Some n \<Rightarrow> word_of_nat n), h_uri := path\<rparr>)"
proof -
  define hp where "hp = with_port host port"
  define ah where "ah = (case auth of None \<Rightarrow> [] | Some a \<Rightarrow> a @ [0x40]) @ hp"
  have url: "url_text protocol auth host port path = protocol @ 0x3A # [0x2F, 0x2F] @ ah @ path"
    by (simp add: url_text_def ah_def hp_def with_port_def)
  have nd: "\<not> is_digit 0x2F" "\<not> is_digit 0x40" "\<not> is_digit 0x3A" by (simp_all add: is_digit_def)
  have hp: "0x2F \<notin> set hp" "0x40 \<notin> set hp"
    using host dec_nat_no [OF nd(1)] dec_nat_no [OF nd(2)] by (auto simp: hp_def with_port_def split: option.splits)
  have ah: "0x2F \<notin> set ah" using auth hp by (auto simp: ah_def split: option.splits)
  have i1: "indexOf_char S (url_text protocol auth host port path) 0x3A = int (length protocol)"
    unfolding url by (rule arduino_index(1) [OF S protocol])
  have s1: "substring S (url_text protocol auth host port path) 0 (int (length protocol)) = protocol"
    unfolding url by (rule arduino_parts(2) [OF S])
  have r1: "str_remove S (url_text protocol auth host port path) 0 (int (length protocol) + 3) = ah @ path"
    using arduino_parts(4) [OF S, of "protocol @ [0x3A, 0x2F, 0x2F]" "ah @ path"] by (simp add: url add.commute)
  have i2: "indexOf_char S (ah @ path) 0x2F = int (length ah)" unfolding path by (rule arduino_index(1) [OF S ah])
  have s2: "substring S (ah @ path) 0 (int (length ah)) = ah" by (rule arduino_parts(2) [OF S])
  have r2: "str_remove S (ah @ path) 0 (int (length ah)) = path" by (rule arduino_parts(4) [OF S])
  define hh where "hh = (if indexOf_char S ah 0x40 \<ge> 0 then str_remove S ah 0 (indexOf_char S ah 0x40 + 1) else ah)"
  have a1: "indexOf_char S ah 0x40 = (case auth of None \<Rightarrow> -1 | Some a \<Rightarrow> int (length a))"
    using arduino_index [OF S, of "0x40"] auth hp(2) by (auto simp: ah_def split: option.splits)
  have a2: "hh = hp"
    using a1 arduino_parts(4) [OF S, of "the auth @ [0x40]" hp] by (auto simp: hh_def ah_def add.commute split: option.splits)
  have a3: "substring S ah 0 (int (length a)) = a" if "auth = Some a" for a
    using that arduino_parts(2) [OF S, of a "0x40 # hp"] by (simp add: ah_def)
  have p1: "indexOf_char S hp 0x3A = (case port of None \<Rightarrow> -1 | Some n \<Rightarrow> int (length host))"
    using arduino_index [OF S, of "0x3A" host] host(3) by (auto simp: hp_def with_port_def split: option.splits)
  have p2: "substring S hp 0 (int (length host)) = host"
    unfolding hp_def with_port_def by (rule arduino_parts(2) [OF S])
  have p3: "str_toInt S (str_remove S hp 0 (int (length host) + 1)) = int n" if n: "port = Some n" for n
  proof -
    have "str_remove S hp 0 (int (length host) + 1) = dec_nat n"
      using arduino_parts(4) [OF S, of "host @ [0x3A]" "dec_nat n"] n by (simp add: hp_def with_port_def add.commute)
    moreover have "\<forall>n rest. n \<le> 2147483647 \<and> (case rest of [] \<Rightarrow> True | c # _ \<Rightarrow> \<not> is_digit c) \<longrightarrow> str_toInt S (dec_nat n @ rest) = int n"
      using S by (simp add: arduino_strings_def)
    from this [rule_format, of n "[]"] have "str_toInt S (dec_nat n) = int n" using port n by simp
    ultimately show ?thesis by simp
  qed
  have hn: "port = None \<Longrightarrow> hp = host" by (simp add: hp_def with_port_def)
  show ?thesis
    unfolding beginInternal_def Let_def i1 s1 r1
    using i2 s2 r2 a1 a2 a3 p1 p2 p3 hn
    by (cases auth; cases port; cases h) (auto simp: http_clear_def hh_def)
qed

lemma url_taken_apart_witness:
  "beginInternal std_strings HTTPClient_new (url_text (ascii ''http'') (Some (ascii ''me:pw'')) (ascii ''example.org'') (Some 8080) (ascii ''/a/b''))
     (ascii ''http'') =
    (True, (http_clear HTTPClient_new)\<lparr>h_protocol := ascii ''http'', base64Authorization := base64 std_strings (ascii ''me:pw''),
       h_host := ascii ''example.org'', h_port := word_of_nat 8080, h_uri := ascii ''/a/b''\<rparr>)"
proof -
  have c: "0x3A \<notin> set (ascii ''http'')" "0x2F \<notin> set (ascii ''me:pw'')" "0x40 \<notin> set (ascii ''me:pw'')"
    "0x2F \<notin> set (ascii ''example.org'')" "0x40 \<notin> set (ascii ''example.org'')" "0x3A \<notin> set (ascii ''example.org'')"
    "ascii ''/a/b'' = 0x2F # ascii ''a/b''" by code_simp+
  show ?thesis
    using url_taken_apart [OF std_strings_ok c(1), of "Some (ascii ''me:pw'')" "ascii ''example.org''" "Some 8080" "ascii ''/a/b''" "ascii ''a/b''" HTTPClient_new] c
    by simp
qed

section \<open>Adding headers\<close>

lemma find_text_skip:
  assumes "\<And>k. k < length p \<Longrightarrow> take (length t) (drop k (p @ t @ r)) \<noteq> t"
  shows "find_text (p @ t @ r) t = Some (length p)"
  using assms
proof (induction p)
  case Nil
  have "take (length t) (t @ r) = t" by simp
  then show ?case by (cases "t @ r") (simp_all del: take_append)
next
  case (Cons x p)
  have "take (length t) ((x # p) @ t @ r) \<noteq> t" using Cons.prems [of 0] by simp
  moreover have "find_text (p @ t @ r) t = Some (length p)"
    using Cons.prems by (intro Cons.IH) (metis Suc_less_eq append_Cons drop_Suc_Cons length_Cons)
  ultimately show ?case by simp
qed

text \<open>A header whose name ends like the name of another one hides it: when the caller
  has added a header such as \<open>X-Content-Length\<close>, the \<open>Content-Length\<close> that the request
  adds for its body is written over the value of that header, and the request has no
  \<open>Content-Length\<close>.\<close>
theorem content_length_lost:
  assumes S: "arduino_strings S" and headers: "h_headers h = ascii ''X-Content-Length: '' @ v @ CRLF" and v: "0x0A \<notin> set v"
  shows "h_headers (addHeader S h (ascii ''Content-Length'') (str_number S (int n)) False True) =
    ascii ''X-Content-Length: '' @ dec_nat n @ CRLF"
proof -
  define x where "x = ascii ''X-''"
  define t where "t = ascii ''Content-Length: ''"
  have xt: "ascii ''X-Content-Length: '' = x @ t" "ascii ''Content-Length'' @ ascii '': '' = t" by (simp_all add: x_def t_def ascii_def)
  have lx: "length x = 2" and nt: "t \<noteq> []" "0x0A \<notin> set t" by (simp_all add: x_def t_def ascii_def)
  have hs: "h_headers h = x @ t @ v @ CRLF" using headers xt by simp
  have "find_text (x @ t @ v @ CRLF) t = Some 2"
    unfolding lx [symmetric]
  proof (rule find_text_skip)
    fix k
    assume "k < length x"
    then have "k = 0 \<or> k = 1" unfolding lx by auto
    then show "take (length t) (drop k (x @ t @ v @ CRLF)) \<noteq> t"
      by (auto simp: x_def t_def ascii_def)
  qed
  then have i: "indexOf_str S (h_headers h) t = 2"
    using S nt(1) by (simp add: arduino_strings_def hs offset_or_minus1_def)
  have f: "indexOf_char_from S (h_headers h) 0x0A 2 = int (length x + length (t @ v @ [0x0D]))"
    using arduino_index_from [OF S, of "0x0A" "t @ v @ [0x0D]" x "[]"] nt(2) v lx by (simp add: hs CRLF_def)
  have s1: "substring S (h_headers h) 0 2 = x"
    using arduino_parts(2) [OF S, of x "t @ v @ CRLF"] lx by (simp add: hs)
  have s2: "substring_from S (h_headers h) (int (length x + length (t @ v @ [0x0D])) + 1) = []"
    using arduino_parts(3) [OF S, of "x @ t @ v @ CRLF" "[]"] by (simp add: hs CRLF_def algebra_simps)
  have ne: "\<not> equalsIgnoreCase S (ascii ''Content-Length'') (ascii ''Connection'')"
    "\<not> equalsIgnoreCase S (ascii ''Content-Length'') (ascii ''User-Agent'')"
    "\<not> equalsIgnoreCase S (ascii ''Content-Length'') (ascii ''Host'')"
    "\<not> equalsIgnoreCase S (ascii ''Content-Length'') (ascii ''Authorization'')"
    unfolding arduino_tests(2) [OF S] by code_simp+
  show ?thesis
    using i f s1 s2 ne arduino_tests(4) [OF S, of n] xt unfolding addHeader_def Let_def by simp
qed

lemma content_length_lost_witness:
  "h_headers (addHeader std_strings (HTTPClient_new\<lparr>h_headers := ascii ''X-Content-Length: '' @ ascii ''9'' @ CRLF\<rparr>)
     (ascii ''Content-Length'') (str_number std_strings (int 5)) False True) = ascii ''X-Content-Length: '' @ dec_nat 5 @ CRLF"
proof -
  have v: "0x0A \<notin> set (ascii ''9'')" by code_simp
  show ?thesis by (rule content_length_lost [OF std_strings_ok _ v]) simp
qed

end
