(* ===== verification/Http_Errors.thy ===== *)
theory Http_Errors
  imports Http_Url
begin

text \<open>
  After an error of \<open>HTTPClient\<close> the connection is down: every negative result goes
  through \<open>returnError\<close>, the body in chunks included.
\<close>

definition conn_down :: "'w http_env \<Rightarrow> HTTPClient \<Rightarrow> 'w \<Rightarrow> bool" where
  "conn_down E h w \<longleftrightarrow> (\<exists>w'. http_connected E h w = Some (False, w'))"

text \<open>Documented behaviour of \<open>stop\<close>: the client is not connected afterwards, and a
  client that is not connected does not become so by itself.\<close>

definition stops_for_good :: "'w http_env \<Rightarrow> bool" where
  "stops_for_good E \<longleftrightarrow>
     (\<forall>h w w'. h_client h \<noteq> 0 \<and> x_stop E (h_client h) w = Some w' \<longrightarrow> conn_down E h w') \<and>
     (\<forall>h w w'. http_connected E h w = Some (False, w') \<longrightarrow> conn_down E h w')"

lemma returnError_result: "returnError E h e w = Some (r, w') \<Longrightarrow> r = e"
  by (auto simp: returnError_def bind_eq_Some_conv split: if_splits prod.splits)

lemma returnError_down:
  assumes "stops_for_good E" and "returnError E h e w = Some (r, w')" and "r < 0"
  shows "conn_down E h w'"
proof -
  have "e < 0" using returnError_result [OF assms(2)] assms(3) by simp
  then obtain up w1 where u: "http_connected E h w = Some (up, w1)"
    "(if up then x_stop E (h_client h) w1 else Some w1) = Some w'"
    using assms(2) by (auto simp: returnError_def bind_eq_Some_conv)
  show ?thesis
  proof (cases up)
    case True
    then have "h_client h \<noteq> 0" using u(1) by (auto simp: http_connected_def split: if_splits)
    then show ?thesis using True u(2) assms(1) unfolding stops_for_good_def by simp
  next
    case False
    then show ?thesis using u assms(1) unfolding stops_for_good_def by simp
  qed
qed

lemma http_fail_down: "stops_for_good E \<Longrightarrow> http_fail E h e w = Some (r, h', w') \<Longrightarrow> r < 0 \<Longrightarrow> conn_down E h' w'"
  by (auto simp: http_fail_def bind_eq_Some_conv dest: returnError_down)

lemma finish_request_down:
  "stops_for_good E \<Longrightarrow> finish_request E h w = Some (r, h', w') \<Longrightarrow> r < 0 \<Longrightarrow> conn_down E h' w'"
  by (auto simp: finish_request_def bind_eq_Some_conv dest: returnError_down)

lemma sendRequest_down:
  assumes "stops_for_good E" and "sendRequest E h type payload n w = Some (r, h', w')" and "r < 0"
  shows "conn_down E h' w'"
  using assms http_fail_down [OF assms(1)] finish_request_down [OF assms(1)]
  by (auto simp: sendRequest_def bind_eq_Some_conv Let_def split: if_splits option.splits)

lemma send_stream_down:
  assumes "stops_for_good E" and "send_stream E h s n w = Some (r, h', w')" and "r < 0"
  shows "conn_down E h' w'"
proof -
  define len where "len = (if int_of_size n = 0 then -1 else int_of_size n)"
  obtain buff w1 where m: "x_malloc E (nat (block_buffer len)) w = (buff, w1)" by (rule prod.exhaust)
  show ?thesis
  proof (cases buff)
    case None
    then show ?thesis using assms m http_fail_down [OF assms(1)] by (simp add: send_stream_def len_def [symmetric])
  next
    case (Some b)
    obtain x w2 where x: "stream_send_loop E h s (block_buffer len) len 0 b w1 = Some (x, w2)"
      "(case x of Inl e \<Rightarrow> http_fail E h e w2
        | Inr written \<Rightarrow> if n \<noteq> 0 \<and> int_of_size n \<noteq> written then http_fail E h HTTPC_ERROR_SEND_PAYLOAD_FAILED w2
            else finish_request E h w2) = Some (r, h', w')"
      using assms(2) m Some by (auto simp: send_stream_def len_def [symmetric] bind_eq_Some_conv)
    then show ?thesis
      using assms(3) http_fail_down [OF assms(1)] finish_request_down [OF assms(1)]
      by (auto split: sum.splits if_splits)
  qed
qed

lemma sendRequest_stream_down:
  assumes "stops_for_good E" and "sendRequest_stream E h type s n w = Some (r, h', w')" and "r < 0"
  shows "conn_down E h' w'"
  using assms http_fail_down [OF assms(1)] send_stream_down [OF assms(1)]
  by (auto simp: sendRequest_stream_def bind_eq_Some_conv Let_def split: if_splits)

text \<open>A result of the loop over the chunks is an error with the connection down, or the
  number of bytes written.\<close>

lemma error_down:
  assumes E: "stops_for_good E" and "returnError E h e w = Some (r, w')" and "e < 0"
  shows "conn_down E h w'"
  using returnError_down [OF E assms(2)] returnError_result [OF assms(2)] assms(3) by simp

lemma read_chunk_result:
  assumes E: "stops_for_good E" and "read_chunk E h s len ret w = Some (r, w')" and "0 \<le> ret"
  shows "case r of Inl e \<Rightarrow> conn_down E h w' | Inr n \<Rightarrow> 0 \<le> n"
  using assms(2,3) error_down [OF E]
  by (fastforce simp: read_chunk_def bind_eq_Some_conv cint_Some httpc_errors split: if_splits)

lemma last_chunk_result:
  assumes E: "stops_for_good E" and "last_chunk E h body ret w = Some (r, h', w')" and "0 \<le> ret"
  shows "case r of Inl e \<Rightarrow> conn_down E h' w' | Inr n \<Rightarrow> 0 \<le> n"
  using assms(2,3) error_down [OF E]
  by (auto simp: last_chunk_def bind_eq_Some_conv Let_def httpc_errors split: if_splits)

lemma chunk_loop_result:
  assumes E: "stops_for_good E" and run: "chunk_loop E h s body ret w = Some (r, h', w')" and ret: "0 \<le> ret"
  shows "case r of Inl e \<Rightarrow> conn_down E h' w' | Inr n \<Rightarrow> 0 \<le> n"
proof -
  define ok where "ok = (\<lambda>x :: (int + int) \<times> HTTPClient \<times> 'a. case fst x of Inl e \<Rightarrow> conn_down E (fst (snd x)) (snd (snd x)) | Inr n \<Rightarrow> 0 \<le> n)"
  define Q where "Q = (\<lambda>(((((E' :: 'a http_env, h :: HTTPClient), s :: nat), body :: int), ret :: int), w :: 'a)
    (x :: (int + int) \<times> HTTPClient \<times> 'a). E' = E \<longrightarrow> 0 \<le> ret \<longrightarrow> ok x)"
  have "Q (((((E, h), s), body), ret), w) (r, h', w')"
  proof (rule chunk_loop.raw_induct [OF _ run])
    fix self E' h s body ret w x
    assume IH: "\<And>E h s body ret w x. self E h s body ret w = Some x \<Longrightarrow> Q (((((E, h), s), body), ret), w) x"
      and b: "do {
     (up, w) \<leftarrow> http_connected E' h w;
     (if \<not> up then do { (r, w) \<leftarrow> returnError E' h HTTPC_ERROR_CONNECTION_LOST w; Some (Inl r, h, w) }
      else do {
        (line, w) \<leftarrow> x_readStringUntil E' (h_client h) 0x0A w;
        (if line = [] then do { (r, w) \<leftarrow> returnError E' h HTTPC_ERROR_READ_TIMEOUT w; Some (Inl r, h, w) }
         else do {
           let len = chunk_size E' (str_trim (strings E') line);
           body \<leftarrow> cint (body + len);
           (if len > 0 then do {
              (r, w) \<leftarrow> read_chunk E' h s len ret w;
              (case r of Inl e \<Rightarrow> Some (Inl e, h, w) | Inr ret \<Rightarrow> self E' h s body ret (x_delay E' 0 w)) }
            else last_chunk E' h body ret w) }) }) } = Some x"
    have "ok x" if E': "E' = E" and ret: "0 \<le> ret"
    proof -
      have gone: "ok (Inl r, h, w2)" if "returnError E h e w1 = Some (r, w2)" "e < 0" for e w1 r w2
        using error_down [OF E that] by (simp add: ok_def)
      have chunk: "ok x" if r: "read_chunk E h s len ret w1 = Some (r, w2)"
        "(case r of Inl e \<Rightarrow> Some (Inl e, h, w2) | Inr ret \<Rightarrow> self E h s body1 ret (x_delay E 0 w2)) = Some x" for len w1 r w2 body1
        using read_chunk_result [OF E r(1) ret] r(2) IH [of E h s body1 _ "x_delay E 0 w2" x]
        by (cases r) (auto simp: ok_def Q_def)
      have last: "ok x" if "last_chunk E h body1 ret w1 = Some x" for body1 w1
        using last_chunk_result [OF E, of h body1 ret w1 "fst x" "fst (snd x)" "snd (snd x)"] that ret by (simp add: ok_def)
      show ?thesis
        using b gone chunk last unfolding E'
        by (auto simp: bind_eq_Some_conv Let_def httpc_errors split: if_splits)
    qed
    then show "Q (((((E', h), s), body), ret), w) x" by (simp add: Q_def)
  qed
  then show ?thesis using ret by (cases r) (simp_all add: Q_def ok_def)
qed

lemma writeToStream_down:
  assumes E: "stops_for_good E" and "writeToStream E h s w = Some (r, h', w')" and "r < 0"
  shows "conn_down E h' w'"
proof (cases "s = 0")
  case True
  then show ?thesis using assms http_fail_down [OF E] by (simp add: writeToStream_def)
next
  case False
  then obtain up w1 where u: "http_connected E h w = Some (up, w1)"
    using assms(2) by (auto simp: writeToStream_def bind_eq_Some_conv)
  show ?thesis
  proof (cases up)
    case False
    then show ?thesis using u assms \<open>s \<noteq> 0\<close> http_fail_down [OF E] by (simp add: writeToStream_def)
  next
    case True
    obtain x h1 w2 where x: "(case h_transferEncoding h of HTTPC_TE_IDENTITY \<Rightarrow> write_identity E h s w1
        | HTTPC_TE_CHUNKED \<Rightarrow> chunk_loop E h s 0 0 w1) = Some (x, h1, w2)"
      "(case x of Inl e \<Rightarrow> Some (e, h1, w2) | Inr n \<Rightarrow> do { (h, w) \<leftarrow> disconnect E h1 True w2; Some (n, h, w) }) = Some (r, h', w')"
      using u assms(2) \<open>s \<noteq> 0\<close> True by (auto simp: writeToStream_def bind_eq_Some_conv)
    have "case x of Inl e \<Rightarrow> conn_down E h1 w2 | Inr n \<Rightarrow> 0 \<le> n"
    proof (cases "h_transferEncoding h")
      case HTTPC_TE_CHUNKED
      then show ?thesis using x(1) chunk_loop_result [OF E, of h s 0 0] by simp
    next
      case HTTPC_TE_IDENTITY
      then show ?thesis using x(1) returnError_down [OF E] returnError_result
        by (fastforce simp: write_identity_def bind_eq_Some_conv split: if_splits)
    qed
    then show ?thesis using x(2) assms(3) by (auto simp: bind_eq_Some_conv split: sum.splits)
  qed
qed


lemma demo_stops: "stops_for_good demo_http"
  by (auto simp: stops_for_good_def conn_down_def http_connected_def demo_http_def split: if_splits)


end
