(* ===== verification/Http_Tls.thy ===== *)
theory Http_Tls
  imports Http_Errors Tls_Verify
begin

text \<open>
  \<open>HTTPClient\<close> over \<open>TCPClientSecure\<close>: the methods behind the pointer are those of the
  modelled class, the world is the object that \<open>TLSTraits::create\<close> allocates and the
  world of the TLS library.
\<close>

definition http_over_tls :: "'v tls \<Rightarrow> (TCPClientSecure \<times> 'v) http_env \<Rightarrow> (TCPClientSecure \<times> 'v) http_env" where
  "http_over_tls T E = E\<lparr>
     fembed_platform := False,
     new_TCPClientSecure := \<lambda>(c, w). (1, TCPClientSecure_new T 7 w),
     x_connect := \<lambda>_ host port t (c, w). sec_connect_host_timeout T c host port t w,
     x_available := \<lambda>_ (c, w). Some (sec_available T c w),
     x_connected := \<lambda>_ (c, w). Some (sec_is_connected T c w),
     x_read := \<lambda>_ (c, w). Some (sec_read_byte T c w),
     x_write := \<lambda>_ bs (c, w). sec_write T c bs w,
     x_stop := \<lambda>_ (c, w). Some (sec_stop T c w),
     x_setCACert := \<lambda>_ ca (c, w). Some (sec_setCACert c ca, w),
     x_setCertificate := \<lambda>_ cert (c, w). Some (sec_setCertificate c cert, w),
     x_setPrivateKey := \<lambda>_ key (c, w). Some (sec_setPrivateKey c key, w),
     x_retain := \<lambda>_ w. w, x_release := \<lambda>_ w. w, x_setTimeout := \<lambda>_ _ w. w\<rparr>"

section \<open>Connecting without a certification authority\<close>

definition optional :: "tls_call \<Rightarrow> bool" where
  "optional k \<longleftrightarrow> k \<noteq> Conf_authmode VERIFY_REQUIRED"

lemma quiet_optional: "quiet k \<Longrightarrow> optional k"
  by (simp add: quiet_def optional_def)

lemma adds_optional: "adds quiet l l' \<Longrightarrow> adds optional l l'"
  by (erule adds_mono) (rule quiet_optional)

lemma trust_nobody:
  "\<exists>w'. configure_trust (log_tls T) s 0 0 0 wl = Some (Inr (), w') \<and> adds optional (snd wl) (snd w')"
  by (cases wl) (auto simp: configure_trust_def tls_do_log optional_def intro!: adds_Cons split: prod.splits)

lemma verify_optional:
  assumes "verify_peer (log_tls T) s 0 0 0 wl = (rc, s', wl')"
  shows "adds optional (snd wl) (snd wl')"
proof -
  obtain w l where wl: "wl = (w, l)" by (cases wl)
  obtain flags w2 where f: "mbedtls T (ssl_id s) Get_verify_result w = (flags, w2)"
    by (cases "mbedtls T (ssl_id s) Get_verify_result w")
  let ?l = "(ssl_id s, Get_verify_result, flags) # l"
  have v: "mbedtls (log_tls T) (ssl_id s) Get_verify_result (w, l) = (flags, w2, ?l)" by (simp add: f)
  have o1: "adds optional l ?l" by (simp add: adds_Cons optional_def)
  have "adds optional ?l (snd wl')"
  proof (cases "flags = 0")
    case True
    then have "wl' = free_certs (log_tls T) s 0 0 0 (w2, ?l)"
      using assms unfolding wl verify_peer_def by (auto simp: f)
    then show ?thesis using free_certs_log [of "(w2, ?l)" T s 0 0 0] by (simp add: adds_optional)
  next
    case False
    then have "stop_ssl_socket (log_tls T) s (w2, ?l) = (s', wl')"
      using assms unfolding wl verify_peer_def by (simp add: f handle_error_def split: prod.splits)
    from stop_ssl_socket_log(2) [OF this] show ?thesis by (simp add: adds_optional)
  qed
  with o1 show ?thesis by (simp add: wl adds_trans)
qed

lemma step_optional: "step_ok quiet l r l' \<Longrightarrow> adds optional l l'"
  by (simp add: step_ok_def adds_optional)

lemma start_without_ca:
  assumes e: "errors_negative T"
  shows "rets (\<lambda>(rc, s', wl'). adds optional (snd wl) (snd wl'))
    (start_ssl_client (log_tls T) s host port timeout 0 0 0 0 0 wl)"
proof -
  have so: "adds optional (snd v) (snd v')" if "seed_and_defaults (log_tls T) s1 v = (r, v')" for s1 v r v'
    using seed_and_defaults_log [OF e, of s1 "fst v" "snd v" r "fst v'" "snd v'"] that by (auto intro: step_optional)
  have su: "adds optional (snd v) (snd v')" if "setup_session (log_tls T) s1 host v = (r, v')" for s1 v r v'
    using setup_session_log [OF e, of s1 host "fst v" "snd v" r "fst v'" "snd v'"] that by (auto intro: step_optional)
  have id: "adds optional (snd v) (snd v')" if "configure_identity (log_tls T) s1 0 0 v = Some (r, v')" for s1 v r v'
    using retsD [OF configure_identity_log [OF e], of s1 0 0 "fst v" "snd v" "(r, v')"] that by (auto intro: step_optional)
  have hs: "adds optional (snd v) (snd v')" if "handshake (log_tls T) s1 v = Some (r, v')" for s1 v r v'
  proof -
    have p: "handshake_post (ssl_id s1) (snd v) r (snd v')"
      using handshake_log [OF e, of s1 "fst v" "snd v" r "fst v'" "snd v'"] that by simp
    have m: "adds optional l l'" if "adds (\<lambda>k. k = Ssl_handshake) l l'" for l l'
      using that by (rule adds_mono) (simp add: optional_def)
    show ?thesis
      using p by (auto simp: handshake_post_def handshaken_def optional_def intro!: adds_Cons dest: m split: sum.splits)
  qed
  have tr: "adds optional (snd v) (snd v')" if "configure_trust (log_tls T) s1 0 0 0 v = Some (r, v')" for s1 v r v'
    using trust_nobody [of T s1 v] that by auto
  have op: "adds optional (snd v) (snd v')" if "open_socket (log_tls T) s1 host port timeout v = Some (r, s2, v')" for s1 v r s2 v'
    using open_keeps [OF that] by simp
  show ?thesis
    unfolding start_ssl_client_def
    by (intro rets_intros; auto dest!: so su id hs tr op verify_optional; blast intro: adds_trans)
qed

section \<open>The connection of an \<open>https\<close> URL\<close>

lemma available_optional:
  assumes "sec_available (log_tls T) c wl = (n, c', wl')"
  shows "adds optional (snd wl) (snd wl') \<and> CA_cert c' = CA_cert c"
proof (cases "sec_connected c")
  case False
  then show ?thesis using assms by (auto simp: sec_available_def Let_def)
next
  case True
  obtain res wl1 where d: "data_to_read (log_tls T) (sslclient c) wl = (res, wl1)" by (rule prod.exhaust)
  have a: "adds optional (snd wl) (snd wl1)"
    using d by (cases wl) (auto simp: data_to_read_def optional_def Let_def intro!: adds_Cons split: prod.splits)
  obtain c2 wl2 where st: "sec_stop (log_tls T) c wl1 = (c2, wl2)" by (rule prod.exhaust)
  have "adds optional (snd wl1) (snd wl2)" using sec_stop_log [OF st] by (rule adds_optional)
  moreover have "CA_cert c2 = CA_cert c" using st by (auto simp: sec_stop_def Let_def split: prod.splits if_splits)
  ultimately show ?thesis
    using assms True d st a by (auto simp: sec_available_def Let_def intro: adds_trans split: if_splits)
qed

lemma connected_optional:
  assumes "sec_is_connected (log_tls T) c wl = (b, c', wl')"
  shows "adds optional (snd wl) (snd wl') \<and> CA_cert c' = CA_cert c"
  using assms available_optional
  by (fastforce simp: sec_is_connected_def sec_read_def Let_def split: prod.splits if_splits)

lemma http_connected_optional:
  assumes "http_connected (http_over_tls (log_tls T) E) h (c, wl) = Some (up, c', wl')"
  shows "adds optional (snd wl) (snd wl') \<and> CA_cert c' = CA_cert c"
proof (cases "h_client h = 0")
  case True
  then show ?thesis using assms by (simp add: http_connected_def)
next
  case False
  obtain n c1 wl1 where a: "sec_available (log_tls T) c wl = (n, c1, wl1)" by (metis prod_cases3)
  obtain b c2 wl2 where b: "sec_is_connected (log_tls T) c1 wl1 = (b, c2, wl2)" by (metis prod_cases3)
  show ?thesis
    using assms False a b available_optional [OF a] connected_optional [OF b]
    by (auto simp: http_connected_def http_over_tls_def intro: adds_trans split: if_splits)
qed

lemma sec_connect_without_ca:
  assumes e: "errors_negative T" and run: "sec_connect_host_timeout (log_tls T) c host port timeout wl = Some (r, c', wl')"
    and c: "CA_cert c = 0" "sec_cert c = 0" "private_key c = 0" "sec_pskIdent c = 0"
  shows "adds optional (snd wl) (snd wl')"
proof -
  have "sec_connect_certs (log_tls T) (c\<lparr>sec_timeout := timeout\<rparr>) host port 0 0 0 wl = Some (r, c', wl')"
    using run c by (simp add: sec_connect_host_timeout_def sec_connect_host_def)
  from sec_connect_certs_start [OF this] obtain s rc s' v where
    v: "start_ssl_client (log_tls T) s host port timeout 0 0 0 0 0 wl = Some (rc, s', v)"
    "if rc < 0 then r = 0 \<and> (\<exists>c1. sec_stop (log_tls T) c1 v = (c', wl')) else r = 1 \<and> sslclient c' = s' \<and> sec_connected c' \<and> wl' = v"
    by auto
  have "adds optional (snd wl) (snd v)" using retsD [OF start_without_ca [OF e] v(1)] by simp
  moreover have "adds optional (snd v) (snd wl')"
    using v(2) by (auto split: if_splits dest!: sec_stop_log intro: adds_optional)
  ultimately show ?thesis by (rule adds_trans)
qed

text \<open>C39: Over \<open>TCPClientSecure\<close> the certification authority that was given to \<open>begin\<close> is set
  only after the connection is made: when \<open>connect\<close> reports a connection, the library
  was never told to require a verification of the peer, although the object holds the
  authority by then.\<close>
theorem https_ca_set_too_late:
  assumes "errors_negative T" and h: "h_client h = 0" "transportTraits h = Some (TLSTraits ca cert key)"
    and run: "http_connect (http_over_tls (log_tls T) E) h (c0, w, []) = Some (True, h', c', w', l)"
  shows "CA_cert c' = ca \<and> (\<forall>e \<in> set l. fst (snd e) \<noteq> Conf_authmode VERIFY_REQUIRED)"
proof -
  let ?E = "http_over_tls (log_tls T) E"
  obtain c1 w1 l1 where n: "TCPClientSecure_new (log_tls T) 7 (w, []) = (c1, w1, l1)" by (metis prod_cases3)
  have c1: "CA_cert c1 = 0" "sec_cert c1 = 0" "private_key c1 = 0" "sec_pskIdent c1 = 0"
    using n by (auto simp: TCPClientSecure_new_def sec_init_def Let_def)
  have l1: "adds optional [] l1"
    using n by (auto simp: TCPClientSecure_new_def sec_init_def ssl_init_def tls_do_log optional_def Let_def
        intro!: adds_Cons split: prod.splits)
  define h1 where "h1 = h\<lparr>tcpDeprecated := 1, h_client := 1\<rparr>"
  have cr: "create_client ?E h (c0, w, []) = (True, h1, c1, w1, l1)"
    using h n by (simp add: create_client_def traits_create_def drop_deprecated_def set_client_def http_over_tls_def h1_def)
  obtain rc c2 w2 l2 where co: "sec_connect_host_timeout (log_tls T) c1 (h_host h1) (h_port h1) (connectTimeout h1) (w1, l1) =
      Some (rc, c2, w2, l2)" and op: "http_open ?E h (c0, w, []) = Some (True, h', c', w', l)"
    using run h cr by (auto simp: http_connect_def http_connected_def http_open_def http_over_tls_def h1_def bind_eq_Some_conv)
  define c3 where "c3 = sec_setPrivateKey (sec_setCertificate (sec_setCACert c2 ca) cert) key"
  have ca: "CA_cert c3 = ca" by (simp add: c3_def sec_setPrivateKey_def sec_setCertificate_def sec_setCACert_def)
  have ve: "traits_verify ?E (TLSTraits ca cert key) 1 (c2, w2, l2) = Some (True, c3, w2, l2)"
    by (simp add: traits_verify_def http_over_tls_def c3_def)
  have xc: "x_connect ?E 1 (h_host h1) (h_port h1) (connectTimeout h1) (c1, w1, l1) = Some (rc, c2, w2, l2)"
    using co by (simp add: http_over_tls_def)
  have xs: "x_setTimeout ?E a b v = v" for a b v by (simp add: http_over_tls_def)
  have "http_connected ?E h1 (c3, w2, l2) = Some (True, c', w', l)"
    using op cr xc ve h(2)
    by (cases "rc < 0") (auto simp: http_open_def h1_def xs Let_def bind_eq_Some_conv)
  from http_connected_optional [OF this] ca have "adds optional l2 l" "CA_cert c' = ca" by simp_all
  moreover have "adds optional l1 l2" using sec_connect_without_ca [OF assms(1) co c1] by simp
  ultimately have "adds optional [] l" "CA_cert c' = ca" using l1 by (blast intro: adds_trans)+
  then show ?thesis by (auto simp: adds_def optional_def)
qed

definition tls_http :: "(TCPClientSecure \<times> unit \<times> tls_log) http_env" where
  "tls_http = \<lparr>
     strings = std_strings,
     x_connect = \<lambda>c host port t w. None, x_available = \<lambda>c w. None, x_connected = \<lambda>c w. None,
     x_read = \<lambda>c w. None, x_stop = \<lambda>c w. None, x_write = \<lambda>c bs w. None,
     x_setCACert = \<lambda>c a w. None, x_setCertificate = \<lambda>c a w. None, x_setPrivateKey = \<lambda>c a w. None,
     x_retain = \<lambda>c w. w, x_release = \<lambda>c w. w,
     new_TCPClient = \<lambda>w. (0, w), new_TCPClientSecure = \<lambda>w. (0, w),
     x_setTimeout = \<lambda>c t w. w,
     x_readStringUntil = \<lambda>c b w. None, x_readBytes = \<lambda>c n w. None,
     x_getWriteError = \<lambda>c w. 0, x_clearWriteError = \<lambda>c w. w,
     s_available = \<lambda>s w. None, s_readBytes = \<lambda>s n w. None, s_write = \<lambda>s bs w. None,
     s_getWriteError = \<lambda>s w. 0, s_clearWriteError = \<lambda>s w. w,
     new_StreamString = \<lambda>w. (0, w), s_reserve = \<lambda>s n w. (True, w), s_text = \<lambda>s w. [],
     x_malloc = \<lambda>n w. (None, w), x_free = \<lambda>w. w, x_delay = \<lambda>n w. w,
     x_millis = \<lambda>w. (0, w), x_strlen = \<lambda>a w. Some a, x_long_max = INT_MAX, fembed_platform = False\<rparr>"

lemma https_ca_set_too_late_witness:
  "\<exists>h' c' w' l. http_connect (http_over_tls (log_tls (demo_tls 0)) tls_http)
      (HTTPClient_new\<lparr>h_host := [0x65], h_port := 443, transportTraits := Some (TLSTraits 9 0 0)\<rparr>) (demo_client, (), []) =
      Some (True, h', c', w', l) \<and> CA_cert c' = 9 \<and> (\<forall>e \<in> set l. fst (snd e) \<noteq> Conf_authmode VERIFY_REQUIRED)"
proof -
  let ?h = "HTTPClient_new\<lparr>h_host := [0x65], h_port := 443, transportTraits := Some (TLSTraits 9 0 0)\<rparr>"
  let ?r = "http_connect (http_over_tls (log_tls (demo_tls 0)) tls_http) ?h (demo_client, (), [])"
  have "(case ?r of None \<Rightarrow> False | Some (up, x) \<Rightarrow> up)" by code_simp
  then obtain h' c' w' l where e: "?r = Some (True, h', c', w', l)" by (auto split: option.splits)
  have h: "h_client ?h = 0" "transportTraits ?h = Some (TLSTraits 9 0 0)" by (simp_all add: HTTPClient_new_def)
  from https_ca_set_too_late [OF demo_errors_negative h e] e show ?thesis by blast
qed

end
