(* ===== verification/Http_Upload.thy ===== *)
theory Http_Upload
  imports Http_Get
begin

text \<open>
  Requests with a body: from memory and from a stream the server receives the same
  bytes, however many of them the stream has ready at a time.
\<close>

section \<open>The stream\<close>

text \<open>\<open>src\<close> is what the stream still holds. The calls on the connection leave it alone,
  the calls on the stream leave the connection alone; there is no write error.\<close>

definition stream_source :: "'w http_env \<Rightarrow> nat \<Rightarrow> 'w view \<Rightarrow> ('w \<Rightarrow> byte list) \<Rightarrow> bool" where
  "stream_source E s obs src \<longleftrightarrow> (\<forall>w.
     (\<exists>n w'. s_available E s w = Some (int n, w') \<and> n \<le> length (src w) \<and> (src w \<noteq> [] \<longrightarrow> 0 < n) \<and>
        obs w' = obs w \<and> src w' = src w) \<and>
     (\<forall>n. n \<le> length (src w) \<longrightarrow> (\<exists>w'. s_readBytes E s n w = Some (take n (src w), w') \<and>
        obs w' = obs w \<and> src w' = drop n (src w))))"

definition upload_net :: "'w http_env \<Rightarrow> nat \<Rightarrow> nat \<Rightarrow> 'w view \<Rightarrow> ('w \<Rightarrow> byte list) \<Rightarrow> bool" where
  "upload_net E c s obs src \<longleftrightarrow> http_net E c s obs \<and> stream_source E s obs src \<and>
     (\<forall>w. x_getWriteError E c w = 0) \<and>
     (\<forall>w w' n. x_available E c w = Some (n, w') \<longrightarrow> src w' = src w) \<and>
     (\<forall>w w' b. x_connected E c w = Some (b, w') \<longrightarrow> src w' = src w) \<and>
     (\<forall>w w' bs n. x_write E c bs w = Some (n, w') \<longrightarrow> src w' = src w) \<and>
     (\<forall>w n. src (x_delay E n w) = src w) \<and> (\<forall>w n t. src (x_setTimeout E n t w) = src w) \<and>
     (\<forall>w n. src (snd (x_malloc E n w)) = src w)"

lemma upload_http: "upload_net E c s obs src \<Longrightarrow> http_net E c s obs"
  by (simp add: upload_net_def)

lemma upload_keeps:
  assumes "upload_net E c s obs src"
  shows "x_available E c w = Some (n, w') \<Longrightarrow> src w' = src w" and "x_connected E c w = Some (b, w') \<Longrightarrow> src w' = src w"
    and "x_write E c bs w = Some (m, w') \<Longrightarrow> src w' = src w" and "src (x_delay E k w) = src w"
    and "src (x_setTimeout E k t w) = src w" and "src (snd (x_malloc E k w)) = src w" and "x_getWriteError E c w = 0"
  using assms unfolding upload_net_def by blast+

lemma upload_connected:
  assumes "upload_net E c s obs src" and "http_connected E h w = Some (up, w')" and "h_client h = c"
  shows "src w' = src w"
  using assms(2,3) upload_keeps(1,2) [OF assms(1)]
  by (fastforce simp: http_connected_def bind_eq_Some_conv split: if_splits)

lemma upload_availableE:
  assumes "upload_net E c s obs src"
  obtains n w' where "s_available E s w = Some (int n, w')" "n \<le> length (src w)" "src w \<noteq> [] \<Longrightarrow> 0 < n"
    "obs w' = obs w" "src w' = src w"
  using assms unfolding upload_net_def stream_source_def by meson

lemma upload_readE:
  assumes "upload_net E c s obs src" and "n \<le> length (src w)"
  obtains w' where "s_readBytes E s n w = Some (take n (src w), w')" "obs w' = obs w" "src w' = drop n (src w)"
  using assms unfolding upload_net_def stream_source_def by meson

section \<open>Sending the stream\<close>

lemma send_loop_sends:
  assumes net: "upload_net E c s obs src" and c: "h_client h = c"
    and "obs w = (True, i, q, d)" and "src w = p @ extra" and "length buff = nat b" and "0 < b" and "b \<le> HTTP_TCP_BUFFER_SIZE"
    and "0 \<le> written" and "written + int (length p) \<le> INT_MAX"
  shows "\<exists>w'. stream_send_loop E h s b (int (length p)) written buff w = Some (Inr (written + int (length p)), w') \<and>
    obs w' = (True, i, q @ p, d)"
  using assms(3-)
proof (induction p arbitrary: w q written buff rule: length_induct)
  case (1 p)
  note http = upload_http [OF net]
  obtain w1 where u: "http_connected E h w = Some (True, w1)" "obs w1 = (True, i, q, d)" "src w1 = p @ extra"
    using net_up [OF http 1(2) c] upload_connected [OF net _ c] 1(3) by metis
  obtain n w2 where a: "s_available E s w1 = Some (int n, w2)" "obs w2 = (True, i, q, d)" "src w2 = p @ extra"
    using upload_availableE [OF net, of w1] u(2,3) by metis
  show ?case
  proof (cases "p = []")
    case True
    then show ?thesis using u a net_quiet(2) [OF http] by (subst stream_send_loop.simps) simp
  next
    case False
    obtain n w3 where a2: "s_available E s w2 = Some (int n, w3)" "n \<le> length (p @ extra)" "0 < n"
      "obs w3 = (True, i, q, d)" "src w3 = p @ extra"
      using upload_availableE [OF net, of w2] a(2,3) False by (metis append_is_Nil_conv)
    define r where "r = min (min n (length p)) (nat b)"
    have r: "read_size (int n) (int (length p)) b = int r" "0 < r" "r \<le> length p" "r \<le> nat b"
      using False a2(3) 1(5) by (auto simp: r_def read_size_def min_def Let_def)
    have small: "r < 2147483648" using r(3) 1(7,8) by (simp add: INT_MAX_def)
    have sz: "size_of_int (int r) = r" using small by (simp add: size_of_int_def unat_of_nat)
    have "r \<le> length (src w3)" using r(3) a2(5) by simp
    then obtain w4 where w4: "s_readBytes E s r w3 = Some (take r (src w3), w4)" "obs w4 = obs w3" "src w4 = drop r (src w3)"
      by (rule upload_readE [OF net])
    then have w4: "s_readBytes E s r w3 = Some (take r p, w4)" "obs w4 = (True, i, q, d)" "src w4 = drop r p @ extra"
      using a2(4,5) r(3) by simp_all
    define buff1 where "buff1 = take r p @ drop r buff"
    have lp: "length (take r p) = r" using r(3) by simp
    have m: "memcpy buff 0 (take r p) (int r) = Some buff1" using r 1(4) by (simp add: memcpy_def buff1_def)
    have tk: "take r buff1 = take r p" using r(3) by (simp add: buff1_def)
    have len1: "length buff1 = nat b" using r 1(4) by (simp add: buff1_def)
    obtain w5 where w5: "x_write E c (take r p) w4 = Some (word_of_nat (length (take r p)), w5)"
      "obs w5 = (True, i, q @ take r p, d)" by (rule net_writeE [OF http w4(2)])
    have s5: "src w5 = drop r p @ extra" using upload_keeps(3) [OF net w5(1)] w4(3) by simp
    have st: "send_block E h buff1 (int r) r written w4 = Some (Inr (written + int r), w5)"
      using w5 tk small r(3) 1(7,8) upload_keeps(7) [OF net] c
      by (simp add: send_block_def uint_length_small int_of_size_small min_def cint_in_range INT_MIN_def)
    have o6: "obs (x_delay E 0 w5) = (True, i, q @ take r p, d)" "src (x_delay E 0 w5) = drop r p @ extra"
      using net_quiet(1) [OF http] w5(2) upload_keeps(4) [OF net] s5 by simp_all
    have prem: "0 \<le> written + int r" "written + int r + int (length (drop r p)) \<le> INT_MAX" "length (drop r p) < length p"
      using r(2,3) 1(7,8) False by (simp_all add: of_nat_diff)
    have ih: "\<exists>w'. stream_send_loop E h s b (int (length (drop r p))) (written + int r) buff1 (x_delay E 0 w5) =
        Some (Inr (written + int r + int (length (drop r p))), w') \<and> obs w' = (True, i, (q @ take r p) @ drop r p, d)"
      using 1(1) o6 1(5,6) len1 prem by blast
    have left: "cint (int (length p) - int r) = Some (int (length (drop r p)))"
      using r(3) 1(7,8) by (subst cint_in_range) (auto simp: INT_MIN_def of_nat_diff)
    show ?thesis
      using u a a2 w4 m st ih left sz r False c lp
      by (subst stream_send_loop.simps) (simp add: Let_def min_absorb2 of_nat_diff del: cint_in_range)
  qed
qed

section \<open>Requests with a body\<close>

lemma send_header_up:
  assumes net: "upload_net E c s obs src" and c: "h_client h = c" and v: "obs w = (True, i, q, d)"
    and auth: "0x0A \<notin> set (base64Authorization h)"
  shows "\<exists>w'. sendHeader E h type w = Some (True, h, w') \<and> obs w' = (True, i, q @ request_sent (strings E) h type, d) \<and>
    src w' = src w"
proof -
  obtain w' where w': "sendHeader E h type w = Some (True, h, w')" "obs w' = (True, i, q @ request_sent (strings E) h type, d)"
    using send_header_text [OF upload_http [OF net] c v auth] by blast
  moreover have "src w' = src w"
    using w'(1) c upload_connected [OF net] upload_keeps(3) [OF net]
    by (fastforce simp: sendHeader_def bind_eq_Some_conv Let_def split: if_splits)
  ultimately show ?thesis by blast
qed

lemma open_up:
  assumes net: "upload_net E c s obs src" and c: "h_client h = c" and td: "tcpDeprecated h = 0"
    and "x_connect E c (h_host h) (h_port h) (connectTimeout h) w = Some (rc, w1)" and "0 \<le> rc"
    and "obs w1 = (True, i, q, d)"
  shows "\<exists>w'. http_open E h w = Some (True, h, w') \<and> obs w' = (True, i, q, d) \<and> src w' = src w1"
proof -
  obtain w' where w': "http_open E h w = Some (True, h, w')" "obs w' = (True, i, q, d)"
    using open_given_client [OF upload_http [OF net] c td assms(4-6)] by blast
  have cr: "create_client E h w = (True, h, w)"
    using c net_quiet(4) [OF upload_http [OF net]] by (simp add: create_client_def split: option.splits)
  have "src w' = src w1"
    using w'(1) assms(4,5) cr c td net_quiet(4) [OF upload_http [OF net]] upload_connected [OF net] upload_keeps(5) [OF net]
    by (fastforce simp: http_open_def bind_eq_Some_conv split: if_splits)
  with w' show ?thesis by blast
qed

lemma send_stream_sends:
  assumes net: "upload_net E c s obs src" and c: "h_client h = c" and v: "obs w = (True, i, q, d)" and s: "src w = p @ extra"
    and p: "p \<noteq> []" "int (length p) \<le> INT_MAX"
  shows "\<exists>w'. send_stream E h s (length p) w = finish_request E h w' \<and> obs w' = (True, i, q @ p, d)"
proof -
  define b where "b = block_buffer (int (length p))"
  have b: "0 < b" "b \<le> HTTP_TCP_BUFFER_SIZE" by (auto simp: b_def block_buffer_def HTTP_TCP_BUFFER_SIZE_def)
  have n: "int_of_size (length p) = int (length p)" using p(2) by (simp add: int_of_size_small INT_MAX_def)
  obtain buff w1 where m: "x_malloc E (nat b) w = (Some buff, w1)" "length buff = nat b" "obs w1 = (True, i, q, d)"
    using net_mallocE [OF upload_http [OF net]] v by metis
  have s1: "src w1 = p @ extra" using upload_keeps(6) [OF net, of "nat b" w] m(1) s by simp
  from send_loop_sends [OF net c m(3) s1 m(2) b, of 0] p(2)
  obtain w2 where "stream_send_loop E h s b (int (length p)) 0 buff w1 = Some (Inr (int (length p)), w2)" "obs w2 = (True, i, q @ p, d)"
    by auto
  then show ?thesis using m(1) n p(1) by (auto simp: send_stream_def b_def)
qed

lemma addHeader_keeps:
  "h_client (addHeader S h name v first repl) = h_client h \<and> base64Authorization (addHeader S h name v first repl) = base64Authorization h \<and>
   currentHeaders (addHeader S h name v first repl) = currentHeaders h"
  by (simp add: addHeader_def Let_def)


section \<open>A concrete upload\<close>

text \<open>The connection of \<open>demo_http\<close> together with a stream of bytes.\<close>

definition demo_upload :: "(demo \<times> byte list) http_env" where
  "demo_upload = \<lparr>
     strings = std_strings,
     x_connect = \<lambda>c host port t ((up, i, q, d), p). Some (3, (True, i, q, d), p),
     x_available = \<lambda>c ((up, i, q, d), p). Some (if up then int (length i) else 0, (up, i, q, d), p),
     x_connected = \<lambda>c ((up, i, q, d), p). Some (up, (up, i, q, d), p),
     x_read = \<lambda>c ((up, i, q, d), p). Some (uint (hd i), (up, tl i, q, d), p),
     x_stop = \<lambda>c ((up, i, q, d), p). Some ((False, [], q, d), p),
     x_write = \<lambda>c bs ((up, i, q, d), p). Some (word_of_nat (length bs), (up, i, q @ bs, d), p),
     x_setCACert = \<lambda>c a w. Some w, x_setCertificate = \<lambda>c a w. Some w, x_setPrivateKey = \<lambda>c a w. Some w,
     x_retain = \<lambda>c w. w, x_release = \<lambda>c w. w,
     new_TCPClient = \<lambda>w. (1, w), new_TCPClientSecure = \<lambda>w. (1, w),
     x_setTimeout = \<lambda>c t w. w,
     x_readStringUntil = \<lambda>c b ((up, i, q, d), p).
       Some (takeWhile (\<lambda>x. x \<noteq> b) i, (up, tl (dropWhile (\<lambda>x. x \<noteq> b) i), q, d), p),
     x_readBytes = \<lambda>c n ((up, i, q, d), p). Some (take n i, (up, drop n i, q, d), p),
     x_getWriteError = \<lambda>c w. 0, x_clearWriteError = \<lambda>c w. w,
     s_available = \<lambda>s (v, p). Some (int (length p), v, p),
     s_readBytes = \<lambda>s n (v, p). Some (take n p, v, drop n p),
     s_write = \<lambda>s bs ((up, i, q, d), p). Some (word_of_nat (length bs), (up, i, q, d @ bs), p),
     s_getWriteError = \<lambda>s w. 0, s_clearWriteError = \<lambda>s w. w,
     new_StreamString = \<lambda>w. (2, w), s_reserve = \<lambda>s n w. (True, w), s_text = \<lambda>s ((up, i, q, d), p). d,
     x_malloc = \<lambda>n w. (Some (replicate n 0), w), x_free = \<lambda>w. w, x_delay = \<lambda>n w. w,
     x_millis = \<lambda>w. (0, w), x_strlen = \<lambda>a w. Some a, x_long_max = INT_MAX, fembed_platform = False\<rparr>"

lemma demo_upload_net: "upload_net demo_upload 1 2 fst snd"
proof -
  have "http_net demo_upload 1 2 fst"
    by (auto simp: http_net_def net_reads_def net_writes_def quiet_calls_def demo_upload_def std_strings_ok takeWhile_line)
  then show ?thesis by (auto simp: upload_net_def stream_source_def demo_upload_def)
qed


end
