(* ===== verification/Ppp_Adapter.thy ===== *)
theory Ppp_Adapter
  imports Prelude
begin

text \<open>
  The adapters of lwIP's PPP and SNTP, \<open>src/PPPAdapter.cpp\<close>, \<open>src/SNTP.cpp\<close> and their
  headers. The PPP code runs in a task of its own and reports its status to the adapter
  through \<open>ppp_status_cb\<close>; the statuses that are reported while a call or a delay goes on
  are part of what the call gives.
\<close>

section \<open>The calls\<close>

datatype ppp_err = PPPERR_NONE | PPPERR_PARAM | PPPERR_OPEN | PPPERR_DEVICE | PPPERR_ALLOC | PPPERR_USER | PPPERR_CONNECT
  | PPPERR_AUTHFAIL | PPPERR_PROTOCOL | PPPERR_PEERDEAD | PPPERR_IDLETIMEOUT | PPPERR_CONNECTTIME | PPPERR_LOOPBACK
  | PPPERR_unknown int

type_synonym ip4 = "nat \<times> nat \<times> nat \<times> nat"

record ppp_netif =
  nif_ip_addr :: ip4
  nif_gw :: ip4
  nif_netmask :: ip4

text \<open>A control block is named by its address, 0 for \<open>NULL\<close>.\<close>

record 'w ppp =
  pppos_create :: "ppp_netif \<Rightarrow> 'w \<Rightarrow> nat \<times> 'w"
  ppp_close :: "nat \<Rightarrow> 'w \<Rightarrow> ppp_err list \<times> 'w"
  ppp_free :: "nat \<Rightarrow> 'w \<Rightarrow> 'w"
  ppp_set_default :: "nat \<Rightarrow> 'w \<Rightarrow> 'w"
  ppp_set_auth :: "nat \<Rightarrow> 'w \<Rightarrow> 'w"
  ppp_set_usepeerdns :: "nat \<Rightarrow> 'w \<Rightarrow> 'w"
  ppp_connect :: "nat \<Rightarrow> 'w \<Rightarrow> int \<times> ppp_err list \<times> 'w"
  pppos_input :: "nat \<Rightarrow> byte list \<Rightarrow> 'w \<Rightarrow> 'w"
  pppWrite :: "byte list \<Rightarrow> 'w \<Rightarrow> 32 word \<times> 'w"
  ppp_delay :: "nat \<Rightarrow> 'w \<Rightarrow> ppp_err list \<times> 'w"
  ppp_auth_support :: bool

section \<open>\<open>PPPAdapter\<close>\<close>

datatype PPPState = PPPState_Disconnected | PPPState_Connected | PPPState_Idle | PPPState_Uninit

record PPPAdapter =
  ppp_has_cb :: bool
  ppp_state :: PPPState
  ppp_pcb :: nat
  ppp_nif :: ppp_netif

text \<open>The constructor; \<open>a\<close> is the uninitialised memory.\<close>

definition PPPAdapter_new :: "PPPAdapter \<Rightarrow> bool \<Rightarrow> PPPAdapter" where
  "PPPAdapter_new a cb = a\<lparr>ppp_has_cb := cb, ppp_state := PPPState_Uninit, ppp_pcb := 0\<rparr>"

definition updatePPPState :: "PPPAdapter \<Rightarrow> PPPState \<Rightarrow> PPPAdapter" where
  "updatePPPState a s = a\<lparr>ppp_state := s\<rparr>"

definition ppp_status_cb :: "PPPAdapter \<Rightarrow> ppp_err \<Rightarrow> PPPAdapter" where
  "ppp_status_cb a err =
     (case err of
        PPPERR_NONE \<Rightarrow> updatePPPState a PPPState_Connected
      | PPPERR_USER \<Rightarrow> updatePPPState a PPPState_Disconnected
      | PPPERR_CONNECT \<Rightarrow> updatePPPState a PPPState_Disconnected
      | _ \<Rightarrow> a)"

definition ppp_report :: "PPPAdapter \<Rightarrow> ppp_err list \<Rightarrow> PPPAdapter" where
  "ppp_report a errs = foldl ppp_status_cb a errs"

definition ppp_write :: "'w ppp \<Rightarrow> PPPAdapter \<Rightarrow> byte list \<Rightarrow> 'w \<Rightarrow> 32 word \<times> 'w" where
  "ppp_write P a data w = (if ppp_has_cb a then pppWrite P data w else (0, w))"

definition ppp_output_callback :: "'w ppp \<Rightarrow> PPPAdapter \<Rightarrow> byte list \<Rightarrow> 'w \<Rightarrow> 32 word \<times> 'w" where
  "ppp_output_callback P a data w = ppp_write P a data w"

definition ppp_update :: "'w ppp \<Rightarrow> PPPAdapter \<Rightarrow> byte list \<Rightarrow> 'w \<Rightarrow> 'w" where
  "ppp_update P a data w = pppos_input P (ppp_pcb a) data w"

definition pppInit :: "'w ppp \<Rightarrow> PPPAdapter \<Rightarrow> 'w \<Rightarrow> bool \<times> PPPAdapter \<times> 'w" where
  "pppInit P a w =
     (let nif = \<lparr>nif_ip_addr = (192, 168, 4, 1), nif_gw = (192, 168, 4, 1), nif_netmask = (255, 255, 255, 0)\<rparr>;
          (pcb, w) = pppos_create P nif w
      in (pcb \<noteq> 0, a\<lparr>ppp_nif := nif, ppp_pcb := pcb\<rparr>, w))"

definition pppClose :: "'w ppp \<Rightarrow> PPPAdapter \<Rightarrow> 'w \<Rightarrow> bool \<times> PPPAdapter \<times> 'w" where
  "pppClose P a w =
     (if ppp_pcb a \<noteq> 0 then let (errs, w) = ppp_close P (ppp_pcb a) w in (True, ppp_report a errs, w) else (True, a, w))"

primrec wait_closed :: "'w ppp \<Rightarrow> nat \<Rightarrow> PPPAdapter \<Rightarrow> 'w \<Rightarrow> PPPAdapter \<times> 'w" where
  "wait_closed P 0 a w = (a, w)"
| "wait_closed P (Suc n) a w =
     (let (errs, w) = (if ppp_state a \<noteq> PPPState_Disconnected then ppp_delay P 1000 w else ([], w))
      in wait_closed P n (ppp_report a errs) w)"

definition pppCloseAndFree :: "'w ppp \<Rightarrow> PPPAdapter \<Rightarrow> 'w \<Rightarrow> bool \<times> PPPAdapter \<times> 'w" where
  "pppCloseAndFree P a w =
     (if ppp_pcb a \<noteq> 0 then
        let (errs, w) = ppp_close P (ppp_pcb a) w;
            (a, w) = wait_closed P 5 (ppp_report a errs) w;
            w = (if ppp_state a = PPPState_Disconnected then ppp_free P (ppp_pcb a) w else w)
        in (True, a\<lparr>ppp_pcb := 0\<rparr>, w)
      else (True, a, w))"

text \<open>\<open>ppp_set_usepeerdns\<close> stores into the control block.\<close>

definition pppNegotiation :: "'w ppp \<Rightarrow> PPPAdapter \<Rightarrow> 'w \<Rightarrow> (bool \<times> PPPAdapter \<times> 'w) option" where
  "pppNegotiation P a w =
     (let w = (if ppp_pcb a \<noteq> 0
               then let w = ppp_set_default P (ppp_pcb a) w
                    in if ppp_auth_support P then ppp_set_auth P (ppp_pcb a) w else w
               else w)
      in if ppp_pcb a = 0 then None
         else
           let (rc, errs, w) = ppp_connect P (ppp_pcb a) (ppp_set_usepeerdns P (ppp_pcb a) w)
           in Some (rc = 0, ppp_report a errs, w))"

definition udpateDNSServer :: "PPPAdapter \<Rightarrow> PPPAdapter" where
  "udpateDNSServer a = a"

section \<open>\<open>SNTP\<close>\<close>

record 'w sntp =
  sntp_setoperatingmode_poll :: "'w \<Rightarrow> 'w"
  sntp_init :: "'w \<Rightarrow> 'w"
  sntp_stop :: "'w \<Rightarrow> 'w"
  sntp_enabled :: "'w \<Rightarrow> int"
  sntp_setservername :: "8 word \<Rightarrow> nat \<Rightarrow> 'w \<Rightarrow> 'w"

definition SNTP_new :: "'w sntp \<Rightarrow> 'w \<Rightarrow> 'w" where
  "SNTP_new S w = sntp_setoperatingmode_poll S w"

definition SNTP_start :: "'w sntp \<Rightarrow> 'w \<Rightarrow> 'w" where
  "SNTP_start S w = sntp_init S w"

definition SNTP_stop :: "'w sntp \<Rightarrow> 'w \<Rightarrow> 'w" where
  "SNTP_stop S w = (if sntp_enabled S w \<noteq> 0 then sntp_stop S w else w)"

definition SNTP_isEnabled :: "'w sntp \<Rightarrow> 'w \<Rightarrow> bool" where
  "SNTP_isEnabled S w \<longleftrightarrow> sntp_enabled S w \<noteq> 0"

definition SNTP_setServerName :: "'w sntp \<Rightarrow> 8 word \<Rightarrow> nat \<Rightarrow> 'w \<Rightarrow> 'w" where
  "SNTP_setServerName S i name w = sntp_setservername S i name w"

section \<open>Who owns the control block\<close>

text \<open>PPP with the list of the control blocks that were created and not freed, and of
  the calls of \<open>ppp_free\<close> on a block that was not.\<close>

record ppp_books =
  pcbs :: "nat list"
  bad_free :: bool

definition booked :: "'w ppp \<Rightarrow> ('w \<times> ppp_books) ppp" where
  "booked P = \<lparr>
     pppos_create = \<lambda>n (w, b). let (c, w) = pppos_create P n w in (c, w, if c \<noteq> 0 then b\<lparr>pcbs := c # pcbs b\<rparr> else b),
     ppp_close = \<lambda>c (w, b). let (e, w) = ppp_close P c w in (e, w, b),
     ppp_free = \<lambda>c (w, b). (ppp_free P c w, b\<lparr>pcbs := remove1 c (pcbs b), bad_free := bad_free b \<or> c \<notin> set (pcbs b)\<rparr>),
     ppp_set_default = \<lambda>c (w, b). (ppp_set_default P c w, b),
     ppp_set_auth = \<lambda>c (w, b). (ppp_set_auth P c w, b),
     ppp_set_usepeerdns = \<lambda>c (w, b). (ppp_set_usepeerdns P c w, b),
     ppp_connect = \<lambda>c (w, b). let (r, e, w) = ppp_connect P c w in (r, e, w, b),
     pppos_input = \<lambda>c d (w, b). (pppos_input P c d w, b),
     pppWrite = \<lambda>d (w, b). let (r, w) = pppWrite P d w in (r, w, b),
     ppp_delay = \<lambda>n (w, b). let (e, w) = ppp_delay P n w in (e, w, b),
     ppp_auth_support = ppp_auth_support P\<rparr>"

text \<open>The states of an adapter that calls its methods in any order, with \<open>pppInit\<close> only
  when it has no control block.\<close>

inductive ppp_reach :: "'w ppp \<Rightarrow> PPPAdapter \<Rightarrow> 'w \<times> ppp_books \<Rightarrow> bool" for P where
  new: "ppp_reach P (PPPAdapter_new a cb) (w, \<lparr>pcbs = [], bad_free = False\<rparr>)"
| init: "ppp_reach P a v \<Longrightarrow> ppp_pcb a = 0 \<Longrightarrow> pppInit (booked P) a v = (ok, a', v') \<Longrightarrow> ppp_reach P a' v'"
| negotiation: "ppp_reach P a v \<Longrightarrow> pppNegotiation (booked P) a v = Some (ok, a', v') \<Longrightarrow> ppp_reach P a' v'"
| close: "ppp_reach P a v \<Longrightarrow> pppClose (booked P) a v = (ok, a', v') \<Longrightarrow> ppp_reach P a' v'"
| closeAndFree: "ppp_reach P a v \<Longrightarrow> pppCloseAndFree (booked P) a v = (ok, a', v') \<Longrightarrow> ppp_reach P a' v'"
| status: "ppp_reach P a v \<Longrightarrow> ppp_reach P (ppp_status_cb a err) v"
| sending: "ppp_reach P a v \<Longrightarrow> ppp_write (booked P) a data v = (n, v') \<Longrightarrow> ppp_reach P a v'"
| receiving: "ppp_reach P a v \<Longrightarrow> ppp_reach P a (ppp_update (booked P) a data v)"

lemma ppp_report_pcb [simp]: "ppp_pcb (ppp_report a errs) = ppp_pcb a"
  by (induction errs arbitrary: a) (auto simp: ppp_report_def ppp_status_cb_def updatePPPState_def split: ppp_err.splits)

lemma wait_closed_books: "wait_closed (booked P) n a (w, b) = (a', v') \<Longrightarrow> ppp_pcb a' = ppp_pcb a \<and> snd v' = b"
proof (induction n arbitrary: a w)
  case (Suc n)
  obtain e w1 where "(if ppp_state a \<noteq> PPPState_Disconnected then ppp_delay (booked P) 1000 (w, b) else ([], w, b)) = (e, w1, b)"
    by (cases "ppp_delay P 1000 w"; cases "ppp_state a = PPPState_Disconnected") (simp_all add: booked_def)
  with Suc.prems have "wait_closed (booked P) n (ppp_report a e) (w1, b) = (a', v')" by simp
  from Suc.IH [OF this] show ?case by simp
qed auto

definition owns_pcb :: "PPPAdapter \<Rightarrow> ppp_books \<Rightarrow> bool" where
  "owns_pcb a b \<longleftrightarrow> \<not> bad_free b \<and> (ppp_pcb a \<noteq> 0 \<longrightarrow> ppp_pcb a \<in> set (pcbs b))"

lemma ppp_frees_own_pcb:
  assumes "ppp_reach P a v"
  shows "owns_pcb a (snd v)"
  using assms
proof (induction rule: ppp_reach.induct)
  case (new a cb w)
  then show ?case by (simp add: owns_pcb_def PPPAdapter_new_def)
next
  case (init a v ok a' v')
  then show ?case by (cases v) (auto simp: owns_pcb_def pppInit_def booked_def Let_def split: prod.splits if_splits)
next
  case (negotiation a v ok a' v')
  then show ?case by (cases v) (auto simp: owns_pcb_def pppNegotiation_def booked_def Let_def split: prod.splits if_splits)
next
  case (close a v ok a' v')
  then show ?case by (cases v) (auto simp: owns_pcb_def pppClose_def booked_def Let_def split: prod.splits if_splits)
next
  case (closeAndFree a v ok a' v')
  obtain w b where v: "v = (w, b)" by (cases v)
  show ?case
  proof (cases "ppp_pcb a = 0")
    case True
    then show ?thesis using closeAndFree by (simp add: pppCloseAndFree_def)
  next
    case False
    obtain e w1 where c: "ppp_close (booked P) (ppp_pcb a) (w, b) = (e, w1, b)"
      by (cases "ppp_close P (ppp_pcb a) w") (simp add: booked_def)
    obtain a2 v2 where wc: "wait_closed (booked P) 5 (ppp_report a e) (w1, b) = (a2, v2)" by (rule prod.exhaust)
    from wait_closed_books [OF this] have "ppp_pcb a2 = ppp_pcb a" "snd v2 = b" by simp_all
    then show ?thesis
      using closeAndFree False c wc
      by (cases v2) (auto simp: v pppCloseAndFree_def owns_pcb_def booked_def Let_def split: if_splits)
  qed
next
  case (status a v err)
  then show ?case using ppp_report_pcb [of a "[err]"] by (simp add: owns_pcb_def ppp_report_def)
next
  case (sending a v data n v')
  then show ?case by (cases v) (auto simp: ppp_write_def booked_def split: prod.splits if_splits)
next
  case (receiving a v data)
  then show ?case by (cases v) (simp add: ppp_update_def booked_def)
qed

end
