(* ===== verification/Linux_Stack.thy ===== *)
theory Linux_Stack
  imports Cpp_Client FreeRTOS_Port Lwip_Tcp
begin

text \<open>
  The network and timer classes of the C++ client on Linux,
  \<open>paho/MQTTClient/src/linux/linux.cpp\<close>: \<open>IPStack\<close> over sockets and \<open>Countdown\<close> over
  \<open>gettimeofday\<close>. \<open>linux_env\<close> is the client's environment with these classes as its
  template arguments.
\<close>

section \<open>The calls\<close>

record 'w posix =
  px_getaddrinfo :: "byte list \<Rightarrow> 'w \<Rightarrow> int \<times> addrinfo list \<times> 'w"
  px_freeaddrinfo :: "addrinfo list \<Rightarrow> 'w \<Rightarrow> 'w"
  px_htons :: "16 word \<Rightarrow> 16 word"
  px_socket :: "'w \<Rightarrow> int \<times> 'w"
  px_connect :: "int \<Rightarrow> inet_addr_port \<Rightarrow> 'w \<Rightarrow> int \<times> 'w"
  px_rcvtimeo :: "int \<Rightarrow> tv \<Rightarrow> 'w \<Rightarrow> 'w"
  px_sndtimeo :: "int \<Rightarrow> tv \<Rightarrow> 'w \<Rightarrow> 'w"
  px_recv :: "int \<Rightarrow> int \<Rightarrow> 'w \<Rightarrow> int \<times> byte list \<times> 'w"
  px_would_block :: "'w \<Rightarrow> bool"
  px_write :: "int \<Rightarrow> byte list \<Rightarrow> 'w \<Rightarrow> int \<times> 'w"
  px_close :: "int \<Rightarrow> 'w \<Rightarrow> int \<times> 'w"
  px_gettimeofday :: "'w \<Rightarrow> tv \<times> 'w"

section \<open>\<open>IPStack\<close>\<close>

text \<open>\<open>address\<close> and \<open>rc\<close> of \<open>connect\<close>. An empty list is a null pointer that is
  dereferenced.\<close>

definition linux_resolve :: "'w posix \<Rightarrow> byte list \<Rightarrow> int \<Rightarrow> 'w \<Rightarrow> (int \<times> inet_addr_port \<times> 'w) option" where
  "linux_resolve P host port w =
     (let (rc, result, w) = px_getaddrinfo P host w
      in if rc \<noteq> 0 then Some (rc, no_address, w)
         else
           let chosen = (if skip_to_ipv4 result = [] then result else skip_to_ipv4 result)
           in case chosen of
                [] \<Rightarrow> None
              | a # as \<Rightarrow>
                  let w = px_freeaddrinfo P chosen w
                  in Some (if ai_family a = AF_INET4
                           then (0, \<lparr>ia_family = AF_INET4, ia_addr = ai_addr a, ia_port = px_htons P (word_of_int port)\<rparr>, w)
                           else (-1, no_address, w)))"

text \<open>The result and the socket: it stays as it was when the name is not resolved.\<close>

definition linux_connect :: "'w posix \<Rightarrow> int \<Rightarrow> byte list \<Rightarrow> int \<Rightarrow> 'w \<Rightarrow> (int \<times> int \<times> 'w) option" where
  "linux_connect P mysock host port w = do {
     (rc, address, w) \<leftarrow> linux_resolve P host port w;
     (if rc = 0 then
        let (mysock, w) = px_socket P w
        in if mysock \<noteq> -1 then let (rc, w) = px_connect P mysock address w in Some (rc, mysock, w)
           else Some (rc, mysock, w)
      else Some (rc, mysock, w)) }"

definition linux_interval :: "int \<Rightarrow> tv" where
  "linux_interval timeout_ms =
     (let s = timeout_ms sdiv 1000; u = (timeout_ms smod 1000) * 1000
      in if s < 0 \<or> s = 0 \<and> u \<le> 0 then (0, 100) else (s, u))"

text \<open>At most \<open>n\<close> calls of \<open>recv\<close>; \<open>bytes\<close> is negative after an error.\<close>

primrec linux_read_loop ::
  "'w posix \<Rightarrow> int \<Rightarrow> int \<Rightarrow> nat \<Rightarrow> int \<Rightarrow> byte list \<Rightarrow> 'w \<Rightarrow> (int \<times> byte list \<times> 'w) option" where
  "linux_read_loop P sock len 0 bytes stored w = Some (bytes, stored, w)"
| "linux_read_loop P sock len (Suc n) bytes stored w =
     (if \<not> bytes < len then Some (bytes, stored, w)
      else
        let (rc, bs, w) = px_recv P sock (len - bytes) w;
            stored = overlay stored (nat bytes) bs
        in if rc = -1 then Some (if px_would_block P w then bytes else -1, stored, w)
           else do {
             bytes \<leftarrow> cint (bytes + rc);
             (if rc = 0 then Some (bytes, stored, w) else linux_read_loop P sock len n bytes stored w) })"

definition linux_read :: "'w posix \<Rightarrow> int \<Rightarrow> int \<Rightarrow> int \<Rightarrow> 'w \<Rightarrow> (int \<times> byte list \<times> 'w) option" where
  "linux_read P mysock len timeout_ms w =
     linux_read_loop P mysock len 10 0 [] (px_rcvtimeo P mysock (linux_interval timeout_ms) w)"

text \<open>Writing \<open>len\<close> bytes of the buffer.\<close>

definition linux_write :: "'w posix \<Rightarrow> int \<Rightarrow> byte list \<Rightarrow> int \<Rightarrow> int \<Rightarrow> 'w \<Rightarrow> (int \<times> 'w) option" where
  "linux_write P mysock buf len timeout w = do {
     usec \<leftarrow> cint (timeout * 1000);
     let w = px_sndtimeo P mysock (0, usec) w;
     (if len < 0 \<or> length buf < nat len then None else Some (px_write P mysock (take (nat len) buf) w)) }"

definition linux_disconnect :: "'w posix \<Rightarrow> int \<Rightarrow> 'w \<Rightarrow> int \<times> 'w" where
  "linux_disconnect P mysock w = px_close P mysock w"

section \<open>\<open>Countdown\<close>\<close>

text \<open>The macros of \<open>sys/time.h\<close>.\<close>

definition timeradd :: "tv \<Rightarrow> tv \<Rightarrow> tv" where
  "timeradd a b =
     (let s = fst a + fst b; u = snd a + snd b in if u \<ge> 1000000 then (s + 1, u - 1000000) else (s, u))"

definition timersub :: "tv \<Rightarrow> tv \<Rightarrow> tv" where
  "timersub a b =
     (let s = fst a - fst b; u = snd a - snd b in if u < 0 then (s - 1, u + 1000000) else (s, u))"

definition linux_countdown_ms :: "'w posix \<Rightarrow> int \<Rightarrow> 'w \<Rightarrow> tv \<times> 'w" where
  "linux_countdown_ms P ms w =
     (let (now, w) = px_gettimeofday P w in (timeradd now (ms sdiv 1000, (ms smod 1000) * 1000), w))"

definition linux_countdown :: "'w posix \<Rightarrow> int \<Rightarrow> 'w \<Rightarrow> tv \<times> 'w" where
  "linux_countdown P seconds w = (let (now, w) = px_gettimeofday P w in (timeradd now (seconds, 0), w))"

definition linux_expired :: "'w posix \<Rightarrow> tv \<Rightarrow> 'w \<Rightarrow> bool \<times> 'w" where
  "linux_expired P end_time w =
     (let (now, w) = px_gettimeofday P w; res = timersub end_time now
      in (fst res < 0 \<or> fst res = 0 \<and> snd res \<le> 0, w))"

definition linux_left_ms :: "'w posix \<Rightarrow> tv \<Rightarrow> 'w \<Rightarrow> int \<times> 'w" where
  "linux_left_ms P end_time w =
     (let (now, w) = px_gettimeofday P w; res = timersub end_time now
      in (if fst res < 0 then 0 else fst res * 1000 + snd res sdiv 1000, w))"

section \<open>The template arguments\<close>

text \<open>The constructor without an argument leaves the time as it is in memory, here
  \<open>mem\<close>.\<close>

definition linux_env :: "'w posix \<Rightarrow> int \<Rightarrow> tv \<Rightarrow> ('w, tv) env \<Rightarrow> ('w, tv) env" where
  "linux_env P mysock mem E = E\<lparr>
     timer_new := \<lambda>w. (mem, w),
     timer_new_ms := \<lambda>ms w. linux_countdown_ms P ms w,
     countdown := \<lambda>t s w. linux_countdown P (sint s) w,
     countdown_ms := \<lambda>t ms w. linux_countdown_ms P (sint ms) w,
     expired := \<lambda>t w. (case linux_expired P t w of (b, w) \<Rightarrow> (b, t, w)),
     left_ms := \<lambda>t w. (case linux_left_ms P t w of (n, w) \<Rightarrow> (n, t, w)),
     net_read := \<lambda>w len timeout. linux_read P mysock len timeout w,
     net_write := \<lambda>w buf len timeout. linux_write P mysock buf len timeout w\<rparr>"

section \<open>Timers are deadlines\<close>

text \<open>\<open>gettimeofday\<close> gives a normal form of the time \<open>clock\<close>, in microseconds.\<close>

definition day_clock :: "'w posix \<Rightarrow> ('w \<Rightarrow> int) \<Rightarrow> bool" where
  "day_clock P clock \<longleftrightarrow>
     (\<forall>w. fst (px_gettimeofday P w) = (clock w div 1000000, clock w mod 1000000) \<and> 0 \<le> clock w)"

definition micros :: "tv \<Rightarrow> int" where
  "micros t = fst t * 1000000 + snd t"

definition tv_normal :: "tv \<Rightarrow> bool" where
  "tv_normal t \<longleftrightarrow> 0 \<le> snd t \<and> snd t < 1000000"

lemma timeradd_micros:
  assumes "tv_normal a" and "tv_normal b"
  shows "micros (timeradd a b) = micros a + micros b" and "tv_normal (timeradd a b)"
  using assms by (auto simp: timeradd_def micros_def tv_normal_def Let_def algebra_simps)

lemma timersub_micros:
  assumes "tv_normal a" and "tv_normal b"
  shows "micros (timersub a b) = micros a - micros b" and "tv_normal (timersub a b)"
  using assms by (auto simp: timersub_def micros_def tv_normal_def Let_def algebra_simps)

lemma clock_now:
  assumes "day_clock P clock"
  shows "micros (fst (px_gettimeofday P w)) = clock w" and "tv_normal (fst (px_gettimeofday P w))"
  using assms by (simp_all add: day_clock_def micros_def tv_normal_def)

lemma ms_interval:
  assumes "0 \<le> ms"
  shows "micros (ms sdiv 1000, (ms smod 1000) * 1000) = ms * 1000" and "tv_normal (ms sdiv 1000, (ms smod 1000) * 1000)"
proof -
  have m: "0 \<le> ms mod 1000" "ms mod 1000 < 1000" by simp_all
  show "micros (ms sdiv 1000, (ms smod 1000) * 1000) = ms * 1000"
    using assms by (simp add: micros_def sdiv_nonneg smod_nonneg) presburger
  show "tv_normal (ms sdiv 1000, (ms smod 1000) * 1000)"
    using assms m by (simp add: tv_normal_def sdiv_nonneg smod_nonneg)
qed

lemma normal_sign:
  assumes "tv_normal t"
  shows "fst t < 0 \<longleftrightarrow> micros t < 0" and "fst t < 0 \<or> fst t = 0 \<and> snd t \<le> 0 \<longleftrightarrow> micros t \<le> 0"
    and "\<not> fst t < 0 \<Longrightarrow> fst t * 1000 + snd t sdiv 1000 = micros t div 1000"
proof -
  show "fst t < 0 \<longleftrightarrow> micros t < 0" "fst t < 0 \<or> fst t = 0 \<and> snd t \<le> 0 \<longleftrightarrow> micros t \<le> 0"
    using assms by (auto simp: micros_def tv_normal_def)
  have "micros t div 1000 = fst t * 1000 + snd t div 1000"
    unfolding micros_def using div_mult_self3 [of 1000 "fst t * 1000" "snd t"] by (simp add: algebra_simps)
  then show "\<not> fst t < 0 \<Longrightarrow> fst t * 1000 + snd t sdiv 1000 = micros t div 1000"
    using assms by (simp add: tv_normal_def sdiv_nonneg)
qed

text \<open>The Linux timers are deadlines on the clock: a timer that was started for \<open>ms\<close>
  milliseconds has expired exactly when that time has passed, and the time left is what
  is missing, in whole milliseconds.\<close>
theorem linux_timers_are_deadlines:
  assumes clock: "day_clock P clock" and ms: "0 \<le> ms"
    and start: "linux_countdown_ms P ms w0 = (t, w1)"
  shows "fst (linux_expired P t w) = (clock w0 + ms * 1000 \<le> clock w) \<and>
    fst (linux_left_ms P t w) = (if clock w0 + ms * 1000 < clock w then 0 else (clock w0 + ms * 1000 - clock w) div 1000)"
proof -
  have t: "micros t = clock w0 + ms * 1000" "tv_normal t"
    using start timeradd_micros [OF clock_now(2) [OF clock] ms_interval(2) [OF ms], of w0] clock_now(1) [OF clock, of w0]
      ms_interval(1) [OF ms]
    by (auto simp: linux_countdown_ms_def split: prod.splits)
  define r where "r = timersub t (fst (px_gettimeofday P w))"
  have r: "micros r = clock w0 + ms * 1000 - clock w" "tv_normal r"
    using timersub_micros [OF t(2) clock_now(2) [OF clock], of w] clock_now(1) [OF clock, of w] t(1) by (simp_all add: r_def)
  have "fst (linux_expired P t w) = (fst r < 0 \<or> fst r = 0 \<and> snd r \<le> 0)"
    by (simp add: linux_expired_def r_def split_def Let_def)
  moreover have "fst (linux_left_ms P t w) = (if fst r < 0 then 0 else fst r * 1000 + snd r sdiv 1000)"
    by (simp add: linux_left_ms_def r_def split_def Let_def)
  ultimately show ?thesis using normal_sign [OF r(2)] r(1) by auto
qed

text \<open>A machine whose world is its clock.\<close>

definition demo_posix :: "int posix" where
  "demo_posix = \<lparr>
     px_getaddrinfo = \<lambda>h w. (0, [\<lparr>ai_family = AF_INET4, ai_addr = 1\<rparr>], w), px_freeaddrinfo = \<lambda>a w. w,
     px_htons = \<lambda>x. x, px_socket = \<lambda>w. (-1, w), px_connect = \<lambda>s a w. (0, w),
     px_rcvtimeo = \<lambda>s t w. w, px_sndtimeo = \<lambda>s t w. w, px_recv = \<lambda>s n w. (0, [], w), px_would_block = \<lambda>w. True,
     px_write = \<lambda>s bs w. (int (length bs), w), px_close = \<lambda>s w. (0, w),
     px_gettimeofday = \<lambda>w. ((abs w div 1000000, abs w mod 1000000), w)\<rparr>"

lemma linux_timers_are_deadlines_witness:
  "fst (linux_expired demo_posix (fst (linux_countdown_ms demo_posix 1500 7200000)) 8700000) = True \<and>
   fst (linux_left_ms demo_posix (fst (linux_countdown_ms demo_posix 1500 7200000)) 8000000) = 700"
proof -
  have c: "day_clock demo_posix abs" by (simp add: day_clock_def demo_posix_def)
  obtain t w where t: "linux_countdown_ms demo_posix 1500 7200000 = (t, w)" by (rule prod.exhaust)
  show ?thesis
    using linux_timers_are_deadlines [OF c _ t, of 8700000] linux_timers_are_deadlines [OF c _ t, of 8000000] t by simp
qed

section \<open>A connection without a socket\<close>

text \<open>When no socket can be made, \<open>connect\<close> returns 0, its code for success.\<close>

lemma linux_connect_without_socket:
  assumes "linux_resolve P host port w = Some (0, address, w1)" and "px_socket P w1 = (-1, w2)"
  shows "linux_connect P mysock host port w = Some (0, -1, w2)"
  using assms by (simp add: linux_connect_def)

end
