(* ===== verification/Arduino_Stack.thy ===== *)
theory Arduino_Stack
  imports Cpp_Client
begin

text \<open>
  The network and timer classes of the C++ client on Arduino and mbed:
  \<open>paho/MQTTClient/src/arduino/IPStack.h\<close>, \<open>WifiIPStack.h\<close>, \<open>Countdown.h\<close> and
  \<open>paho/MQTTClient/src/mbed/MQTTSocket.h\<close>, \<open>MQTTEthernet.h\<close>. The clients and sockets
  they wrap are parameters. An \<open>unsigned long\<close> has 32 bits.
\<close>

section \<open>\<open>IPStack\<close>\<close>

record 'w arduino =
  ac_connect :: "byte list \<Rightarrow> int \<Rightarrow> 'w \<Rightarrow> int \<times> 'w"
  ac_connect_ip :: "32 word \<Rightarrow> int \<Rightarrow> 'w \<Rightarrow> int \<times> 'w"
  ac_available :: "'w \<Rightarrow> int \<times> 'w"
  ac_readBytes :: "int \<Rightarrow> 'w \<Rightarrow> int \<times> byte list \<times> 'w"
  ac_write :: "byte list \<Rightarrow> 'w \<Rightarrow> int \<times> 'w"
  ac_setTimeout :: "int \<Rightarrow> 'w \<Rightarrow> 'w"
  ac_stop :: "'w \<Rightarrow> 'w"
  ac_delay :: "int \<Rightarrow> 'w \<Rightarrow> 'w"
  ac_millis :: "'w \<Rightarrow> 32 word \<times> 'w"

definition arduino_connect :: "'w arduino \<Rightarrow> byte list \<Rightarrow> int \<Rightarrow> 'w \<Rightarrow> int \<times> 'w" where
  "arduino_connect A host port w = ac_connect A host port w"

definition arduino_connect_ip :: "'w arduino \<Rightarrow> 32 word \<Rightarrow> int \<Rightarrow> 'w \<Rightarrow> int \<times> 'w" where
  "arduino_connect_ip A ip port w = ac_connect_ip A ip port w"

definition arduino_interval :: "int \<Rightarrow> int" where
  "arduino_interval timeout = (if timeout < 30 then 2 else 10)"

text \<open>Waiting for \<open>len\<close> bytes; the time waited grows in every round.\<close>

function arduino_wait :: "'w arduino \<Rightarrow> int \<Rightarrow> int \<Rightarrow> int \<Rightarrow> 'w \<Rightarrow> 'w" where
  "arduino_wait A len timeout waited w =
     (let (n, w) = ac_available A w
      in if n < len \<and> waited < timeout
         then arduino_wait A len timeout (waited + arduino_interval timeout) (ac_delay A (arduino_interval timeout) w)
         else w)"
  by pat_completeness auto
termination
  by (relation "measure (\<lambda>(A, len, timeout, waited, w). nat (timeout - waited))") (auto simp: arduino_interval_def)

definition arduino_read :: "'w arduino \<Rightarrow> int \<Rightarrow> int \<Rightarrow> 'w \<Rightarrow> int \<times> byte list \<times> 'w" where
  "arduino_read A len timeout w =
     (let w = arduino_wait A len timeout 0 w;
          (n, w) = ac_available A w
      in if n \<ge> len then ac_readBytes A len w else (0, [], w))"

text \<open>Writing \<open>len\<close> bytes of the buffer.\<close>

definition arduino_write :: "'w arduino \<Rightarrow> byte list \<Rightarrow> int \<Rightarrow> int \<Rightarrow> 'w \<Rightarrow> (int \<times> 'w) option" where
  "arduino_write A buf len timeout w =
     (if len < 0 \<or> length buf < nat len then None else Some (ac_write A (take (nat len) buf) (ac_setTimeout A timeout w)))"

definition arduino_disconnect :: "'w arduino \<Rightarrow> 'w \<Rightarrow> int \<times> 'w" where
  "arduino_disconnect A w = (0, ac_stop A w)"

section \<open>\<open>WifiIPStack\<close>\<close>

definition wifi_new :: "'w arduino \<Rightarrow> 'w \<Rightarrow> 'w" where
  "wifi_new A w = ac_setTimeout A 1000 w"

definition wifi_connect :: "'w arduino \<Rightarrow> byte list \<Rightarrow> int \<Rightarrow> 'w \<Rightarrow> int \<times> 'w" where
  "wifi_connect A host port w = ac_connect A host port w"

definition wifi_connect_ip :: "'w arduino \<Rightarrow> 32 word \<Rightarrow> int \<Rightarrow> 'w \<Rightarrow> int \<times> 'w" where
  "wifi_connect_ip A ip port w = ac_connect_ip A ip port w"

partial_function (option) wifi_wait :: "'w arduino \<Rightarrow> 'w \<Rightarrow> 'w option" where
  "wifi_wait A w = (let (n, w) = ac_available A w in if n \<noteq> 0 then Some w else wifi_wait A w)"

declare wifi_wait.simps [code]

definition wifi_read :: "'w arduino \<Rightarrow> int \<Rightarrow> int \<Rightarrow> 'w \<Rightarrow> (int \<times> byte list \<times> 'w) option" where
  "wifi_read A len timeout w = do {
     w \<leftarrow> wifi_wait A (ac_setTimeout A timeout w);
     Some (ac_readBytes A len w) }"

definition wifi_write :: "'w arduino \<Rightarrow> byte list \<Rightarrow> int \<Rightarrow> int \<Rightarrow> 'w \<Rightarrow> (int \<times> 'w) option" where
  "wifi_write A buf len timeout w =
     (if len < 0 \<or> length buf < nat len then None else Some (ac_write A (take (nat len) buf) (ac_setTimeout A timeout w)))"

definition wifi_disconnect :: "'w arduino \<Rightarrow> 'w \<Rightarrow> int \<times> 'w" where
  "wifi_disconnect A w = (0, ac_stop A w)"

section \<open>\<open>Countdown\<close>\<close>

text \<open>A timer is \<open>interval_end_ms\<close>.\<close>

definition arduino_countdown_ms :: "'w arduino \<Rightarrow> 32 word \<Rightarrow> 'w \<Rightarrow> 32 word \<times> 'w" where
  "arduino_countdown_ms A ms w = (let (now, w) = ac_millis A w in (now + ms, w))"

definition arduino_countdown_new :: "'w arduino \<Rightarrow> 'w \<Rightarrow> 32 word \<times> 'w" where
  "arduino_countdown_new A w = arduino_countdown_ms A 10000 w"

definition arduino_countdown_new_ms :: "'w arduino \<Rightarrow> int \<Rightarrow> 'w \<Rightarrow> 32 word \<times> 'w" where
  "arduino_countdown_new_ms A ms w = arduino_countdown_ms A (word_of_int ms) w"

definition arduino_countdown :: "'w arduino \<Rightarrow> int \<Rightarrow> 'w \<Rightarrow> 32 word \<times> 'w" where
  "arduino_countdown A seconds w = arduino_countdown_ms A (word_of_int seconds * 1000) w"

definition arduino_expired :: "'w arduino \<Rightarrow> 32 word \<Rightarrow> 'w \<Rightarrow> bool \<times> 'w" where
  "arduino_expired A t w =
     (if t \<noteq> 0 then let (now, w) = ac_millis A w in (\<not> (now < t \<and> t - now < 0x80000000), w) else (False, w))"

definition arduino_left_ms :: "'w arduino \<Rightarrow> 32 word \<Rightarrow> 'w \<Rightarrow> int \<times> 'w" where
  "arduino_left_ms A t w =
     (let (now, w) = ac_millis A w in (if now < t \<and> t - now < 0x80000000 then sint (t - now) else 0, w))"

section \<open>mbed\<close>

record 'w mbed =
  mb_set_blocking :: "bool \<Rightarrow> int \<Rightarrow> 'w \<Rightarrow> 'w"
  mb_connect :: "byte list \<Rightarrow> int \<Rightarrow> 'w \<Rightarrow> int \<times> 'w"
  mb_receive :: "int \<Rightarrow> 'w \<Rightarrow> int \<times> byte list \<times> 'w"
  mb_send :: "byte list \<Rightarrow> 'w \<Rightarrow> int \<times> 'w"
  mb_close :: "'w \<Rightarrow> int \<times> 'w"
  mb_eth_init :: "'w \<Rightarrow> 'w"
  mb_eth_connect :: "'w \<Rightarrow> 'w"

definition mbed_connect :: "'w mbed \<Rightarrow> byte list \<Rightarrow> int \<Rightarrow> int \<Rightarrow> 'w \<Rightarrow> int \<times> 'w" where
  "mbed_connect B host port timeout w = mb_connect B host port (mb_set_blocking B False timeout w)"

definition mbed_read :: "'w mbed \<Rightarrow> int \<Rightarrow> int \<Rightarrow> 'w \<Rightarrow> int \<times> byte list \<times> 'w" where
  "mbed_read B len timeout w = mb_receive B len (mb_set_blocking B False timeout w)"

definition mbed_write :: "'w mbed \<Rightarrow> byte list \<Rightarrow> int \<Rightarrow> int \<Rightarrow> 'w \<Rightarrow> (int \<times> 'w) option" where
  "mbed_write B buf len timeout w =
     (if len < 0 \<or> length buf < nat len then None
      else Some (mb_send B (take (nat len) buf) (mb_set_blocking B False timeout w)))"

definition mbed_disconnect :: "'w mbed \<Rightarrow> 'w \<Rightarrow> int \<times> 'w" where
  "mbed_disconnect B w = mb_close B w"

definition MQTTEthernet_new :: "'w mbed \<Rightarrow> 'w \<Rightarrow> 'w" where
  "MQTTEthernet_new B w = mb_eth_connect B (mb_eth_init B w)"

section \<open>The template arguments\<close>

definition arduino_env :: "'w arduino \<Rightarrow> ('w, 32 word) env \<Rightarrow> ('w, 32 word) env" where
  "arduino_env A E = E\<lparr>
     timer_new := \<lambda>w. arduino_countdown_new A w,
     timer_new_ms := \<lambda>ms w. arduino_countdown_new_ms A ms w,
     countdown := \<lambda>t s w. arduino_countdown A (sint s) w,
     countdown_ms := \<lambda>t ms w. arduino_countdown_ms A ms w,
     expired := \<lambda>t w. (case arduino_expired A t w of (b, w) \<Rightarrow> (b, t, w)),
     left_ms := \<lambda>t w. (case arduino_left_ms A t w of (n, w) \<Rightarrow> (n, t, w)),
     net_read := \<lambda>w len timeout. Some (arduino_read A len timeout w),
     net_write := \<lambda>w buf len timeout. arduino_write A buf len timeout w\<rparr>"

section \<open>The clock of 32 bits\<close>

text \<open>\<open>millis\<close> is the time \<open>clock\<close> in milliseconds, cut to 32 bits.\<close>

definition milli_clock :: "'w arduino \<Rightarrow> ('w \<Rightarrow> nat) \<Rightarrow> bool" where
  "milli_clock A clock \<longleftrightarrow> (\<forall>w. fst (ac_millis A w) = word_of_nat (clock w))"

lemma word_of_nat_small: "n < 2 ^ 32 \<Longrightarrow> unat (word_of_nat n :: 32 word) = n"
  by (simp add: unat_of_nat)

text \<open>C40: As long as the clock does not wrap before the deadline, an Arduino timer of less
  than 2^31 milliseconds is a deadline: it has expired exactly when the time has passed,
  and the time left is what is missing. A timer whose deadline lies behind the wrap of
  the clock has expired at once.\<close>
theorem arduino_timers:
  assumes clock: "milli_clock A clock" and ms: "unat ms < 2147483648" "0 < ms"
    and start: "arduino_countdown_ms A ms w0 = (t, w1)" and now: "clock w0 \<le> clock w" "clock w < 2 ^ 32"
  shows "if clock w0 + unat ms < 2 ^ 32
    then fst (arduino_expired A t w) = (clock w0 + unat ms \<le> clock w) \<and>
      fst (arduino_left_ms A t w) = int (clock w0 + unat ms - clock w)
    else clock w0 + unat ms \<noteq> 2 ^ 32 \<longrightarrow> fst (arduino_expired A t w) \<and> fst (arduino_left_ms A t w) = 0"
proof -
  have t: "t = word_of_nat (clock w0) + ms"
    using start clock unfolding arduino_countdown_ms_def milli_clock_def split_def Let_def by (metis fst_conv)
  have m: "fst (ac_millis A w) = word_of_nat (clock w)" using clock by (simp add: milli_clock_def)
  have ex: "fst (arduino_expired A t w) = (t \<noteq> 0 \<and> \<not> (word_of_nat (clock w) < t \<and> t - word_of_nat (clock w) < 0x80000000))"
    using m by (simp add: arduino_expired_def split_def Let_def)
  have le: "fst (arduino_left_ms A t w) =
      (if word_of_nat (clock w) < t \<and> t - word_of_nat (clock w) < 0x80000000 then sint (t - word_of_nat (clock w)) else 0)"
    using m by (simp add: arduino_left_ms_def split_def Let_def)
  have pos: "0 < unat ms" using ms(2) by (simp add: word_less_nat_alt)
  have c0: "unat (word_of_nat (clock w0) :: 32 word) = clock w0" "unat (word_of_nat (clock w) :: 32 word) = clock w"
    using now by (simp_all add: word_of_nat_small)
  have ut: "unat t = (clock w0 + unat ms) mod 2 ^ 32" unfolding t by (simp add: unat_word_ariths c0(1))
  show ?thesis
  proof (cases "clock w0 + unat ms < 2 ^ 32")
    case True
    then have ut: "unat t = clock w0 + unat ms" using ut by simp
    then have t0: "t \<noteq> 0" using pos by auto
    have lt: "word_of_nat (clock w) < t \<longleftrightarrow> clock w < clock w0 + unat ms" by (simp add: word_less_nat_alt ut c0(2))
    have d: "unat (t - word_of_nat (clock w)) = clock w0 + unat ms - clock w" if "clock w < clock w0 + unat ms"
      using that by (subst unat_sub) (simp_all add: word_le_nat_alt ut c0(2))
    have small: "t - word_of_nat (clock w) < 0x80000000" if "clock w < clock w0 + unat ms"
      using d [OF that] that ms(1) now(1) by (simp add: word_less_nat_alt)
    have si: "sint (t - word_of_nat (clock w)) = int (clock w0 + unat ms - clock w)" if "clock w < clock w0 + unat ms"
    proof -
      have "unat (t - word_of_nat (clock w)) < 2147483648" using small [OF that] by (simp add: word_less_nat_alt)
      then have "sint (t - word_of_nat (clock w)) = int (unat (t - word_of_nat (clock w)))"
        using int_of_size_small [of "unat (t - word_of_nat (clock w))"] by (simp add: int_of_size_def)
      with d [OF that] show ?thesis by simp
    qed
    show ?thesis using True ex le t0 lt small si by auto
  next
    case False
    have "clock w0 + unat ms < 2 * 2 ^ 32" using now ms(1) by simp
    then have ut: "unat t = clock w0 + unat ms - 2 ^ 32"
      using False ut by (simp add: mod_if)
    have "t \<noteq> 0" if "clock w0 + unat ms \<noteq> 2 ^ 32" using ut False that by auto
    moreover have "\<not> word_of_nat (clock w) < t" using ut now ms(1) by (simp add: word_less_nat_alt c0(2))
    ultimately show ?thesis using False ex le by simp
  qed
qed

definition demo_arduino :: "nat arduino" where
  "demo_arduino = \<lparr>
     ac_connect = \<lambda>h p w. (1, w), ac_connect_ip = \<lambda>h p w. (1, w), ac_available = \<lambda>w. (0, w),
     ac_readBytes = \<lambda>n w. (0, [], w), ac_write = \<lambda>bs w. (int (length bs), w), ac_setTimeout = \<lambda>t w. w,
     ac_stop = \<lambda>w. w, ac_delay = \<lambda>n w. w + nat n, ac_millis = \<lambda>w. (word_of_nat w, w)\<rparr>"

lemma arduino_timers_witness:
  "\<not> fst (arduino_expired demo_arduino (fst (arduino_countdown_ms demo_arduino 500 1000)) 1400) \<and>
   fst (arduino_left_ms demo_arduino (fst (arduino_countdown_ms demo_arduino 500 1000)) 1400) = 100 \<and>
   fst (arduino_expired demo_arduino (fst (arduino_countdown_ms demo_arduino 500 4294967000)) 4294967000)"
proof -
  have c: "milli_clock demo_arduino (\<lambda>w. w)" by (simp add: milli_clock_def demo_arduino_def)
  obtain t w where t: "arduino_countdown_ms demo_arduino 500 1000 = (t, w)" by (rule prod.exhaust)
  obtain t' w' where t': "arduino_countdown_ms demo_arduino 500 4294967000 = (t', w')" by (rule prod.exhaust)
  show ?thesis
    using arduino_timers [OF c _ _ t, of 1400] arduino_timers [OF c _ _ t', of 4294967000] t t' by simp
qed

end
