(* ===== verification/Packet_Poll.thy ===== *)
theory Packet_Poll
  imports Packet_Read
begin

text \<open>
  The resumable reader of \<open>paho/MQTTPacket/src/MQTTPacket.c\<close> on a transport that
  delivers anything. A state of the reader has a type, \<open>reader_typed\<close>: what its fields
  may be in each of its three states. A call of \<open>MQTTPacket_readnb\<close> in a typed state
  returns, and leaves a typed state (progress and preservation), so that a program that
  polls it is never outside its buffer.
\<close>

section \<open>The type of a state\<close>

definition reader_typed :: "int \<Rightarrow> MQTTTransport \<Rightarrow> bool" where
  "reader_typed buflen t \<longleftrightarrow>
     (if tr_state t = 2 then 0 < tr_len t \<and> 0 \<le> tr_rem_len t \<and> tr_len t + tr_rem_len t \<le> buflen
      else tr_state t = 1 \<longrightarrow> tr_len t = 0 \<or> dec_inv (tr_len t) (tr_multiplier t) (tr_rem_len t))"

text \<open>A read function that answers -1 or stores what it reports, and no more than asked.\<close>

definition polled :: "'w getfn \<Rightarrow> bool" where
  "polled g \<longleftrightarrow> (\<forall>w n. 0 < n \<longrightarrow> n \<le> INT_MAX \<longrightarrow>
     (\<exists>rc bs w'. g w n = Some (rc, bs, w') \<and> -1 \<le> rc \<and> rc \<le> n \<and> int (length bs) = max rc 0))"

lemma polledE:
  assumes "polled g" and "0 < n" and "n \<le> INT_MAX"
  obtains (none) w' where "g w n = Some (0, [], w')"
  | (failed) w' where "g w n = Some (-1, [], w')"
  | (some) bs w' where "g w n = Some (int (length bs), bs, w')" "bs \<noteq> []" "int (length bs) \<le> n"
proof -
  from assms obtain rc bs w' where g: "g w n = Some (rc, bs, w')" "-1 \<le> rc" "rc \<le> n" "int (length bs) = max rc 0"
    unfolding polled_def by meson
  show thesis
  proof (cases "0 < rc")
    case True
    with g some [of bs w'] show thesis by auto
  next
    case False
    with g have "rc = 0 \<or> rc = -1" "bs = []" by auto
    with g none [of w'] failed [of w'] show thesis by auto
  qed
qed

section \<open>Progress and preservation\<close>

lemma decodenb_typed:
  assumes "polled g" and "dec_inv (tr_len t) (tr_multiplier t) (tr_rem_len t)"
  shows "\<exists>rc t' w'. decodenb_loop g t w = Some (rc, t', w') \<and> tr_state t' = tr_state t \<and>
    dec_inv (tr_len t') (tr_multiplier t') (tr_rem_len t')"
  using assms(2)
proof (induction "nat (4 - tr_len t)" arbitrary: t w)
  case 0
  then have "4 \<le> tr_len t" by simp
  with 0 show ?case by (subst decodenb_loop.simps) (simp add: MAX_NO_OF_REMAINING_LENGTH_BYTES_def)
next
  case (Suc k)
  then have lt: "tr_len t < 4" by simp
  show ?case
  proof (rule polledE [OF assms(1), of 1 w])
    fix bs w' assume g: "g w 1 = Some (int (length bs), bs, w')" "bs \<noteq> []" "int (length bs) \<le> 1"
    then obtain c where c: "bs = [c]" by (cases bs) auto
    let ?t = "t\<lparr>tr_len := tr_len t + 1, tr_rem_len := tr_rem_len t + uint c mod 128 * tr_multiplier t,
        tr_multiplier := tr_multiplier t * 128\<rparr>"
    have inv: "dec_inv (tr_len ?t) (tr_multiplier ?t) (tr_rem_len ?t)"
      using dec_inv_step [OF Suc.prems lt, of "uint c mod 128"] by simp
    have "k = nat (4 - tr_len ?t)" using Suc.hyps(2) by simp
    from Suc.hyps(1) [OF this inv] g c inv show ?thesis
      by (cases "bit c 7") (auto simp: decodenb_step [OF Suc.prems lt] the_byte_def Let_def)
  qed (use Suc.prems in \<open>simp_all add: decodenb_step [OF Suc.prems lt] INT_MAX_def\<close>)
qed

lemma readnb_case2_typed:
  assumes "polled g" and "reader_typed buflen t" and "tr_state t = 2" and "buflen \<le> int (length buf)"
    and "buflen \<le> INT_MAX"
  shows "\<exists>rc buf' t' w'. readnb_case2 g buf t w = Some (rc, buf', t', w') \<and> length buf' = length buf \<and>
    reader_typed buflen t' \<and> -1 \<le> rc \<and> rc \<le> 15"
proof -
  have t: "0 < tr_len t" "0 \<le> tr_rem_len t" "tr_len t + tr_rem_len t \<le> buflen"
    using assms(2,3) by (simp_all add: reader_typed_def)
  have fin: "reader_typed buflen (t'\<lparr>tr_state := 0\<rparr>)" for t' by (simp add: reader_typed_def)
  have ld: "load b 0 = Some (b ! 0)" if "length b = length buf" for b
    using that t assms(4) by (auto simp: load_def)
  note range = order_trans [OF _ conjunct1 [OF header_type_range]] conjunct2 [OF header_type_range]
  show ?thesis
  proof (cases "tr_rem_len t = 0")
    case True
    then show ?thesis using ld [of buf] fin by (simp add: readnb_case2_def range)
  next
    case False
    then have pos: "0 < tr_rem_len t" and small: "tr_rem_len t \<le> INT_MAX" using t assms(5) by simp_all
    have nul: "blit buf (nat (tr_len t)) [] = Some buf"
      using t assms(4) by (simp add: blit_def put_Nil)
    show ?thesis
    proof (rule polledE [OF assms(1) pos small, of w])
      fix bs w' assume g: "g w (tr_rem_len t) = Some (int (length bs), bs, w')" "bs \<noteq> []" "int (length bs) \<le> tr_rem_len t"
      have "nat (tr_len t) + length bs \<le> length buf" using t g assms(4) by linarith
      then obtain b where b: "blit buf (nat (tr_len t)) bs = Some b" "length b = length buf"
        using blit_total by blast
      have c: "cint (tr_rem_len t - int (length bs)) = Some (tr_rem_len t - int (length bs))"
        "cint (tr_len t + int (length bs)) = Some (tr_len t + int (length bs))"
        using t g(3) assms(5) by (simp_all add: cint_def INT_MIN_def)
      have n: "int (length bs) \<noteq> 0" "int (length bs) \<noteq> -1" using g(2) by simp_all
      have u: "readnb_case2 g buf t w =
          (let t' = t\<lparr>tr_rem_len := tr_rem_len t - int (length bs), tr_len := tr_len t + int (length bs)\<rparr>
           in if tr_rem_len t' \<noteq> 0 then Some (0, b, t', w')
              else Some (uint (header_type (b ! 0)), b, t'\<lparr>tr_state := 0\<rparr>, w'))"
        using False n ld [OF b(2)] by (simp add: readnb_case2_def g(1) b(1) c Let_def)
      have "reader_typed buflen (t\<lparr>tr_rem_len := tr_rem_len t - int (length bs), tr_len := tr_len t + int (length bs)\<rparr>)"
        using t g(3) assms(3) by (simp add: reader_typed_def)
      with u b(2) fin show ?thesis by (simp add: Let_def range)
    qed (use False assms nul fin in \<open>auto simp: readnb_case2_def\<close>)
  qed
qed

lemma readnb_case1_typed:
  assumes "polled g" and "reader_typed buflen t" and "tr_state t = 1" and "buflen \<le> int (length buf)"
    and "buflen \<le> INT_MAX" and "5 \<le> length buf"
  shows "\<exists>rc buf' t' w'. readnb_case1 g buf buflen t w = Some (rc, buf', t', w') \<and> length buf' = length buf \<and>
    reader_typed buflen t' \<and> -1 \<le> rc \<and> rc \<le> 15"
proof -
  let ?t = "if tr_len t = 0 then t\<lparr>tr_multiplier := 1, tr_rem_len := 0\<rparr> else t"
  have "dec_inv (tr_len ?t) (tr_multiplier ?t) (tr_rem_len ?t)"
    using assms(2,3) dec_inv_init by (auto simp: reader_typed_def)
  moreover have "tr_state ?t = 1" using assms(3) by simp
  ultimately obtain rc t' w' where
    d: "MQTTPacket_decodenb g t w = Some (rc, t', w')" and t': "tr_state t' = 1"
    and inv: "dec_inv (tr_len t') (tr_multiplier t') (tr_rem_len t')"
    unfolding MQTTPacket_decodenb_def using decodenb_typed [OF assms(1), of ?t w] by metis
  note v = dec_inv_bounds [OF inv]
  let ?l = "length (enc_len (nat (tr_rem_len t')))"
  have l: "1 \<le> ?l" "?l \<le> 4" using v length_enc_len_pos by (simp_all add: length_enc_len nat_less_iff)
  obtain b where e: "MQTTPacket_encode buf 1 (tr_rem_len t') = Some (int ?l, b)" and b: "length b = length buf"
    using v l assms(6) by (auto simp: MQTTPacket_encode_put put_def)
  have c: "cint (tr_rem_len t' + (1 + int ?l)) = Some (tr_rem_len t' + (1 + int ?l))"
    using v l by (simp add: cint_def INT_MIN_def INT_MAX_def)
  consider "rc = MQTTPACKET_READ_ERROR \<or> rc = 0" | "rc \<noteq> MQTTPACKET_READ_ERROR" "rc \<noteq> 0" by auto
  then show ?thesis
  proof cases
    case 1
    then show ?thesis using d t' inv by (auto simp: readnb_case1_def reader_typed_def MQTTPACKET_READ_ERROR_def)
  next
    case 2
    let ?t' = "t'\<lparr>tr_len := 1 + int ?l, tr_state := 2\<rparr>"
    have u: "readnb_case1 g buf buflen t w =
        (if tr_rem_len t' + (1 + int ?l) > buflen
         then Some (-1, b, t'\<lparr>tr_len := 1 + int ?l, tr_state := 0\<rparr>, w') else readnb_case2 g b ?t' w')"
      using 2 t' by (simp add: readnb_case1_def d e [unfolded One_nat_def] c Let_def)
    show ?thesis
    proof (cases "tr_rem_len t' + (1 + int ?l) > buflen")
      case True
      then show ?thesis using u b by (simp add: reader_typed_def)
    next
      case False
      then have "reader_typed buflen ?t'" using v by (simp add: reader_typed_def)
      from readnb_case2_typed [OF assms(1) this _ _ assms(5), of b w'] False u b assms(4) show ?thesis by simp
    qed
  qed
qed

lemma readnb_typed:
  assumes "polled g" and "reader_typed buflen t" and "buflen \<le> int (length buf)"
    and "buflen \<le> INT_MAX" and "5 \<le> length buf"
  shows "\<exists>rc buf' t' w'. MQTTPacket_readnb g buf buflen t w = Some (rc, buf', t', w') \<and> length buf' = length buf \<and>
    reader_typed buflen t' \<and> -1 \<le> rc \<and> rc \<le> 15"
proof -
  consider "tr_state t = 2" | "tr_state t = 1" | "tr_state t \<noteq> 2" "tr_state t \<noteq> 1" by auto
  then show ?thesis
  proof cases
    case 1
    with readnb_case2_typed [OF assms(1,2) _ assms(3,4)] show ?thesis by (simp add: MQTTPacket_readnb_def)
  next
    case 2
    with readnb_case1_typed [OF assms(1,2) _ assms(3-5)] show ?thesis by (simp add: MQTTPacket_readnb_def)
  next
    case 3
    then have u: "MQTTPacket_readnb g buf buflen t w = readnb_case0 g buf buflen (t\<lparr>tr_state := 0\<rparr>) w"
      by (simp add: MQTTPacket_readnb_def)
    have nul: "blit buf 0 [] = Some buf" by (simp add: blit_def put_Nil)
    show ?thesis
    proof (rule polledE [OF assms(1), of 1 w])
      fix bs w' assume g: "g w 1 = Some (int (length bs), bs, w')" "bs \<noteq> []" "int (length bs) \<le> 1"
      obtain b where b: "blit buf 0 bs = Some b" "length b = length buf"
        using blit_total [of 0 bs buf] g(3) assms(5) by auto
      let ?t = "t\<lparr>tr_len := 0, tr_state := 1\<rparr>"
      have "int (length bs) \<noteq> -1" "int (length bs) \<noteq> 0" using g(2) by simp_all
      then have "MQTTPacket_readnb g buf buflen t w = readnb_case1 g b buflen ?t w'"
        using u by (simp add: readnb_case0_def g(1) b(1))
      moreover have "reader_typed buflen ?t" by (simp add: reader_typed_def)
      ultimately show ?thesis using readnb_case1_typed [OF assms(1), of buflen ?t b w'] b(2) assms(3-5) by simp
    qed (use u nul in \<open>simp_all add: readnb_case0_def reader_typed_def INT_MAX_def\<close>)
  qed
qed

end
