(* ===== verification/Serial_Line.thy ===== *)
theory Serial_Line
  imports Packet_Poll Text_Base
begin

text \<open>
  The transport of the bare metal samples,
  \<open>paho/MQTTPacket/samples/baremetalserial/transport.c\<close>, and the simulated serial line of
  \<open>pub0sub1_nb.c\<close> under it. The static variables of the transport are the record
  \<open>'w serial\<close>; \<open>from\<close>, a pointer into the packet, is an offset into the buffer that the
  caller keeps. A failed \<open>assert\<close> does not return.

  The lemmas show that a packet reaches the line whole and once, however the line cuts it,
  and that the simulated line is such a line.
\<close>

section \<open>The transport\<close>

text \<open>\<open>transport_iofunctions_t\<close>. \<open>send\<close> gets the memory from its address on and the number of
  bytes; \<open>recv\<close> gives its result and the bytes it stores.\<close>

record 'w iofunctions =
  io_send :: "(byte list \<Rightarrow> 32 word \<Rightarrow> 'w \<Rightarrow> (int \<times> 'w) option) option"
  io_recv :: "(32 word \<Rightarrow> 'w \<Rightarrow> (int \<times> byte list \<times> 'w) option) option"

record 'w serial =
  sl_io :: "'w iofunctions option"
  sl_from :: "nat option"
  sl_howmany :: int

definition TRANSPORT_DONE :: int where
  "TRANSPORT_DONE = 1"

definition TRANSPORT_AGAIN :: int where
  "TRANSPORT_AGAIN = 0"

definition TRANSPORT_ERROR :: int where
  "TRANSPORT_ERROR = -1"

definition sendPacketBuffernb_start :: "nat \<Rightarrow> int \<Rightarrow> 'w serial \<Rightarrow> 'w serial" where
  "sendPacketBuffernb_start buf buflen s = s\<lparr>sl_from := Some buf, sl_howmany := buflen\<rparr>"

definition sendPacketBuffernb :: "buffer \<Rightarrow> 'w serial \<Rightarrow> 'w \<Rightarrow> (int \<times> 'w serial \<times> 'w) option" where
  "sendPacketBuffernb mem s w = do {
     myio \<leftarrow> sl_io s;
     send \<leftarrow> io_send myio;
     p \<leftarrow> sl_from s;
     (len, w) \<leftarrow> send (drop p mem) (word_of_int (sl_howmany s)) w;
     (if len > 0 then
        if length mem < p + nat len then None
        else do {
          n \<leftarrow> cint (sl_howmany s - len);
          let s = s\<lparr>sl_from := Some (p + nat len), sl_howmany := n\<rparr>;
          Some (if n \<le> 0 then TRANSPORT_DONE else TRANSPORT_AGAIN, s, w) }
      else if len < 0 then Some (TRANSPORT_ERROR, s, w)
      else Some (TRANSPORT_AGAIN, s, w)) }"

partial_function (option) send_again :: "buffer \<Rightarrow> 'w serial \<Rightarrow> 'w \<Rightarrow> (int \<times> 'w serial \<times> 'w) option" where
  "send_again mem s w = do {
     (rc, s, w) \<leftarrow> sendPacketBuffernb mem s w;
     (if rc = TRANSPORT_AGAIN then send_again mem s w else Some (rc, s, w)) }"

declare send_again.simps [code]

definition sendPacketBuffer :: "buffer \<Rightarrow> int \<Rightarrow> 'w serial \<Rightarrow> 'w \<Rightarrow> (int \<times> 'w serial \<times> 'w) option" where
  "sendPacketBuffer mem buflen s w = do {
     (rc, s, w) \<leftarrow> send_again mem (sendPacketBuffernb_start 0 buflen s) w;
     Some (if rc = TRANSPORT_DONE then buflen else TRANSPORT_ERROR, s, w) }"

definition serial_getdata :: "int \<Rightarrow> 'w \<Rightarrow> (int \<times> byte list \<times> 'w) option" where
  "serial_getdata count w = None"

definition serial_getdatanb :: "'w serial \<Rightarrow> 'w getfn" where
  "serial_getdatanb s w count = do {
     myio \<leftarrow> sl_io s;
     recv \<leftarrow> io_recv myio;
     (len, bs, w) \<leftarrow> recv (word_of_int count) w;
     Some (if len \<ge> 0 then len else TRANSPORT_ERROR, bs, w) }"

definition serial_open :: "'w iofunctions option \<Rightarrow> 'w serial \<Rightarrow> int \<times> 'w serial" where
  "serial_open thisio s = (0, s\<lparr>sl_io := thisio\<rparr>)"

definition serial_close :: int where
  "serial_close = TRANSPORT_DONE"

section \<open>The simulated line\<close>

text \<open>The calls of the C library behind it; \<open>hs_connect\<close> gets the address and the port. \<open>toStop\<close> is set by a signal handler, so its
  value is a property of the world.\<close>

record 'w hostsys =
  hs_rand :: "'w \<Rightarrow> int \<times> 'w"
  hs_RAND_MAX :: int
  hs_socket :: "'w \<Rightarrow> int \<times> 'w"
  hs_connect :: "int \<Rightarrow> byte list \<Rightarrow> 16 word \<Rightarrow> 'w \<Rightarrow> int \<times> 'w"
  hs_nonblock :: "int \<Rightarrow> 'w \<Rightarrow> 'w"
  hs_write :: "int \<Rightarrow> byte list \<Rightarrow> 'w \<Rightarrow> int \<times> 'w"
  hs_read :: "int \<Rightarrow> nat \<Rightarrow> 'w \<Rightarrow> int \<times> byte list \<times> 'w"
  hs_eagain :: "'w \<Rightarrow> bool"
  hs_close :: "int \<Rightarrow> 'w \<Rightarrow> 'w"
  hs_time :: "'w \<Rightarrow> int \<times> 'w"
  toStop :: "'w \<Rightarrow> bool"

text \<open>\<open>Inl\<close> is the argument of \<open>exit\<close>.\<close>

definition sampleserial_init :: "'w hostsys \<Rightarrow> 'w \<Rightarrow> (int + int) \<times> 'w" where
  "sampleserial_init H w =
     (let (sockfd, w) = hs_socket H w
      in if sockfd < 0 then (Inl 2, w)
         else let (rc, w) = hs_connect H sockfd (ascii ''198.41.30.241'') 1883 w
              in if rc < 0 then (Inl (-1), w) else (Inr sockfd, hs_nonblock H sockfd w))"

definition sampleserial_close :: "'w hostsys \<Rightarrow> int \<Rightarrow> 'w \<Rightarrow> 'w" where
  "sampleserial_close H sockfd w = hs_close H sockfd w"

definition halved :: "'w hostsys \<Rightarrow> int \<Rightarrow> 32 word \<Rightarrow> 32 word" where
  "halved H r bytes = (if r > hs_RAND_MAX H sdiv 2 \<and> bytes > 1 then bytes div 2 else bytes)"

definition samplesend :: "'w hostsys \<Rightarrow> int \<Rightarrow> byte list \<Rightarrow> 32 word \<Rightarrow> 'w \<Rightarrow> (int \<times> 'w) option" where
  "samplesend H sockfd mem bytes w =
     (let (r, w) = hs_rand H w
      in if r > hs_RAND_MAX H sdiv 2 then Some (0, w)
         else
           let (r, w) = hs_rand H w;
               bytes = halved H r bytes
           in if length mem < unat bytes then None
              else let (len, w) = hs_write H sockfd (take (unat bytes) mem) w
                   in Some (if len \<ge> 0 then len else if hs_eagain H w then 0 else -1, w))"

definition samplerecv :: "'w hostsys \<Rightarrow> int \<Rightarrow> 32 word \<Rightarrow> 'w \<Rightarrow> (int \<times> byte list \<times> 'w) option" where
  "samplerecv H sockfd maxbytes w =
     (let (r, w) = hs_rand H w
      in if r > hs_RAND_MAX H sdiv 2 then Some (0, [], w)
         else
           let (r, w) = hs_rand H w;
               (len, bs, w) = hs_read H sockfd (unat (halved H r maxbytes)) w
           in Some (if len \<ge> 0 then len else if hs_eagain H w then 0 else -1, bs, w))"

definition iof :: "'w hostsys \<Rightarrow> int \<Rightarrow> 'w iofunctions" where
  "iof H sockfd = \<lparr>io_send = Some (samplesend H sockfd), io_recv = Some (samplerecv H sockfd)\<rparr>"

section \<open>A line that works\<close>

text \<open>What arrives is \<open>inp\<close>, what was sent is \<open>out\<close>. A call moves some bytes, or none because
  the line is busy, which happens at most \<open>busy\<close> times.\<close>

definition line_sends :: "(byte list \<Rightarrow> 32 word \<Rightarrow> 'w \<Rightarrow> (int \<times> 'w) option) \<Rightarrow>
   ('w \<Rightarrow> byte list) \<Rightarrow> ('w \<Rightarrow> byte list) \<Rightarrow> ('w \<Rightarrow> nat) \<Rightarrow> bool" where
  "line_sends send inp out busy \<longleftrightarrow>
     (\<forall>mem n w. 0 < unat n \<longrightarrow> unat n \<le> length mem \<longrightarrow>
        (\<exists>w'. send mem n w = Some (0, w') \<and> inp w' = inp w \<and> out w' = out w \<and> busy w' < busy w) \<or>
        (\<exists>k w'. send mem n w = Some (int k, w') \<and> 0 < k \<and> k \<le> unat n \<and> inp w' = inp w \<and>
           out w' = out w @ take k mem \<and> busy w' \<le> busy w))"

definition line_receives :: "(32 word \<Rightarrow> 'w \<Rightarrow> (int \<times> byte list \<times> 'w) option) \<Rightarrow>
   ('w \<Rightarrow> byte list) \<Rightarrow> ('w \<Rightarrow> byte list) \<Rightarrow> ('w \<Rightarrow> nat) \<Rightarrow> bool" where
  "line_receives recv inp out busy \<longleftrightarrow>
     (\<forall>n w r. recv n w = Some r \<longrightarrow> out (snd (snd r)) = out w) \<and>
     (\<forall>n w. 0 < unat n \<longrightarrow> inp w \<noteq> [] \<longrightarrow>
        (\<exists>w'. recv n w = Some (0, [], w') \<and> inp w' = inp w \<and> busy w' < busy w) \<or>
        (\<exists>w' xs ys. recv n w = Some (int (length xs), xs, w') \<and> inp w = xs @ ys \<and> inp w' = ys \<and>
           xs \<noteq> [] \<and> length xs \<le> unat n \<and> busy w' \<le> busy w))"

definition serial_port ::
  "'w iofunctions \<Rightarrow> ('w \<Rightarrow> byte list) \<Rightarrow> ('w \<Rightarrow> byte list) \<Rightarrow> ('w \<Rightarrow> nat) \<Rightarrow> bool" where
  "serial_port f inp out busy \<longleftrightarrow>
     (\<exists>send recv. io_send f = Some send \<and> io_recv f = Some recv \<and>
        line_sends send inp out busy \<and> line_receives recv inp out busy)"

text \<open>The state of the transport while bytes \<open>p\<close> to \<open>n\<close> of the buffer are still to be sent.\<close>

definition sending :: "'w iofunctions \<Rightarrow> buffer \<Rightarrow> nat \<Rightarrow> nat \<Rightarrow> 'w serial \<Rightarrow> bool" where
  "sending f mem p n s \<longleftrightarrow> sl_io s = Some f \<and> sl_from s = Some p \<and> sl_howmany s = int (n - p) \<and>
     p < n \<and> n \<le> length mem \<and> int n \<le> INT_MAX"

lemma sending_start:
  "sl_io s = Some f \<Longrightarrow> 0 < n \<Longrightarrow> n \<le> length mem \<Longrightarrow> int n \<le> INT_MAX \<Longrightarrow>
   sending f mem 0 n (sendPacketBuffernb_start 0 (int n) s)"
  by (simp add: sending_def sendPacketBuffernb_start_def)

lemma unat_count: "0 \<le> n \<Longrightarrow> n \<le> INT_MAX \<Longrightarrow> unat (word_of_int n :: 32 word) = nat n"
  by (simp add: unat_eq_nat_uint uint_word_of_int INT_MAX_def)

text \<open>One call of \<open>sendPacketBuffernb\<close> that moves \<open>k\<close> bytes.\<close>

lemma sending_count:
  "sending f mem p n s \<Longrightarrow> unat (word_of_int (int (n - p)) :: 32 word) = n - p"
  using unat_count [of "int (n - p)"] by (simp add: sending_def)

lemma sendPacketBuffernb_call:
  assumes s: "sending f mem p n s" and f: "io_send f = Some send"
    and r: "send (drop p mem) (word_of_int (int (n - p))) w = Some (int k, w')" and k: "0 < k" "k \<le> n - p"
  obtains (part) s' where "sendPacketBuffernb mem s w = Some (TRANSPORT_AGAIN, s', w')" "sending f mem (p + k) n s'"
  | (whole) s' where "sendPacketBuffernb mem s w = Some (TRANSPORT_DONE, s', w')" "sl_io s' = Some f" "n = p + k"
proof -
  have sl: "sl_io s = Some f" "sl_from s = Some p" "sl_howmany s = int (n - p)" and pn: "p < n" "n \<le> length mem"
    and small: "int n \<le> INT_MAX" using s by (auto simp: sending_def)
  let ?s = "s\<lparr>sl_from := Some (p + k), sl_howmany := int (n - p) - int k\<rparr>"
  have c: "cint (int (n - p) - int k) = Some (int (n - p) - int k)"
    using k(2) small by (simp add: cint_def INT_MIN_def)
  have mem: "\<not> length mem < p + k" using k(2) pn by simp
  have st: "sendPacketBuffernb mem s w =
      Some (if int (n - p) - int k \<le> 0 then TRANSPORT_DONE else TRANSPORT_AGAIN, ?s, w')"
    using r k(1) mem by (simp add: sendPacketBuffernb_def sl f c)
  show thesis
  proof (cases "k = n - p")
    case True
    show thesis by (rule whole [of ?s]) (use True st pn sl in simp_all)
  next
    case False
    then have ge: "\<not> int (n - p) - int k \<le> 0" and s': "sending f mem (p + k) n ?s"
      using k pn small sl by (auto simp: sending_def)
    have "sendPacketBuffernb mem s w = Some (TRANSPORT_AGAIN, ?s, w')" unfolding st using ge by (simp only: if_False)
    then show thesis using s' by (rule part)
  qed
qed

lemma take_slice: "take k (drop p mem) = drop p (take (p + k) mem)"
  by (simp add: take_drop add.commute)

lemma sendPacketBuffernb_step:
  assumes port: "serial_port f inp out busy" and s: "sending f mem p n s"
  obtains (again) w' where "sendPacketBuffernb mem s w = Some (TRANSPORT_AGAIN, s, w')"
      "inp w' = inp w" "out w' = out w" "busy w' < busy w"
  | (part) q s' w' where "sendPacketBuffernb mem s w = Some (TRANSPORT_AGAIN, s', w')" "sending f mem q n s'" "p < q"
      "inp w' = inp w" "out w' = out w @ drop p (take q mem)" "busy w' \<le> busy w"
  | (whole) s' w' where "sendPacketBuffernb mem s w = Some (TRANSPORT_DONE, s', w')" "sl_io s' = Some f"
      "inp w' = inp w" "out w' = out w @ drop p (take n mem)" "busy w' \<le> busy w"
proof -
  from port obtain send where f: "io_send f = Some send" and l: "line_sends send inp out busy"
    by (auto simp: serial_port_def)
  let ?n = "word_of_int (int (n - p)) :: 32 word"
  have "0 < unat ?n" "unat ?n \<le> length (drop p mem)"
    using s sending_count [OF s] by (auto simp: sending_def)
  from l [unfolded line_sends_def, rule_format, OF this, of w] sending_count [OF s]
  consider (a) w' where "send (drop p mem) ?n w = Some (0, w')" "inp w' = inp w" "out w' = out w" "busy w' < busy w"
    | (b) k w' where "send (drop p mem) ?n w = Some (int k, w')" "0 < k" "k \<le> n - p" "inp w' = inp w"
        "out w' = out w @ take k (drop p mem)" "busy w' \<le> busy w"
    by auto
  then show thesis
  proof cases
    case a
    moreover have "sl_io s = Some f" "sl_from s = Some p" "sl_howmany s = int (n - p)" using s by (simp_all add: sending_def)
    ultimately show thesis using again f by (simp add: sendPacketBuffernb_def)
  next
    case b
    show thesis
    proof (rule sendPacketBuffernb_call [OF s f b(1-3)])
      fix s' assume "sendPacketBuffernb mem s w = Some (TRANSPORT_AGAIN, s', w')" "sending f mem (p + k) n s'"
      with b show thesis by (intro part [of s' w' "p + k"]) (simp_all add: take_slice)
    next
      fix s' assume "sendPacketBuffernb mem s w = Some (TRANSPORT_DONE, s', w')" "sl_io s' = Some f" "n = p + k"
      with b show thesis by (intro whole [of s' w']) (simp_all add: take_slice)
    qed
  qed
qed

lemma drop_take_join:
  assumes "p \<le> q" and "q \<le> n"
  shows "drop p (take q xs) @ drop q (take n xs) = drop p (take n xs)"
proof (cases "q \<le> length xs")
  case True
  have "take n xs = take q xs @ drop q (take n xs)"
    using append_take_drop_id [of q "take n xs"] assms by (simp add: min_absorb1)
  then have "drop p (take n xs) = drop p (take q xs @ drop q (take n xs))" by (rule arg_cong)
  with True assms show ?thesis by simp
qed (use assms in simp)

lemma send_again_sends:
  assumes port: "serial_port f inp out busy" and s: "sending f mem p n s"
  shows "\<exists>s' w'. send_again mem s w = Some (TRANSPORT_DONE, s', w') \<and> sl_io s' = Some f \<and> inp w' = inp w \<and>
    out w' = out w @ drop p (take n mem) \<and> busy w' \<le> busy w"
  using s
proof (induction "busy w + (n - p)" arbitrary: s p w rule: less_induct)
  case less
  have pn: "p < n" using less.prems by (simp add: sending_def)
  show ?case
  proof (rule sendPacketBuffernb_step [OF port less.prems, of w])
    fix w' assume r: "sendPacketBuffernb mem s w = Some (TRANSPORT_AGAIN, s, w')"
      "inp w' = inp w" "out w' = out w" "busy w' < busy w"
    then have "busy w' + (n - p) < busy w + (n - p)" by simp
    from less.hyps [OF this less.prems] r show ?thesis by (subst send_again.simps) auto
  next
    fix s' w' q assume r: "sendPacketBuffernb mem s w = Some (TRANSPORT_AGAIN, s', w')" "sending f mem q n s'" "p < q"
      "inp w' = inp w" "out w' = out w @ drop p (take q mem)" "busy w' \<le> busy w"
    then have "busy w' + (n - q) < busy w + (n - p)" using pn by simp
    have q: "q \<le> n" using r(2) by (simp add: sending_def)
    have "drop p (take q mem) @ drop q (take n mem) = drop p (take n mem)"
      using q r(3) by (intro drop_take_join) simp_all
    with less.hyps [OF \<open>busy w' + (n - q) < _\<close> r(2)] r show ?thesis by (subst send_again.simps) auto
  next
    fix s' w' assume "sendPacketBuffernb mem s w = Some (TRANSPORT_DONE, s', w')" "sl_io s' = Some f"
      "inp w' = inp w" "out w' = out w @ drop p (take n mem)" "busy w' \<le> busy w"
    then show ?thesis by (subst send_again.simps) (simp add: TRANSPORT_DONE_def TRANSPORT_AGAIN_def)
  qed
qed

lemma sendPacketBuffer_sends:
  assumes "serial_port f inp out busy" and "sl_io s = Some f" and "0 < n" and "n \<le> length mem" and "int n \<le> INT_MAX"
  shows "\<exists>s' w'. sendPacketBuffer mem (int n) s w = Some (int n, s', w') \<and> sl_io s' = Some f \<and> inp w' = inp w \<and>
    out w' = out w @ take n mem \<and> busy w' \<le> busy w"
  using send_again_sends [OF assms(1) sending_start [OF assms(2-5)], of w] by (auto simp: sendPacketBuffer_def)

text \<open>The resumable reader is called on such a line.\<close>

lemma serial_source:
  assumes "serial_port f inp out busy" and "sl_io s = Some f"
  shows "nb_source (serial_getdatanb s) inp busy"
  unfolding nb_source_def
proof (intro allI impI)
  fix w and n :: int assume n: "0 < n" "n \<le> INT_MAX" "inp w \<noteq> []"
  from assms(1) obtain recv where f: "io_recv f = Some recv" "line_receives recv inp out busy"
    by (auto simp: serial_port_def)
  have u: "unat (word_of_int n :: 32 word) = nat n" using n by (simp add: unat_count)
  then have "0 < unat (word_of_int n :: 32 word)" using n by simp
  from conjunct2 [OF f(2) [unfolded line_receives_def], rule_format, OF this n(3)] u consider w' where "recv (word_of_int n) w = Some (0, [], w')" "inp w' = inp w" "busy w' < busy w"
    | w' xs ys where "recv (word_of_int n) w = Some (int (length xs), xs, w')" "inp w = xs @ ys" "inp w' = ys"
        "xs \<noteq> []" "length xs \<le> nat n" "busy w' \<le> busy w"
    by auto
  then show "(\<exists>w'. serial_getdatanb s w n = Some (0, [], w') \<and> inp w' = inp w \<and> busy w' < busy w) \<or>
      (\<exists>w' xs ys. serial_getdatanb s w n = Some (int (length xs), xs, w') \<and> inp w = xs @ ys \<and> inp w' = ys \<and>
         xs \<noteq> [] \<and> int (length xs) \<le> n \<and> busy w' \<le> busy w)"
    by cases (use n in \<open>simp_all add: serial_getdatanb_def assms(2) f(1)\<close>)
qed

lemma serial_quiet:
  assumes "serial_port f inp out busy" and "sl_io s = Some f"
  shows "rets (\<lambda>(rc, bs, w'). out w' = out w) (serial_getdatanb s w n)"
  using assms
  by (auto simp: rets_def serial_getdatanb_def serial_port_def line_receives_def bind_eq_Some_conv)

section \<open>The simulated line is one\<close>

text \<open>A socket that does not block, and random numbers that are not high for ever:
  \<open>busy\<close> counts the high ones and the refusals of the socket that are still to come.\<close>

definition host_link :: "'w hostsys \<Rightarrow> int \<Rightarrow> ('w \<Rightarrow> byte list) \<Rightarrow> ('w \<Rightarrow> byte list) \<Rightarrow> ('w \<Rightarrow> nat) \<Rightarrow> bool" where
  "host_link H fd inp out busy \<longleftrightarrow>
     (\<forall>w. inp (snd (hs_rand H w)) = inp w \<and> out (snd (hs_rand H w)) = out w \<and> busy (snd (hs_rand H w)) \<le> busy w \<and>
        (fst (hs_rand H w) > hs_RAND_MAX H sdiv 2 \<longrightarrow> busy (snd (hs_rand H w)) < busy w)) \<and>
     (\<forall>w bs. bs \<noteq> [] \<longrightarrow>
        (\<exists>w'. hs_write H fd bs w = (-1, w') \<and> hs_eagain H w' \<and> inp w' = inp w \<and> out w' = out w \<and> busy w' < busy w) \<or>
        (\<exists>k w'. hs_write H fd bs w = (int k, w') \<and> 0 < k \<and> k \<le> length bs \<and> inp w' = inp w \<and>
           out w' = out w @ take k bs \<and> busy w' \<le> busy w)) \<and>
     (\<forall>n w. out (snd (snd (hs_read H fd n w))) = out w) \<and>
     (\<forall>n w. 0 < n \<longrightarrow> inp w \<noteq> [] \<longrightarrow>
        (\<exists>w'. hs_read H fd n w = (-1, [], w') \<and> hs_eagain H w' \<and> inp w' = inp w \<and> busy w' < busy w) \<or>
        (\<exists>w' xs ys. hs_read H fd n w = (int (length xs), xs, w') \<and> inp w = xs @ ys \<and> inp w' = ys \<and>
           xs \<noteq> [] \<and> length xs \<le> n \<and> busy w' \<le> busy w))"

lemma host_rand:
  assumes "host_link H fd inp out busy" and "hs_rand H w = (r, w')"
  shows "inp w' = inp w" "out w' = out w" "busy w' \<le> busy w" "r > hs_RAND_MAX H sdiv 2 \<Longrightarrow> busy w' < busy w"
  using conjunct1 [OF assms(1) [unfolded host_link_def], rule_format, of w] assms(2) by auto

lemma halved_bounds:
  "unat (halved H r n) \<le> unat n" "0 < unat n \<Longrightarrow> 0 < unat (halved H r n)"
proof -
  have "unat (n div 2) = unat n div 2" by (simp add: unat_div)
  moreover have "1 < n \<longleftrightarrow> 1 < unat n" by (simp add: word_less_nat_alt)
  ultimately show "unat (halved H r n) \<le> unat n" "0 < unat n \<Longrightarrow> 0 < unat (halved H r n)"
    by (auto simp: halved_def)
qed

lemma samplesend_sends:
  assumes "host_link H fd inp out busy"
  shows "line_sends (samplesend H fd) inp out busy"
  unfolding line_sends_def
proof (intro allI impI)
  fix mem :: "byte list" and n :: "32 word" and w assume n: "0 < unat n" "unat n \<le> length mem"
  obtain r1 w1 where r1: "hs_rand H w = (r1, w1)" by (rule prod.exhaust)
  obtain r2 w2 where r2: "hs_rand H w1 = (r2, w2)" by (rule prod.exhaust)
  note q1 = host_rand [OF assms r1] and q2 = host_rand [OF assms r2]
  let ?m = "unat (halved H r2 n)"
  let ?bs = "take ?m mem"
  have m: "0 < ?m" "?m \<le> unat n" "?m \<le> length mem" using halved_bounds [where H = H and r = r2 and n = n] n by auto
  then have ne: "?bs \<noteq> []" by auto
  show "(\<exists>w'. samplesend H fd mem n w = Some (0, w') \<and> inp w' = inp w \<and> out w' = out w \<and> busy w' < busy w) \<or>
      (\<exists>k w'. samplesend H fd mem n w = Some (int k, w') \<and> 0 < k \<and> k \<le> unat n \<and> inp w' = inp w \<and>
         out w' = out w @ take k mem \<and> busy w' \<le> busy w)" (is "?busy \<or> ?some")
  proof (cases "r1 > hs_RAND_MAX H sdiv 2")
    case True
    then have ?busy using r1 q1 by (simp add: samplesend_def)
    then show ?thesis ..
  next
    case False
    from conjunct1 [OF conjunct2 [OF assms [unfolded host_link_def]], rule_format, OF ne, of w2]
    consider w' where "hs_write H fd ?bs w2 = (-1, w')" "hs_eagain H w'" "inp w' = inp w2" "out w' = out w2" "busy w' < busy w2"
      | k w' where "hs_write H fd ?bs w2 = (int k, w')" "0 < k" "k \<le> length ?bs" "inp w' = inp w2"
          "out w' = out w2 @ take k ?bs" "busy w' \<le> busy w2"
      by blast
    then show ?thesis
    proof cases
      case 1
      then have ?busy using False r1 r2 q1 q2 m by (simp add: samplesend_def Let_def)
      then show ?thesis ..
    next
      case 2
      have "samplesend H fd mem n w = Some (int k, w')" using 2(1) False r1 r2 m by (simp add: samplesend_def Let_def)
      moreover have "take k ?bs = take k mem" using 2(3) by (simp add: min_absorb1)
      ultimately have ?some using 2 q1 q2 m by (intro exI [of _ k] exI [of _ w'] conjI) simp_all
      then show ?thesis ..
    qed
  qed
qed

lemma samplerecv_receives:
  assumes "host_link H fd inp out busy"
  shows "line_receives (samplerecv H fd) inp out busy"
  unfolding line_receives_def
proof (intro conjI allI impI)
  fix n :: "32 word" and w r assume "samplerecv H fd n w = Some r"
  then show "out (snd (snd r)) = out w"
    using assms by (auto simp: samplerecv_def host_link_def Let_def split: prod.splits if_splits) (metis snd_conv)+
next
  fix n :: "32 word" and w assume n: "0 < unat n" "inp w \<noteq> []"
  obtain r1 w1 where r1: "hs_rand H w = (r1, w1)" by (rule prod.exhaust)
  obtain r2 w2 where r2: "hs_rand H w1 = (r2, w2)" by (rule prod.exhaust)
  note q1 = host_rand [OF assms r1] and q2 = host_rand [OF assms r2]
  let ?m = "unat (halved H r2 n)"
  have m: "0 < ?m" "?m \<le> unat n" using halved_bounds [where H = H and r = r2 and n = n] n by auto
  have ne: "inp w2 \<noteq> []" using n q1 q2 by simp
  show "(\<exists>w'. samplerecv H fd n w = Some (0, [], w') \<and> inp w' = inp w \<and> busy w' < busy w) \<or>
      (\<exists>w' xs ys. samplerecv H fd n w = Some (int (length xs), xs, w') \<and> inp w = xs @ ys \<and> inp w' = ys \<and>
         xs \<noteq> [] \<and> length xs \<le> unat n \<and> busy w' \<le> busy w)" (is "?busy \<or> ?some")
  proof (cases "r1 > hs_RAND_MAX H sdiv 2")
    case True
    then have ?busy using r1 q1 by (simp add: samplerecv_def)
    then show ?thesis ..
  next
    case False
    from conjunct2 [OF conjunct2 [OF conjunct2 [OF assms [unfolded host_link_def]]], rule_format, OF m(1) ne]
    consider w' where "hs_read H fd ?m w2 = (-1, [], w')" "hs_eagain H w'" "inp w' = inp w2" "busy w' < busy w2"
      | w' xs ys where "hs_read H fd ?m w2 = (int (length xs), xs, w')" "inp w2 = xs @ ys" "inp w' = ys" "xs \<noteq> []"
          "length xs \<le> ?m" "busy w' \<le> busy w2"
      by blast
    then show ?thesis
    proof cases
      case 1
      then have ?busy using False r1 r2 q1 q2 by (simp add: samplerecv_def Let_def)
      then show ?thesis ..
    next
      case 2
      then have ?some using False r1 r2 q1 q2 m
        by (intro exI [of _ w'] exI [of _ xs] exI [of _ ys] conjI) (simp_all add: samplerecv_def Let_def)
      then show ?thesis ..
    qed
  qed
qed

lemma iof_port: "host_link H fd inp out busy \<Longrightarrow> serial_port (iof H fd) inp out busy"
  using samplesend_sends samplerecv_receives by (fastforce simp: serial_port_def iof_def)

end
