(* ===== verification/Serial_Samples.thy ===== *)
theory Serial_Samples
  imports Serial_Line Packet_Connect Packet_Publish Packet_Subscribe Text_Base
begin

text \<open>
  The bare metal programs \<open>pub0sub1_nb.c\<close> and \<open>ping_nb.c\<close> of
  \<open>paho/MQTTPacket/samples/baremetalserial\<close>: a session over the serial transport, with a
  state machine as its main loop. The locals of \<open>main\<close> that the loop keeps are the record
  \<open>'w sample\<close>; what uninitialised locals hold is the parameter \<open>uninit\<close>. What the programs
  print is not modelled.

  One turn of a loop is a function of the configuration, and the loop iterates it until the
  process is told to stop or the turn jumps to \<open>exit\<close>. What the loops put on the line is
  proved in \<open>Serial_Runs\<close>, that every message is answered in \<open>Serial_Liveness\<close>, and that the
  second program is well typed whatever arrives in \<open>Serial_Types\<close>.
\<close>

section \<open>What the programs share\<close>

record 'w sample =
  sm_line :: "'w serial"
  sm_buf :: buffer
  sm_trp :: MQTTTransport

record uninit =
  un_buf :: buffer
  un_trp :: MQTTTransport
  un_connack :: connack_out
  un_suback :: suback_out
  un_publish :: publish_out
  un_char_signed :: bool

definition sample_buflen :: int where
  "sample_buflen = 200"

definition sample_string :: "byte list \<Rightarrow> MQTTString" where
  "sample_string s = MQTTString_initializer\<lparr>cstring := Some s\<rparr>"

definition serial_connect_data :: "16 word \<Rightarrow> MQTTPacket_connectData" where
  "serial_connect_data keepAliveInterval = MQTTPacket_connectData_initializer\<lparr>
     cd_clientID := sample_string (ascii ''me''),
     cd_keepAliveInterval := keepAliveInterval,
     cd_cleansession := 1,
     cd_username := sample_string (ascii ''testuser''),
     cd_password := sample_string (ascii ''testpassword'')\<rparr>"

definition serial_connect :: "16 word \<Rightarrow> 'w sample \<Rightarrow> 'w \<Rightarrow> ('w sample \<times> 'w) option" where
  "serial_connect keepAliveInterval st w = do {
     (len, buf) \<leftarrow> MQTTSerialize_connect (sm_buf st) sample_buflen (serial_connect_data keepAliveInterval);
     (rc, line, w) \<leftarrow> sendPacketBuffer buf len (sm_line st) w;
     Some (st\<lparr>sm_buf := buf, sm_line := line\<rparr>, w) }"

definition sample_readnb :: "'w sample \<Rightarrow> 'w \<Rightarrow> (int \<times> 'w sample \<times> 'w) option" where
  "sample_readnb st w = do {
     (rc, buf, trp, w) \<leftarrow> MQTTPacket_readnb (serial_getdatanb (sm_line st)) (sm_buf st) sample_buflen (sm_trp st) w;
     Some (rc, st\<lparr>sm_buf := buf, sm_trp := trp\<rparr>, w) }"

text \<open>\<open>False\<close> is the jump to \<open>exit\<close>.\<close>

partial_function (option) serial_await_connack ::
  "uninit \<Rightarrow> 'w sample \<Rightarrow> 'w \<Rightarrow> (bool \<times> 'w sample \<times> 'w) option" where
  "serial_await_connack un st w = do {
     (frc, st, w) \<leftarrow> sample_readnb st w;
     (if frc = uint (msg_code CONNACK) then do {
        (ok, out) \<leftarrow> MQTTDeserialize_connack (un_connack un) (sm_buf st) sample_buflen;
        Some (ok = 1 \<and> ca_rc out = 0, st, w) }
      else if frc = -1 then Some (False, st, w)
      else serial_await_connack un st w) }"

definition serial_disconnect :: "'w sample \<Rightarrow> 'w \<Rightarrow> ('w sample \<times> 'w) option" where
  "serial_disconnect st w = do {
     (len, buf) \<leftarrow> MQTTSerialize_disconnect (sm_buf st) sample_buflen;
     (rc, line, w) \<leftarrow> sendPacketBuffer buf len (sm_line st) w;
     Some (st\<lparr>sm_buf := buf, sm_line := line\<rparr>, w) }"

text \<open>The start of both programs and their label \<open>exit\<close>. The result is what the process
  returns.\<close>

definition serial_program ::
  "'w hostsys \<Rightarrow> uninit \<Rightarrow> ('w sample \<Rightarrow> 'w \<Rightarrow> (bool \<times> 'w sample \<times> 'w) option) \<Rightarrow> 'w \<Rightarrow> (int \<times> 'w) option" where
  "serial_program H un run w =
     (case sampleserial_init H w of
        (Inl code, w) \<Rightarrow> Some (code, w)
      | (Inr sockfd, w) \<Rightarrow>
          (case serial_open (Some (iof H sockfd)) \<lparr>sl_io = None, sl_from = None, sl_howmany = 0\<rparr> of (mysock, line) \<Rightarrow>
             if mysock < 0 then Some (mysock, w)
             else do {
               (ok, st, w) \<leftarrow> run \<lparr>sm_line = line, sm_buf = un_buf un, sm_trp = (un_trp un)\<lparr>tr_state := 0\<rparr>\<rparr> w;
               (st, w) \<leftarrow> (if ok then serial_disconnect st w else Some (st, w));
               Some (0, sampleserial_close H sockfd w) }))"

section \<open>\<open>pub0sub1_nb.c\<close>\<close>

text \<open>\<open>while ((rc = transport_sendPacketBuffernb(mysock)) != TRANSPORT_DONE);\<close>\<close>

partial_function (option) send_until_done :: "buffer \<Rightarrow> 'w serial \<Rightarrow> 'w \<Rightarrow> ('w serial \<times> 'w) option" where
  "send_until_done mem s w = do {
     (rc, s, w) \<leftarrow> sendPacketBuffernb mem s w;
     (if rc \<noteq> TRANSPORT_DONE then send_until_done mem s w else Some (s, w)) }"

definition serial_subscribe :: "'w sample \<Rightarrow> 'w \<Rightarrow> ('w sample \<times> 'w) option" where
  "serial_subscribe st w = do {
     (len, buf) \<leftarrow> MQTTSerialize_subscribe (sm_buf st) sample_buflen 0 1 1 [sample_string (ascii ''substopic'')] [0];
     (line, w) \<leftarrow> send_until_done buf (sendPacketBuffernb_start 0 len (sm_line st)) w;
     Some (st\<lparr>sm_buf := buf, sm_line := line\<rparr>, w) }"

partial_function (option) serial_await_suback ::
  "uninit \<Rightarrow> 'w sample \<Rightarrow> 'w \<Rightarrow> (bool \<times> 'w sample \<times> 'w) option" where
  "serial_await_suback un st w = do {
     (frc, st, w) \<leftarrow> sample_readnb st w;
     (if frc = uint (msg_code SUBACK) then do {
        (rc, out) \<leftarrow> MQTTDeserialize_suback (un_char_signed un) 1 (un_suback un) (sm_buf st) sample_buflen;
        granted_qos \<leftarrow> idx (sa_grantedQoSs out) 0;
        Some (granted_qos = 0, st, w) }
      else if frc = -1 then Some (False, st, w)
      else serial_await_suback un st w) }"

datatype pub_states = READING | PUBLISHING

definition pub_payload_text :: "byte list" where
  "pub_payload_text = ascii ''mypayload''"

text \<open>One turn of the loop. \<open>None\<close> in place of the state is the jump to \<open>exit\<close>.\<close>

definition pub_reading :: "uninit \<Rightarrow> 'w sample \<Rightarrow> 'w \<Rightarrow> (pub_states option \<times> 'w sample \<times> 'w) option" where
  "pub_reading un st w = do {
     (rc, st, w) \<leftarrow> sample_readnb st w;
     (if rc = uint (msg_code PUBLISH) then do {
        _ \<leftarrow> MQTTDeserialize_publish (un_publish un) (sm_buf st) sample_buflen;
        (len, buf) \<leftarrow> MQTTSerialize_publish (sm_buf st) sample_buflen 0 0 0 0 (sample_string (ascii ''pubtopic''))
          pub_payload_text (int_of_size (length pub_payload_text));
        Some (Some PUBLISHING, st\<lparr>sm_buf := buf, sm_line := sendPacketBuffernb_start 0 len (sm_line st)\<rparr>, w) }
      else Some (if rc = -1 then None else Some READING, st, w)) }"

definition pub_publishing :: "'w sample \<Rightarrow> 'w \<Rightarrow> (pub_states option \<times> 'w sample \<times> 'w) option" where
  "pub_publishing st w = do {
     (rc, line, w) \<leftarrow> sendPacketBuffernb (sm_buf st) (sm_line st) w;
     Some (if rc = TRANSPORT_DONE then Some READING else if rc = TRANSPORT_ERROR then None else Some PUBLISHING,
       st\<lparr>sm_line := line\<rparr>, w) }"

definition pub_turn :: "uninit \<Rightarrow> pub_states \<Rightarrow> 'w sample \<Rightarrow> 'w \<Rightarrow> (pub_states option \<times> 'w sample \<times> 'w) option" where
  "pub_turn un state st w = (case state of READING \<Rightarrow> pub_reading un st w | PUBLISHING \<Rightarrow> pub_publishing st w)"

partial_function (option) pub_loop ::
  "'w hostsys \<Rightarrow> uninit \<Rightarrow> pub_states \<Rightarrow> 'w sample \<Rightarrow> 'w \<Rightarrow> (bool \<times> 'w sample \<times> 'w) option" where
  "pub_loop H un state st w =
     (if toStop H w then Some (True, st, w)
      else do {
        (state, st, w) \<leftarrow> pub_turn un state st w;
        (case state of None \<Rightarrow> Some (False, st, w) | Some state \<Rightarrow> pub_loop H un state st w) })"

text \<open>Up to the loop.\<close>

definition pub_session :: "uninit \<Rightarrow> 'w sample \<Rightarrow> 'w \<Rightarrow> (bool \<times> 'w sample \<times> 'w) option" where
  "pub_session un st w = do {
     (st, w) \<leftarrow> serial_connect 20 st w;
     (ok, st, w) \<leftarrow> serial_await_connack un st w;
     (if \<not> ok then Some (False, st, w)
      else do {
        (st, w) \<leftarrow> serial_subscribe st w;
        serial_await_suback un st w }) }"

definition pub0sub1_nb_main :: "'w hostsys \<Rightarrow> uninit \<Rightarrow> 'w \<Rightarrow> (int \<times> 'w) option" where
  "pub0sub1_nb_main H un w = serial_program H un (\<lambda>st w. do {
     (ok, st, w) \<leftarrow> pub_session un st w;
     (if ok then pub_loop H un READING st w else Some (False, st, w)) }) w"

section \<open>\<open>ping_nb.c\<close>\<close>

datatype ping_states = IDLE | SENDPING | GETPONG

definition KEEPALIVE_INTERVAL :: int where
  "KEEPALIVE_INTERVAL = 20"

text \<open>The value of \<open>old_t\<close>.\<close>

definition start_ping_timer :: "'w hostsys \<Rightarrow> 'w \<Rightarrow> int \<times> 'w" where
  "start_ping_timer H w = (let (t, w) = hs_time H w in (t + (KEEPALIVE_INTERVAL sdiv 2 + 1), w))"

definition time_to_ping :: "'w hostsys \<Rightarrow> int \<Rightarrow> 'w \<Rightarrow> bool \<times> 'w" where
  "time_to_ping H old_t w = (let (t, w) = hs_time H w in (t \<ge> old_t, w))"

definition ping_idle :: "'w hostsys \<Rightarrow> int \<Rightarrow> 'w sample \<Rightarrow> 'w \<Rightarrow> (ping_states option \<times> int \<times> 'w sample \<times> 'w) option" where
  "ping_idle H old_t st w =
     (let (due, w) = time_to_ping H old_t w
      in if due then do {
           (len, buf) \<leftarrow> MQTTSerialize_pingreq (sm_buf st) sample_buflen;
           Some (Some SENDPING, old_t, st\<lparr>sm_buf := buf, sm_line := sendPacketBuffernb_start 0 len (sm_line st)\<rparr>, w) }
         else Some (Some IDLE, old_t, st, w))"

definition ping_sending :: "'w hostsys \<Rightarrow> int \<Rightarrow> 'w sample \<Rightarrow> 'w \<Rightarrow> (ping_states option \<times> int \<times> 'w sample \<times> 'w) option" where
  "ping_sending H old_t st w = do {
     (rc, line, w) \<leftarrow> sendPacketBuffernb (sm_buf st) (sm_line st) w;
     let st = st\<lparr>sm_line := line\<rparr>;
     Some (if rc = TRANSPORT_DONE then let (old_t, w) = start_ping_timer H w in (Some GETPONG, old_t, st, w)
           else (if rc = TRANSPORT_ERROR then None else Some SENDPING, old_t, st, w)) }"

definition ping_waiting :: "'w hostsys \<Rightarrow> int \<Rightarrow> 'w sample \<Rightarrow> 'w \<Rightarrow> (ping_states option \<times> int \<times> 'w sample \<times> 'w) option" where
  "ping_waiting H old_t st w = do {
     (rc, st, w) \<leftarrow> sample_readnb st w;
     Some (if rc = uint (msg_code PINGRESP) then let (old_t, w) = start_ping_timer H w in (Some IDLE, old_t, st, w)
           else (if rc = -1 then None else Some GETPONG, old_t, st, w)) }"

definition ping_turn ::
  "'w hostsys \<Rightarrow> ping_states \<Rightarrow> int \<Rightarrow> 'w sample \<Rightarrow> 'w \<Rightarrow> (ping_states option \<times> int \<times> 'w sample \<times> 'w) option" where
  "ping_turn H state old_t st w =
     (case state of IDLE \<Rightarrow> ping_idle H old_t st w
      | SENDPING \<Rightarrow> ping_sending H old_t st w
      | GETPONG \<Rightarrow> ping_waiting H old_t st w)"

partial_function (option) ping_loop ::
  "'w hostsys \<Rightarrow> ping_states \<Rightarrow> int \<Rightarrow> 'w sample \<Rightarrow> 'w \<Rightarrow> (bool \<times> 'w sample \<times> 'w) option" where
  "ping_loop H state old_t st w =
     (if toStop H w then Some (True, st, w)
      else do {
        (state, old_t, st, w) \<leftarrow> ping_turn H state old_t st w;
        (case state of None \<Rightarrow> Some (False, st, w) | Some state \<Rightarrow> ping_loop H state old_t st w) })"

definition ping_nb_main :: "'w hostsys \<Rightarrow> uninit \<Rightarrow> 'w \<Rightarrow> (int \<times> 'w) option" where
  "ping_nb_main H un w = serial_program H un (\<lambda>st w. do {
     (st, w) \<leftarrow> serial_connect (word_of_int KEEPALIVE_INTERVAL) st w;
     (ok, st, w) \<leftarrow> serial_await_connack un st w;
     (if \<not> ok then Some (False, st, w)
      else let (old_t, w) = start_ping_timer H w in ping_loop H IDLE old_t st w) }) w"

end
