(* ===== verification/Socket_Samples.thy ===== *)
theory Socket_Samples
  imports Serial_Samples
begin

text \<open>
  The socket transport of the samples, \<open>paho/MQTTPacket/samples/transport.c\<close> on Linux, and
  the programs over it: \<open>qos0pub.c\<close>, \<open>ping.c\<close>, \<open>ping_nb.c\<close>, \<open>pub0sub1.c\<close> and
  \<open>pub0sub1_nb.c\<close>. The calls of the system are a parameter; the static variable \<open>mysock\<close>
  is an argument and a result. \<open>toStop\<close>, which a signal handler sets, is a property of the
  world. What the programs print is not modelled.
\<close>

section \<open>The transport\<close>

record sock_addrinfo =
  sa_family :: int
  sa_inet :: "32 word"
  sa_inet6 :: "128 word"

datatype sock_address = Inet "32 word" "16 word" | Inet6 "128 word" "16 word"

record 'w sockets =
  so_getaddrinfo :: "byte list \<Rightarrow> 'w \<Rightarrow> int \<times> sock_addrinfo list \<times> 'w"
  so_freeaddrinfo :: "sock_addrinfo list \<Rightarrow> 'w \<Rightarrow> 'w"
  so_htons :: "16 word \<Rightarrow> 16 word"
  so_socket :: "int \<Rightarrow> 'w \<Rightarrow> int \<times> 'w"
  so_connect :: "int \<Rightarrow> sock_address \<Rightarrow> 'w \<Rightarrow> int \<times> 'w"
  so_rcvtimeo :: "int \<Rightarrow> int \<times> int \<Rightarrow> 'w \<Rightarrow> 'w"
  so_write :: "int \<Rightarrow> byte list \<Rightarrow> 'w \<Rightarrow> int \<times> 'w"
  so_recv :: "int \<Rightarrow> int \<Rightarrow> 'w \<Rightarrow> int \<times> byte list \<times> 'w"
  so_shutdown :: "int \<Rightarrow> 'w \<Rightarrow> 'w"
  so_close :: "int \<Rightarrow> 'w \<Rightarrow> int \<times> 'w"
  so_time :: "'w \<Rightarrow> int \<times> 'w"
  so_toStop :: "'w \<Rightarrow> bool"

definition AF_INET :: int where
  "AF_INET = 2"

definition AF_INET6 :: int where
  "AF_INET6 = 10"

definition sock_sendPacketBuffer :: "'w sockets \<Rightarrow> int \<Rightarrow> buffer \<Rightarrow> int \<Rightarrow> 'w \<Rightarrow> (int \<times> 'w) option" where
  "sock_sendPacketBuffer S sock buf buflen w =
     (if buflen < 0 \<or> length buf < nat buflen then None else Some (so_write S sock (take (nat buflen) buf) w))"

definition sock_getdata :: "'w sockets \<Rightarrow> int \<Rightarrow> 'w getfn" where
  "sock_getdata S mysock w count = Some (so_recv S mysock count w)"

definition sock_getdatanb :: "'w sockets \<Rightarrow> int \<Rightarrow> 'w getfn" where
  "sock_getdatanb S sock w count =
     (let (rc, bs, w) = so_recv S sock count w in Some (if rc = -1 then 0 else rc, bs, w))"

text \<open>The list from the first IPv4 address on, or the whole list.\<close>

definition prefer_inet :: "sock_addrinfo list \<Rightarrow> sock_addrinfo list" where
  "prefer_inet res =
     (let found = dropWhile (\<lambda>a. sa_family a \<noteq> AF_INET) res in if found = [] then res else found)"

text \<open>\<open>rc\<close> and the address. An empty list is a null pointer that is dereferenced.\<close>

definition sock_resolve ::
  "'w sockets \<Rightarrow> byte list \<Rightarrow> int \<Rightarrow> 'w \<Rightarrow> (int \<times> int \<times> sock_address option \<times> 'w) option" where
  "sock_resolve S addr port w =
     (let (rc, result, w) = so_getaddrinfo S addr w
      in if rc \<noteq> 0 then Some (rc, AF_INET, None, w)
         else case prefer_inet result of
                [] \<Rightarrow> None
              | a # as \<Rightarrow>
                  let p = so_htons S (word_of_int port);
                      w = so_freeaddrinfo S (a # as) w
                  in Some (if sa_family a = AF_INET6 then (0, AF_INET6, Some (Inet6 (sa_inet6 a) p), w)
                           else if sa_family a = AF_INET then (0, AF_INET, Some (Inet (sa_inet a) p), w)
                           else (-1, AF_INET, None, w)))"

text \<open>The result and \<open>mysock\<close>.\<close>

definition sock_open :: "'w sockets \<Rightarrow> byte list \<Rightarrow> int \<Rightarrow> 'w \<Rightarrow> (int \<times> int \<times> 'w) option" where
  "sock_open S addr port w = do {
     let addr = (case addr of c # cs \<Rightarrow> if c = 0x5B then cs else addr | [] \<Rightarrow> addr);
     (rc, family, address, w) \<leftarrow> sock_resolve S addr port w;
     let (rc, mysock, w) =
       (if rc = 0 then
          let (mysock, w) = so_socket S family w
          in if mysock \<noteq> -1 then
               case address of
                 None \<Rightarrow> (rc, mysock, w)
               | Some a \<Rightarrow> let (rc, w) = so_connect S mysock a w in (rc, mysock, w)
             else (rc, mysock, w)
        else (rc, -1, w));
     Some (if mysock = -1 then (rc, mysock, w) else (mysock, mysock, so_rcvtimeo S mysock (1, 0) w)) }"

definition sock_close :: "'w sockets \<Rightarrow> int \<Rightarrow> 'w \<Rightarrow> int \<times> 'w" where
  "sock_close S sock w =
     (let w = so_shutdown S sock w; (_, _, w) = so_recv S sock 0 w in so_close S sock w)"

section \<open>What the programs share\<close>

text \<open>The arguments of the command: a host and a port, with defaults.\<close>

definition sample_host :: "byte list list \<Rightarrow> byte list" where
  "sample_host argv = (if length argv > 1 then argv ! 1 else ascii ''m2m.eclipse.org'')"

definition sample_port :: "byte list list \<Rightarrow> int option" where
  "sample_port argv = (if length argv > 2 then atoi (argv ! 2) else Some 1883)"

text \<open>A packet that was serialized into the buffer, and its sending. \<open>rc\<close> of the sending is
  not looked at.\<close>

definition sock_send :: "'w sockets \<Rightarrow> int \<Rightarrow> (int \<times> buffer) option \<Rightarrow> 'w \<Rightarrow> (buffer \<times> 'w) option" where
  "sock_send S mysock serialized w = do {
     (len, buf) \<leftarrow> serialized;
     (rc, w) \<leftarrow> sock_sendPacketBuffer S mysock buf len w;
     Some (buf, w) }"

definition sock_connack :: "uninit \<Rightarrow> buffer \<Rightarrow> bool option" where
  "sock_connack un buf = do {
     (ok, out) \<leftarrow> MQTTDeserialize_connack (un_connack un) buf sample_buflen;
     Some (ok = 1 \<and> ca_rc out = 0) }"

definition sock_suback :: "uninit \<Rightarrow> buffer \<Rightarrow> bool option" where
  "sock_suback un buf = do {
     (rc, out) \<leftarrow> MQTTDeserialize_suback (un_char_signed un) 1 (un_suback un) buf sample_buflen;
     granted_qos \<leftarrow> idx (sa_grantedQoSs out) 0;
     Some (granted_qos = 0) }"

text \<open>Waiting for a packet of type \<open>t\<close> that \<open>accept\<close> looks at; \<open>False\<close> is the jump to
  \<open>exit\<close>. The first reads once, the second polls.\<close>

definition sock_await ::
  "'w sockets \<Rightarrow> int \<Rightarrow> msgTypes \<Rightarrow> (buffer \<Rightarrow> bool option) \<Rightarrow> buffer \<Rightarrow> 'w \<Rightarrow> (bool \<times> buffer \<times> 'w) option" where
  "sock_await S mysock t accept buf w = do {
     (rc, buf, w) \<leftarrow> MQTTPacket_read (sock_getdata S mysock) w buf sample_buflen;
     (if rc = uint (msg_code t) then do { ok \<leftarrow> accept buf; Some (ok, buf, w) }
      else Some (False, buf, w)) }"

partial_function (option) sock_poll ::
  "'w sockets \<Rightarrow> int \<Rightarrow> msgTypes \<Rightarrow> (buffer \<Rightarrow> bool option) \<Rightarrow> buffer \<Rightarrow> MQTTTransport \<Rightarrow> 'w \<Rightarrow>
   (bool \<times> buffer \<times> MQTTTransport \<times> 'w) option" where
  "sock_poll S mysock t accept buf trp w = do {
     (frc, buf, trp, w) \<leftarrow> MQTTPacket_readnb (sock_getdatanb S mysock) buf sample_buflen trp w;
     (if frc = uint (msg_code t) then do { ok \<leftarrow> accept buf; Some (ok, buf, trp, w) }
      else if frc = -1 then Some (False, buf, trp, w)
      else sock_poll S mysock t accept buf trp w) }"

text \<open>Opening at the start of every program, and closing at its end. The program keeps the
  result of \<open>transport_open\<close> to send and to close; \<open>transport_getdata\<close> reads from the
  static variable.\<close>

definition sock_program ::
  "'w sockets \<Rightarrow> byte list list \<Rightarrow> (int \<Rightarrow> int \<Rightarrow> 'w \<Rightarrow> 'w option) \<Rightarrow> 'w \<Rightarrow> (int \<times> 'w) option" where
  "sock_program S argv run w = do {
     port \<leftarrow> sample_port argv;
     (mysock, static, w) \<leftarrow> sock_open S (sample_host argv) port w;
     (if mysock < 0 then Some (mysock, w)
      else do { w \<leftarrow> run mysock static w; Some (0, snd (sock_close S mysock w)) }) }"

definition sock_disconnect :: "'w sockets \<Rightarrow> int \<Rightarrow> buffer \<Rightarrow> 'w \<Rightarrow> 'w option" where
  "sock_disconnect S mysock buf w = do {
     (buf, w) \<leftarrow> sock_send S mysock (MQTTSerialize_disconnect buf sample_buflen) w;
     Some w }"

section \<open>\<open>qos0pub.c\<close>\<close>

text \<open>Serializing at \<open>buf + len\<close>, with \<open>buflen - len\<close> bytes of room; the result is added to
  \<open>len\<close>.\<close>

definition append_packet ::
  "int \<times> buffer \<Rightarrow> (buffer \<Rightarrow> int \<Rightarrow> (int \<times> buffer) option) \<Rightarrow> (int \<times> buffer) option" where
  "append_packet lb serialize = (case lb of (len, buf) \<Rightarrow>
     if len < 0 \<or> length buf < nat len then None
     else do {
       (n, tail) \<leftarrow> serialize (drop (nat len) buf) (sample_buflen - len);
       len' \<leftarrow> cint (len + n);
       Some (len', take (nat len) buf @ tail) })"

definition qos0pub_packets :: "buffer \<Rightarrow> (int \<times> buffer) option" where
  "qos0pub_packets buf = do {
     lb \<leftarrow> MQTTSerialize_connect buf sample_buflen ((serial_connect_data 20)\<lparr>cd_MQTTVersion := 4\<rparr>);
     lb \<leftarrow> append_packet lb (\<lambda>b n. MQTTSerialize_publish b n 0 0 0 0 (sample_string (ascii ''mytopic''))
       pub_payload_text (int_of_size (length pub_payload_text)));
     append_packet lb MQTTSerialize_disconnect }"

definition qos0pub_main :: "'w sockets \<Rightarrow> uninit \<Rightarrow> byte list list \<Rightarrow> 'w \<Rightarrow> (int \<times> 'w) option" where
  "qos0pub_main S un argv w = sock_program S argv (\<lambda>mysock static w. do {
     (buf, w) \<leftarrow> sock_send S mysock (qos0pub_packets (un_buf un)) w;
     Some w }) w"

section \<open>\<open>ping.c\<close> and \<open>ping_nb.c\<close>\<close>

definition sock_start_ping :: "'w sockets \<Rightarrow> 'w \<Rightarrow> int \<times> 'w" where
  "sock_start_ping S w = (let (t, w) = so_time S w in (t + (KEEPALIVE_INTERVAL sdiv 2 + 1), w))"

definition sock_time_to_ping :: "'w sockets \<Rightarrow> int \<Rightarrow> 'w \<Rightarrow> bool \<times> 'w" where
  "sock_time_to_ping S old_t w = (let (t, w) = so_time S w in (t \<ge> old_t, w))"

partial_function (option) sock_wait_ping :: "'w sockets \<Rightarrow> int \<Rightarrow> 'w \<Rightarrow> 'w option" where
  "sock_wait_ping S old_t w =
     (let (due, w) = sock_time_to_ping S old_t w in if due then Some w else sock_wait_ping S old_t w)"

partial_function (option) sock_ping_loop ::
  "'w sockets \<Rightarrow> int \<Rightarrow> int \<Rightarrow> int \<Rightarrow> buffer \<Rightarrow> 'w \<Rightarrow> (bool \<times> buffer \<times> 'w) option" where
  "sock_ping_loop S mysock static old_t buf w =
     (if so_toStop S w then Some (True, buf, w)
      else do {
        w \<leftarrow> sock_wait_ping S old_t w;
        (buf, w) \<leftarrow> sock_send S mysock (MQTTSerialize_pingreq buf sample_buflen) w;
        (rc, buf, w) \<leftarrow> MQTTPacket_read (sock_getdata S static) w buf sample_buflen;
        (if rc = uint (msg_code PINGRESP) then
           let (old_t, w) = sock_start_ping S w in sock_ping_loop S mysock static old_t buf w
         else Some (False, buf, w)) })"

definition ping_main :: "'w sockets \<Rightarrow> uninit \<Rightarrow> byte list list \<Rightarrow> 'w \<Rightarrow> (int \<times> 'w) option" where
  "ping_main S un argv w = sock_program S argv (\<lambda>mysock static w. do {
     (buf, w) \<leftarrow> sock_send S mysock (MQTTSerialize_connect (un_buf un) sample_buflen
       (serial_connect_data (word_of_int KEEPALIVE_INTERVAL))) w;
     (ok, buf, w) \<leftarrow> sock_await S static CONNACK (sock_connack un) buf w;
     (if \<not> ok then Some w
      else do {
        let (old_t, w) = sock_start_ping S w;
        (ok, buf, w) \<leftarrow> sock_ping_loop S mysock static old_t buf w;
        (if ok then sock_disconnect S mysock buf w else Some w) }) }) w"

datatype sock_ping_states = SOCK_IDLE | SOCK_GETPONG

definition sock_ping_turn ::
  "'w sockets \<Rightarrow> int \<Rightarrow> sock_ping_states \<Rightarrow> int \<Rightarrow> buffer \<Rightarrow> MQTTTransport \<Rightarrow> 'w \<Rightarrow>
   (sock_ping_states option \<times> int \<times> buffer \<times> MQTTTransport \<times> 'w) option" where
  "sock_ping_turn S mysock state old_t buf trp w =
     (case state of
        SOCK_IDLE \<Rightarrow>
          let (due, w) = sock_time_to_ping S old_t w
          in if due then do {
               (buf, w) \<leftarrow> sock_send S mysock (MQTTSerialize_pingreq buf sample_buflen) w;
               Some (Some SOCK_GETPONG, old_t, buf, trp, w) }
             else Some (Some SOCK_IDLE, old_t, buf, trp, w)
      | SOCK_GETPONG \<Rightarrow> do {
          (rc, buf, trp, w) \<leftarrow> MQTTPacket_readnb (sock_getdatanb S mysock) buf sample_buflen trp w;
          Some (if rc = uint (msg_code PINGRESP)
                then let (old_t, w) = sock_start_ping S w in (Some SOCK_IDLE, old_t, buf, trp, w)
                else (if rc = -1 then None else Some SOCK_GETPONG, old_t, buf, trp, w)) })"

partial_function (option) sock_ping_nb_loop ::
  "'w sockets \<Rightarrow> int \<Rightarrow> sock_ping_states \<Rightarrow> int \<Rightarrow> buffer \<Rightarrow> MQTTTransport \<Rightarrow> 'w \<Rightarrow> (bool \<times> buffer \<times> 'w) option" where
  "sock_ping_nb_loop S mysock state old_t buf trp w =
     (if so_toStop S w then Some (True, buf, w)
      else do {
        (state, old_t, buf, trp, w) \<leftarrow> sock_ping_turn S mysock state old_t buf trp w;
        (case state of None \<Rightarrow> Some (False, buf, w)
         | Some state \<Rightarrow> sock_ping_nb_loop S mysock state old_t buf trp w) })"

definition sock_ping_nb_main :: "'w sockets \<Rightarrow> uninit \<Rightarrow> byte list list \<Rightarrow> 'w \<Rightarrow> (int \<times> 'w) option" where
  "sock_ping_nb_main S un argv w = sock_program S argv (\<lambda>mysock static w. do {
     (buf, w) \<leftarrow> sock_send S mysock (MQTTSerialize_connect (un_buf un) sample_buflen
       (serial_connect_data (word_of_int KEEPALIVE_INTERVAL))) w;
     (ok, buf, trp, w) \<leftarrow> sock_poll S mysock CONNACK (sock_connack un) buf ((un_trp un)\<lparr>tr_state := 0\<rparr>) w;
     (if \<not> ok then Some w
      else do {
        let (old_t, w) = sock_start_ping S w;
        (ok, buf, w) \<leftarrow> sock_ping_nb_loop S mysock SOCK_IDLE old_t buf trp w;
        (if ok then sock_disconnect S mysock buf w else Some w) }) }) w"

section \<open>\<open>pub0sub1.c\<close> and \<open>pub0sub1_nb.c\<close>\<close>

definition sock_subscribe :: "'w sockets \<Rightarrow> int \<Rightarrow> buffer \<Rightarrow> 'w \<Rightarrow> (buffer \<times> 'w) option" where
  "sock_subscribe S mysock buf w =
     sock_send S mysock (MQTTSerialize_subscribe buf sample_buflen 0 1 1 [sample_string (ascii ''substopic'')] [0]) w"

definition sock_publish :: "'w sockets \<Rightarrow> int \<Rightarrow> buffer \<Rightarrow> 'w \<Rightarrow> (buffer \<times> 'w) option" where
  "sock_publish S mysock buf w =
     sock_send S mysock (MQTTSerialize_publish buf sample_buflen 0 0 0 0 (sample_string (ascii ''pubtopic''))
       pub_payload_text (int_of_size (length pub_payload_text))) w"

partial_function (option) sock_pub_loop ::
  "'w sockets \<Rightarrow> uninit \<Rightarrow> int \<Rightarrow> int \<Rightarrow> buffer \<Rightarrow> 'w \<Rightarrow> (buffer \<times> 'w) option" where
  "sock_pub_loop S un mysock static buf w =
     (if so_toStop S w then Some (buf, w)
      else do {
        (rc, buf, w) \<leftarrow> MQTTPacket_read (sock_getdata S static) w buf sample_buflen;
        _ \<leftarrow> (if rc = uint (msg_code PUBLISH)
             then do { _ \<leftarrow> MQTTDeserialize_publish (un_publish un) buf sample_buflen; Some () } else Some ());
        (buf, w) \<leftarrow> sock_publish S mysock buf w;
        sock_pub_loop S un mysock static buf w })"

definition pub0sub1_main :: "'w sockets \<Rightarrow> uninit \<Rightarrow> byte list list \<Rightarrow> 'w \<Rightarrow> (int \<times> 'w) option" where
  "pub0sub1_main S un argv w = sock_program S argv (\<lambda>mysock static w. do {
     (buf, w) \<leftarrow> sock_send S mysock (MQTTSerialize_connect (un_buf un) sample_buflen (serial_connect_data 20)) w;
     (ok, buf, w) \<leftarrow> sock_await S static CONNACK (sock_connack un) buf w;
     (if \<not> ok then Some w
      else do {
        (buf, w) \<leftarrow> sock_subscribe S mysock buf w;
        (ok, buf, w) \<leftarrow> sock_await S static SUBACK (sock_suback un) buf w;
        (if \<not> ok then Some w
         else do {
           (buf, w) \<leftarrow> sock_pub_loop S un mysock static buf w;
           sock_disconnect S mysock buf w }) }) }) w"

partial_function (option) sock_pub_nb_loop ::
  "'w sockets \<Rightarrow> uninit \<Rightarrow> int \<Rightarrow> buffer \<Rightarrow> MQTTTransport \<Rightarrow> 'w \<Rightarrow> (buffer \<times> 'w) option" where
  "sock_pub_nb_loop S un mysock buf trp w =
     (if so_toStop S w then Some (buf, w)
      else do {
        (rc, buf, trp, w) \<leftarrow> MQTTPacket_readnb (sock_getdatanb S mysock) buf sample_buflen trp w;
        (if rc = uint (msg_code PUBLISH) then do {
           _ \<leftarrow> MQTTDeserialize_publish (un_publish un) buf sample_buflen;
           (buf, w) \<leftarrow> sock_publish S mysock buf w;
           sock_pub_nb_loop S un mysock buf trp w }
         else sock_pub_nb_loop S un mysock buf trp w) })"

definition sock_pub0sub1_nb_main :: "'w sockets \<Rightarrow> uninit \<Rightarrow> byte list list \<Rightarrow> 'w \<Rightarrow> (int \<times> 'w) option" where
  "sock_pub0sub1_nb_main S un argv w = sock_program S argv (\<lambda>mysock static w. do {
     (buf, w) \<leftarrow> sock_send S mysock (MQTTSerialize_connect (un_buf un) sample_buflen (serial_connect_data 20)) w;
     (ok, buf, w) \<leftarrow> sock_await S static CONNACK (sock_connack un) buf w;
     (if \<not> ok then Some w
      else do {
        (buf, w) \<leftarrow> sock_subscribe S mysock buf w;
        (ok, buf, trp, w) \<leftarrow> sock_poll S mysock SUBACK (sock_suback un) buf ((un_trp un)\<lparr>tr_state := 0\<rparr>) w;
        (if \<not> ok then Some w
         else do {
           (buf, w) \<leftarrow> sock_pub_nb_loop S un mysock buf trp w;
           sock_disconnect S mysock buf w }) }) }) w"

end
