(* ===== verification/Serial_Runs.thy ===== *)
theory Serial_Runs
  imports Serial_Samples Buffer_Frame
begin

text \<open>
  What the bare metal samples do on a serial line: their main loops as step relations,
  the bytes they send in every reachable configuration, and the messages they answer.
\<close>

section \<open>What the resumable reader leaves alone\<close>

lemma decodenb_keeps:
  assumes "\<And>w n. rets (\<lambda>(rc, bs, w'). K w' = K w) (g w n)"
  shows "rets (\<lambda>(rc, t', w'). K w' = K w) (decodenb_loop g t w)"
  using assms
proof (induction g t w rule: decodenb_loop.induct)
  case (1 g t w)
  show ?case
  proof (subst decodenb_loop.simps, intro rets_intros)
    fix x rc r bs w' c r' m t'
    assume h: "\<not> MAX_NO_OF_REMAINING_LENGTH_BYTES \<le> tr_len t" "g w 1 = Some x" "x = (rc, r)" "r = (bs, w')"
      "rc \<noteq> - 1" "rc \<noteq> 0" "the_byte bs = Some c" "cint (tr_rem_len t + uint (c AND 127) * tr_multiplier t) = Some r'"
      "cint (tr_multiplier t * 128) = Some m" "t\<lparr>tr_len := tr_len t + 1, tr_rem_len := r', tr_multiplier := m\<rparr> = t'"
      "c AND 128 \<noteq> 0"
    have "K w' = K w" using retsD [OF 1(2) h(2)] h by simp
    moreover have "rets (\<lambda>(rc, t', w'a). K w'a = K w') (decodenb_loop g t' w')"
      using 1(1) [OF h(1,2) h(3,4) [symmetric] h(5-9) h(10) [symmetric] h(11) 1(2)] .
    ultimately show "rets (\<lambda>(rc, t', w'). K w' = K w) (decodenb_loop g t' w')" by simp
  qed (use retsD [OF 1(2)] in \<open>fastforce+\<close>)
qed

lemma readnb_case2_keeps:
  assumes "\<And>w n. rets (\<lambda>(rc, bs, w'). K w' = K w) (g w n)"
  shows "rets (\<lambda>(rc, b, t', w'). K w' = K w \<and> length b = length buf) (readnb_case2 g buf t w)"
proof -
  have "g w n = Some (rc, bs, w') \<Longrightarrow> K w' = K w" for w n rc bs w'
    using retsD [OF assms] by force
  then show ?thesis
    by (auto simp: rets_def readnb_case2_def Let_def bind_eq_Some_conv split: if_splits option.splits prod.splits dest!: blit_len)
qed

lemma readnb_keeps:
  assumes K: "\<And>w n. rets (\<lambda>(rc, bs, w'). K w' = K w) (g w n)"
  shows "rets (\<lambda>(rc, b, t', w'). K w' = K w \<and> length b = length buf) (MQTTPacket_readnb g buf buflen t w)"
proof -
  have g: "g w n = Some (rc, bs, w') \<Longrightarrow> K w' = K w" for w n rc bs w'
    using retsD [OF K] by force
  have d: "MQTTPacket_decodenb g t w = Some (rc, t', w') \<Longrightarrow> K w' = K w" for t w rc t' w'
    using retsD [OF decodenb_keeps [OF K]] unfolding MQTTPacket_decodenb_def by force
  have c2: "readnb_case2 g buf t w = Some (rc, b, t', w') \<Longrightarrow> K w' = K w \<and> length b = length buf" for buf t w rc b t' w'
    using retsD [OF readnb_case2_keeps [OF K]] by force
  have c1: "readnb_case1 g buf buflen t w = Some (rc, b, t', w') \<Longrightarrow> K w' = K w \<and> length b = length buf" for buf t w rc b t' w'
    by (auto simp: readnb_case1_def Let_def bind_eq_Some_conv split: if_splits prod.splits dest!: d c2 encode_len)
  have c0: "readnb_case0 g buf buflen t w = Some (rc, b, t', w') \<Longrightarrow> K w' = K w \<and> length b = length buf" for buf t w rc b t' w'
    by (auto simp: readnb_case0_def bind_eq_Some_conv split: if_splits prod.splits dest!: g c1 blit_len)
  show ?thesis
    by (auto simp: rets_def MQTTPacket_readnb_def dest: c0 c1 c2)
qed

section \<open>Lines that are honest\<close>

text \<open>A line that may fail and may deliver anything, but counts what it moves.\<close>

definition line_honest :: "'w iofunctions \<Rightarrow> ('w \<Rightarrow> byte list) \<Rightarrow> bool" where
  "line_honest f out \<longleftrightarrow>
     (\<exists>send recv. io_send f = Some send \<and> io_recv f = Some recv \<and>
        (\<forall>mem n w. unat n \<le> length mem \<longrightarrow>
           (\<exists>len w'. send mem n w = Some (len, w') \<and> len \<le> int (unat n) \<and> out w' = out w @ take (nat len) mem)) \<and>
        (\<forall>n w. \<exists>len bs w'. recv n w = Some (len, bs, w') \<and> len \<le> int (unat n) \<and>
           int (length bs) = max len 0 \<and> out w' = out w))"

lemma honest_polled:
  assumes "line_honest f out" and "sl_io s = Some f"
  shows "polled (serial_getdatanb s)" and "rets (\<lambda>(rc, bs, w'). out w' = out w) (serial_getdatanb s w n)"
proof -
  from assms obtain recv where f: "io_recv f = Some recv" and r: "\<And>n w. \<exists>len bs w'. recv n w = Some (len, bs, w') \<and>
      len \<le> int (unat n) \<and> int (length bs) = max len 0 \<and> out w' = out w"
    by (auto simp: line_honest_def)
  show "polled (serial_getdatanb s)"
    unfolding polled_def
  proof (intro allI impI)
    fix w and n :: int assume n: "0 < n" "n \<le> INT_MAX"
    from r [of "word_of_int n" w] unat_count [of n] n obtain len bs w' where
      "recv (word_of_int n) w = Some (len, bs, w')" "len \<le> n" "int (length bs) = max len 0" by auto
    then show "\<exists>rc bs w'. serial_getdatanb s w n = Some (rc, bs, w') \<and> -1 \<le> rc \<and> rc \<le> n \<and> int (length bs) = max rc 0"
      using n by (auto simp: serial_getdatanb_def assms(2) f TRANSPORT_ERROR_def)
  qed
  show "rets (\<lambda>(rc, bs, w'). out w' = out w) (serial_getdatanb s w n)"
    using r [of "word_of_int n" w] by (auto simp: rets_def serial_getdatanb_def assms(2) f)
qed

text \<open>One call of \<open>sendPacketBuffernb\<close> on an honest line, with bytes \<open>p\<close> to \<open>n\<close> left to send.\<close>

lemma honest_send:
  assumes honest: "line_honest f out" and s: "sending f mem p n s"
  obtains (idle) rc w' where "sendPacketBuffernb mem s w = Some (rc, s, w')" "rc = TRANSPORT_ERROR \<or> rc = TRANSPORT_AGAIN"
      "out w' = out w"
  | (part) q s' w' where "sendPacketBuffernb mem s w = Some (TRANSPORT_AGAIN, s', w')" "sending f mem q n s'" "p < q"
      "out w' = out w @ drop p (take q mem)"
  | (whole) s' w' where "sendPacketBuffernb mem s w = Some (TRANSPORT_DONE, s', w')" "sl_io s' = Some f"
      "out w' = out w @ drop p (take n mem)"
proof -
  let ?n = "word_of_int (int (n - p)) :: 32 word"
  have sl: "sl_io s = Some f" "sl_from s = Some p" "sl_howmany s = int (n - p)" and m: "unat ?n \<le> length (drop p mem)"
    using s sending_count [OF s] by (auto simp: sending_def)
  from honest obtain send where f: "io_send f = Some send" and l: "\<And>mem n w. unat n \<le> length mem \<Longrightarrow>
      \<exists>len w'. send mem n w = Some (len, w') \<and> len \<le> int (unat n) \<and> out w' = out w @ take (nat len) mem"
    by (auto simp: line_honest_def)
  from l [OF m, of w, unfolded sending_count [OF s]] obtain len w' where
    r: "send (drop p mem) ?n w = Some (len, w')" "len \<le> int (n - p)" "out w' = out w @ take (nat len) (drop p mem)" by auto
  show thesis
  proof (cases "0 < len")
    case False
    then have "sendPacketBuffernb mem s w = Some (if len < 0 then TRANSPORT_ERROR else TRANSPORT_AGAIN, s, w')"
      using r(1) by (simp add: sendPacketBuffernb_def sl f)
    then show thesis by (rule idle) (use False r(3) in auto)
  next
    case True
    define k where "k = nat len"
    have k: "send (drop p mem) ?n w = Some (int k, w')" "0 < k" "k \<le> n - p" using True r by (auto simp: k_def)
    show thesis
    proof (rule sendPacketBuffernb_call [OF s f k])
      fix s' assume "sendPacketBuffernb mem s w = Some (TRANSPORT_AGAIN, s', w')" "sending f mem (p + k) n s'"
      with k(2) r(3) show thesis by (intro part [of s' w' "p + k"]) (simp_all add: take_slice k_def)
    next
      fix s' assume "sendPacketBuffernb mem s w = Some (TRANSPORT_DONE, s', w')" "sl_io s' = Some f" "n = p + k"
      with r(3) show thesis by (intro whole [of s' w']) (simp_all add: take_slice k_def)
    qed
  qed
qed

section \<open>The main loop of \<open>pub0sub1_nb.c\<close>\<close>

inductive pub_step ::
  "'w hostsys \<Rightarrow> uninit \<Rightarrow> pub_states \<times> 'w sample \<times> 'w \<Rightarrow> pub_states \<times> 'w sample \<times> 'w \<Rightarrow> bool" for H un where
  turn: "\<not> toStop H w \<Longrightarrow> pub_turn un state st w = Some (Some state', st', w') \<Longrightarrow>
    pub_step H un (state, st, w) (state', st', w')"

inductive_cases pub_stepE: "pub_step H un (state, st, w) c"

text \<open>The packet it publishes.\<close>

definition pub_wire :: "byte list" where
  "pub_wire = publish_wire 0 0 0 0 (sample_string (ascii ''pubtopic'')) pub_payload_text"

lemma length_ascii [simp]: "length (ascii s) = length s"
  by (simp add: ascii_def)

lemma sample_string_ok [simp]:
  "length s < 65536 \<Longrightarrow> mstr_ok (sample_string s)" "mstr_bytes (sample_string s) = s"
  "str_present (sample_string s)"
  by (simp_all add: sample_string_def mstr_ok_def mstr_bytes_def str_present_def MQTTString_initializer_def)

lemma pub_payload_length: "length pub_payload_text = 9" "int_of_size (length pub_payload_text) = int (length pub_payload_text)"
  by (simp_all add: pub_payload_text_def int_of_size_small)

lemma pub_wire_length: "length pub_wire = 21"
  by (simp add: pub_wire_def length_publish_wire length_publish_body pub_payload_length enc_len_small)

lemma pub_serialized:
  assumes "length buf = 200"
  shows "MQTTSerialize_publish buf sample_buflen 0 0 0 0 (sample_string (ascii ''pubtopic'')) pub_payload_text
      (int_of_size (length pub_payload_text)) = Some (21, pub_wire @ drop 21 buf)"
proof -
  let ?t = "sample_string (ascii ''pubtopic'')"
  have n: "length (publish_body 0 0 ?t pub_payload_text) = 19" by (simp add: length_publish_body pub_payload_length)
  have sz: "MQTTPacket_len (int (length (publish_body 0 0 ?t pub_payload_text))) = Some 21"
    by (simp add: n MQTTPacket_len_def cint_def INT_MIN_def INT_MAX_def)
  have "MQTTSerialize_publish buf sample_buflen 0 0 0 0 ?t pub_payload_text (int (length pub_payload_text)) = emit buf pub_wire"
    using serialize_publish_emit [OF _ _ sz, of buf sample_buflen 0 0] n by (simp add: sample_buflen_def pub_wire_def)
  then show ?thesis using assms by (simp add: pub_payload_length(2) emit_fits pub_wire_length)
qed

definition pub_inv :: "'w iofunctions \<Rightarrow> ('w \<Rightarrow> byte list) \<Rightarrow> byte list \<Rightarrow> pub_states \<times> 'w sample \<times> 'w \<Rightarrow> bool" where
  "pub_inv f out c = (\<lambda>(state, st, w). sl_io (sm_line st) = Some f \<and> length (sm_buf st) = 200 \<and>
     (\<exists>k j. out w = c @ concat (replicate k pub_wire) @ take j pub_wire \<and>
        (case state of READING \<Rightarrow> j = 0
         | PUBLISHING \<Rightarrow> sending f (sm_buf st) j 21 (sm_line st) \<and> take 21 (sm_buf st) = pub_wire)))"

lemma pub_inv_reading:
  "sl_io (sm_line st) = Some f \<Longrightarrow> length (sm_buf st) = 200 \<Longrightarrow> out w = c @ concat (replicate k pub_wire) \<Longrightarrow>
   pub_inv f out c (READING, st, w)"
  unfolding pub_inv_def by (simp, rule exI [of _ k], simp)

lemma pub_inv_publishing:
  "length (sm_buf st) = 200 \<Longrightarrow> out w = c @ concat (replicate k pub_wire) @ take j pub_wire \<Longrightarrow>
   sending f (sm_buf st) j 21 (sm_line st) \<Longrightarrow> take 21 (sm_buf st) = pub_wire \<Longrightarrow> pub_inv f out c (PUBLISHING, st, w)"
  unfolding pub_inv_def by (simp, intro conjI exI [of _ k] exI [of _ j]) (simp_all add: sending_def)

lemma sample_readnb_keeps:
  assumes "\<And>w n. rets (\<lambda>(rc, bs, w'). K w' = K w) (serial_getdatanb (sm_line st) w n)"
    and "sample_readnb st w = Some (rc, st', w')"
  shows "K w' = K w" "sm_line st' = sm_line st" "length (sm_buf st') = length (sm_buf st)"
  using assms(2) retsD [OF readnb_keeps [of K "serial_getdatanb (sm_line st)", OF assms(1)]]
  by (force simp: sample_readnb_def bind_eq_Some_conv split: prod.splits)+

lemma concat_replicate_snoc: "concat (replicate k x) @ x = concat (replicate (Suc k) x)"
  by (induction k) simp_all

lemma pub_reading_inv:
  assumes "line_honest f out" and "pub_inv f out c (READING, st, w)" and "pub_reading un st w = Some (Some state', st', w')"
  shows "pub_inv f out c (state', st', w')"
proof -
  from assms(2) obtain k where st: "sl_io (sm_line st) = Some f" "length (sm_buf st) = 200"
    "out w = c @ concat (replicate k pub_wire)" by (auto simp: pub_inv_def)
  from assms(3) obtain rc st1 w1 where r: "sample_readnb st w = Some (rc, st1, w1)"
    by (auto simp: pub_reading_def bind_eq_Some_conv)
  note keeps = sample_readnb_keeps [OF honest_polled(2) [OF assms(1) st(1)] r]
  show ?thesis
  proof (cases "rc = uint (msg_code PUBLISH)")
    case False
    with assms(3) r keeps st show ?thesis by (auto simp: pub_reading_def pub_inv_def split: if_splits)
  next
    case True
    let ?b = "pub_wire @ drop 21 (sm_buf st1)"
    from True assms(3) r keeps st have s': "state' = PUBLISHING" "w' = w1"
      "st' = st1\<lparr>sm_buf := ?b, sm_line := sendPacketBuffernb_start 0 21 (sm_line st1)\<rparr>"
      by (auto simp: pub_reading_def pub_serialized bind_eq_Some_conv)
    have "sending f ?b 0 21 (sendPacketBuffernb_start 0 (int 21) (sm_line st1))"
      using keeps st by (intro sending_start) (simp_all add: pub_wire_length INT_MAX_def)
    with s' keeps st show ?thesis
      by (simp add: pub_inv_publishing [where j = 0 and k = k] pub_wire_length)
  qed
qed

lemma pub_publishing_inv:
  assumes honest: "line_honest f out" and inv: "pub_inv f out c (PUBLISHING, st, w)"
    and turn: "pub_publishing st w = Some (Some state', st', w')"
  shows "pub_inv f out c (state', st', w')"
proof -
  from inv obtain k j where st: "length (sm_buf st) = 200" "take 21 (sm_buf st) = pub_wire"
    "out w = c @ concat (replicate k pub_wire) @ take j pub_wire" and s: "sending f (sm_buf st) j 21 (sm_line st)"
    and io: "sl_io (sm_line st) = Some f"
    by (auto simp: pub_inv_def)
  show ?thesis
  proof (rule honest_send [OF honest s, of w])
    fix rc w1 assume "sendPacketBuffernb (sm_buf st) (sm_line st) w = Some (rc, sm_line st, w1)"
      "rc = TRANSPORT_ERROR \<or> rc = TRANSPORT_AGAIN" "out w1 = out w"
    moreover from this turn have "state' = PUBLISHING" "st' = st" "w' = w1"
      by (auto simp: pub_publishing_def TRANSPORT_DONE_def TRANSPORT_ERROR_def TRANSPORT_AGAIN_def)
    ultimately show ?thesis using inv by (simp add: pub_inv_def)
  next
    fix q s' w1 assume r: "sendPacketBuffernb (sm_buf st) (sm_line st) w = Some (TRANSPORT_AGAIN, s', w1)"
      "sending f (sm_buf st) q 21 s'" "j < q" "out w1 = out w @ drop j (take q (sm_buf st))"
    have q: "j \<le> q" "q \<le> 21" using r(2,3) by (simp_all add: sending_def)
    then have "take q (sm_buf st) = take q pub_wire" using st(2) by (metis min.absorb1 take_take)
    moreover have "take j pub_wire @ drop j (take q pub_wire) = take q pub_wire"
      using drop_take_join [of 0 j q pub_wire] q by simp
    ultimately have "out w1 = c @ concat (replicate k pub_wire) @ take q pub_wire" using r(4) st(3) by simp
    moreover have "state' = PUBLISHING" "st' = st\<lparr>sm_line := s'\<rparr>" "w' = w1"
      using turn r(1) by (auto simp: pub_publishing_def TRANSPORT_DONE_def TRANSPORT_ERROR_def TRANSPORT_AGAIN_def)
    ultimately show ?thesis using r(2) st by (simp add: pub_inv_publishing [where j = q and k = k])
  next
    fix s' w1 assume r: "sendPacketBuffernb (sm_buf st) (sm_line st) w = Some (TRANSPORT_DONE, s', w1)"
      "sl_io s' = Some f" "out w1 = out w @ drop j (take 21 (sm_buf st))"
    then have "out w1 = c @ concat (replicate (Suc k) pub_wire)"
      using st concat_replicate_snoc [of k pub_wire] by simp
    moreover have "state' = READING" "st' = st\<lparr>sm_line := s'\<rparr>" "w' = w1"
      using turn r(1) by (auto simp: pub_publishing_def TRANSPORT_DONE_def)
    ultimately show ?thesis using r(2) st by (simp add: pub_inv_reading [where k = "Suc k"] del: replicate.simps)
  qed
qed

lemma pub_steps_inv:
  assumes "line_honest f out" and "(pub_step H un)\<^sup>*\<^sup>* x y" and "pub_inv f out c x"
  shows "pub_inv f out c y"
  using assms(2,3)
proof (induction rule: rtranclp_induct)
  case (step y z)
  obtain state st w where y: "y = (state, st, w)" by (rule prod_cases3)
  from step.hyps(2) [unfolded y] obtain state' st' w' where z: "z = (state', st', w')"
    "pub_turn un state st w = Some (Some state', st', w')" by (rule pub_stepE) blast
  show ?case
  proof (cases state)
    case READING
    with z y pub_reading_inv [OF assms(1), of c st w un] step.IH [OF step.prems] show ?thesis by (simp add: pub_turn_def)
  next
    case PUBLISHING
    with z y pub_publishing_inv [OF assms(1), of c st w] step.IH [OF step.prems] show ?thesis by (simp add: pub_turn_def)
  qed
qed

text \<open>C26: Whatever arrives, and whether or not the line fails, \<open>pub0sub1_nb\<close> sends
  in its main loop nothing but whole copies of its PUBLISH packet, one after the other: in
  every reachable configuration the line holds what was sent before the loop, some copies,
  and the beginning of one more while a copy is being sent. No packet is cut, repeated in
  part or mixed with another, although reader and sender share one buffer.\<close>
theorem serial_publishes_whole_packets:
  assumes "line_honest f out" and "sl_io (sm_line st) = Some f" and "length (sm_buf st) = 200"
    and "(pub_step H un)\<^sup>*\<^sup>* (READING, st, w) (state', st', w')"
  shows "\<exists>k j. out w' = out w @ concat (replicate k pub_wire) @ take j pub_wire \<and> j < length pub_wire \<and>
    (state' = READING \<longrightarrow> j = 0)"
proof -
  have "pub_inv f out (out w) (READING, st, w)" using assms(2,3) by (auto simp: pub_inv_def intro: exI [of _ 0])
  from pub_steps_inv [OF assms(1,4) this] obtain k j where "out w' = out w @ concat (replicate k pub_wire) @ take j pub_wire"
    "case state' of READING \<Rightarrow> j = 0 | PUBLISHING \<Rightarrow> sending f (sm_buf st') j 21 (sm_line st') \<and> take 21 (sm_buf st') = pub_wire"
    by (auto simp: pub_inv_def)
  then show ?thesis
    by (intro exI [of _ k] exI [of _ j]) (auto simp: pub_wire_length sending_def split: pub_states.splits)
qed

end
