(* ===== verification/Serial_Types.thy ===== *)
theory Serial_Types
  imports Serial_Runs
begin

text \<open>
  The main loop of \<open>ping_nb.c\<close> has a type: for each state of its machine, what the reader,
  the transport and the buffer may be. A turn from a typed configuration returns and ends
  in one, whatever the line delivers.
\<close>

section \<open>Typed configurations\<close>

definition ping_typed :: "'w iofunctions \<Rightarrow> ping_states \<Rightarrow> 'w sample \<Rightarrow> bool" where
  "ping_typed f state st \<longleftrightarrow>
     sl_io (sm_line st) = Some f \<and> length (sm_buf st) = 200 \<and> reader_typed sample_buflen (sm_trp st) \<and>
     (state = SENDPING \<longrightarrow> (\<exists>p. sending f (sm_buf st) p 2 (sm_line st) \<and> take 2 (sm_buf st) = [0xC0, 0]))"

lemma ping_serialized:
  assumes "length buf = 200"
  shows "MQTTSerialize_pingreq buf sample_buflen = Some (2, [0xC0, 0] @ drop 2 buf)"
  using assms
  by (simp add: MQTTSerialize_pingreq_def serialize_zero_emit sample_buflen_def emit_fits set_type_def numeral_2_eq_2)

lemma sample_readnb_typed:
  assumes "line_honest f out" and "ping_typed f GETPONG st"
  obtains rc st' w' where "sample_readnb st w = Some (rc, st', w')" "ping_typed f GETPONG st'"
proof -
  have st: "sl_io (sm_line st) = Some f" "length (sm_buf st) = 200" "reader_typed sample_buflen (sm_trp st)"
    using assms(2) by (simp_all add: ping_typed_def)
  from readnb_typed [OF honest_polled(1) [OF assms(1) st(1)] st(3), of "sm_buf st" w] st(2) obtain rc b t w' where
    "MQTTPacket_readnb (serial_getdatanb (sm_line st)) (sm_buf st) sample_buflen (sm_trp st) w = Some (rc, b, t, w')"
    "length b = length (sm_buf st)" "reader_typed sample_buflen t"
    by (auto simp: sample_buflen_def INT_MAX_def)
  with st that [of rc "st\<lparr>sm_buf := b, sm_trp := t\<rparr>" w'] show thesis
    by (simp add: sample_readnb_def ping_typed_def)
qed

lemma ping_typed_other: "ping_typed f s st \<Longrightarrow> s' \<noteq> SENDPING \<Longrightarrow> ping_typed f s' st"
  by (simp add: ping_typed_def)

lemma ping_idle_typed:
  assumes "ping_typed f IDLE st"
  shows "\<exists>s t st' w'. ping_idle H old_t st w = Some (Some s, t, st', w') \<and> ping_typed f s st'"
proof -
  have st: "sl_io (sm_line st) = Some f" "length (sm_buf st) = 200" using assms by (simp_all add: ping_typed_def)
  let ?b = "[0xC0, 0] @ drop 2 (sm_buf st)"
  have "sending f ?b 0 2 (sendPacketBuffernb_start 0 (int 2) (sm_line st))"
    using st by (intro sending_start) (simp_all add: INT_MAX_def)
  then have "ping_typed f SENDPING (st\<lparr>sm_buf := ?b, sm_line := sendPacketBuffernb_start 0 2 (sm_line st)\<rparr>)"
    using assms st by (auto simp: ping_typed_def sendPacketBuffernb_start_def numeral_2_eq_2)
  with assms st show ?thesis
    by (auto simp: ping_idle_def ping_serialized Let_def split: prod.split)
qed

lemma ping_sending_typed:
  assumes honest: "line_honest f out" and st: "ping_typed f SENDPING st"
  shows "\<exists>s t st' w'. ping_sending H old_t st w = Some (s, t, st', w') \<and> (\<forall>s'. s = Some s' \<longrightarrow> ping_typed f s' st')"
proof -
  from st obtain p where s: "sending f (sm_buf st) p 2 (sm_line st)" by (auto simp: ping_typed_def)
  show ?thesis
  proof (rule honest_send [OF honest s, of w])
    fix rc w1 assume "sendPacketBuffernb (sm_buf st) (sm_line st) w = Some (rc, sm_line st, w1)"
      "rc = TRANSPORT_ERROR \<or> rc = TRANSPORT_AGAIN"
    with st show ?thesis by (auto simp: ping_sending_def TRANSPORT_DONE_def TRANSPORT_ERROR_def TRANSPORT_AGAIN_def)
  next
    fix q s' w1 assume "sendPacketBuffernb (sm_buf st) (sm_line st) w = Some (TRANSPORT_AGAIN, s', w1)"
      "sending f (sm_buf st) q 2 s'"
    with st show ?thesis
      by (auto simp: ping_sending_def ping_typed_def sending_def TRANSPORT_DONE_def TRANSPORT_ERROR_def TRANSPORT_AGAIN_def)
  next
    fix s' w1 assume "sendPacketBuffernb (sm_buf st) (sm_line st) w = Some (TRANSPORT_DONE, s', w1)" "sl_io s' = Some f"
    with st show ?thesis by (auto simp: ping_sending_def ping_typed_def split: prod.split)
  qed
qed

lemma ping_waiting_typed:
  assumes "line_honest f out" and "ping_typed f GETPONG st"
  shows "\<exists>s t st' w'. ping_waiting H old_t st w = Some (s, t, st', w') \<and> (\<forall>s'. s = Some s' \<longrightarrow> ping_typed f s' st')"
proof -
  obtain rc st' w' where "sample_readnb st w = Some (rc, st', w')" "ping_typed f GETPONG st'"
    by (rule sample_readnb_typed [OF assms])
  then show ?thesis
    by (auto simp: ping_waiting_def split: prod.split dest: ping_typed_other)
qed

text \<open>C27: The loop of \<open>ping_nb\<close> is well typed. On a line that may fail and may
  deliver any bytes, a turn from a typed configuration is defined: it has no access outside
  the buffer of 200 bytes, no signed overflow and no failed assertion. If the loop goes on,
  the configuration it reaches is typed again.\<close>
theorem ping_turn_typed:
  assumes "line_honest f out" and "ping_typed f state st"
  shows "\<exists>next t st' w'. ping_turn H state old_t st w = Some (next, t, st', w') \<and>
    (\<forall>s. next = Some s \<longrightarrow> ping_typed f s st')"
proof (cases state)
  case IDLE
  with ping_idle_typed [of f st H old_t w] assms(2) show ?thesis by (auto simp: ping_turn_def)
next
  case SENDPING
  with ping_sending_typed [OF assms(1), of st H old_t w] assms(2) show ?thesis by (auto simp: ping_turn_def)
next
  case GETPONG
  with ping_waiting_typed [OF assms(1), of st H old_t w] assms(2) show ?thesis by (auto simp: ping_turn_def)
qed

section \<open>A concrete line\<close>

text \<open>A world is what arrives and what was sent. The line takes two bytes and gives three
  at a time.\<close>

definition demo_host :: "(byte list \<times> byte list) hostsys" where
  "demo_host = \<lparr>
     hs_rand = \<lambda>w. (0, w), hs_RAND_MAX = INT_MAX, hs_socket = \<lambda>w. (3, w), hs_connect = \<lambda>s a p w. (0, w),
     hs_nonblock = \<lambda>s w. w,
     hs_write = \<lambda>s bs (i, q). (int (min 2 (length bs)), i, q @ take 2 bs),
     hs_read = \<lambda>s n (i, q). (int (min (min 3 n) (length i)), take (min 3 n) i, drop (min 3 n) i, q),
     hs_eagain = \<lambda>w. False, hs_close = \<lambda>s w. w, hs_time = \<lambda>w. (100, w), toStop = \<lambda>w. False\<rparr>"

lemma demo_link: "host_link demo_host 3 fst snd (\<lambda>w. 0)"
  unfolding host_link_def
proof (intro conjI allI impI)
  fix w :: "byte list \<times> byte list" and bs :: "byte list" assume "bs \<noteq> []"
  then show "(\<exists>w'. hs_write demo_host 3 bs w = (-1, w') \<and> hs_eagain demo_host w' \<and> fst w' = fst w \<and> snd w' = snd w \<and>
      (0::nat) < 0) \<or>
    (\<exists>k w'. hs_write demo_host 3 bs w = (int k, w') \<and> 0 < k \<and> k \<le> length bs \<and> fst w' = fst w \<and>
      snd w' = snd w @ take k bs \<and> (0::nat) \<le> 0)"
    by (cases w; intro disjI2 exI [of _ "min 2 (length bs)"]) (auto simp: demo_host_def min_def)
next
  fix w :: "byte list \<times> byte list" and n :: nat assume "0 < n" "fst w \<noteq> []"
  then show "(\<exists>w'. hs_read demo_host 3 n w = (-1, [], w') \<and> hs_eagain demo_host w' \<and> fst w' = fst w \<and> (0::nat) < 0) \<or>
    (\<exists>w' xs ys. hs_read demo_host 3 n w = (int (length xs), xs, w') \<and> fst w = xs @ ys \<and> fst w' = ys \<and> xs \<noteq> [] \<and>
      length xs \<le> n \<and> (0::nat) \<le> 0)"
    by (cases w; intro disjI2 exI [of _ "take (min 3 n) (fst w)"] exI [of _ "drop (min 3 n) (fst w)"]
          exI [of _ "(drop (min 3 n) (fst w), snd w)"])
       (simp add: demo_host_def min.commute)
qed (simp_all add: demo_host_def split_def INT_MAX_def signed_divide_int_def)

lemma demo_honest: "line_honest (iof demo_host 3) snd"
  unfolding line_honest_def
proof (rule exI, rule exI, intro conjI allI impI)
  show "io_send (iof demo_host 3) = Some (samplesend demo_host 3)" by (simp add: iof_def)
  show "io_recv (iof demo_host 3) = Some (samplerecv demo_host 3)" by (simp add: iof_def)
next
  fix mem :: "byte list" and n :: "32 word" and w :: "byte list \<times> byte list" assume n: "unat n \<le> length mem"
  let ?r = "(fst w, snd w @ take 2 (take (unat n) mem))"
  have "samplesend demo_host 3 mem n w = Some (int (min 2 (unat n)), ?r)"
    using n by (simp add: samplesend_def halved_def demo_host_def INT_MAX_def signed_divide_int_def split_def min_absorb1)
  moreover have "int (min 2 (unat n)) \<le> int (unat n)" by (simp only: of_nat_le_iff min.cobounded2)
  moreover have "snd ?r = snd w @ take (nat (int (min 2 (unat n)))) mem" by (simp add: min.commute)
  ultimately show "\<exists>len w'. samplesend demo_host 3 mem n w = Some (len, w') \<and> len \<le> int (unat n) \<and>
      snd w' = snd w @ take (nat len) mem" by blast
next
  fix n :: "32 word" and w :: "byte list \<times> byte list"
  let ?k = "min (min 3 (unat n)) (length (fst w))"
  let ?bs = "take (min 3 (unat n)) (fst w)"
  have "samplerecv demo_host 3 n w = Some (int ?k, ?bs, drop (min 3 (unat n)) (fst w), snd w)"
    by (simp add: samplerecv_def halved_def demo_host_def INT_MAX_def signed_divide_int_def split_def)
  moreover have "int ?k \<le> int (unat n)" by (simp only: of_nat_le_iff min.coboundedI1 min.cobounded2)
  moreover have "int (length ?bs) = max (int ?k) 0" by (simp add: min.commute)
  ultimately show "\<exists>len bs w'. samplerecv demo_host 3 n w = Some (len, bs, w') \<and> len \<le> int (unat n) \<and>
      int (length bs) = max len 0 \<and> snd w' = snd w" by (metis snd_conv)
qed

definition demo_sample :: "(byte list \<times> byte list) sample" where
  "demo_sample = \<lparr>
     sm_line = \<lparr>sl_io = Some (iof demo_host 3), sl_from = None, sl_howmany = 0\<rparr>,
     sm_buf = replicate 200 0, sm_trp = \<lparr>tr_multiplier = 9, tr_rem_len = 9, tr_len = 9, tr_state = 0\<rparr>\<rparr>"

lemma demo_sample_fields:
  "sl_io (sm_line demo_sample) = Some (iof demo_host 3)" "length (sm_buf demo_sample) = 200" "tr_state (sm_trp demo_sample) = 0"
  by (simp_all add: demo_sample_def)

lemma ping_turn_typed_witness:
  "\<exists>next t st' w'. ping_turn demo_host GETPONG 50 demo_sample ([0xD0, 0xFF, 0xFF, 0xFF, 0xFF], []) = Some (next, t, st', w') \<and>
    (\<forall>s. next = Some s \<longrightarrow> ping_typed (iof demo_host 3) s st')"
  by (rule ping_turn_typed [OF demo_honest]) (simp add: ping_typed_def demo_sample_fields reader_typed_def)

text \<open>Three turns: half of a message, the rest of it, and the first two bytes of the answer.\<close>

definition demo_uninit :: uninit where
  "demo_uninit = \<lparr>
     un_buf = replicate 200 0, un_trp = \<lparr>tr_multiplier = 9, tr_rem_len = 9, tr_len = 9, tr_state = 0\<rparr>,
     un_connack = \<lparr>ca_sessionPresent = 9, ca_rc = 9\<rparr>,
     un_suback = \<lparr>sa_packetid = 9, sa_count = 9, sa_grantedQoSs = [9]\<rparr>,
     un_publish = \<lparr>pub_dup = 9, pub_qos = 9, pub_retained = 9, pub_packetid = 9, pub_topicName = MQTTString_initializer,
        pub_payload = [], pub_payloadlen = 9\<rparr>,
     un_char_signed = True\<rparr>"

fun demo_turns :: "nat \<Rightarrow> pub_states \<Rightarrow> (byte list \<times> byte list) sample \<Rightarrow> byte list \<times> byte list \<Rightarrow>
   (pub_states \<times> (byte list \<times> byte list) sample \<times> byte list \<times> byte list) option" where
  "demo_turns 0 state st w = Some (state, st, w)"
| "demo_turns (Suc n) state st w =
     (case pub_turn demo_uninit state st w of Some (Some state', st', w') \<Rightarrow> demo_turns n state' st' w' | _ \<Rightarrow> None)"

lemma demo_turns_steps:
  "demo_turns n state st w = Some c \<Longrightarrow> (pub_step demo_host demo_uninit)\<^sup>*\<^sup>* (state, st, w) c"
proof (induction n arbitrary: state st w)
  case (Suc n)
  from Suc.prems obtain state' st' w' where t: "pub_turn demo_uninit state st w = Some (Some state', st', w')"
    "demo_turns n state' st' w' = Some c" by (auto split: option.splits)
  then have "pub_step demo_host demo_uninit (state, st, w) (state', st', w')"
    by (intro pub_step.turn) (simp_all add: demo_host_def)
  with Suc.IH [OF t(2)] show ?case by (rule converse_rtranclp_into_rtranclp [rotated])
qed simp

lemma demo_three_turns:
  "(case demo_turns 3 READING demo_sample ([0x30, 4, 0, 1, 0x61, 5], [7]) of None \<Rightarrow> None
    | Some (state, st, w) \<Rightarrow> Some (state, w)) = Some (PUBLISHING, [], [7, 0x30, 19])"
  by code_simp

lemma serial_publishes_whole_packets_witness:
  "\<exists>st'. (pub_step demo_host demo_uninit)\<^sup>*\<^sup>* (READING, demo_sample, [0x30, 4, 0, 1, 0x61, 5], [7])
      (PUBLISHING, st', [], [7, 0x30, 19]) \<and>
    (\<exists>k j. [7, 0x30, 19] = [7] @ concat (replicate k pub_wire) @ take j pub_wire \<and> j < length pub_wire \<and>
      (PUBLISHING = READING \<longrightarrow> j = 0))"
proof -
  from demo_three_turns obtain st' where
    "demo_turns 3 READING demo_sample ([0x30, 4, 0, 1, 0x61, 5], [7]) = Some (PUBLISHING, st', [], [7, 0x30, 19])"
    by (auto split: option.splits)
  from demo_turns_steps [OF this] have steps: "(pub_step demo_host demo_uninit)\<^sup>*\<^sup>*
      (READING, demo_sample, [0x30, 4, 0, 1, 0x61, 5], [7]) (PUBLISHING, st', [], [7, 0x30, 19])" .
  from serial_publishes_whole_packets [OF demo_honest demo_sample_fields(1,2) steps] steps show ?thesis by auto
qed

end
