(* ===== verification/Serial_Liveness.thy ===== *)
theory Serial_Liveness
  imports Serial_Types
begin

text \<open>
  The session of \<open>pub0sub1_nb.c\<close> on a line that works, however it cuts the bytes and
  however often it is busy: the program connects, subscribes and answers every message.
\<close>

section \<open>Waiting for a packet\<close>

text \<open>The reader is in the middle of the packet, or at its start.\<close>

definition receiving ::
  "'w iofunctions \<Rightarrow> ('w \<Rightarrow> byte list) \<Rightarrow> byte \<Rightarrow> byte list \<Rightarrow> byte list \<Rightarrow> 'w sample \<Rightarrow> 'w \<Rightarrow> bool" where
  "receiving f inp h body rest st w \<longleftrightarrow> sl_io (sm_line st) = Some f \<and>
     (\<exists>buf0. length buf0 = 200 \<and> nb_inv inp h body rest buf0 (sm_buf st) (sm_trp st) w) \<and>
     length (packet h body) \<le> 200 \<and> header_type h \<noteq> 0"

text \<open>The packet is in the buffer and the reader back in its initial state.\<close>

definition received :: "'w iofunctions \<Rightarrow> byte \<Rightarrow> byte list \<Rightarrow> 'w sample \<Rightarrow> bool" where
  "received f h body st \<longleftrightarrow> sl_io (sm_line st) = Some f \<and> length (sm_buf st) = 200 \<and>
     has (sm_buf st) 0 (packet h body) \<and> tr_state (sm_trp st) = 0"

lemma receiving_start:
  assumes "sl_io (sm_line st) = Some f" and "length (sm_buf st) = 200" and "tr_state (sm_trp st) \<notin> {1, 2}"
    and "inp w = packet h body @ rest" and "length (packet h body) \<le> 200" and "header_type h \<noteq> 0"
  shows "receiving f inp h body rest st w"
  using assms unfolding receiving_def by (intro conjI exI [of _ "sm_buf st"]) (simp_all add: nb_inv_def)

lemma sample_readnb_step:
  assumes port: "serial_port f inp out busy" and r: "receiving f inp h body rest st w"
  obtains (again) st' w' where "sample_readnb st w = Some (0, st', w')" "receiving f inp h body rest st' w'"
      "todo inp busy w' < todo inp busy w" "out w' = out w"
  | (whole) st' w' where "sample_readnb st w = Some (uint (header_type h), st', w')" "received f h body st'"
      "inp w' = rest" "out w' = out w"
proof -
  from r obtain buf0 where st: "sl_io (sm_line st) = Some f" "length buf0 = 200" "length (packet h body) \<le> 200"
    "header_type h \<noteq> 0" and inv: "nb_inv inp h body rest buf0 (sm_buf st) (sm_trp st) w" by (auto simp: receiving_def)
  let ?g = "serial_getdatanb (sm_line st)"
  have body: "length body < 268435456" using st(3) by (simp add: packet_def)
  from readnb_step [OF serial_source [OF port st(1)] inv _ _ body, of sample_buflen] st(2,3) obtain rc b t w' where
    n: "MQTTPacket_readnb ?g (sm_buf st) sample_buflen (sm_trp st) w = Some (rc, b, t, w')"
    and res: "nb_result inp busy h body rest buf0 w (rc, b, t, w')" by (auto simp: sample_buflen_def)
  have keep: "rets (\<lambda>(rc, bs, w'). out w' = out w) (?g w n)" for w n by (rule serial_quiet [OF port st(1)])
  have out: "out w' = out w" using retsD [OF readnb_keeps [of out, OF keep] n] by simp
  let ?st = "st\<lparr>sm_buf := b, sm_trp := t\<rparr>"
  have s: "sample_readnb st w = Some (rc, ?st, w')" by (simp add: sample_readnb_def n)
  from res consider "rc = 0" "nb_inv inp h body rest buf0 b t w'" "todo inp busy w' < todo inp busy w"
    | "rc = uint (header_type h)" "b = packet h body @ drop (length (packet h body)) buf0" "tr_state t = 0" "inp w' = rest"
    by (auto simp: nb_result_def)
  then show thesis
  proof cases
    case 1
    have "receiving f inp h body rest ?st w'" unfolding receiving_def using st 1(2) by auto
    with 1 s out show thesis by (intro again [of ?st w']) simp_all
  next
    case 2
    then have "received f h body ?st" using st has_prefix by (simp add: received_def)
    with 2 s out show thesis by (intro whole [of ?st w']) simp_all
  qed
qed

lemma serial_await_connack_answers:
  assumes port: "serial_port f inp out busy"
    and r: "receiving f inp 0x20 [sp AND 1, rc] rest st w"
  shows "\<exists>st' w'. serial_await_connack un st w = Some (rc = 0, st', w') \<and> received f 0x20 [sp AND 1, rc] st' \<and>
    inp w' = rest \<and> out w' = out w"
  using r
proof (induction "todo inp busy w" arbitrary: st w rule: less_induct)
  case less
  show ?case
  proof (rule sample_readnb_step [OF port less.prems])
    fix st' w' assume a: "sample_readnb st w = Some (0, st', w')" "receiving f inp 0x20 [sp AND 1, rc] rest st' w'"
      "todo inp busy w' < todo inp busy w" "out w' = out w"
    from less.hyps [OF a(3,2)] a show ?thesis by (subst serial_await_connack.simps) auto
  next
    fix st' w' assume a: "sample_readnb st w = Some (uint (header_type 0x20), st', w')"
      "received f 0x20 [sp AND 1, rc] st'" "inp w' = rest" "out w' = out w"
    have "has (sm_buf st') 0 (connack_wire rc sp)"
      using a(2) by (simp add: received_def packet_def enc_len_small connack_wire_def)
    from deserialize_connack_has [OF this] a show ?thesis
      by (subst serial_await_connack.simps) (simp add: header_type_def)
  qed
qed

lemma serial_await_suback_answers:
  assumes port: "serial_port f inp out busy" and un: "length (sa_grantedQoSs (un_suback un)) = 1"
    and r: "receiving f inp 0x90 [0, 1, 0] rest st w"
  shows "\<exists>st' w'. serial_await_suback un st w = Some (True, st', w') \<and> received f 0x90 [0, 1, 0] st' \<and>
    inp w' = rest \<and> out w' = out w"
  using r
proof (induction "todo inp busy w" arbitrary: st w rule: less_induct)
  case less
  show ?case
  proof (rule sample_readnb_step [OF port less.prems])
    fix st' w' assume a: "sample_readnb st w = Some (0, st', w')" "receiving f inp 0x90 [0, 1, 0] rest st' w'"
      "todo inp busy w' < todo inp busy w" "out w' = out w"
    from less.hyps [OF a(3,2)] a show ?thesis by (subst serial_await_suback.simps) auto
  next
    fix st' w' assume a: "sample_readnb st w = Some (uint (header_type 0x90), st', w')"
      "received f 0x90 [0, 1, 0] st'" "inp w' = rest" "out w' = out w"
    have h: "has (sm_buf st') 0 (suback_wire 1 [0])"
      using a(2) by (simp add: received_def packet_def enc_len_small suback_wire_def int16_wire_def uchar_def)
    let ?cs = "un_char_signed un" and ?o = "(un_suback un)\<lparr>sa_packetid := 1, sa_count := 0\<rparr>"
    from deserialize_suback_start [OF h, of ?cs 1 "un_suback un" sample_buflen] obtain p where
      d: "MQTTDeserialize_suback ?cs 1 (un_suback un) (sm_buf st') sample_buflen =
        suback_loop ?cs 1 ?o (sm_buf st') p (int p + 1)" "has (sm_buf st') p [0]" by (auto simp: uchar_def)
    from suback_loop_has [OF d(2), of "int p + 1" ?o 0 1 ?cs] un obtain out' where
      "suback_loop ?cs 1 ?o (sm_buf st') p (int p + 1) = Some (1, out')" "take 1 (sa_grantedQoSs out') = [int_of_char ?cs 0]"
      by auto
    moreover from this have "idx (sa_grantedQoSs out') 0 = Some 0"
      by (cases "sa_grantedQoSs out'") (simp_all add: int_of_char_def)
    ultimately show ?thesis using a d(1)
      by (subst serial_await_suback.simps) (simp add: header_type_def)
  qed
qed

section \<open>Sending\<close>

lemma send_until_done_sends:
  assumes port: "serial_port f inp out busy" and s: "sending f mem p n s"
  shows "\<exists>s' w'. send_until_done mem s w = Some (s', w') \<and> sl_io s' = Some f \<and> inp w' = inp w \<and>
    out w' = out w @ drop p (take n mem)"
  using s
proof (induction "busy w + (n - p)" arbitrary: s p w rule: less_induct)
  case less
  have pn: "p < n" using less.prems by (simp add: sending_def)
  have again: "TRANSPORT_AGAIN \<noteq> TRANSPORT_DONE" by (simp add: TRANSPORT_DONE_def TRANSPORT_AGAIN_def)
  show ?case
  proof (rule sendPacketBuffernb_step [OF port less.prems, of w])
    fix w' assume r: "sendPacketBuffernb mem s w = Some (TRANSPORT_AGAIN, s, w')"
      "inp w' = inp w" "out w' = out w" "busy w' < busy w"
    then have "busy w' + (n - p) < busy w + (n - p)" by simp
    from less.hyps [OF this less.prems] r again show ?thesis by (subst send_until_done.simps) auto
  next
    fix s' w' q assume r: "sendPacketBuffernb mem s w = Some (TRANSPORT_AGAIN, s', w')" "sending f mem q n s'" "p < q"
      "inp w' = inp w" "out w' = out w @ drop p (take q mem)" "busy w' \<le> busy w"
    then have lt: "busy w' + (n - q) < busy w + (n - p)" using pn by simp
    have "drop p (take q mem) @ drop q (take n mem) = drop p (take n mem)"
      using r(2,3) by (intro drop_take_join) (simp_all add: sending_def)
    with less.hyps [OF lt r(2)] r again show ?thesis by (subst send_until_done.simps) auto
  next
    fix s' w' assume "sendPacketBuffernb mem s w = Some (TRANSPORT_DONE, s', w')" "sl_io s' = Some f"
      "inp w' = inp w" "out w' = out w @ drop p (take n mem)" "busy w' \<le> busy w"
    then show ?thesis by (subst send_until_done.simps) simp
  qed
qed

lemma connect_serialized:
  assumes "length buf = 200"
  shows "MQTTSerialize_connect buf sample_buflen (serial_connect_data ka) =
      Some (40, connect_wire (serial_connect_data ka) @ drop 40 buf)" "length (connect_wire (serial_connect_data ka)) = 40"
proof -
  let ?o = "serial_connect_data ka"
  have ok: "connect_ok ?o" by (simp add: connect_ok_def serial_connect_data_def MQTTPacket_connectData_initializer_def)
  have n: "length (connect_body ?o) = 38"
    by (simp add: length_connect_body serial_connect_data_def MQTTPacket_connectData_initializer_def)
  have sz: "MQTTPacket_len (int (length (connect_body ?o))) = Some 40"
    by (simp add: n MQTTPacket_len_def cint_def INT_MIN_def INT_MAX_def)
  show l: "length (connect_wire ?o) = 40" by (simp add: connect_wire_def n enc_len_small)
  show "MQTTSerialize_connect buf sample_buflen ?o = Some (40, connect_wire ?o @ drop 40 buf)"
    using serialize_connect_emit [OF ok sz, of buf sample_buflen] assms l by (simp add: sample_buflen_def emit_fits)
qed

definition sub_wire_sent :: "byte list" where
  "sub_wire_sent = subscribe_wire 0 1 [(sample_string (ascii ''substopic''), 0)]"

lemma subscribe_serialized:
  assumes "length buf = 200"
  shows "MQTTSerialize_subscribe buf sample_buflen 0 1 1 [sample_string (ascii ''substopic'')] [0] =
      Some (16, sub_wire_sent @ drop 16 buf)" "length sub_wire_sent = 16"
proof -
  let ?s = "[(sample_string (ascii ''substopic''), 0 :: int)]"
  have n: "length (subscribe_body 1 ?s) = 14"
    by (simp add: subscribe_body_def sub_wire_def)
  have sz: "MQTTPacket_len (int (length (subscribe_body 1 ?s))) = Some 16"
    by (simp add: n MQTTPacket_len_def cint_def INT_MIN_def INT_MAX_def)
  show l: "length sub_wire_sent = 16" by (simp add: sub_wire_sent_def subscribe_wire_def n enc_len_small)
  show "MQTTSerialize_subscribe buf sample_buflen 0 1 1 [sample_string (ascii ''substopic'')] [0] =
      Some (16, sub_wire_sent @ drop 16 buf)"
    using serialize_subscribe_emit [OF _ _ sz, of buf sample_buflen 0] n assms l
    by (simp add: sample_buflen_def emit_fits sub_wire_sent_def)
qed

section \<open>One message\<close>

text \<open>A QoS 0 message of the server: duplicate flag, retain flag, topic and payload.\<close>

definition qos0_wire :: "byte \<times> byte \<times> MQTTString \<times> byte list \<Rightarrow> byte list" where
  "qos0_wire = (\<lambda>(dup, retained, topic, payload). publish_wire dup 0 retained 0 topic payload)"

definition qos0_fits :: "byte \<times> byte \<times> MQTTString \<times> byte list \<Rightarrow> bool" where
  "qos0_fits m \<longleftrightarrow> mstr_ok (fst (snd (snd m))) \<and> length (qos0_wire m) \<le> 200"

lemma pub_reads:
  assumes port: "serial_port f inp out busy" and go: "\<And>w. \<not> toStop H w"
    and m: "publish_wire dup 0 retained 0 topic payload = packet h body" "mstr_ok topic" "header_type h = msg_code PUBLISH"
    and r: "receiving f inp h body rest st w"
  shows "\<exists>st' w'. (pub_step H un)\<^sup>*\<^sup>* (READING, st, w) (PUBLISHING, st', w') \<and>
    sending f (sm_buf st') 0 21 (sm_line st') \<and> take 21 (sm_buf st') = pub_wire \<and> length (sm_buf st') = 200 \<and>
    tr_state (sm_trp st') = 0 \<and> inp w' = rest \<and> out w' = out w"
  using r
proof (induction "todo inp busy w" arbitrary: st w rule: less_induct)
  case less
  show ?case
  proof (rule sample_readnb_step [OF port less.prems])
    fix st' w' assume a: "sample_readnb st w = Some (0, st', w')" "receiving f inp h body rest st' w'"
      "todo inp busy w' < todo inp busy w" "out w' = out w"
    then have "pub_step H un (READING, st, w) (READING, st', w')"
      using go by (intro pub_step.turn) (simp_all add: pub_turn_def pub_reading_def)
    with less.hyps [OF a(3,2)] a(4) show ?thesis by (metis converse_rtranclp_into_rtranclp)
  next
    fix st' w' assume a: "sample_readnb st w = Some (uint (header_type h), st', w')" "received f h body st'"
      "inp w' = rest" "out w' = out w"
    have b: "sl_io (sm_line st') = Some f" "length (sm_buf st') = 200" "tr_state (sm_trp st') = 0"
      "has (sm_buf st') 0 (publish_wire dup 0 retained 0 topic payload)" using a(2) m(1) by (simp_all add: received_def)
    have "length (publish_wire dup 0 retained 0 topic payload) \<le> 200" using less.prems m(1) by (simp add: receiving_def)
    then have "length (publish_body 0 0 topic payload) < 268435456" by (simp add: length_publish_wire)
    from deserialize_publish_has [OF b(4) m(2) this, of "un_publish un" sample_buflen] obtain r where
      d: "MQTTDeserialize_publish (un_publish un) (sm_buf st') sample_buflen = Some r" by auto
    let ?st = "st'\<lparr>sm_buf := pub_wire @ drop 21 (sm_buf st'), sm_line := sendPacketBuffernb_start 0 21 (sm_line st')\<rparr>"
    have "pub_step H un (READING, st, w) (PUBLISHING, ?st, w')"
      using go by (intro pub_step.turn) (simp_all add: pub_turn_def pub_reading_def a(1) m(3) d pub_serialized [OF b(2)])
    moreover have "sending f (sm_buf ?st) 0 21 (sm_line ?st)"
      using sending_start [OF b(1), of 21 "sm_buf ?st"] b(2) by (simp add: pub_wire_length INT_MAX_def)
    ultimately show ?thesis using a b
      by (intro exI [of _ ?st] exI [of _ w']) (simp add: pub_wire_length r_into_rtranclp)
  qed
qed

lemma pub_sends:
  assumes port: "serial_port f inp out busy" and go: "\<And>w. \<not> toStop H w"
    and s: "sending f (sm_buf st) p 21 (sm_line st)"
  shows "\<exists>line w'. (pub_step H un)\<^sup>*\<^sup>* (PUBLISHING, st, w) (READING, st\<lparr>sm_line := line\<rparr>, w') \<and>
    sl_io line = Some f \<and> inp w' = inp w \<and> out w' = out w @ drop p (take 21 (sm_buf st))"
  using s
proof (induction "busy w + (21 - p)" arbitrary: st p w rule: less_induct)
  case less
  have pn: "p < 21" using less.prems by (simp add: sending_def)
  have codes: "TRANSPORT_AGAIN \<noteq> TRANSPORT_DONE" "TRANSPORT_AGAIN \<noteq> TRANSPORT_ERROR" "TRANSPORT_DONE \<noteq> TRANSPORT_ERROR"
    by (simp_all add: TRANSPORT_DONE_def TRANSPORT_AGAIN_def TRANSPORT_ERROR_def)
  have turn: "pub_step H un (PUBLISHING, st, w) (if rc = TRANSPORT_DONE then READING else PUBLISHING, st\<lparr>sm_line := s'\<rparr>, w')"
    if "sendPacketBuffernb (sm_buf st) (sm_line st) w = Some (rc, s', w')" "rc \<noteq> TRANSPORT_ERROR" for rc s' w'
    using go that by (intro pub_step.turn) (simp_all add: pub_turn_def pub_publishing_def)
  show ?case
  proof (rule sendPacketBuffernb_step [OF port less.prems, of w])
    fix w' assume r: "sendPacketBuffernb (sm_buf st) (sm_line st) w = Some (TRANSPORT_AGAIN, sm_line st, w')"
      "inp w' = inp w" "out w' = out w" "busy w' < busy w"
    then have "busy w' + (21 - p) < busy w + (21 - p)" by simp
    from less.hyps [OF this less.prems] turn [OF r(1)] r codes show ?thesis
      by simp (metis converse_rtranclp_into_rtranclp)
  next
    fix s' w' q assume r: "sendPacketBuffernb (sm_buf st) (sm_line st) w = Some (TRANSPORT_AGAIN, s', w')"
      "sending f (sm_buf st) q 21 s'" "p < q" "inp w' = inp w" "out w' = out w @ drop p (take q (sm_buf st))"
      "busy w' \<le> busy w"
    then have "busy w' + (21 - q) < busy w + (21 - p)" using pn by simp
    moreover have "drop p (take q (sm_buf st)) @ drop q (take 21 (sm_buf st)) = drop p (take 21 (sm_buf st))"
      using r(2,3) by (intro drop_take_join) (simp_all add: sending_def)
    ultimately show ?thesis
      using less.hyps [of w' q "st\<lparr>sm_line := s'\<rparr>"] turn [OF r(1)] r codes
      by simp (metis append_assoc converse_rtranclp_into_rtranclp)
  next
    fix s' w' assume r: "sendPacketBuffernb (sm_buf st) (sm_line st) w = Some (TRANSPORT_DONE, s', w')" "sl_io s' = Some f"
      "inp w' = inp w" "out w' = out w @ drop p (take 21 (sm_buf st))" "busy w' \<le> busy w"
    with turn [OF r(1)] codes show ?thesis by (intro exI [of _ s'] exI [of _ w']) (simp add: r_into_rtranclp)
  qed
qed

lemma pub_answers_one:
  assumes port: "serial_port f inp out busy" and go: "\<And>w. \<not> toStop H w" and fits: "qos0_fits m"
    and st: "sl_io (sm_line st) = Some f" "length (sm_buf st) = 200" "tr_state (sm_trp st) = 0"
    and i: "inp w = qos0_wire m @ rest"
  shows "\<exists>st' w'. (pub_step H un)\<^sup>*\<^sup>* (READING, st, w) (READING, st', w') \<and> sl_io (sm_line st') = Some f \<and>
    length (sm_buf st') = 200 \<and> tr_state (sm_trp st') = 0 \<and> inp w' = rest \<and> out w' = out w @ pub_wire"
proof -
  obtain dup retained topic payload where m: "m = (dup, retained, topic, payload)" by (rule prod_cases4)
  let ?h = "publish_header dup 0 retained" and ?b = "publish_body 0 0 topic payload"
  have wire: "publish_wire dup 0 retained 0 topic payload = packet ?h ?b" by (simp add: publish_wire_def packet_def Let_def)
  then have q: "qos0_wire m = packet ?h ?b" by (simp add: m qos0_wire_def)
  have ok: "mstr_ok topic" "length (packet ?h ?b) \<le> 200" using fits q by (simp_all add: m qos0_fits_def)
  have "receiving f inp ?h ?b rest st w" using st i q ok by (intro receiving_start) simp_all
  from pub_reads [OF port go wire ok(1) _ this, of un] obtain st1 w1 where
    r: "(pub_step H un)\<^sup>*\<^sup>* (READING, st, w) (PUBLISHING, st1, w1)" "sending f (sm_buf st1) 0 21 (sm_line st1)"
    "take 21 (sm_buf st1) = pub_wire" "length (sm_buf st1) = 200" "tr_state (sm_trp st1) = 0" "inp w1 = rest" "out w1 = out w"
    by auto
  from pub_sends [OF port go r(2), where w = w1 and un = un] obtain line w2 where
    s: "(pub_step H un)\<^sup>*\<^sup>* (PUBLISHING, st1, w1) (READING, st1\<lparr>sm_line := line\<rparr>, w2)" "sl_io line = Some f"
    "inp w2 = inp w1" "out w2 = out w1 @ pub_wire" using r(3) by auto
  with r show ?thesis by (intro exI [of _ "st1\<lparr>sm_line := line\<rparr>"] exI [of _ w2]) simp
qed

lemma pub_answers:
  assumes port: "serial_port f inp out busy" and go: "\<And>w. \<not> toStop H w" and fits: "\<forall>m \<in> set ms. qos0_fits m"
    and "sl_io (sm_line st) = Some f" "length (sm_buf st) = 200" "tr_state (sm_trp st) = 0"
    and "inp w = concat (map qos0_wire ms) @ rest"
  shows "\<exists>st' w'. (pub_step H un)\<^sup>*\<^sup>* (READING, st, w) (READING, st', w') \<and> inp w' = rest \<and>
    out w' = out w @ concat (replicate (length ms) pub_wire)"
  using assms(3-)
proof (induction ms arbitrary: st w)
  case Nil
  then show ?case by auto
next
  case (Cons m ms)
  from pub_answers_one [OF port go, of m st w "concat (map qos0_wire ms) @ rest" un] Cons.prems obtain st1 w1 where
    a: "(pub_step H un)\<^sup>*\<^sup>* (READING, st, w) (READING, st1, w1)" "sl_io (sm_line st1) = Some f" "length (sm_buf st1) = 200"
    "tr_state (sm_trp st1) = 0" "inp w1 = concat (map qos0_wire ms) @ rest" "out w1 = out w @ pub_wire" by auto
  from Cons.IH [OF _ a(2-5)] Cons.prems(1) obtain st2 w2 where
    "(pub_step H un)\<^sup>*\<^sup>* (READING, st1, w1) (READING, st2, w2)" "inp w2 = rest"
    "out w2 = out w1 @ concat (replicate (length ms) pub_wire)" by auto
  with a show ?case by (intro exI [of _ st2] exI [of _ w2]) simp
qed

section \<open>The session\<close>

lemma serial_connect_sends:
  assumes port: "serial_port f inp out busy" and st: "sl_io (sm_line st) = Some f" "length (sm_buf st) = 200"
  shows "\<exists>st' w'. serial_connect ka st w = Some (st', w') \<and> sl_io (sm_line st') = Some f \<and> length (sm_buf st') = 200 \<and>
    sm_trp st' = sm_trp st \<and> inp w' = inp w \<and> out w' = out w @ connect_wire (serial_connect_data ka)"
proof -
  note c = connect_serialized [OF st(2), of ka]
  let ?b = "connect_wire (serial_connect_data ka) @ drop 40 (sm_buf st)"
  from sendPacketBuffer_sends [OF port st(1), of 40 ?b w] c(2) st(2) obtain s' w' where
    "sendPacketBuffer ?b 40 (sm_line st) w = Some (40, s', w')" "sl_io s' = Some f" "inp w' = inp w"
    "out w' = out w @ connect_wire (serial_connect_data ka)" by (auto simp: INT_MAX_def)
  with c st(2) show ?thesis by (auto simp: serial_connect_def)
qed

lemma serial_subscribe_sends:
  assumes port: "serial_port f inp out busy" and st: "sl_io (sm_line st) = Some f" "length (sm_buf st) = 200"
  shows "\<exists>st' w'. serial_subscribe st w = Some (st', w') \<and> sl_io (sm_line st') = Some f \<and> length (sm_buf st') = 200 \<and>
    sm_trp st' = sm_trp st \<and> inp w' = inp w \<and> out w' = out w @ sub_wire_sent"
proof -
  note c = subscribe_serialized [OF st(2)]
  let ?b = "sub_wire_sent @ drop 16 (sm_buf st)"
  have "sending f ?b 0 16 (sendPacketBuffernb_start 0 (int 16) (sm_line st))"
    using st c(2) by (intro sending_start) (simp_all add: INT_MAX_def)
  from send_until_done_sends [OF port this, of w] c(2) obtain s' w' where
    "send_until_done ?b (sendPacketBuffernb_start 0 16 (sm_line st)) w = Some (s', w')" "sl_io s' = Some f"
    "inp w' = inp w" "out w' = out w @ sub_wire_sent" by auto
  with c st(2) show ?thesis by (auto simp: serial_subscribe_def)
qed

lemma pub_session_opens:
  assumes port: "serial_port f inp out busy" and st: "sl_io (sm_line st) = Some f" "length (sm_buf st) = 200"
    and trp: "tr_state (sm_trp st) = 0" and un: "length (sa_grantedQoSs (un_suback un)) = 1"
    and i: "inp w = connack_wire 0 sp @ suback_wire 1 [0] @ rest"
  shows "\<exists>st' w'. pub_session un st w = Some (True, st', w') \<and> sl_io (sm_line st') = Some f \<and> length (sm_buf st') = 200 \<and>
    tr_state (sm_trp st') = 0 \<and> inp w' = rest \<and> out w' = out w @ connect_wire (serial_connect_data 20) @ sub_wire_sent"
proof -
  have w1: "connack_wire 0 sp = packet 0x20 [sp AND 1, 0]" by (simp add: connack_wire_def packet_def enc_len_small)
  have w2: "suback_wire 1 [0] = packet 0x90 [0, 1, 0]"
    by (simp add: suback_wire_def packet_def enc_len_small int16_wire_def uchar_def)
  have t: "header_type 0x20 \<noteq> 0" "header_type 0x90 \<noteq> 0" by (simp_all add: header_type_def)
  from serial_connect_sends [OF port st, of 20 w] obtain a wa where
    a: "serial_connect 20 st w = Some (a, wa)" "sl_io (sm_line a) = Some f" "length (sm_buf a) = 200" "sm_trp a = sm_trp st"
    "inp wa = inp w" "out wa = out w @ connect_wire (serial_connect_data 20)" by blast
  have "receiving f inp 0x20 [sp AND 1, 0] (packet 0x90 [0, 1, 0] @ rest) a wa"
    using a trp i t w1 w2 by (intro receiving_start) (simp_all add: packet_def enc_len_small)
  from serial_await_connack_answers [OF port this, of un] obtain b wb where
    b: "serial_await_connack un a wa = Some (True, b, wb)" "received f 0x20 [sp AND 1, 0] b"
    "inp wb = packet 0x90 [0, 1, 0] @ rest" "out wb = out wa" by auto
  have b': "sl_io (sm_line b) = Some f" "length (sm_buf b) = 200" "tr_state (sm_trp b) = 0"
    using b(2) by (simp_all add: received_def)
  from serial_subscribe_sends [OF port b'(1,2), of wb] obtain c wc where
    c: "serial_subscribe b wb = Some (c, wc)" "sl_io (sm_line c) = Some f" "length (sm_buf c) = 200" "sm_trp c = sm_trp b"
    "inp wc = inp wb" "out wc = out wb @ sub_wire_sent" by blast
  have "receiving f inp 0x90 [0, 1, 0] rest c wc"
    using c b(3) b'(3) t by (intro receiving_start) (simp_all add: packet_def enc_len_small)
  from serial_await_suback_answers [OF port un this] obtain d wd where
    d: "serial_await_suback un c wc = Some (True, d, wd)" "received f 0x90 [0, 1, 0] d" "inp wd = rest" "out wd = out wc" by auto
  have "pub_session un st w = Some (True, d, wd)" by (simp add: pub_session_def a(1) b(1) c(1) d(1))
  with a b c d show ?thesis by (auto simp: received_def)
qed

text \<open>C25: \<open>pub0sub1_nb\<close> answers every message. On a line that works, however it cuts
  the bytes and however often it is busy, when the server accepts the connection and the
  subscription and then sends QoS 0 messages that fit the buffer, the program sends its
  CONNECT and SUBSCRIBE packets, and its loop reaches a configuration where every message
  has been read and exactly one whole PUBLISH packet was sent for each.\<close>
theorem serial_session_answers:
  assumes "serial_port f inp out busy" and "\<forall>w. \<not> toStop H w" and "\<forall>m \<in> set ms. qos0_fits m"
    and "sl_io (sm_line st) = Some f" and "length (sm_buf st) = 200" and "tr_state (sm_trp st) = 0"
    and "length (sa_grantedQoSs (un_suback un)) = 1"
    and "inp w = connack_wire 0 sp @ suback_wire 1 [0] @ concat (map qos0_wire ms) @ rest"
  shows "\<exists>st1 w1 st2 w2. pub_session un st w = Some (True, st1, w1) \<and>
    (pub_step H un)\<^sup>*\<^sup>* (READING, st1, w1) (READING, st2, w2) \<and> inp w2 = rest \<and>
    out w2 = out w @ connect_wire (serial_connect_data 20) @ sub_wire_sent @ concat (replicate (length ms) pub_wire)"
proof -
  from pub_session_opens [OF assms(1,4-8)] obtain st1 w1 where
    s: "pub_session un st w = Some (True, st1, w1)" "sl_io (sm_line st1) = Some f" "length (sm_buf st1) = 200"
    "tr_state (sm_trp st1) = 0" "inp w1 = concat (map qos0_wire ms) @ rest"
    "out w1 = out w @ connect_wire (serial_connect_data 20) @ sub_wire_sent" by blast
  from pub_answers [OF assms(1) _ assms(3) s(2-5), of H un] assms(2) obtain st2 w2 where
    "(pub_step H un)\<^sup>*\<^sup>* (READING, st1, w1) (READING, st2, w2)" "inp w2 = rest"
    "out w2 = out w1 @ concat (replicate (length ms) pub_wire)" by blast
  with s show ?thesis by auto
qed

definition demo_messages :: "(byte \<times> byte \<times> MQTTString \<times> byte list) list" where
  "demo_messages = [(0, 0, sample_string (ascii ''substopic''), [1, 2, 3]), (0, 1, sample_string (ascii ''substopic''), [])]"

lemma serial_session_answers_witness:
  "\<exists>st1 w1 st2 w2. pub_session demo_uninit demo_sample
      (connack_wire 0 0 @ suback_wire 1 [0] @ concat (map qos0_wire demo_messages) @ [], []) = Some (True, st1, w1) \<and>
    (pub_step demo_host demo_uninit)\<^sup>*\<^sup>* (READING, st1, w1) (READING, st2, w2) \<and> fst w2 = [] \<and>
    snd w2 = connect_wire (serial_connect_data 20) @ sub_wire_sent @ pub_wire @ pub_wire"
proof -
  have "\<forall>w. \<not> toStop demo_host w" by (simp add: demo_host_def)
  moreover have "\<forall>m \<in> set demo_messages. qos0_fits m"
    by (simp add: demo_messages_def qos0_fits_def qos0_wire_def length_publish_wire length_publish_body enc_len_small)
  moreover have "length (sa_grantedQoSs (un_suback demo_uninit)) = 1" by (simp add: demo_uninit_def)
  moreover have "length demo_messages = Suc (Suc 0)" by (simp add: demo_messages_def)
  ultimately show ?thesis
    using serial_session_answers [OF iof_port [OF demo_link] _ _ demo_sample_fields, of demo_host demo_messages demo_uninit
        "(connack_wire 0 0 @ suback_wire 1 [0] @ concat (map qos0_wire demo_messages) @ [], [])" 0 "[]"]
    by simp
qed

section \<open>A line that is dead\<close>

text \<open>The loop that sends the SUBSCRIBE packet waits for success only: it never ends on a
  line that answers every call with an error.\<close>

lemma dead_line_loops:
  fixes s :: "'a serial" and w :: 'a
  assumes dead: "\<And>mem n w. \<exists>len w'. send mem n w = Some (len, w') \<and> len < 0" and f: "io_send f = Some send"
    and s: "sl_io s = Some f" "sl_from s = Some p"
  shows "send_until_done mem s w = None"
proof -
  have err: "\<exists>w'. sendPacketBuffernb mem s w = Some (TRANSPORT_ERROR, s, w')" for w
    using dead [of "drop p mem" "word_of_int (sl_howmany s)" w] by (auto simp: sendPacketBuffernb_def s f)
  define Q where "Q = (\<lambda>((m, s'), w :: 'a) (r :: 'a serial \<times> 'a). \<not> (m = mem \<and> s' = s))"
  have never: False if "send_until_done mem s w = Some r" for w r
  proof -
    have "Q ((mem, s), w) r"
    proof (rule send_until_done.raw_induct [OF _ that])
      fix go m s' w r
      assume ih: "\<And>m s' w r. go m s' w = Some r \<Longrightarrow> Q ((m, s'), w) r"
        and r: "Option.bind (sendPacketBuffernb m s' w)
          (\<lambda>(rc, s, w). if rc \<noteq> TRANSPORT_DONE then go m s w else Some (s, w)) = Some r"
      have "False" if "m = mem" "s' = s"
        using err [of w] ih [of m s] r that by (cases r) (auto simp: Q_def TRANSPORT_DONE_def TRANSPORT_ERROR_def)
      then show "Q ((m, s'), w) r" by (auto simp: Q_def)
    qed
    then show False by (simp add: Q_def)
  qed
  then show ?thesis by (cases "send_until_done mem s w") auto
qed

end
