(* ===== verification/Socket_Runs.thy ===== *)
theory Socket_Runs
  imports Socket_Samples Serial_Liveness
begin

text \<open>
  What the samples over sockets do: the bytes of \<open>qos0pub\<close>, what \<open>transport_open\<close> reports,
  and the loops that wait on a connection that is gone.
\<close>

section \<open>\<open>qos0pub\<close>\<close>

definition mytopic_wire :: "byte list" where
  "mytopic_wire = publish_wire 0 0 0 0 (sample_string (ascii ''mytopic'')) pub_payload_text"

lemma mytopic_serialized:
  assumes "20 \<le> length buf" and "20 \<le> n"
  shows "MQTTSerialize_publish buf n 0 0 0 0 (sample_string (ascii ''mytopic'')) pub_payload_text
      (int_of_size (length pub_payload_text)) = Some (20, mytopic_wire @ drop 20 buf)"
    and "length mytopic_wire = 20"
proof -
  let ?t = "sample_string (ascii ''mytopic'')"
  have l: "length (publish_body 0 0 ?t pub_payload_text) = 18" by (simp add: length_publish_body pub_payload_length)
  have sz: "MQTTPacket_len (int (length (publish_body 0 0 ?t pub_payload_text))) = Some 20"
    by (simp add: l MQTTPacket_len_def cint_def INT_MIN_def INT_MAX_def)
  show w: "length mytopic_wire = 20" by (simp add: mytopic_wire_def length_publish_wire l enc_len_small)
  have "MQTTSerialize_publish buf n 0 0 0 0 ?t pub_payload_text (int (length pub_payload_text)) = emit buf mytopic_wire"
    using serialize_publish_emit [OF _ _ sz, of buf n 0 0] l assms(2) by (simp add: mytopic_wire_def)
  then show "MQTTSerialize_publish buf n 0 0 0 0 ?t pub_payload_text (int_of_size (length pub_payload_text)) =
      Some (20, mytopic_wire @ drop 20 buf)" using assms w by (simp add: pub_payload_length(2) emit_fits)
qed

lemma disconnect_serialized:
  assumes "2 \<le> length buf" and "2 \<le> n"
  shows "MQTTSerialize_disconnect buf n = Some (2, [0xE0, 0] @ drop 2 buf)"
  using assms by (simp add: MQTTSerialize_disconnect_def serialize_zero_emit emit_fits set_type_def numeral_2_eq_2)

text \<open>The three packets behind one another.\<close>

definition qos0pub_wire :: "byte list" where
  "qos0pub_wire = connect_wire (serial_connect_data 20) @ mytopic_wire @ [0xE0, 0]"

lemma qos0pub_wire_length: "length qos0pub_wire = 62"
  using connect_serialized(2) [of "replicate 200 0" 20] mytopic_serialized(2) [of "replicate 20 0" 20]
  by (simp add: qos0pub_wire_def)

lemma version_4: "(serial_connect_data ka)\<lparr>cd_MQTTVersion := 4\<rparr> = serial_connect_data ka"
  by (simp add: serial_connect_data_def MQTTPacket_connectData_initializer_def)

lemma qos0pub_serialized:
  assumes "length buf = 200"
  shows "\<exists>rest. qos0pub_packets buf = Some (62, qos0pub_wire @ rest)"
proof -
  note c = connect_serialized [OF assms, of 20]
  let ?c = "connect_wire (serial_connect_data 20)"
  have t: "take 40 (?c @ xs) = ?c" "drop 40 (?c @ xs) = xs" for xs using c(2) by simp_all
  have t': "take 60 (?c @ mytopic_wire @ xs) = ?c @ mytopic_wire" "drop 60 (?c @ mytopic_wire @ xs) = xs" for xs
    using c(2) mytopic_serialized(2) [of "replicate 20 0" 20] by simp_all
  have n: "length (?c @ xs) = 40 + length xs" for xs using c(2) by simp
  have m: "length mytopic_wire = 20" using mytopic_serialized(2) [of "replicate 20 0" 20] by simp
  have p: "append_packet (40, ?c @ drop 40 buf) (\<lambda>b n. MQTTSerialize_publish b n 0 0 0 0
      (sample_string (ascii ''mytopic'')) pub_payload_text (int_of_size (length pub_payload_text))) =
      Some (60, ?c @ mytopic_wire @ drop 60 buf)"
    using assms by (simp add: append_packet_def n t c(2) mytopic_serialized(1) sample_buflen_def cint_def INT_MIN_def INT_MAX_def)
  have "append_packet (60, ?c @ mytopic_wire @ drop 60 buf) MQTTSerialize_disconnect =
      Some (62, ?c @ mytopic_wire @ [0xE0, 0] @ drop 62 buf)"
    using assms by (simp add: append_packet_def n m t' c(2) disconnect_serialized sample_buflen_def cint_def INT_MIN_def INT_MAX_def)
  with p c(1) show ?thesis by (simp add: qos0pub_packets_def version_4 qos0pub_wire_def)
qed

text \<open>\<open>qos0pub\<close> sends a whole session in one piece: when the transport opens, the
  one buffer that is written holds the CONNECT packet, the PUBLISH packet and the
  DISCONNECT packet, one directly behind the other, and then the socket is closed.\<close>
theorem qos0pub_sends_session:
  assumes "sample_port argv = Some port" and "sock_open S (sample_host argv) port w = Some (mysock, static, w1)"
    and "0 \<le> mysock" and "length (un_buf un) = 200"
  shows "qos0pub_main S un argv w =
    Some (0, snd (sock_close S mysock (snd (so_write S mysock
      (connect_wire (serial_connect_data 20) @ mytopic_wire @ [0xE0, 0]) w1))))"
proof -
  from qos0pub_serialized [OF assms(4)] obtain rest where "qos0pub_packets (un_buf un) = Some (62, qos0pub_wire @ rest)" by blast
  then have "sock_send S mysock (qos0pub_packets (un_buf un)) w1 =
      Some (qos0pub_wire @ rest, snd (so_write S mysock qos0pub_wire w1))"
    by (simp add: sock_send_def sock_sendPacketBuffer_def qos0pub_wire_length split_def)
  with assms(1-3) show ?thesis by (simp add: qos0pub_main_def sock_program_def qos0pub_wire_def)
qed

section \<open>What opening reports\<close>

text \<open>\<open>transport_open\<close> of the socket samples never reports that a connection was
  refused: the result is the descriptor of the socket whatever \<open>connect\<close> returned, and when
  no socket can be made it is 0, which its callers take for a descriptor.\<close>
theorem refused_connection_reported_open:
  assumes "sock_resolve S (case addr of c # cs \<Rightarrow> if c = 0x5B then cs else addr | [] \<Rightarrow> addr) port w =
      Some (0, family, Some address, w1)"
    and "so_socket S family w1 = (fd, w2)" and "so_connect S fd address w2 = (rc, w3)"
  shows "sock_open S addr port w =
    (if fd = -1 then Some (0, -1, w2) else Some (fd, fd, so_rcvtimeo S fd (1, 0) w3))"
  using assms by (simp add: sock_open_def)

text \<open>A world is what was written; the connection is refused.\<close>

definition demo_sockets :: "byte list sockets" where
  "demo_sockets = \<lparr>
     so_getaddrinfo = \<lambda>h w. (0, [\<lparr>sa_family = 10, sa_inet = 0, sa_inet6 = 5\<rparr>, \<lparr>sa_family = 2, sa_inet = 7, sa_inet6 = 0\<rparr>], w),
     so_freeaddrinfo = \<lambda>a w. w, so_htons = \<lambda>p. p, so_socket = \<lambda>f w. (4, w), so_connect = \<lambda>s a w. (-1, w),
     so_rcvtimeo = \<lambda>s t w. w, so_write = \<lambda>s bs w. (int (length bs), w @ bs), so_recv = \<lambda>s n w. (-1, [], w),
     so_shutdown = \<lambda>s w. w, so_close = \<lambda>s w. (0, w), so_time = \<lambda>w. (0, w), so_toStop = \<lambda>w. False\<rparr>"

lemma refused_connection_reported_open_witness:
  "so_connect demo_sockets 4 (Inet 7 1883) [] = (-1, []) \<and>
   sock_open demo_sockets (ascii ''m2m.eclipse.org'') 1883 [] = Some (4, 4, [])"
proof -
  let ?a = "ascii ''m2m.eclipse.org''"
  have a: "(case ?a of c # cs \<Rightarrow> if c = 0x5B then cs else ?a | [] \<Rightarrow> ?a) = ?a" by (simp add: ascii_def)
  have r: "sock_resolve demo_sockets (case ?a of c # cs \<Rightarrow> if c = 0x5B then cs else ?a | [] \<Rightarrow> ?a) 1883 [] =
      Some (0, AF_INET, Some (Inet 7 1883), [])"
    unfolding a by (simp add: sock_resolve_def demo_sockets_def prefer_inet_def AF_INET_def AF_INET6_def)
  have s: "so_socket demo_sockets AF_INET [] = (4, [])" by (simp add: demo_sockets_def)
  have c: "so_connect demo_sockets 4 (Inet 7 1883) [] = (-1, [])" by (simp add: demo_sockets_def)
  show ?thesis using refused_connection_reported_open [OF r s c] c by (simp add: demo_sockets_def)
qed

lemma qos0pub_sends_session_witness:
  "qos0pub_main demo_sockets demo_uninit [] [] = Some (0, connect_wire (serial_connect_data 20) @ mytopic_wire @ [0xE0, 0])"
proof -
  have o: "sock_open demo_sockets (sample_host []) 1883 [] = Some (4, 4, [])"
    by (simp add: sock_open_def sock_resolve_def demo_sockets_def prefer_inet_def AF_INET_def AF_INET6_def sample_host_def ascii_def)
  show ?thesis
    using qos0pub_sends_session [OF _ o] by (simp add: sample_port_def demo_uninit_def sock_close_def demo_sockets_def)
qed

section \<open>A connection that is gone\<close>

text \<open>\<open>transport_getdatanb\<close> gives 0 for an error, which says that there is no data yet. So the
  wait for a packet does not end when the connection has failed.\<close>

lemma failed_connection_polls:
  fixes S :: "'w sockets"
  assumes gone: "\<And>s n w. \<exists>w'. so_recv S s n w = (-1, [], w')" and t: "tr_state trp = 0"
  shows "sock_poll S mysock t accept buf trp w = None"
proof -
  define Q where "Q = (\<lambda>((((((S' :: 'w sockets, mysock' :: int), t' :: msgTypes), accept' :: buffer \<Rightarrow> bool option), buf' :: buffer),
      trp' :: MQTTTransport), w :: 'w) (r :: bool \<times> buffer \<times> MQTTTransport \<times> 'w). \<not> (S' = S \<and> tr_state trp' = 0))"
  have poll: "\<exists>w'. MQTTPacket_readnb (sock_getdatanb S m) b sample_buflen t w = Some (0, b, t, w')"
    if "tr_state t = 0" for m b t w
  proof -
    have "\<exists>w'. sock_getdatanb S m w 1 = Some (0, [], w')" using gone [of m 1 w] by (auto simp: sock_getdatanb_def)
    then obtain w' where "sock_getdatanb S m w 1 = Some (0, [], w')" by blast
    moreover have "blit b 0 [] = Some b" by (simp add: blit_def put_Nil)
    ultimately show ?thesis using that by (simp add: MQTTPacket_readnb_def readnb_case0_def)
  qed
  have never: False if "sock_poll S mysock t accept buf trp w = Some r" for r
  proof -
    have "Q ((((((S, mysock), t), accept), buf), trp), w) r"
    proof (rule sock_poll.raw_induct [OF _ that])
      fix go S' m' t' a' b' trp' w r
      assume ih: "\<And>S' m' t' a' b' trp' w r. go S' m' t' a' b' trp' w = Some r \<Longrightarrow> Q ((((((S', m'), t'), a'), b'), trp'), w) r"
        and r: "Option.bind (MQTTPacket_readnb (sock_getdatanb S' m') b' sample_buflen trp' w)
          (\<lambda>(frc, buf, trp, w). if frc = uint (msg_code t') then Option.bind (a' buf) (\<lambda>ok. Some (ok, buf, trp, w))
            else if frc = - 1 then Some (False, buf, trp, w) else go S' m' t' a' buf trp w) = Some r"
      have False if eq: "S' = S" and z: "tr_state trp' = 0"
      proof -
        obtain w' where "MQTTPacket_readnb (sock_getdatanb S m') b' sample_buflen trp' w = Some (0, b', trp', w')"
          using poll [OF z] eq by blast
        moreover have "uint (msg_code t') \<noteq> 0" by (cases t') simp_all
        ultimately have "go S m' t' a' b' trp' w' = Some r" using r eq by (simp split: if_splits)
        from ih [OF this] z show False by (cases r) (simp add: Q_def)
      qed
      then show "Q ((((((S', m'), t'), a'), b'), trp'), w) r" by (cases r) (auto simp: Q_def)
    qed
    with t show False by (cases r) (simp add: Q_def)
  qed
  then show ?thesis by (cases "sock_poll S mysock t accept buf trp w") auto
qed

end
