(* ===== verification/Cpp_Samples.thy ===== *)
theory Cpp_Samples
  imports Cpp_Handlers Linux_Stack Packet_Format
begin

text \<open>
  The programs \<open>stdoutsub.cpp\<close> and \<open>hello.cpp\<close> of \<open>paho/MQTTClient/samples/linux\<close>: the
  command line of the first, what it prints for a message, and both programs over the
  C++ client with the Linux classes as its template arguments. Other messages the
  programs print are not modelled. \<open>toStop\<close> and \<open>arrivedcount\<close>, which a signal handler and
  a callback change, are properties of the world.
\<close>

section \<open>The command line of \<open>stdoutsub\<close>\<close>

record opts =
  o_clientid :: "byte list"
  o_nodelimiter :: bool
  o_delimiter :: "byte list"
  o_qos :: int
  o_username :: "byte list option"
  o_password :: "byte list option"
  o_host :: "byte list"
  o_port :: int
  o_showtopics :: bool

definition default_opts :: opts where
  "default_opts = \<lparr>
     o_clientid = ascii ''stdout-subscriber'', o_nodelimiter = False, o_delimiter = [0x0A], o_qos = 2,
     o_username = None, o_password = None, o_host = ascii ''localhost'', o_port = 1883, o_showtopics = False\<rparr>"

text \<open>\<open>usage\<close> ends the process; \<open>Inl\<close> is the argument of \<open>exit\<close>.\<close>

definition usage :: "(int + opts) option" where
  "usage = Some (Inl (-1))"

definition qos_of :: "byte list \<Rightarrow> int option" where
  "qos_of v = (if v = ascii ''0'' then Some 0 else if v = ascii ''1'' then Some 1 else if v = ascii ''2'' then Some 2 else None)"

definition on_off :: "byte list \<Rightarrow> bool option" where
  "on_off v = (if v = ascii ''on'' then Some True else if v = ascii ''off'' then Some False else None)"

text \<open>One option and the argument behind it, \<open>None\<close> at the end of the command line. An
  argument that is no option is skipped.\<close>

definition takes_value :: "byte list \<Rightarrow> bool" where
  "takes_value a \<longleftrightarrow> a \<in> set (map ascii [''--qos'', ''--host'', ''--port'', ''--clientid'', ''--username'', ''--password'',
     ''--delimiter'', ''--showtopics''])"

definition set_option :: "opts \<Rightarrow> byte list \<Rightarrow> byte list \<Rightarrow> (int + opts) option" where
  "set_option o' a v =
     (if a = ascii ''--qos'' then (case qos_of v of None \<Rightarrow> usage | Some q \<Rightarrow> Some (Inr (o'\<lparr>o_qos := q\<rparr>)))
      else if a = ascii ''--host'' then Some (Inr (o'\<lparr>o_host := v\<rparr>))
      else if a = ascii ''--port'' then do { n \<leftarrow> atoi v; Some (Inr (o'\<lparr>o_port := n\<rparr>)) }
      else if a = ascii ''--clientid'' then Some (Inr (o'\<lparr>o_clientid := v\<rparr>))
      else if a = ascii ''--username'' then Some (Inr (o'\<lparr>o_username := Some v\<rparr>))
      else if a = ascii ''--password'' then Some (Inr (o'\<lparr>o_password := Some v\<rparr>))
      else if a = ascii ''--delimiter'' then Some (Inr (o'\<lparr>o_delimiter := v\<rparr>))
      else (case on_off v of None \<Rightarrow> usage | Some b \<Rightarrow> Some (Inr (o'\<lparr>o_showtopics := b\<rparr>))))"

definition missing_value :: "opts \<Rightarrow> byte list \<Rightarrow> (int + opts) option" where
  "missing_value o' a = (if a = ascii ''--delimiter'' then Some (Inr (o'\<lparr>o_nodelimiter := True\<rparr>)) else usage)"

text \<open>The loop of \<open>getopts\<close>, over the arguments from \<open>argv[count]\<close> on.\<close>

fun getopts_loop :: "opts \<Rightarrow> byte list list \<Rightarrow> (int + opts) option" where
  "getopts_loop o' [] = Some (Inr o')"
| "getopts_loop o' [a] = (if takes_value a then missing_value o' a else Some (Inr o'))"
| "getopts_loop o' (a # v # rest) =
     (if takes_value a then do {
        r \<leftarrow> set_option o' a v;
        (case r of Inl code \<Rightarrow> Some (Inl code) | Inr o' \<Rightarrow> getopts_loop o' rest) }
      else getopts_loop o' (v # rest))"

definition getopts :: "opts \<Rightarrow> byte list list \<Rightarrow> (int + opts) option" where
  "getopts o' argv = getopts_loop o' (drop 2 argv)"

section \<open>What it prints\<close>

text \<open>\<open>messageArrived\<close>: the text on the standard output. \<open>None\<close> is reading outside the
  topic or the payload.\<close>

definition stdout_line :: "opts \<Rightarrow> MQTTLenString \<Rightarrow> Message \<Rightarrow> byte list option" where
  "stdout_line o' topicName message = do {
     t \<leftarrow> (if o_showtopics o' then do {
            data \<leftarrow> ls_data topicName;
            s \<leftarrow> cut_string (ls_len topicName) data;
            Some (s @ [0x09]) }
          else Some []);
     p \<leftarrow> cut_string (sint (m_payloadlen message)) (m_payload message);
     Some (t @ p @ (if o_nodelimiter o' then [] else o_delimiter o')) }"

section \<open>\<open>stdoutsub\<close>\<close>

text \<open>The parameters of the programs: the socket calls, the environment of the client
  without its network and timers, what uninitialised members and locals hold, the number
  of the callback, and what other parts of the process change.\<close>

record ('w, 'c) app =
  ap_posix :: "'w posix"
  ap_env :: "('w, tv) env"
  ap_config :: config
  ap_memory :: "'c"
  ap_mysock :: int
  ap_end_time :: tv
  ap_connack :: connackData
  ap_granted :: int
  ap_message_id :: "16 word"
  ap_callback :: nat
  ap_toStop :: "'w \<Rightarrow> bool"
  ap_arrived :: "'w \<Rightarrow> int"

definition app_env :: "('w, tv Client) app \<Rightarrow> int \<Rightarrow> ('w, tv) env" where
  "app_env A mysock = linux_env (ap_posix A) mysock (ap_end_time A) (ap_env A)"

definition stdoutsub_data :: "opts \<Rightarrow> MQTTPacket_connectData" where
  "stdoutsub_data o' = MQTTPacket_connectData_initializer\<lparr>
     cd_willFlag := 0, cd_MQTTVersion := 3,
     cd_clientID := MQTTString_initializer\<lparr>cstring := Some (o_clientid o')\<rparr>,
     cd_username := MQTTString_initializer\<lparr>cstring := o_username o'\<rparr>,
     cd_password := MQTTString_initializer\<lparr>cstring := o_password o'\<rparr>,
     cd_keepAliveInterval := 10, cd_cleansession := 1\<rparr>"

text \<open>\<open>Inl\<close> is the argument of \<open>exit\<close>.\<close>

definition myconnect ::
  "('w, tv Client) app \<Rightarrow> opts \<Rightarrow> tv Client \<Rightarrow> MQTTPacket_connectData \<Rightarrow> 'w \<Rightarrow> ((int + int \<times> tv Client) \<times> 'w) option" where
  "myconnect A o' c data w = do {
     (rc, mysock, w) \<leftarrow> linux_connect (ap_posix A) (ap_mysock A) (o_host o') (o_port o') w;
     (rc, c, w) \<leftarrow> cpp_connect_options (app_env A mysock) (ap_config A) c data (ap_connack A) w;
     Some (if rc \<noteq> 0 then Inl (-1) else Inr (mysock, c), w) }"

partial_function (option) stdoutsub_loop ::
  "('w, tv Client) app \<Rightarrow> int \<Rightarrow> tv Client \<Rightarrow> 'w \<Rightarrow> (tv Client \<times> 'w) option" where
  "stdoutsub_loop A mysock c w =
     (if ap_toStop A w then Some (c, w)
      else do {
        (rc, c, w) \<leftarrow> cpp_yield (app_env A mysock) (ap_config A) c 1000 w;
        stdoutsub_loop A mysock c w })"

definition has_wildcard :: "byte list \<Rightarrow> bool" where
  "has_wildcard topic \<longleftrightarrow> find_char topic 0x23 \<noteq> None \<or> find_char topic 0x2B \<noteq> None"

definition stdoutsub_run :: "('w, tv Client) app \<Rightarrow> opts \<Rightarrow> byte list \<Rightarrow> 'w \<Rightarrow> (int \<times> 'w) option" where
  "stdoutsub_run A o' topic w =
     (let cfg = ap_config A;
          (c, w) = Client_new (app_env A (ap_mysock A)) cfg (ap_memory A) w
      in do {
        (r, w) \<leftarrow> myconnect A o' c (stdoutsub_data o') w;
        (case r of
           Inl code \<Rightarrow> Some (code, w)
         | Inr (mysock, c) \<Rightarrow> do {
             (rc, c, w) \<leftarrow> cpp_subscribe_function (app_env A mysock) cfg c topic (o_qos o') (ap_callback A) (ap_granted A) w;
             (c, w) \<leftarrow> stdoutsub_loop A mysock c w;
             (rc, c, w) \<leftarrow> cpp_disconnect (app_env A mysock) cfg c w;
             Some (0, snd (linux_disconnect (ap_posix A) mysock w)) }) })"

definition stdoutsub_main :: "('w, tv Client) app \<Rightarrow> byte list list \<Rightarrow> 'w \<Rightarrow> (int \<times> 'w) option" where
  "stdoutsub_main A argv w =
     (if length argv < 2 then Some (-1, w)
      else do {
        let topic = argv ! 1;
        r \<leftarrow> getopts (if has_wildcard topic then default_opts\<lparr>o_showtopics := True\<rparr> else default_opts) argv;
        (case r of Inl code \<Rightarrow> Some (code, w) | Inr o' \<Rightarrow> stdoutsub_run A o' topic w) })"

section \<open>\<open>hello\<close>\<close>

definition hello_text :: "int \<Rightarrow> byte list" where
  "hello_text qos = ascii ''Hello World!  QoS '' @ dec qos @ ascii '' message from app version 0.300000''"

definition hello_message :: "('w, tv Client) app \<Rightarrow> int \<Rightarrow> Message" where
  "hello_message A qos = \<lparr>
     m_qos = qos, m_retained = 0, m_dup = 0, m_id = ap_message_id A,
     m_payload = hello_text qos @ [0], m_payloadlen = word_of_nat (length (hello_text qos) + 1)\<rparr>"

partial_function (option) hello_wait ::
  "('w, tv Client) app \<Rightarrow> int \<Rightarrow> int \<Rightarrow> tv Client \<Rightarrow> 'w \<Rightarrow> (tv Client \<times> 'w) option" where
  "hello_wait A mysock n c w =
     (if ap_arrived A w = n then do {
        (rc, c, w) \<leftarrow> cpp_yield (app_env A mysock) (ap_config A) c 100 w;
        hello_wait A mysock n c w }
      else Some (c, w))"

definition hello_topic :: "byte list" where
  "hello_topic = ascii ''mbed-sample''"

text \<open>Publishing with QoS \<open>qos\<close>. Only the last wait does not depend on the result.\<close>

definition hello_publish ::
  "('w, tv Client) app \<Rightarrow> int \<Rightarrow> int \<Rightarrow> tv Client \<Rightarrow> 'w \<Rightarrow> (tv Client \<times> 'w) option" where
  "hello_publish A mysock qos c w = do {
     (rc, c, w) \<leftarrow> cpp_publish_message (app_env A mysock) (ap_config A) c hello_topic (hello_message A qos) w;
     (if rc \<noteq> 0 \<and> qos < 2 then Some (c, w) else hello_wait A mysock qos c w) }"

definition hello_data :: MQTTPacket_connectData where
  "hello_data = MQTTPacket_connectData_initializer\<lparr>
     cd_MQTTVersion := 3, cd_clientID := MQTTString_initializer\<lparr>cstring := Some (ascii ''mbed-icraggs'')\<rparr>\<rparr>"

definition hello_main :: "('w, tv Client) app \<Rightarrow> 'w \<Rightarrow> (int \<times> 'w) option" where
  "hello_main A w =
     (let cfg = ap_config A;
          (c, w) = Client_new (app_env A (ap_mysock A)) cfg (ap_memory A) w
      in do {
        (rc, mysock, w) \<leftarrow> linux_connect (ap_posix A) (ap_mysock A) (ascii ''iot.eclipse.org'') 1883 w;
        (rc, c, w) \<leftarrow> cpp_connect_options (app_env A mysock) cfg c hello_data (ap_connack A) w;
        (rc, c, w) \<leftarrow> cpp_subscribe_function (app_env A mysock) cfg c hello_topic 2 (ap_callback A) (ap_granted A) w;
        (c, w) \<leftarrow> hello_publish A mysock 0 c w;
        (c, w) \<leftarrow> hello_publish A mysock 1 c w;
        (c, w) \<leftarrow> hello_publish A mysock 2 c w;
        (rc, c, w) \<leftarrow> cpp_unsubscribe (app_env A mysock) cfg c hello_topic w;
        (rc, c, w) \<leftarrow> cpp_disconnect (app_env A mysock) cfg c w;
        Some (0, snd (linux_disconnect (ap_posix A) mysock w)) })"

section \<open>The command line is read back\<close>

datatype setting = Qos nat | Host "byte list" | Port nat | ClientId "byte list" | Username "byte list"
  | Password "byte list" | Delimiter "byte list" | ShowTopics bool

text \<open>How a setting is written on the command line, and what it means.\<close>

fun setting_args :: "setting \<Rightarrow> byte list list" where
  "setting_args (Qos n) = [ascii ''--qos'', dec_nat n]"
| "setting_args (Host h) = [ascii ''--host'', h]"
| "setting_args (Port n) = [ascii ''--port'', dec_nat n]"
| "setting_args (ClientId i) = [ascii ''--clientid'', i]"
| "setting_args (Username u) = [ascii ''--username'', u]"
| "setting_args (Password p) = [ascii ''--password'', p]"
| "setting_args (Delimiter d) = [ascii ''--delimiter'', d]"
| "setting_args (ShowTopics b) = [ascii ''--showtopics'', if b then ascii ''on'' else ascii ''off'']"

fun apply_setting :: "setting \<Rightarrow> opts \<Rightarrow> opts" where
  "apply_setting (Qos n) o' = o'\<lparr>o_qos := int n\<rparr>"
| "apply_setting (Host h) o' = o'\<lparr>o_host := h\<rparr>"
| "apply_setting (Port n) o' = o'\<lparr>o_port := int n\<rparr>"
| "apply_setting (ClientId i) o' = o'\<lparr>o_clientid := i\<rparr>"
| "apply_setting (Username u) o' = o'\<lparr>o_username := Some u\<rparr>"
| "apply_setting (Password p) o' = o'\<lparr>o_password := Some p\<rparr>"
| "apply_setting (Delimiter d) o' = o'\<lparr>o_delimiter := d\<rparr>"
| "apply_setting (ShowTopics b) o' = o'\<lparr>o_showtopics := b\<rparr>"

fun setting_ok :: "setting \<Rightarrow> bool" where
  "setting_ok (Qos n) = (n \<le> 2)"
| "setting_ok (Port n) = (int n \<le> INT_MAX)"
| "setting_ok _ = True"

lemma atoi_dec_nat: "int n \<le> INT_MAX \<Longrightarrow> atoi (dec_nat n) = Some (int n)"
  using scan_number_dec [of "[]" n] by (simp add: atoi_def cint_def INT_MIN_def)

lemma qos_of_dec: "n \<le> 2 \<Longrightarrow> qos_of (dec_nat n) = Some (int n)"
proof -
  assume "n \<le> 2"
  then have "n = 0 \<or> n = 1 \<or> n = 2" by auto
  then show ?thesis by (elim disjE) (simp_all add: qos_of_def dec_nat.simps ascii_def)
qed

lemma setting_read:
  assumes "setting_ok s"
  shows "\<exists>a v. setting_args s = [a, v] \<and> takes_value a \<and> set_option o' a v = Some (Inr (apply_setting s o'))"
  using assms
  by (cases s) (simp_all add: takes_value_def set_option_def ascii_def atoi_dec_nat qos_of_dec on_off_def)

lemma getopts_loop_reads:
  assumes "\<forall>s \<in> set ss. setting_ok s"
  shows "getopts_loop o' (concat (map setting_args ss)) = Some (Inr (fold apply_setting ss o'))"
  using assms
proof (induction ss arbitrary: o')
  case (Cons s ss)
  then obtain a v where "setting_args s = [a, v]" "takes_value a" "set_option o' a v = Some (Inr (apply_setting s o'))"
    using setting_read [of s o'] by auto
  with Cons show ?case by simp
qed simp

text \<open>The command line of \<open>stdoutsub\<close> is read back: settings written as options, in
  any order and number, give exactly the options with these settings applied one after the
  other, so the last one of a kind counts. A value is taken as it is, even when it looks
  like an option.\<close>
theorem getopts_reads_settings:
  assumes "\<forall>s \<in> set ss. setting_ok s"
  shows "getopts o' (prog # topic # concat (map setting_args ss)) = Some (Inr (fold apply_setting ss o'))"
  using getopts_loop_reads [OF assms] by (simp add: getopts_def)

lemma getopts_reads_settings_witness:
  "getopts default_opts (ascii ''stdoutsub'' # ascii ''a/b'' #
      concat (map setting_args [Port 8883, Host (ascii ''--port''), Qos 1, Qos 0])) =
    Some (Inr (default_opts\<lparr>o_port := 8883, o_host := ascii ''--port'', o_qos := 0\<rparr>))"
  using getopts_reads_settings [of "[Port 8883, Host (ascii ''--port''), Qos 1, Qos 0]" default_opts]
  by (simp add: INT_MAX_def default_opts_def)

end
