(* ===== verification/Spec2Isabelle.thy ===== *)
theory Spec2Isabelle
  imports Client_Session FreeRTOS_Connect Packet_Format Cpp_Reach Client_Deliver
    Tls_Verify Lwip_Owner Lwip_Udp Ftp_Transfer Http_Tls Http_Upload
    Ppp_Adapter Linux_Stack Arduino_Stack Socket_Runs Cpp_Samples
begin

text \<open>
  \<^bold>\<open>What is verified.\<close> FEmbed-Lwip is a network library for microcontrollers with
  FreeRTOS and lwIP. It holds the Paho MQTT packet library and two MQTT clients, the
  platform they run on, and the Arduino style classes for TCP, UDP, TLS, FTP and HTTP.
  The development models these parts function by function, and states what makes them
  correct. Paths below are under \<open>src/\<close>.

  \<^bold>\<open>Parts and how they interact.\<close>

  \<^item> MQTT packets (\<open>paho/MQTTPacket/src/\<close>). \<open>Packet_Base\<close>: header bits, remaining
    length, integers and strings of \<open>MQTTPacket.c\<close>. \<open>Packet_Read\<close>: the blocking and the
    resumable packet reader. \<open>Packet_Publish\<close>, \<open>Packet_Connect\<close>, \<open>Packet_Subscribe\<close> and
    \<open>Packet_Unsubscribe\<close>: the serializers and deserializers of both sides, file by file.
    \<open>Packet_Format\<close>: the printable summaries of \<open>MQTTFormat.c\<close>.
  \<^item> The C client (\<open>paho/MQTTClient-C/src/MQTTClient.c\<close>). \<open>Topic_Match\<close> and
    \<open>Handler_Table\<close>: topic filters and the array of message handlers. \<open>Client_Core\<close>: the
    state and the functions from \<open>sendPacket\<close> to \<open>cycle\<close>; \<open>Client_Api\<close>: the public
    operations, which call them and the packet functions under one mutex.
  \<^item> The C++ client (\<open>paho/MQTTClient/src/MQTTClient.h\<close>, \<open>FP.h\<close>). \<open>Cpp_Client\<close>,
    \<open>Cpp_Handlers\<close> and \<open>Cpp_Api\<close>, with the message kept for resending, the table of
    incoming QoS 2 identifiers and the callback objects.
  \<^item> The FreeRTOS platform (\<open>paho/MQTTClient-C/src/FreeRTOS/MQTTFreeRTOS.c\<close>).
    \<open>FreeRTOS_Port\<close>: threads, mutex, timers, sockets; \<open>FreeRTOS_Tls\<close>: the TLS network.
  \<^item> The network classes. \<open>Lwip_Tcp\<close>: \<open>TCPClient.cpp\<close>, \<open>TCPServer.cpp\<close>. \<open>Lwip_Udp\<close>:
    \<open>UDPClient.cpp\<close>, \<open>UDPServer.cpp\<close>. \<open>Tls_Names\<close> and \<open>Tls_Client\<close>: \<open>ssl_client.cpp\<close>;
    \<open>Tls_Secure\<close>: \<open>TCPClientSecure.cpp\<close>, which calls it. \<open>Ftp_Base\<close> and \<open>Ftp_Client\<close>:
    \<open>FTPClient.cpp\<close> over \<open>TCPClient\<close>. \<open>Http_Env\<close>, \<open>Http_Client\<close>, \<open>Http_Request\<close> and
    \<open>Http_Body\<close>: \<open>HTTPClient.cpp\<close>, which holds a pointer to a \<open>TCPClient\<close> or a
    \<open>TCPClientSecure\<close> and calls its methods. \<open>Ppp_Adapter\<close>: \<open>PPPAdapter.cpp\<close> and
    \<open>SNTP.cpp\<close>.
  \<^item> The platforms of the C++ client (\<open>paho/MQTTClient/src/\<close>). \<open>Linux_Stack\<close>:
    \<open>linux/linux.cpp\<close>; \<open>Arduino_Stack\<close>: the headers in \<open>arduino/\<close> and \<open>mbed/\<close>. Both give the
    template arguments of the client (\<open>linux_env\<close>, \<open>arduino_env\<close>).
  \<^item> The samples. \<open>Serial_Line\<close> and \<open>Serial_Samples\<close>: the serial transport, the simulated
    line and the programs of \<open>paho/MQTTPacket/samples/baremetalserial\<close>. \<open>Socket_Samples\<close>:
    \<open>transport.c\<close> of \<open>paho/MQTTPacket/samples\<close> and the five programs over it. They call the
    packet functions directly and keep their own state machines. \<open>Cpp_Samples\<close>:
    \<open>stdoutsub.cpp\<close> and \<open>hello.cpp\<close> of \<open>paho/MQTTClient/samples/linux\<close>, the C++ client with
    the classes of \<open>Linux_Stack\<close>.
  \<^item> \<open>Prelude\<close>: bytes, C integers and checked memory accesses; \<open>Text_Base\<close>: decimal
    numbers and the scanning functions of the C library.

  \<^bold>\<open>Conventions.\<close> A structure or a class is a record with the members of the source; a
  function or method takes the state of its objects and returns it. A pointer into a
  buffer is an offset, and a buffer is the list of the bytes of the object; \<open>load\<close>,
  \<open>store\<close> and \<open>memcpy\<close> check every access. An \<open>int\<close> is an integer checked by \<open>cint\<close>;
  unsigned types are words, and their arithmetic wraps. \<open>None\<close> is undefined behaviour
  (an access outside an object, a signed overflow) or a call that does not return, so
  that a theorem with a result \<open>Some\<close> is a theorem on memory safety and termination as
  well. A loop that may run for ever is a \<open>partial_function (option)\<close>; the main loops of
  the bare metal samples are step relations as well. No fuel is used:
  the resumable reader and the other bounded theorems say how many calls are enough.

  \<^bold>\<open>Parameters.\<close> What the repository does not contain is a record of functions on a
  world of an arbitrary type: \<open>platform\<close> (timers, network and mutex of the C client),
  \<open>env\<close> (template arguments and heap of the C++ client), \<open>os\<close> (FreeRTOS, sockets and
  TLS library of the platform), \<open>lwip\<close> (lwIP), \<open>tls\<close> (mbedTLS and the Arduino stream),
  \<open>ftp_env\<close> (\<open>Print::printf\<close> and the files), \<open>http_env\<close> (the methods behind the pointer,
  the stream of the caller, heap and clock) and \<open>string_ops\<close> (the Arduino \<open>String\<close>),
  \<open>ppp\<close>, \<open>sntp\<close>, \<open>posix\<close>, \<open>arduino\<close> and \<open>mbed\<close> (what the adapters and platforms call),
  \<open>iofunctions\<close>, \<open>hostsys\<close>, \<open>sockets\<close> and \<open>app\<close> (the serial line, the C library and the
  rest of the process under the samples). Where a theorem relies on documented behaviour of
  such code, it is a predicate in its hypotheses (\<open>ideal_net\<close>, \<open>tick_clock\<close>,
  \<open>stream_socket\<close>, \<open>serves\<close>, \<open>errors_negative\<close>, \<open>http_net\<close>, \<open>arduino_strings\<close>,
  \<open>upload_net\<close>, \<open>serial_port\<close>, \<open>line_honest\<close> and the like), and a witness applies the
  theorem to a concrete instance.

  \<^bold>\<open>What the lemmas show.\<close>

  \<^item> Every packet: the exact bytes of the serializers, in terms of \<open>put\<close> and \<open>wire\<close>
    functions; the round trip through the deserializer of the other side; what the
    deserializers do on arbitrary bytes. The locales \<open>byte_source\<close>, \<open>field_writer\<close> and
    \<open>field_codec\<close> of \<open>Packet_Base\<close> are the interfaces, interpreted on the primitives.
  \<^item> The readers: a packet is delivered however the transport cuts it (\<open>Packet_Read\<close>), and
    the states of the resumable reader have a type that every call keeps, whatever arrives
    (\<open>Packet_Poll\<close>).
  \<^item> The C client: \<open>Client_Inv\<close> (what each function leaves alone, and the invariant),
    \<open>Client_Reach\<close> (reachable states with any order of operations and rounds of the
    background task), \<open>Client_Wire\<close>, \<open>Client_Exchange\<close> and \<open>Client_Session\<close> (whole
    exchanges with the server over a network that delivers bytes in order),
    \<open>Client_Deliver\<close> (which handlers run). The locale \<open>handler_map\<close> of \<open>Handler_Table\<close>
    is the contract of the table. \<open>Bench\<close> is a concrete platform.
  \<^item> The C++ client: \<open>Cpp_Frame\<close> (frame conditions), \<open>Cpp_Session\<close> (the message in
    flight survives failures), \<open>Cpp_Qos2\<close> (delivery exactly once, from the locale
    \<open>msgid_set\<close>), \<open>Cpp_Table\<close> (the handler table), \<open>Cpp_Reach\<close> (reachable states).
    \<open>Cpp_Bench\<close> is a concrete environment.
  \<^item> The platform: \<open>FreeRTOS_Net\<close> (timers are deadlines, reading takes a prefix of the
    stream), \<open>FreeRTOS_Connect\<close> (resources of a connection on every exit).
  \<^item> The network classes: \<open>Lwip_Owner\<close> (a \<open>TCPClient\<close> owns exactly its descriptor),
    \<open>Tls_Names\<close> (name matching and fingerprints against their specification),
    \<open>Tls_Verify\<close> (a connection reported as open was verified, from a log of the calls
    of the TLS library), \<open>Ftp_Lines\<close> (lines and replies on the byte stream), and
    \<open>Ftp_Transfer\<close> (a download from a server, end to end).
  \<^item> HTTP: \<open>Http_Serve\<close> (the connection and one block of a body), \<open>Http_Chunks\<close> (a chunked
    body), \<open>Http_Response\<close> and \<open>Http_Exchange\<close> (the header of a response),
    \<open>Http_Get\<close> (a whole GET request and its body), \<open>Http_Upload\<close> (an upload from memory and
    one from a stream do the same), \<open>Http_Url\<close> (URLs and added headers),
    \<open>Http_Errors\<close> (after an error the connection is down), \<open>Http_Tls\<close> (\<open>HTTPClient\<close> over
    the modelled \<open>TCPClientSecure\<close>).
  \<^item> \<open>Ppp_Adapter\<close>: the adapter frees only control blocks it owns. \<open>Linux_Stack\<close> and
    \<open>Arduino_Stack\<close>: timers as deadlines, and where the clock of 32 bits breaks them.
  \<^item> The samples: \<open>Serial_Line\<close> (a packet reaches the line whole and once, and the simulated
    line is a line that works), \<open>Serial_Runs\<close> (what \<open>pub0sub1_nb\<close> sends in every reachable
    configuration), \<open>Serial_Types\<close> (the loop of \<open>ping_nb\<close> is well typed),
    \<open>Serial_Liveness\<close> (every message is answered), \<open>Socket_Runs\<close> (\<open>qos0pub\<close>, and what the
    transport reports), \<open>Cpp_Samples\<close> (the command line of \<open>stdoutsub\<close> is read back).

  The theorems of kind \<open>error\<close> pin down defects of the code on the inputs that show
  them.

  \<^bold>\<open>Not modelled.\<close> \<open>StackTrace.h\<close> (its macros expand to nothing in the build), the debug
  callback of mbedTLS (not compiled), the tests, and \<open>main.cpp\<close> of the Linux samples: it
  passes pointers where \<open>connect\<close> and \<open>publish\<close> of the client take references, so it does
  not compile against this client, and no build file names it. What the samples print is
  modelled only for the messages of \<open>stdoutsub\<close>. Of the headers, the declarations of what
  the theories define have no counterpart of their own. Concurrency inside an operation of
  the C client does not occur: with \<open>MQTT_TASK\<close> every operation holds the mutex. The
  status of PPP is reported by another task; what is reported during a call is part of its
  result in the model.

  \<^bold>\<open>Limits.\<close> \<open>HTTPClient\<close> runs over the modelled \<open>TCPClientSecure\<close> in \<open>Http_Tls\<close> only;
  elsewhere the methods behind its pointer, like the sockets under \<open>TCPClient\<close>, are
  parameters with contracts. The end-to-end theorems assume a transport that works: bytes
  arrive in order and calls end; failures are covered by the theorems of kind safety,
  invariant and error, which hold for any transport.
\<close>

end
